(* ===== verification/Prelude.thy ===== *)
theory Prelude
  imports Main "HOL-Library.List_Lexorder" "HOL-Library.Char_ord" "HOL-Library.Multiset"
begin

section \<open>Shared vocabulary of the development\<close>

text \<open>
  What every component theory uses: Python text as a list of characters with the order of
  \<open>sorted\<close>, the regular expressions of the identifier fields as executable predicates, guards
  (a condition and the message of the \<open>raise\<close> it protects) with the two ways the code
  runs them, dictionaries built by comprehension, and the automation the proofs share.

  A character is a code point below 256. Every pattern of the modelled fields is ASCII, so a text
  with a larger code point is refused by the code and has no counterpart here.
\<close>

named_theorems guard_simps \<open>what it means that a list of guards lets a value through\<close>
named_theorems dict_simps \<open>lookups in dictionaries built by comprehension\<close>

subsection \<open>Text patterns\<close>

type_synonym str = string

definition is_lower :: "char \<Rightarrow> bool" where
  "is_lower c \<longleftrightarrow> (let n = of_char c :: nat in 97 \<le> n \<and> n \<le> 122)"

definition is_upper :: "char \<Rightarrow> bool" where
  "is_upper c \<longleftrightarrow> (let n = of_char c :: nat in 65 \<le> n \<and> n \<le> 90)"

definition is_digit :: "char \<Rightarrow> bool" where
  "is_digit c \<longleftrightarrow> (let n = of_char c :: nat in 48 \<le> n \<and> n \<le> 57)"

definition is_space :: "char \<Rightarrow> bool" where
  \<comment> \<open>white space of Python's \<open>re\<close> on text, for code points below 256\<close>
  "is_space c \<longleftrightarrow>
     (let n = of_char c :: nat in
      (9 \<le> n \<and> n \<le> 13) \<or> (28 \<le> n \<and> n \<le> 32) \<or> n = 133 \<or> n = 160)"

definition lower_char :: "char \<Rightarrow> char" where
  "lower_char c = (if is_upper c then char_of (of_char c + (32 :: nat)) else c)"

text \<open>One leading character, then at most \<open>n\<close> characters of a class.\<close>

fun headed :: "(char \<Rightarrow> bool) \<Rightarrow> (char \<Rightarrow> bool) \<Rightarrow> nat \<Rightarrow> str \<Rightarrow> bool" where
  "headed p q n [] = False"
| "headed p q n (c # cs) = (p c \<and> length cs \<le> n \<and> list_all q cs)"

lemma headed_nonempty [simp]: "headed p q n s \<Longrightarrow> s \<noteq> []"
  by (cases s) auto

lemma headed_length: "headed p q n s \<Longrightarrow> length s \<le> Suc n"
  by (cases s) auto

lemma headed_set:
  assumes "headed p q n s" and "c \<in> set s"
  shows "p c \<or> q c"
  using assms by (cases s) (auto simp: list_all_iff)

text \<open>Text that is a run of exactly \<open>n\<close> lower case hexadecimal digits.\<close>

definition is_hex :: "char \<Rightarrow> bool" where
  "is_hex c \<longleftrightarrow> is_digit c \<or> (let n = of_char c :: nat in 97 \<le> n \<and> n \<le> 102)"

definition hex_text :: "nat \<Rightarrow> str \<Rightarrow> bool" where
  "hex_text n s \<longleftrightarrow> length s = n \<and> list_all is_hex s"

text \<open>The same classes read off the bits of a character, for evaluation.\<close>

lemma is_lower_bits [code]: "is_lower (Char b0 b1 b2 b3 b4 b5 b6 b7) \<longleftrightarrow>
    \<not> b7 \<and> b6 \<and> b5 \<and> (b0 \<or> b1 \<or> b2 \<or> b3 \<or> b4) \<and> \<not> (b4 \<and> b3 \<and> (b2 \<or> b1 \<and> b0))"
  by (cases b0; cases b1; cases b2; cases b3; cases b4) (simp_all add: is_lower_def Let_def)

lemma is_upper_bits [code]: "is_upper (Char b0 b1 b2 b3 b4 b5 b6 b7) \<longleftrightarrow>
    \<not> b7 \<and> b6 \<and> \<not> b5 \<and> (b0 \<or> b1 \<or> b2 \<or> b3 \<or> b4) \<and> \<not> (b4 \<and> b3 \<and> (b2 \<or> b1 \<and> b0))"
  by (cases b0; cases b1; cases b2; cases b3; cases b4) (simp_all add: is_upper_def Let_def)

lemma is_digit_bits [code]: "is_digit (Char b0 b1 b2 b3 b4 b5 b6 b7) \<longleftrightarrow>
    \<not> b7 \<and> \<not> b6 \<and> b5 \<and> b4 \<and> \<not> (b3 \<and> (b2 \<or> b1))"
  by (cases b0; cases b1; cases b2; cases b3; cases b4) (simp_all add: is_digit_def Let_def)

lemma is_space_bits [code]: "is_space (Char b0 b1 b2 b3 b4 b5 b6 b7) \<longleftrightarrow>
    \<not> b7 \<and> \<not> b6 \<and> \<not> b5 \<and> (if b4 then b3 \<and> b2 else b3 \<and> (b0 \<or> b1 \<or> b2) \<and> \<not> (b2 \<and> b1)) \<or>
    \<not> b6 \<and> \<not> b4 \<and> \<not> b3 \<and> \<not> b1 \<and> (if b7 then (if b5 then \<not> b2 \<and> \<not> b0 else b2 \<and> b0) else b5 \<and> \<not> b2 \<and> \<not> b0)"
  by (cases b0; cases b1; cases b2; cases b3; cases b4) (simp_all add: is_space_def Let_def)

lemma is_hex_bits [code]: "is_hex (Char b0 b1 b2 b3 b4 b5 b6 b7) \<longleftrightarrow>
    \<not> b7 \<and> b5 \<and> (if b6 then \<not> b4 \<and> \<not> b3 \<and> (b0 \<or> b1 \<or> b2) \<and> \<not> (b0 \<and> b1 \<and> b2) else b4 \<and> \<not> (b3 \<and> (b2 \<or> b1)))"
  by (cases b0; cases b1; cases b2; cases b3; cases b4) (simp_all add: is_hex_def is_digit_def Let_def)

lemma hex_text_take: "hex_text n s \<Longrightarrow> k \<le> n \<Longrightarrow> hex_text k (take k s)"
  unfolding hex_text_def list_all_iff by (auto dest: in_set_takeD)

text \<open>Does some position of the text start with something the matcher accepts (\<open>re.search\<close>)?\<close>

fun search :: "(str \<Rightarrow> bool) \<Rightarrow> str \<Rightarrow> bool" where
  "search m [] = m []"
| "search m (c # cs) = (m (c # cs) \<or> search m cs)"

text \<open>The rest of the text after a literal prefix, letters compared in lower case.\<close>

fun after_prefix :: "str \<Rightarrow> str \<Rightarrow> str option" where
  "after_prefix [] s = Some s"
| "after_prefix (p # ps) [] = None"
| "after_prefix (p # ps) (c # cs) = (if lower_char c = p then after_prefix ps cs else None)"

lemma search_iff: "search m s \<longleftrightarrow> (\<exists>i \<le> length s. m (drop i s))"
proof (induction s)
  case (Cons c cs)
  have "(\<exists>i \<le> length (c # cs). m (drop i (c # cs))) \<longleftrightarrow> m (c # cs) \<or> (\<exists>i \<le> length cs. m (drop i cs))"
    by (metis Suc_le_mono drop0 drop_Suc_Cons length_Cons not0_implies_Suc zero_le)
  with Cons show ?case by simp
qed simp

lemma after_prefix_set: "after_prefix p s = Some r \<Longrightarrow> set r \<subseteq> set s"
  by (induction p s rule: after_prefix.induct) (auto split: if_splits)

subsection \<open>Guards\<close>

text \<open>
  A guard is the condition of an \<open>if\<close> whose body raises, with the message raised. A validator
  that raises at the first failing \<open>if\<close> runs its guards with \<open>first_error\<close>; the fields of
  a data class are all checked and their messages collected, which is \<open>violations\<close>.
\<close>

type_synonym guard = "bool \<times> str"

fun first_error :: "guard list \<Rightarrow> str option" where
  "first_error [] = None"
| "first_error ((b, m) # gs) = (if b then Some m else first_error gs)"

fun violations :: "guard list \<Rightarrow> str list" where
  "violations [] = []"
| "violations ((b, m) # gs) = (if b then m # violations gs else violations gs)"

definition option_list :: "'a option \<Rightarrow> 'a list" where
  "option_list m = (case m of None \<Rightarrow> [] | Some x \<Rightarrow> [x])"

text \<open>What a guarded computation returns: the messages of its error, or its value.\<close>

type_synonym 'a checked = "str list + 'a"

definition checked :: "str list \<Rightarrow> 'a \<Rightarrow> 'a checked" where
  "checked es x = (if es = [] then Inr x else Inl es)"

lemma first_error_None [guard_simps]:
  "first_error gs = None \<longleftrightarrow> (\<forall>g \<in> set gs. \<not> fst g)"
  by (induction gs rule: first_error.induct) auto

lemma first_error_Some:
  "first_error gs = Some m \<Longrightarrow> (\<exists>i < length gs. gs ! i = (True, m) \<and> (\<forall>j < i. \<not> fst (gs ! j)))"
proof (induction gs rule: first_error.induct)
  case (2 b m' gs)
  show ?case
  proof (cases b)
    case True
    with 2 show ?thesis by (intro exI [of _ 0]) auto
  next
    case False
    with 2 obtain i where i: "i < length gs" "gs ! i = (True, m)" "\<forall>j < i. \<not> fst (gs ! j)"
      by auto
    with False show ?thesis
      by (intro exI [of _ "Suc i"]) (auto simp: nth_Cons split: nat.split)
  qed
qed simp

lemma first_error_append [simp]:
  "first_error (xs @ ys) = (case first_error xs of None \<Rightarrow> first_error ys | Some m \<Rightarrow> Some m)"
  by (induction xs rule: first_error.induct) auto

lemma first_error_concat:
  "first_error (concat (map f xs)) = Some m \<Longrightarrow> \<exists>x \<in> set xs. first_error (f x) = Some m"
  by (induction xs) (auto split: option.splits)

lemma first_error_message: "first_error gs = Some m \<Longrightarrow> m \<in> snd ` set gs"
  by (induction gs rule: first_error.induct) (auto split: if_splits)

lemma violations_Nil [guard_simps]:
  "violations gs = [] \<longleftrightarrow> (\<forall>g \<in> set gs. \<not> fst g)"
  by (induction gs rule: violations.induct) auto

lemma ball_concat_map: "(\<forall>g \<in> set (concat (map f xs)). P g) \<longleftrightarrow> (\<forall>x \<in> set xs. \<forall>g \<in> set (f x). P g)"
  by auto

lemma concat_map_Nil [guard_simps]: "concat (map f xs) = [] \<longleftrightarrow> (\<forall>x \<in> set xs. f x = [])"
  by auto

text \<open>Objects built one after the other: the errors of the first one that is refused.\<close>

fun first_failure :: "str list list \<Rightarrow> str list" where
  "first_failure [] = []"
| "first_failure (es # ess) = (if es = [] then first_failure ess else es)"

lemma first_failure_Nil [guard_simps]: "first_failure ess = [] \<longleftrightarrow> (\<forall>es \<in> set ess. es = [])"
  by (induction ess) auto

lemma option_list_Nil [guard_simps]: "option_list m = [] \<longleftrightarrow> m = None"
  by (simp add: option_list_def split: option.split)

lemma option_list_simps [simp]: "option_list None = []" "option_list (Some x) = [x]"
  by (simp_all add: option_list_def)

lemma checked_Inr [guard_simps]: "checked es x = Inr y \<longleftrightarrow> es = [] \<and> y = x"
  by (auto simp: checked_def)

lemma checked_Inl [guard_simps]: "checked es x = Inl es' \<longleftrightarrow> es \<noteq> [] \<and> es' = es"
  by (auto simp: checked_def)

text \<open>Computations that may be refused, one after the other and over a list.\<close>

definition andthen :: "'a checked \<Rightarrow> ('a \<Rightarrow> 'b checked) \<Rightarrow> 'b checked" where
  "andthen m f = (case m of Inl es \<Rightarrow> Inl es | Inr x \<Rightarrow> f x)"

fun traverse :: "('a \<Rightarrow> 'b checked) \<Rightarrow> 'a list \<Rightarrow> 'b list checked" where
  "traverse f [] = Inr []"
| "traverse f (x # xs) = andthen (f x) (\<lambda>y. andthen (traverse f xs) (\<lambda>ys. Inr (y # ys)))"

lemma andthen_simps [simp]: "andthen (Inl es) f = Inl es" "andthen (Inr x) f = f x"
  by (simp_all add: andthen_def)

lemma andthen_Inr [simp]: "andthen m f = Inr z \<longleftrightarrow> (\<exists>x. m = Inr x \<and> f x = Inr z)"
  by (cases m) auto

lemma traverse_Inr: "traverse f xs = Inr ys \<longleftrightarrow> list_all2 (\<lambda>x y. f x = Inr y) xs ys"
  by (induction xs arbitrary: ys) (auto simp: list_all2_Cons1)

lemma traverse_total: "(\<And>x. x \<in> set xs \<Longrightarrow> \<exists>y. f x = Inr y) \<Longrightarrow> \<exists>ys. traverse f xs = Inr ys"
proof (induction xs)
  case (Cons x xs)
  then obtain y ys where "f x = Inr y" "traverse f xs = Inr ys" by fastforce
  then show ?case by simp
qed simp

lemma traverse_set:
  assumes "traverse f xs = Inr ys" and "y \<in> set ys"
  shows "\<exists>x \<in> set xs. f x = Inr y"
  using assms by (induction xs arbitrary: ys) auto

lemma traverse_member:
  assumes "traverse f xs = Inr ys" and "x \<in> set xs"
  shows "\<exists>y \<in> set ys. f x = Inr y"
  using assms by (induction xs arbitrary: ys) auto

lemma traverse_length: "traverse f xs = Inr ys \<Longrightarrow> length ys = length xs"
  unfolding traverse_Inr by (simp add: list_all2_lengthD)

text \<open>A dictionary subscript \<open>d[k]\<close>, and \<open>next(x for x in xs if p(x))\<close>.\<close>

definition lookup :: "('k \<rightharpoonup> 'v) \<Rightarrow> 'k \<Rightarrow> 'v checked" where
  "lookup d k = (case d k of None \<Rightarrow> Inl [''KeyError''] | Some v \<Rightarrow> Inr v)"

fun next_item :: "('a \<Rightarrow> bool) \<Rightarrow> 'a list \<Rightarrow> 'a checked" where
  "next_item p [] = Inl [''StopIteration'']"
| "next_item p (x # xs) = (if p x then Inr x else next_item p xs)"

lemma lookup_Inr [simp]: "lookup d k = Inr v \<longleftrightarrow> d k = Some v"
  by (simp add: lookup_def split: option.split)

lemma next_item_Inr: "next_item p xs = Inr x \<Longrightarrow> x \<in> set xs \<and> p x"
  by (induction xs) (auto split: if_splits)

lemma next_item_total: "\<exists>x \<in> set xs. p x \<Longrightarrow> \<exists>x. next_item p xs = Inr x"
  by (induction xs) auto

subsection \<open>Dictionaries by comprehension, and unique sorted tuples\<close>

text \<open>
  \<open>dict_of k xs\<close> is \<open>{k(x): x for x in xs}\<close>: a later item replaces an earlier one with its
  key. \<open>dict_keys\<close> lists the keys in the order of their first insertion, which is the order a
  Python dictionary iterates in.
\<close>

definition dict_of :: "('a \<Rightarrow> 'k) \<Rightarrow> 'a list \<Rightarrow> 'k \<rightharpoonup> 'a" where
  "dict_of k xs = map_of (rev (map (\<lambda>x. (k x, x)) xs))"

definition uniq :: "'a list \<Rightarrow> 'a list" where
  \<comment> \<open>the distinct items, in the order of their first occurrence\<close>
  "uniq xs = rev (remdups (rev xs))"

definition dict_keys :: "('a \<Rightarrow> 'k) \<Rightarrow> 'a list \<Rightarrow> 'k list" where
  "dict_keys k xs = uniq (map k xs)"

definition has_duplicates :: "'a list \<Rightarrow> bool" where
  \<comment> \<open>\<open>len(set(xs)) != len(xs)\<close>\<close>
  "has_duplicates xs \<longleftrightarrow> length (remdups xs) \<noteq> length xs"

lemma has_duplicates_iff [guard_simps]: "has_duplicates xs \<longleftrightarrow> \<not> distinct xs"
  unfolding has_duplicates_def length_remdups_card_conv by (metis card_distinct distinct_card)

lemma dict_of_Nil [simp]: "dict_of k [] = Map.empty"
  by (simp add: dict_of_def)

lemma dict_of_snoc: "dict_of k (xs @ [x]) = (dict_of k xs)(k x \<mapsto> x)"
  by (simp add: dict_of_def)

lemma dict_of_Some: "dict_of k xs i = Some x \<Longrightarrow> x \<in> set xs \<and> k x = i"
  by (auto simp: dict_of_def dest!: map_of_SomeD)

lemma dom_dict_of [dict_simps]: "dom (dict_of k xs) = k ` set xs"
  by (simp add: dict_of_def dom_map_of_conv_image_fst image_image)

lemma dict_of_None [dict_simps]: "dict_of k xs i = None \<longleftrightarrow> i \<notin> k ` set xs"
  by (metis domIff dom_dict_of)

lemma dict_of_member: "i \<in> k ` set xs \<Longrightarrow> \<exists>x. dict_of k xs i = Some x \<and> x \<in> set xs \<and> k x = i"
  by (metis dict_of_None dict_of_Some option.exhaust)

lemma dict_of_distinct:
  assumes "distinct (map k xs)" and "x \<in> set xs"
  shows "dict_of k xs (k x) = Some x"
proof -
  obtain y where "dict_of k xs (k x) = Some y" "y \<in> set xs" "k y = k x"
    using dict_of_member [of "k x" k xs] assms(2) by auto
  with assms show ?thesis by (auto simp: distinct_map dest: inj_onD)
qed

lemma dict_of_perm:
  assumes "distinct (map k xs)" and "mset ys = mset xs"
  shows "dict_of k ys = dict_of k xs"
proof
  fix i
  have s: "set ys = set xs" using assms(2) by (metis set_mset_mset)
  have d: "distinct (map k ys)"
    using assms by (metis mset_eq_imp_distinct_iff mset_map)
  show "dict_of k ys i = dict_of k xs i"
  proof (cases "i \<in> k ` set xs")
    case True
    then obtain x where "x \<in> set xs" "k x = i" by auto
    with dict_of_distinct [OF assms(1), of x] dict_of_distinct [OF d, of x] s show ?thesis by simp
  next
    case False
    with s show ?thesis by (metis dict_of_None)
  qed
qed

text \<open>Sorting by a key that is unique does not depend on the order of the items.\<close>

lemma sort_key_perm:
  assumes "distinct (map k xs)" and "mset ys = mset xs"
  shows "sort_key k ys = sort_key k xs"
proof (rule properties_for_sort_key)
  show "mset (sort_key k xs) = mset ys" using assms(2) by simp
  show "sorted (map k (sort_key k xs))" by simp
  fix x assume "x \<in> set (sort_key k xs)"
  then have x: "x \<in> set xs" by simp
  have one: "filter (\<lambda>y. k x = k y) zs = [x]" if "mset zs = mset xs" for zs
  proof -
    have "mset (filter (\<lambda>y. k x = k y) zs) = mset (filter (\<lambda>y. k x = k y) xs)"
      using that by simp
    also have "filter (\<lambda>y. k x = k y) xs = [x]"
      using assms(1) x
    proof (induction xs)
      case (Cons a xs)
      show ?case
      proof (cases "x = a")
        case True
        with Cons.prems(1) have "\<forall>y \<in> set xs. k x \<noteq> k y" by auto
        with True show ?thesis by (simp add: filter_empty_conv)
      next
        case False
        with Cons.prems have "x \<in> set xs" "k x \<noteq> k a" by (auto simp: image_iff)
        with Cons False show ?thesis by simp
      qed
    qed simp
    finally show ?thesis by (simp only: mset.simps mset_single_iff)
  qed
  show "filter (\<lambda>y. k x = k y) (sort_key k xs) = filter (\<lambda>y. k x = k y) ys"
    using assms(2) by (simp add: one)
qed

lemma distinct_sort_key [simp]: "distinct (map k (sort_key f xs)) = distinct (map k xs)"
  by (simp add: distinct_map)

lemma set_uniq [simp]: "set (uniq xs) = set xs"
  by (simp add: uniq_def)

lemma distinct_uniq [simp]: "distinct (uniq xs)"
  by (simp add: uniq_def)

lemma uniq_distinct [simp]: "distinct xs \<Longrightarrow> uniq xs = xs"
  by (simp add: uniq_def distinct_remdups_id)

lemma set_dict_keys [simp]: "set (dict_keys k xs) = k ` set xs"
  by (simp add: dict_keys_def)

lemma distinct_dict_keys [simp]: "distinct (dict_keys k xs)"
  by (simp add: dict_keys_def)

lemma length_dict_keys [guard_simps]:
  "length (dict_keys k xs) = length xs \<longleftrightarrow> distinct (map k xs)"
proof -
  have "length (dict_keys k xs) = card (set (map k xs))"
    by (simp add: dict_keys_def uniq_def length_remdups_card_conv)
  then show ?thesis
    by (metis card_distinct distinct_card length_map)
qed

text \<open>
  \<open>any(p(d[k]) for k in ks)\<close>: the items are looked up until one satisfies \<open>p\<close>;
  \<open>None\<close> is the \<open>KeyError\<close> of a missing key met on the way.
\<close>

fun any_item :: "('k \<rightharpoonup> 'v) \<Rightarrow> ('v \<Rightarrow> bool) \<Rightarrow> 'k list \<Rightarrow> bool option" where
  "any_item d p [] = Some False"
| "any_item d p (k # ks) =
     (case d k of None \<Rightarrow> None | Some v \<Rightarrow> if p v then Some True else any_item d p ks)"

lemma any_item_total:
  "\<forall>k \<in> set ks. d k \<noteq> None \<Longrightarrow> any_item d p ks = Some (\<exists>k \<in> set ks. \<exists>v. d k = Some v \<and> p v)"
  by (induction ks) (auto split: option.split)

text \<open>
  A scan that stores each key's last value and stops when a key comes back with another value.
\<close>

fun conflict_scan :: "('k \<rightharpoonup> 'v) \<Rightarrow> ('k \<times> 'v) list \<Rightarrow> bool" where
  "conflict_scan seen [] = False"
| "conflict_scan seen ((k, v) # kvs) =
     ((case seen k of None \<Rightarrow> False | Some w \<Rightarrow> w \<noteq> v) \<or> conflict_scan (seen(k \<mapsto> v)) kvs)"

definition single_valued_list :: "('k \<times> 'v) list \<Rightarrow> bool" where
  "single_valued_list kvs \<longleftrightarrow> (\<forall>k v w. (k, v) \<in> set kvs \<longrightarrow> (k, w) \<in> set kvs \<longrightarrow> v = w)"

lemma single_valued_list_map:
  "single_valued_list (map (\<lambda>x. (f x, g x)) xs) \<longleftrightarrow> (\<forall>x \<in> set xs. \<forall>y \<in> set xs. f x = f y \<longrightarrow> g x = g y)"
  unfolding single_valued_list_def by auto

lemma conflict_scan_from:
  "\<not> conflict_scan seen kvs \<longleftrightarrow>
     single_valued_list kvs \<and> (\<forall>k v w. (k, v) \<in> set kvs \<longrightarrow> seen k = Some w \<longrightarrow> w = v)"
proof (induction kvs arbitrary: seen)
  case (Cons kv kvs)
  obtain k v where kv: "kv = (k, v)" by (cases kv)
  have upd: "(\<forall>k' v' w. (k', v') \<in> set kvs \<longrightarrow> (seen(k \<mapsto> v)) k' = Some w \<longrightarrow> w = v') \<longleftrightarrow>
      (\<forall>v'. (k, v') \<in> set kvs \<longrightarrow> v = v') \<and>
      (\<forall>k' v' w. k' \<noteq> k \<longrightarrow> (k', v') \<in> set kvs \<longrightarrow> seen k' = Some w \<longrightarrow> w = v')"
    by (auto split: if_splits)
  have sv: "single_valued_list (kv # kvs) \<longleftrightarrow> single_valued_list kvs \<and> (\<forall>v'. (k, v') \<in> set kvs \<longrightarrow> v = v')"
    unfolding single_valued_list_def kv by auto
  have "\<not> conflict_scan seen (kv # kvs) \<longleftrightarrow>
      (\<forall>w. seen k = Some w \<longrightarrow> w = v) \<and> single_valued_list kvs \<and> (\<forall>v'. (k, v') \<in> set kvs \<longrightarrow> v = v') \<and>
      (\<forall>k' v' w. k' \<noteq> k \<longrightarrow> (k', v') \<in> set kvs \<longrightarrow> seen k' = Some w \<longrightarrow> w = v')"
  proof -
    have "\<not> conflict_scan seen (kv # kvs) \<longleftrightarrow>
        (\<forall>w. seen k = Some w \<longrightarrow> w = v) \<and> \<not> conflict_scan (seen(k \<mapsto> v)) kvs"
      by (simp add: kv split: option.split)
    then show ?thesis unfolding Cons upd by blast
  qed
  also have "\<dots> \<longleftrightarrow> single_valued_list (kv # kvs) \<and>
      (\<forall>k' v' w. (k', v') \<in> set (kv # kvs) \<longrightarrow> seen k' = Some w \<longrightarrow> w = v')"
    unfolding sv unfolding kv by (rule iffI; clarsimp; metis)
  finally show ?case .
qed (simp add: single_valued_list_def)

lemma conflict_scan_iff: "conflict_scan Map.empty kvs \<longleftrightarrow> \<not> single_valued_list kvs"
  using conflict_scan_from [of Map.empty kvs] by auto

text \<open>\<open>any\<close> over a value that may be missing, and a pattern every present value satisfies.\<close>

definition given :: "('a \<Rightarrow> bool) \<Rightarrow> 'a option \<Rightarrow> bool" where
  "given p m \<longleftrightarrow> (case m of None \<Rightarrow> False | Some x \<Rightarrow> p x)"

definition absent_or :: "('a \<Rightarrow> bool) \<Rightarrow> 'a option \<Rightarrow> bool" where
  "absent_or p m \<longleftrightarrow> (case m of None \<Rightarrow> True | Some x \<Rightarrow> p x)"

lemma given_simps [simp]: "\<not> given p None" "given p (Some x) = p x"
  by (simp_all add: given_def)

lemma absent_or_simps [simp]: "absent_or p None" "absent_or p (Some x) = p x"
  by (simp_all add: absent_or_def)

lemma sort_unique_eq: "set (sort xs) = set xs" "distinct (sort xs) = distinct xs" "sorted (sort xs)"
  by simp_all

end
