(* ===== verification/PermissionModels.thy ===== *)
theory PermissionModels
  imports Prelude
begin

section \<open>Permission relations, effects and rules\<close>

text \<open>
  Models \<^verbatim>\<open>product/backend/domain/verification/permissions/models.py\<close> and the two
  enumerations of \<^verbatim>\<open>boundaries/semantics.py\<close>: the data classes of a permission contract, the
  patterns and validators of their fields, and the normal form a validator leaves behind.

  A data class \<open>X\<close> has a record, \<open>x_errors\<close> (the messages its fields and its
  \<open>mode="after"\<close> validator raise, empty when it is accepted) and, where a validator replaces a
  field, \<open>x_norm\<close> (the object the caller gets). The field messages are collected in field order;
  the model validator only runs when every field is accepted, as in pydantic.
\<close>

subsection \<open>Enumerations\<close>

datatype permission_expectation = ALLOW | DENY

datatype effect_kind =
    STATE_MUTATION
  | DATA_DISCLOSURE
  | FILE_CONTENT_DELIVERY
  | OBJECT_CREATION
  | EXTERNAL_DISPATCH
  | RESTRICTED_FUNCTION_INVOCATION
  | CREDENTIAL_ACCESS

datatype relation_type = OWNS | MEMBER_OF | SAME_TENANT | SAME_DEPARTMENT | MANAGES | PARENT_OF | INHERITS

datatype coverage_dimension = ROLE | TENANT | DEPARTMENT | RELATION | WORKFLOW | BULK

datatype batch_authorization_mode = ALL_ALLOW | ALL_DENY | MIXED_AUTHORIZATION

datatype severity = Low | Medium | High | Critical

datatype endpoint_type = Subject | Resource

fun expectation_value :: "permission_expectation \<Rightarrow> str" where
  "expectation_value ALLOW = ''ALLOW''"
| "expectation_value DENY = ''DENY''"

fun effect_kind_value :: "effect_kind \<Rightarrow> str" where
  "effect_kind_value STATE_MUTATION = ''STATE_MUTATION''"
| "effect_kind_value DATA_DISCLOSURE = ''DATA_DISCLOSURE''"
| "effect_kind_value FILE_CONTENT_DELIVERY = ''FILE_CONTENT_DELIVERY''"
| "effect_kind_value OBJECT_CREATION = ''OBJECT_CREATION''"
| "effect_kind_value EXTERNAL_DISPATCH = ''EXTERNAL_DISPATCH''"
| "effect_kind_value RESTRICTED_FUNCTION_INVOCATION = ''RESTRICTED_FUNCTION_INVOCATION''"
| "effect_kind_value CREDENTIAL_ACCESS = ''CREDENTIAL_ACCESS''"

fun relation_type_value :: "relation_type \<Rightarrow> str" where
  "relation_type_value OWNS = ''OWNS''"
| "relation_type_value MEMBER_OF = ''MEMBER_OF''"
| "relation_type_value SAME_TENANT = ''SAME_TENANT''"
| "relation_type_value SAME_DEPARTMENT = ''SAME_DEPARTMENT''"
| "relation_type_value MANAGES = ''MANAGES''"
| "relation_type_value PARENT_OF = ''PARENT_OF''"
| "relation_type_value INHERITS = ''INHERITS''"

fun dimension_value :: "coverage_dimension \<Rightarrow> str" where
  "dimension_value ROLE = ''ROLE''"
| "dimension_value TENANT = ''TENANT''"
| "dimension_value DEPARTMENT = ''DEPARTMENT''"
| "dimension_value RELATION = ''RELATION''"
| "dimension_value WORKFLOW = ''WORKFLOW''"
| "dimension_value BULK = ''BULK''"

fun batch_mode_value :: "batch_authorization_mode \<Rightarrow> str" where
  "batch_mode_value ALL_ALLOW = ''ALL_ALLOW''"
| "batch_mode_value ALL_DENY = ''ALL_DENY''"
| "batch_mode_value MIXED_AUTHORIZATION = ''MIXED_AUTHORIZATION''"

fun severity_value :: "severity \<Rightarrow> str" where
  "severity_value Low = ''low''"
| "severity_value Medium = ''medium''"
| "severity_value High = ''high''"
| "severity_value Critical = ''critical''"

fun endpoint_type_value :: "endpoint_type \<Rightarrow> str" where
  "endpoint_type_value Subject = ''subject''"
| "endpoint_type_value Resource = ''resource''"

lemma dimension_value_inj [simp]: "dimension_value a = dimension_value b \<longleftrightarrow> a = b"
  by (cases a; cases b) auto

lemma relation_type_value_inj [simp]: "relation_type_value a = relation_type_value b \<longleftrightarrow> a = b"
  by (cases a; cases b) auto

lemma expectation_value_inj [simp]: "expectation_value a = expectation_value b \<longleftrightarrow> a = b"
  by (cases a; cases b) auto

subsection \<open>Field patterns and the refusal of secrets and links\<close>

definition intent_id :: "str \<Rightarrow> bool" where
  "intent_id = headed is_lower (\<lambda>c. is_lower c \<or> is_digit c \<or> c \<in> set ''_-'') 63"

definition intent_text :: "str \<Rightarrow> bool" where
  "intent_text = headed is_lower (\<lambda>c. is_lower c \<or> is_digit c \<or> c \<in> set ''_.:-'') 127"

definition workflow_state_id :: "str \<Rightarrow> bool" where
  "workflow_state_id =
     headed (\<lambda>c. is_lower c \<or> is_upper c)
       (\<lambda>c. is_lower c \<or> is_upper c \<or> is_digit c \<or> c \<in> set ''_-'') 63"

definition projection_path :: "str \<Rightarrow> bool" where
  "projection_path =
     headed (\<lambda>c. is_lower c \<or> is_upper c)
       (\<lambda>c. is_lower c \<or> is_upper c \<or> is_digit c \<or> c \<in> set ''_.-'') 127"

text \<open>\<open>\s*[:=]\<close>: white space, then a colon or an equals sign.\<close>

definition assigns :: "str \<Rightarrow> bool" where
  "assigns s = (case dropWhile is_space s of [] \<Rightarrow> False | c # _ \<Rightarrow> c \<in> set '':='')"

definition follows :: "str \<Rightarrow> (str \<Rightarrow> bool) \<Rightarrow> str \<Rightarrow> bool" where
  "follows p m s = given m (after_prefix p s)"

definition secret_or_url_here :: "str \<Rightarrow> bool" where
  "secret_or_url_here s \<longleftrightarrow>
     follows ''http://'' (\<lambda>_. True) s \<or> follows ''https://'' (\<lambda>_. True) s \<or>
     follows ''javascript:'' (\<lambda>_. True) s \<or> follows ''data:'' (\<lambda>_. True) s \<or>
     follows ''bearer'' (\<lambda>r. case r of [] \<Rightarrow> False | c # _ \<Rightarrow> is_space c) s \<or>
     follows ''authorization'' assigns s \<or>
     list_ex (\<lambda>w. follows w assigns s)
       [''password'', ''passwd'', ''secret'', ''token'', ''apikey'', ''api_key'', ''api-key'']"

definition secret_or_url :: "str \<Rightarrow> bool" where
  "secret_or_url = search secret_or_url_here"

definition validate_intent_text :: "str \<Rightarrow> str \<Rightarrow> guard list" where
  "validate_intent_text v field =
     [(secret_or_url v, field @ '' contains a forbidden secret, URL, or script'')]"

definition sorted_unique_values :: "str list \<Rightarrow> str \<Rightarrow> guard list \<times> str list" where
  "sorted_unique_values vs field = ([(has_duplicates vs, field @ '' must be unique'')], sort vs)"

text \<open>
  The constraints a field declares come first (\<open>Field(pattern=..., min_length=..., max_length=...)\<close>),
  its validators after them; the first that fails is the field's message.
\<close>

definition pattern_guard :: "str \<Rightarrow> (str \<Rightarrow> bool) \<Rightarrow> str \<Rightarrow> guard" where
  "pattern_guard field p v = (\<not> p v, field @ '': string_pattern_mismatch'')"

definition size_guards :: "str \<Rightarrow> nat \<Rightarrow> nat \<Rightarrow> 'a list \<Rightarrow> guard list" where
  "size_guards field lo hi xs =
     [(length xs < lo, field @ '': too_short''), (hi < length xs, field @ '': too_long'')]"

definition field_error :: "guard list \<Rightarrow> str list" where
  "field_error gs = option_list (first_error gs)"

definition id_field :: "str \<Rightarrow> str \<Rightarrow> str list" where
  "id_field field v = field_error (pattern_guard field intent_id v # validate_intent_text v field)"

definition text_field :: "str \<Rightarrow> (str \<Rightarrow> bool) \<Rightarrow> str \<Rightarrow> str list" where
  "text_field field p v = field_error (pattern_guard field p v # validate_intent_text v field)"

definition plain_id_field :: "str \<Rightarrow> str \<Rightarrow> str list" where
  \<comment> \<open>a field with the identifier pattern and no further validator\<close>
  "plain_id_field field v = field_error [pattern_guard field intent_id v]"

definition optional_field :: "('a \<Rightarrow> str list) \<Rightarrow> 'a option \<Rightarrow> str list" where
  "optional_field f m = (case m of None \<Rightarrow> [] | Some v \<Rightarrow> f v)"

text \<open>A tuple of identifiers: its size, the pattern of its items, then uniqueness.\<close>

definition tuple_field :: "str \<Rightarrow> nat \<Rightarrow> nat \<Rightarrow> (str \<Rightarrow> bool) \<Rightarrow> str \<Rightarrow> str list \<Rightarrow> str list" where
  "tuple_field field lo hi p msg vs =
     field_error (size_guards field lo hi vs @ [(list_ex (\<lambda>v. \<not> p v) vs, msg)]
       @ fst (sorted_unique_values vs field))"

definition after_fields :: "str list \<Rightarrow> guard list \<Rightarrow> str list" where
  \<comment> \<open>a \<open>mode="after"\<close> validator runs on an object whose fields are accepted\<close>
  "after_fields es gs = (if es = [] then field_error gs else es)"

lemma field_error_Nil [guard_simps]: "field_error gs = [] \<longleftrightarrow> (\<forall>g \<in> set gs. \<not> fst g)"
  by (simp add: field_error_def guard_simps)

lemma after_fields_Nil [guard_simps]:
  "after_fields es gs = [] \<longleftrightarrow> es = [] \<and> (\<forall>g \<in> set gs. \<not> fst g)"
  by (simp add: after_fields_def guard_simps)

lemma pattern_guard_fst [guard_simps]: "fst (pattern_guard field p v) \<longleftrightarrow> \<not> p v"
  by (simp add: pattern_guard_def)

lemma size_guards_ok [guard_simps]:
  "(\<forall>g \<in> set (size_guards field lo hi xs). \<not> fst g) \<longleftrightarrow> lo \<le> length xs \<and> length xs \<le> hi"
  by (auto simp: size_guards_def)

lemma validate_intent_text_ok [guard_simps]:
  "(\<forall>g \<in> set (validate_intent_text v field). \<not> fst g) \<longleftrightarrow> \<not> secret_or_url v"
  by (simp add: validate_intent_text_def)

lemma sorted_unique_values_snd [simp]: "snd (sorted_unique_values vs field) = sort vs"
  by (simp add: sorted_unique_values_def)

lemma sorted_unique_values_ok [guard_simps]:
  "(\<forall>g \<in> set (fst (sorted_unique_values vs field)). \<not> fst g) \<longleftrightarrow> distinct vs"
  by (simp add: sorted_unique_values_def guard_simps)

lemma tuple_field_Nil [guard_simps]:
  "tuple_field field lo hi p msg vs = [] \<longleftrightarrow>
     lo \<le> length vs \<and> length vs \<le> hi \<and> (\<forall>v \<in> set vs. p v) \<and> distinct vs"
  by (simp add: tuple_field_def field_error_Nil ball_Un size_guards_ok sorted_unique_values_ok list_ex_iff)
    blast

lemma optional_field_Nil [guard_simps]:
  "optional_field f m = [] \<longleftrightarrow> (\<forall>v. m = Some v \<longrightarrow> f v = [])"
  by (simp add: optional_field_def split: option.split)

lemma tuple_field_sort [simp]:
  "tuple_field field lo hi p msg (sort vs) = [] \<longleftrightarrow> tuple_field field lo hi p msg vs = []"
  by (simp add: tuple_field_Nil)

subsection \<open>No identifier holds a secret or a link\<close>

text \<open>
  Every alternative of the refused text contains a colon, an equals sign or white space. An
  identifier contains none of them, so the extra validator only ever bites on text fields.
\<close>

definition inert_char :: "char \<Rightarrow> bool" where
  "inert_char c \<longleftrightarrow> c \<noteq> CHR '':'' \<and> c \<noteq> CHR ''='' \<and> \<not> is_space c"

lemma after_prefix_Some_lower:
  "after_prefix p s = Some r \<Longrightarrow> map lower_char (take (length p) s) = p \<and> r = drop (length p) s"
  by (induction p s rule: after_prefix.induct) (auto split: if_splits)

lemma lower_char_colon: "lower_char c = CHR '':'' \<Longrightarrow> c = CHR '':''"
proof (cases "is_upper c")
  case True
  assume a: "lower_char c = CHR '':''"
  have "of_char (lower_char c) = (of_char c + 32 :: nat)"
    using True by (simp add: lower_char_def is_upper_def Let_def)
  with a True show ?thesis by (simp add: is_upper_def Let_def)
qed (simp add: lower_char_def)

lemma inert_after_prefix_colon:
  assumes "\<forall>c \<in> set s. inert_char c" and "CHR '':'' \<in> set p"
  shows "after_prefix p s = None"
proof (rule ccontr)
  assume "after_prefix p s \<noteq> None"
  then obtain n where n: "map lower_char (take n s) = p"
    using after_prefix_Some_lower by blast
  from assms(2) have "CHR '':'' \<in> lower_char ` set (take n s)"
    unfolding n [symmetric] by simp
  then obtain c where c: "c \<in> set s" "CHR '':'' = lower_char c"
    by (auto dest: in_set_takeD)
  with lower_char_colon have "c = CHR '':''" by metis
  with c(1) assms(1) show False by (auto simp: inert_char_def)
qed

lemma inert_not_assigns: "\<forall>c \<in> set s. inert_char c \<Longrightarrow> \<not> assigns s"
  by (cases s) (auto simp: assigns_def inert_char_def)

lemma inert_not_follows:
  assumes "\<forall>c \<in> set s. inert_char c" and "\<And>r. \<forall>c \<in> set r. inert_char c \<Longrightarrow> \<not> m r"
  shows "\<not> follows p m s"
proof (cases "after_prefix p s")
  case (Some r)
  with assms(1) have "\<forall>c \<in> set r. inert_char c"
    using after_prefix_set by blast
  with Some assms(2) show ?thesis by (simp add: follows_def)
qed (simp add: follows_def)

lemma inert_not_here: "\<forall>c \<in> set s. inert_char c \<Longrightarrow> \<not> secret_or_url_here s"
proof -
  assume a: "\<forall>c \<in> set s. inert_char c"
  have link: "\<not> follows p m s" if "CHR '':'' \<in> set p" for p m
    using inert_after_prefix_colon [OF a that] by (simp add: follows_def)
  have rest: "\<not> follows p assigns s" for p
    using inert_not_follows [OF a] inert_not_assigns by blast
  have sp: "\<not> follows p (\<lambda>r. case r of [] \<Rightarrow> False | c # _ \<Rightarrow> is_space c) s" for p
    by (rule inert_not_follows [OF a]) (auto simp: inert_char_def split: list.splits)
  show ?thesis
    unfolding secret_or_url_here_def by (simp add: rest sp link)
qed

lemma inert_not_secret: "\<forall>c \<in> set s. inert_char c \<Longrightarrow> \<not> secret_or_url s"
  unfolding secret_or_url_def search_iff using inert_not_here by (meson in_set_dropD)

lemma word_char_inert:
  "is_lower c \<or> is_upper c \<or> is_digit c \<or> c \<in> set ''_-'' \<Longrightarrow> inert_char c"
  by (auto simp: inert_char_def is_lower_def is_upper_def is_digit_def is_space_def Let_def)

lemma intent_id_inert: "intent_id s \<Longrightarrow> \<forall>c \<in> set s. inert_char c"
  unfolding intent_id_def by (auto dest!: headed_set intro!: word_char_inert)

lemma workflow_state_inert: "workflow_state_id s \<Longrightarrow> \<forall>c \<in> set s. inert_char c"
  unfolding workflow_state_id_def by (auto dest!: headed_set intro!: word_char_inert)

lemma id_field_Nil [guard_simps]: "id_field field v = [] \<longleftrightarrow> intent_id v"
  by (auto simp: id_field_def guard_simps intent_id_inert inert_not_secret)

lemma plain_id_field_Nil [guard_simps]: "plain_id_field field v = [] \<longleftrightarrow> intent_id v"
  by (simp add: plain_id_field_def guard_simps)

lemma text_field_Nil [guard_simps]: "text_field field p v = [] \<longleftrightarrow> p v \<and> \<not> secret_or_url v"
  by (auto simp: text_field_def guard_simps)

subsection \<open>The data classes\<close>

record effect_definition =
  effect_id :: str
  effect_kind :: effect_kind
  effect_resource_type :: str
  expected_state :: "str option"
  protected_fields :: "str list"

definition effect_errors :: "effect_definition \<Rightarrow> str list" where
  "effect_errors e = after_fields
     (id_field ''effect_id'' (effect_id e)
      @ text_field ''resource_type'' intent_text (effect_resource_type e)
      @ optional_field (text_field ''expected_state'' workflow_state_id) (expected_state e)
      @ tuple_field ''protected_fields'' 0 64 projection_path
          ''protected_fields must contain bounded projection paths'' (protected_fields e))
     [(effect_kind e = DATA_DISCLOSURE \<and> protected_fields e = [],
         ''DATA_DISCLOSURE requires protected_fields''),
      (effect_kind e \<noteq> DATA_DISCLOSURE \<and> protected_fields e \<noteq> [],
         ''protected_fields are only valid for DATA_DISCLOSURE'')]"

definition effect_norm :: "effect_definition \<Rightarrow> effect_definition" where
  "effect_norm e = e\<lparr>protected_fields := sort (protected_fields e)\<rparr>"

record workflow_transition =
  allowed_from_states :: "str list"
  target_state :: str

definition transition_errors :: "workflow_transition \<Rightarrow> str list" where
  "transition_errors t =
     tuple_field ''allowed_from_states'' 1 32 workflow_state_id
       ''allowed_from_states must contain bounded IDs'' (allowed_from_states t)
     @ field_error [pattern_guard ''target_state'' workflow_state_id (target_state t)]"

definition transition_norm :: "workflow_transition \<Rightarrow> workflow_transition" where
  "transition_norm t = t\<lparr>allowed_from_states := sort (allowed_from_states t)\<rparr>"

record subject_definition =
  subject_id :: str
  subject_roles :: "str list"
  subject_tenant :: "str option"
  subject_department :: "str option"
  admin_level :: int
  parent_subject_id :: "str option"

definition subject_errors :: "subject_definition \<Rightarrow> str list" where
  "subject_errors s =
     id_field ''subject_id'' (subject_id s)
     @ tuple_field ''roles'' 1 64 intent_text ''roles must be bounded slugs'' (subject_roles s)
     @ optional_field (id_field ''tenant_id'') (subject_tenant s)
     @ optional_field (id_field ''department_id'') (subject_department s)
     @ field_error [(admin_level s < 0, ''admin_level: greater_than_equal''),
                    (100 < admin_level s, ''admin_level: less_than_equal'')]
     @ optional_field (id_field ''parent_subject_id'') (parent_subject_id s)"

definition subject_norm :: "subject_definition \<Rightarrow> subject_definition" where
  "subject_norm s = s\<lparr>subject_roles := sort (subject_roles s)\<rparr>"

record action_definition =
  action_id :: str
  action_effect_ids :: "str list"
  is_batch :: bool
  action_transition :: "workflow_transition option"

definition action_errors :: "action_definition \<Rightarrow> str list" where
  "action_errors a =
     id_field ''action_id'' (action_id a)
     @ tuple_field ''effect_ids'' 1 64 intent_id ''effect_ids must contain bounded IDs'' (action_effect_ids a)
     @ optional_field transition_errors (action_transition a)"

definition action_norm :: "action_definition \<Rightarrow> action_definition" where
  "action_norm a = a\<lparr>action_effect_ids := sort (action_effect_ids a),
                     action_transition := map_option transition_norm (action_transition a)\<rparr>"

record resource_definition =
  resource_id :: str
  resource_type :: str
  resource_tenant :: "str option"
  resource_department :: "str option"
  owner_subject_id :: "str option"
  parent_resource_id :: "str option"
  resource_workflow_state :: str

definition resource_errors :: "resource_definition \<Rightarrow> str list" where
  "resource_errors r =
     id_field ''resource_id'' (resource_id r)
     @ text_field ''resource_type'' intent_text (resource_type r)
     @ optional_field (id_field ''tenant_id'') (resource_tenant r)
     @ optional_field (id_field ''department_id'') (resource_department r)
     @ optional_field (id_field ''owner_subject_id'') (owner_subject_id r)
     @ optional_field (id_field ''parent_resource_id'') (parent_resource_id r)
     @ text_field ''workflow_state'' workflow_state_id (resource_workflow_state r)"

record relation_endpoint =
  endpoint_type :: endpoint_type
  endpoint_id :: str

definition endpoint_errors :: "relation_endpoint \<Rightarrow> str list" where
  "endpoint_errors p = id_field ''endpoint_id'' (endpoint_id p)"

record relation_fact =
  relation_id :: str
  relation_kind :: relation_type
  relation_source :: relation_endpoint
  relation_target :: relation_endpoint

definition relation_errors :: "relation_fact \<Rightarrow> str list" where
  "relation_errors r =
     id_field ''relation_id'' (relation_id r)
     @ endpoint_errors (relation_source r) @ endpoint_errors (relation_target r)"

record permission_context =
  context_workflow_states :: "str list"
  context_tenant_ids :: "str list"
  context_department_ids :: "str list"
  context_resource_ids :: "str list"

definition context_errors :: "permission_context \<Rightarrow> str list" where
  "context_errors c =
     tuple_field ''workflow_states'' 0 64 workflow_state_id
       ''workflow_states must contain bounded IDs'' (context_workflow_states c)
     @ tuple_field ''tenant_ids'' 0 64 intent_id
         ''tenant_ids must contain bounded IDs'' (context_tenant_ids c)
     @ tuple_field ''department_ids'' 0 64 intent_id
         ''department_ids must contain bounded IDs'' (context_department_ids c)
     @ tuple_field ''resource_ids'' 0 256 intent_id
         ''resource_ids must contain bounded IDs'' (context_resource_ids c)"

definition context_norm :: "permission_context \<Rightarrow> permission_context" where
  "context_norm c =
     \<lparr>context_workflow_states = sort (context_workflow_states c),
      context_tenant_ids = sort (context_tenant_ids c),
      context_department_ids = sort (context_department_ids c),
      context_resource_ids = sort (context_resource_ids c)\<rparr>"

definition empty_context :: permission_context where
  "empty_context = \<lparr>context_workflow_states = [], context_tenant_ids = [],
     context_department_ids = [], context_resource_ids = []\<rparr>"

subsection \<open>Rules\<close>

definition observations_field :: "str list \<Rightarrow> str list" where
  "observations_field vs =
     tuple_field ''required_observations'' 1 16 intent_text
       ''required_observations must contain bounded requirement IDs'' vs"

definition sort_dimensions :: "coverage_dimension list \<Rightarrow> coverage_dimension list" where
  "sort_dimensions ds = sort_key dimension_value ds"

record permission_rule =
  rule_id :: str
  rule_subject_id :: str
  rule_action_id :: str
  rule_resource_id :: str
  rule_relation_path :: "str list"
  rule_context :: permission_context
  rule_expectation :: permission_expectation
  rule_observations :: "str list"
  rule_dimensions :: "coverage_dimension list"
  rule_severity :: severity

definition rule_errors :: "permission_rule \<Rightarrow> str list" where
  "rule_errors r =
     id_field ''rule_id'' (rule_id r)
     @ id_field ''subject_id'' (rule_subject_id r)
     @ id_field ''action_id'' (rule_action_id r)
     @ id_field ''resource_id'' (rule_resource_id r)
     @ field_error (size_guards ''relation_path'' 1 64 (rule_relation_path r)
         @ [(list_ex (\<lambda>v. \<not> intent_id v) (rule_relation_path r),
             ''relation_path must contain relation IDs'')])
     @ context_errors (rule_context r)
     @ observations_field (rule_observations r)
     @ field_error (size_guards ''coverage_dimensions'' 0 6 (rule_dimensions r)
         @ [(has_duplicates (rule_dimensions r), ''coverage_dimensions must be unique''),
            (BULK \<in> set (rule_dimensions r), ''BULK coverage requires a batch rule'')])"

definition rule_norm :: "permission_rule \<Rightarrow> permission_rule" where
  "rule_norm r = r\<lparr>rule_context := context_norm (rule_context r),
                   rule_observations := sort (rule_observations r),
                   rule_dimensions := sort_dimensions (rule_dimensions r)\<rparr>"

record batch_resource_expectation =
  batch_resource_id :: str
  batch_expectation :: permission_expectation
  batch_relation_path :: "str list"

definition batch_item_errors :: "batch_resource_expectation \<Rightarrow> str list" where
  "batch_item_errors b =
     plain_id_field ''resource_id'' (batch_resource_id b)
     @ field_error (size_guards ''relation_path'' 0 64 (batch_relation_path b)
         @ [(list_ex (\<lambda>v. \<not> intent_id v) (batch_relation_path b),
             ''batch relation_path must contain relation IDs''),
            (has_duplicates (batch_relation_path b),
             ''batch relation_path must not repeat relations'')])"

record batch_permission_rule =
  batch_rule_id :: str
  batch_subject_id :: str
  batch_action_id :: str
  batch_items :: "batch_resource_expectation list"
  batch_observations :: "str list"
  batch_context :: permission_context
  batch_atomic :: bool
  batch_dimensions :: "coverage_dimension list"
  batch_severity :: severity

definition batch_rule_errors :: "batch_permission_rule \<Rightarrow> str list" where
  "batch_rule_errors r = after_fields
     (plain_id_field ''rule_id'' (batch_rule_id r)
      @ plain_id_field ''subject_id'' (batch_subject_id r)
      @ plain_id_field ''action_id'' (batch_action_id r)
      @ field_error (size_guards ''resource_expectations'' 2 256 (batch_items r))
      @ concat (map batch_item_errors (batch_items r))
      @ observations_field (batch_observations r)
      @ context_errors (batch_context r)
      @ field_error (size_guards ''coverage_dimensions'' 1 6 (batch_dimensions r)
          @ [(has_duplicates (batch_dimensions r), ''coverage_dimensions must be unique'')]))
     [(BULK \<notin> set (batch_dimensions r), ''batch rule coverage_dimensions must include BULK'')]"

definition batch_rule_norm :: "batch_permission_rule \<Rightarrow> batch_permission_rule" where
  "batch_rule_norm r =
     r\<lparr>batch_items := sort_key batch_resource_id (batch_items r),
       batch_observations := sort (batch_observations r),
       batch_context := context_norm (batch_context r),
       batch_dimensions := sort_dimensions (batch_dimensions r)\<rparr>"

lemmas model_error_defs =
  effect_errors_def transition_errors_def subject_errors_def action_errors_def
  resource_errors_def endpoint_errors_def relation_errors_def context_errors_def
  observations_field_def rule_errors_def batch_item_errors_def batch_rule_errors_def

lemmas model_norm_defs =
  effect_norm_def transition_norm_def subject_norm_def action_norm_def context_norm_def
  rule_norm_def batch_rule_norm_def sort_dimensions_def

subsection \<open>Normal forms are accepted and stable\<close>

lemma sort_Nil_iff [simp]: "sort xs = [] \<longleftrightarrow> xs = []"
  by (metis length_0_conv length_sort)

lemma effect_norm_ok [simp]: "effect_errors (effect_norm e) = [] \<longleftrightarrow> effect_errors e = []"
  by (simp add: effect_errors_def effect_norm_def guard_simps)

lemma transition_norm_ok [simp]:
  "transition_errors (transition_norm t) = [] \<longleftrightarrow> transition_errors t = []"
  by (simp add: transition_errors_def transition_norm_def)

lemma subject_norm_ok [simp]: "subject_errors (subject_norm s) = [] \<longleftrightarrow> subject_errors s = []"
  by (simp add: subject_errors_def subject_norm_def)

lemma action_norm_ok [simp]: "action_errors (action_norm a) = [] \<longleftrightarrow> action_errors a = []"
  by (cases "action_transition a") (simp_all add: action_errors_def action_norm_def optional_field_def)

lemma context_norm_ok [simp]: "context_errors (context_norm c) = [] \<longleftrightarrow> context_errors c = []"
  by (simp add: context_errors_def context_norm_def)

lemma rule_norm_ok [simp]: "rule_errors (rule_norm r) = [] \<longleftrightarrow> rule_errors r = []"
  by (simp add: rule_errors_def rule_norm_def observations_field_def sort_dimensions_def guard_simps ball_Un)

lemma batch_rule_norm_ok [simp]:
  "batch_rule_errors (batch_rule_norm r) = [] \<longleftrightarrow> batch_rule_errors r = []"
  by (simp add: batch_rule_errors_def batch_rule_norm_def observations_field_def sort_dimensions_def
      guard_simps ball_Un)

lemma norm_idem [simp]:
  "effect_norm (effect_norm e) = effect_norm e"
  "transition_norm (transition_norm t) = transition_norm t"
  "subject_norm (subject_norm s) = subject_norm s"
  "context_norm (context_norm c) = context_norm c"
  "rule_norm (rule_norm r) = rule_norm r"
  "batch_rule_norm (batch_rule_norm b) = batch_rule_norm b"
  by (simp_all add: model_norm_defs sort_key_id_if_sorted)

lemma action_norm_idem [simp]: "action_norm (action_norm a) = action_norm a"
  by (cases "action_transition a") (simp_all add: action_norm_def sort_key_id_if_sorted)

lemma norm_fields [simp]:
  "effect_id (effect_norm e) = effect_id e" "effect_kind (effect_norm e) = effect_kind e"
  "subject_id (subject_norm s) = subject_id s" "action_id (action_norm a) = action_id a"
  "rule_id (rule_norm r) = rule_id r" "batch_rule_id (batch_rule_norm b) = batch_rule_id b"
  by (simp_all add: model_norm_defs)

end
