(* ===== verification/RelationGraph.thy ===== *)
theory RelationGraph
  imports PermissionModels
begin

section \<open>The cycle check of the declared graphs\<close>

text \<open>
  Models \<^verbatim>\<open>reject_cycles\<close> of \<^verbatim>\<open>PermissionContract._validate_graphs\<close>
  (\<^verbatim>\<open>verification/permissions/contract.py\<close>): a depth first visit that raises when it meets a
  node it is still visiting. A graph is the list of its nodes with their children, in the order the
  dictionary iterates; the theorem holds for every order of nodes and children, which a Python set
  of children does not fix. \<open>None\<close> is the raised \<open>ValueError\<close>.
\<close>

type_synonym 'n graph = "('n \<times> 'n list) list"

function visit :: "'n graph \<Rightarrow> 'n set \<Rightarrow> 'n set \<Rightarrow> 'n \<Rightarrow> 'n set option"
  and visit_all :: "'n graph \<Rightarrow> 'n set \<Rightarrow> 'n set \<Rightarrow> 'n list \<Rightarrow> 'n set option"
where
  "visit g visiting visited node =
     (if node \<in> visiting then None
      else if node \<in> visited then Some visited
      else case map_of g node of
          None \<Rightarrow> Some (insert node visited)
        | Some children \<Rightarrow>
            map_option (insert node) (visit_all g (insert node visiting) visited children))"
| "visit_all g visiting visited [] = Some visited"
| "visit_all g visiting visited (child # children) =
     (case visit g visiting visited child of
        None \<Rightarrow> None
      | Some visited' \<Rightarrow> visit_all g visiting visited' children)"
  by pat_completeness auto
termination
proof (relation "inv_image (less_than <*lex*> less_than)
    (\<lambda>x. case x of Inl (g, visiting, _, _) \<Rightarrow> (card (fst ` set g - visiting), 0)
                 | Inr (g, visiting, _, ns) \<Rightarrow> (card (fst ` set g - visiting), Suc (length ns)))",
    goal_cases)
  case (2 g visiting visited node children)
  then have "node \<in> fst ` set g - visiting"
    by (auto dest!: map_of_SomeD intro: rev_image_eqI)
  then have "card (fst ` set g - insert node visiting) < card (fst ` set g - visiting)"
    by (intro psubset_card_mono) auto
  then show ?case by simp
qed auto

declare visit.simps [simp del]

definition reject_cycles :: "'n graph \<Rightarrow> bool" where
  \<comment> \<open>the check raises\<close>
  "reject_cycles g \<longleftrightarrow> visit_all g {} {} (map fst g) = None"

definition edges :: "'n graph \<Rightarrow> ('n \<times> 'n) set" where
  "edges g = {(a, b). \<exists>children. map_of g a = Some children \<and> b \<in> set children}"

subsection \<open>What the visit returns\<close>

text \<open>
  A node enters \<open>visited\<close> after its children did, so \<open>visited\<close> is closed under edges, holds
  no node of a cycle, and never meets the nodes being visited.
\<close>

definition settled :: "'n graph \<Rightarrow> 'n set \<Rightarrow> bool" where
  "settled g vs \<longleftrightarrow> edges g `` vs \<subseteq> vs \<and> (\<forall>n \<in> vs. (n, n) \<notin> (edges g)\<^sup>+)"

lemma settled_reach:
  assumes "settled g vs" and "(a, b) \<in> (edges g)\<^sup>*" and "a \<in> vs"
  shows "b \<in> vs"
  using assms(2,3)
proof (induction rule: rtrancl_induct)
  case (step y z)
  with assms(1) show ?case by (auto simp: settled_def)
qed

lemma settled_insert:
  assumes vs: "settled g vs" and out: "n \<notin> vs" and children: "edges g `` {n} \<subseteq> vs"
  shows "settled g (insert n vs)"
proof -
  have "(n, n) \<notin> (edges g)\<^sup>+"
  proof
    assume "(n, n) \<in> (edges g)\<^sup>+"
    then obtain c where "(n, c) \<in> edges g" "(c, n) \<in> (edges g)\<^sup>*"
      by (meson tranclD)
    with children settled_reach [OF vs] have "n \<in> vs" by blast
    with out show False by contradiction
  qed
  with vs children show ?thesis by (auto simp: settled_def)
qed

lemma visit_settled:
  "visit g visiting visited n = Some vs \<Longrightarrow> settled g visited \<Longrightarrow> visited \<inter> visiting = {} \<Longrightarrow>
     settled g vs \<and> vs \<inter> visiting = {} \<and> insert n visited \<subseteq> vs"
  "visit_all g visiting visited ns = Some vs \<Longrightarrow> settled g visited \<Longrightarrow> visited \<inter> visiting = {} \<Longrightarrow>
     settled g vs \<and> vs \<inter> visiting = {} \<and> set ns \<union> visited \<subseteq> vs"
proof (induction g visiting visited n and g visiting visited ns arbitrary: vs and vs
    rule: visit_visit_all.induct)
  case (1 g visiting visited node)
  show ?case
  proof (cases "node \<in> visited")
    case True
    with "1.prems" show ?thesis by (auto simp: visit.simps [of g] split: if_splits)
  next
    case new: False
    from "1.prems"(1) have fresh: "node \<notin> visiting" by (auto simp: visit.simps [of g] split: if_splits)
    show ?thesis
    proof (cases "map_of g node")
      case None
      with "1.prems" new fresh show ?thesis
        using settled_insert [of g visited node] by (auto simp: visit.simps [of g] edges_def)
    next
      case (Some children)
      with "1.prems"(1) new fresh obtain vs' where
        vs': "visit_all g (insert node visiting) visited children = Some vs'" "vs = insert node vs'"
        by (auto simp: visit.simps [of g])
      from "1.IH" [OF fresh new Some vs'(1)] "1.prems"(2,3) new
      have ih: "settled g vs'" "vs' \<inter> insert node visiting = {}" "set children \<union> visited \<subseteq> vs'"
        by auto
      with Some settled_insert [of g vs' node] have "settled g vs"
        by (auto simp: vs'(2) edges_def)
      with ih fresh show ?thesis by (auto simp: vs'(2))
    qed
  qed
next
  case (3 g visiting visited child children)
  from "3.prems"(1) obtain vs' where
    vs': "visit g visiting visited child = Some vs'" "visit_all g visiting vs' children = Some vs"
    by (auto split: option.splits)
  from "3.IH"(1) [OF vs'(1)] "3.prems"(2,3)
  have a: "settled g vs'" "vs' \<inter> visiting = {}" "insert child visited \<subseteq> vs'" by auto
  from "3.IH"(2) [OF vs'(1) vs'(2) a(1,2)] a show ?case by auto
qed auto

text \<open>
  When the visit raises, the node met again is being visited, and every node being visited
  reaches the node whose children are looked at.
\<close>

lemma visit_cycle:
  "visit g visiting visited n = None \<Longrightarrow> \<forall>m \<in> visiting. (m, n) \<in> (edges g)\<^sup>+ \<Longrightarrow>
     \<exists>m. (m, m) \<in> (edges g)\<^sup>+"
  "visit_all g visiting visited ns = None \<Longrightarrow>
     \<forall>n \<in> set ns. \<forall>m \<in> visiting. (m, n) \<in> (edges g)\<^sup>+ \<Longrightarrow> \<exists>m. (m, m) \<in> (edges g)\<^sup>+"
proof (induction g visiting visited n and g visiting visited ns rule: visit_visit_all.induct)
  case (1 g visiting visited node)
  show ?case
  proof (cases "node \<in> visiting")
    case True
    with "1.prems"(2) show ?thesis by blast
  next
    case fresh: False
    with "1.prems"(1) obtain children where
      new: "node \<notin> visited" and some: "map_of g node = Some children" and
      rec: "visit_all g (insert node visiting) visited children = None"
      by (auto simp: visit.simps [of g] split: if_splits option.splits)
    have "(m, c) \<in> (edges g)\<^sup>+" if "c \<in> set children" "m \<in> insert node visiting" for c m
    proof -
      have e: "(node, c) \<in> edges g" using some that(1) by (auto simp: edges_def)
      from that(2) consider "m = node" | "(m, node) \<in> (edges g)\<^sup>+"
        using "1.prems"(2) by blast
      then show ?thesis using e by cases (auto intro: trancl_into_trancl)
    qed
    then show ?thesis using "1.IH" [OF fresh new some rec] by blast
  qed
next
  case (3 g visiting visited child children)
  then show ?case by (auto split: option.splits)
qed auto

text \<open>The check raises exactly when the graph has a cycle.\<close>

lemma reject_cycles_iff: "reject_cycles g \<longleftrightarrow> (\<exists>n. (n, n) \<in> (edges g)\<^sup>+)"
proof
  assume "reject_cycles g"
  then show "\<exists>n. (n, n) \<in> (edges g)\<^sup>+"
    using visit_cycle(2) [of g "{}" "{}" "map fst g"] by (auto simp: reject_cycles_def)
next
  assume "\<exists>n. (n, n) \<in> (edges g)\<^sup>+"
  then obtain n where n: "(n, n) \<in> (edges g)\<^sup>+" ..
  show "reject_cycles g"
  proof (rule ccontr)
    assume "\<not> reject_cycles g"
    then obtain vs where "visit_all g {} {} (map fst g) = Some vs"
      by (auto simp: reject_cycles_def)
    from visit_settled(2) [OF this] have vs: "settled g vs" "fst ` set g \<subseteq> vs"
      by (auto simp: settled_def)
    from n obtain c where "(n, c) \<in> edges g" by (meson tranclD)
    then have "n \<in> fst ` set g" by (auto simp: edges_def dest!: map_of_SomeD intro: rev_image_eqI)
    with vs n show False by (auto simp: settled_def)
  qed
qed

end
