(* ===== verification/Canonical.thy ===== *)
theory Canonical
  imports PermissionModels
begin

section \<open>Canonical JSON and the digest interface\<close>

text \<open>
  Models \<^verbatim>\<open>_jsonable\<close>, \<^verbatim>\<open>canonical_json_bytes\<close> and \<^verbatim>\<open>permission_model_sha256\<close> of
  \<^verbatim>\<open>verification/permissions/contract.py\<close>. A value is a \<open>json\<close> tree (\<open>JNum\<close> is a
  floating point number given by its text); \<open>render\<close> is
  \<open>json.dumps\<close> with \<open>sort_keys=True\<close>, \<open>separators=(",", ":")\<close> and
  \<open>ensure_ascii=False\<close>; \<open>utf8\<close> encodes the result. The texts of the documents that are hashed have
  characters below 256 here; JsonReader has the encoder over all code points, and JsonProperties shows
  (\<open>encode_widened\<close>) that \<open>canonical_json_bytes\<close> is its restriction to these texts. The digest is a parameter \<open>sha\<close> of
  every definition that hashes, with the locale \<open>digest\<close> as its contract.
\<close>

datatype json =
    JNull
  | JBool bool
  | JInt int
  | JNum str
  | JStr str
  | JArr "json list"
  | JObj "(str \<times> json) list"

subsection \<open>Rendering\<close>

fun digit_char :: "nat \<Rightarrow> char" where
  "digit_char n = char_of (48 + n)"

fun nat_text :: "nat \<Rightarrow> str" where
  "nat_text n = (if n < 10 then [digit_char n] else nat_text (n div 10) @ [digit_char (n mod 10)])"

declare nat_text.simps [simp del]

definition int_text :: "int \<Rightarrow> str" where
  "int_text i = (if i < 0 then CHR ''-'' # nat_text (nat (- i)) else nat_text (nat i))"

definition hex_char :: "nat \<Rightarrow> char" where
  "hex_char n = (if n < 10 then char_of (48 + n) else char_of (87 + n))"

definition backslash :: char where "backslash = CHR 0x5C"

definition quote_mark :: char where "quote_mark = CHR 0x22"

definition escape_char :: "char \<Rightarrow> str" where
  "escape_char c =
     (let n = of_char c :: nat in
      if n = 34 then [backslash, quote_mark]
      else if n = 92 then [backslash, backslash]
      else if n = 8 then [backslash, CHR ''b'']
      else if n = 9 then [backslash, CHR ''t'']
      else if n = 10 then [backslash, CHR ''n'']
      else if n = 12 then [backslash, CHR ''f'']
      else if n = 13 then [backslash, CHR ''r'']
      else if n < 32 then [backslash, CHR ''u'', CHR ''0'', CHR ''0'', hex_char (n div 16), hex_char (n mod 16)]
      else [c])"

definition quote :: "str \<Rightarrow> str" where
  "quote s = quote_mark # concat (map escape_char s) @ [quote_mark]"

fun join :: "str \<Rightarrow> str list \<Rightarrow> str" where
  "join sep [] = []"
| "join sep [s] = s"
| "join sep (s # t # ts) = s @ sep @ join sep (t # ts)"

fun render :: "json \<Rightarrow> str" where
  "render JNull = ''null''"
| "render (JBool b) = (if b then ''true'' else ''false'')"
| "render (JInt i) = int_text i"
| "render (JNum t) = t"
| "render (JStr s) = quote s"
| "render (JArr xs) = ''['' @ join '','' (map render xs) @ '']''"
| "render (JObj kvs) =
     ''{'' @ join '','' (map (\<lambda>(k, t). quote k @ '':'' @ t)
                          (sort_key fst (map (\<lambda>(k, v). (k, render v)) kvs))) @ ''}''"

definition utf8_char :: "char \<Rightarrow> str" where
  "utf8_char c =
     (let n = of_char c :: nat in
      if n < 128 then [c] else [char_of (192 + n div 64), char_of (128 + n mod 64)])"

definition utf8 :: "str \<Rightarrow> str" where
  "utf8 s = concat (map utf8_char s)"

definition canonical_json_bytes :: "json \<Rightarrow> str" where
  "canonical_json_bytes v = utf8 (render v)"

definition permission_model_sha256 :: "(str \<Rightarrow> str) \<Rightarrow> json \<Rightarrow> str" where
  "permission_model_sha256 sha v = sha (canonical_json_bytes v)"

text \<open>What the callers rely on: a digest is 64 lower case hexadecimal digits.\<close>

locale digest =
  fixes sha :: "str \<Rightarrow> str"
  assumes sha_hex: "hex_text 64 (sha b)"
begin

lemma model_digest_hex: "hex_text 64 (permission_model_sha256 sha v)"
  by (simp add: permission_model_sha256_def sha_hex)

lemma short_digest_hex: "hex_text 32 (take 32 (permission_model_sha256 sha v))"
  using hex_text_take [OF model_digest_hex] by simp

end

subsection \<open>Objects as JSON trees\<close>

definition json_option :: "('a \<Rightarrow> json) \<Rightarrow> 'a option \<Rightarrow> json" where
  "json_option f m = (case m of None \<Rightarrow> JNull | Some x \<Rightarrow> f x)"

definition json_strings :: "str list \<Rightarrow> json" where
  "json_strings vs = JArr (map JStr vs)"

definition context_json :: "permission_context \<Rightarrow> json" where
  "context_json c = JObj
     [(''workflow_states'', json_strings (context_workflow_states c)),
      (''tenant_ids'', json_strings (context_tenant_ids c)),
      (''department_ids'', json_strings (context_department_ids c)),
      (''resource_ids'', json_strings (context_resource_ids c))]"

definition rule_json :: "permission_rule \<Rightarrow> json" where
  "rule_json r = JObj
     [(''rule_id'', JStr (rule_id r)),
      (''subject_id'', JStr (rule_subject_id r)),
      (''action_id'', JStr (rule_action_id r)),
      (''resource_id'', JStr (rule_resource_id r)),
      (''relation_path'', json_strings (rule_relation_path r)),
      (''context'', context_json (rule_context r)),
      (''expectation'', JStr (expectation_value (rule_expectation r))),
      (''required_observations'', json_strings (rule_observations r)),
      (''coverage_dimensions'', JArr (map (JStr \<circ> dimension_value) (rule_dimensions r))),
      (''severity'', JStr (severity_value (rule_severity r)))]"

definition batch_item_json :: "batch_resource_expectation \<Rightarrow> json" where
  "batch_item_json b = JObj
     [(''resource_id'', JStr (batch_resource_id b)),
      (''expectation'', JStr (expectation_value (batch_expectation b))),
      (''relation_path'', json_strings (batch_relation_path b))]"

definition batch_rule_json :: "batch_permission_rule \<Rightarrow> json" where
  "batch_rule_json r = JObj
     [(''rule_id'', JStr (batch_rule_id r)),
      (''subject_id'', JStr (batch_subject_id r)),
      (''action_id'', JStr (batch_action_id r)),
      (''resource_expectations'', JArr (map batch_item_json (batch_items r))),
      (''required_observations'', json_strings (batch_observations r)),
      (''context'', context_json (batch_context r)),
      (''atomic'', JBool (batch_atomic r)),
      (''coverage_dimensions'', JArr (map (JStr \<circ> dimension_value) (batch_dimensions r))),
      (''severity'', JStr (severity_value (batch_severity r)))]"

definition subject_json :: "subject_definition \<Rightarrow> json" where
  "subject_json s = JObj
     [(''subject_id'', JStr (subject_id s)),
      (''roles'', json_strings (subject_roles s)),
      (''tenant_id'', json_option JStr (subject_tenant s)),
      (''department_id'', json_option JStr (subject_department s)),
      (''admin_level'', JInt (admin_level s)),
      (''parent_subject_id'', json_option JStr (parent_subject_id s))]"

definition effect_json :: "effect_definition \<Rightarrow> json" where
  "effect_json e = JObj
     [(''effect_id'', JStr (effect_id e)),
      (''kind'', JStr (effect_kind_value (effect_kind e))),
      (''resource_type'', JStr (effect_resource_type e)),
      (''expected_state'', json_option JStr (expected_state e)),
      (''protected_fields'', json_strings (protected_fields e))]"

definition transition_json :: "workflow_transition \<Rightarrow> json" where
  "transition_json t = JObj
     [(''allowed_from_states'', json_strings (allowed_from_states t)),
      (''target_state'', JStr (target_state t))]"

definition action_json :: "action_definition \<Rightarrow> json" where
  "action_json a = JObj
     [(''action_id'', JStr (action_id a)),
      (''effect_ids'', json_strings (action_effect_ids a)),
      (''is_batch'', JBool (is_batch a)),
      (''workflow_transition'', json_option transition_json (action_transition a))]"

definition resource_json :: "resource_definition \<Rightarrow> json" where
  "resource_json r = JObj
     [(''resource_id'', JStr (resource_id r)),
      (''resource_type'', JStr (resource_type r)),
      (''tenant_id'', json_option JStr (resource_tenant r)),
      (''department_id'', json_option JStr (resource_department r)),
      (''owner_subject_id'', json_option JStr (owner_subject_id r)),
      (''parent_resource_id'', json_option JStr (parent_resource_id r)),
      (''workflow_state'', JStr (resource_workflow_state r))]"

definition endpoint_json :: "relation_endpoint \<Rightarrow> json" where
  "endpoint_json p = JObj
     [(''endpoint_type'', JStr (endpoint_type_value (endpoint_type p))),
      (''endpoint_id'', JStr (endpoint_id p))]"

definition relation_json :: "relation_fact \<Rightarrow> json" where
  "relation_json r = JObj
     [(''relation_id'', JStr (relation_id r)),
      (''relation'', JStr (relation_type_value (relation_kind r))),
      (''source'', endpoint_json (relation_source r)),
      (''target'', endpoint_json (relation_target r))]"

end
