(* ===== verification/PermissionContract.thy ===== *)
theory PermissionContract
  imports RelationGraph Canonical
begin

section \<open>The permission contract and its cross references\<close>

text \<open>
  Models \<^verbatim>\<open>PermissionContract\<close> of \<^verbatim>\<open>verification/permissions/contract.py\<close>: the root
  document, the checks of \<^verbatim>\<open>validate_references\<close> in the order the code makes them, and the
  normal form it leaves. Each block of the validator is a list of guards; a dictionary lookup of a
  missing key is the guard \<open>key_error\<close>, which pydantic does not turn into a validation error.
\<close>

record permission_contract =
  contract_id :: str
  contract_version :: int
  role_ids :: "str list"
  workflow_states :: "str list"
  subjects :: "subject_definition list"
  effects :: "effect_definition list"
  actions :: "action_definition list"
  resources :: "resource_definition list"
  relations :: "relation_fact list"
  rules :: "permission_rule list"
  batch_rules :: "batch_permission_rule list"

definition contract_field_errors :: "permission_contract \<Rightarrow> str list" where
  "contract_field_errors c =
     id_field ''contract_id'' (contract_id c)
     @ field_error [(contract_version c < 1, ''version: greater_than_equal''),
                    (2147483647 < contract_version c, ''version: less_than_equal'')]
     @ tuple_field ''role_ids'' 1 128 intent_id ''role_ids must contain bounded IDs'' (role_ids c)
     @ tuple_field ''workflow_states'' 1 128 workflow_state_id
         ''workflow_states must contain bounded IDs'' (workflow_states c)
     @ field_error (size_guards ''subjects'' 1 4096 (subjects c)) @ concat (map subject_errors (subjects c))
     @ field_error (size_guards ''effects'' 1 4096 (effects c)) @ concat (map effect_errors (effects c))
     @ field_error (size_guards ''actions'' 1 4096 (actions c)) @ concat (map action_errors (actions c))
     @ field_error (size_guards ''resources'' 1 4096 (resources c)) @ concat (map resource_errors (resources c))
     @ field_error (size_guards ''relations'' 0 8192 (relations c)) @ concat (map relation_errors (relations c))
     @ field_error (size_guards ''rules'' 1 8192 (rules c)) @ concat (map rule_errors (rules c))
     @ field_error (size_guards ''batch_rules'' 0 2048 (batch_rules c))
     @ concat (map batch_rule_errors (batch_rules c))"

definition contract_field_norm :: "permission_contract \<Rightarrow> permission_contract" where
  \<comment> \<open>the document its fields' validators leave behind\<close>
  "contract_field_norm c = c\<lparr>role_ids := sort (role_ids c), workflow_states := sort (workflow_states c),
     subjects := map subject_norm (subjects c), effects := map effect_norm (effects c),
     actions := map action_norm (actions c), rules := map rule_norm (rules c),
     batch_rules := map batch_rule_norm (batch_rules c)\<rparr>"

subsection \<open>Dictionaries of the declared objects\<close>

abbreviation subject_dict :: "permission_contract \<Rightarrow> str \<rightharpoonup> subject_definition" where
  "subject_dict c \<equiv> dict_of subject_id (subjects c)"

abbreviation effect_dict :: "permission_contract \<Rightarrow> str \<rightharpoonup> effect_definition" where
  "effect_dict c \<equiv> dict_of effect_id (effects c)"

abbreviation action_dict :: "permission_contract \<Rightarrow> str \<rightharpoonup> action_definition" where
  "action_dict c \<equiv> dict_of action_id (actions c)"

abbreviation resource_dict :: "permission_contract \<Rightarrow> str \<rightharpoonup> resource_definition" where
  "resource_dict c \<equiv> dict_of resource_id (resources c)"

abbreviation relation_dict :: "permission_contract \<Rightarrow> str \<rightharpoonup> relation_fact" where
  "relation_dict c \<equiv> dict_of relation_id (relations c)"

definition key_error :: str where "key_error = ''KeyError''"

definition not_in :: "('k \<rightharpoonup> 'v) \<Rightarrow> 'k \<Rightarrow> bool" where
  "not_in d k \<longleftrightarrow> d k = None"

definition given_values :: "('a \<Rightarrow> 'b option) \<Rightarrow> 'a list \<Rightarrow> 'b list" where
  "given_values f xs = concat (map (option_list \<circ> f) xs)"

subsection \<open>Unique identifiers and resolved references\<close>

definition identifier_guards :: "permission_contract \<Rightarrow> guard list" where
  "identifier_guards c =
     (let ss = dict_keys subject_id (subjects c); es = dict_keys effect_id (effects c);
          as = dict_keys action_id (actions c); rs = dict_keys resource_id (resources c);
          ls = dict_keys relation_id (relations c); us = dict_keys rule_id (rules c);
          bs = dict_keys batch_rule_id (batch_rules c)
      in [(has_duplicates (ss @ es @ as @ rs @ ls @ us @ bs @ workflow_states c),
             ''all permission definition IDs must be globally unique''),
          (length ss \<noteq> length (subjects c), ''subject IDs must be unique''),
          (length es \<noteq> length (effects c), ''effect IDs must be unique''),
          (length as \<noteq> length (actions c), ''action IDs must be unique''),
          (\<exists>a \<in> set (actions c). \<exists>e \<in> set (action_effect_ids a). not_in (effect_dict c) e,
             ''action effect reference is invalid''),
          (length rs \<noteq> length (resources c), ''resource IDs must be unique''),
          (length ls \<noteq> length (relations c), ''relation IDs must be unique''),
          (length us \<noteq> length (rules c), ''rule IDs must be unique''),
          (length bs \<noteq> length (batch_rules c), ''batch rule IDs must be unique'')])"

definition declared_tenants :: "permission_contract \<Rightarrow> str list" where
  "declared_tenants c = given_values subject_tenant (subjects c) @ given_values resource_tenant (resources c)"

definition declared_departments :: "permission_contract \<Rightarrow> str list" where
  "declared_departments c =
     given_values subject_department (subjects c) @ given_values resource_department (resources c)"

definition reference_guards :: "permission_contract \<Rightarrow> guard list" where
  "reference_guards c =
     [(\<exists>s \<in> set (subjects c). \<exists>r \<in> set (subject_roles s). r \<notin> set (role_ids c),
         ''subject role must be declared by role_ids''),
      (\<exists>s \<in> set (subjects c). given (not_in (subject_dict c)) (parent_subject_id s),
         ''parent_subject_id must reference a declared subject''),
      (\<exists>r \<in> set (resources c). given (not_in (subject_dict c)) (owner_subject_id r),
         ''owner_subject_id must reference a declared subject''),
      (\<exists>r \<in> set (resources c). given (not_in (resource_dict c)) (parent_resource_id r),
         ''parent_resource_id must reference a declared resource''),
      (\<exists>r \<in> set (rules c). \<exists>s \<in> set (context_workflow_states (rule_context r)). s \<notin> set (workflow_states c),
         ''rule context references an undeclared workflow state''),
      (\<exists>r \<in> set (resources c). resource_workflow_state r \<notin> set (workflow_states c),
         ''resource workflow_state must be declared''),
      (\<exists>r \<in> set (rules c). \<exists>t \<in> set (context_tenant_ids (rule_context r)). t \<notin> set (declared_tenants c),
         ''rule context references an undeclared tenant''),
      (\<exists>r \<in> set (rules c). \<exists>d \<in> set (context_department_ids (rule_context r)). d \<notin> set (declared_departments c),
         ''rule context references an undeclared department''),
      (\<exists>r \<in> set (rules c). \<exists>i \<in> set (context_resource_ids (rule_context r)). not_in (resource_dict c) i,
         ''rule context references an undeclared resource''),
      (\<exists>r \<in> set (rules c). not_in (subject_dict c) (rule_subject_id r), ''rule subject reference is invalid''),
      (\<exists>r \<in> set (rules c). not_in (action_dict c) (rule_action_id r), ''rule action reference is invalid''),
      (\<exists>r \<in> set (rules c). not_in (resource_dict c) (rule_resource_id r), ''rule resource reference is invalid'')]"

definition action_guards :: "permission_contract \<Rightarrow> action_definition \<Rightarrow> guard list" where
  "action_guards c a =
     (case action_transition a of
        None \<Rightarrow> []
      | Some t \<Rightarrow>
          (let mutates = any_item (effect_dict c) (\<lambda>e. effect_kind e = STATE_MUTATION) (action_effect_ids a)
           in [(mutates = None, key_error),
               (mutates = Some False, ''workflow transition requires a STATE_MUTATION effect''),
               (\<exists>s \<in> set (allowed_from_states t). s \<notin> set (workflow_states c),
                  ''workflow transition references an undeclared source state''),
               (target_state t \<notin> set (workflow_states c),
                  ''workflow transition references an undeclared target state'')]))"

subsection \<open>Relations\<close>

fun expected_types :: "relation_type \<Rightarrow> (endpoint_type \<times> endpoint_type) list" where
  "expected_types OWNS = [(Subject, Resource)]"
| "expected_types MEMBER_OF = [(Subject, Resource)]"
| "expected_types SAME_TENANT = [(Subject, Subject), (Subject, Resource), (Resource, Subject), (Resource, Resource)]"
| "expected_types SAME_DEPARTMENT = [(Subject, Subject), (Subject, Resource), (Resource, Subject), (Resource, Resource)]"
| "expected_types MANAGES = [(Subject, Subject)]"
| "expected_types PARENT_OF = [(Resource, Resource)]"
| "expected_types INHERITS = [(Subject, Subject), (Resource, Resource)]"

definition endpoint_attributes :: "permission_contract \<Rightarrow> relation_endpoint \<Rightarrow> (str option \<times> str option) option" where
  "endpoint_attributes c p =
     (case endpoint_type p of
        Subject \<Rightarrow> map_option (\<lambda>s. (subject_tenant s, subject_department s)) (subject_dict c (endpoint_id p))
      | Resource \<Rightarrow> map_option (\<lambda>r. (resource_tenant r, resource_department r)) (resource_dict c (endpoint_id p)))"

definition crosses :: "str option \<Rightarrow> str option \<Rightarrow> bool" where
  \<comment> \<open>both sides declare a scope and the scopes differ\<close>
  "crosses l r \<longleftrightarrow> l \<noteq> None \<and> r \<noteq> None \<and> l \<noteq> r"

definition endpoint_missing :: "permission_contract \<Rightarrow> endpoint_type \<Rightarrow> relation_endpoint \<Rightarrow> bool" where
  "endpoint_missing c t p \<longleftrightarrow> endpoint_type p = t \<and>
     (case t of Subject \<Rightarrow> not_in (subject_dict c) (endpoint_id p)
              | Resource \<Rightarrow> not_in (resource_dict c) (endpoint_id p))"

definition relation_guards :: "permission_contract \<Rightarrow> relation_fact \<Rightarrow> guard list" where
  "relation_guards c r =
     (let s = relation_source r; t = relation_target r; k = relation_kind r
      in [(endpoint_missing c Subject s, ''relation source subject reference is invalid''),
          (endpoint_missing c Resource s, ''relation source resource reference is invalid''),
          (endpoint_missing c Subject t, ''relation target subject reference is invalid''),
          (endpoint_missing c Resource t, ''relation target resource reference is invalid''),
          ((endpoint_type s, endpoint_type t) \<notin> set (expected_types k), ''relation endpoint types are invalid'')]
         @ (case (endpoint_attributes c s, endpoint_attributes c t) of
              (Some (lt, ld), Some (rt, rd)) \<Rightarrow>
                [(crosses lt rt, ''relation crosses declared tenant boundary''),
                 (crosses ld rd, ''relation crosses declared department boundary''),
                 (k = SAME_TENANT \<and> (lt = None \<or> lt \<noteq> rt), ''SAME_TENANT must match declared tenant facts''),
                 (k = SAME_DEPARTMENT \<and> (ld = None \<or> ld \<noteq> rd),
                    ''SAME_DEPARTMENT must match declared department facts'')]
            | _ \<Rightarrow> [(True, key_error)])
         @ (if k \<noteq> OWNS then []
            else case resource_dict c (endpoint_id t) of
                None \<Rightarrow> [(True, key_error)]
              | Some o' \<Rightarrow> [(owner_subject_id o' \<noteq> Some (endpoint_id s), ''OWNS must match resource owner_subject_id'')]))"

subsection \<open>Relation paths\<close>

type_synonym node = "endpoint_type \<times> str"

definition node_of :: "relation_endpoint \<Rightarrow> node" where
  "node_of p = (endpoint_type p, endpoint_id p)"

fun walk_path :: "(str \<rightharpoonup> relation_fact) \<Rightarrow> node \<Rightarrow> str list \<Rightarrow> str + node" where
  "walk_path ls current [] = Inr current"
| "walk_path ls current (i # path) =
     (case ls i of
        None \<Rightarrow> Inl key_error
      | Some r \<Rightarrow>
          if node_of (relation_source r) \<noteq> current
          then Inl ''rule relation_path must be a continuous directed path''
          else walk_path ls (node_of (relation_target r)) path)"

definition relation_path_guards ::
    "permission_contract \<Rightarrow> str \<Rightarrow> str \<Rightarrow> str list \<Rightarrow> guard list" where
  "relation_path_guards c subject resource path =
     (has_duplicates path, ''rule relation_path must not repeat relations'')
     # (case walk_path (relation_dict c) (Subject, subject) path of
          Inl m \<Rightarrow> [(True, m)]
        | Inr n \<Rightarrow> [(n \<noteq> (Resource, resource), ''rule relation_path must end at the rule resource'')])"

subsection \<open>Rules\<close>

definition scope_guards :: "str \<Rightarrow> str list \<Rightarrow> str option \<Rightarrow> str option \<Rightarrow> guard list" where
  \<comment> \<open>the facts of one scope (tenant or department) against a context that names it\<close>
  "scope_guards msg context subject resource =
     (if context = [] then []
      else [(subject = None \<or> resource = None \<or>
             given (\<lambda>s. s \<notin> set context) subject \<or> given (\<lambda>r. r \<notin> set context) resource, msg)])"

definition rule_body_guards ::
    "permission_contract \<Rightarrow> permission_rule \<Rightarrow> subject_definition \<Rightarrow> action_definition \<Rightarrow>
       resource_definition \<Rightarrow> guard list" where
  "rule_body_guards c r s a o' =
     (let x = rule_context r; allow = rule_expectation r = ALLOW;
          other = any_item (effect_dict c) (\<lambda>e. effect_kind e \<noteq> DATA_DISCLOSURE) (action_effect_ids a)
      in [(rule_dimensions r = [] \<and> \<not> allow, ''only ALLOW data disclosure rules may omit coverage mutations''),
          (rule_dimensions r = [] \<and> other = None, key_error),
          (rule_dimensions r = [] \<and> other = Some True,
             ''only ALLOW data disclosure rules may omit coverage mutations'')]
         @ (if WORKFLOW \<notin> set (rule_dimensions r) then []
            else case action_transition a of
                None \<Rightarrow> [(True, ''WORKFLOW coverage requires a workflow transition'')]
              | Some t \<Rightarrow>
                  [(allow \<and> (resource_workflow_state o' \<notin> set (allowed_from_states t) \<or>
                              (\<exists>w \<in> set (context_workflow_states x). w \<notin> set (allowed_from_states t))),
                      ''ALLOW WORKFLOW coverage must use an allowed source state'')])
         @ relation_path_guards c (rule_subject_id r) (rule_resource_id r) (rule_relation_path r)
         @ [(context_resource_ids x \<noteq> [] \<and> rule_resource_id r \<notin> set (context_resource_ids x),
               ''rule resource must be included in its resource context''),
            (context_workflow_states x \<noteq> [] \<and> resource_workflow_state o' \<notin> set (context_workflow_states x),
               ''resource workflow_state must match the rule context'')]
         @ scope_guards ''rule tenant facts must match its context''
             (context_tenant_ids x) (subject_tenant s) (resource_tenant o')
         @ scope_guards ''rule department facts must match its context''
             (context_department_ids x) (subject_department s) (resource_department o')
         @ [(crosses (subject_tenant s) (resource_tenant o'), ''rule cannot implicitly cross tenant boundaries''),
            (crosses (subject_department s) (resource_department o'),
               ''rule cannot implicitly cross department boundaries'')])"

definition rule_guards :: "permission_contract \<Rightarrow> permission_rule \<Rightarrow> guard list" where
  "rule_guards c r =
     (\<exists>l \<in> set (rule_relation_path r). not_in (relation_dict c) l, ''rule relation_path reference is invalid'')
     # (case (resource_dict c (rule_resource_id r), subject_dict c (rule_subject_id r),
              action_dict c (rule_action_id r)) of
          (Some o', Some s, Some a) \<Rightarrow> rule_body_guards c r s a o'
        | _ \<Rightarrow> [(True, key_error)])"

subsection \<open>Batch rules\<close>

definition batch_item_guards ::
    "permission_contract \<Rightarrow> batch_permission_rule \<Rightarrow> subject_definition \<Rightarrow> batch_resource_expectation \<Rightarrow>
       guard list" where
  "batch_item_guards c b s i =
     (case resource_dict c (batch_resource_id i) of
        None \<Rightarrow> [(True, key_error)]
      | Some o' \<Rightarrow>
          (let x = batch_context b in
           (if batch_relation_path i \<noteq> []
            then relation_path_guards c (batch_subject_id b) (batch_resource_id i) (batch_relation_path i)
            else [(batch_expectation i = ALLOW, ''batch ALLOW expectation requires a relation path'')])
           @ [(context_workflow_states x \<noteq> [] \<and> resource_workflow_state o' \<notin> set (context_workflow_states x),
                 ''batch resource workflow_state must match its context'')]
           @ scope_guards ''batch rule tenant facts must match its context''
               (context_tenant_ids x) (subject_tenant s) (resource_tenant o')
           @ scope_guards ''batch rule department facts must match its context''
               (context_department_ids x) (subject_department s) (resource_department o')))"

definition batch_guards :: "permission_contract \<Rightarrow> batch_permission_rule \<Rightarrow> guard list" where
  "batch_guards c b =
     (case subject_dict c (batch_subject_id b) of
        None \<Rightarrow> [(True, ''batch rule subject reference is invalid'')]
      | Some s \<Rightarrow>
          (let ids = map batch_resource_id (batch_items b); x = batch_context b in
           [(absent_or (\<lambda>a. \<not> is_batch a) (action_dict c (batch_action_id b)),
               ''batch rule action must be declared as batch''),
            (has_duplicates ids, ''batch resource IDs must be unique''),
            (\<exists>i \<in> set ids. not_in (resource_dict c) i, ''batch rule resource reference is invalid''),
            (context_resource_ids x \<noteq> [] \<and> set (context_resource_ids x) \<noteq> set ids,
               ''batch context resources must match its resource expectations'')]
           @ concat (map (batch_item_guards c b s) (batch_items b))))"

subsection \<open>Graphs and conflicts\<close>

definition parent_graph :: "('a \<Rightarrow> str) \<Rightarrow> ('a \<Rightarrow> str option) \<Rightarrow> 'a list \<Rightarrow> str graph" where
  "parent_graph key parent xs = concat (map (\<lambda>x. map (\<lambda>p. (key x, [p])) (option_list (parent x))) xs)"

definition edge_graph :: "(str \<times> str) list \<Rightarrow> str graph" where
  "edge_graph es = map (\<lambda>a. (a, uniq (map snd (filter (\<lambda>e. fst e = a) es)))) (uniq (map fst es))"

definition hierarchical :: "relation_type \<Rightarrow> bool" where
  "hierarchical k \<longleftrightarrow> k \<in> {MANAGES, INHERITS, PARENT_OF}"

definition relation_edges :: "permission_contract \<Rightarrow> relation_type \<Rightarrow> (str \<times> str) list" where
  "relation_edges c k = map (\<lambda>r. (endpoint_id (relation_source r), endpoint_id (relation_target r)))
     (filter (\<lambda>r. relation_kind r = k) (relations c))"

definition graph_guards :: "permission_contract \<Rightarrow> guard list" where
  "graph_guards c =
     [(\<exists>r \<in> set (relations c). endpoint_id (relation_source r) = endpoint_id (relation_target r),
         ''relation graph must not contain self loops''),
      (reject_cycles (parent_graph subject_id parent_subject_id (subjects c)),
         ''subject parent graph must be acyclic''),
      (reject_cycles (parent_graph resource_id parent_resource_id (resources c)),
         ''resource parent graph must be acyclic'')]
     @ map (\<lambda>k. (reject_cycles (edge_graph (relation_edges c k)), relation_type_value k @ '' graph must be acyclic''))
         (filter hierarchical (uniq (map relation_kind (relations c))))"

definition conflict_guards :: "permission_contract \<Rightarrow> guard list" where
  "conflict_guards c =
     [(conflict_scan Map.empty (map (\<lambda>r. ((rule_subject_id r, rule_action_id r, rule_resource_id r,
           rule_relation_path r, canonical_json_bytes (context_json (rule_context r))), rule_expectation r)) (rules c)),
         ''same permission semantics cannot ALLOW and DENY''),
      (conflict_scan Map.empty (map (\<lambda>b. ((batch_subject_id b, batch_action_id b,
           map batch_resource_id (batch_items b), canonical_json_bytes (context_json (batch_context b))),
           map batch_expectation (batch_items b))) (batch_rules c)),
         ''same batch permission semantics cannot conflict'')]"

subsection \<open>The validator\<close>

definition contract_guards :: "permission_contract \<Rightarrow> guard list" where
  "contract_guards c =
     identifier_guards c @ reference_guards c
     @ concat (map (action_guards c) (actions c))
     @ concat (map (relation_guards c) (relations c))
     @ concat (map (rule_guards c) (rules c))
     @ concat (map (batch_guards c) (batch_rules c))
     @ graph_guards c @ conflict_guards c"

definition contract_sort :: "permission_contract \<Rightarrow> permission_contract" where
  "contract_sort c = c\<lparr>subjects := sort_key subject_id (subjects c), actions := sort_key action_id (actions c),
     resources := sort_key resource_id (resources c), relations := sort_key relation_id (relations c),
     rules := sort_key rule_id (rules c), batch_rules := sort_key batch_rule_id (batch_rules c)\<rparr>"

datatype contract_failure = ValidationError "str list" | KeyError

definition raised :: "str \<Rightarrow> contract_failure" where
  "raised m = (if m = key_error then KeyError else ValidationError [m])"

definition validate_contract :: "permission_contract \<Rightarrow> contract_failure + permission_contract" where
  "validate_contract c =
     (let es = contract_field_errors c; c' = contract_field_norm c in
      if es \<noteq> [] then Inl (ValidationError es)
      else case first_error (contract_guards c') of
          Some m \<Rightarrow> Inl (raised m)
        | None \<Rightarrow> Inr (contract_sort c'))"

end
