(* ===== verification/ContractFacts.thy ===== *)
theory ContractFacts
  imports PermissionContract
begin

section \<open>What an accepted contract guarantees\<close>

text \<open>
  The abstract reading of \<^verbatim>\<open>PermissionContract.validate_references\<close>: relation paths as an
  inductive chain, graphs as relations, and for each block of guards the fact it establishes.
\<close>

subsection \<open>Paths\<close>

inductive relation_chain :: "(str \<rightharpoonup> relation_fact) \<Rightarrow> node \<Rightarrow> str list \<Rightarrow> node \<Rightarrow> bool" for ls where
  chain_Nil: "relation_chain ls n [] n"
| chain_Cons: "ls i = Some r \<Longrightarrow> node_of (relation_source r) = n \<Longrightarrow>
     relation_chain ls (node_of (relation_target r)) p m \<Longrightarrow> relation_chain ls n (i # p) m"

inductive_simps chain_Nil_iff [simp]: "relation_chain ls n [] m"
inductive_simps chain_Cons_iff: "relation_chain ls n (i # p) m"

lemma walk_path_iff: "walk_path ls n p = Inr m \<longleftrightarrow> relation_chain ls n p m"
  by (induction ls n p rule: walk_path.induct) (auto simp: chain_Cons_iff split: option.splits)

lemma walk_path_key_error:
  "walk_path ls n p = Inl key_error \<Longrightarrow> \<exists>i \<in> set p. ls i = None"
  by (induction ls n p rule: walk_path.induct)
    (auto simp: key_error_def split: option.splits if_splits)

lemma relation_path_guards_ok [guard_simps]:
  "(\<forall>g \<in> set (relation_path_guards c s r p). \<not> fst g) \<longleftrightarrow>
     distinct p \<and> relation_chain (relation_dict c) (Subject, s) p (Resource, r)"
  by (cases "walk_path (relation_dict c) (Subject, s) p")
    (auto simp: relation_path_guards_def guard_simps simp flip: walk_path_iff)

lemma chain_declared: "relation_chain ls n p m \<Longrightarrow> i \<in> set p \<Longrightarrow> ls i \<noteq> None"
  by (induction rule: relation_chain.induct) auto

subsection \<open>Acceptance, block by block\<close>

definition accepted :: "permission_contract \<Rightarrow> bool" where
  "accepted c \<longleftrightarrow> first_error (contract_guards c) = None"

lemma validate_contract_Inr:
  "validate_contract c = Inr d \<longleftrightarrow>
     contract_field_errors c = [] \<and> accepted (contract_field_norm c) \<and> d = contract_sort (contract_field_norm c)"
  by (auto simp: validate_contract_def accepted_def Let_def split: option.splits)

lemma accepted_iff:
  "accepted c \<longleftrightarrow>
     (\<forall>g \<in> set (identifier_guards c). \<not> fst g) \<and> (\<forall>g \<in> set (reference_guards c). \<not> fst g) \<and>
     (\<forall>a \<in> set (actions c). \<forall>g \<in> set (action_guards c a). \<not> fst g) \<and>
     (\<forall>r \<in> set (relations c). \<forall>g \<in> set (relation_guards c r). \<not> fst g) \<and>
     (\<forall>r \<in> set (rules c). \<forall>g \<in> set (rule_guards c r). \<not> fst g) \<and>
     (\<forall>b \<in> set (batch_rules c). \<forall>g \<in> set (batch_guards c b). \<not> fst g) \<and>
     (\<forall>g \<in> set (graph_guards c). \<not> fst g) \<and> (\<forall>g \<in> set (conflict_guards c). \<not> fst g)"
  unfolding accepted_def contract_guards_def first_error_None
  by (simp only: set_append ball_Un ball_concat_map)

lemma not_in_iff [guard_simps]: "not_in (dict_of k xs) i \<longleftrightarrow> i \<notin> k ` set xs"
  by (simp add: not_in_def dict_simps)

lemma identifier_guards_ok [guard_simps]:
  "(\<forall>g \<in> set (identifier_guards c). \<not> fst g) \<longleftrightarrow>
     distinct (dict_keys subject_id (subjects c) @ dict_keys effect_id (effects c)
       @ dict_keys action_id (actions c) @ dict_keys resource_id (resources c)
       @ dict_keys relation_id (relations c) @ dict_keys rule_id (rules c)
       @ dict_keys batch_rule_id (batch_rules c) @ workflow_states c) \<and>
     distinct (map subject_id (subjects c)) \<and> distinct (map effect_id (effects c)) \<and>
     distinct (map action_id (actions c)) \<and>
     (\<forall>a \<in> set (actions c). set (action_effect_ids a) \<subseteq> effect_id ` set (effects c)) \<and>
     distinct (map resource_id (resources c)) \<and> distinct (map relation_id (relations c)) \<and>
     distinct (map rule_id (rules c)) \<and> distinct (map batch_rule_id (batch_rules c))"
  by (simp add: identifier_guards_def Let_def has_duplicates_iff length_dict_keys not_in_iff subset_eq
      del: distinct_append)

lemma scope_guards_ok [guard_simps]:
  "(\<forall>g \<in> set (scope_guards msg x s r). \<not> fst g) \<longleftrightarrow>
     (x \<noteq> [] \<longrightarrow> (\<exists>v w. s = Some v \<and> r = Some w \<and> v \<in> set x \<and> w \<in> set x))"
  by (cases s; cases r) (auto simp: scope_guards_def)

text \<open>The objects a rule of an accepted contract refers to, and what holds between them.\<close>

definition scope_agrees :: "str list \<Rightarrow> str option \<Rightarrow> str option \<Rightarrow> bool" where
  \<comment> \<open>a scope named by the context holds both sides\<close>
  "scope_agrees names s o' \<longleftrightarrow> (names \<noteq> [] \<longrightarrow> (\<exists>v w. s = Some v \<and> o' = Some w \<and> v \<in> set names \<and> w \<in> set names))"

definition coverage_agrees :: "permission_contract \<Rightarrow> permission_rule \<Rightarrow> action_definition \<Rightarrow> resource_definition \<Rightarrow> bool" where
  \<comment> \<open>only disclosures are allowed without a dimension; the workflow dimension needs a transition, which an allowed rule starts inside\<close>
  "coverage_agrees c r a o' \<longleftrightarrow>
     (rule_dimensions r = [] \<longrightarrow> rule_expectation r = ALLOW \<and>
        (\<forall>i \<in> set (action_effect_ids a). \<exists>e. effect_dict c i = Some e \<and> effect_kind e = DATA_DISCLOSURE)) \<and>
     (WORKFLOW \<in> set (rule_dimensions r) \<longrightarrow> (\<exists>t. action_transition a = Some t \<and>
        (rule_expectation r = ALLOW \<longrightarrow>
           insert (resource_workflow_state o') (set (context_workflow_states (rule_context r))) \<subseteq> set (allowed_from_states t))))"

lemma any_item_none: "any_item d p ks = Some False \<Longrightarrow> k \<in> set ks \<Longrightarrow> \<exists>v. d k = Some v \<and> \<not> p v"
  by (induction ks) (auto split: option.splits if_splits)

definition rule_grounded :: "permission_contract \<Rightarrow> permission_rule \<Rightarrow> bool" where
  "rule_grounded c r \<longleftrightarrow>
     (\<exists>s \<in> set (subjects c). \<exists>a \<in> set (actions c). \<exists>o' \<in> set (resources c).
        subject_id s = rule_subject_id r \<and> action_id a = rule_action_id r \<and>
        resource_id o' = rule_resource_id r \<and>
        \<not> crosses (subject_tenant s) (resource_tenant o') \<and>
        \<not> crosses (subject_department s) (resource_department o') \<and>
        scope_agrees (context_tenant_ids (rule_context r)) (subject_tenant s) (resource_tenant o') \<and>
        scope_agrees (context_department_ids (rule_context r)) (subject_department s) (resource_department o') \<and>
        (context_workflow_states (rule_context r) \<noteq> [] \<longrightarrow>
           resource_workflow_state o' \<in> set (context_workflow_states (rule_context r))) \<and>
        coverage_agrees c r a o') \<and>
     (context_resource_ids (rule_context r) \<noteq> [] \<longrightarrow> rule_resource_id r \<in> set (context_resource_ids (rule_context r))) \<and>
     distinct (rule_relation_path r) \<and>
     relation_chain (relation_dict c) (Subject, rule_subject_id r) (rule_relation_path r)
       (Resource, rule_resource_id r)"

lemma rule_guards_grounded:
  assumes "\<forall>g \<in> set (rule_guards c r). \<not> fst g"
  shows "rule_grounded c r"
proof -
  from assms obtain o' s a where
    d: "resource_dict c (rule_resource_id r) = Some o'" "subject_dict c (rule_subject_id r) = Some s"
      "action_dict c (rule_action_id r) = Some a" and
    g: "\<forall>g \<in> set (rule_body_guards c r s a o'). \<not> fst g"
    by (auto simp: rule_guards_def split: option.splits)
  from d have m: "o' \<in> set (resources c)" "resource_id o' = rule_resource_id r" "s \<in> set (subjects c)"
    "subject_id s = rule_subject_id r" "a \<in> set (actions c)" "action_id a = rule_action_id r"
    by (auto dest!: dict_of_Some)
  from g have path: "\<forall>g \<in> set (relation_path_guards c (rule_subject_id r) (rule_resource_id r)
      (rule_relation_path r)). \<not> fst g"
    and tenants: "\<forall>g \<in> set (scope_guards ''rule tenant facts must match its context''
      (context_tenant_ids (rule_context r)) (subject_tenant s) (resource_tenant o')). \<not> fst g"
    and departments: "\<forall>g \<in> set (scope_guards ''rule department facts must match its context''
      (context_department_ids (rule_context r)) (subject_department s) (resource_department o')). \<not> fst g"
    and rest: "context_resource_ids (rule_context r) \<noteq> [] \<longrightarrow> rule_resource_id r \<in> set (context_resource_ids (rule_context r))" "\<not> crosses (subject_tenant s) (resource_tenant o')"
      "\<not> crosses (subject_department s) (resource_department o')"
      "context_workflow_states (rule_context r) \<noteq> [] \<longrightarrow>
         resource_workflow_state o' \<in> set (context_workflow_states (rule_context r))"
    by (auto simp: rule_body_guards_def Let_def ball_Un)
  from path have p: "distinct (rule_relation_path r)"
    "relation_chain (relation_dict c) (Subject, rule_subject_id r) (rule_relation_path r) (Resource, rule_resource_id r)"
    by (simp_all add: relation_path_guards_ok)
  let ?other = "any_item (effect_dict c) (\<lambda>e. effect_kind e \<noteq> DATA_DISCLOSURE) (action_effect_ids a)"
  from g have none: "rule_dimensions r = [] \<longrightarrow> rule_expectation r = ALLOW \<and> ?other \<noteq> None \<and> ?other \<noteq> Some True"
    by (auto simp: rule_body_guards_def Let_def ball_Un)
  then have "rule_dimensions r = [] \<longrightarrow> ?other = Some False"
    by (cases ?other) auto
  moreover from g have "WORKFLOW \<in> set (rule_dimensions r) \<longrightarrow> (\<exists>t. action_transition a = Some t \<and>
      (rule_expectation r = ALLOW \<longrightarrow>
         insert (resource_workflow_state o') (set (context_workflow_states (rule_context r))) \<subseteq> set (allowed_from_states t)))"
    by (auto simp: rule_body_guards_def Let_def ball_Un split: option.splits)
  ultimately have cov: "coverage_agrees c r a o'"
    using none unfolding coverage_agrees_def by (blast dest: any_item_none)
  show ?thesis
    unfolding rule_grounded_def scope_agrees_def
    using m p rest cov tenants [unfolded scope_guards_ok] departments [unfolded scope_guards_ok] by blast
qed

subsection \<open>Graphs\<close>

definition relation_pairs :: "permission_contract \<Rightarrow> relation_type \<Rightarrow> (str \<times> str) set" where
  "relation_pairs c k = {(endpoint_id (relation_source r), endpoint_id (relation_target r)) | r.
     r \<in> set (relations c) \<and> relation_kind r = k}"

lemma map_of_keyed [simp]: "map_of (map (\<lambda>a. (a, f a)) ks) k = (if k \<in> set ks then Some (f k) else None)"
  by (induction ks) auto

lemma edges_edge_graph [simp]: "edges (edge_graph es) = set es"
proof -
  have "map_of (edge_graph es) a = Some bs \<longleftrightarrow>
      a \<in> fst ` set es \<and> bs = uniq (map snd (filter (\<lambda>e. fst e = a) es))" for a bs
    by (auto simp: edge_graph_def split: if_splits)
  then show ?thesis by (force simp: edges_def image_iff)
qed

lemma set_relation_edges [simp]: "set (relation_edges c k) = relation_pairs c k"
  by (auto simp: relation_edges_def relation_pairs_def)

lemma acyclic_iff_reject: "\<not> reject_cycles g \<longleftrightarrow> acyclic (edges g)"
  by (auto simp: reject_cycles_iff acyclic_def)

definition parent_pairs :: "('a \<Rightarrow> str) \<Rightarrow> ('a \<Rightarrow> str option) \<Rightarrow> 'a list \<Rightarrow> (str \<times> str) set" where
  "parent_pairs key parent xs = {(key x, p) | x p. x \<in> set xs \<and> parent x = Some p}"

lemma parent_graph_eq:
  "parent_graph key parent xs = map (\<lambda>x. (key x, [the (parent x)])) (filter (\<lambda>x. parent x \<noteq> None) xs)"
  by (induction xs) (auto simp: parent_graph_def)

lemma edges_parent_graph:
  assumes "distinct (map key xs)"
  shows "edges (parent_graph key parent xs) = parent_pairs key parent xs"
proof -
  have "distinct (map fst (parent_graph key parent xs))"
    using assms by (simp add: parent_graph_eq comp_def distinct_map_filter)
  then have "map_of (parent_graph key parent xs) k = Some ps \<longleftrightarrow>
      (\<exists>x p. x \<in> set xs \<and> parent x = Some p \<and> k = key x \<and> ps = [p])" for k ps
    by (auto simp: map_of_eq_Some_iff) (auto simp: parent_graph_eq)
  then show ?thesis by (fastforce simp: edges_def parent_pairs_def)
qed

lemma graph_guards_ok:
  assumes "distinct (map subject_id (subjects c))" and "distinct (map resource_id (resources c))"
  shows "(\<forall>g \<in> set (graph_guards c). \<not> fst g) \<longleftrightarrow>
     (\<forall>r \<in> set (relations c). endpoint_id (relation_source r) \<noteq> endpoint_id (relation_target r)) \<and>
     acyclic (parent_pairs subject_id parent_subject_id (subjects c)) \<and>
     acyclic (parent_pairs resource_id parent_resource_id (resources c)) \<and>
     (\<forall>k. hierarchical k \<longrightarrow> acyclic (relation_pairs c k))"
proof -
  have "acyclic (relation_pairs c k)" if "k \<notin> relation_kind ` set (relations c)" for k
  proof -
    have "relation_pairs c k = {}" using that by (auto simp: relation_pairs_def)
    then show ?thesis by (simp add: acyclic_def)
  qed
  then have "(\<forall>k \<in> set (filter hierarchical (uniq (map relation_kind (relations c)))). acyclic (relation_pairs c k)) \<longleftrightarrow>
      (\<forall>k. hierarchical k \<longrightarrow> acyclic (relation_pairs c k))"
    by auto
  then show ?thesis
    by (auto simp: graph_guards_def acyclic_iff_reject edges_parent_graph [OF assms(1)]
        edges_parent_graph [OF assms(2)])
qed

end
