(* ===== verification/ContractStability.thy ===== *)
theory ContractStability
  imports ContractFacts
begin

section \<open>The accepted form of a contract is a fixed point of the validator\<close>

text \<open>
  A contract is stored in the form the validator returns and validated again whenever it is read.
  Sorting the declared objects changes none of the dictionaries, so every block of guards lets the
  sorted contract through, and normalising it again changes nothing.
\<close>

definition unique_ids :: "permission_contract \<Rightarrow> bool" where
  "unique_ids c \<longleftrightarrow> distinct (map subject_id (subjects c)) \<and> distinct (map effect_id (effects c)) \<and>
     distinct (map action_id (actions c)) \<and> distinct (map resource_id (resources c)) \<and>
     distinct (map relation_id (relations c)) \<and> distinct (map rule_id (rules c)) \<and>
     distinct (map batch_rule_id (batch_rules c))"

lemma accepted_unique_ids: "accepted c \<Longrightarrow> unique_ids c"
  unfolding accepted_iff identifier_guards_ok unique_ids_def by blast

lemma contract_sort_fields [simp]:
  "subjects (contract_sort c) = sort_key subject_id (subjects c)"
  "effects (contract_sort c) = effects c"
  "actions (contract_sort c) = sort_key action_id (actions c)"
  "resources (contract_sort c) = sort_key resource_id (resources c)"
  "relations (contract_sort c) = sort_key relation_id (relations c)"
  "rules (contract_sort c) = sort_key rule_id (rules c)"
  "batch_rules (contract_sort c) = sort_key batch_rule_id (batch_rules c)"
  "role_ids (contract_sort c) = role_ids c" "workflow_states (contract_sort c) = workflow_states c"
  "contract_id (contract_sort c) = contract_id c" "contract_version (contract_sort c) = contract_version c"
  by (simp_all add: contract_sort_def)

text \<open>The same contract with its declared objects, all but the effects, in another order.\<close>

definition reordered :: "permission_contract \<Rightarrow> permission_contract \<Rightarrow> bool" where
  "reordered c d \<longleftrightarrow>
     mset (subjects d) = mset (subjects c) \<and> effects d = effects c \<and> mset (actions d) = mset (actions c) \<and>
     mset (resources d) = mset (resources c) \<and> mset (relations d) = mset (relations c) \<and>
     mset (rules d) = mset (rules c) \<and> mset (batch_rules d) = mset (batch_rules c) \<and>
     role_ids d = role_ids c \<and> workflow_states d = workflow_states c \<and>
     contract_id d = contract_id c \<and> contract_version d = contract_version c"

lemma reordered_sort: "reordered c (contract_sort c)"
  by (simp add: reordered_def)

lemma reordered_fields:
  assumes "reordered c d"
  shows "set (subjects d) = set (subjects c)" "effects d = effects c" "set (actions d) = set (actions c)"
    "set (resources d) = set (resources c)" "set (relations d) = set (relations c)"
    "set (rules d) = set (rules c)" "set (batch_rules d) = set (batch_rules c)"
    "role_ids d = role_ids c" "workflow_states d = workflow_states c"
    "contract_id d = contract_id c" "contract_version d = contract_version c"
  using assms unfolding reordered_def by (metis set_mset_mset)+

lemma reordered_lengths:
  assumes "reordered c d"
  shows "length (subjects d) = length (subjects c)" "length (actions d) = length (actions c)"
    "length (resources d) = length (resources c)" "length (relations d) = length (relations c)"
    "length (rules d) = length (rules c)" "length (batch_rules d) = length (batch_rules c)"
  using assms unfolding reordered_def by (metis size_mset)+

lemma distinct_map_perm: "mset ys = mset xs \<Longrightarrow> distinct (map k ys) = distinct (map k xs)"
  by (metis mset_eq_imp_distinct_iff mset_map)

lemma reordered_unique:
  assumes "reordered c d"
  shows "distinct (map subject_id (subjects d)) = distinct (map subject_id (subjects c))"
    "distinct (map action_id (actions d)) = distinct (map action_id (actions c))"
    "distinct (map resource_id (resources d)) = distinct (map resource_id (resources c))"
    "distinct (map relation_id (relations d)) = distinct (map relation_id (relations c))"
    "distinct (map rule_id (rules d)) = distinct (map rule_id (rules c))"
    "distinct (map batch_rule_id (batch_rules d)) = distinct (map batch_rule_id (batch_rules c))"
  using assms unfolding reordered_def by - (rule distinct_map_perm, simp)+

lemma reordered_dicts:
  assumes "unique_ids c" and "reordered c d"
  shows "subject_dict d = subject_dict c" "action_dict d = action_dict c"
    "resource_dict d = resource_dict c" "relation_dict d = relation_dict c"
  using assms by (simp_all add: unique_ids_def reordered_def dict_of_perm)

lemma identifier_guards_reordered:
  assumes "reordered c d"
  shows "(\<forall>g \<in> set (identifier_guards d). \<not> fst g) \<longleftrightarrow> (\<forall>g \<in> set (identifier_guards c). \<not> fst g)"
  unfolding identifier_guards_ok reordered_unique [OF assms] distinct_append set_append set_dict_keys
    reordered_fields [OF assms] by simp

lemma reference_guards_reordered:
  assumes "unique_ids c" and "reordered c d"
  shows "(\<forall>g \<in> set (reference_guards d). \<not> fst g) \<longleftrightarrow> (\<forall>g \<in> set (reference_guards c). \<not> fst g)"
  unfolding reference_guards_def declared_tenants_def declared_departments_def given_values_def
    reordered_dicts [OF assms] set_append set_concat set_map reordered_fields [OF assms(2)] by (rule refl)

lemma body_guards_reordered:
  assumes "unique_ids c" and "reordered c d"
  shows "action_guards d = action_guards c" "relation_guards d = relation_guards c"
    "rule_guards d = rule_guards c" "batch_guards d = batch_guards c"
proof -
  note dicts = reordered_dicts [OF assms]
  have eff: "effect_dict d = effect_dict c" and states: "workflow_states d = workflow_states c"
    by (simp_all only: reordered_fields [OF assms(2)])
  show "action_guards d = action_guards c"
    unfolding fun_eq_iff action_guards_def eff states by (intro allI refl)
  show "relation_guards d = relation_guards c"
    unfolding fun_eq_iff relation_guards_def endpoint_missing_def endpoint_attributes_def dicts
    by (intro allI refl)
  have path: "relation_path_guards d = relation_path_guards c"
    unfolding fun_eq_iff relation_path_guards_def dicts by (intro allI refl)
  have body: "rule_body_guards d = rule_body_guards c"
    unfolding fun_eq_iff rule_body_guards_def path eff by (intro allI refl)
  have item: "batch_item_guards d = batch_item_guards c"
    unfolding fun_eq_iff batch_item_guards_def dicts path by (intro allI refl)
  show "rule_guards d = rule_guards c"
    unfolding fun_eq_iff rule_guards_def dicts body by (intro allI refl)
  show "batch_guards d = batch_guards c"
    unfolding fun_eq_iff batch_guards_def dicts item by (intro allI refl)
qed

lemma conflict_guards_ok:
  "(\<forall>g \<in> set (conflict_guards c). \<not> fst g) \<longleftrightarrow>
     (\<forall>r \<in> set (rules c). \<forall>q \<in> set (rules c).
        rule_subject_id r = rule_subject_id q \<and> rule_action_id r = rule_action_id q \<and>
        rule_resource_id r = rule_resource_id q \<and> rule_relation_path r = rule_relation_path q \<and>
        canonical_json_bytes (context_json (rule_context r)) = canonical_json_bytes (context_json (rule_context q))
        \<longrightarrow> rule_expectation r = rule_expectation q) \<and>
     (\<forall>b \<in> set (batch_rules c). \<forall>q \<in> set (batch_rules c).
        batch_subject_id b = batch_subject_id q \<and> batch_action_id b = batch_action_id q \<and>
        map batch_resource_id (batch_items b) = map batch_resource_id (batch_items q) \<and>
        canonical_json_bytes (context_json (batch_context b)) = canonical_json_bytes (context_json (batch_context q))
        \<longrightarrow> map batch_expectation (batch_items b) = map batch_expectation (batch_items q))"
proof -
  have two: "(\<forall>g \<in> set [a, b]. \<not> fst g) \<longleftrightarrow> \<not> fst a \<and> \<not> fst b" for a b :: guard
    by simp
  show ?thesis
    unfolding conflict_guards_def two fst_conv conflict_scan_iff not_not single_valued_list_map prod.inject
    by (rule refl)
qed

lemma graph_guards_reordered:
  assumes "unique_ids c" and "reordered c d"
  shows "(\<forall>g \<in> set (graph_guards d). \<not> fst g) \<longleftrightarrow> (\<forall>g \<in> set (graph_guards c). \<not> fst g)"
proof -
  have "distinct (map subject_id (subjects c))" "distinct (map resource_id (resources c))"
    using assms(1) by (simp_all add: unique_ids_def)
  moreover from this have "distinct (map subject_id (subjects d))" "distinct (map resource_id (resources d))"
    using reordered_unique [OF assms(2)] by simp_all
  ultimately show ?thesis
    by (simp only: graph_guards_ok relation_pairs_def parent_pairs_def reordered_fields [OF assms(2)])
qed

lemma accepted_reordered:
  assumes "accepted c" and "reordered c d"
  shows "accepted d"
proof -
  have u: "unique_ids c" using assms(1) by (rule accepted_unique_ids)
  have "(\<forall>g \<in> set (conflict_guards d). \<not> fst g) \<longleftrightarrow> (\<forall>g \<in> set (conflict_guards c). \<not> fst g)"
    by (simp only: conflict_guards_ok reordered_fields [OF assms(2)])
  with assms(1) show ?thesis
    unfolding accepted_iff identifier_guards_reordered [OF assms(2)] reference_guards_reordered [OF u assms(2)]
      graph_guards_reordered [OF u assms(2)] body_guards_reordered [OF u assms(2)] reordered_fields [OF assms(2)]
    by simp
qed

lemma contract_sort_reordered:
  assumes "unique_ids c" and "reordered c d"
  shows "contract_sort d = contract_sort c"
proof -
  have "sort_key subject_id (subjects d) = sort_key subject_id (subjects c)"
    "sort_key action_id (actions d) = sort_key action_id (actions c)"
    "sort_key resource_id (resources d) = sort_key resource_id (resources c)"
    "sort_key relation_id (relations d) = sort_key relation_id (relations c)"
    "sort_key rule_id (rules d) = sort_key rule_id (rules c)"
    "sort_key batch_rule_id (batch_rules d) = sort_key batch_rule_id (batch_rules c)"
    using assms unfolding unique_ids_def reordered_def by - (rule sort_key_perm, simp, simp)+
  with reordered_fields [OF assms(2)] show ?thesis
    by (intro permission_contract.equality) simp_all
qed

lemma field_norm_reordered:
  assumes "reordered c d"
  shows "reordered (contract_field_norm c) (contract_field_norm d)"
  using assms by (simp add: reordered_def contract_field_norm_def)

lemma field_errors_reordered:
  assumes "reordered c d"
  shows "contract_field_errors d = [] \<longleftrightarrow> contract_field_errors c = []"
  unfolding contract_field_errors_def append_is_Nil_conv concat_map_Nil field_error_Nil size_guards_ok
    reordered_fields [OF assms] reordered_lengths [OF assms] by (rule refl)

lemma sort_key_idem: "sort_key f (sort_key f xs) = sort_key f xs"
  by (simp add: sort_key_id_if_sorted)

lemma contract_sort_idem [simp]: "contract_sort (contract_sort c) = contract_sort c"
  by (simp add: contract_sort_def sort_key_idem)

lemma map_fixed: "\<forall>x \<in> set xs. f x = x \<Longrightarrow> map f xs = xs"
  by (simp add: map_idI)

lemma field_norm_fixed: "contract_field_norm (contract_sort (contract_field_norm c)) = contract_sort (contract_field_norm c)"
  unfolding contract_field_norm_def contract_sort_def
  by (simp add: map_fixed sort_key_id_if_sorted)

lemma field_errors_stored:
  assumes "contract_field_errors c = []"
  shows "contract_field_errors (contract_sort (contract_field_norm c)) = []"
proof -
  have size: "field_error (size_guards f lo hi (sort_key k xs)) = [] \<longleftrightarrow> field_error (size_guards f lo hi xs) = []"
    "field_error (size_guards f lo hi (map h xs)) = [] \<longleftrightarrow> field_error (size_guards f lo hi xs) = []"
    for f lo hi and k :: "'a \<Rightarrow> 'b::linorder" and h :: "'a \<Rightarrow> 'a" and xs :: "'a list"
    by (simp_all add: guard_simps)
  from assms show ?thesis
    unfolding contract_field_errors_def append_is_Nil_conv concat_map_Nil field_error_Nil size_guards_ok
    by (simp add: contract_field_norm_def contract_sort_def)
qed

end
