(* ===== verification/ContractErrors.thy ===== *)
theory ContractErrors
  imports ContractStability
begin

section \<open>Which lookups of the validator can miss\<close>

text \<open>
  The validator indexes its dictionaries after checking the references they are indexed with. These
  lemmas follow each \<open>key_error\<close> guard back to the check that precedes it. Only the relation
  path of a batch rule is walked without its relation identifiers having been checked.
\<close>

lemma append_error: "first_error (xs @ ys) = Some m \<longleftrightarrow>
    first_error xs = Some m \<or> first_error xs = None \<and> first_error ys = Some m"
  by (auto split: option.splits)

lemma no_message: "key_error \<notin> snd ` set gs \<Longrightarrow> first_error gs \<noteq> Some key_error"
  using first_error_message by blast

lemma identifier_guards_named: "first_error (identifier_guards c) \<noteq> Some key_error"
  by (rule no_message) (simp add: identifier_guards_def Let_def key_error_def)

lemma reference_guards_named: "first_error (reference_guards c) \<noteq> Some key_error"
  by (rule no_message) (simp add: reference_guards_def key_error_def)

lemma conflict_guards_named: "first_error (conflict_guards c) \<noteq> Some key_error"
  by (rule no_message) (simp add: conflict_guards_def key_error_def)

lemma graph_guards_named: "first_error (graph_guards c) \<noteq> Some key_error"
proof (rule no_message)
  have "relation_type_value k @ '' graph must be acyclic'' \<noteq> key_error" for k
    by (cases k) (simp_all add: key_error_def)
  then show "key_error \<notin> snd ` set (graph_guards c)"
    by (auto simp: graph_guards_def) (auto simp: key_error_def)
qed

lemma action_guards_named:
  assumes "set (action_effect_ids a) \<subseteq> effect_id ` set (effects c)"
  shows "first_error (action_guards c a) \<noteq> Some key_error"
proof (cases "action_transition a")
  case (Some t)
  from assms have "\<forall>i \<in> set (action_effect_ids a). effect_dict c i \<noteq> None"
    by (auto simp: dict_simps)
  then have "any_item (effect_dict c) (\<lambda>e. effect_kind e = STATE_MUTATION) (action_effect_ids a) \<noteq> None"
    by (simp add: any_item_total)
  with Some show ?thesis by (auto simp: action_guards_def Let_def key_error_def split: if_splits)
qed (simp add: action_guards_def)

lemma endpoint_known:
  "\<not> endpoint_missing c Subject p \<Longrightarrow> \<not> endpoint_missing c Resource p \<Longrightarrow>
     \<exists>t d. endpoint_attributes c p = Some (t, d)"
  by (cases "endpoint_type p") (auto simp: endpoint_missing_def endpoint_attributes_def not_in_def)

lemma relation_guards_named: "first_error (relation_guards c r) \<noteq> Some key_error"
proof
  assume e: "first_error (relation_guards c r) = Some key_error"
  let ?s = "relation_source r" and ?t = "relation_target r"
  have pre: "\<not> endpoint_missing c Subject ?s" "\<not> endpoint_missing c Resource ?s"
    "\<not> endpoint_missing c Subject ?t" "\<not> endpoint_missing c Resource ?t"
    "(endpoint_type ?s, endpoint_type ?t) \<in> set (expected_types (relation_kind r))"
    using e by (auto simp: relation_guards_def Let_def key_error_def split: if_splits)
  from endpoint_known [OF pre(1,2)] endpoint_known [OF pre(3,4)] obtain lt ld rt rd where
    a: "endpoint_attributes c ?s = Some (lt, ld)" "endpoint_attributes c ?t = Some (rt, rd)"
    by blast
  show False
  proof (cases "relation_kind r = OWNS")
    case True
    with pre(5) have "endpoint_type ?t = Resource" by simp
    with pre(4) obtain o' where "resource_dict c (endpoint_id ?t) = Some o'"
      by (auto simp: endpoint_missing_def not_in_def)
    with e pre a True show False
      by (auto simp: relation_guards_def Let_def key_error_def split: if_splits)
  next
    case False
    with e pre a show False
      by (auto simp: relation_guards_def Let_def key_error_def split: if_splits)
  qed
qed

lemma path_guards_named:
  "first_error (relation_path_guards c s r p) = Some key_error \<Longrightarrow> \<exists>i \<in> set p. relation_dict c i = None"
  using walk_path_key_error [of "relation_dict c" "(Subject, s)" p]
  by (auto simp: relation_path_guards_def key_error_def split: if_splits sum.splits)

lemma rule_guards_named:
  assumes refs: "\<forall>g \<in> set (reference_guards c). \<not> fst g" and ids: "\<forall>g \<in> set (identifier_guards c). \<not> fst g"
    and r: "r \<in> set (rules c)"
  shows "first_error (rule_guards c r) \<noteq> Some key_error"
proof
  assume e: "first_error (rule_guards c r) = Some key_error"
  from refs r have "rule_subject_id r \<in> subject_id ` set (subjects c)"
    "rule_action_id r \<in> action_id ` set (actions c)" "rule_resource_id r \<in> resource_id ` set (resources c)"
    by (auto simp: reference_guards_def guard_simps)
  then obtain s a o' where d: "subject_dict c (rule_subject_id r) = Some s"
    "action_dict c (rule_action_id r) = Some a" "resource_dict c (rule_resource_id r) = Some o'"
    "a \<in> set (actions c)"
    by (metis dict_of_member)
  from e d have paths: "\<forall>l \<in> set (rule_relation_path r). relation_dict c l \<noteq> None"
    and body: "first_error (rule_body_guards c r s a o') = Some key_error"
    by (auto simp: rule_guards_def not_in_def key_error_def split: if_splits)
  from ids d(4) have "\<forall>i \<in> set (action_effect_ids a). effect_dict c i \<noteq> None"
    unfolding identifier_guards_ok by (auto simp: dict_simps)
  then have "any_item (effect_dict c) (\<lambda>e. effect_kind e \<noteq> DATA_DISCLOSURE) (action_effect_ids a) \<noteq> None"
    by (simp add: any_item_total)
  moreover have "first_error (relation_path_guards c (rule_subject_id r) (rule_resource_id r)
      (rule_relation_path r)) \<noteq> Some key_error"
    using path_guards_named paths by blast
  ultimately show False
    using body unfolding rule_body_guards_def Let_def append_error
    by (auto simp: key_error_def scope_guards_def split: if_splits option.splits)
qed

lemma batch_guards_named:
  assumes "first_error (batch_guards c b) = Some key_error"
  shows "\<exists>i \<in> set (batch_items b). \<exists>l \<in> set (batch_relation_path i). relation_dict c l = None"
proof -
  from assms obtain s where s: "subject_dict c (batch_subject_id b) = Some s"
    by (auto simp: batch_guards_def key_error_def split: option.splits)
  with assms have known: "\<forall>i \<in> set (batch_items b). resource_dict c (batch_resource_id i) \<noteq> None"
    and e: "first_error (concat (map (batch_item_guards c b s) (batch_items b))) = Some key_error"
    by (auto simp: batch_guards_def Let_def not_in_def key_error_def split: if_splits)
  from first_error_concat [OF e] obtain i where i: "i \<in> set (batch_items b)"
    "first_error (batch_item_guards c b s i) = Some key_error" by blast
  with known obtain o' where "resource_dict c (batch_resource_id i) = Some o'" by blast
  with i(2) have "first_error (relation_path_guards c (batch_subject_id b) (batch_resource_id i)
      (batch_relation_path i)) = Some key_error"
    by (auto simp: batch_item_guards_def Let_def append_error key_error_def scope_guards_def
        split: if_splits simp del: first_error_append)
  then have "\<exists>l \<in> set (batch_relation_path i). relation_dict c l = None"
    by (rule path_guards_named)
  with i(1) show ?thesis by blast
qed

lemma contract_key_error:
  assumes "first_error (contract_guards c) = Some key_error"
  shows "\<exists>b \<in> set (batch_rules c). \<exists>i \<in> set (batch_items b). \<exists>l \<in> set (batch_relation_path i).
    relation_dict c l = None"
proof -
  let ?bs = "concat (map (batch_guards c) (batch_rules c))"
  have acts: "first_error (concat (map (action_guards c) (actions c))) \<noteq> Some key_error"
    if "\<forall>g \<in> set (identifier_guards c). \<not> fst g"
    using that first_error_concat action_guards_named unfolding identifier_guards_ok by metis
  have rels: "first_error (concat (map (relation_guards c) (relations c))) \<noteq> Some key_error"
    using first_error_concat relation_guards_named by metis
  have ruls: "first_error (concat (map (rule_guards c) (rules c))) \<noteq> Some key_error"
    if "\<forall>g \<in> set (identifier_guards c). \<not> fst g" "\<forall>g \<in> set (reference_guards c). \<not> fst g"
    using that first_error_concat rule_guards_named by metis
  from assms have "first_error ?bs = Some key_error"
    unfolding contract_guards_def append_error
    using identifier_guards_named reference_guards_named graph_guards_named conflict_guards_named
      acts rels ruls by (auto simp: first_error_None)
  then show ?thesis using first_error_concat batch_guards_named by metis
qed

end
