(* ===== verification/Sha256.thy ===== *)
theory Sha256
  imports Canonical "HOL-Library.Word"
begin

section \<open>The SHA-256 digest\<close>

text \<open>
  \<^verbatim>\<open>hashlib.sha256(data).hexdigest()\<close> of Python's standard library, which
  \<^verbatim>\<open>permission_model_sha256\<close> calls: the hash of FIPS 180-4 on bytes. It provides the
  \<open>digest\<close> interface the fingerprinting components rely on.
\<close>

unbundle bit_operations_syntax

type_synonym w32 = "32 word"

text \<open>
  The constants of the standard are fractions of irrational roots: a round constant is the first
  32 bits after the point of the cube root of a prime, an initial word those of a square root. The
  root of \<open>n\<close> is built from its highest bit down.
\<close>

fun root_bits :: "nat \<Rightarrow> nat \<Rightarrow> nat \<Rightarrow> nat \<Rightarrow> nat" where
  "root_bits k n 0 r = r"
| "root_bits k n (Suc b) r = root_bits k n b (if (r + 2 ^ b) ^ k \<le> n then r + 2 ^ b else r)"

definition root_fraction :: "nat \<Rightarrow> nat \<Rightarrow> w32" where
  "root_fraction k p = word_of_nat (root_bits k (p * 2 ^ (32 * k)) 36 0)"

definition small_primes :: "nat list" where
  "small_primes =
    [2, 3, 5, 7, 11, 13, 17, 19, 23, 29, 31, 37, 41, 43, 47, 53, 59, 61, 67, 71, 73,
     79, 83, 89, 97, 101, 103, 107, 109, 113, 127, 131, 137, 139, 149, 151, 157, 163,
     167, 173, 179, 181, 191, 193, 197, 199, 211, 223, 227, 229, 233, 239, 241, 251,
     257, 263, 269, 271, 277, 281, 283, 293, 307, 311]"

definition round_constants :: "w32 list" where
  "round_constants = map (root_fraction 3) small_primes"

definition initial_hash :: "w32 list" where
  "initial_hash = map (root_fraction 2) (take 8 small_primes)"

definition small_sigma0 :: "w32 \<Rightarrow> w32" where
  "small_sigma0 x = word_rotr 7 x XOR word_rotr 18 x XOR drop_bit 3 x"

definition small_sigma1 :: "w32 \<Rightarrow> w32" where
  "small_sigma1 x = word_rotr 17 x XOR word_rotr 19 x XOR drop_bit 10 x"

definition big_sigma0 :: "w32 \<Rightarrow> w32" where
  "big_sigma0 x = word_rotr 2 x XOR word_rotr 13 x XOR word_rotr 22 x"

definition big_sigma1 :: "w32 \<Rightarrow> w32" where
  "big_sigma1 x = word_rotr 6 x XOR word_rotr 11 x XOR word_rotr 25 x"

definition select_bits :: "w32 \<Rightarrow> w32 \<Rightarrow> w32 \<Rightarrow> w32" where
  "select_bits x y z = (x AND y) XOR ((NOT x) AND z)"

definition majority :: "w32 \<Rightarrow> w32 \<Rightarrow> w32 \<Rightarrow> w32" where
  "majority x y z = (x AND y) XOR (x AND z) XOR (y AND z)"

text \<open>
  The message schedule, newest word first: of the sixteen last words \<open>w\<close>, the next one adds
  those 2, 7, 15 and 16 places back.
\<close>

fun schedule :: "nat \<Rightarrow> w32 list \<Rightarrow> w32 list" where
  "schedule 0 w = rev w"
| "schedule (Suc n) w =
     schedule n ((small_sigma1 (w ! 1) + w ! 6 + small_sigma0 (w ! 14) + w ! 15) # w)"

fun round :: "w32 list \<Rightarrow> w32 \<times> w32 \<Rightarrow> w32 list" where
  "round [a, b, c, d, e, f, g, h] (k, w) =
     (let t1 = h + big_sigma1 e + select_bits e f g + k + w;
          t2 = big_sigma0 a + majority a b c
      in [t1 + t2, a, b, c, d + t1, e, f, g])"
| "round s kw = s"

definition compress :: "w32 list \<Rightarrow> w32 list \<Rightarrow> w32 list" where
  "compress s block =
     map2 (+) s (foldl round s (zip round_constants (schedule 48 (rev block))))"

fun word_of_bytes :: "nat list \<Rightarrow> w32" where
  "word_of_bytes bs = foldl (\<lambda>w b. 256 * w + word_of_nat b) 0 bs"

function blocks :: "nat list \<Rightarrow> w32 list list" where
  "blocks bs =
     (if bs = [] then []
      else map (\<lambda>i. word_of_bytes (take 4 (drop (4 * i) bs))) [0..<16] # blocks (drop 64 bs))"
  by pat_completeness auto
termination
  by (relation "measure length") auto

declare blocks.simps [simp del]

fun big_endian :: "nat \<Rightarrow> nat \<Rightarrow> nat list" where
  "big_endian 0 n = []"
| "big_endian (Suc k) n = big_endian k (n div 256) @ [n mod 256]"

definition pad :: "nat list \<Rightarrow> nat list" where
  "pad bs = bs @ [128] @ replicate ((119 - length bs mod 64) mod 64) 0 @ big_endian 8 (8 * length bs)"

definition hex_word :: "w32 \<Rightarrow> str" where
  "hex_word w = map (\<lambda>i. hex_char (unat (drop_bit (28 - 4 * i) w AND 15))) [0..<8]"

definition sha256_hex :: "str \<Rightarrow> str" where
  "sha256_hex s =
     concat (map hex_word
       (foldl compress initial_hash (blocks (pad (map of_char s)))))"

subsection \<open>The digest is 64 hexadecimal digits\<close>

lemma hex_char_hex: "n < 16 \<Longrightarrow> is_hex (hex_char n)"
  by (auto simp: hex_char_def is_hex_def is_digit_def Let_def)

lemma hex_word_hex: "hex_text 8 (hex_word w)"
proof -
  have "unat (drop_bit n w AND 15) < 16" for n
    using word_and_le1 [of "drop_bit n w" 15] by (simp add: word_le_nat_alt)
  then show ?thesis by (simp add: hex_text_def hex_word_def list_all_iff hex_char_hex)
qed

lemma length_round [simp]: "length s = 8 \<Longrightarrow> length (round s kw) = 8"
  by (induction s kw rule: round.induct) (auto simp: Let_def)

lemma length_rounds [simp]: "length s = 8 \<Longrightarrow> length (foldl round s kws) = 8"
  by (induction kws arbitrary: s) simp_all

lemma length_compress_all [simp]: "length s = 8 \<Longrightarrow> length (foldl compress s bs) = 8"
  by (induction bs arbitrary: s) (simp_all add: compress_def)

lemma concat_hex: "hex_text (8 * length ws) (concat (map hex_word ws))"
proof (induction ws)
  case (Cons w ws)
  then show ?case using hex_word_hex [of w] by (simp add: hex_text_def)
qed (simp add: hex_text_def)

interpretation sha256: digest sha256_hex
proof unfold_locales
  fix b
  have "length (foldl compress initial_hash (blocks (pad (map of_char b)))) = 8"
    by (rule length_compress_all) (simp add: initial_hash_def small_primes_def)
  then show "hex_text 64 (sha256_hex b)"
    unfolding sha256_hex_def using concat_hex [of "foldl compress initial_hash (blocks (pad (map of_char b)))"] by simp
qed

end
