(* ===== verification/PermissionPlan.thy ===== *)
theory PermissionPlan
  imports PermissionContract Sha256
begin

section \<open>The normalised permission plan\<close>

text \<open>
  Models \<^verbatim>\<open>NormalizedPermissionCase\<close>, \<^verbatim>\<open>NormalizedPermissionPlan\<close> and
  \<^verbatim>\<open>compile_permission_plan\<close> of \<^verbatim>\<open>verification/permissions/contract.py\<close>: one case per
  rule of an accepted contract, named after its digest and ordered by it.
\<close>

record normalized_case =
  nc_case_id :: str
  nc_fingerprint :: str
  nc_contract_id :: str
  nc_rule_id :: str
  nc_subject_id :: str
  nc_action_id :: str
  nc_resource_id :: str
  nc_relation_path :: "str list"
  nc_context :: permission_context
  nc_expected :: permission_expectation
  nc_observations :: "str list"
  nc_seed :: int
  nc_engine_version :: str
  nc_source_case_id :: "str option"
  nc_source_step_id :: "str option"
  nc_source_identity_id :: "str option"
  nc_source_resource_id :: "str option"
  nc_source_owner_identity_id :: "str option"
  nc_source_mutation :: "str option"

definition normalized_case_errors :: "normalized_case \<Rightarrow> str list" where
  "normalized_case_errors n =
     plain_id_field ''case_id'' (nc_case_id n)
     @ field_error [pattern_guard ''fingerprint'' (hex_text 64) (nc_fingerprint n)]
     @ plain_id_field ''source_contract_id'' (nc_contract_id n)
     @ plain_id_field ''source_rule_id'' (nc_rule_id n)
     @ plain_id_field ''subject_id'' (nc_subject_id n)
     @ plain_id_field ''action_id'' (nc_action_id n)
     @ plain_id_field ''resource_id'' (nc_resource_id n)
     @ field_error (size_guards ''relation_path'' 1 64 (nc_relation_path n))
     @ field_error (size_guards ''required_observations'' 1 16 (nc_observations n))
     @ field_error (size_guards ''engine_version'' 1 128 (nc_engine_version n)
         @ [pattern_guard ''engine_version'' intent_text (nc_engine_version n)])
     @ optional_field (plain_id_field ''source_case_id'') (nc_source_case_id n)
     @ optional_field (plain_id_field ''source_step_id'') (nc_source_step_id n)
     @ optional_field (plain_id_field ''source_identity_id'') (nc_source_identity_id n)
     @ optional_field (plain_id_field ''source_resource_id'') (nc_source_resource_id n)
     @ optional_field (plain_id_field ''source_owner_identity_id'') (nc_source_owner_identity_id n)
     @ optional_field (\<lambda>v. field_error [pattern_guard ''source_mutation'' intent_text v]) (nc_source_mutation n)"

record normalized_plan =
  np_plan_id :: str
  np_contract_id :: str
  np_seed :: int
  np_engine_version :: str
  np_cases :: "normalized_case list"

definition normalized_plan_errors :: "normalized_plan \<Rightarrow> str list" where
  "normalized_plan_errors p = after_fields
     (plain_id_field ''plan_id'' (np_plan_id p)
      @ plain_id_field ''source_contract_id'' (np_contract_id p)
      @ field_error (size_guards ''engine_version'' 1 128 (np_engine_version p)
          @ [pattern_guard ''engine_version'' intent_text (np_engine_version p)])
      @ field_error (size_guards ''cases'' 1 8192 (np_cases p)))
     [(has_duplicates (map nc_case_id (np_cases p)), ''normalized case IDs must be unique'')]"

definition normalized_plan_norm :: "normalized_plan \<Rightarrow> normalized_plan" where
  "normalized_plan_norm p = p\<lparr>np_cases := sort_key nc_fingerprint (np_cases p)\<rparr>"

definition normalized_case_json :: "normalized_case \<Rightarrow> json" where
  "normalized_case_json n = JObj
     [(''case_id'', JStr (nc_case_id n)), (''fingerprint'', JStr (nc_fingerprint n)),
      (''source_kind'', JStr ''permission''), (''source_contract_id'', JStr (nc_contract_id n)),
      (''source_rule_id'', JStr (nc_rule_id n)), (''subject_id'', JStr (nc_subject_id n)),
      (''action_id'', JStr (nc_action_id n)), (''resource_id'', JStr (nc_resource_id n)),
      (''relation_path'', json_strings (nc_relation_path n)), (''context'', context_json (nc_context n)),
      (''expected'', JStr (expectation_value (nc_expected n))),
      (''required_observations'', json_strings (nc_observations n)), (''seed'', JInt (nc_seed n)),
      (''engine_version'', JStr (nc_engine_version n)),
      (''source_case_id'', json_option JStr (nc_source_case_id n)),
      (''source_step_id'', json_option JStr (nc_source_step_id n)),
      (''source_identity_id'', json_option JStr (nc_source_identity_id n)),
      (''source_resource_id'', json_option JStr (nc_source_resource_id n)),
      (''source_owner_identity_id'', json_option JStr (nc_source_owner_identity_id n)),
      (''source_mutation'', json_option JStr (nc_source_mutation n))]"

definition rule_fingerprint :: "(str \<Rightarrow> str) \<Rightarrow> permission_contract \<Rightarrow> str \<Rightarrow> int \<Rightarrow> permission_rule \<Rightarrow> str" where
  "rule_fingerprint sha c engine seed r = permission_model_sha256 sha (JObj
     [(''contract_id'', JStr (contract_id c)), (''rule'', rule_json r),
      (''engine_version'', JStr engine), (''seed'', JInt seed)])"

definition normalized_case_of ::
    "(str \<Rightarrow> str) \<Rightarrow> permission_contract \<Rightarrow> str \<Rightarrow> int \<Rightarrow> permission_rule \<Rightarrow> normalized_case" where
  "normalized_case_of sha c engine seed r =
     (let f = rule_fingerprint sha c engine seed r in
      \<lparr>nc_case_id = ''case-'' @ take 32 f, nc_fingerprint = f, nc_contract_id = contract_id c,
       nc_rule_id = rule_id r, nc_subject_id = rule_subject_id r, nc_action_id = rule_action_id r,
       nc_resource_id = rule_resource_id r, nc_relation_path = rule_relation_path r,
       nc_context = rule_context r, nc_expected = rule_expectation r, nc_observations = rule_observations r,
       nc_seed = seed, nc_engine_version = engine, nc_source_case_id = None, nc_source_step_id = None,
       nc_source_identity_id = None, nc_source_resource_id = None, nc_source_owner_identity_id = None,
       nc_source_mutation = None\<rparr>)"

definition compile_permission_plan ::
    "(str \<Rightarrow> str) \<Rightarrow> permission_contract \<Rightarrow> str \<Rightarrow> int \<Rightarrow> normalized_plan checked" where
  "compile_permission_plan sha c engine seed =
     (let cases = map (normalized_case_of sha c engine seed) (rules c);
          case_errors = first_failure (map normalized_case_errors cases);
          plan = \<lparr>np_plan_id = ''plan-'' @ take 32 (permission_model_sha256 sha (JArr (map normalized_case_json cases))),
                  np_contract_id = contract_id c, np_seed = seed, np_engine_version = engine, np_cases = cases\<rparr>
      in if case_errors \<noteq> [] then Inl case_errors else checked (normalized_plan_errors plan) (normalized_plan_norm plan))"

subsection \<open>Every case and the plan are well formed\<close>

lemma hex_char_id: "is_hex c \<Longrightarrow> is_lower c \<or> is_digit c"
  by (auto simp: is_hex_def is_lower_def Let_def)

lemma prefixed_hex_id:
  assumes "hex_text 32 h"
  shows "intent_id (''case-'' @ h)" "intent_id (''plan-'' @ h)"
  using assms hex_char_id
  by (fastforce simp: hex_text_def intent_id_def list_all_iff is_lower_def is_digit_def)+

context digest
begin

lemma case_of_ok:
  assumes c: "contract_field_errors c = []" and r: "r \<in> set (rules c)" and e: "intent_text engine"
  shows "normalized_case_errors (normalized_case_of sha c engine seed r) = []"
proof -
  from c r have re: "rule_errors r = []" and ci: "intent_id (contract_id c)"
    by (auto simp: contract_field_errors_def guard_simps)
  have f: "hex_text 64 (rule_fingerprint sha c engine seed r)"
    "hex_text 32 (take 32 (rule_fingerprint sha c engine seed r))"
    unfolding rule_fingerprint_def by (rule model_digest_hex short_digest_hex)+
  have len: "length engine \<le> 128" "engine \<noteq> []"
    using e unfolding intent_text_def by (auto dest: headed_length)
  from re ci f len e prefixed_hex_id show ?thesis
    unfolding normalized_case_errors_def normalized_case_of_def Let_def
    by (simp add: rule_errors_def observations_field_def guard_simps ball_Un optional_field_def Suc_le_eq)
qed

lemma compile_outcome:
  assumes c: "contract_field_errors c = []" and e: "intent_text engine"
  shows "compile_permission_plan sha c engine seed =
     (let cases = map (normalized_case_of sha c engine seed) (rules c);
          plan = \<lparr>np_plan_id = ''plan-'' @ take 32 (permission_model_sha256 sha (JArr (map normalized_case_json cases))),
                  np_contract_id = contract_id c, np_seed = seed, np_engine_version = engine, np_cases = cases\<rparr>
      in if distinct (map nc_case_id cases) then Inr (normalized_plan_norm plan)
         else Inl [''normalized case IDs must be unique''])"
proof -
  have ok: "first_failure (map normalized_case_errors (map (normalized_case_of sha c engine seed) (rules c))) = []"
    using case_of_ok [OF c _ e] by (simp add: first_failure_Nil)
  have len: "length engine \<le> 128" "engine \<noteq> []"
    using e unfolding intent_text_def by (auto dest: headed_length)
  have fields: "intent_id (contract_id c)" "Suc 0 \<le> length (rules c)" "length (rules c) \<le> 8192"
    using c by (auto simp: contract_field_errors_def guard_simps Suc_le_eq)
  have plan: "intent_id (''plan-'' @ take 32 (permission_model_sha256 sha v))" for v
    by (rule prefixed_hex_id) (rule short_digest_hex)
  show ?thesis
    unfolding compile_permission_plan_def Let_def ok
    using fields len e plan
    by (simp add: checked_def normalized_plan_errors_def after_fields_def guard_simps ball_Un Suc_le_eq
        normalized_plan_norm_def field_error_def [of "[_]"] has_duplicates_iff)
qed

end

end
