(* ===== verification/Sample.thy ===== *)
theory Sample
  imports ContractFacts
begin

section \<open>A concrete contract\<close>

text \<open>
  A small document workflow used by the witnesses: Alice owns a draft she may edit, Bob works in
  the same tenant and department, and a second document is already published.
\<close>

definition person :: "str \<Rightarrow> int \<Rightarrow> subject_definition" where
  "person i n = \<lparr>subject_id = i, subject_roles = [''member''], subject_tenant = Some ''acme'',
     subject_department = Some ''sales'', admin_level = n, parent_subject_id = None\<rparr>"

definition document :: "str \<Rightarrow> str option \<Rightarrow> str \<Rightarrow> resource_definition" where
  "document i owner state = \<lparr>resource_id = i, resource_type = ''document'', resource_tenant = Some ''acme'',
     resource_department = Some ''sales'', owner_subject_id = owner, parent_resource_id = None,
     resource_workflow_state = state\<rparr>"

definition owns_draft :: relation_fact where
  "owns_draft = \<lparr>relation_id = ''owns-1'', relation_kind = OWNS,
     relation_source = \<lparr>endpoint_type = Subject, endpoint_id = ''alice''\<rparr>,
     relation_target = \<lparr>endpoint_type = Resource, endpoint_id = ''doc-1''\<rparr>\<rparr>"

definition edit_action :: action_definition where
  "edit_action = \<lparr>action_id = ''edit'', action_effect_ids = [''changed''], is_batch = False,
     action_transition = Some \<lparr>allowed_from_states = [''draft''], target_state = ''published''\<rparr>\<rparr>"

definition changed_effect :: effect_definition where
  "changed_effect = \<lparr>effect_id = ''changed'', effect_kind = STATE_MUTATION, effect_resource_type = ''document'',
     expected_state = Some ''published'', protected_fields = []\<rparr>"

definition edit_rule :: permission_rule where
  "edit_rule = \<lparr>rule_id = ''rule-1'', rule_subject_id = ''alice'', rule_action_id = ''edit'',
     rule_resource_id = ''doc-1'', rule_relation_path = [''owns-1''], rule_context = empty_context,
     rule_expectation = ALLOW, rule_observations = [''resource_state''],
     rule_dimensions = [RELATION, WORKFLOW], rule_severity = High\<rparr>"

definition sample_contract :: permission_contract where
  "sample_contract = \<lparr>contract_id = ''documents'', contract_version = 1, role_ids = [''member''],
     workflow_states = [''draft'', ''published''],
     subjects = [person ''alice'' 0, person ''bob'' 0], effects = [changed_effect], actions = [edit_action],
     resources = [document ''doc-1'' (Some ''alice'') ''draft'', document ''doc-2'' None ''published''],
     relations = [owns_draft], rules = [edit_rule], batch_rules = []\<rparr>"

lemmas sample_defs = person_def document_def owns_draft_def edit_action_def changed_effect_def
  edit_rule_def sample_contract_def empty_context_def

lemma id_not_secret:
  "intent_id v \<Longrightarrow> \<not> secret_or_url v" "workflow_state_id v \<Longrightarrow> \<not> secret_or_url v"
  by (simp_all add: intent_id_inert workflow_state_inert inert_not_secret)

lemmas pattern_defs = intent_id_def intent_text_def workflow_state_id_def is_lower_def is_upper_def is_digit_def

lemma sample_fields: "contract_field_errors sample_contract = []"
proof -
  have ids: "intent_id ''document''" "workflow_state_id ''draft''" "workflow_state_id ''published''"
    by (simp_all add: pattern_defs)
  show ?thesis
    unfolding contract_field_errors_def model_error_defs
    by (simp add: guard_simps sample_defs ids id_not_secret) (simp add: pattern_defs)
qed

lemma sample_norm: "contract_field_norm sample_contract = sample_contract"
  by code_simp

lemma sample_accepted: "accepted sample_contract"
  unfolding accepted_def by code_simp

lemma sample_valid: "validate_contract sample_contract = Inr sample_contract"
proof -
  have "contract_sort sample_contract = sample_contract" by code_simp
  then show ?thesis
    by (simp add: validate_contract_Inr sample_fields sample_norm sample_accepted)
qed

text \<open>The same contract with a second rule for the same permission.\<close>

definition second_rule :: permission_rule where
  "second_rule = edit_rule\<lparr>rule_id := ''rule-2''\<rparr>"

definition twin_contract :: permission_contract where
  "twin_contract = sample_contract\<lparr>rules := [edit_rule, second_rule]\<rparr>"

lemma twin_fields: "contract_field_errors twin_contract = []"
proof -
  have ids: "intent_id ''document''" "workflow_state_id ''draft''" "workflow_state_id ''published''"
    by (simp_all add: pattern_defs)
  show ?thesis
    unfolding contract_field_errors_def model_error_defs
    by (simp add: guard_simps sample_defs twin_contract_def second_rule_def ids id_not_secret) (simp add: pattern_defs)
qed

lemma twin_accepted: "accepted twin_contract"
  unfolding accepted_def by code_simp

lemma twin_valid: "validate_contract twin_contract = Inr twin_contract"
proof -
  have "contract_field_norm twin_contract = twin_contract" "contract_sort twin_contract = twin_contract" by code_simp+
  then show ?thesis by (simp add: validate_contract_Inr twin_fields twin_accepted)
qed

end
