(* ===== verification/ContractProperties.thy ===== *)
theory ContractProperties
  imports ContractErrors PermissionPlan Sample Sha256
begin

section \<open>Properties of permission contracts\<close>

text \<open>
  The properties of the contract validator and of the plan compiled from an accepted contract, each
  a few steps over the block lemmas of the theories it imports.
\<close>

lemma rule_grounded_reordered:
  assumes "unique_ids c" and "reordered c d" and "rule_grounded c r"
  shows "rule_grounded d r"
  using assms(3) unfolding rule_grounded_def coverage_agrees_def reordered_dicts [OF assms(1,2)] reordered_fields [OF assms(2)] .

text \<open>C1: in every accepted contract each rule's subject, action and resource are declared, the rule
  does not cross a declared tenant or department, and agrees with its context: subject and resource
  lie in the tenants and the departments it names, the resource and its state are among those it
  names. A rule without coverage dimensions allows an action that only discloses data, the workflow
  dimension needs an action with a transition, started from an allowed state where the rule allows it.
  The relation path is a repetition-free chain of declared relations that leads from the subject to
  the resource.\<close>

theorem accepted_rules_grounded:
  assumes "validate_contract c = Inr d" and "r \<in> set (rules d)"
  shows "rule_grounded d r"
proof -
  let ?c = "contract_field_norm c"
  from assms(1) have a: "accepted ?c" and d: "d = contract_sort ?c"
    by (auto simp: validate_contract_Inr)
  from a have "\<forall>q \<in> set (rules ?c). rule_grounded ?c q"
    using rule_guards_grounded unfolding accepted_iff by blast
  with assms(2) show ?thesis
    using rule_grounded_reordered [OF accepted_unique_ids [OF a] reordered_sort] by (simp add: d)
qed

theorem accepted_rules_grounded_witness: "rule_grounded sample_contract edit_rule"
  by (rule accepted_rules_grounded [OF sample_valid]) (simp add: sample_contract_def)

text \<open>C2: the depth first check of a declared graph raises exactly when the graph has a cycle, in
  whatever order nodes and children are visited, and it always terminates.\<close>

theorem cycle_check_exact: "reject_cycles g \<longleftrightarrow> \<not> acyclic (edges g)"
  using acyclic_iff_reject by blast

text \<open>In an accepted contract the parent graphs of subjects and resources and the graphs of the
  three hierarchical relation types are acyclic.\<close>

theorem accepted_hierarchies_acyclic:
  assumes "validate_contract c = Inr d"
  shows "acyclic (parent_pairs subject_id parent_subject_id (subjects d)) \<and>
    acyclic (parent_pairs resource_id parent_resource_id (resources d)) \<and>
    acyclic (relation_pairs d MANAGES) \<and> acyclic (relation_pairs d INHERITS) \<and>
    acyclic (relation_pairs d PARENT_OF)"
proof -
  let ?c = "contract_field_norm c"
  from assms have a: "accepted d"
    using accepted_reordered reordered_sort by (auto simp: validate_contract_Inr)
  then have "distinct (map subject_id (subjects d))" "distinct (map resource_id (resources d))"
    using accepted_unique_ids by (auto simp: unique_ids_def)
  with a show ?thesis
    unfolding accepted_iff by (simp add: graph_guards_ok hierarchical_def)
qed

theorem accepted_hierarchies_acyclic_witness:
  "acyclic (relation_pairs sample_contract MANAGES) \<and>
   acyclic (parent_pairs subject_id parent_subject_id (subjects sample_contract))"
  using accepted_hierarchies_acyclic [OF sample_valid] by blast

text \<open>C3: an accepted contract never both allows and denies the same permission: two rules with the
  same subject, action, resource, relation path and context have the same expectation.\<close>

theorem accepted_rules_consistent:
  assumes "validate_contract c = Inr d" and "r \<in> set (rules d)" and "q \<in> set (rules d)"
    and "rule_subject_id r = rule_subject_id q" and "rule_action_id r = rule_action_id q"
    and "rule_resource_id r = rule_resource_id q" and "rule_relation_path r = rule_relation_path q"
    and "rule_context r = rule_context q"
  shows "rule_expectation r = rule_expectation q"
proof -
  from assms(1) have "accepted d"
    using accepted_reordered reordered_sort by (auto simp: validate_contract_Inr)
  then have c: "\<forall>g \<in> set (conflict_guards d). \<not> fst g" unfolding accepted_iff by blast
  note c [unfolded conflict_guards_ok, THEN conjunct1, THEN bspec, OF assms(2), THEN bspec, OF assms(3)]
  then show ?thesis using assms(4-) by (elim mp) simp
qed

theorem accepted_rules_consistent_witness:
  "rule_id edit_rule \<noteq> rule_id second_rule \<and> rule_expectation edit_rule = rule_expectation second_rule"
proof -
  have "rule_expectation edit_rule = rule_expectation second_rule"
    by (rule accepted_rules_consistent [OF twin_valid]) (simp_all add: twin_contract_def second_rule_def edit_rule_def)
  then show ?thesis by (simp add: second_rule_def edit_rule_def)
qed

text \<open>C4: validation is stable: the contract the validator returns is accepted again and returned
  unchanged, so a stored contract means the same at every later read.\<close>

theorem accepted_contract_stable:
  assumes "validate_contract c = Inr d"
  shows "validate_contract d = Inr d"
proof -
  let ?c = "contract_field_norm c"
  from assms have e: "contract_field_errors c = []" and a: "accepted ?c" and d: "d = contract_sort ?c"
    by (auto simp: validate_contract_Inr)
  have "accepted d" unfolding d by (rule accepted_reordered [OF a reordered_sort])
  then show ?thesis
    unfolding validate_contract_Inr using field_errors_stored [OF e] by (simp add: d field_norm_fixed)
qed

theorem accepted_contract_stable_witness: "validate_contract sample_contract = Inr sample_contract"
  by (rule accepted_contract_stable [OF sample_valid])

text \<open>C5: the order in which a document lists its subjects, actions, resources, relations and rules
  does not matter: a reordered document is accepted too, and gives the very same contract.\<close>

theorem contract_order_irrelevant:
  assumes "validate_contract c = Inr d" and "reordered c c'"
  shows "validate_contract c' = Inr d"
proof -
  let ?c = "contract_field_norm c" and ?c' = "contract_field_norm c'"
  from assms(1) have e: "contract_field_errors c = []" and a: "accepted ?c" and d: "d = contract_sort ?c"
    by (auto simp: validate_contract_Inr)
  note r = field_norm_reordered [OF assms(2)]
  have "contract_sort ?c' = d"
    unfolding d by (rule contract_sort_reordered [OF accepted_unique_ids [OF a] r])
  with e a show ?thesis
    by (simp add: validate_contract_Inr field_errors_reordered [OF assms(2)] accepted_reordered [OF a r])
qed

definition shuffled_contract :: permission_contract where
  "shuffled_contract = sample_contract\<lparr>subjects := rev (subjects sample_contract),
     resources := rev (resources sample_contract)\<rparr>"

theorem contract_order_irrelevant_witness: "validate_contract shuffled_contract = Inr sample_contract"
  by (rule contract_order_irrelevant [OF sample_valid]) (simp add: reordered_def shuffled_contract_def)

text \<open>C6: the validator reports every refusal as a validation error except one: a bare
  \<open>KeyError\<close> escapes only when the relation path of a batch rule names an undeclared relation.\<close>

theorem key_error_only_from_batch_paths:
  assumes "validate_contract c = Inl KeyError"
  shows "\<exists>b \<in> set (batch_rules c). \<exists>i \<in> set (batch_items b). \<exists>l \<in> set (batch_relation_path i).
    l \<notin> relation_id ` set (relations c)"
proof -
  let ?c = "contract_field_norm c"
  from assms have "first_error (contract_guards ?c) = Some key_error"
    by (auto simp: validate_contract_def Let_def raised_def split: if_splits option.splits)
  from contract_key_error [OF this] obtain b i l where
    "b \<in> set (batch_rules ?c)" "i \<in> set (batch_items b)" "l \<in> set (batch_relation_path i)"
    "relation_dict ?c l = None" by blast
  then show ?thesis
    by (auto simp: contract_field_norm_def batch_rule_norm_def dict_simps) blast
qed

definition dangling_batch_contract :: permission_contract where
  "dangling_batch_contract = sample_contract\<lparr>
     actions := [edit_action, \<lparr>action_id = ''edit-all'', action_effect_ids = [''changed''], is_batch = True,
       action_transition = None\<rparr>],
     batch_rules := [\<lparr>batch_rule_id = ''batch-1'', batch_subject_id = ''alice'', batch_action_id = ''edit-all'',
       batch_items = [\<lparr>batch_resource_id = ''doc-1'', batch_expectation = ALLOW, batch_relation_path = [''owns-9'']\<rparr>,
                      \<lparr>batch_resource_id = ''doc-2'', batch_expectation = DENY, batch_relation_path = []\<rparr>],
       batch_observations = [''resource_state''], batch_context = empty_context, batch_atomic = True,
       batch_dimensions = [BULK], batch_severity = High\<rparr>]\<rparr>"

lemma dangling_batch_fields: "contract_field_errors dangling_batch_contract = []"
proof -
  have ids: "intent_id ''document''" "workflow_state_id ''draft''" "workflow_state_id ''published''"
    by (simp_all add: pattern_defs)
  show ?thesis
    unfolding contract_field_errors_def model_error_defs dangling_batch_contract_def
    by (simp add: guard_simps sample_defs ids id_not_secret) (simp add: pattern_defs)
qed

text \<open>Such a batch rule does make a bare \<open>KeyError\<close> escape, on a contract whose fields
  are all accepted; the same mistake in an ordinary rule is a validation error.\<close>

theorem batch_path_key_error:
  "contract_field_errors dangling_batch_contract = [] \<and> validate_contract dangling_batch_contract = Inl KeyError"
proof -
  have "first_error (contract_guards (contract_field_norm dangling_batch_contract)) = Some key_error"
    by code_simp
  then show ?thesis by (simp add: validate_contract_def dangling_batch_fields raised_def)
qed

theorem key_error_only_from_batch_paths_witness:
  "\<exists>b \<in> set (batch_rules dangling_batch_contract). \<exists>i \<in> set (batch_items b). \<exists>l \<in> set (batch_relation_path i).
     l \<notin> relation_id ` set (relations dangling_batch_contract)"
proof (rule key_error_only_from_batch_paths)
  have "first_error (contract_guards (contract_field_norm dangling_batch_contract)) = Some key_error"
    by code_simp
  then show "validate_contract dangling_batch_contract = Inl KeyError"
    by (simp add: validate_contract_def dangling_batch_fields raised_def)
qed

subsection \<open>The plan compiled from an accepted contract\<close>

lemma accepted_field_errors: "validate_contract c = Inr d \<Longrightarrow> contract_field_errors d = []"
  using field_errors_stored by (auto simp: validate_contract_Inr)

text \<open>C7: for an accepted contract and a well formed engine version, compiling returns a plan with
  exactly one case per rule, ordered by fingerprint and with distinct case identifiers; it is refused
  only when two rules' digests agree in their first 32 digits, never for another reason.\<close>

theorem plan_mirrors_rules:
  assumes "validate_contract c = Inr d" and "intent_text engine"
  shows "case compile_permission_plan sha256_hex d engine seed of
      Inl es \<Rightarrow> es = [''normalized case IDs must be unique''] \<and>
        \<not> distinct (map (\<lambda>r. take 32 (rule_fingerprint sha256_hex d engine seed r)) (rules d))
    | Inr p \<Rightarrow> mset (np_cases p) = mset (map (normalized_case_of sha256_hex d engine seed) (rules d)) \<and>
        sorted (map nc_fingerprint (np_cases p)) \<and> distinct (map nc_case_id (np_cases p))"
proof -
  have ids: "map nc_case_id (map (normalized_case_of sha256_hex d engine seed) (rules d)) =
      map (append ''case-'') (map (\<lambda>r. take 32 (rule_fingerprint sha256_hex d engine seed r)) (rules d))"
    by (simp add: normalized_case_of_def Let_def comp_def)
  have inj: "distinct (map (append ''case-'') xs) = distinct xs" for xs
    by (simp add: distinct_map inj_on_def)
  note out = sha256.compile_outcome [OF accepted_field_errors [OF assms(1)] assms(2), of seed]
  show ?thesis
  proof (cases "distinct (map nc_case_id (map (normalized_case_of sha256_hex d engine seed) (rules d)))")
    case True
    then show ?thesis unfolding out Let_def by (simp add: normalized_plan_norm_def)
  next
    case False
    then have "\<not> distinct (map (\<lambda>r. take 32 (rule_fingerprint sha256_hex d engine seed r)) (rules d))"
      unfolding ids inj .
    with False show ?thesis unfolding out Let_def by simp
  qed
qed

theorem plan_mirrors_rules_witness:
  "\<exists>p. compile_permission_plan sha256_hex sample_contract ''engine-1'' 0 = Inr p \<and> length (np_cases p) = 1"
proof -
  have e: "intent_text ''engine-1''" by (simp add: pattern_defs)
  from plan_mirrors_rules [OF sample_valid e, of 0]
  obtain p where "compile_permission_plan sha256_hex sample_contract ''engine-1'' 0 = Inr p"
    "mset (np_cases p) = {#normalized_case_of sha256_hex sample_contract ''engine-1'' 0 edit_rule#}"
    by (auto simp: sample_contract_def split: sum.splits)
  then show ?thesis by (metis size_mset size_single)
qed

end
