(* ===== verification/RelationPath.thy ===== *)
theory RelationPath
  imports ContractFacts
begin

section \<open>The bounded search for a relation path\<close>

text \<open>
  Models \<^verbatim>\<open>_path_index\<close> and \<^verbatim>\<open>_find_path\<close> of
  \<^verbatim>\<open>verification/permissions/coverage.py\<close>: a breadth first search from a subject to a resource
  over the declared relations, cut at a depth. The queue holds endpoints with the path that reached
  them; \<open>visited\<close> grows when an endpoint is queued. The locale \<open>path_finder\<close> states what the
  planner relies on, and the search provides it.
\<close>

definition path_index :: "relation_fact list \<Rightarrow> node \<Rightarrow> relation_fact list" where
  \<comment> \<open>\<open>index.get(endpoint, ())\<close>\<close>
  "path_index rels n =
     sort_key relation_id (filter (\<lambda>r. node_of (relation_source r) = n) rels)"

type_synonym path_queue = "(node \<times> str list) list"

fun expand :: "str list \<Rightarrow> relation_fact list \<Rightarrow> node set \<Rightarrow> path_queue \<Rightarrow> node set \<times> path_queue" where
  "expand path [] visited queue = (visited, queue)"
| "expand path (r # rs) visited queue =
     (let n = node_of (relation_target r) in
      if n \<in> visited then expand path rs visited queue
      else expand path rs (insert n visited) (queue @ [(n, path @ [relation_id r])]))"

definition targets :: "relation_fact list \<Rightarrow> node set" where
  "targets rels = (\<lambda>r. node_of (relation_target r)) ` set rels"

lemma expand_queue:
  "expand path rs V Q = (V', Q') \<Longrightarrow>
     \<exists>new. Q' = Q @ new \<and> V' = V \<union> targets rs \<and> V' = V \<union> fst ` set new \<and> fst ` set new \<inter> V = {} \<and>
       distinct (map fst new) \<and>
       (\<forall>(n, p) \<in> set new. \<exists>r \<in> set rs. node_of (relation_target r) = n \<and> p = path @ [relation_id r])"
proof (induction path rs V Q rule: expand.induct)
  case (2 path r rs V Q)
  show ?case
  proof (cases "node_of (relation_target r) \<in> V")
    case True
    with 2(1) [OF refl True] 2(3) obtain new where
      "Q' = Q @ new" "V' = V \<union> targets rs" "V' = V \<union> fst ` set new" "fst ` set new \<inter> V = {}"
      "distinct (map fst new)"
      "\<forall>(n, p) \<in> set new. \<exists>r \<in> set rs. node_of (relation_target r) = n \<and> p = path @ [relation_id r]"
      by (auto simp: Let_def)
    with True show ?thesis by (intro exI [of _ new]) (auto simp: targets_def)
  next
    case False
    let ?n = "node_of (relation_target r)"
    from False 2(2) [OF refl False] 2(3) obtain new where
      "Q' = (Q @ [(?n, path @ [relation_id r])]) @ new" "V' = insert ?n V \<union> targets rs"
      "V' = insert ?n V \<union> fst ` set new" "fst ` set new \<inter> insert ?n V = {}" "distinct (map fst new)"
      "\<forall>(n, p) \<in> set new. \<exists>r \<in> set rs. node_of (relation_target r) = n \<and> p = path @ [relation_id r]"
      by (auto simp: Let_def)
    with False show ?thesis
      by (intro exI [of _ "(?n, path @ [relation_id r]) # new"]) (auto simp: targets_def)
  qed
qed (simp add: targets_def)

lemma finite_targets [simp]: "finite (targets rels)"
  by (simp add: targets_def)

lemma targets_path_index: "targets (path_index rels n) \<subseteq> targets rels"
  by (auto simp: targets_def path_index_def)

text \<open>Queueing an endpoint takes it off the endpoints still to be visited.\<close>

lemma expand_measure:
  assumes "expand path (path_index rels n) V Q = (V', Q')"
  shows "card (targets rels - V') + length Q' = card (targets rels - V) + length Q"
proof -
  from expand_queue [OF assms] obtain new where
    new: "Q' = Q @ new" "V' = V \<union> fst ` set new" "fst ` set new \<inter> V = {}" "distinct (map fst new)"
    and all: "V' = V \<union> targets (path_index rels n)"
    by blast
  have sub: "fst ` set new \<subseteq> targets rels"
    using new(2,3) all targets_path_index [of rels n] by blast
  have "card (targets rels - V) = card ((targets rels - V) - fst ` set new) + card (fst ` set new)"
  proof -
    have d: "fst ` set new \<subseteq> targets rels - V" using new(3) sub by blast
    then have "card (fst ` set new) \<le> card (targets rels - V)" by (intro card_mono) simp_all
    with d show ?thesis by (simp add: card_Diff_subset)
  qed
  moreover have "(targets rels - V) - fst ` set new = targets rels - V'" using new(2) by auto
  moreover have "card (fst ` set new) = length new"
    using distinct_card [OF new(4)] by simp
  ultimately show ?thesis using new(1) by simp
qed

function search_paths :: "relation_fact list \<Rightarrow> node \<Rightarrow> int \<Rightarrow> node set \<Rightarrow> path_queue \<Rightarrow> str list option" where
  "search_paths rels goal depth visited [] = None"
| "search_paths rels goal depth visited ((endpoint, path) # queue) =
     (if endpoint = goal then Some path
      else if depth \<le> int (length path) then search_paths rels goal depth visited queue
      else let (visited', queue') = expand path (path_index rels endpoint) visited queue
           in search_paths rels goal depth visited' queue')"
  by pat_completeness auto
termination
proof (relation "measure (\<lambda>(rels, _, _, V, Q). card (targets rels - V) + length Q)", goal_cases)
  case (3 rels goal depth visited endpoint path queue x visited' queue')
  then have "expand path (path_index rels endpoint) visited queue = (visited', queue')" by simp
  then show ?case using expand_measure [of path rels endpoint visited queue visited' queue'] by simp
qed auto

definition find_path :: "relation_fact list \<Rightarrow> str \<Rightarrow> str \<Rightarrow> int \<Rightarrow> str list option" where
  "find_path rels subject resource max_relation_depth =
     (if max_relation_depth < 1 then None
      else search_paths rels (Resource, resource) max_relation_depth
             {(Subject, subject)} [((Subject, subject), [])])"

subsection \<open>Chains of relations\<close>

fun linked :: "node \<Rightarrow> relation_fact list \<Rightarrow> node \<Rightarrow> bool" where
  "linked n [] m \<longleftrightarrow> n = m"
| "linked n (r # rs) m \<longleftrightarrow> node_of (relation_source r) = n \<and> linked (node_of (relation_target r)) rs m"

definition route :: "relation_fact list \<Rightarrow> node \<Rightarrow> relation_fact list \<Rightarrow> node \<Rightarrow> bool" where
  "route rels n rs m \<longleftrightarrow> set rs \<subseteq> set rels \<and> linked n rs m"

lemma linked_append: "linked n (rs @ ss) m \<longleftrightarrow> (\<exists>k. linked n rs k \<and> linked k ss m)"
  by (induction rs arbitrary: n) auto

lemma route_Nil [simp]: "route rels n [] m \<longleftrightarrow> n = m"
  by (simp add: route_def)

lemma route_snoc [simp]:
  "route rels n (rs @ [r]) m \<longleftrightarrow>
     route rels n rs (node_of (relation_source r)) \<and> r \<in> set rels \<and> node_of (relation_target r) = m"
  by (simp add: route_def linked_append eq_commute [of m] del: split_paired_Ex) blast

lemma route_chain:
  assumes "distinct (map relation_id rels)" and "route rels n rs m"
  shows "relation_chain (dict_of relation_id rels) n (map relation_id rs) m"
  using assms(2)
proof (induction rs arbitrary: n)
  case (Cons r rs)
  then have "dict_of relation_id rels (relation_id r) = Some r"
    using dict_of_distinct [OF assms(1)] by (simp add: route_def)
  with Cons show ?case by (auto simp: chain_Cons_iff route_def)
qed simp

lemma chain_route:
  "relation_chain (dict_of relation_id rels) n p m \<Longrightarrow> \<exists>rs. route rels n rs m \<and> map relation_id rs = p"
proof (induction rule: relation_chain.induct)
  case (chain_Cons i r n p m)
  then obtain rs where "route rels (node_of (relation_target r)) rs m" "map relation_id rs = p" by blast
  with chain_Cons dict_of_Some [OF chain_Cons(1)] show ?case
    by (intro exI [of _ "r # rs"]) (auto simp: route_def)
qed (auto intro: exI [of _ "[]"])

subsection \<open>The search invariant\<close>

text \<open>
  \<open>D\<close> is the depth at which an endpoint was queued. The queue is ordered by depth and no visited
  endpoint lies more than one step behind its head; an endpoint that left the queue is not the goal
  and, unless it is at the depth limit, all its successors were visited.
\<close>

definition search_inv ::
    "relation_fact list \<Rightarrow> node \<Rightarrow> node \<Rightarrow> int \<Rightarrow> node set \<Rightarrow> path_queue \<Rightarrow> (node \<Rightarrow> nat) \<Rightarrow> bool" where
  "search_inv rels start goal depth V Q D \<longleftrightarrow>
     (\<forall>(n, p) \<in> set Q. n \<in> V \<and> D n = length p \<and> int (length p) \<le> depth \<and>
        (\<exists>rs. route rels start rs n \<and> map relation_id rs = p)) \<and>
     sorted (map (length \<circ> snd) Q) \<and>
     (\<forall>n \<in> V. \<forall>e \<in> set Q. D n \<le> Suc (length (snd e))) \<and>
     start \<in> V \<and> D start = 0 \<and>
     (\<forall>n \<in> V. n \<notin> fst ` set Q \<longrightarrow> n \<noteq> goal \<and>
        (int (D n) < depth \<longrightarrow> (\<forall>r \<in> set rels. node_of (relation_source r) = n \<longrightarrow>
           node_of (relation_target r) \<in> V \<and> D (node_of (relation_target r)) \<le> Suc (D n))))"

lemma search_inv_start:
  "0 \<le> depth \<Longrightarrow> search_inv rels start goal depth {start} [(start, [])] (\<lambda>_. 0)"
  by (auto simp: search_inv_def intro: exI [of _ "[]"])

lemma search_inv_skip:
  assumes "search_inv rels start goal depth V ((n, path) # Q) D" and "n \<noteq> goal" and "depth \<le> int (length path)"
  shows "search_inv rels start goal depth V Q D"
  using assms unfolding search_inv_def by (auto simp: image_iff)

lemma search_inv_expand:
  assumes inv: "search_inv rels start goal depth V ((n, path) # Q) D" and "n \<noteq> goal"
    and "int (length path) < depth" and ex: "expand path (path_index rels n) V Q = (V', Q')"
  shows "search_inv rels start goal depth V' Q' (\<lambda>m. if m \<in> V then D m else Suc (length path))"
    (is "search_inv _ _ _ _ _ _ ?D")
proof -
  from expand_queue [OF ex] obtain new where
    new: "Q' = Q @ new" "V' = V \<union> targets (path_index rels n)" "V' = V \<union> fst ` set new"
      "fst ` set new \<inter> V = {}"
    and steps: "\<forall>(m, p) \<in> set new. \<exists>r \<in> set (path_index rels n).
      node_of (relation_target r) = m \<and> p = path @ [relation_id r]"
    by blast
  from inv have n: "n \<in> V" "D n = length path" "\<exists>rs. route rels start rs n \<and> map relation_id rs = path"
    and old: "\<forall>(m, p) \<in> set Q. m \<in> V \<and> D m = length p \<and> int (length p) \<le> depth \<and>
        (\<exists>rs. route rels start rs m \<and> map relation_id rs = p)"
    and sorted: "sorted (map (length \<circ> snd) Q)" "\<forall>e \<in> set Q. length path \<le> length (snd e)"
    and behind: "\<forall>m \<in> V. D m \<le> Suc (length path)"
    and start: "start \<in> V" "D start = 0"
    and done': "\<forall>m \<in> V. m \<noteq> n \<and> m \<notin> fst ` set Q \<longrightarrow> m \<noteq> goal \<and>
        (int (D m) < depth \<longrightarrow> (\<forall>r \<in> set rels. node_of (relation_source r) = m \<longrightarrow>
           node_of (relation_target r) \<in> V \<and> D (node_of (relation_target r)) \<le> Suc (D m)))"
    unfolding search_inv_def by auto
  have len: "\<forall>(m, p) \<in> set new. length p = Suc (length path)" using steps by fastforce
  have q_new: "\<forall>(m, p) \<in> set new. m \<in> V' \<and> ?D m = length p \<and> int (length p) \<le> depth \<and>
      (\<exists>rs. route rels start rs m \<and> map relation_id rs = p)"
  proof (intro ballI, clarify)
    fix m p assume e: "(m, p) \<in> set new"
    then obtain r where r: "r \<in> set (path_index rels n)" "node_of (relation_target r) = m"
        "p = path @ [relation_id r]"
      using steps by blast
    from n(3) obtain rs where "route rels start rs n" "map relation_id rs = path" by blast
    with r have "route rels start (rs @ [r]) m \<and> map relation_id (rs @ [r]) = p"
      by (auto simp: path_index_def)
    moreover have "m \<in> V'" "m \<notin> V" using e new(3,4) by force+
    ultimately show "m \<in> V' \<and> ?D m = length p \<and> int (length p) \<le> depth \<and>
        (\<exists>rs. route rels start rs m \<and> map relation_id rs = p)"
      using r(3) assms(3) by (auto simp del: route_snoc)
  qed
  have q_old: "\<forall>(m, p) \<in> set Q. m \<in> V' \<and> ?D m = length p \<and> int (length p) \<le> depth \<and>
      (\<exists>rs. route rels start rs m \<and> map relation_id rs = p)"
    using old new(3) by auto
  have srt: "sorted (map (length \<circ> snd) Q')"
    unfolding new(1) map_append sorted_append
  proof (intro conjI ballI)
    show "sorted (map (length \<circ> snd) Q)" by (rule sorted(1))
    have "map (length \<circ> snd) new = replicate (length new) (Suc (length path))"
      using len by (intro replicate_eqI) auto
    then show "sorted (map (length \<circ> snd) new)" by simp
    fix a b
    assume "a \<in> set (map (length \<circ> snd) Q)" and "b \<in> set (map (length \<circ> snd) new)"
    then obtain e f where ef: "e \<in> set Q" "a = length (snd e)" "f \<in> set new" "b = length (snd f)" by auto
    with len have "b = Suc (length path)" by (cases f) auto
    moreover have "a \<le> Suc (length path)"
    proof -
      obtain m q where e: "e = (m, q)" by (cases e)
      with ef(1) old have "m \<in> V" "D m = length q" by auto
      with behind e ef(2) show ?thesis by force
    qed
    ultimately show "a \<le> b" by simp
  qed
  have near: "\<forall>m \<in> V'. \<forall>e \<in> set Q'. ?D m \<le> Suc (length (snd e))"
  proof (intro ballI)
    fix m e assume m: "m \<in> V'" and e: "e \<in> set Q'"
    have "length path \<le> length (snd e)"
    proof (cases "e \<in> set Q")
      case False
      with e new(1) have "(fst e, snd e) \<in> set new" by simp
      with len show ?thesis by fastforce
    qed (simp add: sorted(2))
    moreover have "?D m \<le> Suc (length path)" using behind by simp
    ultimately show "?D m \<le> Suc (length (snd e))" by linarith
  qed
  have expanded: "\<forall>r \<in> set rels. node_of (relation_source r) = n \<longrightarrow> node_of (relation_target r) \<in> V'"
    unfolding new(2) by (auto simp: targets_def path_index_def)
  have left: "m \<noteq> goal \<and> (int (?D m) < depth \<longrightarrow> (\<forall>r \<in> set rels. node_of (relation_source r) = m \<longrightarrow>
           node_of (relation_target r) \<in> V' \<and> ?D (node_of (relation_target r)) \<le> Suc (?D m)))"
    if m: "m \<in> V'" "m \<notin> fst ` set Q'" for m
  proof -
    have mV: "m \<in> V" "m \<notin> fst ` set Q" using m new(1,3) by auto
    show ?thesis
    proof (cases "m = n")
      case True
      with expanded behind n assms(2) show ?thesis by auto
    next
      case False
      with done' mV have "m \<noteq> goal" "int (D m) < depth \<longrightarrow> (\<forall>r \<in> set rels. node_of (relation_source r) = m \<longrightarrow>
           node_of (relation_target r) \<in> V \<and> D (node_of (relation_target r)) \<le> Suc (D m))"
        by blast+
      with mV(1) new(3) show ?thesis by simp
    qed
  qed
  show ?thesis
    unfolding search_inv_def using q_new q_old srt near start left new(1,3) by auto
qed

text \<open>Endpoints closer than the head of the queue were visited at their distance.\<close>

lemma search_inv_near:
  assumes inv: "search_inv rels start goal depth V Q D" and "route rels start rs n"
    and "\<forall>e \<in> set Q. length rs \<le> length (snd e)" and "int (length rs) \<le> depth"
  shows "n \<in> V \<and> D n \<le> length rs"
  using assms(2-)
proof (induction rs arbitrary: n rule: rev_induct)
  case Nil
  with inv show ?case by (simp add: search_inv_def)
next
  case (snoc r rs)
  let ?m = "node_of (relation_source r)"
  from snoc have m: "?m \<in> V" "D ?m \<le> length rs" by (fastforce dest: Suc_leD)+
  have "?m \<notin> fst ` set Q"
  proof
    assume "?m \<in> fst ` set Q"
    then obtain p where e: "(?m, p) \<in> set Q" by auto
    from inv have "\<forall>(n, p) \<in> set Q. D n = length p" unfolding search_inv_def by auto
    with e have "D ?m = length p" by auto
    with m(2) snoc(3) e show False by fastforce
  qed
  moreover have "int (D ?m) < depth" using m(2) snoc(4) by simp
  ultimately have "node_of (relation_target r) \<in> V \<and> D (node_of (relation_target r)) \<le> Suc (D ?m)"
    using inv m(1) snoc(2) unfolding search_inv_def route_snoc by blast
  with snoc(2) m(2) show ?case by auto
qed

lemma search_paths_exact:
  assumes "search_inv rels start goal depth V Q D"
  shows "case search_paths rels goal depth V Q of
      Some p \<Rightarrow> (\<exists>rs. route rels start rs goal \<and> map relation_id rs = p) \<and> int (length p) \<le> depth \<and>
        (\<forall>rs. route rels start rs goal \<longrightarrow> length p \<le> length rs)
    | None \<Rightarrow> (\<forall>rs. route rels start rs goal \<longrightarrow> depth < int (length rs))"
  using assms
proof (induction rels goal depth V Q arbitrary: D rule: search_paths.induct)
  case (1 rels goal depth V)
  have "depth < int (length rs)" if "route rels start rs goal" for rs
  proof (rule ccontr)
    assume "\<not> depth < int (length rs)"
    then have "goal \<in> V" using search_inv_near [OF 1 that] by simp
    with 1 show False unfolding search_inv_def by auto
  qed
  then show ?case by simp
next
  case (2 rels goal depth V n path Q)
  show ?case
  proof (cases "n = goal")
    case True
    have "length path \<le> length rs" if r: "route rels start rs goal" for rs
    proof (rule ccontr)
      assume s: "\<not> length path \<le> length rs"
      from 2(3) have b: "D goal = length path" "int (length path) \<le> depth"
          "\<forall>e \<in> set ((n, path) # Q). length path \<le> length (snd e)"
        using True unfolding search_inv_def by auto
      with s have "\<forall>e \<in> set ((n, path) # Q). length rs \<le> length (snd e)" by (metis le_trans nat_le_linear)
      with search_inv_near [OF 2(3) r] s b show False by simp
    qed
    with True 2(3) show ?thesis unfolding search_inv_def by auto
  next
    case False
    show ?thesis
    proof (cases "depth \<le> int (length path)")
      case True
      with 2(1) [OF False True search_inv_skip [OF 2(3) False True]] False show ?thesis by simp
    next
      case deep: False
      obtain V' Q' where ex: "expand path (path_index rels n) V Q = (V', Q')" by (cases "expand path (path_index rels n) V Q")
      with deep 2(2) [OF False deep ex [symmetric] refl search_inv_expand [OF 2(3) False _ ex]] False
      show ?thesis by simp
    qed
  qed
qed

subsection \<open>What the planner relies on\<close>

locale path_finder =
  fixes find :: "relation_fact list \<Rightarrow> str \<Rightarrow> str \<Rightarrow> int \<Rightarrow> str list option"
  assumes found: "find rels s r d = Some p \<Longrightarrow>
      \<exists>rs. route rels (Subject, s) rs (Resource, r) \<and> map relation_id rs = p"
    and within: "find rels s r d = Some p \<Longrightarrow> int (length p) \<le> d"
    and shortest: "find rels s r d = Some p \<Longrightarrow> route rels (Subject, s) rs (Resource, r) \<Longrightarrow> length p \<le> length rs"
    and missed: "find rels s r d = None \<Longrightarrow> route rels (Subject, s) rs (Resource, r) \<Longrightarrow> d < int (length rs)"
begin

lemma finds_iff: "(\<exists>p. find rels s r d = Some p) \<longleftrightarrow>
    (\<exists>rs. route rels (Subject, s) rs (Resource, r) \<and> int (length rs) \<le> d)"
  using found within missed by (metis length_map not_None_eq not_le)

lemma found_chain:
  assumes "distinct (map relation_id rels)" and "find rels s r d = Some p"
  shows "relation_chain (dict_of relation_id rels) (Subject, s) p (Resource, r)"
  using found [OF assms(2)] route_chain [OF assms(1)] by blast

lemma unprovable:
  assumes "find rels s r d = None" and "relation_chain (dict_of relation_id rels) (Subject, s) p (Resource, r)"
  shows "d < int (length p)"
  using chain_route [OF assms(2)] missed [OF assms(1)] by auto

lemma no_shorter_chain:
  assumes "find rels s r d = Some p" and "relation_chain (dict_of relation_id rels) (Subject, s) q (Resource, r)"
  shows "length p \<le> length q"
  using chain_route [OF assms(2)] shortest [OF assms(1)] by force

end

lemma find_path_exact:
  "case find_path rels s r d of
      Some p \<Rightarrow> (\<exists>rs. route rels (Subject, s) rs (Resource, r) \<and> map relation_id rs = p) \<and> int (length p) \<le> d \<and>
        (\<forall>rs. route rels (Subject, s) rs (Resource, r) \<longrightarrow> length p \<le> length rs)
    | None \<Rightarrow> (\<forall>rs. route rels (Subject, s) rs (Resource, r) \<longrightarrow> d < int (length rs))"
proof (cases "d < 1")
  case True
  have "rs \<noteq> []" if "route rels (Subject, s) rs (Resource, r)" for rs using that by (cases rs) auto
  then have "d < int (length rs)" if "route rels (Subject, s) rs (Resource, r)" for rs
    using that True by (cases rs) force+
  with True show ?thesis by (simp add: find_path_def)
next
  case False
  then show ?thesis
    using search_paths_exact [OF search_inv_start, of d rels "(Subject, s)" "(Resource, r)"]
    by (simp add: find_path_def)
qed

interpretation paths: path_finder find_path
proof unfold_locales
  fix rels s r d p rs
  note e = find_path_exact [of rels s r d]
  show "find_path rels s r d = Some p \<Longrightarrow>
      \<exists>rs. route rels (Subject, s) rs (Resource, r) \<and> map relation_id rs = p"
    and "find_path rels s r d = Some p \<Longrightarrow> int (length p) \<le> d"
    and "find_path rels s r d = Some p \<Longrightarrow> route rels (Subject, s) rs (Resource, r) \<Longrightarrow> length p \<le> length rs"
    and "find_path rels s r d = None \<Longrightarrow> route rels (Subject, s) rs (Resource, r) \<Longrightarrow> d < int (length rs)"
    using e by auto
qed

end
