(* ===== verification/CoverageModels.thy ===== *)
theory CoverageModels
  imports RelationPath "HOL-Library.Product_Lexorder"
begin

section \<open>Mutation cases, coverage records and plans\<close>

text \<open>
  Models the data classes of \<^verbatim>\<open>verification/permissions/coverage.py\<close> with their field
  constraints, the private \<^verbatim>\<open>_Candidate\<close>, and the JSON trees their fingerprints are taken of.
\<close>

datatype coverage_gap_code =
    MISSING_SUBJECT | MISSING_RESOURCE | MISSING_OBSERVER | RELATION_UNPROVABLE
  | BUDGET_EXCEEDED | RELATION_DEPTH_EXCEEDED

datatype eliminated_reason = DUPLICATE_SEMANTICS | OVER_BUDGET

datatype coverage_status = COVERED | GAP

datatype retention_reason =
    EXPLICIT_ALLOW_BASELINE | EXPLICIT_DENY_RISK | RECENT_NEIGHBOR | BATCH_AUTHORIZATION

fun gap_code_value :: "coverage_gap_code \<Rightarrow> str" where
  "gap_code_value MISSING_SUBJECT = ''MISSING_SUBJECT''"
| "gap_code_value MISSING_RESOURCE = ''MISSING_RESOURCE''"
| "gap_code_value MISSING_OBSERVER = ''MISSING_OBSERVER''"
| "gap_code_value RELATION_UNPROVABLE = ''RELATION_UNPROVABLE''"
| "gap_code_value BUDGET_EXCEEDED = ''BUDGET_EXCEEDED''"
| "gap_code_value RELATION_DEPTH_EXCEEDED = ''RELATION_DEPTH_EXCEEDED''"

fun eliminated_value :: "eliminated_reason \<Rightarrow> str" where
  "eliminated_value DUPLICATE_SEMANTICS = ''DUPLICATE_SEMANTICS''"
| "eliminated_value OVER_BUDGET = ''BUDGET_EXCEEDED''"

fun status_value :: "coverage_status \<Rightarrow> str" where
  "status_value COVERED = ''COVERED''"
| "status_value GAP = ''GAP''"

fun retention_value :: "retention_reason \<Rightarrow> str" where
  "retention_value EXPLICIT_ALLOW_BASELINE = ''EXPLICIT_ALLOW_BASELINE''"
| "retention_value EXPLICIT_DENY_RISK = ''EXPLICIT_DENY_RISK''"
| "retention_value RECENT_NEIGHBOR = ''RECENT_NEIGHBOR''"
| "retention_value BATCH_AUTHORIZATION = ''BATCH_AUTHORIZATION''"

type_synonym coverage_target = "str \<times> coverage_dimension option \<times> permission_expectation option"

record mutation_case =
  mc_case_id :: str
  mc_fingerprint :: str
  mc_finding_identity :: str
  mc_source_rule_ids :: "str list"
  mc_dimensions :: "coverage_dimension list"
  mc_retention :: retention_reason
  mc_subject_id :: str
  mc_action_id :: str
  mc_resource_ids :: "str list"
  mc_expectations :: "permission_expectation list"
  mc_relation_paths :: "str list list"
  mc_context :: permission_context
  mc_observations :: "str list"
  mc_batch_mode :: "batch_authorization_mode option"
  mc_atomic :: bool

definition prefixed_hex :: "str \<Rightarrow> str \<Rightarrow> bool" where
  "prefixed_hex prefix s \<longleftrightarrow> take (length prefix) s = prefix \<and> hex_text 32 (drop (length prefix) s)"

definition mutation_case_errors :: "mutation_case \<Rightarrow> str list" where
  "mutation_case_errors m = after_fields
     (field_error [pattern_guard ''case_id'' (prefixed_hex ''case-'') (mc_case_id m)]
      @ field_error [pattern_guard ''fingerprint'' (hex_text 64) (mc_fingerprint m)]
      @ field_error [pattern_guard ''finding_pre_identity'' (hex_text 64) (mc_finding_identity m)]
      @ field_error (size_guards ''source_rule_ids'' 1 32 (mc_source_rule_ids m))
      @ field_error (size_guards ''dimensions'' 0 6 (mc_dimensions m))
      @ field_error (size_guards ''resource_ids'' 1 256 (mc_resource_ids m))
      @ field_error (size_guards ''expectations'' 1 256 (mc_expectations m))
      @ field_error (size_guards ''relation_paths'' 1 256 (mc_relation_paths m))
      @ field_error (size_guards ''required_observations'' 1 16 (mc_observations m)))
     (let is_batch = 1 < length (mc_resource_ids m) in
      [(length (mc_resource_ids m) \<noteq> length (mc_expectations m) \<or>
        length (mc_resource_ids m) \<noteq> length (mc_relation_paths m),
          ''resource_ids, expectations, and relation_paths must align''),
       (has_duplicates (mc_source_rule_ids m), ''source_rule_ids must be unique''),
       (has_duplicates (mc_dimensions m), ''dimensions must be unique''),
       (is_batch \<and> mc_batch_mode m = None, ''batch cases require batch_mode''),
       (\<not> is_batch \<and> mc_batch_mode m \<noteq> None, ''ordinary cases must not declare batch_mode''),
       (mc_atomic m \<and> \<not> is_batch, ''atomic is only valid for batch cases'')])"

record coverage_record =
  cr_rule_id :: str
  cr_dimension :: "coverage_dimension option"
  cr_expectation :: "permission_expectation option"
  cr_status :: coverage_status
  cr_case_ids :: "str list"
  cr_gap_codes :: "coverage_gap_code list"

definition coverage_record_errors :: "coverage_record \<Rightarrow> str list" where
  "coverage_record_errors r = after_fields
     (field_error (size_guards ''case_ids'' 0 32 (cr_case_ids r))
      @ field_error (size_guards ''gap_codes'' 0 8 (cr_gap_codes r)))
     [((cr_dimension r = None) = (cr_expectation r = None),
         ''coverage record requires exactly one dimension or expectation'')]"

record coverage_gap =
  cg_rule_id :: str
  cg_dimension :: "coverage_dimension option"
  cg_expectation :: "permission_expectation option"
  cg_code :: coverage_gap_code
  cg_detail :: str

definition coverage_gap_errors :: "coverage_gap \<Rightarrow> str list" where
  "coverage_gap_errors g = after_fields
     (field_error (size_guards ''detail'' 1 128 (cg_detail g)))
     [((cg_dimension g = None) = (cg_expectation g = None),
         ''coverage gap requires exactly one dimension or expectation'')]"

record eliminated_candidate =
  ec_fingerprint :: str
  ec_source_rule_ids :: "str list"
  ec_reason :: eliminated_reason

definition eliminated_errors :: "eliminated_candidate \<Rightarrow> str list" where
  "eliminated_errors e =
     field_error [pattern_guard ''candidate_fingerprint'' (hex_text 64) (ec_fingerprint e)]
     @ field_error (size_guards ''source_rule_ids'' 1 32 (ec_source_rule_ids e))"

record mutation_plan =
  mp_plan_id :: str
  mp_plan_fingerprint :: str
  mp_contract_fingerprint :: str
  mp_seed :: int
  mp_engine_version :: str
  mp_case_budget :: int
  mp_candidate_count :: nat
  mp_retained_count :: nat
  mp_cases :: "mutation_case list"
  mp_coverage :: "coverage_record list"
  mp_gaps :: "coverage_gap list"
  mp_eliminated :: "eliminated_candidate list"

definition mutation_plan_errors :: "mutation_plan \<Rightarrow> str list" where
  "mutation_plan_errors p = after_fields
     (field_error [pattern_guard ''plan_id'' (prefixed_hex ''plan-'') (mp_plan_id p)]
      @ field_error [pattern_guard ''plan_fingerprint'' (hex_text 64) (mp_plan_fingerprint p)]
      @ field_error [pattern_guard ''contract_fingerprint'' (hex_text 64) (mp_contract_fingerprint p)]
      @ field_error (size_guards ''engine_version'' 1 128 (mp_engine_version p))
      @ field_error [(mp_case_budget p < 0, ''case_budget: greater_than_equal''),
                     (8192 < mp_case_budget p, ''case_budget: less_than_equal'')]
      @ field_error [(8192 < mp_candidate_count p, ''candidate_count: less_than_equal'')]
      @ field_error [(8192 < mp_retained_count p, ''retained_count: less_than_equal'')]
      @ field_error (size_guards ''cases'' 0 8192 (mp_cases p))
      @ field_error (size_guards ''coverage'' 0 16384 (mp_coverage p))
      @ field_error (size_guards ''gaps'' 0 16384 (mp_gaps p))
      @ field_error (size_guards ''eliminated'' 0 16384 (mp_eliminated p)))
     [(mp_candidate_count p < mp_retained_count p, ''retained_count cannot exceed candidate_count''),
      (mp_retained_count p \<noteq> length (mp_cases p), ''retained_count must equal the case count'')]"

record candidate =
  cand_semantic :: json
  cand_sources :: "str list"
  cand_dimensions :: "coverage_dimension list"
  cand_retention :: retention_reason
  cand_priority :: int
  cand_case :: mutation_case
  cand_targets :: "coverage_target list"

abbreviation cand_fingerprint :: "candidate \<Rightarrow> str" where
  "cand_fingerprint k \<equiv> mc_fingerprint (cand_case k)"

subsection \<open>JSON trees\<close>

definition dimension_json :: "coverage_dimension \<Rightarrow> json" where
  "dimension_json d = JStr (dimension_value d)"

definition expectation_json :: "permission_expectation \<Rightarrow> json" where
  "expectation_json e = JStr (expectation_value e)"

definition batch_mode_json :: "batch_authorization_mode option \<Rightarrow> json" where
  "batch_mode_json = json_option (\<lambda>m. JStr (batch_mode_value m))"

definition contract_json :: "permission_contract \<Rightarrow> json" where
  "contract_json c = JObj
     [(''schema_version'', JStr ''1''), (''contract_id'', JStr (contract_id c)),
      (''version'', JInt (contract_version c)), (''role_ids'', json_strings (role_ids c)),
      (''workflow_states'', json_strings (workflow_states c)),
      (''subjects'', JArr (map subject_json (subjects c))), (''effects'', JArr (map effect_json (effects c))),
      (''actions'', JArr (map action_json (actions c))),
      (''resources'', JArr (map resource_json (resources c))),
      (''relations'', JArr (map relation_json (relations c))),
      (''rules'', JArr (map rule_json (rules c))), (''batch_rules'', JArr (map batch_rule_json (batch_rules c)))]"

definition mutation_case_json :: "mutation_case \<Rightarrow> json" where
  "mutation_case_json m = JObj
     [(''case_id'', JStr (mc_case_id m)), (''fingerprint'', JStr (mc_fingerprint m)),
      (''finding_pre_identity'', JStr (mc_finding_identity m)),
      (''source_rule_ids'', json_strings (mc_source_rule_ids m)),
      (''dimensions'', JArr (map dimension_json (mc_dimensions m))),
      (''retention_reason'', JStr (retention_value (mc_retention m))),
      (''subject_id'', JStr (mc_subject_id m)), (''action_id'', JStr (mc_action_id m)),
      (''resource_ids'', json_strings (mc_resource_ids m)),
      (''expectations'', JArr (map expectation_json (mc_expectations m))),
      (''relation_paths'', JArr (map json_strings (mc_relation_paths m))),
      (''context'', context_json (mc_context m)),
      (''required_observations'', json_strings (mc_observations m)),
      (''batch_mode'', batch_mode_json (mc_batch_mode m)), (''atomic'', JBool (mc_atomic m))]"

definition coverage_record_json :: "coverage_record \<Rightarrow> json" where
  "coverage_record_json r = JObj
     [(''rule_id'', JStr (cr_rule_id r)), (''dimension'', json_option dimension_json (cr_dimension r)),
      (''expectation'', json_option expectation_json (cr_expectation r)),
      (''status'', JStr (status_value (cr_status r))), (''case_ids'', json_strings (cr_case_ids r)),
      (''gap_codes'', JArr (map (\<lambda>c. JStr (gap_code_value c)) (cr_gap_codes r)))]"

definition coverage_gap_json :: "coverage_gap \<Rightarrow> json" where
  "coverage_gap_json g = JObj
     [(''rule_id'', JStr (cg_rule_id g)), (''dimension'', json_option dimension_json (cg_dimension g)),
      (''expectation'', json_option expectation_json (cg_expectation g)),
      (''code'', JStr (gap_code_value (cg_code g))), (''detail'', JStr (cg_detail g))]"

definition eliminated_json :: "eliminated_candidate \<Rightarrow> json" where
  "eliminated_json e = JObj
     [(''candidate_fingerprint'', JStr (ec_fingerprint e)),
      (''source_rule_ids'', json_strings (ec_source_rule_ids e)),
      (''reason'', JStr (eliminated_value (ec_reason e)))]"

end
