(* ===== verification/Coverage.thy ===== *)
theory Coverage
  imports CoverageModels
begin

section \<open>The coverage planner\<close>

text \<open>
  Models the functions of \<^verbatim>\<open>verification/permissions/coverage.py\<close> that compile a contract into
  mutation cases: the candidate of a rule and of each coverage dimension with its nearest
  neighbour, the gaps of what cannot be covered, the stable order, the merge of candidates with one
  fingerprint, the cut at the case budget and the coverage record of every target. A gap list is
  appended to in the order the code appends; a raised error is \<open>Inl\<close>.
\<close>

subsection \<open>Candidates\<close>

definition same_scope :: "subject_definition \<Rightarrow> subject_definition \<Rightarrow> bool" where
  "same_scope l r \<longleftrightarrow> subject_tenant l \<noteq> None \<and> subject_tenant l = subject_tenant r \<and>
     subject_department l \<noteq> None \<and> subject_department l = subject_department r"

definition subject_order :: "subject_definition \<Rightarrow> subject_definition \<Rightarrow> int \<times> str list \<times> str" where
  "subject_order current k = (\<bar>admin_level k - admin_level current\<bar>, subject_roles k, subject_id k)"

definition semantic_json :: "str \<Rightarrow> mutation_case \<Rightarrow> json" where
  "semantic_json engine m = JObj
     [(''engine_version'', JStr engine), (''subject_id'', JStr (mc_subject_id m)),
      (''action_id'', JStr (mc_action_id m)), (''resource_ids'', json_strings (mc_resource_ids m)),
      (''expectations'', JArr (map expectation_json (mc_expectations m))),
      (''relation_paths'', JArr (map json_strings (mc_relation_paths m))),
      (''context'', context_json (mc_context m)),
      (''required_observations'', json_strings (mc_observations m)),
      (''batch_mode'', batch_mode_json (mc_batch_mode m)), (''atomic'', JBool (mc_atomic m))]"

definition finding_json ::
    "subject_definition \<Rightarrow> resource_definition list \<Rightarrow> relation_fact list list \<Rightarrow> mutation_case \<Rightarrow> json" where
  "finding_json s os ls m = JObj
     [(''subject_class'', JObj
        [(''roles'', json_strings (subject_roles s)), (''admin_level'', JInt (admin_level s)),
         (''scope'', JArr (map (\<lambda>r. JObj
            [(''same_tenant'', JBool (subject_tenant s = resource_tenant r)),
             (''same_department'', JBool (subject_department s = resource_department r))]) os))]),
      (''action_id'', JStr (mc_action_id m)),
      (''resource_classes'', JArr (map (\<lambda>r. JObj
         [(''resource_type'', JStr (resource_type r)),
          (''workflow_state'', JStr (resource_workflow_state r)),
          (''is_child'', JBool (parent_resource_id r \<noteq> None))]) os)),
      (''expectations'', JArr (map expectation_json (mc_expectations m))),
      (''relation_types'', JArr (map (\<lambda>p. json_strings (map (\<lambda>l. relation_type_value (relation_kind l)) p)) ls)),
      (''context'', JObj
         [(''workflow_states'', json_strings (context_workflow_states (mc_context m))),
          (''has_tenant_scope'', JBool (context_tenant_ids (mc_context m) \<noteq> [])),
          (''has_department_scope'', JBool (context_department_ids (mc_context m) \<noteq> []))]),
      (''batch_mode'', batch_mode_json (mc_batch_mode m)), (''atomic'', JBool (mc_atomic m))]"

text \<open>
  \<open>draft\<close> holds the arguments of the call; the case is the draft with its three digests.
\<close>

definition candidate_case ::
    "(str \<Rightarrow> str) \<Rightarrow> permission_contract \<Rightarrow> str \<Rightarrow> int \<Rightarrow> bool \<Rightarrow> mutation_case \<Rightarrow> candidate checked" where
  "candidate_case sha c engine priority baseline draft =
     (let semantic = semantic_json engine draft;
          fingerprint = permission_model_sha256 sha semantic
      in andthen (lookup (subject_dict c) (mc_subject_id draft)) (\<lambda>s.
         andthen (traverse (lookup (resource_dict c)) (mc_resource_ids draft)) (\<lambda>os.
         andthen (traverse (traverse (lookup (relation_dict c))) (mc_relation_paths draft)) (\<lambda>ls.
           let m = draft\<lparr>mc_case_id := ''case-'' @ take 32 fingerprint, mc_fingerprint := fingerprint,
                 mc_finding_identity := permission_model_sha256 sha (finding_json s os ls draft)\<rparr>
           in andthen (checked (mutation_case_errors m) m) (\<lambda>m. Inr
             \<lparr>cand_semantic = semantic, cand_sources = mc_source_rule_ids m,
              cand_dimensions = mc_dimensions m, cand_retention = mc_retention m,
              cand_priority = priority, cand_case = m,
              cand_targets =
                (if baseline then [(hd (mc_source_rule_ids m), None, Some (hd (mc_expectations m)))] else [])
                @ map (\<lambda>d. (hd (mc_source_rule_ids m), Some d, None)) (mc_dimensions m)\<rparr>)))))"

definition gap :: "str \<Rightarrow> coverage_dimension option \<Rightarrow> permission_expectation option \<Rightarrow> coverage_gap_code \<Rightarrow> str \<Rightarrow> coverage_gap" where
  "gap rule d e code detail =
     \<lparr>cg_rule_id = rule, cg_dimension = d, cg_expectation = e, cg_code = code, cg_detail = detail\<rparr>"

definition missing_observations :: "str list \<Rightarrow> str list \<Rightarrow> bool" where
  "missing_observations required available \<longleftrightarrow> \<not> set required \<subseteq> set available"

subsection \<open>Nearest neighbours\<close>

definition first_of :: "('a \<Rightarrow> str) \<Rightarrow> 'a list \<Rightarrow> str option" where
  "first_of k xs = (case xs of [] \<Rightarrow> None | x # _ \<Rightarrow> Some (k x))"

definition nearest_subject ::
    "permission_contract \<Rightarrow> str \<Rightarrow> coverage_dimension \<Rightarrow> str option checked" where
  "nearest_subject c current_id d =
     andthen (next_item (\<lambda>s. subject_id s = current_id) (subjects c)) (\<lambda>current.
       let others = filter (\<lambda>s. subject_id s \<noteq> current_id) (subjects c);
           closest = \<lambda>ss. Inr (first_of subject_id (sort_key (subject_order current) ss))
       in case d of
            ROLE \<Rightarrow> closest (filter (\<lambda>s. same_scope current s \<and>
              (subject_roles s \<noteq> subject_roles current \<or> admin_level s \<noteq> admin_level current)) others)
          | TENANT \<Rightarrow> Inr (first_of subject_id
              (sort_key (\<lambda>s. (subject_roles s \<noteq> subject_roles current,
                              \<bar>admin_level s - admin_level current\<bar>, subject_id s))
                (filter (\<lambda>s. subject_tenant s \<noteq> subject_tenant current) others)))
          | DEPARTMENT \<Rightarrow> closest (filter (\<lambda>s. subject_tenant s = subject_tenant current \<and>
              subject_department s \<noteq> subject_department current) others)
          | RELATION \<Rightarrow> closest (filter (same_scope current) others)
          | _ \<Rightarrow> Inr None)"

definition nearest_workflow_resource :: "permission_contract \<Rightarrow> permission_rule \<Rightarrow> str option checked" where
  "nearest_workflow_resource c r =
     andthen (next_item (\<lambda>a. action_id a = rule_action_id r) (actions c)) (\<lambda>a.
       case action_transition a of
         None \<Rightarrow> Inr None
       | Some t \<Rightarrow>
           andthen (next_item (\<lambda>o'. resource_id o' = rule_resource_id r) (resources c)) (\<lambda>o'.
             Inr (first_of resource_id
               (sort_key (\<lambda>i. (resource_workflow_state i, resource_id i))
                 (filter (\<lambda>i. resource_id i \<noteq> resource_id o' \<and> resource_type i = resource_type o' \<and>
                    resource_tenant i = resource_tenant o' \<and> resource_department i = resource_department o' \<and>
                    resource_workflow_state i \<notin> set (allowed_from_states t)) (resources c))))))"

definition truthy :: "str option \<Rightarrow> str option" where
  \<comment> \<open>\<open>value or ""\<close>, then \<open>if not value\<close>\<close>
  "truthy m = (case m of None \<Rightarrow> None | Some v \<Rightarrow> if v = [] then None else Some v)"

definition unrelated_subject :: "permission_contract \<Rightarrow> permission_rule \<Rightarrow> subject_definition \<Rightarrow> int \<Rightarrow> str option" where
  \<comment> \<open>the closest subject of the same scope from which no path to the resource is found\<close>
  "unrelated_subject c r s depth =
     first_of subject_id
       (filter (\<lambda>i. find_path (relations c) (subject_id i) (rule_resource_id r) depth = None)
         (sort_key (subject_order s)
           (filter (\<lambda>i. subject_id i \<noteq> rule_subject_id r \<and> same_scope s i) (subjects c))))"

subsection \<open>Candidates of an ordinary rule\<close>

type_synonym proposal = "candidate list \<times> coverage_gap list"

record available =
  available_subjects :: "str list"
  available_resources :: "str list"
  available_observations :: "str list"

definition neighbor_draft :: "permission_rule \<Rightarrow> coverage_dimension \<Rightarrow> str \<Rightarrow> str \<Rightarrow> mutation_case" where
  "neighbor_draft r d subject resource =
     \<lparr>mc_case_id = [], mc_fingerprint = [], mc_finding_identity = [], mc_source_rule_ids = [rule_id r],
      mc_dimensions = [d], mc_retention = RECENT_NEIGHBOR, mc_subject_id = subject,
      mc_action_id = rule_action_id r, mc_resource_ids = [resource], mc_expectations = [DENY],
      mc_relation_paths = [[]], mc_context = rule_context r, mc_observations = rule_observations r,
      mc_batch_mode = None, mc_atomic = False\<rparr>"

definition neighbor ::
    "permission_contract \<Rightarrow> permission_rule \<Rightarrow> subject_definition \<Rightarrow> int \<Rightarrow> coverage_dimension \<Rightarrow>
       (coverage_gap + str \<times> str) checked" where
  \<comment> \<open>the subject and the resource of the mutated case, or why there is none\<close>
  "neighbor c r s depth d =
     (if d = WORKFLOW
      then andthen (nearest_workflow_resource c r) (\<lambda>m. case truthy m of
          None \<Rightarrow> Inr (Inl (gap (rule_id r) (Some d) None MISSING_RESOURCE ''no adjacent workflow resource''))
        | Some i \<Rightarrow> Inr (Inr (rule_subject_id r, i)))
      else andthen (nearest_subject c (rule_subject_id r) d) (\<lambda>m. case truthy m of
          None \<Rightarrow> Inr (Inl (gap (rule_id r) (Some d) None MISSING_SUBJECT ''no adjacent subject''))
        | Some i \<Rightarrow>
            if d = RELATION
            then (case unrelated_subject c r s depth of
                None \<Rightarrow> Inr (Inl (gap (rule_id r) (Some d) None RELATION_UNPROVABLE
                          ''all adjacent subjects have a valid relation''))
              | Some j \<Rightarrow> Inr (Inr (j, rule_resource_id r)))
            else Inr (Inr (i, rule_resource_id r))))"

definition dimension_candidate ::
    "(str \<Rightarrow> str) \<Rightarrow> permission_contract \<Rightarrow> str \<Rightarrow> available \<Rightarrow> int \<Rightarrow> permission_rule \<Rightarrow>
       subject_definition \<Rightarrow> coverage_dimension \<Rightarrow> proposal checked" where
  "dimension_candidate sha c engine av depth r s d =
     andthen (neighbor c r s depth d) (\<lambda>n. case n of
         Inl g \<Rightarrow> Inr ([], [g])
       | Inr (subject, resource) \<Rightarrow>
           if subject \<notin> set (available_subjects av)
           then Inr ([], [gap (rule_id r) (Some d) None MISSING_SUBJECT ''adjacent subject unavailable''])
           else if resource \<notin> set (available_resources av)
           then Inr ([], [gap (rule_id r) (Some d) None MISSING_RESOURCE ''adjacent resource unavailable''])
           else andthen (candidate_case sha c engine 700 False (neighbor_draft r d subject resource))
                  (\<lambda>k. Inr ([k], [])))"

definition baseline_draft :: "permission_rule \<Rightarrow> mutation_case" where
  "baseline_draft r =
     \<lparr>mc_case_id = [], mc_fingerprint = [], mc_finding_identity = [], mc_source_rule_ids = [rule_id r],
      mc_dimensions = [],
      mc_retention = (if rule_expectation r = ALLOW then EXPLICIT_ALLOW_BASELINE else EXPLICIT_DENY_RISK),
      mc_subject_id = rule_subject_id r, mc_action_id = rule_action_id r,
      mc_resource_ids = [rule_resource_id r], mc_expectations = [rule_expectation r],
      mc_relation_paths = [rule_relation_path r], mc_context = rule_context r,
      mc_observations = rule_observations r, mc_batch_mode = None, mc_atomic = False\<rparr>"

definition rule_targets :: "permission_rule \<Rightarrow> (coverage_dimension option \<times> permission_expectation option) list" where
  "rule_targets r = (None, Some (rule_expectation r))
     # map (\<lambda>d. (Some d, None)) (filter (\<lambda>d. d \<noteq> BULK) (rule_dimensions r))"

definition all_gaps :: "permission_rule \<Rightarrow> coverage_gap_code \<Rightarrow> str \<Rightarrow> proposal" where
  "all_gaps r code detail = ([], map (\<lambda>(d, e). gap (rule_id r) d e code detail) (rule_targets r))"

definition join_proposals :: "proposal list \<Rightarrow> proposal" where
  "join_proposals ps = (concat (map fst ps), concat (map snd ps))"

definition ordinary_candidates ::
    "(str \<Rightarrow> str) \<Rightarrow> permission_contract \<Rightarrow> str \<Rightarrow> available \<Rightarrow> int \<Rightarrow> permission_rule \<Rightarrow> proposal checked" where
  "ordinary_candidates sha c engine av depth r =
     andthen (next_item (\<lambda>s. subject_id s = rule_subject_id r) (subjects c)) (\<lambda>s.
     andthen (next_item (\<lambda>o'. resource_id o' = rule_resource_id r) (resources c)) (\<lambda>o'.
       if rule_subject_id r \<notin> set (available_subjects av)
       then Inr (all_gaps r MISSING_SUBJECT ''rule subject unavailable'')
       else if rule_resource_id r \<notin> set (available_resources av)
       then Inr (all_gaps r MISSING_RESOURCE ''rule resource unavailable'')
       else if missing_observations (rule_observations r) (available_observations av)
       then Inr (all_gaps r MISSING_OBSERVER ''required observer unavailable'')
       else if depth < int (length (rule_relation_path r))
       then Inr (all_gaps r RELATION_DEPTH_EXCEEDED ''explicit relation path exceeds max depth'')
       else andthen (candidate_case sha c engine (if rule_expectation r = DENY then 1000 else 900) True
                       (baseline_draft r)) (\<lambda>k.
            andthen (traverse (dimension_candidate sha c engine av depth r s)
                       (filter (\<lambda>d. d \<noteq> BULK) (rule_dimensions r))) (\<lambda>ps.
              Inr (join_proposals (([k], []) # ps))))))"

subsection \<open>Candidates of a batch rule\<close>

definition batch_mode_of :: "permission_expectation list \<Rightarrow> batch_authorization_mode" where
  "batch_mode_of es =
     (if list_all (\<lambda>e. e = ALLOW) es then ALL_ALLOW
      else if list_all (\<lambda>e. e = DENY) es then ALL_DENY else MIXED_AUTHORIZATION)"

definition batch_draft :: "batch_permission_rule \<Rightarrow> mutation_case" where
  "batch_draft b =
     \<lparr>mc_case_id = [], mc_fingerprint = [], mc_finding_identity = [], mc_source_rule_ids = [batch_rule_id b],
      mc_dimensions = [BULK], mc_retention = BATCH_AUTHORIZATION, mc_subject_id = batch_subject_id b,
      mc_action_id = batch_action_id b, mc_resource_ids = map batch_resource_id (batch_items b),
      mc_expectations = map batch_expectation (batch_items b),
      mc_relation_paths = map batch_relation_path (batch_items b), mc_context = batch_context b,
      mc_observations = batch_observations b,
      mc_batch_mode = Some (batch_mode_of (map batch_expectation (batch_items b))),
      mc_atomic = batch_atomic b\<rparr>"

definition batch_candidates ::
    "(str \<Rightarrow> str) \<Rightarrow> permission_contract \<Rightarrow> str \<Rightarrow> available \<Rightarrow> int \<Rightarrow> batch_permission_rule \<Rightarrow> proposal checked" where
  "batch_candidates sha c engine av depth b =
     (let missing = \<lambda>code detail. Inr ([], [gap (batch_rule_id b) (Some BULK) None code detail]) in
      if batch_subject_id b \<notin> set (available_subjects av)
      then missing MISSING_SUBJECT ''batch subject unavailable''
      else if missing_observations (batch_observations b) (available_observations av)
      then missing MISSING_OBSERVER ''required observer unavailable''
      else if \<exists>i \<in> set (batch_items b). batch_resource_id i \<notin> set (available_resources av)
      then missing MISSING_RESOURCE ''batch resource unavailable''
      else if \<exists>i \<in> set (batch_items b). depth < int (length (batch_relation_path i))
      then missing RELATION_DEPTH_EXCEEDED ''batch relation path exceeds max depth''
      else andthen (candidate_case sha c engine 950 False (batch_draft b)) (\<lambda>k. Inr ([k], [])))"

subsection \<open>Order, merge and budget\<close>

definition candidate_key :: "(str \<Rightarrow> str) \<Rightarrow> str \<Rightarrow> int \<Rightarrow> candidate \<Rightarrow> int \<times> str \<times> str \<times> str list" where
  "candidate_key sha engine seed k =
     (- cand_priority k,
      permission_model_sha256 sha (JObj [(''seed'', JInt seed), (''engine_version'', JStr engine),
        (''candidate'', JStr (cand_fingerprint k))]),
      cand_fingerprint k, cand_sources k)"

definition target_text :: "coverage_target \<Rightarrow> str" where
  \<comment> \<open>Python's \<open>str\<close> of the tuple, for an identifier without quotes\<close>
  "target_text t = (case t of (i, d, e) \<Rightarrow>
     [CHR ''('', CHR 0x27] @ i @ [CHR 0x27] @ '', ''
     @ (case d of None \<Rightarrow> ''None''
        | Some d' \<Rightarrow> ''<CoverageDimension.'' @ dimension_value d' @ '': '' @ [CHR 0x27] @ dimension_value d' @ [CHR 0x27, CHR ''>''])
     @ '', ''
     @ (case e of None \<Rightarrow> ''None''
        | Some e' \<Rightarrow> ''<PermissionExpectation.'' @ expectation_value e' @ '': '' @ [CHR 0x27] @ expectation_value e' @ [CHR 0x27, CHR ''>''])
     @ '')'')"

definition merge_candidates :: "candidate \<Rightarrow> candidate \<Rightarrow> candidate \<times> candidate" where
  \<comment> \<open>the merged candidate and the loser of the two\<close>
  "merge_candidates previous item =
     (let (winner, loser) = (if cand_priority previous < cand_priority item then (item, previous) else (previous, item));
          sources = sort (uniq (cand_sources previous @ cand_sources item));
          dims = sort_key dimension_value (uniq (cand_dimensions previous @ cand_dimensions item))
      in (\<lparr>cand_semantic = cand_semantic winner, cand_sources = sources, cand_dimensions = dims,
           cand_retention = cand_retention winner, cand_priority = cand_priority winner,
           cand_case = (cand_case winner)\<lparr>mc_source_rule_ids := sources, mc_dimensions := dims\<rparr>,
           cand_targets = sort_key target_text (uniq (cand_targets previous @ cand_targets item))\<rparr>, loser))"

definition eliminate :: "str \<Rightarrow> str list \<Rightarrow> eliminated_reason \<Rightarrow> eliminated_candidate checked" where
  "eliminate fp sources reason =
     (let e = \<lparr>ec_fingerprint = fp, ec_source_rule_ids = sources, ec_reason = reason\<rparr>
      in checked (eliminated_errors e) e)"

fun dedupe :: "candidate list \<Rightarrow> eliminated_candidate list \<Rightarrow> candidate list \<Rightarrow>
    (candidate list \<times> eliminated_candidate list) checked" where
  "dedupe kept out [] = Inr (kept, out)"
| "dedupe kept out (item # items) =
     (case find (\<lambda>k. cand_fingerprint k = cand_fingerprint item) kept of
        None \<Rightarrow> dedupe (kept @ [item]) out items
      | Some previous \<Rightarrow>
          (let (merged, loser) = merge_candidates previous item in
           andthen (eliminate (cand_fingerprint item) (cand_sources loser) DUPLICATE_SEMANTICS) (\<lambda>e.
             dedupe (map (\<lambda>k. if cand_fingerprint k = cand_fingerprint item then merged else k) kept)
               (out @ [e]) items)))"

definition over_budget :: "candidate list \<Rightarrow> (eliminated_candidate list \<times> coverage_gap list) checked" where
  "over_budget ks =
     andthen (traverse (\<lambda>k. eliminate (cand_fingerprint k) (cand_sources k) OVER_BUDGET) ks) (\<lambda>es.
       Inr (es, concat (map (\<lambda>k. map (\<lambda>(i, d, e). gap i d e BUDGET_EXCEEDED ''case budget exceeded'')
                                     (cand_targets k)) ks)))"

subsection \<open>Coverage records\<close>

definition plan_targets :: "permission_contract \<Rightarrow> coverage_target list" where
  "plan_targets c =
     concat (map (\<lambda>r. map (\<lambda>(d, e). (rule_id r, d, e))
                        ((None, Some (rule_expectation r)) # map (\<lambda>d. (Some d, None)) (rule_dimensions r))) (rules c))
     @ map (\<lambda>b. (batch_rule_id b, Some BULK, None)) (batch_rules c)"

definition coverage_of :: "candidate list \<Rightarrow> coverage_gap list \<Rightarrow> coverage_target \<Rightarrow> coverage_record checked" where
  "coverage_of retained gaps t =
     (let case_ids = map (\<lambda>k. mc_case_id (cand_case k)) (filter (\<lambda>k. t \<in> set (cand_targets k)) retained);
          codes = map cg_code (filter (\<lambda>g. (cg_rule_id g, cg_dimension g, cg_expectation g) = t) gaps);
          r = \<lparr>cr_rule_id = fst t, cr_dimension = fst (snd t), cr_expectation = snd (snd t),
               cr_status = (if case_ids \<noteq> [] \<and> codes = [] then COVERED else GAP),
               cr_case_ids = case_ids, cr_gap_codes = sort_key gap_code_value (uniq codes)\<rparr>
      in checked (coverage_record_errors r) r)"

definition record_key :: "coverage_record \<Rightarrow> str \<times> str \<times> str" where
  "record_key r = (cr_rule_id r, concat (map dimension_value (option_list (cr_dimension r))),
     concat (map expectation_value (option_list (cr_expectation r))))"

definition gap_key :: "coverage_gap \<Rightarrow> str \<times> str \<times> str \<times> str \<times> str" where
  "gap_key g = (cg_rule_id g, concat (map dimension_value (option_list (cg_dimension g))),
     concat (map expectation_value (option_list (cg_expectation g))), gap_code_value (cg_code g), cg_detail g)"

definition eliminated_key :: "eliminated_candidate \<Rightarrow> str \<times> str \<times> str list" where
  "eliminated_key e = (ec_fingerprint e, eliminated_value (ec_reason e), ec_source_rule_ids e)"

subsection \<open>The plan\<close>

definition raw_candidates ::
    "(str \<Rightarrow> str) \<Rightarrow> permission_contract \<Rightarrow> str \<Rightarrow> available \<Rightarrow> int \<Rightarrow> proposal checked" where
  "raw_candidates sha c engine av depth =
     andthen (traverse (ordinary_candidates sha c engine av depth) (rules c)) (\<lambda>ps.
     andthen (traverse (batch_candidates sha c engine av depth) (batch_rules c)) (\<lambda>qs.
       Inr (join_proposals (ps @ qs))))"

definition plan_json :: "mutation_plan \<Rightarrow> json" where
  "plan_json p = JObj
     [(''contract_fingerprint'', JStr (mp_contract_fingerprint p)), (''seed'', JInt (mp_seed p)),
      (''engine_version'', JStr (mp_engine_version p)), (''case_budget'', JInt (mp_case_budget p)),
      (''cases'', JArr (map mutation_case_json (mp_cases p))),
      (''coverage'', JArr (map coverage_record_json (mp_coverage p))),
      (''gaps'', JArr (map coverage_gap_json (mp_gaps p))),
      (''eliminated'', JArr (map eliminated_json (mp_eliminated p)))]"

definition finish_plan ::
    "(str \<Rightarrow> str) \<Rightarrow> permission_contract \<Rightarrow> str \<Rightarrow> int \<Rightarrow> int \<Rightarrow> nat \<Rightarrow> candidate list \<Rightarrow>
       coverage_record list \<Rightarrow> coverage_gap list \<Rightarrow> eliminated_candidate list \<Rightarrow> mutation_plan checked" where
  "finish_plan sha c engine seed budget made retained coverage gaps eliminated =
     (let body = \<lparr>mp_plan_id = [], mp_plan_fingerprint = [],
            mp_contract_fingerprint = permission_model_sha256 sha (contract_json c), mp_seed = seed,
            mp_engine_version = engine, mp_case_budget = budget, mp_candidate_count = made,
            mp_retained_count = length retained, mp_cases = map cand_case retained,
            mp_coverage = sort_key record_key coverage, mp_gaps = sort_key gap_key gaps,
            mp_eliminated = sort_key eliminated_key eliminated\<rparr>;
          fingerprint = permission_model_sha256 sha (plan_json body);
          p = body\<lparr>mp_plan_id := ''plan-'' @ take 32 fingerprint, mp_plan_fingerprint := fingerprint\<rparr>
      in checked (mutation_plan_errors p) p)"

definition availability ::
    "permission_contract \<Rightarrow> str list option \<Rightarrow> str list option \<Rightarrow> str list \<Rightarrow> available" where
  "availability c ss rs obs =
     \<lparr>available_subjects = (case ss of None \<Rightarrow> map subject_id (subjects c) | Some xs \<Rightarrow> xs),
      available_resources = (case rs of None \<Rightarrow> map resource_id (resources c) | Some xs \<Rightarrow> xs),
      available_observations = obs\<rparr>"

definition build_permission_coverage_plan ::
    "(str \<Rightarrow> str) \<Rightarrow> permission_contract \<Rightarrow> str \<Rightarrow> int \<Rightarrow> int \<Rightarrow> available \<Rightarrow> int \<Rightarrow> mutation_plan checked" where
  "build_permission_coverage_plan sha c engine seed budget av depth =
     (if budget < 0 then Inl [''case_budget must be non-negative'']
      else if depth < 1 then Inl [''max_relation_depth must be positive'']
      else andthen (raw_candidates sha c engine av depth) (\<lambda>(raw, gaps).
           andthen (dedupe [] [] (sort_key (candidate_key sha engine seed) raw)) (\<lambda>(kept, duplicates).
             let ordered = sort_key (candidate_key sha engine seed) kept;
                 retained = take (nat budget) ordered
             in andthen (over_budget (drop (nat budget) ordered)) (\<lambda>(cut, cut_gaps).
                andthen (traverse (coverage_of retained (gaps @ cut_gaps)) (plan_targets c)) (\<lambda>coverage.
                  finish_plan sha c engine seed budget (length raw) retained coverage (gaps @ cut_gaps)
                    (duplicates @ cut))))))"

end
