(* ===== verification/CoverageFacts.thy ===== *)
theory CoverageFacts
  imports Coverage
begin

section \<open>Facts about candidates, their merge and the plan\<close>

text \<open>
  The invariant of a candidate (its case carries its sources and dimensions, each of its targets
  belongs to one of its sources), what the merge keeps, and that every target of a rule is either
  the target of a candidate or the subject of a gap.
\<close>

subsection \<open>Candidates\<close>

definition candidate_ok :: "candidate \<Rightarrow> bool" where
  "candidate_ok k \<longleftrightarrow>
     mc_source_rule_ids (cand_case k) = cand_sources k \<and> mc_dimensions (cand_case k) = cand_dimensions k \<and>
     mc_retention (cand_case k) = cand_retention k \<and>
     (\<forall>(i, d, e) \<in> set (cand_targets k). i \<in> set (cand_sources k) \<and>
        set (option_list d) \<subseteq> set (cand_dimensions k) \<and> (d = None) \<noteq> (e = None))"

lemma candidate_case_Inr:
  assumes "candidate_case sha c engine priority baseline draft = Inr k"
  shows "candidate_ok k" "mutation_case_errors (cand_case k) = []" "cand_priority k = priority"
    "cand_sources k = mc_source_rule_ids draft" "cand_dimensions k = mc_dimensions draft"
    "cand_fingerprint k = permission_model_sha256 sha (semantic_json engine draft)"
    "cand_semantic k = semantic_json engine draft"
    "cand_targets k = (if baseline then [(hd (mc_source_rule_ids draft), None, Some (hd (mc_expectations draft)))]
       else []) @ map (\<lambda>d. (hd (mc_source_rule_ids draft), Some d, None)) (mc_dimensions draft)"
    "\<exists>i f g. cand_case k = draft\<lparr>mc_case_id := i, mc_fingerprint := f, mc_finding_identity := g\<rparr>"
proof -
  from assms obtain i f g where m: "cand_case k = draft\<lparr>mc_case_id := i, mc_fingerprint := f, mc_finding_identity := g\<rparr>"
    "mutation_case_errors (cand_case k) = []"
    by (auto simp: candidate_case_def Let_def checked_Inr)
  then show "\<exists>i f g. cand_case k = draft\<lparr>mc_case_id := i, mc_fingerprint := f, mc_finding_identity := g\<rparr>"
    and "mutation_case_errors (cand_case k) = []" by auto
  from m have "mc_source_rule_ids (cand_case k) \<noteq> []"
    by (auto simp: mutation_case_errors_def guard_simps)
  with m have "hd (mc_source_rule_ids draft) \<in> set (mc_source_rule_ids draft)" by simp
  with assms show "candidate_ok k"
    by (auto simp: candidate_case_def Let_def checked_Inr candidate_ok_def)
qed (use assms in \<open>auto simp: candidate_case_def Let_def checked_Inr\<close>)

lemma option_list_set [simp]: "set (option_list m) = set_option m"
  by (cases m) simp_all

lemma merge_fields:
  assumes "merge_candidates p i = (m, l)"
  shows "cand_sources m = sort (uniq (cand_sources p @ cand_sources i))"
    "set (cand_dimensions m) = set (cand_dimensions p) \<union> set (cand_dimensions i)"
    "set (cand_targets m) = set (cand_targets p) \<union> set (cand_targets i)"
    "length (cand_targets m) \<le> length (cand_targets p) + length (cand_targets i)"
    "l = p \<or> l = i"
    "cand_fingerprint p = cand_fingerprint i \<Longrightarrow> cand_fingerprint m = cand_fingerprint p"
proof -
  show "length (cand_targets m) \<le> length (cand_targets p) + length (cand_targets i)"
    using assms length_remdups_leq [of "rev (cand_targets i) @ rev (cand_targets p)"]
    by (auto simp: merge_candidates_def Let_def uniq_def split: if_splits)
qed (use assms in \<open>auto simp: merge_candidates_def Let_def split: if_splits\<close>)

lemma merge_ok: "merge_candidates p i = (m, l) \<Longrightarrow> candidate_ok p \<Longrightarrow> candidate_ok i \<Longrightarrow> candidate_ok m"
  by (fastforce simp: merge_candidates_def Let_def candidate_ok_def split: if_splits prod.splits)

subsection \<open>The merge keeps count, targets and distinct fingerprints\<close>

definition targets_of :: "candidate list \<Rightarrow> coverage_target set" where
  "targets_of ks = (\<Union>k \<in> set ks. set (cand_targets k))"

lemma targets_of_simps [simp]:
  "targets_of [] = {}" "targets_of (k # ks) = set (cand_targets k) \<union> targets_of ks"
  "targets_of (ks @ ls) = targets_of ks \<union> targets_of ls"
  by (auto simp: targets_of_def)

lemma targets_of_sort [simp]: "targets_of (sort_key f ks) = targets_of ks"
  by (simp add: targets_of_def)

lemma find_same:
  "find (\<lambda>k. cand_fingerprint k = f) kept = Some p \<Longrightarrow> p \<in> set kept \<and> cand_fingerprint p = f"
  by (auto simp: find_Some_iff)

lemma dedupe_step:
  assumes "dedupe kept out (item # items) = Inr res"
  shows "(\<forall>k \<in> set kept. cand_fingerprint k \<noteq> cand_fingerprint item) \<and>
           dedupe (kept @ [item]) out items = Inr res \<or>
         (\<exists>p m l e. p \<in> set kept \<and> cand_fingerprint p = cand_fingerprint item \<and>
            merge_candidates p item = (m, l) \<and>
            eliminate (cand_fingerprint item) (cand_sources l) DUPLICATE_SEMANTICS = Inr e \<and>
            dedupe (map (\<lambda>k. if cand_fingerprint k = cand_fingerprint item then m else k) kept)
              (out @ [e]) items = Inr res)"
proof (cases "find (\<lambda>k. cand_fingerprint k = cand_fingerprint item) kept")
  case None
  with assms show ?thesis by (auto simp: find_None_iff)
next
  case (Some p)
  with find_same [OF Some] assms show ?thesis
    by (cases "merge_candidates p item") auto
qed

text \<open>An invariant of candidates that the merge keeps holds of every candidate that remains.\<close>

lemma dedupe_all:
  assumes "dedupe kept out items = Inr (kept', out')"
    and "\<And>p i m l. P p \<Longrightarrow> P i \<Longrightarrow> merge_candidates p i = (m, l) \<Longrightarrow> cand_fingerprint p = cand_fingerprint i \<Longrightarrow> P m"
    and "\<forall>k \<in> set kept \<union> set items. P k"
  shows "\<forall>k \<in> set kept'. P k"
  using assms(1,3)
proof (induction items arbitrary: kept out)
  case (Cons item items)
  from dedupe_step [OF Cons(2)] show ?case
  proof (elim disjE exE conjE)
    fix p m l e
    assume s: "p \<in> set kept" "cand_fingerprint p = cand_fingerprint item" "merge_candidates p item = (m, l)"
      and r: "dedupe (map (\<lambda>k. if cand_fingerprint k = cand_fingerprint item then m else k) kept)
          (out @ [e]) items = Inr (kept', out')"
    have "P m" using assms(2) [OF _ _ s(3,2)] s(1) Cons(3) by simp
    with Cons(3) have "\<forall>k \<in> set (map (\<lambda>k. if cand_fingerprint k = cand_fingerprint item then m else k) kept)
        \<union> set items. P k" by auto
    with Cons(1) [OF r] show ?thesis by blast
  next
    assume r: "dedupe (kept @ [item]) out items = Inr (kept', out')"
    have "\<forall>k \<in> set (kept @ [item]) \<union> set items. P k" using Cons(3) by simp
    with Cons(1) [OF r] show ?thesis by blast
  qed
qed simp

lemma dedupe_length:
  "dedupe kept out items = Inr (kept', out') \<Longrightarrow>
     length kept' + length out' = length kept + length out + length items"
proof (induction items arbitrary: kept out)
  case (Cons item items)
  from dedupe_step [OF Cons(2)] show ?case by (auto dest!: Cons(1))
qed simp

lemma map_merged_fingerprints:
  "cand_fingerprint m = f \<Longrightarrow>
     map cand_fingerprint (map (\<lambda>k. if cand_fingerprint k = f then m else k) kept) = map cand_fingerprint kept"
  by auto

lemma dedupe_distinct:
  assumes "dedupe kept out items = Inr (kept', out')" and "distinct (map cand_fingerprint kept)"
  shows "distinct (map cand_fingerprint kept')"
  using assms
proof (induction items arbitrary: kept out)
  case (Cons item items)
  from dedupe_step [OF Cons(2)] show ?case
  proof (elim disjE exE conjE)
    fix p m l e
    assume s: "cand_fingerprint p = cand_fingerprint item" "merge_candidates p item = (m, l)"
      and r: "dedupe (map (\<lambda>k. if cand_fingerprint k = cand_fingerprint item then m else k) kept)
          (out @ [e]) items = Inr (kept', out')"
    have fm: "cand_fingerprint m = cand_fingerprint item" using merge_fields(6) [OF s(2,1)] s(1) by simp
    show ?thesis
      by (rule Cons(1) [OF r], unfold map_merged_fingerprints [OF fm], rule Cons(3))
  next
    assume "\<forall>k \<in> set kept. cand_fingerprint k \<noteq> cand_fingerprint item"
      and r: "dedupe (kept @ [item]) out items = Inr (kept', out')"
    with Cons(3) show ?thesis by (intro Cons(1) [OF r]) auto
  qed
qed simp

text \<open>Each candidate that goes in comes out once, as a kept one or as an eliminated duplicate.\<close>

lemma eliminate_Inr: "eliminate f sources reason = Inr e \<Longrightarrow> ec_fingerprint e = f \<and> ec_reason e = reason"
  by (auto simp: eliminate_def Let_def checked_Inr)

lemma dedupe_fingerprints:
  assumes "dedupe kept out items = Inr (kept', out')"
  shows "mset (map cand_fingerprint kept') + mset (map ec_fingerprint out') =
      mset (map cand_fingerprint kept) + mset (map ec_fingerprint out) + mset (map cand_fingerprint items)"
    and "cand_fingerprint ` set kept' = cand_fingerprint ` set (kept @ items)"
    and "\<forall>e \<in> set out'. e \<in> set out \<or> ec_reason e = DUPLICATE_SEMANTICS"
  using assms
proof (induction items arbitrary: kept out)
  case (Cons item items)
  {
    case 1
    from dedupe_step [OF 1] show ?case
    proof (elim disjE exE conjE)
      fix p m l e
      assume s: "cand_fingerprint p = cand_fingerprint item" "merge_candidates p item = (m, l)"
        and e: "eliminate (cand_fingerprint item) (cand_sources l) DUPLICATE_SEMANTICS = Inr e"
        and r: "dedupe (map (\<lambda>k. if cand_fingerprint k = cand_fingerprint item then m else k) kept)
            (out @ [e]) items = Inr (kept', out')"
      have fm: "cand_fingerprint m = cand_fingerprint item" using merge_fields(6) [OF s(2,1)] s(1) by simp
      show ?thesis
        unfolding Cons(1) [OF r] map_merged_fingerprints [OF fm] using eliminate_Inr [OF e] by simp
    next
      assume r: "dedupe (kept @ [item]) out items = Inr (kept', out')"
      show ?thesis unfolding Cons(1) [OF r] by simp
    qed
  next
    case 2
    from dedupe_step [OF 2] show ?case
    proof (elim disjE exE conjE)
      fix p m l e
      assume s: "p \<in> set kept" "cand_fingerprint p = cand_fingerprint item" "merge_candidates p item = (m, l)"
        and r: "dedupe (map (\<lambda>k. if cand_fingerprint k = cand_fingerprint item then m else k) kept)
            (out @ [e]) items = Inr (kept', out')" (is "dedupe (map ?f kept) _ _ = _")
      have fm: "cand_fingerprint m = cand_fingerprint item" using merge_fields(6) [OF s(3,2)] s(2) by simp
      have "cand_fingerprint ` set (map ?f kept) = cand_fingerprint ` set kept"
        unfolding set_map [symmetric] map_merged_fingerprints [OF fm] by (rule refl)
      moreover have "cand_fingerprint item \<in> cand_fingerprint ` set kept"
        using s(1,2) by (metis imageI)
      ultimately show ?thesis unfolding Cons(2) [OF r] set_append image_Un by auto
    next
      assume r: "dedupe (kept @ [item]) out items = Inr (kept', out')"
      show ?thesis unfolding Cons(2) [OF r] by auto
    qed
  next
    case 3
    from dedupe_step [OF 3] show ?case
      by (elim disjE exE conjE) (use Cons(3) eliminate_Inr in \<open>fastforce+\<close>)
  }
qed simp_all

lemma dedupe_targets:
  assumes "dedupe kept out items = Inr (kept', out')" and "distinct (map cand_fingerprint kept)"
  shows "targets_of kept' = targets_of kept \<union> targets_of items"
  using assms
proof (induction items arbitrary: kept out)
  case (Cons item items)
  from dedupe_step [OF Cons(2)] show ?case
  proof (elim disjE exE conjE)
    fix p m l e
    assume s: "p \<in> set kept" "cand_fingerprint p = cand_fingerprint item" "merge_candidates p item = (m, l)"
      and r: "dedupe (map (\<lambda>k. if cand_fingerprint k = cand_fingerprint item then m else k) kept)
          (out @ [e]) items = Inr (kept', out')" (is "dedupe (map ?f kept) _ _ = _")
    have fm: "cand_fingerprint m = cand_fingerprint item" using merge_fields(6) [OF s(3,2)] s(2) by simp
    have one: "k = p" if "k \<in> set kept" "cand_fingerprint k = cand_fingerprint item" for k
      using that s(1,2) Cons(3) unfolding distinct_map by (metis inj_onD)
    have "targets_of (map ?f kept) = targets_of kept \<union> set (cand_targets item)"
    proof (intro set_eqI iffI)
      fix t assume "t \<in> targets_of (map ?f kept)"
      then obtain k where k: "k \<in> set kept" "t \<in> set (cand_targets (?f k))"
        unfolding targets_of_def set_map by blast
      show "t \<in> targets_of kept \<union> set (cand_targets item)"
      proof (cases "cand_fingerprint k = cand_fingerprint item")
        case True
        with k(2) merge_fields(3) [OF s(3)] s(1) show ?thesis by (auto simp: targets_of_def)
      next
        case False
        with k show ?thesis by (auto simp: targets_of_def)
      qed
    next
      fix t assume "t \<in> targets_of kept \<union> set (cand_targets item)"
      moreover have "set (cand_targets (?f p)) = set (cand_targets p) \<union> set (cand_targets item)"
        using s(2) merge_fields(3) [OF s(3)] by simp
      moreover have "set (cand_targets k) \<subseteq> set (cand_targets (?f k))" if "k \<in> set kept" for k
        using one [OF that] merge_fields(3) [OF s(3)] by auto
      ultimately obtain k where "k \<in> set kept" "t \<in> set (cand_targets (?f k))"
        using s(1) unfolding targets_of_def by blast
      then show "t \<in> targets_of (map ?f kept)" unfolding targets_of_def set_map by blast
    qed
    moreover have "distinct (map cand_fingerprint (map ?f kept))"
      by (unfold map_merged_fingerprints [OF fm], rule Cons(3))
    ultimately show ?thesis by (subst Cons(1) [OF r]) auto
  next
    assume "\<forall>k \<in> set kept. cand_fingerprint k \<noteq> cand_fingerprint item"
      and r: "dedupe (kept @ [item]) out items = Inr (kept', out')"
    with Cons(3) have "distinct (map cand_fingerprint (kept @ [item]))" by auto
    from Cons(1) [OF r this] show ?thesis by auto
  qed
qed simp

subsection \<open>Every target has a candidate or a gap\<close>

text \<open>
  The targets of the candidates and of the gaps of a proposal, counted: a rule's proposal holds each
  target of the rule exactly once.
\<close>

definition gap_target :: "coverage_gap \<Rightarrow> coverage_target" where
  "gap_target g = (cg_rule_id g, cg_dimension g, cg_expectation g)"

lemma gap_target_gap [simp]: "gap_target (gap i d e code detail) = (i, d, e)"
  by (simp add: gap_target_def gap_def)

definition target_count :: "proposal \<Rightarrow> coverage_target multiset" where
  "target_count p = mset (concat (map cand_targets (fst p))) + mset (map gap_target (snd p))"

lemma set_target_count: "set_mset (target_count p) = targets_of (fst p) \<union> gap_target ` set (snd p)"
  by (auto simp: target_count_def targets_of_def)

lemma target_count_join: "target_count (join_proposals ps) = sum_list (map target_count ps)"
  by (induction ps) (simp_all add: target_count_def join_proposals_def)

lemma traverse_count:
  assumes "traverse f xs = Inr ps" and "\<And>x p. x \<in> set xs \<Longrightarrow> f x = Inr p \<Longrightarrow> target_count p = g x"
  shows "sum_list (map target_count ps) = sum_list (map g xs)"
  using assms by (induction xs arbitrary: ps) auto

lemma sum_list_singletons: "sum_list (map (\<lambda>x. {#f x#}) xs) = mset (map f xs)"
  by (induction xs) auto

lemma sum_list_msets: "sum_list (map (\<lambda>x. mset (f x)) xs) = mset (concat (map f xs))"
  by (induction xs) auto

text \<open>A proposal is all gaps, or holds the candidates that were built.\<close>

lemma neighbor_gap: "neighbor c r s depth d = Inr (Inl g) \<Longrightarrow> gap_target g = (rule_id r, Some d, None)"
  by (auto simp: neighbor_def split: if_splits option.splits)

lemma dimension_candidate_shape:
  assumes "dimension_candidate sha c engine av depth r s d = Inr p"
  obtains (blocked) g where "p = ([], [g])" "gap_target g = (rule_id r, Some d, None)"
  | (built) i j k where "neighbor c r s depth d = Inr (Inr (i, j))" "i \<in> set (available_subjects av)"
      "j \<in> set (available_resources av)"
      "candidate_case sha c engine 700 False (neighbor_draft r d i j) = Inr k" "p = ([k], [])"
proof -
  from assms obtain n where n: "neighbor c r s depth d = Inr n"
    unfolding dimension_candidate_def by auto
  show ?thesis
  proof (cases n)
    case (Inl g)
    with assms n neighbor_gap [of c r s depth d g] show ?thesis
      by (intro blocked) (auto simp: dimension_candidate_def)
  next
    case (Inr q)
    obtain i j where q: "q = (i, j)" by (cases q)
    show ?thesis
    proof (cases "i \<in> set (available_subjects av) \<and> j \<in> set (available_resources av)")
      case True
      with assms n Inr q obtain k where
        "candidate_case sha c engine 700 False (neighbor_draft r d i j) = Inr k" "p = ([k], [])"
        by (auto simp: dimension_candidate_def)
      with True n Inr q show ?thesis by (intro built [of i j k]) simp_all
    next
      case False
      with assms n Inr q obtain code detail where "p = ([], [gap (rule_id r) (Some d) None code detail])"
        by (cases "i \<in> set (available_subjects av)") (auto simp: dimension_candidate_def)
      with that(1) show ?thesis by simp
    qed
  qed
qed

lemma ordinary_candidates_shape:
  assumes "ordinary_candidates sha c engine av depth r = Inr p"
  obtains (gaps) code detail where "p = all_gaps r code detail"
  | (built) s k ps where "next_item (\<lambda>s. subject_id s = rule_subject_id r) (subjects c) = Inr s"
      "candidate_case sha c engine (if rule_expectation r = DENY then 1000 else 900) True (baseline_draft r) = Inr k"
      "traverse (dimension_candidate sha c engine av depth r s) (filter (\<lambda>d. d \<noteq> BULK) (rule_dimensions r)) = Inr ps"
      "p = join_proposals (([k], []) # ps)"
  using assms unfolding ordinary_candidates_def
  by (auto split: if_splits)

lemma batch_candidates_shape:
  assumes "batch_candidates sha c engine av depth b = Inr p"
  obtains (blocked) g where "p = ([], [g])" "gap_target g = (batch_rule_id b, Some BULK, None)"
  | (built) k where "candidate_case sha c engine 950 False (batch_draft b) = Inr k" "p = ([k], [])"
  using assms unfolding batch_candidates_def Let_def
  by (force split: if_splits)

lemma dimension_candidate_count:
  assumes "dimension_candidate sha c engine av depth r s d = Inr p"
  shows "target_count p = {#(rule_id r, Some d, None)#}"
  using assms
proof (cases rule: dimension_candidate_shape)
  case (built i j k)
  with candidate_case_Inr(8) [OF built(4)] show ?thesis by (simp add: target_count_def neighbor_draft_def)
qed (simp add: target_count_def)

lemma ordinary_count:
  assumes "ordinary_candidates sha c engine av depth r = Inr p"
  shows "target_count p = mset (map (\<lambda>(d, e). (rule_id r, d, e)) (rule_targets r))"
  using assms
proof (cases rule: ordinary_candidates_shape)
  case (gaps code detail)
  have "gap_target \<circ> (\<lambda>(d, e). gap (rule_id r) d e code detail) = (\<lambda>(d, e). (rule_id r, d, e))" by auto
  then show ?thesis by (simp add: gaps target_count_def all_gaps_def)
next
  case (built s k ps)
  have "sum_list (map target_count ps) = mset (map (\<lambda>d. (rule_id r, Some d, None)) (filter (\<lambda>d. d \<noteq> BULK) (rule_dimensions r)))"
    unfolding sum_list_singletons [symmetric]
    by (rule traverse_count [OF built(3)]) (rule dimension_candidate_count)
  moreover have "target_count ([k], []) = {#(rule_id r, None, Some (rule_expectation r))#}"
    using candidate_case_Inr(8) [OF built(2)] by (simp add: target_count_def baseline_draft_def)
  ultimately show ?thesis by (simp add: built(4) target_count_join rule_targets_def comp_def)
qed

lemma batch_count:
  assumes "batch_candidates sha c engine av depth b = Inr p"
  shows "target_count p = {#(batch_rule_id b, Some BULK, None)#}"
  using assms
proof (cases rule: batch_candidates_shape)
  case (built k)
  with candidate_case_Inr(8) [OF built(1)] show ?thesis by (simp add: target_count_def batch_draft_def)
qed (simp add: target_count_def)

lemma raw_count:
  assumes raw: "raw_candidates sha c engine av depth = Inr p"
    and bulk: "\<forall>r \<in> set (rules c). BULK \<notin> set (rule_dimensions r)"
  shows "target_count p = mset (plan_targets c)"
proof -
  from raw obtain ps qs where
    ps: "traverse (ordinary_candidates sha c engine av depth) (rules c) = Inr ps" and
    qs: "traverse (batch_candidates sha c engine av depth) (batch_rules c) = Inr qs" and
    p: "p = join_proposals (ps @ qs)"
    by (auto simp: raw_candidates_def)
  let ?all = "\<lambda>r. map (\<lambda>(d, e). (rule_id r, d, e))
      ((None, Some (rule_expectation r)) # map (\<lambda>d. (Some d, None)) (rule_dimensions r))"
  have "sum_list (map target_count ps) = sum_list (map (\<lambda>r. mset (?all r)) (rules c))"
  proof (rule traverse_count [OF ps])
    fix r q assume "r \<in> set (rules c)" and o: "ordinary_candidates sha c engine av depth r = Inr q"
    with bulk have "filter (\<lambda>d. d \<noteq> BULK) (rule_dimensions r) = rule_dimensions r"
      by (metis (mono_tags, lifting) filter_True)
    with ordinary_count [OF o] show "target_count q = mset (?all r)" by (simp add: rule_targets_def)
  qed
  moreover have "sum_list (map target_count qs) = sum_list (map (\<lambda>b. {#(batch_rule_id b, Some BULK, None)#}) (batch_rules c))"
    by (rule traverse_count [OF qs]) (rule batch_count)
  ultimately show ?thesis
    unfolding p target_count_join plan_targets_def map_append sum_list.append mset_append
      sum_list_msets sum_list_singletons by (simp only:)
qed

text \<open>Where a raw candidate comes from.\<close>

definition drafted :: "permission_contract \<Rightarrow> mutation_case \<Rightarrow> bool" where
  "drafted c m \<longleftrightarrow>
     (\<exists>r \<in> set (rules c). m = baseline_draft r) \<or>
     (\<exists>r \<in> set (rules c). \<exists>d \<in> set (rule_dimensions r). \<exists>s i j depth. s \<in> set (subjects c) \<and>
        subject_id s = rule_subject_id r \<and> neighbor c r s depth d = Inr (Inr (i, j)) \<and> m = neighbor_draft r d i j) \<or>
     (\<exists>b \<in> set (batch_rules c). m = batch_draft b)"

lemma raw_origin:
  assumes raw: "raw_candidates sha c engine av depth = Inr p" and k: "k \<in> set (fst p)"
  shows "\<exists>priority m. candidate_case sha c engine priority (mc_dimensions m = []) m = Inr k \<and> drafted c m"
proof -
  from raw obtain ps qs where
    ps: "traverse (ordinary_candidates sha c engine av depth) (rules c) = Inr ps" and
    qs: "traverse (batch_candidates sha c engine av depth) (batch_rules c) = Inr qs" and
    p: "p = join_proposals (ps @ qs)"
    by (auto simp: raw_candidates_def)
  from k p consider q where "q \<in> set ps" "k \<in> set (fst q)" | q where "q \<in> set qs" "k \<in> set (fst q)"
    by (auto simp: join_proposals_def)
  then show ?thesis
  proof cases
    case (1 q)
    with traverse_set [OF ps] obtain r where r: "r \<in> set (rules c)" "ordinary_candidates sha c engine av depth r = Inr q"
      by blast
    from r(2) show ?thesis
    proof (cases rule: ordinary_candidates_shape)
      case (gaps code detail)
      with 1(2) show ?thesis by (simp add: all_gaps_def)
    next
      case (built s k' ds)
      from 1(2) built(4) consider "k = k'" | q' where "q' \<in> set ds" "k \<in> set (fst q')"
        by (auto simp: join_proposals_def)
      then show ?thesis
      proof cases
        case 1
        have "mc_dimensions (baseline_draft r) = []" by (simp add: baseline_draft_def)
        with 1 built(2) r(1) show ?thesis unfolding drafted_def by metis
      next
        case (2 q')
        from traverse_set [OF built(3) 2(1)] obtain d where d: "d \<in> set (rule_dimensions r)"
          "dimension_candidate sha c engine av depth r s d = Inr q'" by auto
        note s = next_item_Inr [OF built(1)]
        from d(2) 2(2) show ?thesis
        proof (cases rule: dimension_candidate_shape)
          case b2: (built i j k2)
          with 2(2) have "candidate_case sha c engine 700 False (neighbor_draft r d i j) = Inr k" by simp
          moreover have "drafted c (neighbor_draft r d i j)"
            unfolding drafted_def using r(1) d(1) s b2(1) by blast
          moreover have "mc_dimensions (neighbor_draft r d i j) \<noteq> []" by (simp add: neighbor_draft_def)
          ultimately show ?thesis by metis
        qed simp
      qed
    qed
  next
    case (2 q)
    with traverse_set [OF qs] obtain b where b: "b \<in> set (batch_rules c)" "batch_candidates sha c engine av depth b = Inr q"
      by blast
    from b(2) 2(2) show ?thesis
    proof (cases rule: batch_candidates_shape)
      case (built k')
      with 2(2) have "candidate_case sha c engine 950 False (batch_draft b) = Inr k" by simp
      moreover have "drafted c (batch_draft b)" unfolding drafted_def using b(1) by blast
      moreover have "mc_dimensions (batch_draft b) \<noteq> []" by (simp add: batch_draft_def)
      ultimately show ?thesis by metis
    qed simp
  qed
qed

end
