(* ===== verification/CoveragePlan.thy ===== *)
theory CoveragePlan
  imports CoverageFacts ContractStability PermissionPlan
begin

section \<open>The plan and its neighbours\<close>

text \<open>
  A finished plan taken apart into the phases that made it, what those phases establish together,
  and what a neighbour of a rule has in common with the rule's own subject or resource.
\<close>

subsection \<open>Phases of a plan\<close>

definition planned ::
    "(str \<Rightarrow> str) \<Rightarrow> permission_contract \<Rightarrow> str \<Rightarrow> int \<Rightarrow> int \<Rightarrow> available \<Rightarrow> int \<Rightarrow> mutation_plan \<Rightarrow>
       candidate list \<Rightarrow> candidate list \<Rightarrow> coverage_gap list \<Rightarrow> eliminated_candidate list \<Rightarrow> bool" where
  \<comment> \<open>the raw candidates, those that remain after the merge in order, all gaps, all eliminations\<close>
  "planned sha c engine seed budget av depth p raw ordered gaps out \<longleftrightarrow>
     (\<exists>raw_gaps cut_gaps dups cut kept coverage.
        raw_candidates sha c engine av depth = Inr (raw, raw_gaps) \<and>
        dedupe [] [] (sort_key (candidate_key sha engine seed) raw) = Inr (kept, dups) \<and>
        ordered = sort_key (candidate_key sha engine seed) kept \<and>
        over_budget (drop (nat budget) ordered) = Inr (cut, cut_gaps) \<and>
        gaps = raw_gaps @ cut_gaps \<and> out = dups @ cut \<and>
        traverse (coverage_of (take (nat budget) ordered) gaps) (plan_targets c) = Inr coverage \<and>
        finish_plan sha c engine seed budget (length raw) (take (nat budget) ordered) coverage gaps out = Inr p)"

lemma build_planned:
  "build_permission_coverage_plan sha c engine seed budget av depth = Inr p \<longleftrightarrow>
     0 \<le> budget \<and> 1 \<le> depth \<and> (\<exists>raw ordered gaps out. planned sha c engine seed budget av depth p raw ordered gaps out)"
  unfolding build_permission_coverage_plan_def planned_def
  by (auto simp: Let_def)

lemma over_budget_Inr:
  assumes "over_budget ks = Inr (es, gs)"
  shows "length es = length ks" "gap_target ` set gs = targets_of ks"
  using assms by (auto simp: over_budget_def dest: traverse_length)
    (force simp: targets_of_def image_iff split: prod.splits)+

lemma traverse_eliminate:
  "traverse (\<lambda>k. eliminate (cand_fingerprint k) (cand_sources k) OVER_BUDGET) ks = Inr es \<Longrightarrow>
     map ec_fingerprint es = map cand_fingerprint ks \<and> (\<forall>e \<in> set es. ec_reason e = OVER_BUDGET)"
  by (induction ks arbitrary: es) (auto dest: eliminate_Inr)

lemma over_budget_listed:
  assumes "over_budget ks = Inr (es, gs)"
  shows "map ec_fingerprint es = map cand_fingerprint ks" "\<forall>e \<in> set es. ec_reason e = OVER_BUDGET"
  using assms by (auto simp: over_budget_def dest: traverse_eliminate)

lemma finish_plan_Inr:
  assumes "finish_plan sha c engine seed budget made retained coverage gaps out = Inr p"
  shows "mutation_plan_errors p = []" "mp_candidate_count p = made" "mp_retained_count p = length retained"
    "mp_cases p = map cand_case retained" "mp_coverage p = sort_key record_key coverage"
    "mp_gaps p = sort_key gap_key gaps" "mp_eliminated p = sort_key eliminated_key out"
    "mp_case_budget p = budget"
  using assms by (auto simp: finish_plan_def Let_def checked_Inr)

lemma planned_counts:
  assumes "planned sha c engine seed budget av depth p raw ordered gaps out" and "0 \<le> budget"
  shows "mp_candidate_count p = mp_retained_count p + length (mp_eliminated p)"
    "int (mp_retained_count p) \<le> budget" "mp_retained_count p = length (mp_cases p)"
    "distinct (map mc_fingerprint (mp_cases p))"
proof -
  from assms(1) obtain raw_gaps cut_gaps dups cut kept coverage where
    d: "dedupe [] [] (sort_key (candidate_key sha engine seed) raw) = Inr (kept, dups)" and
    o: "ordered = sort_key (candidate_key sha engine seed) kept" and
    b: "over_budget (drop (nat budget) ordered) = Inr (cut, cut_gaps)" and out: "out = dups @ cut" and
    f: "finish_plan sha c engine seed budget (length raw) (take (nat budget) ordered) coverage gaps out = Inr p"
    unfolding planned_def by blast
  have "length kept + length dups = length raw" using dedupe_length [OF d] by simp
  moreover have "length cut = length kept - nat budget" using over_budget_Inr(1) [OF b] o by simp
  ultimately show "mp_candidate_count p = mp_retained_count p + length (mp_eliminated p)"
    using finish_plan_Inr [OF f] o out by simp
  show "int (mp_retained_count p) \<le> budget" "mp_retained_count p = length (mp_cases p)"
    using finish_plan_Inr [OF f] assms(2) by auto
  have "distinct (map cand_fingerprint kept)" using dedupe_distinct [OF d] by simp
  then have "distinct (map cand_fingerprint ordered)" unfolding o by simp
  then have "distinct (take (nat budget) (map cand_fingerprint ordered))" by (rule distinct_take)
  moreover have "map mc_fingerprint (mp_cases p) = take (nat budget) (map cand_fingerprint ordered)"
    by (simp add: finish_plan_Inr [OF f] take_map)
  ultimately show "distinct (map mc_fingerprint (mp_cases p))" by simp
qed

text \<open>
  Every candidate that was made is a case of the plan or stands among the eliminated ones: one of each fingerprint is
  a case or over the budget, which then is used up, and the others are listed as its duplicates.
\<close>

lemma planned_partition:
  assumes "planned sha c engine seed budget av depth p raw ordered gaps out" and "0 \<le> budget"
  shows "mset (map mc_fingerprint (mp_cases p)) + mset (map ec_fingerprint (mp_eliminated p)) = mset (map cand_fingerprint raw)"
    and "mset (map mc_fingerprint (mp_cases p)) +
        mset (map ec_fingerprint (filter (\<lambda>e. ec_reason e = OVER_BUDGET) (mp_eliminated p))) = mset_set (cand_fingerprint ` set raw)"
    and "OVER_BUDGET \<in> ec_reason ` set (mp_eliminated p) \<Longrightarrow> int (mp_retained_count p) = budget"
proof -
  from assms(1) obtain raw_gaps cut_gaps dups cut kept coverage where
    d: "dedupe [] [] (sort_key (candidate_key sha engine seed) raw) = Inr (kept, dups)" and
    o: "ordered = sort_key (candidate_key sha engine seed) kept" and
    b: "over_budget (drop (nat budget) ordered) = Inr (cut, cut_gaps)" and out: "out = dups @ cut" and
    f: "finish_plan sha c engine seed budget (length raw) (take (nat budget) ordered) coverage gaps out = Inr p"
    unfolding planned_def by blast
  note plan = finish_plan_Inr [OF f]
  have cases: "map mc_fingerprint (mp_cases p) = map cand_fingerprint (take (nat budget) ordered)"
    by (simp add: plan)
  have split: "mset (map cand_fingerprint (take (nat budget) ordered)) + mset (map cand_fingerprint (drop (nat budget) ordered)) =
      mset (map cand_fingerprint kept)"
    unfolding mset_append [symmetric] map_append [symmetric] append_take_drop_id using o by simp
  note listed = over_budget_listed [OF b]
  have "mset (map ec_fingerprint (mp_eliminated p)) = mset (map ec_fingerprint dups) + mset (map cand_fingerprint (drop (nat budget) ordered))"
    by (simp add: plan out flip: listed(1))
  with dedupe_fingerprints(1) [OF d] split
  show "mset (map mc_fingerprint (mp_cases p)) + mset (map ec_fingerprint (mp_eliminated p)) = mset (map cand_fingerprint raw)"
    unfolding cases by (simp add: ac_simps)
  have "filter (\<lambda>e. ec_reason e = OVER_BUDGET) dups = []"
    using dedupe_fingerprints(3) [OF d] by (auto simp: filter_empty_conv)
  then have "mset (map ec_fingerprint (filter (\<lambda>e. ec_reason e = OVER_BUDGET) (mp_eliminated p))) = mset (map ec_fingerprint cut)"
    using listed(2) by (simp add: plan out filter_sort flip: mset_filter)
  moreover have "mset (map cand_fingerprint kept) = mset_set (cand_fingerprint ` set raw)"
    using mset_set_set [OF dedupe_distinct [OF d, simplified]] dedupe_fingerprints(2) [OF d] by simp
  ultimately show "mset (map mc_fingerprint (mp_cases p)) +
      mset (map ec_fingerprint (filter (\<lambda>e. ec_reason e = OVER_BUDGET) (mp_eliminated p))) = mset_set (cand_fingerprint ` set raw)"
    using split unfolding cases listed(1) by simp
  assume "OVER_BUDGET \<in> ec_reason ` set (mp_eliminated p)"
  then have "cut \<noteq> []"
    using dedupe_fingerprints(3) [OF d] by (auto simp: plan out)
  then have "nat budget < length ordered"
    using listed(1) by (metis drop_all leI list.map_disc_iff map_is_Nil_conv)
  then show "int (mp_retained_count p) = budget"
    using assms(2) by (simp add: plan)
qed

text \<open>Every candidate of a plan keeps the candidate invariant.\<close>

lemma planned_candidates_ok:
  assumes "planned sha c engine seed budget av depth p raw ordered gaps out"
  shows "\<forall>k \<in> set ordered. candidate_ok k"
proof -
  from assms obtain raw_gaps dups kept where
    r: "raw_candidates sha c engine av depth = Inr (raw, raw_gaps)" and
    d: "dedupe [] [] (sort_key (candidate_key sha engine seed) raw) = Inr (kept, dups)" and
    o: "ordered = sort_key (candidate_key sha engine seed) kept"
    unfolding planned_def by blast
  have "\<forall>k \<in> set kept. candidate_ok k"
  proof (rule dedupe_all [OF d])
    show "\<forall>k \<in> set [] \<union> set (sort_key (candidate_key sha engine seed) raw). candidate_ok k"
      using raw_origin [OF r] candidate_case_Inr(1) by fastforce
  qed (rule merge_ok)
  then show ?thesis by (simp add: o)
qed

text \<open>A target of a plan is retained, or a gap names it.\<close>

lemma planned_accounts:
  assumes "planned sha c engine seed budget av depth p raw ordered gaps out" and "t \<in> set (plan_targets c)"
    and "\<forall>r \<in> set (rules c). BULK \<notin> set (rule_dimensions r)"
  shows "t \<in> targets_of (take (nat budget) ordered) \<or> t \<in> gap_target ` set gaps"
proof -
  from assms(1) obtain raw_gaps cut_gaps dups cut kept where
    r: "raw_candidates sha c engine av depth = Inr (raw, raw_gaps)" and
    d: "dedupe [] [] (sort_key (candidate_key sha engine seed) raw) = Inr (kept, dups)" and
    o: "ordered = sort_key (candidate_key sha engine seed) kept" and
    b: "over_budget (drop (nat budget) ordered) = Inr (cut, cut_gaps)" and gaps: "gaps = raw_gaps @ cut_gaps"
    unfolding planned_def by blast
  have "targets_of raw = targets_of ordered"
    using dedupe_targets [OF d] o by simp
  also have "\<dots> = targets_of (take (nat budget) ordered) \<union> targets_of (drop (nat budget) ordered)"
    by (simp flip: targets_of_simps(3))
  finally show ?thesis
    using raw_count [OF r assms(3)] set_target_count [of "(raw, raw_gaps)"] assms(2) over_budget_Inr(2) [OF b] gaps
    by auto
qed

lemma coverage_of_Inr:
  assumes "coverage_of retained gaps t = Inr r"
  shows "(cr_rule_id r, cr_dimension r, cr_expectation r) = t"
    "set (cr_case_ids r) = (\<lambda>k. mc_case_id (cand_case k)) ` {k \<in> set retained. t \<in> set (cand_targets k)}"
    "set (cr_gap_codes r) = cg_code ` {g \<in> set gaps. gap_target g = t}"
    "cr_status r = COVERED \<longleftrightarrow> cr_case_ids r \<noteq> [] \<and> cr_gap_codes r = []"
proof -
  let ?codes = "map cg_code (filter (\<lambda>g. (cg_rule_id g, cg_dimension g, cg_expectation g) = t) gaps)"
  let ?ids = "map (\<lambda>k. mc_case_id (cand_case k)) (filter (\<lambda>k. t \<in> set (cand_targets k)) retained)"
  from assms have r: "r = \<lparr>cr_rule_id = fst t, cr_dimension = fst (snd t), cr_expectation = snd (snd t),
      cr_status = (if ?ids \<noteq> [] \<and> ?codes = [] then COVERED else GAP), cr_case_ids = ?ids,
      cr_gap_codes = sort_key gap_code_value (uniq ?codes)\<rparr>"
    by (simp only: coverage_of_def Let_def checked_Inr)
  show "(cr_rule_id r, cr_dimension r, cr_expectation r) = t"
    and "set (cr_case_ids r) = (\<lambda>k. mc_case_id (cand_case k)) ` {k \<in> set retained. t \<in> set (cand_targets k)}"
    and codes: "set (cr_gap_codes r) = cg_code ` {g \<in> set gaps. gap_target g = t}"
    by (simp_all add: r gap_target_def)
  have "cr_gap_codes r = [] \<longleftrightarrow> ?codes = []"
    unfolding set_empty [symmetric] codes gap_target_def by simp
  then show "cr_status r = COVERED \<longleftrightarrow> cr_case_ids r \<noteq> [] \<and> cr_gap_codes r = []"
    by (simp add: r)
qed

lemma contract_rules_not_bulk:
  assumes "validate_contract c0 = Inr c" and "r \<in> set (rules c)"
  shows "rule_errors r = []" "BULK \<notin> set (rule_dimensions r)"
proof -
  from assms have "contract_field_errors c0 = []" and "r \<in> rule_norm ` set (rules c0)"
    by (auto simp: validate_contract_Inr contract_sort_def contract_field_norm_def)
  then show "rule_errors r = []"
    by (auto simp: contract_field_errors_def guard_simps)
  then show "BULK \<notin> set (rule_dimensions r)"
    by (simp add: rule_errors_def guard_simps ball_Un)
qed

end
