(* ===== verification/CoverageTotal.thy ===== *)
theory CoverageTotal
  imports CoveragePlan
begin

section \<open>The planner returns a plan\<close>

text \<open>
  For an accepted contract no lookup of the planner fails and every object it builds passes its
  validator, as long as at most 32 rules share a fingerprint: that is the bound of
  \<open>EliminatedCandidate.source_rule_ids\<close>. The bookkeeping behind it is exact: the targets of the
  raw candidates and of the raw gaps are together the targets of the contract, each once.
\<close>

subsection \<open>Drafts whose references resolve\<close>

definition draft_ok :: "permission_contract \<Rightarrow> mutation_case \<Rightarrow> bool" where
  "draft_ok c m \<longleftrightarrow>
     mc_subject_id m \<in> subject_id ` set (subjects c) \<and>
     set (mc_resource_ids m) \<subseteq> resource_id ` set (resources c) \<and>
     (\<forall>p \<in> set (mc_relation_paths m). set p \<subseteq> relation_id ` set (relations c)) \<and>
     (\<exists>i. mc_source_rule_ids m = [i]) \<and> distinct (mc_dimensions m) \<and> length (mc_dimensions m) \<le> 6 \<and>
     1 \<le> length (mc_resource_ids m) \<and> length (mc_resource_ids m) \<le> 256 \<and>
     length (mc_expectations m) = length (mc_resource_ids m) \<and>
     length (mc_relation_paths m) = length (mc_resource_ids m) \<and>
     1 \<le> length (mc_observations m) \<and> length (mc_observations m) \<le> 16 \<and>
     (mc_batch_mode m = None \<longleftrightarrow> length (mc_resource_ids m) = 1) \<and>
     (mc_atomic m \<longrightarrow> 1 < length (mc_resource_ids m))"

lemma prefixed_hexI: "hex_text 32 h \<Longrightarrow> prefixed_hex p (p @ h)"
  by (simp add: prefixed_hex_def)

lemma draft_case_ok:
  assumes "draft_ok c m" and "hex_text 64 f" and "hex_text 64 g" and "hex_text 32 h"
  shows "mutation_case_errors (m\<lparr>mc_case_id := ''case-'' @ h, mc_fingerprint := f, mc_finding_identity := g\<rparr>) = []"
  using assms prefixed_hexI [of h "''case-''"] unfolding draft_ok_def
  by (auto simp: mutation_case_errors_def guard_simps Let_def)

lemma lookup_known: "i \<in> key ` set xs \<Longrightarrow> \<exists>v. lookup (dict_of key xs) i = Inr v"
  using dict_of_member [of i key xs] by auto

lemma next_known:
  assumes "i \<in> key ` set xs"
  obtains x where "next_item (\<lambda>x. key x = i) xs = Inr x"
proof -
  from assms have "\<exists>x \<in> set xs. key x = i" by auto
  from next_item_total [OF this] that show thesis by blast
qed

lemma first_of_declared: "first_of k (filter P (sort_key g (filter Q xs))) = Some i \<Longrightarrow> i \<in> k ` set xs"
proof -
  assume "first_of k (filter P (sort_key g (filter Q xs))) = Some i"
  then obtain x ys where l: "filter P (sort_key g (filter Q xs)) = x # ys" and i: "i = k x"
    by (auto simp: first_of_def split: list.splits)
  have "x \<in> set (filter P (sort_key g (filter Q xs)))" unfolding l by simp
  then show ?thesis unfolding i by auto
qed

lemma first_of_sorted_declared: "first_of k (sort_key g (filter Q xs)) = Some i \<Longrightarrow> i \<in> k ` set xs"
  using first_of_declared [of k "\<lambda>_. True" g Q xs i] by simp

context digest
begin

lemma candidate_case_returns:
  assumes "draft_ok c draft"
  shows "\<exists>k. candidate_case sha c engine priority baseline draft = Inr k"
proof -
  from assms have d: "mc_subject_id draft \<in> subject_id ` set (subjects c)"
    "\<forall>i \<in> set (mc_resource_ids draft). i \<in> resource_id ` set (resources c)"
    "\<forall>p \<in> set (mc_relation_paths draft). \<forall>i \<in> set p. i \<in> relation_id ` set (relations c)"
    unfolding draft_ok_def by auto
  obtain s where "lookup (subject_dict c) (mc_subject_id draft) = Inr s"
    using lookup_known [OF d(1)] by blast
  moreover obtain os where "traverse (lookup (resource_dict c)) (mc_resource_ids draft) = Inr os"
  proof -
    have "\<exists>o'. lookup (resource_dict c) i = Inr o'" if "i \<in> set (mc_resource_ids draft)" for i
      by (rule lookup_known) (use d(2) that in blast)
    then have "\<exists>os. traverse (lookup (resource_dict c)) (mc_resource_ids draft) = Inr os"
      by (rule traverse_total)
    with that show thesis by blast
  qed
  moreover obtain ls where "traverse (traverse (lookup (relation_dict c))) (mc_relation_paths draft) = Inr ls"
  proof -
    have "\<exists>l. traverse (lookup (relation_dict c)) p = Inr l" if "p \<in> set (mc_relation_paths draft)" for p
      by (rule traverse_total, rule lookup_known) (use d(3) that in blast)
    then have "\<exists>ls. traverse (traverse (lookup (relation_dict c))) (mc_relation_paths draft) = Inr ls"
      by (rule traverse_total)
    with that show thesis by blast
  qed
  ultimately show ?thesis
    unfolding candidate_case_def Let_def
    by (simp add: checked_def draft_case_ok [OF assms model_digest_hex model_digest_hex short_digest_hex] del: append_Cons)
qed

end

subsection \<open>The drafts of an accepted contract\<close>

definition ready :: "permission_contract \<Rightarrow> bool" where
  \<comment> \<open>accepted and stored in the form the validator returns\<close>
  "ready c \<longleftrightarrow> accepted c \<and> contract_field_errors c = []"

lemma validated_ready: "validate_contract c0 = Inr c \<Longrightarrow> ready c"
  using accepted_reordered [OF _ reordered_sort] field_errors_stored
  by (auto simp: ready_def validate_contract_Inr)

lemma ready_rule:
  assumes "ready c" and "r \<in> set (rules c)"
  shows "rule_errors r = []" "rule_grounded c r"
  using assms rule_guards_grounded
  by (auto simp: ready_def contract_field_errors_def guard_simps accepted_iff)

lemma ready_rule_fields:
  assumes "ready c" and "r \<in> set (rules c)"
  shows "rule_subject_id r \<in> subject_id ` set (subjects c)" "rule_resource_id r \<in> resource_id ` set (resources c)"
    "rule_action_id r \<in> action_id ` set (actions c)"
    "set (rule_relation_path r) \<subseteq> relation_id ` set (relations c)"
    "1 \<le> length (rule_observations r)" "length (rule_observations r) \<le> 16"
    "distinct (rule_dimensions r)" "length (rule_dimensions r) \<le> 6" "BULK \<notin> set (rule_dimensions r)"
proof -
  from ready_rule [OF assms] show "rule_subject_id r \<in> subject_id ` set (subjects c)"
    "rule_resource_id r \<in> resource_id ` set (resources c)" "rule_action_id r \<in> action_id ` set (actions c)"
    unfolding rule_grounded_def by (metis imageI)+
  from ready_rule(2) [OF assms]
  have "relation_chain (relation_dict c) (Subject, rule_subject_id r) (rule_relation_path r) (Resource, rule_resource_id r)"
    by (simp add: rule_grounded_def)
  from chain_declared [OF this] show "set (rule_relation_path r) \<subseteq> relation_id ` set (relations c)"
    by (auto simp: dict_simps)
qed (use ready_rule(1) [OF assms] in \<open>auto simp: rule_errors_def observations_field_def guard_simps ball_Un\<close>)

lemma baseline_draft_ok:
  assumes "ready c" and "r \<in> set (rules c)"
  shows "draft_ok c (baseline_draft r)"
  using ready_rule_fields [OF assms] by (auto simp: draft_ok_def baseline_draft_def)

lemma neighbor_draft_ok:
  assumes "ready c" and "r \<in> set (rules c)" and "i \<in> subject_id ` set (subjects c)" and "j \<in> resource_id ` set (resources c)"
  shows "draft_ok c (neighbor_draft r d i j)"
  using ready_rule_fields [OF assms(1,2)] assms(3,4) by (auto simp: draft_ok_def neighbor_draft_def)

lemma batch_draft_ok:
  assumes "ready c" and "b \<in> set (batch_rules c)"
  shows "draft_ok c (batch_draft b)"
proof -
  from assms have g: "\<forall>g \<in> set (batch_guards c b). \<not> fst g" and e: "batch_rule_errors b = []"
    by (auto simp: ready_def contract_field_errors_def guard_simps accepted_iff)
  from g obtain s where s: "subject_dict c (batch_subject_id b) = Some s"
    and ids: "\<forall>i \<in> set (batch_items b). batch_resource_id i \<in> resource_id ` set (resources c)"
    and items: "\<forall>i \<in> set (batch_items b). \<forall>g \<in> set (batch_item_guards c b s i). \<not> fst g"
    by (auto simp: batch_guards_def guard_simps Let_def ball_Un split: option.splits)
  have "set (batch_relation_path i) \<subseteq> relation_id ` set (relations c)" if i: "i \<in> set (batch_items b)" for i
  proof (cases "batch_relation_path i = []")
    case False
    with items i have "relation_chain (relation_dict c) (Subject, batch_subject_id b) (batch_relation_path i)
        (Resource, batch_resource_id i)"
      by (auto simp: batch_item_guards_def relation_path_guards_ok ball_Un Let_def split: option.splits)
    from chain_declared [OF this] show ?thesis by (auto simp: dict_simps)
  qed simp
  moreover have "batch_subject_id b \<in> subject_id ` set (subjects c)"
    using dict_of_Some [OF s] by (metis imageI)
  ultimately show ?thesis using ids e
    by (auto simp: draft_ok_def batch_draft_def batch_rule_errors_def observations_field_def guard_simps)
qed

lemma truthy_subset: "set_option m \<subseteq> X \<Longrightarrow> set_option (truthy m) \<subseteq> X"
  by (auto simp: truthy_def split: option.splits if_splits)

lemma neighbor_returns:
  assumes "ready c" and "r \<in> set (rules c)"
  shows "\<exists>n. neighbor c r s depth d = Inr n \<and>
    (\<forall>i j. n = Inr (i, j) \<longrightarrow> i \<in> subject_id ` set (subjects c) \<and> j \<in> resource_id ` set (resources c))"
proof -
  note f = ready_rule_fields [OF assms]
  obtain cur where cur: "next_item (\<lambda>s. subject_id s = rule_subject_id r) (subjects c) = Inr cur"
    using next_known [OF f(1)] by blast
  obtain a where a: "next_item (\<lambda>a. action_id a = rule_action_id r) (actions c) = Inr a"
    using next_known [OF f(3)] by blast
  obtain o' where o: "next_item (\<lambda>o'. resource_id o' = rule_resource_id r) (resources c) = Inr o'"
    using next_known [OF f(2)] by blast
  have ns: "\<exists>m. nearest_subject c (rule_subject_id r) d = Inr m \<and> set_option m \<subseteq> subject_id ` set (subjects c)"
    using cur by (cases d) (auto simp: nearest_subject_def Let_def dest: first_of_sorted_declared)
  have nw: "\<exists>m. nearest_workflow_resource c r = Inr m \<and> set_option m \<subseteq> resource_id ` set (resources c)"
    using a o by (cases "action_transition a") (auto simp: nearest_workflow_resource_def dest: first_of_sorted_declared)
  have us: "set_option (unrelated_subject c r s depth) \<subseteq> subject_id ` set (subjects c)"
    unfolding unrelated_subject_def by (auto dest: first_of_declared)
  show ?thesis
  proof (cases "d = WORKFLOW")
    case True
    from nw obtain m where m: "nearest_workflow_resource c r = Inr m" "set_option (truthy m) \<subseteq> resource_id ` set (resources c)"
      using truthy_subset by blast
    with True f(1) show ?thesis by (cases "truthy m") (simp_all add: neighbor_def)
  next
    case False
    from ns obtain m where m: "nearest_subject c (rule_subject_id r) d = Inr m" "set_option (truthy m) \<subseteq> subject_id ` set (subjects c)"
      using truthy_subset by blast
    show ?thesis
    proof (cases "truthy m")
      case (Some i)
      with False m us f(2) show ?thesis
        by (cases "unrelated_subject c r s depth"; cases "d = RELATION") (simp_all add: neighbor_def)
    qed (use False m in \<open>simp add: neighbor_def\<close>)
  qed
qed

context digest
begin

lemma dimension_candidate_returns:
  assumes "ready c" and "r \<in> set (rules c)"
  shows "\<exists>p. dimension_candidate sha c engine av depth r s d = Inr p"
proof -
  from neighbor_returns [OF assms] obtain n where n: "neighbor c r s depth d = Inr n"
    "\<forall>i j. n = Inr (i, j) \<longrightarrow> i \<in> subject_id ` set (subjects c) \<and> j \<in> resource_id ` set (resources c)"
    by blast
  show ?thesis
  proof (cases n)
    case (Inl g)
    with n show ?thesis by (simp add: dimension_candidate_def)
  next
    case (Inr q)
    obtain i j where q: "q = (i, j)" by (cases q)
    with n Inr have "draft_ok c (neighbor_draft r d i j)"
      by (intro neighbor_draft_ok [OF assms]) auto
    from candidate_case_returns [OF this, of engine 700 False] n Inr q show ?thesis
      by (auto simp: dimension_candidate_def)
  qed
qed

lemma ordinary_candidates_returns:
  assumes "ready c" and "r \<in> set (rules c)"
  shows "\<exists>p. ordinary_candidates sha c engine av depth r = Inr p"
proof -
  note f = ready_rule_fields [OF assms]
  obtain s where s: "next_item (\<lambda>s. subject_id s = rule_subject_id r) (subjects c) = Inr s"
    using next_known [OF f(1)] by blast
  obtain o' where o: "next_item (\<lambda>o'. resource_id o' = rule_resource_id r) (resources c) = Inr o'"
    using next_known [OF f(2)] by blast
  obtain k where k: "candidate_case sha c engine (if rule_expectation r = DENY then 1000 else 900) True (baseline_draft r) = Inr k"
    using candidate_case_returns [OF baseline_draft_ok [OF assms]] by blast
  obtain ps where ps: "traverse (dimension_candidate sha c engine av depth r s) (filter (\<lambda>d. d \<noteq> BULK) (rule_dimensions r)) = Inr ps"
    using traverse_total dimension_candidate_returns [OF assms] by metis
  from s o k ps show ?thesis by (simp add: ordinary_candidates_def)
qed

lemma batch_candidates_returns:
  assumes "ready c" and "b \<in> set (batch_rules c)"
  shows "\<exists>p. batch_candidates sha c engine av depth b = Inr p"
  using candidate_case_returns [OF batch_draft_ok [OF assms], of engine 950 False]
  by (auto simp: batch_candidates_def Let_def)

lemma raw_candidates_returns:
  assumes "ready c"
  shows "\<exists>p. raw_candidates sha c engine av depth = Inr p"
proof -
  obtain ps where "traverse (ordinary_candidates sha c engine av depth) (rules c) = Inr ps"
    using traverse_total ordinary_candidates_returns [OF assms] by metis
  moreover obtain qs where "traverse (batch_candidates sha c engine av depth) (batch_rules c) = Inr qs"
    using traverse_total batch_candidates_returns [OF assms] by metis
  ultimately show ?thesis by (simp add: raw_candidates_def)
qed

end

end
