(* ===== verification/CoverageReturns.thy ===== *)
theory CoverageReturns
  imports CoverageTotal
begin

section \<open>The plan of an accepted contract exists\<close>

text \<open>
  The merge, the budget cut, the coverage records and the plan's own validator, each shown to
  succeed on what the phase before it produces.
\<close>

definition known_ids :: "permission_contract \<Rightarrow> str set" where
  "known_ids c = rule_id ` set (rules c) \<union> batch_rule_id ` set (batch_rules c)"

definition sized :: "permission_contract \<Rightarrow> candidate \<Rightarrow> bool" where
  "sized c k \<longleftrightarrow> hex_text 64 (cand_fingerprint k) \<and> cand_sources k \<noteq> [] \<and> distinct (cand_sources k) \<and>
     set (cand_sources k) \<subseteq> known_ids c"

lemma drafted_sources: "drafted c m \<Longrightarrow> \<exists>i \<in> known_ids c. mc_source_rule_ids m = [i]"
  by (auto simp: drafted_def known_ids_def baseline_draft_def neighbor_draft_def batch_draft_def)

lemma raw_sized:
  assumes "raw_candidates sha c engine av depth = Inr p" and "k \<in> set (fst p)"
  shows "sized c k" "length (cand_targets k) = 1"
proof -
  from raw_origin [OF assms] obtain pr m where
    k: "candidate_case sha c engine pr (mc_dimensions m = []) m = Inr k" and m: "drafted c m" by blast
  from drafted_sources [OF m] candidate_case_Inr(2,4) [OF k] show "sized c k"
    by (auto simp: sized_def mutation_case_errors_def guard_simps)
  have "length (mc_dimensions m) \<le> 1"
    using m by (auto simp: drafted_def baseline_draft_def neighbor_draft_def batch_draft_def)
  with candidate_case_Inr(8) [OF k] show "length (cand_targets k) = 1"
    by (cases "mc_dimensions m") auto
qed

lemma merge_sized:
  assumes "sized c p" and "sized c i" and "merge_candidates p i = (m, l)" and "cand_fingerprint p = cand_fingerprint i"
  shows "sized c m"
  using assms merge_fields(1,6) [OF assms(3)] by (auto simp: sized_def uniq_def)

subsection \<open>Targets after the merge\<close>

definition all_targets :: "candidate list \<Rightarrow> coverage_target multiset" where
  "all_targets ks = mset (concat (map cand_targets ks))"

lemma all_targets_simps [simp]:
  "all_targets [] = {#}" "all_targets (k # ks) = mset (cand_targets k) + all_targets ks"
  "all_targets (ks @ ls) = all_targets ks + all_targets ls"
  by (simp_all add: all_targets_def)

lemma all_targets_mset: "mset ks = mset ls \<Longrightarrow> all_targets ks = all_targets ls"
  unfolding all_targets_def by (metis mset_concat mset_map sum_mset_sum_list)

lemma merge_targets:
  assumes "merge_candidates p i = (m, l)"
  shows "mset (cand_targets m) \<subseteq># mset (cand_targets p) + mset (cand_targets i)"
proof -
  have "mset (cand_targets m) = mset (remdups (rev (cand_targets p @ cand_targets i)))"
    using assms by (auto simp: merge_candidates_def Let_def uniq_def split: if_splits)
  also have "\<dots> \<subseteq># mset (rev (cand_targets p @ cand_targets i))" by (rule mset_remdups_subset_eq)
  finally show ?thesis by (simp add: union_commute)
qed

lemma dedupe_all_targets:
  assumes "dedupe kept out items = Inr (kept', out')" and "distinct (map cand_fingerprint kept)"
  shows "all_targets kept' \<subseteq># all_targets kept + all_targets items"
  using assms
proof (induction items arbitrary: kept out)
  case (Cons item items)
  from dedupe_step [OF Cons(2)] show ?case
  proof (elim disjE exE conjE)
    fix p m l e
    assume s: "p \<in> set kept" "cand_fingerprint p = cand_fingerprint item" "merge_candidates p item = (m, l)"
      and r: "dedupe (map (\<lambda>k. if cand_fingerprint k = cand_fingerprint item then m else k) kept)
          (out @ [e]) items = Inr (kept', out')" (is "dedupe (map ?f kept) _ _ = _")
    have fm: "cand_fingerprint m = cand_fingerprint item" using merge_fields(6) [OF s(3,2)] s(2) by simp
    from split_list [OF s(1)] obtain ks ls where k: "kept = ks @ p # ls" by blast
    have other: "cand_fingerprint q \<noteq> cand_fingerprint item" if "q \<in> set ks \<union> set ls" for q
      using that Cons(3) s(2) unfolding k by (auto simp: image_iff)
    then have "map ?f ks = ks" "map ?f ls = ls" by (auto intro!: map_idI)
    with k s(2) have "map ?f kept = ks @ m # ls" by simp
    then have "all_targets (map ?f kept) \<subseteq># all_targets kept + mset (cand_targets item)"
      using merge_targets [OF s(3)] by (simp add: k ac_simps)
    moreover have "all_targets kept' \<subseteq># all_targets (map ?f kept) + all_targets items"
      by (rule Cons(1) [OF r], unfold map_merged_fingerprints [OF fm], rule Cons(3))
    ultimately show ?thesis
      by (simp add: add.assoc [symmetric]) (meson subset_mset.add_right_mono subset_mset.order_trans)
  next
    assume "\<forall>k \<in> set kept. cand_fingerprint k \<noteq> cand_fingerprint item"
      and r: "dedupe (kept @ [item]) out items = Inr (kept', out')"
    with Cons(3) have "distinct (map cand_fingerprint (kept @ [item]))" by auto
    from Cons(1) [OF r this] show ?thesis by (simp add: ac_simps)
  qed
qed simp

lemma target_holders: "length (filter (\<lambda>k. t \<in> set (cand_targets k)) ks) \<le> count (all_targets ks) t"
proof (induction ks)
  case (Cons k ks)
  have held: "t \<in> set (cand_targets k) \<Longrightarrow> 1 \<le> count (mset (cand_targets k)) t"
    by (metis count_greater_eq_one_iff set_mset_mset)
  show ?case
  proof (cases "t \<in> set (cand_targets k)")
    case True
    with add_mono [OF held [OF True] Cons] show ?thesis by simp
  qed (use Cons in simp)
qed simp

subsection \<open>The phases succeed\<close>

lemma eliminate_returns:
  assumes "sized c k" and "card (known_ids c) \<le> 32" and "fp = cand_fingerprint k"
  shows "\<exists>e. eliminate fp (cand_sources k) reason = Inr e"
proof -
  have f: "finite (known_ids c)" by (simp add: known_ids_def)
  have "length (cand_sources k) \<le> card (known_ids c)"
    using assms(1) card_mono [OF f] by (metis distinct_card sized_def)
  moreover have "1 \<le> length (cand_sources k)" using assms(1) by (simp add: sized_def Suc_le_eq)
  ultimately show ?thesis
    using assms by (simp add: eliminate_def Let_def checked_def eliminated_errors_def guard_simps sized_def)
qed

lemma dedupe_returns:
  assumes "\<forall>k \<in> set kept \<union> set items. sized c k" and "card (known_ids c) \<le> 32"
  shows "\<exists>res. dedupe kept out items = Inr res"
  using assms(1)
proof (induction items arbitrary: kept out)
  case (Cons item items)
  show ?case
  proof (cases "find (\<lambda>k. cand_fingerprint k = cand_fingerprint item) kept")
    case None
    with Cons(1) [of "kept @ [item]" out] Cons(2) show ?thesis by simp
  next
    case (Some p)
    obtain m l where m: "merge_candidates p item = (m, l)" by (cases "merge_candidates p item")
    note p = find_same [OF Some]
    with Cons(2) have s: "sized c p" "sized c item" by auto
    have "sized c l" "cand_fingerprint item = cand_fingerprint l"
      using merge_fields(5) [OF m] s p by auto
    from eliminate_returns [OF this(1) assms(2) this(2)] obtain e where
      e: "eliminate (cand_fingerprint item) (cand_sources l) DUPLICATE_SEMANTICS = Inr e" by blast
    have "sized c m" using merge_sized [OF s m] p by simp
    with Cons(2) have "\<forall>k \<in> set (map (\<lambda>k. if cand_fingerprint k = cand_fingerprint item then m else k) kept) \<union> set items. sized c k"
      by auto
    from Cons(1) [OF this] Some m e show ?thesis by simp
  qed
qed simp

lemma over_budget_returns:
  assumes "\<forall>k \<in> set ks. sized c k" and "card (known_ids c) \<le> 32"
  shows "\<exists>res. over_budget ks = Inr res"
proof -
  have "\<exists>e. eliminate (cand_fingerprint k) (cand_sources k) OVER_BUDGET = Inr e" if "k \<in> set ks" for k
    using eliminate_returns [OF _ assms(2) refl] assms(1) that by blast
  then obtain es where "traverse (\<lambda>k. eliminate (cand_fingerprint k) (cand_sources k) OVER_BUDGET) ks = Inr es"
    using traverse_total [of ks "\<lambda>k. eliminate (cand_fingerprint k) (cand_sources k) OVER_BUDGET"] by blast
  then show ?thesis by (simp add: over_budget_def)
qed

lemma gap_codes_few: "length (uniq (cs :: coverage_gap_code list)) \<le> 8"
proof -
  have "set cs \<subseteq> {MISSING_SUBJECT, MISSING_RESOURCE, MISSING_OBSERVER, RELATION_UNPROVABLE, BUDGET_EXCEEDED, RELATION_DEPTH_EXCEEDED}"
  proof
    fix x assume "x \<in> set cs"
    show "x \<in> {MISSING_SUBJECT, MISSING_RESOURCE, MISSING_OBSERVER, RELATION_UNPROVABLE, BUDGET_EXCEEDED, RELATION_DEPTH_EXCEEDED}"
      by (cases x) simp_all
  qed
  from card_mono [OF _ this] have "card (set cs) \<le> 6" by simp
  moreover have "length (uniq cs) = card (set cs)" using distinct_card [OF distinct_uniq, of cs] by simp
  ultimately show ?thesis by simp
qed

lemma coverage_of_returns:
  assumes "count (all_targets retained) t \<le> 32" and "(fst (snd t) = None) \<noteq> (snd (snd t) = None)"
  shows "\<exists>r. coverage_of retained gaps t = Inr r"
  using assms gap_codes_few target_holders [of t retained]
  by (simp add: coverage_of_def Let_def checked_def coverage_record_errors_def guard_simps)

lemma plan_targets_one: "t \<in> set (plan_targets c) \<Longrightarrow> (fst (snd t) = None) \<noteq> (snd (snd t) = None)"
  by (auto simp: plan_targets_def)


subsection \<open>Each target once\<close>

lemma ready_ids:
  assumes "ready c"
  shows "distinct (map rule_id (rules c))" "distinct (map batch_rule_id (batch_rules c))"
    "rule_id ` set (rules c) \<inter> batch_rule_id ` set (batch_rules c) = {}"
  using assms by (auto simp: ready_def accepted_iff identifier_guards_ok)

lemma distinct_concat_keyed:
  assumes "distinct (map k xs)" and "\<And>x. x \<in> set xs \<Longrightarrow> distinct (f x)"
    and "\<And>x t. x \<in> set xs \<Longrightarrow> t \<in> set (f x) \<Longrightarrow> g t = k x"
  shows "distinct (concat (map f xs))"
  using assms
proof (induction xs)
  case (Cons x xs)
  have "set (f x) \<inter> (\<Union>y \<in> set xs. set (f y)) = {}"
  proof (rule ccontr)
    assume "set (f x) \<inter> (\<Union>y \<in> set xs. set (f y)) \<noteq> {}"
    then obtain t y where t: "t \<in> set (f x)" "y \<in> set xs" "t \<in> set (f y)" by blast
    then have "k x = k y" using Cons.prems(3) [of x t] Cons.prems(3) [of y t] by simp
    with Cons.prems(1) t(2) show False by simp
  qed
  with Cons show ?case by simp
qed simp

lemma distinct_plan_targets:
  assumes "ready c"
  shows "distinct (plan_targets c)"
proof -
  let ?f = "\<lambda>r. map (\<lambda>(d, e). (rule_id r, d, e))
      ((None, Some (rule_expectation r)) # map (\<lambda>d. (Some d, None)) (rule_dimensions r))"
  have one: "distinct (?f r)" if "r \<in> set (rules c)" for r
    using ready_rule_fields(7) [OF assms that] by (auto simp: distinct_map inj_on_def)
  have "distinct (concat (map ?f (rules c)))"
    by (rule distinct_concat_keyed [where k = rule_id and g = fst]) (use ready_ids(1) [OF assms] one in auto)
  moreover have "distinct (map (\<lambda>b. (batch_rule_id b, Some BULK, None)) (batch_rules c))"
    using ready_ids(2) [OF assms] by (auto simp: distinct_map inj_on_def)
  moreover have "fst ` set (concat (map ?f (rules c))) \<inter> fst ` set (map (\<lambda>b. (batch_rule_id b, Some BULK, None)) (batch_rules c)) = {}"
    using ready_ids(3) [OF assms] by force
  ultimately show ?thesis unfolding plan_targets_def distinct_append by blast
qed

lemma length_concat_le:
  "(\<And>x. x \<in> set xs \<Longrightarrow> length (f x) \<le> n) \<Longrightarrow> length (concat (map f xs)) \<le> n * length xs"
  by (induction xs) (auto intro: add_mono)

lemma plan_targets_length:
  assumes "ready c"
  shows "length (plan_targets c) \<le> 7 * length (rules c) + length (batch_rules c)"
  unfolding plan_targets_def length_append length_map
  by (intro add_mono length_concat_le order_refl) (simp add: ready_rule_fields(8) [OF assms])

lemma card_known: "card (known_ids c) \<le> length (rules c) + length (batch_rules c)"
  unfolding known_ids_def
  by (rule le_trans [OF card_Un_le]) (metis add_mono card_image_le card_length finite_set le_trans)

subsection \<open>The whole plan\<close>

lemma size_all_targets: "(\<And>k. k \<in> set ks \<Longrightarrow> length (cand_targets k) = 1) \<Longrightarrow> size (all_targets ks) = length ks"
  by (induction ks) auto

context digest
begin

lemma finish_plan_returns:
  assumes "1 \<le> length engine" "length engine \<le> 128" "0 \<le> budget" "budget \<le> 8192" "made \<le> 8192"
    "length retained \<le> made" "length coverage \<le> 16384" "length gaps \<le> 16384" "length out \<le> 16384"
  shows "\<exists>p. finish_plan sha c engine seed budget made retained coverage gaps out = Inr p"
  unfolding finish_plan_def Let_def checked_Inr mutation_plan_errors_def after_fields_Nil append_is_Nil_conv
    field_error_Nil
  using assms prefixed_hexI [OF short_digest_hex, of "''plan-''"]
  by (simp add: guard_simps model_digest_hex del: append_Cons)

theorem build_returns:
  assumes c: "ready c" and few: "length (rules c) + length (batch_rules c) \<le> 32"
    and engine: "1 \<le> length engine" "length engine \<le> 128"
    and budget: "0 \<le> budget" "budget \<le> 8192" and depth: "1 \<le> depth"
  shows "\<exists>p. build_permission_coverage_plan sha c engine seed budget av depth = Inr p"
proof -
  have ids: "card (known_ids c) \<le> 32" using card_known few by (rule le_trans)
  have total: "length (plan_targets c) \<le> 224" using plan_targets_length [OF c] few by simp
  obtain raw raw_gaps where raw: "raw_candidates sha c engine av depth = Inr (raw, raw_gaps)"
    using raw_candidates_returns [OF c] by (metis surj_pair)
  note raw_k = raw_sized [OF raw, simplified]
  have counted: "all_targets raw + mset (map gap_target raw_gaps) = mset (plan_targets c)"
    using raw_count [OF raw] ready_rule_fields(9) [OF c] by (simp add: target_count_def all_targets_def)
  have "size (all_targets raw) + length raw_gaps = length (plan_targets c)"
    using arg_cong [OF counted, of size] by simp
  then have sizes: "size (all_targets raw) \<le> 224" "length raw_gaps \<le> 224" "length raw \<le> 224"
    using total size_all_targets [of raw] raw_k(2) by auto
  let ?key = "candidate_key sha engine seed"
  obtain kept dups where d: "dedupe [] [] (sort_key ?key raw) = Inr (kept, dups)"
    using dedupe_returns [of "[]" "sort_key ?key raw" c] raw_k(1) ids by fastforce
  have kept_k: "\<forall>k \<in> set kept. sized c k"
  proof (rule dedupe_all [OF d])
    show "\<forall>k \<in> set [] \<union> set (sort_key ?key raw). sized c k" using raw_k(1) by simp
  qed (rule merge_sized)
  have kept_t: "all_targets kept \<subseteq># all_targets raw"
    using dedupe_all_targets [OF d] all_targets_mset [of "sort_key ?key raw" raw] by simp
  let ?o = "sort_key ?key kept"
  have ord_t: "all_targets ?o \<subseteq># all_targets raw" using kept_t all_targets_mset [of ?o kept] by simp
  obtain cut cut_gaps where b: "over_budget (drop (nat budget) ?o) = Inr (cut, cut_gaps)"
    using over_budget_returns [of "drop (nat budget) ?o" c] kept_k ids
    by (metis in_set_dropD set_sort surj_pair)
  have "all_targets (take (nat budget) ?o) + all_targets (drop (nat budget) ?o) = all_targets ?o"
    by (simp only: all_targets_simps(3) [symmetric] append_take_drop_id)
  with ord_t have parts: "all_targets (take (nat budget) ?o) + all_targets (drop (nat budget) ?o) \<subseteq># all_targets raw"
    by (simp only:)
  note part = subset_mset.order_trans [OF mset_subset_eq_add_left parts]
    subset_mset.order_trans [OF mset_subset_eq_add_right parts]
  have cut_len: "length cut_gaps = size (all_targets (drop (nat budget) ?o))"
    using b by (auto simp: over_budget_def all_targets_def length_concat comp_def)
  have "size (all_targets (drop (nat budget) ?o)) \<le> size (all_targets raw)"
    by (rule size_mset_mono [OF part(2)])
  then have gaps_len: "length (raw_gaps @ cut_gaps) \<le> 448" using cut_len sizes by simp
  have "\<exists>r. coverage_of (take (nat budget) ?o) (raw_gaps @ cut_gaps) t = Inr r" if t: "t \<in> set (plan_targets c)" for t
  proof (rule coverage_of_returns)
    have "all_targets (take (nat budget) ?o) \<subseteq># mset (plan_targets c)"
      unfolding counted [symmetric] by (rule subset_mset.order_trans [OF part(1) mset_subset_eq_add_left])
    then have "count (all_targets (take (nat budget) ?o)) t \<le> count (mset (plan_targets c)) t"
      by (rule mset_subset_eq_count)
    also have "\<dots> \<le> 1"
      using distinct_plan_targets [OF c] t unfolding distinct_count_atmost_1 by (cases t) simp
    finally show "count (all_targets (take (nat budget) ?o)) t \<le> 32" by simp
  qed (rule plan_targets_one [OF t])
  then obtain coverage where cov: "traverse (coverage_of (take (nat budget) ?o) (raw_gaps @ cut_gaps)) (plan_targets c) = Inr coverage"
    using traverse_total by metis
  have "length kept + length dups = length raw" using dedupe_length [OF d] by simp
  moreover have "length cut = length kept - nat budget" using over_budget_Inr(1) [OF b] by simp
  ultimately have "length (dups @ cut) \<le> 224" "length kept \<le> length raw" using sizes by simp_all
  then obtain p where "finish_plan sha c engine seed budget (length raw) (take (nat budget) ?o) coverage
      (raw_gaps @ cut_gaps) (dups @ cut) = Inr p"
    using finish_plan_returns [OF engine budget, of "length raw" "take (nat budget) ?o" coverage
        "raw_gaps @ cut_gaps" "dups @ cut"] sizes gaps_len traverse_length [OF cov] total by force
  with raw d b cov budget depth show ?thesis
    by (simp add: build_permission_coverage_plan_def)
qed

end

end
