(* ===== verification/CoverageNeighbors.thy ===== *)
theory CoverageNeighbors
  imports CoveragePlan
begin

section \<open>Nearest neighbours\<close>

text \<open>
  What the neighbour chosen for a coverage dimension shares with the rule it mutates, and that no
  other declared subject or resource with that property is closer.
\<close>

lemma first_of_filter_sort:
  assumes "first_of k (filter P (sort_key f xs)) = Some i"
  shows "\<exists>x \<in> set xs. k x = i \<and> P x \<and> (\<forall>y \<in> set xs. P y \<longrightarrow> f x \<le> f y)"
proof -
  from assms obtain x ys where l: "filter P (sort_key f xs) = x # ys" and "k x = i"
    by (auto simp: first_of_def split: list.splits)
  have "sorted (map f (filter P (sort_key f xs)))" by (rule sorted_filter) simp
  with l have "\<forall>y \<in> set (filter P (sort_key f xs)). f x \<le> f y" by auto
  moreover have "x \<in> set (filter P (sort_key f xs))" using l by simp
  ultimately show ?thesis using \<open>k x = i\<close> by auto
qed

lemma first_of_sort:
  "first_of k (sort_key f xs) = Some i \<Longrightarrow> \<exists>x \<in> set xs. k x = i \<and> (\<forall>y \<in> set xs. f x \<le> f y)"
  using first_of_filter_sort [of k "\<lambda>_. True" f xs i] by simp

definition differs_in :: "coverage_dimension \<Rightarrow> subject_definition \<Rightarrow> subject_definition \<Rightarrow> bool" where
  \<comment> \<open>the candidate keeps the scope of the current subject and changes what the dimension names\<close>
  "differs_in d current s \<longleftrightarrow> subject_id s \<noteq> subject_id current \<and>
     (case d of
        ROLE \<Rightarrow> same_scope current s \<and>
          (subject_roles s \<noteq> subject_roles current \<or> admin_level s \<noteq> admin_level current)
      | TENANT \<Rightarrow> subject_tenant s \<noteq> subject_tenant current
      | DEPARTMENT \<Rightarrow> subject_tenant s = subject_tenant current \<and> subject_department s \<noteq> subject_department current
      | RELATION \<Rightarrow> same_scope current s
      | _ \<Rightarrow> False)"

definition closeness :: "coverage_dimension \<Rightarrow> subject_definition \<Rightarrow> subject_definition \<Rightarrow> bool \<times> int \<times> str list \<times> str" where
  \<comment> \<open>the order in which neighbours of a dimension are preferred\<close>
  "closeness d current s =
     (if d = TENANT then (subject_roles s \<noteq> subject_roles current, \<bar>admin_level s - admin_level current\<bar>, [], subject_id s)
      else (False, subject_order current s))"

lemma nearest_subject_Some:
  assumes "nearest_subject c i d = Inr (Some j)"
  shows "\<exists>current s. current \<in> set (subjects c) \<and> subject_id current = i \<and> s \<in> set (subjects c) \<and>
    subject_id s = j \<and> differs_in d current s \<and>
    (\<forall>t \<in> set (subjects c). differs_in d current t \<longrightarrow> closeness d current s \<le> closeness d current t)"
proof -
  from assms obtain current where cur: "next_item (\<lambda>s. subject_id s = i) (subjects c) = Inr current"
    unfolding nearest_subject_def by auto
  note c = next_item_Inr [OF cur]
  have "\<exists>s. s \<in> set (subjects c) \<and> subject_id s = j \<and> differs_in d current s \<and>
    (\<forall>t \<in> set (subjects c). differs_in d current t \<longrightarrow> closeness d current s \<le> closeness d current t)"
  proof (cases d)
    case TENANT
    with assms cur have "first_of subject_id (sort_key (\<lambda>s. (subject_roles s \<noteq> subject_roles current,
        \<bar>admin_level s - admin_level current\<bar>, subject_id s))
        (filter (\<lambda>s. subject_tenant s \<noteq> subject_tenant current)
          (filter (\<lambda>s. subject_id s \<noteq> i) (subjects c)))) = Some j"
      by (simp add: nearest_subject_def Let_def)
    from first_of_sort [OF this] c show ?thesis
      by (auto simp: TENANT differs_in_def closeness_def less_eq_prod_def)
  next
    case WORKFLOW
    with assms cur show ?thesis by (simp add: nearest_subject_def Let_def)
  next
    case BULK
    with assms cur show ?thesis by (simp add: nearest_subject_def Let_def)
  next
    case ROLE
    with assms cur have "first_of subject_id (sort_key (subject_order current)
        (filter (\<lambda>s. same_scope current s \<and> (subject_roles s \<noteq> subject_roles current \<or>
           admin_level s \<noteq> admin_level current)) (filter (\<lambda>s. subject_id s \<noteq> i) (subjects c)))) = Some j"
      by (simp add: nearest_subject_def Let_def)
    from first_of_sort [OF this] c show ?thesis
      by (auto simp: ROLE differs_in_def closeness_def less_eq_prod_def)
  next
    case DEPARTMENT
    with assms cur have "first_of subject_id (sort_key (subject_order current)
        (filter (\<lambda>s. subject_tenant s = subject_tenant current \<and>
           subject_department s \<noteq> subject_department current)
          (filter (\<lambda>s. subject_id s \<noteq> i) (subjects c)))) = Some j"
      by (simp add: nearest_subject_def Let_def)
    from first_of_sort [OF this] c show ?thesis
      by (auto simp: DEPARTMENT differs_in_def closeness_def less_eq_prod_def)
  next
    case RELATION
    with assms cur have "first_of subject_id (sort_key (subject_order current)
        (filter (same_scope current) (filter (\<lambda>s. subject_id s \<noteq> i) (subjects c)))) = Some j"
      by (simp add: nearest_subject_def Let_def)
    from first_of_sort [OF this] c show ?thesis
      by (auto simp: RELATION differs_in_def closeness_def less_eq_prod_def)
  qed
  with c show ?thesis by blast
qed

text \<open>The subject chosen for the relation dimension, by the contract of the path search.\<close>

lemma unrelated_subject_Some:
  assumes "unrelated_subject c r s depth = Some j" and "distinct (map relation_id (relations c))"
  shows "\<exists>t. t \<in> set (subjects c) \<and> subject_id t = j \<and> j \<noteq> rule_subject_id r \<and> same_scope s t \<and>
    (\<forall>p. relation_chain (relation_dict c) (Subject, j) p (Resource, rule_resource_id r) \<longrightarrow> depth < int (length p)) \<and>
    (\<forall>u \<in> set (subjects c). subject_id u \<noteq> rule_subject_id r \<longrightarrow> same_scope s u \<longrightarrow>
       subject_order s u < subject_order s t \<longrightarrow>
       (\<exists>p. relation_chain (relation_dict c) (Subject, subject_id u) p (Resource, rule_resource_id r) \<and>
          int (length p) \<le> depth))"
proof -
  from first_of_filter_sort [OF assms(1) [unfolded unrelated_subject_def]] obtain t where
    t: "t \<in> set (subjects c)" "subject_id t = j" "subject_id t \<noteq> rule_subject_id r" "same_scope s t" and
    none: "find_path (relations c) (subject_id t) (rule_resource_id r) depth = None" and
    least: "\<And>u. u \<in> set (subjects c) \<Longrightarrow> subject_id u \<noteq> rule_subject_id r \<Longrightarrow> same_scope s u \<Longrightarrow>
      find_path (relations c) (subject_id u) (rule_resource_id r) depth = None \<Longrightarrow> subject_order s t \<le> subject_order s u"
    by auto
  have far: "depth < int (length p)"
    if "relation_chain (relation_dict c) (Subject, j) p (Resource, rule_resource_id r)" for p
    using paths.unprovable [OF none] that t(2) by simp
  have closer: "\<exists>p. relation_chain (relation_dict c) (Subject, subject_id u) p (Resource, rule_resource_id r) \<and>
      int (length p) \<le> depth"
    if u: "u \<in> set (subjects c)" "subject_id u \<noteq> rule_subject_id r" "same_scope s u"
      "subject_order s u < subject_order s t" for u
  proof -
    have "find_path (relations c) (subject_id u) (rule_resource_id r) depth \<noteq> None"
      using least [OF u(1-3)] u(4) by (meson leD)
    then obtain p where "find_path (relations c) (subject_id u) (rule_resource_id r) depth = Some p" by blast
    with paths.found_chain [OF assms(2)] paths.within show ?thesis by blast
  qed
  from t far closer show ?thesis by blast
qed

lemma nearest_workflow_resource_Some:
  assumes "nearest_workflow_resource c r = Inr (Some j)"
  shows "\<exists>a t o' n. a \<in> set (actions c) \<and> action_id a = rule_action_id r \<and> action_transition a = Some t \<and>
    o' \<in> set (resources c) \<and> resource_id o' = rule_resource_id r \<and> n \<in> set (resources c) \<and> resource_id n = j \<and>
    j \<noteq> rule_resource_id r \<and> resource_type n = resource_type o' \<and> resource_tenant n = resource_tenant o' \<and>
    resource_department n = resource_department o' \<and> resource_workflow_state n \<notin> set (allowed_from_states t)"
proof -
  from assms obtain a where a: "next_item (\<lambda>a. action_id a = rule_action_id r) (actions c) = Inr a"
    unfolding nearest_workflow_resource_def by auto
  with assms obtain t where t: "action_transition a = Some t"
    by (auto simp: nearest_workflow_resource_def split: option.splits)
  from assms a t obtain o' where o: "next_item (\<lambda>o'. resource_id o' = rule_resource_id r) (resources c) = Inr o'"
    by (auto simp: nearest_workflow_resource_def)
  from assms a t o have "first_of resource_id
     (sort_key (\<lambda>i. (resource_workflow_state i, resource_id i))
       (filter (\<lambda>i. resource_id i \<noteq> resource_id o' \<and> resource_type i = resource_type o' \<and>
          resource_tenant i = resource_tenant o' \<and> resource_department i = resource_department o' \<and>
          resource_workflow_state i \<notin> set (allowed_from_states t)) (resources c))) = Some j"
    by (simp add: nearest_workflow_resource_def)
  from first_of_sort [OF this] next_item_Inr [OF a] next_item_Inr [OF o] t show ?thesis by auto
qed

lemma neighbor_parts:
  assumes "neighbor c r s depth d = Inr (Inr (i, j))"
  shows "if d = WORKFLOW then i = rule_subject_id r \<and> nearest_workflow_resource c r = Inr (Some j)
         else j = rule_resource_id r \<and>
           (if d = RELATION then unrelated_subject c r s depth = Some i
            else nearest_subject c (rule_subject_id r) d = Inr (Some i))"
  using assms by (auto simp: neighbor_def truthy_def split: if_splits option.splits)

end
