(* ===== verification/CoverageProperties.thy ===== *)
theory CoverageProperties
  imports CoverageReturns CoverageNeighbors Sample
begin

section \<open>Properties of the coverage planner\<close>

text \<open>
  The path search against declared chains of relations, the choice of neighbours, and what a plan
  promises: it exists, it accounts for every candidate and it leaves no target of a rule unexplained.
\<close>

text \<open>C8: the search for a relation path of bounded length returns a shortest chain of declared
  relations from the subject to the resource, and returns nothing exactly when every such chain is
  longer than the bound; it always terminates.\<close>

theorem path_search_shortest:
  assumes "distinct (map relation_id rels)"
  shows "case find_path rels s r depth of
      Some p \<Rightarrow> relation_chain (dict_of relation_id rels) (Subject, s) p (Resource, r) \<and> int (length p) \<le> depth \<and>
        (\<forall>q. relation_chain (dict_of relation_id rels) (Subject, s) q (Resource, r) \<longrightarrow> length p \<le> length q)
    | None \<Rightarrow> (\<forall>q. relation_chain (dict_of relation_id rels) (Subject, s) q (Resource, r) \<longrightarrow> depth < int (length q))"
proof (cases "find_path rels s r depth")
  case None
  then show ?thesis using paths.unprovable by auto
next
  case (Some p)
  then show ?thesis
    using paths.found_chain [OF assms Some] paths.within [OF Some] paths.no_shorter_chain [OF Some] by simp
qed

theorem path_search_shortest_witness:
  "find_path [owns_draft] ''alice'' ''doc-1'' 8 = Some [''owns-1''] \<and>
   relation_chain (dict_of relation_id [owns_draft]) (Subject, ''alice'') [''owns-1''] (Resource, ''doc-1'')"
proof -
  have f: "find_path [owns_draft] ''alice'' ''doc-1'' 8 = Some [''owns-1'']" by code_simp
  with path_search_shortest [of "[owns_draft]" "''alice''" "''doc-1''" 8] show ?thesis by simp
qed

text \<open>C9: for an accepted contract with at most 32 rules, a budget the plan may hold and an engine
  version of at most 128 characters the planner returns a plan: no lookup fails and no object it
  builds is refused, whatever subjects, resources and observations are available.\<close>

theorem coverage_plan_exists:
  assumes "validate_contract c0 = Inr c" and "length (rules c) + length (batch_rules c) \<le> 32"
    and "1 \<le> length engine" and "length engine \<le> 128" and "0 \<le> budget" and "budget \<le> 8192" and "1 \<le> depth"
  shows "\<exists>p. build_permission_coverage_plan sha256_hex c engine seed budget av depth = Inr p"
  by (rule sha256.build_returns) (use assms validated_ready in auto)

lemma sample_small: "length (rules sample_contract) + length (batch_rules sample_contract) \<le> 32"
  by (simp add: sample_contract_def)

theorem coverage_plan_exists_witness:
  "\<exists>p. build_permission_coverage_plan sha256_hex sample_contract ''v1'' 0 2
     (availability sample_contract None None [''resource_state'']) 8 = Inr p"
  by (rule coverage_plan_exists [OF sample_valid sample_small]) simp_all

lemma sample_plan:
  "0 \<le> budget \<Longrightarrow> budget \<le> 8192 \<Longrightarrow>
     \<exists>p. build_permission_coverage_plan sha256_hex sample_contract ''v1'' 0 budget av 8 = Inr p"
  by (rule sha256.build_returns [OF validated_ready [OF sample_valid] sample_small]) simp_all

text \<open>C10: a plan accounts for the very candidates that were made from the rules. Each of them is once a case of the
  plan or once among the eliminated ones, by its fingerprint; of every fingerprint exactly one is a case or listed as
  over the budget, and all others are listed as duplicates. The plan has at most as many cases as its budget, and
  leaves one out for the budget only when it has that many.\<close>

theorem coverage_plan_accounts:
  assumes "build_permission_coverage_plan sha c engine seed budget av depth = Inr p"
  shows "\<exists>raw gaps. raw_candidates sha c engine av depth = Inr (raw, gaps) \<and>
    mset (map mc_fingerprint (mp_cases p)) + mset (map ec_fingerprint (mp_eliminated p)) = mset (map cand_fingerprint raw) \<and>
    mset (map mc_fingerprint (mp_cases p)) +
      mset (map ec_fingerprint (filter (\<lambda>e. ec_reason e = OVER_BUDGET) (mp_eliminated p))) = mset_set (cand_fingerprint ` set raw) \<and>
    distinct (map mc_fingerprint (mp_cases p)) \<and>
    mp_candidate_count p = length raw \<and> mp_retained_count p = length (mp_cases p) \<and> int (mp_retained_count p) \<le> budget \<and>
    (OVER_BUDGET \<in> ec_reason ` set (mp_eliminated p) \<longrightarrow> int (mp_retained_count p) = budget)"
proof -
  from assms obtain raw ordered gaps out where
    p: "planned sha c engine seed budget av depth p raw ordered gaps out" and b: "0 \<le> budget"
    unfolding build_planned by blast
  from p obtain raw_gaps where "raw_candidates sha c engine av depth = Inr (raw, raw_gaps)"
    unfolding planned_def by blast
  moreover have "mp_candidate_count p = length raw"
    using p by (auto simp: planned_def dest: finish_plan_Inr(2))
  ultimately show ?thesis
    using planned_counts [OF p b] planned_partition [OF p b] by blast
qed

theorem coverage_plan_accounts_witness:
  "\<exists>p. build_permission_coverage_plan sha256_hex sample_contract ''v1'' 0 1
     (availability sample_contract None None [''resource_state'']) 8 = Inr p \<and>
     mp_candidate_count p = size (mset (map mc_fingerprint (mp_cases p)) + mset (map ec_fingerprint (mp_eliminated p))) \<and>
     length (mp_cases p) \<le> 1"
proof -
  obtain p where "build_permission_coverage_plan sha256_hex sample_contract ''v1'' 0 1
      (availability sample_contract None None [''resource_state'']) 8 = Inr p"
    using sample_plan [of 1] by auto
  from coverage_plan_accounts [OF this] this show ?thesis by (metis length_map nat_int_comparison(3) of_nat_1 size_mset)
qed

text \<open>C11: no target of a rule goes missing. In the plan of an accepted contract every rule has a
  coverage record for its expectation and for each of its dimensions (a batch rule for the batch
  dimension); a record counts as covered exactly when it names cases and no gap, and a record that is
  not covered names at least one reason.\<close>

theorem no_silent_gap:
  assumes "validate_contract c0 = Inr c"
    and "build_permission_coverage_plan sha c engine seed budget av depth = Inr p"
  shows "(\<forall>t \<in> set (plan_targets c). \<exists>r \<in> set (mp_coverage p). (cr_rule_id r, cr_dimension r, cr_expectation r) = t) \<and>
    (\<forall>r \<in> set (mp_coverage p).
       (cr_status r = COVERED \<longleftrightarrow> cr_case_ids r \<noteq> [] \<and> cr_gap_codes r = []) \<and>
       (cr_status r = GAP \<longrightarrow> cr_gap_codes r \<noteq> []) \<and>
       set (cr_case_ids r) \<subseteq> mc_case_id ` set (mp_cases p))"
proof -
  from assms(2) obtain raw ordered gaps out where pl: "planned sha c engine seed budget av depth p raw ordered gaps out"
    unfolding build_planned by blast
  then obtain coverage where
    cov: "traverse (coverage_of (take (nat budget) ordered) gaps) (plan_targets c) = Inr coverage" and
    f: "finish_plan sha c engine seed budget (length raw) (take (nat budget) ordered) coverage gaps out = Inr p"
    unfolding planned_def by blast
  have set_p: "set (mp_coverage p) = set coverage" "set (mp_cases p) = cand_case ` set (take (nat budget) ordered)"
    by (simp_all add: finish_plan_Inr [OF f])
  have "cr_status r = GAP \<longrightarrow> cr_gap_codes r \<noteq> []" if r: "r \<in> set coverage" for r
  proof (intro impI notI)
    assume g: "cr_status r = GAP" and none: "cr_gap_codes r = []"
    from traverse_set [OF cov r] obtain t where t: "t \<in> set (plan_targets c)"
      "coverage_of (take (nat budget) ordered) gaps t = Inr r" by blast
    note parts = coverage_of_Inr [OF t(2)]
    from none parts(3) have "t \<notin> gap_target ` set gaps" by auto
    with planned_accounts [OF pl t(1)] contract_rules_not_bulk [OF assms(1)]
    have "t \<in> targets_of (take (nat budget) ordered)" by blast
    then have "cr_case_ids r \<noteq> []" using parts(2) by (auto simp: targets_of_def)
    with none parts(4) g show False by simp
  qed
  moreover have "\<exists>r \<in> set coverage. (cr_rule_id r, cr_dimension r, cr_expectation r) = t"
    if "t \<in> set (plan_targets c)" for t
    using traverse_member [OF cov that] coverage_of_Inr(1) by blast
  moreover have "(cr_status r = COVERED \<longleftrightarrow> cr_case_ids r \<noteq> [] \<and> cr_gap_codes r = []) \<and>
      set (cr_case_ids r) \<subseteq> mc_case_id ` set (mp_cases p)" if "r \<in> set coverage" for r
    using traverse_set [OF cov that] coverage_of_Inr(2,4) unfolding set_p by fastforce
  ultimately show ?thesis unfolding set_p(1) by blast
qed

theorem no_silent_gap_witness:
  "\<exists>p. build_permission_coverage_plan sha256_hex sample_contract ''v1'' 0 1
     (availability sample_contract None None []) 8 = Inr p \<and>
     (\<forall>r \<in> set (mp_coverage p). cr_status r = GAP \<longrightarrow> cr_gap_codes r \<noteq> []) \<and>
     (\<exists>r \<in> set (mp_coverage p). cr_rule_id r = ''rule-1'' \<and> cr_dimension r = Some WORKFLOW)"
proof -
  obtain p where p: "build_permission_coverage_plan sha256_hex sample_contract ''v1'' 0 1
      (availability sample_contract None None []) 8 = Inr p"
    using sample_plan [of 1] by auto
  have "(''rule-1'', Some WORKFLOW, None) \<in> set (plan_targets sample_contract)"
    by (simp add: plan_targets_def sample_contract_def edit_rule_def)
  with no_silent_gap [OF sample_valid p] p show ?thesis by blast
qed

text \<open>The neighbour a coverage dimension mutates a rule to differs from the rule in that dimension
  alone. A workflow neighbour keeps the subject and is another resource of the same type and scope in a
  state the transition does not start from; any other neighbour keeps the resource and is another
  subject that changes the role, the tenant or the department, or that has the same scope and no
  declared relation path within the search depth.\<close>

theorem neighbor_isolates_dimension:
  assumes "validate_contract c0 = Inr c" and "s \<in> set (subjects c)" and "subject_id s = rule_subject_id r"
    and "neighbor c r s depth d = Inr (Inr (i, j))"
  shows "if d = WORKFLOW
    then i = rule_subject_id r \<and> (\<exists>o' \<in> set (resources c). \<exists>n \<in> set (resources c). \<exists>a \<in> set (actions c). \<exists>t.
        resource_id o' = rule_resource_id r \<and> resource_id n = j \<and> j \<noteq> rule_resource_id r \<and>
        resource_type n = resource_type o' \<and> resource_tenant n = resource_tenant o' \<and>
        resource_department n = resource_department o' \<and>
        action_id a = rule_action_id r \<and> action_transition a = Some t \<and>
        resource_workflow_state n \<notin> set (allowed_from_states t))
    else j = rule_resource_id r \<and> (\<exists>n \<in> set (subjects c). subject_id n = i \<and> differs_in d s n \<and>
        (d = RELATION \<longrightarrow> (\<forall>q. relation_chain (relation_dict c) (Subject, i) q (Resource, j) \<longrightarrow> depth < int (length q))))"
proof (cases "d = WORKFLOW")
  case True
  with neighbor_parts [OF assms(4)] nearest_workflow_resource_Some [of c r j] show ?thesis by auto
next
  case False
  have u: "unique_ids c"
    using validated_ready [OF assms(1)] accepted_unique_ids by (simp add: ready_def)
  show ?thesis
  proof (cases "d = RELATION")
    case True
    with neighbor_parts [OF assms(4)] have j: "j = rule_resource_id r"
      and i: "unrelated_subject c r s depth = Some i" by auto
    from unrelated_subject_Some [OF i] u obtain t where "t \<in> set (subjects c)" "subject_id t = i"
      "i \<noteq> rule_subject_id r" "same_scope s t"
      "\<forall>q. relation_chain (relation_dict c) (Subject, i) q (Resource, rule_resource_id r) \<longrightarrow> depth < int (length q)"
      unfolding unique_ids_def by blast
    with True j assms(3) show ?thesis unfolding differs_in_def by auto
  next
    case other: False
    with False neighbor_parts [OF assms(4)] have j: "j = rule_resource_id r"
      and n: "nearest_subject c (rule_subject_id r) d = Inr (Some i)" by auto
    from nearest_subject_Some [OF n] obtain current t where "current \<in> set (subjects c)"
      "subject_id current = rule_subject_id r" "t \<in> set (subjects c)" "subject_id t = i" "differs_in d current t"
      by blast
    moreover from this assms(2,3) u have "current = s"
      unfolding unique_ids_def distinct_map by (metis inj_onD)
    ultimately show ?thesis using False other j by auto
  qed
qed

theorem neighbor_isolates_dimension_witness:
  "neighbor sample_contract edit_rule (person ''alice'' 0) 8 RELATION = Inr (Inr (''bob'', ''doc-1'')) \<and>
   (\<exists>n \<in> set (subjects sample_contract). subject_id n = ''bob'' \<and> differs_in RELATION (person ''alice'' 0) n)"
proof -
  have n: "neighbor sample_contract edit_rule (person ''alice'' 0) 8 RELATION = Inr (Inr (''bob'', ''doc-1''))"
    by code_simp
  have "person ''alice'' 0 \<in> set (subjects sample_contract)" "subject_id (person ''alice'' 0) = rule_subject_id edit_rule"
    by (simp_all add: sample_contract_def edit_rule_def person_def)
  from neighbor_isolates_dimension [OF sample_valid this n] n show ?thesis by auto
qed

end
