(* ===== verification/Relationships.thy ===== *)
theory Relationships
  imports Sha256 RelationGraph
begin

section \<open>Finite relationship conditions\<close>

text \<open>
  Models \<^verbatim>\<open>product/protocols/checks/relationships.py\<close>: the requirement a permission
  condition makes on organisations, inherited roles, shares and delegations, the snapshot a source
  collects, the bounded search in the collected graphs and the observation derived from them.
\<close>

datatype relationship_kind = ORGANIZATION | ROLE_INHERITANCE | SHARING | DELEGATION

datatype relation_state = Active | Absent | Expired | Revoked

datatype organization_scope = Same | Subject_Ancestor | Resource_Ancestor

datatype match_status = MATCH | MISMATCH | UNMATCHED_UNKNOWN

datatype relationship_reason =
    RELATIONSHIP_MATCHED | RELATIONSHIP_NOT_MATCHED | RELATIONSHIP_TIME_UNCERTAIN
  | RELATIONSHIP_SCOPE_INCOMPLETE | RELATIONSHIP_DEPTH_EXCEEDED

fun relationship_kind_value :: "relationship_kind \<Rightarrow> str" where
  "relationship_kind_value ORGANIZATION = ''ORGANIZATION''"
| "relationship_kind_value ROLE_INHERITANCE = ''ROLE_INHERITANCE''"
| "relationship_kind_value SHARING = ''SHARING''"
| "relationship_kind_value DELEGATION = ''DELEGATION''"

fun relation_state_value :: "relation_state \<Rightarrow> str" where
  "relation_state_value Active = ''ACTIVE''"
| "relation_state_value Absent = ''ABSENT''"
| "relation_state_value Expired = ''EXPIRED''"
| "relation_state_value Revoked = ''REVOKED''"

fun organization_scope_value :: "organization_scope \<Rightarrow> str" where
  "organization_scope_value Same = ''SAME''"
| "organization_scope_value Subject_Ancestor = ''SUBJECT_ANCESTOR''"
| "organization_scope_value Resource_Ancestor = ''RESOURCE_ANCESTOR''"

definition public_id :: "str \<Rightarrow> bool" where
  "public_id = headed (\<lambda>c. is_lower c \<or> is_upper c \<or> is_digit c)
     (\<lambda>c. is_lower c \<or> is_upper c \<or> is_digit c \<or> c \<in> set ''_.:-'') 127"

record relationship_requirement =
  rr_kind :: relationship_kind
  rr_state :: relation_state
  rr_scope :: organization_scope
  rr_inherited_role :: "str option"
  rr_max_depth :: int

definition public_field :: "str \<Rightarrow> str \<Rightarrow> str list" where
  "public_field field v = field_error [pattern_guard field public_id v]"

definition requirement_errors :: "relationship_requirement \<Rightarrow> str list" where
  "requirement_errors r = after_fields
     (optional_field (public_field ''inherited_role'') (rr_inherited_role r)
      @ field_error [(rr_max_depth r < 1, ''max_depth: greater_than_equal''),
                     (8 < rr_max_depth r, ''max_depth: less_than_equal'')])
     [(rr_kind r \<noteq> ORGANIZATION \<and> rr_scope r \<noteq> Same, ''organization scope belongs to organization relationships''),
      ((rr_kind r = ROLE_INHERITANCE) \<noteq> (rr_inherited_role r \<noteq> None), ''role inheritance requires its named business role''),
      (rr_kind r \<in> {ORGANIZATION, ROLE_INHERITANCE} \<and> rr_state r \<notin> {Active, Absent},
         ''membership uses active or absent state''),
      (rr_kind r \<in> {SHARING, DELEGATION} \<and> rr_max_depth r \<noteq> 1,
         ''grants support direct, non-redelegable relationships'')]"

definition requirement_json :: "relationship_requirement \<Rightarrow> json" where
  "requirement_json r = JObj
     [(''kind'', JStr (relationship_kind_value (rr_kind r))), (''state'', JStr (relation_state_value (rr_state r))),
      (''organization_scope'', JStr (organization_scope_value (rr_scope r))),
      (''inherited_role'', json_option JStr (rr_inherited_role r)), (''max_depth'', JInt (rr_max_depth r))]"

definition requirement_fingerprint :: "(str \<Rightarrow> str) \<Rightarrow> relationship_requirement \<Rightarrow> str" where
  "requirement_fingerprint sha r = permission_model_sha256 sha (requirement_json r)"

subsection \<open>Collected relationships\<close>

record relationship_edge =
  edge_child :: str
  edge_parent :: str

record relationship_grant =
  grant_id :: str
  grant_kind :: relationship_kind
  grantor_id :: str
  grantee_id :: str
  grantee_is_group :: bool
  grant_resource_id :: str
  grant_actions :: "str list"
  valid_from_us :: int
  valid_until_us :: "int option"
  revoked_at_us :: "int option"

definition nonneg_field :: "str \<Rightarrow> int \<Rightarrow> str list" where
  "nonneg_field field n = field_error [(n < 0, field @ '': greater_than_equal'')]"

definition grant_errors :: "relationship_grant \<Rightarrow> str list" where
  "grant_errors g = after_fields
     (public_field ''grant_id'' (grant_id g)
      @ field_error [(grant_kind g \<notin> {SHARING, DELEGATION}, ''kind: literal_error'')]
      @ public_field ''grantor_id'' (grantor_id g) @ public_field ''grantee_id'' (grantee_id g)
      @ public_field ''resource_id'' (grant_resource_id g)
      @ field_error (size_guards ''actions'' 1 32 (grant_actions g))
      @ concat (map (public_field ''actions'') (grant_actions g))
      @ nonneg_field ''valid_from_us'' (valid_from_us g)
      @ optional_field (nonneg_field ''valid_until_us'') (valid_until_us g)
      @ optional_field (nonneg_field ''revoked_at_us'') (revoked_at_us g))
     [((\<not> grantee_is_group g \<and> grantor_id g = grantee_id g) \<or> has_duplicates (grant_actions g),
         ''grant endpoints and actions must be distinct''),
      (grant_kind g = DELEGATION \<and> grantee_is_group g, ''bounded delegation requires one explicit subject''),
      (given (\<lambda>u. u \<le> valid_from_us g) (valid_until_us g), ''grant interval must be nonempty''),
      (given (\<lambda>u. u < valid_from_us g) (revoked_at_us g), ''revocation cannot precede grant'')]"

record relationship_snapshot =
  snap_subject_id :: str
  snap_owner_id :: str
  snap_resource_id :: str
  snap_action :: str
  snap_observed_at_us :: int
  snap_clock_uncertainty_us :: int
  snap_source_time_us :: "int option"
  snap_scope_complete :: bool
  snap_subject_organizations :: "str list"
  snap_subject_groups :: "str list option"
  snap_resource_organization :: "str option"
  snap_organization_parents :: "relationship_edge list"
  snap_subject_roles :: "str list"
  snap_role_inheritance :: "relationship_edge list"
  snap_grants :: "relationship_grant list"

definition parents_of :: "relationship_edge list \<Rightarrow> str \<Rightarrow> str list" where
  \<comment> \<open>\<open>sorted(graph.get(node, ()))\<close>\<close>
  "parents_of es n = sort (uniq (map edge_parent (filter (\<lambda>e. edge_child e = n) es)))"

definition relationship_graph :: "relationship_edge list \<Rightarrow> str graph" where
  "relationship_graph es = map (\<lambda>n. (n, parents_of es n)) (sort (uniq (map edge_child es)))"

definition edges_guards :: "relationship_edge list \<Rightarrow> guard list" where
  "edges_guards es =
     [(has_duplicates (map (\<lambda>e. (edge_child e, edge_parent e)) es), ''duplicate relationship edge''),
      (reject_cycles (relationship_graph es), ''cyclic relationship graph'')]"

definition snapshot_errors :: "relationship_snapshot \<Rightarrow> str list" where
  "snapshot_errors s = after_fields
     (public_field ''subject_id'' (snap_subject_id s) @ public_field ''owner_id'' (snap_owner_id s)
      @ public_field ''resource_id'' (snap_resource_id s) @ public_field ''action'' (snap_action s)
      @ nonneg_field ''observed_at_us'' (snap_observed_at_us s)
      @ field_error [(snap_clock_uncertainty_us s < 0, ''clock_uncertainty_us: greater_than_equal''),
                     (5000000 < snap_clock_uncertainty_us s, ''clock_uncertainty_us: less_than_equal'')]
      @ optional_field (nonneg_field ''source_time_us'') (snap_source_time_us s)
      @ field_error (size_guards ''subject_organizations'' 0 32 (snap_subject_organizations s))
      @ concat (map (public_field ''subject_organizations'') (snap_subject_organizations s))
      @ optional_field (\<lambda>gs. field_error (size_guards ''subject_groups'' 0 32 gs)
          @ concat (map (public_field ''subject_groups'') gs)) (snap_subject_groups s)
      @ optional_field (public_field ''resource_organization'') (snap_resource_organization s)
      @ field_error (size_guards ''organization_parents'' 0 128 (snap_organization_parents s))
      @ concat (map (\<lambda>e. public_field ''child'' (edge_child e) @ public_field ''parent'' (edge_parent e))
          (snap_organization_parents s))
      @ field_error (size_guards ''subject_roles'' 0 32 (snap_subject_roles s))
      @ concat (map (public_field ''subject_roles'') (snap_subject_roles s))
      @ field_error (size_guards ''role_inheritance'' 0 128 (snap_role_inheritance s))
      @ concat (map (\<lambda>e. public_field ''child'' (edge_child e) @ public_field ''parent'' (edge_parent e))
          (snap_role_inheritance s))
      @ field_error (size_guards ''grants'' 0 128 (snap_grants s))
      @ concat (map grant_errors (snap_grants s)))
     ([(has_duplicates (snap_subject_organizations s), ''duplicate relationship membership''),
       (has_duplicates (snap_subject_roles s), ''duplicate relationship membership''),
       (given has_duplicates (snap_subject_groups s), ''duplicate relationship membership''),
       (has_duplicates (map grant_id (snap_grants s)), ''duplicate grant identity'')]
      @ edges_guards (snap_organization_parents s) @ edges_guards (snap_role_inheritance s))"

subsection \<open>The bounded path search\<close>

text \<open>
  \<open>exhausted\<close> records that a path was cut at the depth limit although it could go on; the search
  then cannot tell that no path exists.
\<close>

function climb :: "relationship_edge list \<Rightarrow> str \<Rightarrow> int \<Rightarrow> str set \<Rightarrow> bool \<Rightarrow> str list list \<Rightarrow> str list \<times> bool" where
  "climb es target depth seen exhausted [] = ([], exhausted)"
| "climb es target depth seen exhausted (path # pending) =
     (if last path = target then (path, exhausted)
      else let parents = filter (\<lambda>p. p \<notin> seen) (parents_of es (last path)) in
        if int (length path) - 1 = depth then climb es target depth seen (exhausted \<or> parents \<noteq> []) pending
        else climb es target depth (seen \<union> set parents) exhausted (pending @ map (\<lambda>p. path @ [p]) parents))"
  by pat_completeness auto
termination
proof (relation "measure (\<lambda>(es, _, _, seen, _, pending). card (edge_parent ` set es - seen) + length pending)", goal_cases)
  case (3 es target depth seen exhausted path pending parents)
  let ?P = "edge_parent ` set es" and ?N = "set (filter (\<lambda>p. p \<notin> seen) (parents_of es (last path)))"
  have sub: "?N \<subseteq> ?P - seen" by (auto simp: parents_of_def)
  have "distinct (filter (\<lambda>p. p \<notin> seen) (parents_of es (last path)))" by (simp add: parents_of_def)
  from distinct_card [OF this] have len: "card ?N = length (filter (\<lambda>p. p \<notin> seen) (parents_of es (last path)))" by simp
  have "card (?P - seen) = card (?P - seen - ?N) + card ?N"
    using sub card_mono [OF _ sub] by (simp add: card_Diff_subset)
  moreover have "?P - seen - ?N = ?P - (seen \<union> ?N)" by blast
  ultimately show ?case using 3 len by simp
qed auto

definition relationship_path :: "relationship_edge list \<Rightarrow> str list \<Rightarrow> str \<Rightarrow> int \<Rightarrow> str list \<times> bool" where
  "relationship_path es starts target depth =
     climb es target depth (set starts) False (map (\<lambda>s. [s]) (sort starts))"

subsection \<open>The observation\<close>

record observed_relationship =
  or_fingerprint :: str
  or_kind :: relationship_kind
  or_status :: match_status
  or_observed_at_us :: int
  or_path :: "str list"
  or_reason :: relationship_reason

definition observed_errors :: "observed_relationship \<Rightarrow> str list" where
  "observed_errors r =
     field_error [pattern_guard ''requirement_fingerprint'' (hex_text 64) (or_fingerprint r)]
     @ nonneg_field ''observed_at_us'' (or_observed_at_us r)
     @ field_error (size_guards ''path'' 0 9 (or_path r)) @ concat (map (public_field ''path'') (or_path r))"

text \<open>What a branch finds: a premature verdict, or the path, the cut and the states seen.\<close>

type_synonym finding = "(relationship_reason) + (str list \<times> bool \<times> relation_state list)"

fun subject_ancestor :: "relationship_edge list \<Rightarrow> str \<Rightarrow> int \<Rightarrow> bool \<Rightarrow> str list \<Rightarrow> str list \<times> bool" where
  "subject_ancestor es start depth exhausted [] = ([], exhausted)"
| "subject_ancestor es start depth exhausted (organization # rest) =
     (let (found, beyond) = relationship_path es [start] organization depth in
      if found \<noteq> [] then (found, exhausted \<or> beyond)
      else subject_ancestor es start depth (exhausted \<or> beyond) rest)"

definition presence :: "str list \<times> bool \<Rightarrow> finding" where
  "presence r = Inr (fst r, snd r, [if fst r \<noteq> [] then Active else Absent])"

definition organization_finding :: "relationship_requirement \<Rightarrow> relationship_snapshot \<Rightarrow> finding" where
  "organization_finding q s =
     (case snap_resource_organization s of
        None \<Rightarrow> Inl RELATIONSHIP_SCOPE_INCOMPLETE
      | Some o' \<Rightarrow> presence
          (case rr_scope q of
             Same \<Rightarrow> (if o' \<in> set (snap_subject_organizations s) then [o'] else [], False)
           | Resource_Ancestor \<Rightarrow>
               relationship_path (snap_organization_parents s) (snap_subject_organizations s) o' (rr_max_depth q)
           | Subject_Ancestor \<Rightarrow>
               subject_ancestor (snap_organization_parents s) o' (rr_max_depth q) False (snap_subject_organizations s)))"

definition role_finding :: "relationship_requirement \<Rightarrow> relationship_snapshot \<Rightarrow> finding" where
  \<comment> \<open>an accepted requirement of this kind names its role\<close>
  "role_finding q s = presence
     (relationship_path (snap_role_inheritance s) (snap_subject_roles s) (the (rr_inherited_role q)) (rr_max_depth q))"

definition grant_applies :: "relationship_requirement \<Rightarrow> relationship_snapshot \<Rightarrow> relationship_grant \<Rightarrow> bool" where
  "grant_applies q s g \<longleftrightarrow> grant_kind g = rr_kind q \<and> grantor_id g = snap_owner_id s \<and>
     grant_resource_id g = snap_resource_id s \<and> snap_action s \<in> set (grant_actions g)"

definition grant_state :: "int \<Rightarrow> relationship_grant \<Rightarrow> relation_state" where
  "grant_state lower g =
     (if given (\<lambda>r. r \<le> lower) (revoked_at_us g) then Revoked
      else if given (\<lambda>u. u \<le> lower) (valid_until_us g) then Expired else Active)"

definition grant_boundary :: "int \<Rightarrow> int \<Rightarrow> relationship_grant \<Rightarrow> bool" where
  \<comment> \<open>a boundary of the grant lies inside the uncertain interval\<close>
  "grant_boundary lower upper g \<longleftrightarrow>
     (lower < valid_from_us g \<and> valid_from_us g \<le> upper) \<or>
     given (\<lambda>b. lower < b \<and> b \<le> upper) (valid_until_us g) \<or>
     given (\<lambda>b. lower < b \<and> b \<le> upper) (revoked_at_us g)"

definition grant_path :: "relationship_snapshot \<Rightarrow> relationship_grant \<Rightarrow> str list" where
  "grant_path s g =
     (if grantee_is_group g then [grantor_id g, grantee_id g, snap_subject_id s] else [grantor_id g, grantee_id g])"

fun grant_scan ::
    "relationship_requirement \<Rightarrow> relationship_snapshot \<Rightarrow> int \<Rightarrow> int \<Rightarrow> str list \<Rightarrow> relation_state list \<Rightarrow>
       relationship_grant list \<Rightarrow> relationship_reason + (str list \<times> relation_state list)" where
  "grant_scan q s lower upper path states [] = Inr (path, states)"
| "grant_scan q s lower upper path states (g # gs) =
     (if \<not> grant_applies q s g then grant_scan q s lower upper path states gs
      else if grantee_is_group g \<and> snap_subject_groups s = None then Inl RELATIONSHIP_SCOPE_INCOMPLETE
      else if grantee_is_group g \<and> given (\<lambda>ms. grantee_id g \<notin> set ms) (snap_subject_groups s)
      then grant_scan q s lower upper path states gs
      else if \<not> grantee_is_group g \<and> grantee_id g \<noteq> snap_subject_id s then grant_scan q s lower upper path states gs
      else if grant_boundary lower upper g then Inl RELATIONSHIP_TIME_UNCERTAIN
      else if lower < valid_from_us g then grant_scan q s lower upper path states gs
      else let state = grant_state lower g in
        grant_scan q s lower upper (if state = rr_state q then grant_path s g else path) (states @ [state]) gs)"

definition sample_time :: "relationship_snapshot \<Rightarrow> int" where
  "sample_time s = (case snap_source_time_us s of None \<Rightarrow> snap_observed_at_us s | Some t \<Rightarrow> t)"

definition window_lower :: "relationship_snapshot \<Rightarrow> int" where
  "window_lower s = min (sample_time s) (snap_observed_at_us s) - snap_clock_uncertainty_us s"

definition window_upper :: "relationship_snapshot \<Rightarrow> int" where
  "window_upper s = max (sample_time s) (snap_observed_at_us s) + snap_clock_uncertainty_us s"

definition settle_states :: "relation_state \<Rightarrow> relation_state list \<Rightarrow> relation_state list option" where
  \<comment> \<open>\<open>None\<close>: several inactive states, none of them decisive\<close>
  "settle_states wanted states =
     (let seen = (if states = [] then [Absent] else states) in
      if Active \<in> set seen \<and> wanted \<in> {Revoked, Expired, Absent} then Some [Active]
      else if Active \<notin> set seen \<and> 1 < length (uniq seen) then None else Some seen)"

definition grant_finding :: "relationship_requirement \<Rightarrow> relationship_snapshot \<Rightarrow> finding" where
  "grant_finding q s =
     (if 5000000 + snap_clock_uncertainty_us s < \<bar>sample_time s - snap_observed_at_us s\<bar>
      then Inl RELATIONSHIP_TIME_UNCERTAIN
      else case grant_scan q s (window_lower s) (window_upper s) [] [] (snap_grants s) of
          Inl reason \<Rightarrow> Inl reason
        | Inr (path, states) \<Rightarrow>
            (case settle_states (rr_state q) states of
               None \<Rightarrow> Inl RELATIONSHIP_SCOPE_INCOMPLETE
             | Some final_states \<Rightarrow> Inr (path, False, final_states)))"

definition observe_relationship ::
    "(str \<Rightarrow> str) \<Rightarrow> relationship_requirement \<Rightarrow> relationship_snapshot \<Rightarrow> observed_relationship" where
  "observe_relationship sha q s =
     (let result = (\<lambda>status reason path.
            \<lparr>or_fingerprint = requirement_fingerprint sha q, or_kind = rr_kind q, or_status = status,
             or_observed_at_us = snap_observed_at_us s, or_path = path, or_reason = reason\<rparr>)
      in if \<not> snap_scope_complete s then result UNMATCHED_UNKNOWN RELATIONSHIP_SCOPE_INCOMPLETE []
         else case (if rr_kind q = ORGANIZATION then organization_finding q s
                    else if rr_kind q = ROLE_INHERITANCE then role_finding q s else grant_finding q s) of
             Inl reason \<Rightarrow> result UNMATCHED_UNKNOWN reason []
           | Inr (path, exhausted, states) \<Rightarrow>
               if exhausted \<and> path = [] then result UNMATCHED_UNKNOWN RELATIONSHIP_DEPTH_EXCEEDED []
               else if rr_state q \<in> set states then result MATCH RELATIONSHIP_MATCHED path
               else result MISMATCH RELATIONSHIP_NOT_MATCHED [])"

end
