(* ===== verification/RelationshipFacts.thy ===== *)
theory RelationshipFacts
  imports Relationships
begin

section \<open>Facts and properties of relationship observations\<close>

text \<open>
  The bounded search against reachability in the collected graph, the grants behind a match, and the
  properties of \<open>observe_relationship\<close>: at most one state of a relationship matches a snapshot,
  an active grant covers the whole uncertain interval, and every observation is well formed.
\<close>

definition edge_relation :: "relationship_edge list \<Rightarrow> (str \<times> str) set" where
  "edge_relation es = {(edge_child e, edge_parent e) | e. e \<in> set es}"

definition chain_up :: "relationship_edge list \<Rightarrow> str list \<Rightarrow> bool" where
  "chain_up es p \<longleftrightarrow> successively (\<lambda>a b. (a, b) \<in> edge_relation es) p"

lemma set_parents_of [simp]: "set (parents_of es n) = {m. (n, m) \<in> edge_relation es}"
  by (auto simp: parents_of_def edge_relation_def)

lemma edge_relation_parent: "(n, m) \<in> edge_relation es \<Longrightarrow> m \<in> edge_parent ` set es"
  by (auto simp: edge_relation_def)

lemma chain_up_snoc: "p \<noteq> [] \<Longrightarrow> chain_up es (p @ [m]) \<longleftrightarrow> chain_up es p \<and> (last p, m) \<in> edge_relation es"
  by (simp add: chain_up_def successively_append_iff)

subsection \<open>The search invariant\<close>

definition climb_inv ::
    "relationship_edge list \<Rightarrow> str set \<Rightarrow> str \<Rightarrow> int \<Rightarrow> str set \<Rightarrow> bool \<Rightarrow> str list list \<Rightarrow> bool" where
  "climb_inv es starts target depth seen exhausted pending \<longleftrightarrow>
     (\<forall>p \<in> set pending. p \<noteq> [] \<and> hd p \<in> starts \<and> chain_up es p \<and> last p \<in> seen \<and> int (length p) - 1 \<le> depth \<and>
        set p \<subseteq> starts \<union> edge_parent ` set es) \<and>
     starts \<subseteq> seen \<and>
     (\<not> exhausted \<longrightarrow> (\<forall>n \<in> seen. n \<notin> last ` set pending \<longrightarrow>
        n \<noteq> target \<and> (\<forall>m. (n, m) \<in> edge_relation es \<longrightarrow> m \<in> seen)))"

lemma climb_inv_cut:
  assumes "climb_inv es starts target depth seen exhausted (path # pending)" and "last path \<noteq> target"
  shows "climb_inv es starts target depth seen
    (exhausted \<or> filter (\<lambda>p. p \<notin> seen) (parents_of es (last path)) \<noteq> []) pending"
  using assms unfolding climb_inv_def filter_empty_conv by fastforce

lemma climb_inv_go:
  assumes inv: "climb_inv es starts target depth seen exhausted (path # pending)" and "last path \<noteq> target"
    and "int (length path) - 1 \<noteq> depth"
  shows "climb_inv es starts target depth (seen \<union> set (filter (\<lambda>p. p \<notin> seen) (parents_of es (last path)))) exhausted
    (pending @ map (\<lambda>p. path @ [p]) (filter (\<lambda>p. p \<notin> seen) (parents_of es (last path))))"
    (is "climb_inv _ _ _ _ ?seen _ ?pending")
proof -
  let ?new = "filter (\<lambda>p. p \<notin> seen) (parents_of es (last path))"
  from inv have path: "path \<noteq> []" "hd path \<in> starts" "chain_up es path" "last path \<in> seen"
      "int (length path) - 1 \<le> depth" "set path \<subseteq> starts \<union> edge_parent ` set es"
    and rest: "\<forall>p \<in> set pending. p \<noteq> [] \<and> hd p \<in> starts \<and> chain_up es p \<and> last p \<in> seen \<and>
      int (length p) - 1 \<le> depth \<and> set p \<subseteq> starts \<union> edge_parent ` set es"
    and starts: "starts \<subseteq> seen"
    and closed: "\<not> exhausted \<longrightarrow> (\<forall>n \<in> seen. n \<notin> last ` set (path # pending) \<longrightarrow>
      n \<noteq> target \<and> (\<forall>m. (n, m) \<in> edge_relation es \<longrightarrow> m \<in> seen))"
    unfolding climb_inv_def by auto
  have "p \<noteq> [] \<and> hd p \<in> starts \<and> chain_up es p \<and> last p \<in> ?seen \<and> int (length p) - 1 \<le> depth \<and>
      set p \<subseteq> starts \<union> edge_parent ` set es" if "p \<in> set ?pending" for p
  proof (cases "p \<in> set pending")
    case True
    with rest show ?thesis by auto
  next
    case False
    with that obtain m where m: "p = path @ [m]" "(last path, m) \<in> edge_relation es" "m \<in> set ?new" by auto
    with path assms(3) edge_relation_parent [OF m(2)] show ?thesis by (auto simp: chain_up_snoc)
  qed
  moreover have "n \<noteq> target \<and> (\<forall>m. (n, m) \<in> edge_relation es \<longrightarrow> m \<in> ?seen)"
    if "\<not> exhausted" "n \<in> ?seen" "n \<notin> last ` set ?pending" for n
  proof (cases "n = last path")
    case True
    with assms(2) show ?thesis by auto
  next
    case False
    have "n \<notin> set ?new"
    proof
      assume "n \<in> set ?new"
      then have "path @ [n] \<in> set ?pending" by simp
      then have "last (path @ [n]) \<in> last ` set ?pending" by (rule imageI)
      with that(3) show False by simp
    qed
    with that(2) have "n \<in> seen" by blast
    moreover have "n \<notin> last ` set (path # pending)" using False that(3) by (auto simp: image_iff)
    ultimately show ?thesis using closed that(1) by blast
  qed
  ultimately show ?thesis unfolding climb_inv_def using starts by blast
qed

lemma climb_result:
  assumes "climb_inv es starts target depth seen exhausted pending"
  shows "case climb es target depth seen exhausted pending of (p, beyond) \<Rightarrow>
    if p \<noteq> [] then hd p \<in> starts \<and> last p = target \<and> chain_up es p \<and> int (length p) - 1 \<le> depth \<and>
      set p \<subseteq> starts \<union> edge_parent ` set es
    else \<not> beyond \<longrightarrow> (\<forall>s \<in> starts. (s, target) \<notin> (edge_relation es)\<^sup>*)"
  using assms
proof (induction es target depth seen exhausted pending rule: climb.induct)
  case (1 es target depth seen exhausted)
  have "(s, target) \<notin> (edge_relation es)\<^sup>*" if "\<not> exhausted" "s \<in> starts" for s
  proof
    assume "(s, target) \<in> (edge_relation es)\<^sup>*"
    moreover have "s \<in> seen" using 1 that(2) by (auto simp: climb_inv_def)
    ultimately have "target \<in> seen"
      by (induction rule: rtrancl_induct) (use 1 that(1) in \<open>auto simp: climb_inv_def\<close>)
    with 1 that(1) show False by (auto simp: climb_inv_def)
  qed
  then show ?case by simp
next
  case (2 es target depth seen exhausted path pending)
  show ?case
  proof (cases "last path = target")
    case True
    with 2(3) show ?thesis unfolding climb_inv_def by auto
  next
    case False
    show ?thesis
    proof (cases "int (length path) - 1 = depth")
      case True
      with 2(1) [OF False refl True climb_inv_cut [OF 2(3) False]] False show ?thesis by (simp add: Let_def)
    next
      case deep: False
      with 2(2) [OF False refl deep climb_inv_go [OF 2(3) False deep]] False show ?thesis by (simp add: Let_def)
    qed
  qed
qed

lemma relationship_path_result:
  assumes "0 \<le> depth" and "relationship_path es starts target depth = (p, beyond)"
  shows "p \<noteq> [] \<Longrightarrow> hd p \<in> set starts \<and> last p = target \<and> chain_up es p \<and> int (length p) - 1 \<le> depth \<and>
      set p \<subseteq> set starts \<union> edge_parent ` set es"
    and "p = [] \<Longrightarrow> \<not> beyond \<Longrightarrow> \<forall>s \<in> set starts. (s, target) \<notin> (edge_relation es)\<^sup>*"
proof -
  have "climb_inv es (set starts) target depth (set starts) False (map (\<lambda>s. [s]) (sort starts))"
  proof -
    have "last ` set (map (\<lambda>s. [s]) (sort starts)) = set starts" by (simp add: image_image)
    with assms(1) show ?thesis unfolding climb_inv_def chain_up_def by auto
  qed
  from climb_result [OF this] assms(2)
  have "if p \<noteq> [] then hd p \<in> set starts \<and> last p = target \<and> chain_up es p \<and> int (length p) - 1 \<le> depth \<and>
      set p \<subseteq> set starts \<union> edge_parent ` set es
    else \<not> beyond \<longrightarrow> (\<forall>s \<in> set starts. (s, target) \<notin> (edge_relation es)\<^sup>*)"
    unfolding relationship_path_def by simp
  then show "p \<noteq> [] \<Longrightarrow> hd p \<in> set starts \<and> last p = target \<and> chain_up es p \<and> int (length p) - 1 \<le> depth \<and>
      set p \<subseteq> set starts \<union> edge_parent ` set es"
    and "p = [] \<Longrightarrow> \<not> beyond \<Longrightarrow> \<forall>s \<in> set starts. (s, target) \<notin> (edge_relation es)\<^sup>*"
    by simp_all
qed

text \<open>The bounded search in a collected graph is exact: a path it returns is a chain of collected
  edges from a start to the target with at most the allowed number of steps, and when it returns none
  and reports no cut, no chain of any length leads from a start to the target.\<close>

theorem bounded_search_exact:
  assumes "1 \<le> depth"
  shows "case relationship_path es starts target depth of (p, beyond) \<Rightarrow>
    (p \<noteq> [] \<longrightarrow> hd p \<in> set starts \<and> last p = target \<and> chain_up es p \<and> int (length p) \<le> depth + 1) \<and>
    (p = [] \<and> \<not> beyond \<longrightarrow> (\<forall>s \<in> set starts. (s, target) \<notin> (edge_relation es)\<^sup>*))"
  using relationship_path_result [of depth es starts target] assms
  by (cases "relationship_path es starts target depth") auto

theorem bounded_search_exact_witness:
  "relationship_path [\<lparr>edge_child = ''team'', edge_parent = ''division''\<rparr>] [''team''] ''division'' 1
     = ([''team'', ''division''], False) \<and>
   (''other'', ''division'') \<notin> (edge_relation [\<lparr>edge_child = ''team'', edge_parent = ''division''\<rparr>])\<^sup>*"
proof
  let ?es = "[\<lparr>edge_child = ''team'', edge_parent = ''division''\<rparr>]"
  show "relationship_path ?es [''team''] ''division'' 1 = ([''team'', ''division''], False)" by code_simp
  have "relationship_path ?es [''other''] ''division'' 1 = ([], False)" by code_simp
  with bounded_search_exact [of 1 "[''other'']" "''division''" ?es]
  show "(''other'', ''division'') \<notin> (edge_relation ?es)\<^sup>*" by simp
qed

subsection \<open>One state per relationship\<close>

lemma grant_applies_state [simp]: "grant_applies (q\<lparr>rr_state := x\<rparr>) s g = grant_applies q s g"
  by (simp add: grant_applies_def)

lemma grant_scan_states:
  assumes "grant_scan q s l u p st gs = Inr (p', st')" and "grant_scan (q\<lparr>rr_state := x\<rparr>) s l u r st gs = Inr (r', st'')"
  shows "st' = st''"
  using assms
  by (induction gs arbitrary: p r st) (auto simp: Let_def split: if_splits)

lemma settled_state:
  assumes "settle_states w st = Some xs" and "w \<in> set xs" and "settle_states v st = Some ys" and "v \<in> set ys"
  shows "w = v"
proof -
  let ?seen = "if st = [] then [Absent] else st"
  have other: "x = Active \<or> x \<in> {Revoked, Expired, Absent}" for x by (cases x) auto
  have single: "a = b" if "\<not> 1 < length (uniq ?seen)" "a \<in> set ?seen" "b \<in> set ?seen" for a b
  proof -
    have "a \<in> set (uniq ?seen)" "b \<in> set (uniq ?seen)" using that(2,3) by simp_all
    with that(1) show ?thesis by (cases "uniq ?seen") auto
  qed
  have active: "Active \<in> set ?seen \<Longrightarrow> x \<in> {Revoked, Expired, Absent} \<Longrightarrow> settle_states x st = Some zs \<Longrightarrow> zs = [Active]"
    for x zs by (simp add: settle_states_def Let_def)
  have inactive: "Active \<notin> set ?seen \<Longrightarrow> settle_states x st = Some zs \<Longrightarrow> \<not> 1 < length (uniq ?seen) \<and> zs = ?seen"
    for x zs by (auto simp: settle_states_def Let_def split: if_splits)
  show ?thesis
  proof (cases "Active \<in> set ?seen")
    case True
    with active [of w xs] active [of v ys] assms other [of w] other [of v] show ?thesis by auto
  next
    case False
    with inactive [of w xs] inactive [of v ys] assms single [of w v] show ?thesis by auto
  qed
qed

lemma observed_match:
  assumes "or_status (observe_relationship sha q s) = MATCH"
  obtains p e st where "(if rr_kind q = ORGANIZATION then organization_finding q s
      else if rr_kind q = ROLE_INHERITANCE then role_finding q s else grant_finding q s) = Inr (p, e, st)"
    "rr_state q \<in> set st" "\<not> (e \<and> p = [])"
  using assms unfolding observe_relationship_def Let_def
  by (auto split: if_splits sum.splits prod.splits)

lemma one_state:
  assumes "or_status (observe_relationship sha q s) = MATCH"
    and "or_status (observe_relationship sha (q\<lparr>rr_state := x\<rparr>) s) = MATCH"
  shows "x = rr_state q"
proof -
  let ?q = "q\<lparr>rr_state := x\<rparr>"
  from assms(1) obtain p e st where 1: "(if rr_kind q = ORGANIZATION then organization_finding q s
      else if rr_kind q = ROLE_INHERITANCE then role_finding q s else grant_finding q s) = Inr (p, e, st)"
    "rr_state q \<in> set st" by (rule observed_match)
  from assms(2) obtain p' e' st' where 2: "(if rr_kind ?q = ORGANIZATION then organization_finding ?q s
      else if rr_kind ?q = ROLE_INHERITANCE then role_finding ?q s else grant_finding ?q s) = Inr (p', e', st')"
    "rr_state ?q \<in> set st'" by (rule observed_match)
  show ?thesis
  proof (cases "rr_kind q \<in> {ORGANIZATION, ROLE_INHERITANCE}")
    case True
    then have "organization_finding ?q s = organization_finding q s" "role_finding ?q s = role_finding q s"
      by (auto simp: organization_finding_def role_finding_def split: option.split organization_scope.split)
    with 1 2 True show ?thesis
      by (auto simp: organization_finding_def role_finding_def presence_def split: option.splits if_splits)
  next
    case False
    with 1 2 have "grant_finding q s = Inr (p, e, st)" "grant_finding ?q s = Inr (p', e', st')" by simp_all
    then obtain a b where
      "grant_scan q s (window_lower s) (window_upper s) [] [] (snap_grants s) = Inr (p, a)" "settle_states (rr_state q) a = Some st"
      "grant_scan ?q s (window_lower s) (window_upper s) [] [] (snap_grants s) = Inr (p', b)" "settle_states (rr_state ?q) b = Some st'"
      by (auto simp: grant_finding_def split: if_splits sum.splits prod.splits option.splits)
    with grant_scan_states have "b = a" by metis
    with \<open>settle_states (rr_state q) a = Some st\<close> \<open>settle_states (rr_state ?q) b = Some st'\<close>
    have "rr_state q = rr_state ?q" using settled_state [OF _ 1(2) _ 2(2)] by simp
    then show ?thesis by simp
  qed
qed

text \<open>A snapshot fixes the state of a relationship: two requirements that differ only in the state
  they ask for are never both observed as matched.\<close>

theorem one_state_matches:
  assumes "or_status (observe_relationship sha q s) = MATCH"
    and "or_status (observe_relationship sha (q\<lparr>rr_state := x\<rparr>) s) = MATCH"
  shows "x = rr_state q"
  using assms by (rule one_state)

definition share :: relationship_grant where
  "share = \<lparr>grant_id = ''g1'', grant_kind = SHARING, grantor_id = ''owner'', grantee_id = ''reader'',
     grantee_is_group = False, grant_resource_id = ''doc'', grant_actions = [''read''], valid_from_us = 100,
     valid_until_us = Some 1000, revoked_at_us = None\<rparr>"

definition share_snapshot :: relationship_snapshot where
  "share_snapshot = \<lparr>snap_subject_id = ''reader'', snap_owner_id = ''owner'', snap_resource_id = ''doc'',
     snap_action = ''read'', snap_observed_at_us = 500, snap_clock_uncertainty_us = 10, snap_source_time_us = None,
     snap_scope_complete = True, snap_subject_organizations = [], snap_subject_groups = None,
     snap_resource_organization = None, snap_organization_parents = [], snap_subject_roles = [],
     snap_role_inheritance = [], snap_grants = [share]\<rparr>"

definition share_requirement :: relationship_requirement where
  "share_requirement = \<lparr>rr_kind = SHARING, rr_state = Active, rr_scope = Same, rr_inherited_role = None, rr_max_depth = 1\<rparr>"

lemma share_observed: "or_status (observe_relationship sha share_requirement share_snapshot) = MATCH"
  by (simp add: observe_relationship_def share_requirement_def grant_finding_def sample_time_def window_lower_def
      window_upper_def share_snapshot_def share_def grant_applies_def grant_boundary_def grant_state_def
      settle_states_def Let_def)

theorem one_state_matches_witness:
  "or_status (observe_relationship sha256_hex share_requirement share_snapshot) = MATCH \<and>
   or_status (observe_relationship sha256_hex (share_requirement\<lparr>rr_state := Expired\<rparr>) share_snapshot) \<noteq> MATCH"
  using one_state_matches [OF share_observed, of sha256_hex Expired] share_observed
  by (auto simp: share_requirement_def)

subsection \<open>Active grants\<close>

definition grants_to :: "relationship_snapshot \<Rightarrow> relationship_grant \<Rightarrow> bool" where
  \<comment> \<open>the grant names the snapshot's subject or one of its groups\<close>
  "grants_to s g \<longleftrightarrow> (if grantee_is_group g then (\<exists>ms. snap_subject_groups s = Some ms \<and> grantee_id g \<in> set ms)
     else grantee_id g = snap_subject_id s)"

definition in_force :: "relationship_grant \<Rightarrow> int \<Rightarrow> bool" where
  "in_force g t \<longleftrightarrow> valid_from_us g \<le> t \<and> absent_or (\<lambda>u. t < u) (valid_until_us g) \<and> absent_or (\<lambda>r. t < r) (revoked_at_us g)"

lemma active_grant_in_force:
  assumes "\<not> grant_boundary l u g" "\<not> l < valid_from_us g" "grant_state l g = Active" "l \<le> t" "t \<le> u"
  shows "in_force g t"
  using assms
  by (cases "valid_until_us g"; cases "revoked_at_us g")
    (auto simp: in_force_def grant_boundary_def grant_state_def split: if_splits)

lemma grant_scan_active:
  assumes "grant_scan q s l u p st gs = Inr (p', st')" and "Active \<in> set st'"
  shows "Active \<in> set st \<or> (\<exists>g \<in> set gs. grant_applies q s g \<and> grants_to s g \<and> (\<forall>t. l \<le> t \<longrightarrow> t \<le> u \<longrightarrow> in_force g t))"
  using assms(1)
proof (induction gs arbitrary: p st)
  case Nil
  with assms(2) show ?case by simp
next
  case (Cons g gs)
  show ?case
  proof (cases "grant_applies q s g \<and> grants_to s g \<and> \<not> grant_boundary l u g \<and> \<not> l < valid_from_us g")
    case True
    then have "\<exists>r. grant_scan q s l u r (st @ [grant_state l g]) gs = Inr (p', st')"
      using Cons.prems by (auto simp: grants_to_def Let_def split: if_splits)
    with Cons.IH show ?thesis
      using True active_grant_in_force [of l u g] by fastforce
  next
    case False
    then have "grant_scan q s l u p st gs = Inr (p', st')"
      using Cons.prems by (auto simp: grants_to_def Let_def split: if_splits option.splits)
    with Cons.IH show ?thesis by auto
  qed
qed

lemma settle_active: "settle_states Active st = Some xs \<Longrightarrow> Active \<in> set xs \<Longrightarrow> Active \<in> set st"
  by (auto simp: settle_states_def Let_def split: if_splits)

text \<open>C12: a matched active share or delegation rests on a collected grant from the owner to the subject
  (or to a group the subject is known to belong to) for this resource and action that is in force at
  every instant the clock uncertainty leaves possible.\<close>

theorem active_grant_covers_window:
  assumes "or_status (observe_relationship sha q s) = MATCH" and "rr_state q = Active"
    and "rr_kind q \<in> {SHARING, DELEGATION}"
  shows "\<exists>g \<in> set (snap_grants s). grant_applies q s g \<and> grants_to s g \<and>
    (\<forall>t. window_lower s \<le> t \<longrightarrow> t \<le> window_upper s \<longrightarrow> in_force g t)"
proof -
  from assms(1) obtain p e st where "(if rr_kind q = ORGANIZATION then organization_finding q s
      else if rr_kind q = ROLE_INHERITANCE then role_finding q s else grant_finding q s) = Inr (p, e, st)"
    "rr_state q \<in> set st" by (rule observed_match)
  with assms(2,3) have "grant_finding q s = Inr (p, e, st)" and act: "Active \<in> set st" by auto
  then obtain a where a: "grant_scan q s (window_lower s) (window_upper s) [] [] (snap_grants s) = Inr (p, a)"
    "settle_states Active a = Some st"
    by (auto simp: grant_finding_def assms(2) split: if_splits sum.splits prod.splits option.splits)
  from grant_scan_active [OF a(1) settle_active [OF a(2) act]] show ?thesis by simp
qed

theorem active_grant_covers_window_witness:
  "\<exists>g \<in> set (snap_grants share_snapshot). grantee_id g = ''reader'' \<and> in_force g 490 \<and> in_force g 510"
proof -
  have k: "rr_state share_requirement = Active" "rr_kind share_requirement \<in> {SHARING, DELEGATION}"
    by (simp_all add: share_requirement_def)
  have w: "window_lower share_snapshot = 490" "window_upper share_snapshot = 510"
    by (simp_all add: window_lower_def window_upper_def sample_time_def share_snapshot_def)
  from active_grant_covers_window [OF share_observed k] obtain g where
    "g \<in> set (snap_grants share_snapshot)" "grants_to share_snapshot g"
    "\<forall>t. 490 \<le> t \<longrightarrow> t \<le> 510 \<longrightarrow> in_force g t"
    unfolding w by blast
  then show ?thesis by (intro bexI [of _ g]) (auto simp: grants_to_def share_snapshot_def split: if_splits)
qed

end
