(* ===== verification/Conditions.thy ===== *)
theory Conditions
  imports RelationshipFacts
begin

section \<open>Finite permission conditions\<close>

text \<open>
  Models \<^verbatim>\<open>product/protocols/checks/conditions.py\<close>: the finite conditions a permission is
  limited by, what a source observed of them, the comparison of the two with its unknown outcome, and
  the test whether two conditions can hold together.
\<close>

datatype principal_kind = AUTHENTICATED | ANONYMOUS

datatype tenant_condition = SAME | DIFFERENT

record permission_conditions =
  pc_principal :: principal_kind
  pc_tenant :: "tenant_condition option"
  pc_resource_states :: "str list"
  pc_relationships :: "relationship_requirement list"

definition printable :: "str \<Rightarrow> bool" where
  \<comment> \<open>equal to its \<open>strip()\<close>, no control characters\<close>
  "printable v \<longleftrightarrow> (v = [] \<or> (\<not> is_space (hd v) \<and> \<not> is_space (last v))) \<and>
     list_all (\<lambda>c. (32 :: nat) \<le> of_char c) v"

definition public_value_errors :: "str \<Rightarrow> str \<Rightarrow> str list" where
  "public_value_errors field v = field_error (size_guards field 1 128 v)"

definition conditions_errors :: "permission_conditions \<Rightarrow> str list" where
  "conditions_errors c = after_fields
     (field_error (size_guards ''resource_states'' 0 8 (pc_resource_states c)
        @ map (\<lambda>v. (public_value_errors ''resource_states'' v \<noteq> [], ''resource_states: length'')) (pc_resource_states c)
        @ [(has_duplicates (pc_resource_states c) \<or> list_ex (\<lambda>v. \<not> printable v) (pc_resource_states c),
            ''resource states must be unique'')])
      @ field_error (size_guards ''relationships'' 0 4 (pc_relationships c))
      @ concat (map requirement_errors (pc_relationships c)))
     [(has_duplicates (map rr_kind (pc_relationships c)), ''one finite requirement per relationship kind''),
      (pc_relationships c \<noteq> [] \<and> pc_principal c = ANONYMOUS,
         ''relationship conditions require an authenticated subject''),
      (pc_principal c = ANONYMOUS \<and> pc_tenant c \<noteq> None, ''an anonymous principal has no verified tenant''),
      (pc_principal c = AUTHENTICATED \<and> pc_tenant c = None \<and> pc_resource_states c = [] \<and> pc_relationships c = [],
         ''use an absent condition for an unconditional authenticated rule'')]"

definition conditions_norm :: "permission_conditions \<Rightarrow> permission_conditions" where
  "conditions_norm c = c\<lparr>pc_resource_states := sort (pc_resource_states c)\<rparr>"

record observed_conditions =
  oc_proof_fingerprint :: str
  oc_source_id :: str
  oc_source_fingerprint :: str
  oc_principal :: principal_kind
  oc_subject_tenant :: "str option"
  oc_owner_tenant :: "str option"
  oc_resource_tenant :: "str option"
  oc_resource_state :: "str option"
  oc_relationships :: "observed_relationship list"

definition tagged_hex :: "str \<Rightarrow> str \<Rightarrow> bool" where
  \<comment> \<open>a fixed prefix and 32 hexadecimal digits\<close>
  "tagged_hex prefix s \<longleftrightarrow> take (length prefix) s = prefix \<and> hex_text 32 (drop (length prefix) s)"

definition public_value_field :: "str \<Rightarrow> str \<Rightarrow> str list" where
  "public_value_field field v = field_error
     (size_guards field 1 128 v @ [(\<not> printable v, ''condition values must be public printable identifiers'')])"

definition observed_conditions_errors :: "observed_conditions \<Rightarrow> str list" where
  "observed_conditions_errors o' =
     field_error [pattern_guard ''proof_fingerprint'' (hex_text 64) (oc_proof_fingerprint o')]
     @ field_error [pattern_guard ''source_id'' (tagged_hex ''psr_'') (oc_source_id o')]
     @ field_error [pattern_guard ''source_fingerprint'' (hex_text 64) (oc_source_fingerprint o')]
     @ optional_field (public_value_field ''subject_tenant'') (oc_subject_tenant o')
     @ optional_field (public_value_field ''owner_tenant'') (oc_owner_tenant o')
     @ optional_field (public_value_field ''resource_tenant'') (oc_resource_tenant o')
     @ optional_field (public_value_field ''resource_state'') (oc_resource_state o')
     @ field_error (size_guards ''relationships'' 0 4 (oc_relationships o'))
     @ concat (map observed_errors (oc_relationships o'))"

subsection \<open>Comparison\<close>

text \<open>The checks the relationships add, or nothing when one of them is unknown.\<close>

fun relationship_checks ::
    "(str \<Rightarrow> str) \<Rightarrow> observed_relationship list \<Rightarrow> relationship_requirement list \<Rightarrow> bool list option" where
  "relationship_checks sha os [] = Some []"
| "relationship_checks sha os (q # qs) =
     (case filter (\<lambda>i. or_fingerprint i = requirement_fingerprint sha q \<and> or_kind i = rr_kind q) os of
        [i] \<Rightarrow> if or_status i = UNMATCHED_UNKNOWN then None
               else map_option ((#) (or_status i = MATCH)) (relationship_checks sha os qs)
      | _ \<Rightarrow> None)"

definition tenant_checks :: "tenant_condition option \<Rightarrow> observed_conditions \<Rightarrow> bool list option" where
  "tenant_checks wanted o' =
     (case wanted of
        None \<Rightarrow> Some []
      | Some t \<Rightarrow>
          if None \<in> {oc_subject_tenant o', oc_owner_tenant o', oc_resource_tenant o'} then None
          else Some [oc_owner_tenant o' = oc_resource_tenant o',
                     (oc_subject_tenant o' = oc_resource_tenant o') = (t = SAME)])"

definition state_checks :: "str list \<Rightarrow> observed_conditions \<Rightarrow> bool list option" where
  "state_checks states o' =
     (if states = [] then Some []
      else case oc_resource_state o' of None \<Rightarrow> None | Some v \<Rightarrow> Some [v \<in> set states])"

definition match_permission_conditions ::
    "(str \<Rightarrow> str) \<Rightarrow> permission_conditions option \<Rightarrow> observed_conditions option \<Rightarrow> match_status" where
  "match_permission_conditions sha expected observed =
     (case expected of
        None \<Rightarrow> MATCH
      | Some e \<Rightarrow>
          (case observed of
             None \<Rightarrow> UNMATCHED_UNKNOWN
           | Some o' \<Rightarrow>
               (case (tenant_checks (pc_tenant e) o', state_checks (pc_resource_states e) o',
                      relationship_checks sha (oc_relationships o') (pc_relationships e)) of
                  (Some ts, Some ss, Some rs) \<Rightarrow>
                    if list_all (\<lambda>b. b) ((oc_principal o' = pc_principal e) # ts @ ss @ rs) then MATCH else MISMATCH
                | _ \<Rightarrow> UNMATCHED_UNKNOWN)))"

definition collected_conditions_status ::
    "(str \<Rightarrow> str) \<Rightarrow> permission_conditions option \<Rightarrow> observed_conditions list \<Rightarrow> match_status" where
  "collected_conditions_status sha expected observations =
     (if expected = None then MATCH
      else let states = map (\<lambda>o'. match_permission_conditions sha expected (Some o')) observations in
        if states = [] \<or> UNMATCHED_UNKNOWN \<in> set states then UNMATCHED_UNKNOWN
        else if MISMATCH \<in> set states then MISMATCH else MATCH)"

definition principal_of :: "permission_conditions option \<Rightarrow> principal_kind" where
  "principal_of c = (case c of None \<Rightarrow> AUTHENTICATED | Some c' \<Rightarrow> pc_principal c')"

definition opposed :: "relationship_requirement \<Rightarrow> relationship_requirement \<Rightarrow> bool" where
  "opposed a b \<longleftrightarrow> rr_kind a = rr_kind b \<and> rr_scope a = rr_scope b \<and> rr_inherited_role a = rr_inherited_role b \<and>
     rr_max_depth a = rr_max_depth b \<and> rr_state a \<noteq> rr_state b"

definition permission_conditions_overlap ::
    "permission_conditions option \<Rightarrow> permission_conditions option \<Rightarrow> bool" where
  "permission_conditions_overlap left right \<longleftrightarrow>
     principal_of left = principal_of right \<and>
     (case (left, right) of
        (Some l, Some r) \<Rightarrow>
          \<not> (pc_tenant l \<noteq> None \<and> pc_tenant r \<noteq> None \<and> pc_tenant l \<noteq> pc_tenant r) \<and>
          \<not> (\<exists>a \<in> set (pc_relationships l). \<exists>b \<in> set (pc_relationships r). opposed a b) \<and>
          \<not> (pc_resource_states l \<noteq> [] \<and> pc_resource_states r \<noteq> [] \<and>
             set (pc_resource_states l) \<inter> set (pc_resource_states r) = {})
      | _ \<Rightarrow> True)"

subsection \<open>What a match means\<close>

definition tenant_holds :: "tenant_condition option \<Rightarrow> observed_conditions \<Rightarrow> bool" where
  "tenant_holds wanted o' \<longleftrightarrow> (\<forall>t. wanted = Some t \<longrightarrow>
     (\<exists>s w. oc_subject_tenant o' = Some s \<and> oc_owner_tenant o' = Some w \<and> oc_resource_tenant o' = Some w \<and>
        (s = w \<longleftrightarrow> t = SAME)))"

lemma tenant_checks_hold: "(\<exists>bs. tenant_checks t o' = Some bs \<and> list_all (\<lambda>b. b) bs) \<longleftrightarrow> tenant_holds t o'"
  by (cases "oc_subject_tenant o'"; cases "oc_owner_tenant o'"; cases "oc_resource_tenant o'"; cases t)
    (auto simp: tenant_checks_def tenant_holds_def)

lemma state_checks_hold:
  "(\<exists>bs. state_checks states o' = Some bs \<and> list_all (\<lambda>b. b) bs) \<longleftrightarrow>
     (states \<noteq> [] \<longrightarrow> (\<exists>v \<in> set states. oc_resource_state o' = Some v))"
  by (auto simp: state_checks_def split: option.splits)

definition relationship_holds :: "(str \<Rightarrow> str) \<Rightarrow> observed_relationship list \<Rightarrow> relationship_requirement \<Rightarrow> bool" where
  "relationship_holds sha os q \<longleftrightarrow> (\<exists>i. filter (\<lambda>i. or_fingerprint i = requirement_fingerprint sha q \<and>
     or_kind i = rr_kind q) os = [i] \<and> or_status i = MATCH)"

lemma relationship_checks_hold:
  "(\<exists>bs. relationship_checks sha os qs = Some bs \<and> list_all (\<lambda>b. b) bs) \<longleftrightarrow> (\<forall>q \<in> set qs. relationship_holds sha os q)"
proof (induction qs)
  case (Cons q qs)
  show ?case
  proof (cases "relationship_holds sha os q")
    case True
    then obtain i where "filter (\<lambda>i. or_fingerprint i = requirement_fingerprint sha q \<and> or_kind i = rr_kind q) os = [i]"
      "or_status i = MATCH" unfolding relationship_holds_def by blast
    with True Cons show ?thesis by auto
  next
    case False
    then have "\<not> (\<exists>bs. relationship_checks sha os (q # qs) = Some bs \<and> list_all (\<lambda>b. b) bs)"
      by (auto simp: relationship_holds_def split: list.splits if_splits)
    with False show ?thesis by auto
  qed
qed simp

lemma match_iff:
  "match_permission_conditions sha (Some e) (Some o') = MATCH \<longleftrightarrow>
     oc_principal o' = pc_principal e \<and> tenant_holds (pc_tenant e) o' \<and>
     (pc_resource_states e \<noteq> [] \<longrightarrow> (\<exists>v \<in> set (pc_resource_states e). oc_resource_state o' = Some v)) \<and>
     (\<forall>q \<in> set (pc_relationships e). relationship_holds sha (oc_relationships o') q)"
  unfolding tenant_checks_hold [symmetric] state_checks_hold [symmetric] relationship_checks_hold [symmetric]
  by (auto simp: match_permission_conditions_def split: option.splits)

lemma collected_match:
  "collected_conditions_status sha (Some e) os = MATCH \<longleftrightarrow>
     os \<noteq> [] \<and> (\<forall>o' \<in> set os. match_permission_conditions sha (Some e) (Some o') = MATCH)"
proof -
  let ?m = "\<lambda>o'. match_permission_conditions sha (Some e) (Some o')"
  have other: "m = MATCH \<longleftrightarrow> m \<noteq> UNMATCHED_UNKNOWN \<and> m \<noteq> MISMATCH" for m by (cases m) simp_all
  have "(\<forall>o' \<in> set os. ?m o' = MATCH) \<longleftrightarrow> UNMATCHED_UNKNOWN \<notin> ?m ` set os \<and> MISMATCH \<notin> ?m ` set os"
    unfolding other image_iff by (simp add: eq_commute) blast
  then show ?thesis
    by (simp add: collected_conditions_status_def Let_def)
qed

text \<open>Observations taken from one snapshot, each for the requirement whose fingerprint it carries.\<close>

definition from_snapshot :: "(str \<Rightarrow> str) \<Rightarrow> relationship_snapshot \<Rightarrow> relationship_requirement list \<Rightarrow> observed_relationship list \<Rightarrow> bool" where
  "from_snapshot sha s qs os \<longleftrightarrow> (\<forall>q \<in> set qs. \<forall>i \<in> set os.
     or_fingerprint i = requirement_fingerprint sha q \<longrightarrow> i = observe_relationship sha q s)"

lemma holds_from_snapshot:
  assumes "relationship_holds sha os q" and "from_snapshot sha s qs os" and "q \<in> set qs"
  shows "or_status (observe_relationship sha q s) = MATCH"
proof -
  from assms(1) obtain i where f: "filter (\<lambda>i. or_fingerprint i = requirement_fingerprint sha q \<and> or_kind i = rr_kind q) os = [i]"
    and i: "or_status i = MATCH" unfolding relationship_holds_def by blast
  have "i \<in> set (filter (\<lambda>i. or_fingerprint i = requirement_fingerprint sha q \<and> or_kind i = rr_kind q) os)"
    unfolding f by simp
  with i assms(2,3) show ?thesis unfolding from_snapshot_def by auto
qed

lemma opposed_update: "opposed a b \<Longrightarrow> b = a\<lparr>rr_state := rr_state b\<rparr> \<and> rr_state b \<noteq> rr_state a"
  by (cases a; cases b) (simp add: opposed_def)

definition requirements_of :: "permission_conditions option \<Rightarrow> relationship_requirement list" where
  "requirements_of c = (case c of None \<Rightarrow> [] | Some c' \<Rightarrow> pc_relationships c')"

lemma disjoint_some:
  assumes "\<not> permission_conditions_overlap (Some l) (Some r)"
    and "from_snapshot sha s (pc_relationships l @ pc_relationships r) (oc_relationships o')"
    and "match_permission_conditions sha (Some l) (Some o') = MATCH"
  shows "match_permission_conditions sha (Some r) (Some o') \<noteq> MATCH"
proof
  assume r: "match_permission_conditions sha (Some r) (Some o') = MATCH"
  have rel: "\<not> opposed a b" if "a \<in> set (pc_relationships l)" "b \<in> set (pc_relationships r)" for a b
  proof
    assume o: "opposed a b"
    have "or_status (observe_relationship sha a s) = MATCH" "or_status (observe_relationship sha b s) = MATCH"
      using assms(3) r that holds_from_snapshot [OF _ assms(2)] unfolding match_iff by auto
    with one_state opposed_update [OF o] show False by metis
  qed
  have "\<not> (pc_tenant l \<noteq> None \<and> pc_tenant r \<noteq> None \<and> pc_tenant l \<noteq> pc_tenant r)"
  proof (clarify)
    fix t u assume "pc_tenant l = Some t" "pc_tenant r = Some u" "pc_tenant l \<noteq> pc_tenant r"
    with assms(3) r have "(t = SAME) = (u = SAME)" unfolding match_iff tenant_holds_def by fastforce
    with \<open>pc_tenant l = Some t\<close> \<open>pc_tenant r = Some u\<close> \<open>pc_tenant l \<noteq> pc_tenant r\<close> show False
      by (cases t; cases u) auto
  qed
  with assms(1,3) r rel show False
    unfolding match_iff permission_conditions_overlap_def principal_of_def by auto
qed

text \<open>C13: two conditions reported as not overlapping both match one observation, whose relationship facts were
  derived from one snapshot, in exactly one situation: one of them is absent, the other is for an anonymous principal
  and matches. There the test takes the absent condition as one for authenticated subjects, while the comparison lets
  it match everything. Otherwise an allowing and a denying permission with such conditions cannot apply to the same
  experiment.\<close>

theorem disjoint_conditions_never_both_match:
  assumes "\<not> permission_conditions_overlap left right"
    and "from_snapshot sha s (requirements_of left @ requirements_of right) (oc_relationships o')"
  shows "match_permission_conditions sha left (Some o') = MATCH \<and> match_permission_conditions sha right (Some o') = MATCH \<longleftrightarrow>
    left = None \<and> principal_of right = ANONYMOUS \<and> match_permission_conditions sha right (Some o') = MATCH \<or>
    right = None \<and> principal_of left = ANONYMOUS \<and> match_permission_conditions sha left (Some o') = MATCH"
proof -
  have absent: "match_permission_conditions sha None (Some o') = MATCH"
    by (simp add: match_permission_conditions_def)
  have other: "k \<noteq> AUTHENTICATED \<longleftrightarrow> k = ANONYMOUS" "AUTHENTICATED \<noteq> k \<longleftrightarrow> k = ANONYMOUS" for k by (cases k; simp)+
  show ?thesis
  proof (cases left)
    case None
    with assms(1) have "principal_of right = ANONYMOUS"
      by (cases right) (auto simp: permission_conditions_overlap_def principal_of_def other)
    with None absent show ?thesis by (auto simp: principal_of_def)
  next
    case (Some l)
    show ?thesis
    proof (cases right)
      case None
      with assms(1) Some have "principal_of left = ANONYMOUS"
        by (auto simp: permission_conditions_overlap_def principal_of_def other)
      with None Some absent show ?thesis by simp
    next
      case r: (Some r)
      show ?thesis
        using disjoint_some [of l r sha s o'] assms Some r by (auto simp: requirements_of_def)
    qed
  qed
qed

definition state_condition :: "str \<Rightarrow> permission_conditions" where
  "state_condition v = \<lparr>pc_principal = AUTHENTICATED, pc_tenant = Some SAME, pc_resource_states = [v], pc_relationships = []\<rparr>"

definition draft_observation :: observed_conditions where
  "draft_observation = \<lparr>oc_proof_fingerprint = replicate 64 (CHR ''0''), oc_source_id = ''psr_'' @ replicate 32 (CHR ''0''),
     oc_source_fingerprint = replicate 64 (CHR ''0''), oc_principal = AUTHENTICATED, oc_subject_tenant = Some ''acme'',
     oc_owner_tenant = Some ''acme'', oc_resource_tenant = Some ''acme'', oc_resource_state = Some ''draft'',
     oc_relationships = []\<rparr>"

lemma draft_matches: "match_permission_conditions sha (Some (state_condition ''draft'')) (Some draft_observation) = MATCH"
  by (simp add: match_iff state_condition_def draft_observation_def tenant_holds_def)

text \<open>A subject to whom a resource is shared, under a condition that wants the grant in force and one that wants it expired.\<close>

definition shared_condition :: "relation_state \<Rightarrow> permission_conditions" where
  "shared_condition x = \<lparr>pc_principal = AUTHENTICATED, pc_tenant = None, pc_resource_states = [],
     pc_relationships = [share_requirement\<lparr>rr_state := x\<rparr>]\<rparr>"

definition sample_digest :: "str \<Rightarrow> str" where
  \<comment> \<open>a function in the shape of a digest that tells the two requirements apart\<close>
  "sample_digest b = replicate 64 (if even (length b) then CHR ''a'' else CHR ''b'')"

definition shared_observation :: observed_conditions where
  "shared_observation = draft_observation\<lparr>oc_relationships :=
     [observe_relationship sample_digest (share_requirement\<lparr>rr_state := x\<rparr>) share_snapshot. x \<leftarrow> [Active, Expired]]\<rparr>"

lemma requirements_told_apart:
  "requirement_fingerprint sample_digest (share_requirement\<lparr>rr_state := Active\<rparr>) \<noteq>
   requirement_fingerprint sample_digest (share_requirement\<lparr>rr_state := Expired\<rparr>)"
  by code_simp

lemma observed_names:
  "or_fingerprint (observe_relationship sha q s) = requirement_fingerprint sha q" "or_kind (observe_relationship sha q s) = rr_kind q"
  by (simp_all add: observe_relationship_def Let_def split: sum.split prod.split)

lemma shared_matches: "match_permission_conditions sample_digest (Some (shared_condition Active)) (Some shared_observation) = MATCH"
proof -
  have "share_requirement\<lparr>rr_state := Active\<rparr> = share_requirement"
    by (simp add: share_requirement_def)
  then show ?thesis
    using requirements_told_apart share_observed [of sample_digest]
    by (simp add: match_iff shared_condition_def shared_observation_def draft_observation_def tenant_holds_def
        relationship_holds_def observed_names)
qed

definition visitor_condition :: permission_conditions where
  "visitor_condition = \<lparr>pc_principal = ANONYMOUS, pc_tenant = None, pc_resource_states = [''draft''], pc_relationships = []\<rparr>"

theorem disjoint_conditions_never_both_match_witness:
  "match_permission_conditions sample_digest (Some (shared_condition Active)) (Some shared_observation) = MATCH \<and>
   match_permission_conditions sample_digest (Some (shared_condition Expired)) (Some shared_observation) \<noteq> MATCH \<and>
   (let o' = draft_observation\<lparr>oc_principal := ANONYMOUS\<rparr> in
      match_permission_conditions sha256_hex None (Some o') = MATCH \<and>
      match_permission_conditions sha256_hex (Some visitor_condition) (Some o') = MATCH)"
proof (intro conjI)
  have "\<not> permission_conditions_overlap (Some (shared_condition Active)) (Some (shared_condition Expired))"
    by code_simp
  moreover have "from_snapshot sample_digest share_snapshot
      (requirements_of (Some (shared_condition Active)) @ requirements_of (Some (shared_condition Expired)))
      (oc_relationships shared_observation)"
    using requirements_told_apart by (auto simp: from_snapshot_def requirements_of_def shared_condition_def shared_observation_def observed_names)
  ultimately show "match_permission_conditions sample_digest (Some (shared_condition Expired)) (Some shared_observation) \<noteq> MATCH"
    using disjoint_conditions_never_both_match shared_matches by blast
  have "match_permission_conditions sha256_hex (Some visitor_condition) (Some (draft_observation\<lparr>oc_principal := ANONYMOUS\<rparr>)) = MATCH"
    by (simp add: match_iff visitor_condition_def draft_observation_def tenant_holds_def)
  then show "let o' = draft_observation\<lparr>oc_principal := ANONYMOUS\<rparr> in
      match_permission_conditions sha256_hex None (Some o') = MATCH \<and>
      match_permission_conditions sha256_hex (Some visitor_condition) (Some o') = MATCH"
    using disjoint_conditions_never_both_match [of None "Some visitor_condition" sha256_hex share_snapshot
        "draft_observation\<lparr>oc_principal := ANONYMOUS\<rparr>"]
    by (simp add: permission_conditions_overlap_def principal_of_def visitor_condition_def from_snapshot_def draft_observation_def)
qed (rule shared_matches)

text \<open>Without relationship requirements the overlap test is exact: it holds exactly when some
  observation matches both conditions.\<close>

theorem overlap_exact:
  assumes "pc_relationships l = []" and "pc_relationships r = []"
  shows "permission_conditions_overlap (Some l) (Some r) \<longleftrightarrow>
    (\<exists>o'. match_permission_conditions sha (Some l) (Some o') = MATCH \<and>
          match_permission_conditions sha (Some r) (Some o') = MATCH)"
proof
  assume o: "permission_conditions_overlap (Some l) (Some r)"
  then have p: "pc_principal l = pc_principal r"
    and t: "pc_tenant l = None \<or> pc_tenant r = None \<or> pc_tenant l = pc_tenant r"
    by (auto simp: permission_conditions_overlap_def principal_of_def)
  from o obtain v where v: "pc_resource_states l \<noteq> [] \<longrightarrow> v \<in> set (pc_resource_states l)"
    "pc_resource_states r \<noteq> [] \<longrightarrow> v \<in> set (pc_resource_states r)"
  proof (cases "pc_resource_states l = [] \<or> pc_resource_states r = []")
    case True
    then show ?thesis
      using that [of "hd (pc_resource_states l @ pc_resource_states r)"] by (cases "pc_resource_states l") auto
  next
    case False
    with o obtain v where "v \<in> set (pc_resource_states l) \<inter> set (pc_resource_states r)"
      by (auto simp: permission_conditions_overlap_def)
    with that show ?thesis by blast
  qed
  let ?different = "pc_tenant l = Some DIFFERENT \<or> pc_tenant r = Some DIFFERENT"
  let ?o = "draft_observation\<lparr>oc_principal := pc_principal l, oc_resource_state := Some v,
      oc_subject_tenant := Some (if ?different then ''other'' else ''acme'')\<rparr>"
  have "tenant_holds (pc_tenant l) ?o \<and> tenant_holds (pc_tenant r) ?o"
    using t by (cases "pc_tenant l"; cases "pc_tenant r")
      (auto simp: tenant_holds_def draft_observation_def, (metis tenant_condition.exhaust)+)
  with p v assms have "match_permission_conditions sha (Some l) (Some ?o) = MATCH \<and>
      match_permission_conditions sha (Some r) (Some ?o) = MATCH"
    unfolding match_iff by auto
  then show "\<exists>o'. match_permission_conditions sha (Some l) (Some o') = MATCH \<and>
      match_permission_conditions sha (Some r) (Some o') = MATCH" by blast
next
  assume "\<exists>o'. match_permission_conditions sha (Some l) (Some o') = MATCH \<and>
      match_permission_conditions sha (Some r) (Some o') = MATCH"
  then obtain o' where m: "match_permission_conditions sha (Some l) (Some o') = MATCH"
    "match_permission_conditions sha (Some r) (Some o') = MATCH" by blast
  have "\<not> (pc_tenant l \<noteq> None \<and> pc_tenant r \<noteq> None \<and> pc_tenant l \<noteq> pc_tenant r)"
  proof (clarify)
    fix t u assume "pc_tenant l = Some t" "pc_tenant r = Some u" "pc_tenant l \<noteq> pc_tenant r"
    with m have "(t = SAME) = (u = SAME)" unfolding match_iff tenant_holds_def by fastforce
    with \<open>pc_tenant l = Some t\<close> \<open>pc_tenant r = Some u\<close> \<open>pc_tenant l \<noteq> pc_tenant r\<close> show False
      by (cases t; cases u) auto
  qed
  with m assms show "permission_conditions_overlap (Some l) (Some r)"
    unfolding match_iff permission_conditions_overlap_def principal_of_def by auto
qed

theorem overlap_exact_witness:
  "permission_conditions_overlap (Some (state_condition ''draft'')) (Some (state_condition ''draft'')) \<and>
   (\<exists>o'. match_permission_conditions sha256_hex (Some (state_condition ''draft'')) (Some o') = MATCH)"
proof -
  have "permission_conditions_overlap (Some (state_condition ''draft'')) (Some (state_condition ''draft''))"
    by code_simp
  then show ?thesis
    using overlap_exact [of "state_condition ''draft''" "state_condition ''draft''" sha256_hex]
    by (auto simp: state_condition_def)
qed

end
