(* ===== verification/WireModels.thy ===== *)
theory WireModels
  imports Conditions "HOL-Library.Product_Lexorder"
begin

section \<open>What the wire documents share\<close>

text \<open>
  Models the parts of \<^verbatim>\<open>product/protocols/checks/execution_request.py\<close> and
  \<^verbatim>\<open>product/protocols/codec.py\<close> every frozen document uses: tagged identifiers, the resource
  identifier check of \<^verbatim>\<open>WireModel\<close>, ordered sets held as tuples, and the content hash. A text is a
  list of characters below 256, so a word character of \<^verbatim>\<open>re\<close> is written out for that range; the codec
  itself is modelled for all of Unicode in JsonReader.
\<close>

definition tagged :: "str \<Rightarrow> nat \<Rightarrow> str \<Rightarrow> bool" where
  \<comment> \<open>a fixed prefix and \<open>n\<close> hexadecimal digits\<close>
  "tagged prefix n s \<longleftrightarrow> take (length prefix) s = prefix \<and> hex_text n (drop (length prefix) s)"

definition tag_field :: "str \<Rightarrow> str \<Rightarrow> nat \<Rightarrow> str \<Rightarrow> str list" where
  "tag_field field prefix n v = field_error [pattern_guard field (tagged prefix n) v]"

definition hash_field :: "str \<Rightarrow> str \<Rightarrow> str list" where
  "hash_field field v = field_error [pattern_guard field (hex_text 64) v]"

definition logical_field :: "str \<Rightarrow> str \<Rightarrow> str list" where
  "logical_field field v = field_error [pattern_guard field intent_id v]"

definition least_field :: "str \<Rightarrow> int \<Rightarrow> int \<Rightarrow> str list" where
  "least_field field lo n = field_error [(n < lo, field @ '': greater_than_equal'')]"

definition size_field :: "str \<Rightarrow> nat \<Rightarrow> nat \<Rightarrow> 'a list \<Rightarrow> str list" where
  "size_field field lo hi xs = field_error (size_guards field lo hi xs)"

definition each_field :: "('a \<Rightarrow> str list) \<Rightarrow> 'a list \<Rightarrow> str list" where
  "each_field f xs = concat (map f xs)"

definition is_word :: "char \<Rightarrow> bool" where
  "is_word c \<longleftrightarrow> is_lower c \<or> is_upper c \<or> is_digit c \<or> c = CHR ''_'' \<or>
     (let n = of_char c :: nat in n \<in> {170, 178, 179, 181, 185, 186, 188, 189, 190} \<or>
        (192 \<le> n \<and> n \<noteq> 215 \<and> n \<noteq> 247))"

definition resource_identifier :: "str \<Rightarrow> bool" where
  "resource_identifier v \<longleftrightarrow> v \<notin> {''.'', ''..''} \<and> 1 \<le> length v \<and> length v \<le> 256 \<and>
     list_all (\<lambda>c. is_word c \<or> c \<in> set ''.-'') v"

definition resource_guard :: "str \<Rightarrow> guard" where
  "resource_guard v = (\<not> resource_identifier v, ''resource identifier'')"

definition ordered_set :: "'a::linorder list \<Rightarrow> bool" where
  \<comment> \<open>\<open>tuple(sorted(set(v))) == v\<close>\<close>
  "ordered_set xs \<longleftrightarrow> sort (remdups xs) = xs"

lemma ordered_set_iff [guard_simps]: "ordered_set xs \<longleftrightarrow> sorted xs \<and> distinct xs"
proof
  assume "ordered_set xs"
  then have "xs = sort (remdups xs)" by (simp add: ordered_set_def)
  then show "sorted xs \<and> distinct xs" by (metis distinct_remdups distinct_sort sorted_sort)
next
  assume "sorted xs \<and> distinct xs"
  then show "ordered_set xs" by (simp add: ordered_set_def distinct_remdups_id sorted_sort_id)
qed

definition content_hash :: "(str \<Rightarrow> str) \<Rightarrow> str \<Rightarrow> json \<Rightarrow> str" where
  "content_hash sha domain v = sha (canonical_json_bytes (JObj [(''kind'', JStr domain), (''facts'', v)]))"

definition given_field :: "str \<Rightarrow> ('a \<Rightarrow> json) \<Rightarrow> 'a option \<Rightarrow> (str \<times> json) list" where
  \<comment> \<open>a field that is left out of the document when it is absent (\<open>exclude_if\<close>)\<close>
  "given_field k f m = (case m of None \<Rightarrow> [] | Some x \<Rightarrow> [(k, f x)])"

definition conditions_json :: "permission_conditions \<Rightarrow> json" where
  "conditions_json c = JObj
     ([(''principal'', JStr (case pc_principal c of AUTHENTICATED \<Rightarrow> ''AUTHENTICATED'' | ANONYMOUS \<Rightarrow> ''ANONYMOUS'')),
       (''tenant'', json_option (\<lambda>t. JStr (case t of SAME \<Rightarrow> ''SAME'' | DIFFERENT \<Rightarrow> ''DIFFERENT'')) (pc_tenant c)),
       (''resource_states'', json_strings (pc_resource_states c))]
      @ (if pc_relationships c = [] then []
         else [(''relationships'', JArr (map requirement_json (pc_relationships c)))]))"

end
