(* ===== verification/ExecutionModels.thy ===== *)
theory ExecutionModels
  imports WireModels
begin

section \<open>The frozen execution case\<close>

text \<open>
  Models \<^verbatim>\<open>product/protocols/checks/execution_request.py\<close> up to \<^verbatim>\<open>ExecutionAction\<close>: the frozen
  permission, the proofs its effects need, the case with its validators, the invariants a denying
  case shares with its allowing control and the action that groups them. \<open>x_errors\<close> lists what a
  class raises, \<open>x_json\<close> is its \<open>model_dump(mode="json")\<close>.
\<close>

subsection \<open>Permissions\<close>

record permission_reference =
  ref_intent_id :: str
  ref_revision :: int
  ref_intent_hash :: str

definition reference_key :: "'a permission_reference_scheme \<Rightarrow> str \<times> int \<times> str" where
  "reference_key r = (ref_intent_id r, ref_revision r, ref_intent_hash r)"

definition reference_fields :: "'a permission_reference_scheme \<Rightarrow> (str \<times> json) list" where
  "reference_fields r = [(''intent_id'', JStr (ref_intent_id r)), (''revision'', JInt (ref_revision r)),
     (''intent_hash'', JStr (ref_intent_hash r))]"

definition reference_errors :: "'a permission_reference_scheme \<Rightarrow> str list" where
  "reference_errors r = tag_field ''intent_id'' ''pin_'' 32 (ref_intent_id r)
     @ least_field ''revision'' 1 (ref_revision r) @ hash_field ''intent_hash'' (ref_intent_hash r)"

datatype actor_relation = Owns | Same_Role_Other_Account | Other_Role

fun actor_relation_value :: "actor_relation \<Rightarrow> str" where
  "actor_relation_value Owns = ''OWNS''"
| "actor_relation_value Same_Role_Other_Account = ''SAME_ROLE_OTHER_ACCOUNT''"
| "actor_relation_value Other_Role = ''OTHER_ROLE''"

record frozen_permission = permission_reference +
  fz_expectation :: permission_expectation
  fz_relation :: actor_relation
  fz_subject_actor_id :: str
  fz_subject_actor_revision :: int
  fz_owner_actor_id :: str
  fz_owner_actor_revision :: int
  fz_effect_ids :: "str list"
  fz_conditions :: "permission_conditions option"

definition effects_field :: "str list \<Rightarrow> str list" where
  "effects_field vs = size_field ''protected_effect_ids'' 1 16 vs
     @ each_field (tag_field ''protected_effect_ids'' ''bef_'' 32) vs"

definition frozen_permission_errors :: "frozen_permission \<Rightarrow> str list" where
  "frozen_permission_errors p =
     (let same = ((fz_subject_actor_id p, fz_subject_actor_revision p) = (fz_owner_actor_id p, fz_owner_actor_revision p))
      in after_fields
       (reference_errors p
        @ tag_field ''subject_actor_id'' ''bar_'' 32 (fz_subject_actor_id p)
        @ least_field ''subject_actor_revision'' 1 (fz_subject_actor_revision p)
        @ tag_field ''resource_owner_actor_id'' ''bar_'' 32 (fz_owner_actor_id p)
        @ least_field ''resource_owner_actor_revision'' 1 (fz_owner_actor_revision p)
        @ effects_field (fz_effect_ids p) @ optional_field conditions_errors (fz_conditions p))
       [(given (\<lambda>c. pc_principal c = ANONYMOUS) (fz_conditions p) \<and> fz_relation p \<noteq> Other_Role,
           ''anonymous permission actor relation''),
        (given (\<lambda>c. pc_tenant c = Some DIFFERENT) (fz_conditions p) \<and> fz_relation p = Owns,
           ''cross-tenant permission actor relation''),
        (fz_relation p \<in> {Owns, Same_Role_Other_Account} \<and> \<not> same, ''permission actor relation''),
        (fz_relation p = Other_Role \<and> fz_subject_actor_id p = fz_owner_actor_id p, ''permission actor relation''),
        (\<not> ordered_set (fz_effect_ids p), ''permission effects must be unique and sorted'')])"

definition frozen_permission_json :: "frozen_permission \<Rightarrow> json" where
  "frozen_permission_json p = JObj (reference_fields p @
     [(''expectation'', JStr (expectation_value (fz_expectation p))),
      (''relation'', JStr (actor_relation_value (fz_relation p))),
      (''subject_actor_id'', JStr (fz_subject_actor_id p)),
      (''subject_actor_revision'', JInt (fz_subject_actor_revision p)),
      (''resource_owner_actor_id'', JStr (fz_owner_actor_id p)),
      (''resource_owner_actor_revision'', JInt (fz_owner_actor_revision p)),
      (''protected_effect_ids'', json_strings (fz_effect_ids p))]
     @ given_field ''conditions'' conditions_json (fz_conditions p))"

subsection \<open>Execution assets and proofs\<close>

record execution_asset =
  flow_id :: str
  flow_sha256 :: str
  execution_binding_fingerprint :: str

definition asset_errors :: "execution_asset \<Rightarrow> str list" where
  "asset_errors a = logical_field ''flow_id'' (flow_id a) @ hash_field ''flow_sha256'' (flow_sha256 a)
     @ hash_field ''execution_binding_fingerprint'' (execution_binding_fingerprint a)"

definition asset_json :: "execution_asset \<Rightarrow> json" where
  "asset_json a = JObj [(''flow_id'', JStr (flow_id a)), (''flow_sha256'', JStr (flow_sha256 a)),
     (''execution_binding_fingerprint'', JStr (execution_binding_fingerprint a))]"

record recorded_reference =
  rec_recording_id :: str
  rec_draft_revision :: int
  rec_draft_sha256 :: str
  rec_step_id :: str
  rec_template_fingerprint :: str

record observer_reference =
  obs_descriptor_id :: str
  obs_descriptor_fingerprint :: str
  obs_observer_id :: str

record operation_reference =
  op_flow_id :: str
  op_revision :: int
  op_query_fingerprint :: str

datatype proof_reference =
    is_recorded: Recorded_Observation recorded_reference
  | is_observer: Registered_Observer observer_reference
  | is_entity: Operation_Entity operation_reference

fun proof_reference_errors :: "proof_reference \<Rightarrow> str list" where
  "proof_reference_errors (Recorded_Observation r) =
     tag_field ''recording_id'' ''rec_'' 32 (rec_recording_id r)
     @ least_field ''draft_revision'' 1 (rec_draft_revision r) @ hash_field ''draft_sha256'' (rec_draft_sha256 r)
     @ logical_field ''step_id'' (rec_step_id r)
     @ hash_field ''request_template_fingerprint'' (rec_template_fingerprint r)"
| "proof_reference_errors (Registered_Observer r) =
     field_error [pattern_guard ''descriptor_id'' (\<lambda>v. tagged ''exp_'' 32 v \<or> tagged ''psr_'' 32 v) (obs_descriptor_id r)]
     @ hash_field ''descriptor_fingerprint'' (obs_descriptor_fingerprint r)
     @ logical_field ''observer_id'' (obs_observer_id r)"
| "proof_reference_errors (Operation_Entity r) =
     tag_field ''flow_id'' ''ofl_'' 32 (op_flow_id r) @ least_field ''revision'' 1 (op_revision r)
     @ hash_field ''query_fingerprint'' (op_query_fingerprint r)"

fun proof_reference_json :: "proof_reference \<Rightarrow> json" where
  "proof_reference_json (Recorded_Observation r) = JObj
     [(''kind'', JStr ''RECORDED_OBSERVATION''), (''recording_id'', JStr (rec_recording_id r)),
      (''draft_revision'', JInt (rec_draft_revision r)), (''draft_sha256'', JStr (rec_draft_sha256 r)),
      (''step_id'', JStr (rec_step_id r)), (''request_template_fingerprint'', JStr (rec_template_fingerprint r))]"
| "proof_reference_json (Registered_Observer r) = JObj
     [(''kind'', JStr ''REGISTERED_OBSERVER''), (''descriptor_id'', JStr (obs_descriptor_id r)),
      (''descriptor_fingerprint'', JStr (obs_descriptor_fingerprint r)), (''observer_id'', JStr (obs_observer_id r))]"
| "proof_reference_json (Operation_Entity r) = JObj
     [(''kind'', JStr ''OPERATION_HTTP_ENTITY''), (''flow_id'', JStr (op_flow_id r)),
      (''revision'', JInt (op_revision r)), (''query_fingerprint'', JStr (op_query_fingerprint r))]"

datatype proof_level = VERDICT_REQUIRED | DIAGNOSIS_REQUIRED | SUPPORTING

datatype proof_rule = HTTP_RESOURCE_PRESENCE | REGISTERED_EFFECT | RECORDED_SUPPORT | HTTP_ENTITY_QUERY

fun proof_level_value :: "proof_level \<Rightarrow> str" where
  "proof_level_value VERDICT_REQUIRED = ''VERDICT_REQUIRED''"
| "proof_level_value DIAGNOSIS_REQUIRED = ''DIAGNOSIS_REQUIRED''"
| "proof_level_value SUPPORTING = ''SUPPORTING''"

fun proof_rule_value :: "proof_rule \<Rightarrow> str" where
  "proof_rule_value HTTP_RESOURCE_PRESENCE = ''HTTP_RESOURCE_PRESENCE''"
| "proof_rule_value REGISTERED_EFFECT = ''REGISTERED_EFFECT''"
| "proof_rule_value RECORDED_SUPPORT = ''RECORDED_SUPPORT''"
| "proof_rule_value HTTP_ENTITY_QUERY = ''HTTP_ENTITY_QUERY''"

record effect_proof =
  proof_effect_id :: str
  proof_level :: proof_level
  proof_rule :: proof_rule
  proof_binding_fingerprint :: str
  proof_resource_id :: str
  proof_reference :: proof_reference
  proof_fingerprint :: str

definition proof_fields :: "effect_proof \<Rightarrow> (str \<times> json) list" where
  \<comment> \<open>everything but the fingerprint\<close>
  "proof_fields p =
     [(''effect_id'', JStr (proof_effect_id p)), (''level'', JStr (proof_level_value (proof_level p))),
      (''rule'', JStr (proof_rule_value (proof_rule p))),
      (''binding_fingerprint'', JStr (proof_binding_fingerprint p)),
      (''resource_id'', JStr (proof_resource_id p)), (''reference'', proof_reference_json (proof_reference p))]"

definition proof_json :: "effect_proof \<Rightarrow> json" where
  "proof_json p = JObj (proof_fields p @ [(''proof_fingerprint'', JStr (proof_fingerprint p))])"

definition effect_proof_errors :: "(str \<Rightarrow> str) \<Rightarrow> effect_proof \<Rightarrow> str list" where
  "effect_proof_errors sha p = after_fields
     (tag_field ''effect_id'' ''bef_'' 32 (proof_effect_id p)
      @ hash_field ''binding_fingerprint'' (proof_binding_fingerprint p)
      @ size_field ''resource_id'' 1 256 (proof_resource_id p) @ proof_reference_errors (proof_reference p)
      @ hash_field ''proof_fingerprint'' (proof_fingerprint p))
     [resource_guard (proof_resource_id p),
      (proof_rule p = REGISTERED_EFFECT \<and> \<not> is_observer (proof_reference p), ''proof reference kind''),
      (proof_rule p = HTTP_ENTITY_QUERY \<and> \<not> is_entity (proof_reference p),
         ''entity query proof reference kind''),
      (proof_rule p \<notin> {REGISTERED_EFFECT, HTTP_ENTITY_QUERY} \<and> \<not> is_recorded (proof_reference p),
         ''proof reference kind''),
      (proof_rule p = RECORDED_SUPPORT \<and> proof_level p \<noteq> SUPPORTING, ''support cannot decide verdict''),
      (proof_fingerprint p \<noteq> content_hash sha ''EffectProofRequirement'' (JObj (proof_fields p)), ''proof fingerprint'')]"

record recovery_reference =
  rc_recording_id :: "str option"
  rc_draft_revision :: "int option"
  rc_draft_sha256 :: "str option"
  rc_flow_id :: "str option"
  rc_flow_revision :: "int option"
  rc_step_id :: str
  rc_binding_fingerprint :: str
  rc_template_fingerprint :: str

definition recovery_errors :: "recovery_reference \<Rightarrow> str list" where
  "recovery_errors r = after_fields
     (optional_field (tag_field ''recording_id'' ''rec_'' 32) (rc_recording_id r)
      @ optional_field (least_field ''draft_revision'' 1) (rc_draft_revision r)
      @ optional_field (hash_field ''draft_sha256'') (rc_draft_sha256 r)
      @ optional_field (tag_field ''operation_flow_id'' ''ofl_'' 32) (rc_flow_id r)
      @ optional_field (least_field ''operation_flow_revision'' 1) (rc_flow_revision r)
      @ logical_field ''step_id'' (rc_step_id r) @ hash_field ''binding_fingerprint'' (rc_binding_fingerprint r)
      @ hash_field ''request_template_fingerprint'' (rc_template_fingerprint r))
     [(\<not> (rc_recording_id r \<noteq> None \<and> rc_draft_revision r \<noteq> None \<and> rc_draft_sha256 r \<noteq> None \<and>
           rc_flow_id r = None \<and> rc_flow_revision r = None) \<and>
       \<not> (rc_recording_id r = None \<and> rc_draft_revision r = None \<and> rc_draft_sha256 r = None \<and>
           rc_flow_id r \<noteq> None \<and> rc_flow_revision r \<noteq> None), ''recovery requires one complete material origin'')]"

definition recovery_json :: "recovery_reference \<Rightarrow> json" where
  "recovery_json r = JObj
     (given_field ''recording_id'' JStr (rc_recording_id r) @ given_field ''draft_revision'' JInt (rc_draft_revision r)
      @ given_field ''draft_sha256'' JStr (rc_draft_sha256 r) @ given_field ''operation_flow_id'' JStr (rc_flow_id r)
      @ given_field ''operation_flow_revision'' JInt (rc_flow_revision r)
      @ [(''step_id'', JStr (rc_step_id r)), (''binding_fingerprint'', JStr (rc_binding_fingerprint r)),
         (''request_template_fingerprint'', JStr (rc_template_fingerprint r))])"

end
