(* ===== verification/ExecutionCase.thy ===== *)
theory ExecutionCase
  imports ExecutionModels
begin

section \<open>Cases, their controls and the action that groups them\<close>

text \<open>
  The second half of \<^verbatim>\<open>product/protocols/checks/execution_request.py\<close>: \<^verbatim>\<open>ExecutionCase\<close> with
  its validators and the resource binding of a scenario, the invariants a denying case shares with
  its allowing control, and \<^verbatim>\<open>ExecutionAction\<close>.
\<close>

subsection \<open>The case\<close>

datatype case_role = ALLOW_CONTROL | ALLOW_REGRESSION | DENY_CHALLENGE

datatype invocation_kind = BATCH_ATOMIC | BATCH_PER_ITEM

datatype batch_effect = PRESENT | ABSENT_EFFECT

fun case_role_value :: "case_role \<Rightarrow> str" where
  "case_role_value ALLOW_CONTROL = ''ALLOW_CONTROL''"
| "case_role_value ALLOW_REGRESSION = ''ALLOW_REGRESSION''"
| "case_role_value DENY_CHALLENGE = ''DENY_CHALLENGE''"

fun invocation_kind_value :: "invocation_kind \<Rightarrow> str" where
  "invocation_kind_value BATCH_ATOMIC = ''BATCH_ATOMIC''"
| "invocation_kind_value BATCH_PER_ITEM = ''BATCH_PER_ITEM''"

fun batch_effect_value :: "batch_effect \<Rightarrow> str" where
  "batch_effect_value PRESENT = ''PRESENT''"
| "batch_effect_value ABSENT_EFFECT = ''ABSENT''"

record execution_case =
  case_id :: str
  case_roles :: "case_role list"
  case_permission :: frozen_permission
  case_subject_identity :: "str option"
  case_subject_actor_id :: str
  case_subject_actor_revision :: int
  case_subject_fingerprint :: "str option"
  case_owner_identity :: str
  case_owner_actor_id :: str
  case_owner_actor_revision :: int
  case_owner_fingerprint :: str
  case_resource_id :: str
  case_resource_fingerprint :: str
  case_execution :: execution_asset
  case_effect_ids :: "str list"
  case_proofs :: "effect_proof list"
  case_recovery :: "recovery_reference option"
  case_source_fingerprint :: "str option"
  case_config_fingerprint :: str
  case_occurrence :: "str option"
  case_invocation_kind :: "invocation_kind option"
  case_batch_effect :: "batch_effect option"

definition expects_absence :: "execution_case \<Rightarrow> bool" where
  "expects_absence c = (case case_batch_effect c of
      Some e \<Rightarrow> e = ABSENT_EFFECT
    | None \<Rightarrow> fz_expectation (case_permission c) = DENY)"

definition case_fields_errors :: "(str \<Rightarrow> str) \<Rightarrow> execution_case \<Rightarrow> str list" where
  "case_fields_errors sha c =
     tag_field ''case_id'' ''case_'' 32 (case_id c)
     @ size_field ''roles'' 1 2 (case_roles c) @ frozen_permission_errors (case_permission c)
     @ optional_field (tag_field ''subject_test_identity_id'' ''tid_'' 32) (case_subject_identity c)
     @ tag_field ''subject_actor_id'' ''bar_'' 32 (case_subject_actor_id c)
     @ least_field ''subject_actor_revision'' 1 (case_subject_actor_revision c)
     @ optional_field (hash_field ''subject_identity_fingerprint'') (case_subject_fingerprint c)
     @ tag_field ''resource_owner_test_identity_id'' ''tid_'' 32 (case_owner_identity c)
     @ tag_field ''resource_owner_actor_id'' ''bar_'' 32 (case_owner_actor_id c)
     @ least_field ''resource_owner_actor_revision'' 1 (case_owner_actor_revision c)
     @ hash_field ''owner_identity_fingerprint'' (case_owner_fingerprint c)
     @ size_field ''resource_id'' 1 256 (case_resource_id c)
     @ hash_field ''resource_binding_fingerprint'' (case_resource_fingerprint c)
     @ asset_errors (case_execution c) @ effects_field (case_effect_ids c)
     @ size_field ''proof_requirements'' 1 48 (case_proofs c)
     @ each_field (effect_proof_errors sha) (case_proofs c)
     @ optional_field recovery_errors (case_recovery c)
     @ optional_field (hash_field ''source_fingerprint'') (case_source_fingerprint c)
     @ hash_field ''config_fingerprint'' (case_config_fingerprint c)
     @ optional_field (tag_field ''occurrence_id'' ''occ_'' 32) (case_occurrence c)"

definition anonymous_case :: "execution_case \<Rightarrow> bool" where
  "anonymous_case c \<longleftrightarrow> given (\<lambda>k. pc_principal k = ANONYMOUS) (fz_conditions (case_permission c))"

definition case_guards :: "execution_case \<Rightarrow> guard list" where
  "case_guards c =
     (let p = case_permission c; same = (case_subject_identity c = Some (case_owner_identity c)) in
      [(((case_invocation_kind c = None) \<noteq> (case_batch_effect c = None)) \<or>
          (case_invocation_kind c \<noteq> None \<and> case_occurrence c = None),
          ''batch obligations require a distinct frozen invocation occurrence''),
       (anonymous_case c \<noteq> (case_subject_identity c = None \<and> case_subject_fingerprint c = None),
          ''case principal requires either a real identity or an explicit anonymous condition''),
       (\<not> anonymous_case c \<and> (case_subject_identity c = None \<or> case_subject_fingerprint c = None),
          ''authenticated case identity missing''),
       (has_duplicates (case_roles c) \<or> sort_key case_role_value (case_roles c) \<noteq> case_roles c,
          ''case roles must be unique and sorted''),
       ((fz_expectation p = DENY) \<noteq> (case_roles c = [DENY_CHALLENGE]), ''case roles contradict permission''),
       ((case_subject_actor_id c, case_subject_actor_revision c, case_owner_actor_id c, case_owner_actor_revision c)
          \<noteq> (fz_subject_actor_id p, fz_subject_actor_revision p, fz_owner_actor_id p, fz_owner_actor_revision p),
          ''case permission actor''),
       (same \<noteq> (fz_relation p = Owns), ''case identity relation''),
       (same \<and> case_subject_fingerprint c \<noteq> Some (case_owner_fingerprint c), ''same identity fingerprint''),
       (\<not> ordered_set (case_effect_ids c) \<or> \<not> set (case_effect_ids c) \<subseteq> set (fz_effect_ids p), ''case effect set''),
       (ALLOW_REGRESSION \<in> set (case_roles c) \<and> case_effect_ids c \<noteq> fz_effect_ids p,
          ''regression must protect all permission effects''),
       (list_ex (\<lambda>q. proof_resource_id q \<noteq> case_resource_id c \<or> proof_effect_id q \<notin> set (case_effect_ids c)) (case_proofs c),
          ''proof case resource''),
       (has_duplicates (map (\<lambda>q. (proof_effect_id q, proof_level q)) (case_proofs c)), ''duplicate case proof''),
       (set (map proof_effect_id (filter (\<lambda>q. proof_level q = VERDICT_REQUIRED) (case_proofs c))) \<noteq> set (case_effect_ids c),
          ''case lacks verdict proof'')])"

definition execution_case_errors :: "(str \<Rightarrow> str) \<Rightarrow> execution_case \<Rightarrow> str list" where
  "execution_case_errors sha c = after_fields (case_fields_errors sha c) (resource_guard (case_resource_id c) # case_guards c)"

definition proof_order :: "effect_proof \<Rightarrow> str \<times> str" where
  "proof_order q = (proof_effect_id q, proof_level_value (proof_level q))"

definition case_facts :: "execution_case \<Rightarrow> effect_proof list \<Rightarrow> (str \<times> json) list" where
  \<comment> \<open>the dump without the identity and the roles\<close>
  "case_facts c proofs =
     [(''permission'', frozen_permission_json (case_permission c)),
      (''subject_test_identity_id'', json_option JStr (case_subject_identity c)),
      (''subject_actor_id'', JStr (case_subject_actor_id c)),
      (''subject_actor_revision'', JInt (case_subject_actor_revision c)),
      (''subject_identity_fingerprint'', json_option JStr (case_subject_fingerprint c)),
      (''resource_owner_test_identity_id'', JStr (case_owner_identity c)),
      (''resource_owner_actor_id'', JStr (case_owner_actor_id c)),
      (''resource_owner_actor_revision'', JInt (case_owner_actor_revision c)),
      (''owner_identity_fingerprint'', JStr (case_owner_fingerprint c)),
      (''resource_id'', JStr (case_resource_id c)),
      (''resource_binding_fingerprint'', JStr (case_resource_fingerprint c)),
      (''execution'', asset_json (case_execution c)),
      (''protected_effect_ids'', json_strings (case_effect_ids c)),
      (''proof_requirements'', JArr (map proof_json proofs)),
      (''recovery'', json_option recovery_json (case_recovery c)),
      (''source_fingerprint'', json_option JStr (case_source_fingerprint c)),
      (''config_fingerprint'', JStr (case_config_fingerprint c))]
     @ given_field ''occurrence_id'' JStr (case_occurrence c)
     @ given_field ''invocation_kind'' (JStr \<circ> invocation_kind_value) (case_invocation_kind c)
     @ given_field ''batch_effect_expectation'' (JStr \<circ> batch_effect_value) (case_batch_effect c)"

definition case_json :: "execution_case \<Rightarrow> effect_proof list \<Rightarrow> json" where
  "case_json c proofs = JObj ([(''case_id'', JStr (case_id c)),
     (''roles'', JArr (map (JStr \<circ> case_role_value) (case_roles c)))] @ case_facts c proofs)"

text \<open>A scenario replaces the resource of a frozen case by the one its producer made.\<close>

definition bind_resource :: "(str \<Rightarrow> str) \<Rightarrow> execution_case \<Rightarrow> str \<Rightarrow> str \<Rightarrow> execution_case checked" where
  "bind_resource sha c rid producer =
     (let rebound = (\<lambda>q. let q' = q\<lparr>proof_resource_id := rid\<rparr> in
            q'\<lparr>proof_fingerprint := content_hash sha ''EffectProofRequirement'' (JObj (proof_fields q'))\<rparr>);
          bound = c\<lparr>case_resource_id := rid, case_proofs := map rebound (case_proofs c),
            case_resource_fingerprint := content_hash sha ''ScenarioResource'' (JObj
              [(''template'', JStr (case_resource_fingerprint c)), (''producer_case_id'', JStr producer),
               (''resource_id'', JStr rid)])\<rparr>
      in checked (execution_case_errors sha bound) bound)"

subsection \<open>Controls\<close>

record twin_invariants =
  inv_resource_id :: str
  inv_owner_identity :: str
  inv_owner_fingerprint :: str
  inv_execution :: execution_asset
  inv_proof_fingerprints :: "str list"
  inv_recovery_fingerprint :: "str option"
  inv_source_fingerprint :: "str option"
  inv_config_fingerprint :: str

definition twin_invariants_errors :: "twin_invariants \<Rightarrow> str list" where
  "twin_invariants_errors i = after_fields
     (size_field ''resource_id'' 1 256 (inv_resource_id i)
      @ tag_field ''resource_owner_test_identity_id'' ''tid_'' 32 (inv_owner_identity i)
      @ hash_field ''owner_identity_fingerprint'' (inv_owner_fingerprint i) @ asset_errors (inv_execution i)
      @ size_field ''proof_fingerprints'' 1 48 (inv_proof_fingerprints i)
      @ each_field (hash_field ''proof_fingerprints'') (inv_proof_fingerprints i)
      @ optional_field (hash_field ''recovery_fingerprint'') (inv_recovery_fingerprint i)
      @ optional_field (hash_field ''source_fingerprint'') (inv_source_fingerprint i)
      @ hash_field ''config_fingerprint'' (inv_config_fingerprint i))
     [resource_guard (inv_resource_id i)]"

definition twin_invariants_json :: "twin_invariants \<Rightarrow> json" where
  "twin_invariants_json i = JObj
     [(''resource_id'', JStr (inv_resource_id i)), (''resource_owner_test_identity_id'', JStr (inv_owner_identity i)),
      (''owner_identity_fingerprint'', JStr (inv_owner_fingerprint i)), (''execution'', asset_json (inv_execution i)),
      (''proof_fingerprints'', json_strings (inv_proof_fingerprints i)),
      (''recovery_fingerprint'', json_option JStr (inv_recovery_fingerprint i)),
      (''source_fingerprint'', json_option JStr (inv_source_fingerprint i)),
      (''config_fingerprint'', JStr (inv_config_fingerprint i))]"

definition case_invariants :: "execution_case \<Rightarrow> twin_invariants" where
  "case_invariants c = \<lparr>inv_resource_id = case_resource_id c, inv_owner_identity = case_owner_identity c,
     inv_owner_fingerprint = case_owner_fingerprint c, inv_execution = case_execution c,
     inv_proof_fingerprints = sort (map proof_fingerprint (case_proofs c)),
     inv_recovery_fingerprint = map_option rc_binding_fingerprint (case_recovery c),
     inv_source_fingerprint = case_source_fingerprint c, inv_config_fingerprint = case_config_fingerprint c\<rparr>"

record execution_twin =
  twin_id :: str
  twin_deny_case :: str
  twin_allow_case :: str
  twin_permission :: permission_reference
  twin_effect_ids :: "str list"
  twin_invariants :: twin_invariants
  twin_fingerprint :: str
  twin_state_difference :: bool

definition twin_errors :: "execution_twin \<Rightarrow> str list" where
  "twin_errors t =
     tag_field ''twin_id'' ''twin_'' 32 (twin_id t) @ tag_field ''deny_case_id'' ''case_'' 32 (twin_deny_case t)
     @ tag_field ''allow_case_id'' ''case_'' 32 (twin_allow_case t) @ reference_errors (twin_permission t)
     @ effects_field (twin_effect_ids t) @ twin_invariants_errors (twin_invariants t)
     @ hash_field ''fingerprint'' (twin_fingerprint t)"

definition twin_fields :: "execution_twin \<Rightarrow> (str \<times> json) list" where
  "twin_fields t =
     [(''twin_id'', JStr (twin_id t)), (''deny_case_id'', JStr (twin_deny_case t)),
      (''allow_case_id'', JStr (twin_allow_case t)),
      (''selected_allow_permission'', JObj (reference_fields (twin_permission t))),
      (''protected_effect_ids'', json_strings (twin_effect_ids t)),
      (''invariants'', twin_invariants_json (twin_invariants t))]
     @ (if twin_state_difference t then [(''condition_difference'', JStr ''RESOURCE_STATE'')] else [])"

definition twin_json :: "execution_twin \<Rightarrow> json" where
  "twin_json t = JObj (twin_fields t @ [(''fingerprint'', JStr (twin_fingerprint t))])"

definition proof_methods :: "execution_case \<Rightarrow> effect_proof list" where
  \<comment> \<open>the proofs with their resource and fingerprint left out\<close>
  "proof_methods c = map (\<lambda>q. q\<lparr>proof_resource_id := [], proof_fingerprint := []\<rparr>) (sort_key proof_order (case_proofs c))"

definition conditional_resource_twin :: "execution_case \<Rightarrow> execution_case \<Rightarrow> bool" where
  "conditional_resource_twin d a =
     (case (fz_conditions (case_permission d), fz_conditions (case_permission a)) of
        (Some l, Some r) \<Rightarrow>
          pc_resource_states l \<noteq> [] \<and> pc_resource_states r \<noteq> [] \<and>
          set (pc_resource_states l) \<inter> set (pc_resource_states r) = {} \<and>
          case_resource_id d \<noteq> case_resource_id a \<and>
          (case_invariants d)\<lparr>inv_resource_id := [], inv_proof_fingerprints := []\<rparr> =
            (case_invariants a)\<lparr>inv_resource_id := [], inv_proof_fingerprints := []\<rparr> \<and>
          proof_methods d = proof_methods a
      | _ \<Rightarrow> False)"

subsection \<open>The action\<close>

record execution_action =
  ex_action_id :: str
  ex_action_revision :: int
  ex_action_fingerprint :: str
  ex_cases :: "execution_case list"
  ex_twins :: "execution_twin list"

definition case_identity :: "(str \<Rightarrow> str) \<Rightarrow> execution_action \<Rightarrow> execution_case \<Rightarrow> str" where
  "case_identity sha x c = ''case_'' @ take 32 (content_hash sha ''CheckCase'' (JObj
     [(''action_id'', JStr (ex_action_id x)), (''revision'', JInt (ex_action_revision x)),
      (''facts'', JObj (case_facts c (sort_key proof_order (case_proofs c))))]))"

definition twin_guards :: "(str \<Rightarrow> str) \<Rightarrow> execution_action \<Rightarrow> execution_twin \<Rightarrow> guard list" where
  "twin_guards sha x t =
     (case (dict_of case_id (ex_cases x) (twin_deny_case t), dict_of case_id (ex_cases x) (twin_allow_case t)) of
        (Some d, Some a) \<Rightarrow>
          [(fz_expectation (case_permission d) \<noteq> DENY \<or> ALLOW_CONTROL \<notin> set (case_roles a), ''invalid twin case reference''),
           (reference_key (case_permission a) \<noteq> reference_key (twin_permission t), ''twin selected permission''),
           (case_effect_ids d \<noteq> case_effect_ids a \<or> case_effect_ids d \<noteq> twin_effect_ids t, ''twin effect mismatch''),
           (case_invariants d \<noteq> twin_invariants t \<or>
              (if twin_state_difference t then \<not> conditional_resource_twin d a
               else case_invariants d \<noteq> case_invariants a), ''twin invariant mismatch''),
           (twin_fingerprint t \<noteq> content_hash sha ''CheckTwin'' (JObj (twin_fields t)), ''twin fingerprint'')]
      | _ \<Rightarrow> [(True, ''invalid twin case reference'')])"

definition deny_case_ids :: "execution_action \<Rightarrow> str list" where
  "deny_case_ids x = map case_id (filter (\<lambda>c. fz_expectation (case_permission c) = DENY \<and>
     (case_occurrence c = None \<or> case_id c \<in> set (map twin_deny_case (ex_twins x)))) (ex_cases x))"

definition execution_action_guards :: "(str \<Rightarrow> str) \<Rightarrow> execution_action \<Rightarrow> guard list" where
  "execution_action_guards sha x =
     [(has_duplicates (map case_id (ex_cases x)) \<or> has_duplicates (map twin_id (ex_twins x)), ''duplicate case or twin'')]
     @ map (\<lambda>c. (case_id c \<noteq> case_identity sha x c, ''case content identity'')) (ex_cases x)
     @ concat (map (twin_guards sha x) (ex_twins x))
     @ [(length (ex_twins x) \<noteq> card (set (deny_case_ids x)) \<or>
           set (map twin_deny_case (ex_twins x)) \<noteq> set (deny_case_ids x), ''deny requires exactly one complete control''),
        (set (map case_id (filter (\<lambda>c. ALLOW_CONTROL \<in> set (case_roles c)) (ex_cases x))) \<noteq>
           set (map twin_allow_case (ex_twins x)), ''orphan allow control'')]"

definition execution_action_errors :: "(str \<Rightarrow> str) \<Rightarrow> execution_action \<Rightarrow> str list" where
  "execution_action_errors sha x = after_fields
     (tag_field ''action_id'' ''bac_'' 32 (ex_action_id x) @ least_field ''action_revision'' 1 (ex_action_revision x)
      @ hash_field ''action_semantic_fingerprint'' (ex_action_fingerprint x)
      @ size_field ''cases'' 1 4096 (ex_cases x) @ each_field (execution_case_errors sha) (ex_cases x)
      @ size_field ''twins'' 0 4096 (ex_twins x) @ each_field twin_errors (ex_twins x))
     (execution_action_guards sha x)"

definition execution_action_json :: "execution_action \<Rightarrow> (str \<times> json) list" where
  "execution_action_json x =
     [(''action_id'', JStr (ex_action_id x)), (''action_revision'', JInt (ex_action_revision x)),
      (''action_semantic_fingerprint'', JStr (ex_action_fingerprint x)),
      (''cases'', JArr (map (\<lambda>c. case_json c (sort_key proof_order (case_proofs c))) (sort_key case_id (ex_cases x)))),
      (''twins'', JArr (map twin_json (sort_key twin_id (ex_twins x))))]"

end
