(* ===== verification/Scenarios.thy ===== *)
theory Scenarios
  imports ExecutionCase "HOL-Library.Sublist"
begin

section \<open>Business scenarios\<close>

text \<open>
  Models \<^verbatim>\<open>product/protocols/checks/scenarios.py\<close>: finite experiments over approved permissions.
  A challenge experiment varies a normal one (a step omitted, reordered, repeated, run by another
  subject, or with a revoked grant); the reader checks that the claimed variation is real, that the
  frozen cases carry the occurrences of the document, and that every expected absence has a normal
  control of the same operation. \<open>require\<close> is an \<open>if\<close> whose body raises; a dictionary
  subscript is a \<open>lookup\<close>, so a missing key is the branch \<open>KeyError\<close>.
\<close>

definition require :: "bool \<Rightarrow> str \<Rightarrow> unit checked" where
  "require b m = (if b then Inr () else Inl [m])"

definition each :: "('a \<Rightarrow> unit checked) \<Rightarrow> 'a list \<Rightarrow> unit checked" where
  "each f xs = andthen (traverse f xs) (\<lambda>_. Inr ())"

lemma require_Inr [simp]: "require b m = Inr u \<longleftrightarrow> b"
  by (simp add: require_def)

lemma each_Inr [simp]: "each f xs = Inr u \<longleftrightarrow> (\<forall>x \<in> set xs. f x = Inr ())"
  by (induction xs) (auto simp: each_def)

subsection \<open>The document\<close>

datatype batch_strategy = ATOMIC | PER_ITEM

datatype path_part = Name str | Index int

datatype experiment_kind = NORMAL | OMIT | REORDER | REPEAT | CHANGE_SUBJECT | REVOKE

definition is_letter :: "char \<Rightarrow> bool" where
  "is_letter c \<longleftrightarrow> is_lower c \<or> is_upper c"

definition key_text :: "str \<Rightarrow> bool" where
  "key_text = headed is_letter (\<lambda>c. is_letter c \<or> is_digit c \<or> c \<in> set ''_-'') 63"

definition key_field :: "str \<Rightarrow> str \<Rightarrow> str list" where
  "key_field field v = field_error [pattern_guard field key_text v]"

definition name_start :: "char \<Rightarrow> bool" where
  "name_start c \<longleftrightarrow> is_letter c \<or> c = CHR ''_''"

definition name_part :: "char \<Rightarrow> bool" where
  "name_part c \<longleftrightarrow> name_start c \<or> is_digit c"

record scenario_item =
  item_id :: str
  item_permission :: permission_reference
  item_subject :: "str option"
  item_resource_id :: str
  item_resource_from :: "str option"

definition item_errors :: "scenario_item \<Rightarrow> str list" where
  "item_errors i = key_field ''id'' (item_id i) @ reference_errors (item_permission i)
     @ optional_field (tag_field ''subject_identity_id'' ''tid_'' 32) (item_subject i)
     @ size_field ''resource_id'' 1 256 (item_resource_id i)
     @ optional_field (key_field ''resource_from'') (item_resource_from i)"

record batch_invocation =
  bt_strategy :: batch_strategy
  bt_array_path :: "path_part list"
  bt_items_path :: "str option"
  bt_resource_field :: "str option"

fun path_part_errors :: "path_part \<Rightarrow> str list" where
  "path_part_errors (Name s) = field_error [pattern_guard ''array_path'' (headed name_start name_part 63) s]"
| "path_part_errors (Index n) = field_error [(n < 0, ''array_path: greater_than_equal''), (127 < n, ''array_path: less_than_equal'')]"

fun path_segments :: "nat \<Rightarrow> str \<Rightarrow> bool" where
  \<comment> \<open>at most \<open>n\<close> field accesses and subscripts\<close>
  "path_segments 0 s = (s = [])"
| "path_segments (Suc n) s =
     (case s of
        [] \<Rightarrow> True
      | c # cs \<Rightarrow>
          if c = CHR ''.''
          then cs \<noteq> [] \<and> name_start (hd cs) \<and> path_segments n (dropWhile name_part (tl cs))
          else if c = CHR ''[''
          then takeWhile is_digit cs \<noteq> [] \<and>
            (case dropWhile is_digit cs of [] \<Rightarrow> False | d # ds \<Rightarrow> d = CHR '']'' \<and> path_segments n ds)
          else False)"

definition items_path :: "str \<Rightarrow> bool" where
  "items_path s \<longleftrightarrow> s \<noteq> [] \<and> hd s = CHR ''$'' \<and> path_segments 8 (tl s)"

definition batch_errors :: "batch_invocation \<Rightarrow> str list" where
  "batch_errors b = size_field ''array_path'' 1 8 (bt_array_path b) @ each_field path_part_errors (bt_array_path b)
     @ optional_field (\<lambda>v. field_error [pattern_guard ''response_items_path'' items_path v]) (bt_items_path b)
     @ optional_field (key_field ''response_resource_field'') (bt_resource_field b)"

record scenario_invocation =
  inv_id :: str
  inv_label :: str
  inv_items :: "scenario_item list"
  inv_batch :: "batch_invocation option"
  inv_depends_on :: "str list"

definition invocation_errors :: "scenario_invocation \<Rightarrow> str list" where
  "invocation_errors v = after_fields
     (key_field ''id'' (inv_id v) @ size_field ''label'' 1 128 (inv_label v)
      @ size_field ''items'' 1 32 (inv_items v) @ each_field item_errors (inv_items v)
      @ optional_field batch_errors (inv_batch v)
      @ size_field ''depends_on'' 0 16 (inv_depends_on v) @ each_field (key_field ''depends_on'') (inv_depends_on v))
     [(inv_batch v = None \<and> length (inv_items v) \<noteq> 1, ''multiple items require one explicit batch invocation''),
      (inv_batch v \<noteq> None \<and> list_ex (\<lambda>i. item_resource_from i \<noteq> None) (inv_items v),
         ''dynamic resources require individually correlated invocations''),
      (has_duplicates (map item_id (inv_items v)) \<or> has_duplicates (inv_depends_on v), ''duplicate item or dependency''),
      (length (remdups (map item_subject (inv_items v))) \<noteq> 1, ''one HTTP invocation has one actual principal'')]"

record scenario_experiment =
  exp_id :: str
  exp_label :: str
  exp_kind :: experiment_kind
  exp_control :: "str option"
  exp_invocations :: "scenario_invocation list"

fun order_guards :: "str list \<Rightarrow> scenario_invocation list \<Rightarrow> guard list" where
  \<comment> \<open>\<open>seen\<close> holds the invocations already run\<close>
  "order_guards seen [] = []"
| "order_guards seen (v # vs) =
     (\<not> set (inv_depends_on v) \<subseteq> set seen, ''normal business sequence must satisfy its declared dependencies'')
     # (list_ex (\<lambda>i. given (\<lambda>r. r \<notin> set seen) (item_resource_from i)) (inv_items v),
         ''normal resource consumers must follow their producer'')
     # order_guards (inv_id v # seen) vs"

definition experiment_errors :: "scenario_experiment \<Rightarrow> str list" where
  "experiment_errors e = after_fields
     (key_field ''id'' (exp_id e) @ size_field ''label'' 1 128 (exp_label e)
      @ optional_field (key_field ''control_experiment_id'') (exp_control e)
      @ size_field ''invocations'' 1 16 (exp_invocations e) @ each_field invocation_errors (exp_invocations e))
     ((has_duplicates (map inv_id (exp_invocations e)), ''each occurrence needs a distinct invocation ID'')
      # (if exp_kind e = NORMAL then order_guards [] (exp_invocations e)
         else [(exp_control e = None, ''a challenge requires an explicit normal experiment'')]))"

record scenario_document =
  sd_id :: str
  sd_project_id :: str
  sd_revision :: int
  sd_label :: str
  sd_description :: str
  sd_experiments :: "scenario_experiment list"

definition document_errors :: "scenario_document \<Rightarrow> str list" where
  "document_errors d =
     (let by_id = dict_of exp_id (sd_experiments d) in after_fields
       (tag_field ''id'' ''bsc_'' 32 (sd_id d) @ logical_field ''project_id'' (sd_project_id d)
        @ least_field ''revision'' 1 (sd_revision d) @ size_field ''label'' 1 128 (sd_label d)
        @ size_field ''description'' 0 1024 (sd_description d)
        @ size_field ''experiments'' 1 16 (sd_experiments d) @ each_field experiment_errors (sd_experiments d))
       ((has_duplicates (map exp_id (sd_experiments d)) \<or> list_all (\<lambda>e. exp_kind e \<noteq> NORMAL) (sd_experiments d),
           ''experiments need unique IDs and a normal control'')
        # map (\<lambda>e. (given (\<lambda>k. absent_or (\<lambda>n. exp_kind n \<noteq> NORMAL) (by_id k) \<or> k = exp_id e) (exp_control e),
            ''control must reference another complete normal experiment'')) (sd_experiments d)))"

subsection \<open>Its JSON form\<close>

definition path_part_json :: "path_part \<Rightarrow> json" where
  "path_part_json p = (case p of Name s \<Rightarrow> JStr s | Index n \<Rightarrow> JInt n)"

definition strategy_value :: "batch_strategy \<Rightarrow> str" where
  "strategy_value s = (case s of ATOMIC \<Rightarrow> ''ATOMIC'' | PER_ITEM \<Rightarrow> ''PER_ITEM'')"

definition batch_json :: "batch_invocation \<Rightarrow> json" where
  "batch_json b = JObj [(''strategy'', JStr (strategy_value (bt_strategy b))),
     (''array_path'', JArr (map path_part_json (bt_array_path b))),
     (''response_items_path'', json_option JStr (bt_items_path b)),
     (''response_resource_field'', json_option JStr (bt_resource_field b))]"

definition item_json :: "scenario_item \<Rightarrow> json" where
  "item_json i = JObj ([(''id'', JStr (item_id i)), (''permission'', JObj (reference_fields (item_permission i))),
     (''subject_identity_id'', json_option JStr (item_subject i)), (''resource_id'', JStr (item_resource_id i))]
     @ given_field ''resource_from'' JStr (item_resource_from i))"

definition invocation_json :: "scenario_invocation \<Rightarrow> json" where
  "invocation_json v = JObj [(''id'', JStr (inv_id v)), (''label'', JStr (inv_label v)),
     (''items'', JArr (map item_json (inv_items v))), (''batch'', json_option batch_json (inv_batch v)),
     (''depends_on'', json_strings (inv_depends_on v))]"

fun experiment_kind_value :: "experiment_kind \<Rightarrow> str" where
  "experiment_kind_value NORMAL = ''NORMAL''"
| "experiment_kind_value OMIT = ''OMIT''"
| "experiment_kind_value REORDER = ''REORDER''"
| "experiment_kind_value REPEAT = ''REPEAT''"
| "experiment_kind_value CHANGE_SUBJECT = ''CHANGE_SUBJECT''"
| "experiment_kind_value REVOKE = ''REVOKE''"

definition experiment_json :: "scenario_experiment \<Rightarrow> json" where
  "experiment_json e = JObj [(''id'', JStr (exp_id e)), (''label'', JStr (exp_label e)),
     (''kind'', JStr (experiment_kind_value (exp_kind e))), (''control_experiment_id'', json_option JStr (exp_control e)),
     (''invocations'', JArr (map invocation_json (exp_invocations e)))]"

definition document_json :: "scenario_document \<Rightarrow> json" where
  "document_json d = JObj [(''document_type'', JStr ''jiejian.business-scenario''), (''schema_version'', JStr ''1''),
     (''id'', JStr (sd_id d)), (''project_id'', JStr (sd_project_id d)), (''revision'', JInt (sd_revision d)),
     (''label'', JStr (sd_label d)), (''description'', JStr (sd_description d)),
     (''experiments'', JArr (map experiment_json (sd_experiments d)))]"

subsection \<open>The frozen scenario\<close>

record frozen_invocation =
  fi_experiment :: str
  fi_invocation :: str
  fi_cases :: "str list"

record frozen_scenario =
  fs_document :: scenario_document
  fs_fingerprint :: str
  fs_invocations :: "frozen_invocation list"

definition frozen_key :: "frozen_invocation \<Rightarrow> str \<times> str" where
  "frozen_key i = (fi_experiment i, fi_invocation i)"

definition frozen_scenario_errors :: "frozen_scenario \<Rightarrow> str list" where
  "frozen_scenario_errors s = document_errors (fs_document s) @ hash_field ''fingerprint'' (fs_fingerprint s)
     @ size_field ''invocations'' 1 256 (fs_invocations s)
     @ each_field (\<lambda>i. key_field ''experiment_id'' (fi_experiment i) @ key_field ''invocation_id'' (fi_invocation i)
         @ size_field ''case_ids'' 1 32 (fi_cases i) @ each_field (tag_field ''case_ids'' ''case_'' 32) (fi_cases i))
         (fs_invocations s)"

definition frozen_scenario_json :: "frozen_scenario \<Rightarrow> json" where
  "frozen_scenario_json s = JObj [(''document'', document_json (fs_document s)),
     (''fingerprint'', JStr (fs_fingerprint s)),
     (''invocations'', JArr (map (\<lambda>i. JObj [(''experiment_id'', JStr (fi_experiment i)),
        (''invocation_id'', JStr (fi_invocation i)), (''case_ids'', json_strings (fi_cases i))]) (fs_invocations s)))]"

definition scenario_control_cases :: "frozen_scenario \<Rightarrow> str \<Rightarrow> str list checked" where
  "scenario_control_cases s cid =
     (case find (\<lambda>i. cid \<in> set (fi_cases i)) (fs_invocations s) of
        None \<Rightarrow> Inr []
      | Some i \<Rightarrow> andthen (next_item (\<lambda>e. exp_id e = fi_experiment i) (sd_experiments (fs_document s)))
          (\<lambda>e. Inr (case exp_control e of None \<Rightarrow> []
             | Some k \<Rightarrow> concat (map fi_cases (filter (\<lambda>j. fi_experiment j = k) (fs_invocations s))))))"

end
