(* ===== verification/ScenarioCheck.thy ===== *)
theory ScenarioCheck
  imports Scenarios
begin

section \<open>The scenario reader\<close>

text \<open>
  \<^verbatim>\<open>validate_experiment_variants\<close> and \<^verbatim>\<open>validate_scenario_cases\<close> of
  \<^verbatim>\<open>product/protocols/checks/scenarios.py\<close>. The signatures the code compares as JSON texts are
  compared as the values those texts encode.
\<close>

subsection \<open>Variants\<close>

type_synonym permission_dict = "str \<times> int \<times> str \<rightharpoonup> str \<times> permission_conditions option"

type_synonym call_signature =
  "(str \<times> str option \<times> str \<times> str option) list \<times> batch_invocation option"

definition signature_member ::
    "permission_dict \<Rightarrow> bool \<Rightarrow> scenario_item \<Rightarrow> (str \<times> str option \<times> str \<times> str option) checked" where
  "signature_member permissions with_subjects i = andthen (lookup permissions (reference_key (item_permission i)))
     (\<lambda>(action, _). Inr (action, if with_subjects then item_subject i else None, item_resource_id i, item_resource_from i))"

definition invocation_signature :: "permission_dict \<Rightarrow> bool \<Rightarrow> scenario_invocation \<Rightarrow> call_signature checked" where
  "invocation_signature permissions with_subjects v =
     andthen (traverse (signature_member permissions with_subjects) (inv_items v)) (\<lambda>members. Inr (members, inv_batch v))"

fun subsequence :: "'a list \<Rightarrow> 'a list \<Rightarrow> bool" where
  "subsequence [] ys = True"
| "subsequence (x # xs) [] = False"
| "subsequence (x # xs) (y # ys) = (if x = y then subsequence xs ys else subsequence (x # xs) ys)"

definition revokes :: "permission_dict \<Rightarrow> scenario_experiment \<Rightarrow> bool" where
  "revokes permissions e \<longleftrightarrow> list_ex (\<lambda>v. list_ex (\<lambda>i.
     (case permissions (reference_key (item_permission i)) of
        Some (_, Some c) \<Rightarrow> list_ex (\<lambda>q. rr_kind q \<in> {SHARING, DELEGATION} \<and> rr_state q = Revoked) (pc_relationships c)
      | _ \<Rightarrow> False)) (inv_items v)) (exp_invocations e)"

definition variant_valid ::
    "permission_dict \<Rightarrow> scenario_experiment \<Rightarrow> scenario_experiment \<Rightarrow> call_signature list \<Rightarrow>
       call_signature list \<Rightarrow> bool checked" where
  "variant_valid permissions control e normal variant =
     (case exp_kind e of
        NORMAL \<Rightarrow> Inr True
      | OMIT \<Rightarrow> Inr (length variant < length normal \<and> subsequence variant normal)
      | REORDER \<Rightarrow> Inr (normal \<noteq> variant \<and> mset normal = mset variant)
      | REPEAT \<Rightarrow> Inr (length normal < length variant \<and> subsequence normal variant \<and> set variant \<subseteq> set normal)
      | CHANGE_SUBJECT \<Rightarrow>
          if normal = variant then Inr False
          else andthen (traverse (invocation_signature permissions False) (exp_invocations control))
            (\<lambda>ns. andthen (traverse (invocation_signature permissions False) (exp_invocations e))
              (\<lambda>vs. Inr (ns = vs)))
      | REVOKE \<Rightarrow> Inr (revokes permissions e))"

definition control_of :: "scenario_document \<Rightarrow> scenario_experiment \<Rightarrow> scenario_experiment checked" where
  "control_of d e = next_item (\<lambda>n. Some (exp_id n) = exp_control e) (sd_experiments d)"

definition check_variant :: "permission_dict \<Rightarrow> scenario_document \<Rightarrow> scenario_experiment \<Rightarrow> unit checked" where
  "check_variant permissions d e =
     (if exp_kind e = NORMAL then Inr ()
      else andthen (control_of d e) (\<lambda>control.
        andthen (traverse (invocation_signature permissions True) (exp_invocations control)) (\<lambda>normal.
        andthen (traverse (invocation_signature permissions True) (exp_invocations e)) (\<lambda>variant.
        andthen (variant_valid permissions control e normal variant) (\<lambda>valid.
          require valid ''scenario variant does not match its claimed experiment kind'')))))"

definition validate_experiment_variants :: "scenario_document \<Rightarrow> permission_dict \<Rightarrow> unit checked" where
  "validate_experiment_variants d permissions = each (check_variant permissions d) (sd_experiments d)"

subsection \<open>Cases\<close>

type_synonym case_map = "str \<rightharpoonup> execution_case"

type_synonym frozen_map = "str \<times> str \<rightharpoonup> frozen_invocation"

definition all_cases :: "execution_action list \<Rightarrow> execution_case list" where
  "all_cases actions = concat (map ex_cases actions)"

definition denies :: "execution_case \<Rightarrow> bool" where
  "denies c \<longleftrightarrow> fz_expectation (case_permission c) = DENY"

definition occurrence_of :: "(str \<Rightarrow> str) \<Rightarrow> str \<Rightarrow> str \<Rightarrow> str \<Rightarrow> nat \<Rightarrow> str" where
  "occurrence_of sha fingerprint experiment invocation index = ''occ_'' @ take 32 (content_hash sha ''ScenarioOccurrence''
     (JObj [(''scenario'', JStr fingerprint), (''experiment'', JStr experiment), (''invocation'', JStr invocation),
       (''index'', JInt (int index))]))"

definition batch_kind :: "batch_strategy \<Rightarrow> invocation_kind" where
  \<comment> \<open>\<open>'BATCH_' + strategy\<close>\<close>
  "batch_kind s = (case s of ATOMIC \<Rightarrow> BATCH_ATOMIC | PER_ITEM \<Rightarrow> BATCH_PER_ITEM)"

definition check_item ::
    "(str \<Rightarrow> str) \<Rightarrow> frozen_scenario \<Rightarrow> scenario_experiment \<Rightarrow> scenario_invocation \<Rightarrow> bool \<Rightarrow>
       nat \<times> scenario_item \<times> execution_case \<Rightarrow> unit checked" where
  "check_item sha s e v mixed =
     (\<lambda>(index, i, c).
       andthen (require (reference_key (case_permission c) = reference_key (item_permission i)) ''scenario permission revision'')
       (\<lambda>_. andthen (require
           ((case_occurrence c, case_subject_identity c, case_resource_id c) =
            (Some (occurrence_of sha (fs_fingerprint s) (exp_id e) (inv_id v) index), item_subject i, item_resource_id i))
           ''scenario item identity'')
       (\<lambda>_. case inv_batch v of
          None \<Rightarrow> require (case_invocation_kind c = None) ''single invocation cannot use batch obligations''
        | Some b \<Rightarrow> require
            ((case_invocation_kind c, case_batch_effect c) =
             (Some (batch_kind (bt_strategy b)),
              Some (if (bt_strategy b = ATOMIC \<and> mixed) \<or> denies c then ABSENT_EFFECT else PRESENT)))
            ''batch policy obligation'')))"

definition select_cases :: "case_map \<Rightarrow> frozen_map \<Rightarrow> str \<Rightarrow> str \<Rightarrow> execution_case list checked" where
  \<comment> \<open>\<open>[cases[key] for key in frozen[experiment, invocation].case_ids]\<close>\<close>
  "select_cases cases frozen experiment invocation =
     andthen (lookup frozen (experiment, invocation)) (\<lambda>f. traverse (lookup cases) (fi_cases f))"

fun check_occurrences ::
    "(str \<Rightarrow> str) \<Rightarrow> frozen_scenario \<Rightarrow> case_map \<Rightarrow> frozen_map \<Rightarrow> str list \<Rightarrow>
       (scenario_experiment \<times> scenario_invocation) list \<Rightarrow> str list checked" where
  "check_occurrences sha s cases frozen seen [] = Inr seen"
| "check_occurrences sha s cases frozen seen ((e, v) # rest) =
     andthen (lookup frozen (exp_id e, inv_id v)) (\<lambda>f.
     andthen (require (length (fi_cases f) = length (inv_items v) \<and> set seen \<inter> set (fi_cases f) = {})
       ''scenario item occurrence coverage'') (\<lambda>_.
     andthen (traverse (lookup cases) (fi_cases f)) (\<lambda>selected.
     let mixed = list_ex denies selected in
     andthen (require (\<not> (exp_kind e = NORMAL \<and> mixed)) ''normal control contains a forbidden operation'') (\<lambda>_.
     andthen (each (check_item sha s e v mixed) (zip [0..<length selected] (zip (inv_items v) selected))) (\<lambda>_.
     check_occurrences sha s cases frozen (seen @ fi_cases f) rest)))))"

definition case_signature :: "execution_case \<Rightarrow> str \<times> str \<times> str list" where
  "case_signature c = (flow_id (case_execution c), case_resource_id c, case_effect_ids c)"

definition check_absences ::
    "scenario_document \<Rightarrow> case_map \<Rightarrow> frozen_map \<Rightarrow> scenario_experiment \<times> scenario_invocation \<Rightarrow> unit checked" where
  "check_absences d cases frozen =
     (\<lambda>(e, v). if exp_kind e = NORMAL then Inr ()
       else andthen (select_cases cases frozen (exp_id e) (inv_id v)) (\<lambda>selected.
         andthen (control_of d e) (\<lambda>control.
           if inv_batch v \<noteq> None
           then andthen (traverse (\<lambda>w. select_cases cases frozen (exp_id control) (inv_id w))
               (filter (\<lambda>w. inv_batch w = inv_batch v) (exp_invocations control)))
             (\<lambda>candidates. require (map case_signature selected \<in> map case_signature ` set candidates)
                ''batch challenge needs the same complete all-allowed batch control'')
           else andthen (traverse (\<lambda>w. select_cases cases frozen (exp_id control) (inv_id w)) (exp_invocations control))
             (\<lambda>normals. require (list_all (\<lambda>c. expects_absence c \<longrightarrow>
                  list_ex (\<lambda>n. case_signature n = case_signature c \<and> \<not> expects_absence n \<and>
                    ALLOW_REGRESSION \<in> set (case_roles n)) (concat normals)) selected)
                ''scenario denial needs the same full normal effect control''))))"

definition scenario_steps :: "scenario_document \<Rightarrow> (scenario_experiment \<times> scenario_invocation) list" where
  "scenario_steps d = concat (map (\<lambda>e. map (\<lambda>v. (e, v)) (exp_invocations e)) (sd_experiments d))"

definition permission_map :: "execution_action list \<Rightarrow> permission_dict" where
  "permission_map actions = map_of (rev (concat (map (\<lambda>x. map (\<lambda>c. (reference_key (case_permission c),
     (ex_action_id x, fz_conditions (case_permission c)))) (ex_cases x)) actions)))"

definition validate_scenario_cases :: "(str \<Rightarrow> str) \<Rightarrow> frozen_scenario \<Rightarrow> execution_action list \<Rightarrow> unit checked" where
  "validate_scenario_cases sha s actions =
     (let d = fs_document s;
          cases = dict_of case_id (all_cases actions);
          frozen = dict_of frozen_key (fs_invocations s);
          steps = scenario_steps d
      in andthen (require (fs_fingerprint s = content_hash sha ''BusinessScenario'' (document_json d)) ''scenario content identity'')
         (\<lambda>_. andthen (require (frozen_key ` set (fs_invocations s) = (\<lambda>(e, v). (exp_id e, inv_id v)) ` set steps \<and>
             \<not> has_duplicates (map frozen_key (fs_invocations s))) ''scenario invocation coverage'')
         (\<lambda>_. andthen (check_occurrences sha s cases frozen [] steps)
         (\<lambda>seen. andthen (require (set seen = set (map case_id (filter (\<lambda>c. case_occurrence c \<noteq> None)
             (map (the \<circ> cases) (dict_keys case_id (all_cases actions)))))) ''orphan scenario case'')
         (\<lambda>_. andthen (validate_experiment_variants d (permission_map actions))
         (\<lambda>_. each (check_absences d cases frozen) steps))))))"

end
