(* ===== verification/ScenarioFacts.thy ===== *)
theory ScenarioFacts
  imports ScenarioCheck
begin

section \<open>What the scenario reader checks, step by step\<close>

text \<open>
  What an accepted scenario guarantees: its challenge experiments really differ from their normal
  one in the claimed way, every case belongs to one invocation, and every expected absence has a
  normal case of the same flow, resource and effects among the cases that
  \<^verbatim>\<open>scenario_control_cases\<close> returns for it.
\<close>

subsection \<open>Variants\<close>

lemma subsequence_subseq: "subsequence xs ys \<longleftrightarrow> subseq xs ys"
proof (induction xs ys rule: subsequence.induct)
  case (3 x xs y ys)
  then show ?case by (cases "x = y") (auto elim: list_emb.cases)
qed simp_all

definition real_variation :: "permission_dict \<Rightarrow> scenario_experiment \<Rightarrow> scenario_experiment \<Rightarrow> bool" where
  "real_variation permissions control e \<longleftrightarrow>
     (\<exists>normal variant. traverse (invocation_signature permissions True) (exp_invocations control) = Inr normal \<and>
        traverse (invocation_signature permissions True) (exp_invocations e) = Inr variant \<and>
        (case exp_kind e of
           NORMAL \<Rightarrow> True
         | OMIT \<Rightarrow> subseq variant normal \<and> variant \<noteq> normal
         | REORDER \<Rightarrow> mset variant = mset normal \<and> variant \<noteq> normal
         | REPEAT \<Rightarrow> subseq normal variant \<and> set variant = set normal \<and> variant \<noteq> normal
         | CHANGE_SUBJECT \<Rightarrow> variant \<noteq> normal \<and>
             map (\<lambda>(ms, b). (map (\<lambda>(a, _, r, p). (a, r, p)) ms, b)) variant =
             map (\<lambda>(ms, b). (map (\<lambda>(a, _, r, p). (a, r, p)) ms, b)) normal
         | REVOKE \<Rightarrow> \<exists>v \<in> set (exp_invocations e). \<exists>i \<in> set (inv_items v). \<exists>a c.
             permissions (reference_key (item_permission i)) = Some (a, Some c) \<and>
             (\<exists>q \<in> set (pc_relationships c). rr_state q = Revoked)))"

definition no_subject :: "call_signature \<Rightarrow> (str \<times> str \<times> str option) list \<times> batch_invocation option" where
  "no_subject = (\<lambda>(ms, b). (map (\<lambda>(a, _, r, p). (a, r, p)) ms, b))"

lemma members_no_subject:
  "traverse (signature_member permissions True) is = Inr ms \<Longrightarrow> traverse (signature_member permissions False) is = Inr ns \<Longrightarrow>
     map (\<lambda>(a, _, r, p). (a, r, p)) ms = map (\<lambda>(a, _, r, p). (a, r, p)) ns"
proof (induction "is" arbitrary: ms ns)
  case (Cons i "is")
  from Cons.prems obtain m ms' n ns' where p: "signature_member permissions True i = Inr m" "signature_member permissions False i = Inr n"
    "traverse (signature_member permissions True) is = Inr ms'" "traverse (signature_member permissions False) is = Inr ns'"
    and e: "ms = m # ms'" "ns = n # ns'"
    by auto
  from p(1,2) have "(\<lambda>(a, _, r, p). (a, r, p)) m = (\<lambda>(a, _, r, p). (a, r, p)) n"
    by (auto simp: signature_member_def split: prod.splits)
  with Cons.IH [OF p(3,4)] e show ?case by simp
qed simp

lemma signature_no_subject:
  assumes "invocation_signature permissions True v = Inr x" and "invocation_signature permissions False v = Inr y"
  shows "no_subject x = no_subject y"
  using assms by (auto simp: invocation_signature_def no_subject_def dest: members_no_subject)

lemma signatures_no_subject:
  "traverse (invocation_signature permissions True) vs = Inr xs \<Longrightarrow>
   traverse (invocation_signature permissions False) vs = Inr ys \<Longrightarrow> map no_subject xs = map no_subject ys"
proof (induction vs arbitrary: xs ys)
  case (Cons v vs)
  from Cons.prems obtain x xs' y ys' where p: "invocation_signature permissions True v = Inr x"
    "invocation_signature permissions False v = Inr y"
    "traverse (invocation_signature permissions True) vs = Inr xs'" "traverse (invocation_signature permissions False) vs = Inr ys'"
    and e: "xs = x # xs'" "ys = y # ys'"
    by auto
  from Cons.IH [OF p(3,4)] signature_no_subject [OF p(1,2)] e show ?case by simp
qed simp

lemma check_variant_real:
  assumes "check_variant permissions d e = Inr ()" and "exp_kind e \<noteq> NORMAL"
  shows "\<exists>control. control_of d e = Inr control \<and> real_variation permissions control e"
proof -
  from assms obtain control normal variant where c: "control_of d e = Inr control"
    and n: "traverse (invocation_signature permissions True) (exp_invocations control) = Inr normal"
    and v: "traverse (invocation_signature permissions True) (exp_invocations e) = Inr variant"
    and ok: "variant_valid permissions control e normal variant = Inr True"
    by (auto simp: check_variant_def)
  have "real_variation permissions control e"
    unfolding real_variation_def no_subject_def [symmetric]
  proof (intro exI conjI, rule n, rule v, cases "exp_kind e", simp_all)
    assume "exp_kind e = OMIT"
    with ok show "subseq variant normal \<and> variant \<noteq> normal"
      by (auto simp: variant_valid_def subsequence_subseq)
  next
    assume "exp_kind e = REORDER"
    with ok show "mset variant = mset normal \<and> variant \<noteq> normal" by (auto simp: variant_valid_def)
  next
    assume "exp_kind e = REPEAT"
    with ok show "subseq normal variant \<and> set variant = set normal \<and> variant \<noteq> normal"
      by (auto simp: variant_valid_def subsequence_subseq dest: list_emb_set)
  next
    assume k: "exp_kind e = CHANGE_SUBJECT"
    then obtain ns where "variant \<noteq> normal"
      "traverse (invocation_signature permissions False) (exp_invocations control) = Inr ns"
      "traverse (invocation_signature permissions False) (exp_invocations e) = Inr ns"
      using ok by (auto simp: variant_valid_def split: if_splits)
    then show "variant \<noteq> normal \<and> map no_subject variant = map no_subject normal"
      using signatures_no_subject [OF n] signatures_no_subject [OF v] by simp
  next
    assume "exp_kind e = REVOKE"
    with ok have "revokes permissions e" by (simp add: variant_valid_def)
    then show "\<exists>v \<in> set (exp_invocations e). \<exists>i \<in> set (inv_items v). \<exists>a c.
        permissions (reference_key (item_permission i)) = Some (a, Some c) \<and>
        (\<exists>q \<in> set (pc_relationships c). rr_state q = Revoked)"
      unfolding revokes_def list_ex_iff by (fastforce split: option.splits)
  qed
  with c show ?thesis by blast
qed

subsection \<open>Occurrences\<close>

definition occurrence_ok ::
    "(str \<Rightarrow> str) \<Rightarrow> frozen_scenario \<Rightarrow> case_map \<Rightarrow> scenario_experiment \<Rightarrow> scenario_invocation \<Rightarrow> frozen_invocation \<Rightarrow>
       execution_case list \<Rightarrow> bool" where
  "occurrence_ok sha s cases e v f selected \<longleftrightarrow>
     traverse (lookup cases) (fi_cases f) = Inr selected \<and> length (fi_cases f) = length (inv_items v) \<and>
     \<not> (exp_kind e = NORMAL \<and> list_ex denies selected) \<and>
     (\<forall>x \<in> set (zip [0..<length selected] (zip (inv_items v) selected)).
        check_item sha s e v (list_ex denies selected) x = Inr ())"

lemma check_occurrences_Cons:
  "check_occurrences sha s cases frozen seen ((e, v) # rest) = Inr seen' \<longleftrightarrow>
     (\<exists>f selected. frozen (exp_id e, inv_id v) = Some f \<and> set seen \<inter> set (fi_cases f) = {} \<and>
        occurrence_ok sha s cases e v f selected \<and>
        check_occurrences sha s cases frozen (seen @ fi_cases f) rest = Inr seen')"
  by (auto simp: occurrence_ok_def Let_def)

lemma check_occurrences_member:
  assumes "check_occurrences sha s cases frozen seen steps = Inr seen'" and "(e, v) \<in> set steps"
  shows "\<exists>f selected. frozen (exp_id e, inv_id v) = Some f \<and> set seen \<inter> set (fi_cases f) = {} \<and>
    occurrence_ok sha s cases e v f selected"
  using assms
proof (induction steps arbitrary: seen)
  case (Cons step rest)
  obtain e' v' where step: "step = (e', v')" by (cases step)
  from Cons.prems(1) obtain f selected where f: "frozen (exp_id e', inv_id v') = Some f"
    "set seen \<inter> set (fi_cases f) = {}" "occurrence_ok sha s cases e' v' f selected"
    and rest: "check_occurrences sha s cases frozen (seen @ fi_cases f) rest = Inr seen'"
    unfolding step check_occurrences_Cons by blast
  show ?case
  proof (cases "(e, v) = (e', v')")
    case True
    with f show ?thesis by blast
  next
    case False
    with Cons.prems(2) step have "(e, v) \<in> set rest" by auto
    from Cons.IH [OF rest this] show ?thesis by auto
  qed
qed simp

lemma check_occurrences_disjoint:
  assumes "check_occurrences sha s cases frozen seen steps = Inr seen'"
    and "(e, v) \<in> set steps" and "(e', v') \<in> set steps"
    and "frozen (exp_id e, inv_id v) = Some f" and "frozen (exp_id e', inv_id v') = Some f'"
    and "k \<in> set (fi_cases f)" and "k \<in> set (fi_cases f')"
  shows "f = f'"
  using assms(1-3)
proof (induction steps arbitrary: seen)
  case (Cons step rest)
  obtain a b where step: "step = (a, b)" by (cases step)
  from Cons.prems(1) obtain g where g: "frozen (exp_id a, inv_id b) = Some g"
    and rest: "check_occurrences sha s cases frozen (seen @ fi_cases g) rest = Inr seen'"
    unfolding step check_occurrences_Cons by blast
  have later: "set (fi_cases g) \<inter> set (fi_cases h) = {}"
    if "(c, d) \<in> set rest" "frozen (exp_id c, inv_id d) = Some h" for c d h
    using check_occurrences_member [OF rest that(1)] that(2) by auto
  consider "(e, v) = (a, b)" "(e', v') = (a, b)" | "(e, v) = (a, b)" "(e', v') \<in> set rest"
    | "(e, v) \<in> set rest" "(e', v') = (a, b)" | "(e, v) \<in> set rest" "(e', v') \<in> set rest"
    using Cons.prems(2,3) step by auto
  then show ?case
  proof cases
    case 1 with assms(4,5) show ?thesis by simp
  next
    case 2 with g later [OF 2(2) assms(5)] assms(4,6,7) show ?thesis by auto
  next
    case 3 with g later [OF 3(1) assms(4)] assms(5,6,7) show ?thesis by auto
  next
    case 4 with Cons.IH [OF rest] show ?thesis by blast
  qed
qed simp

lemma traverse_lookup: "traverse (lookup m) ks = Inr xs \<longleftrightarrow> map m ks = map Some xs"
  by (induction ks arbitrary: xs) (auto simp: Cons_eq_map_conv)

subsection \<open>An expected absence has a normal control\<close>

abbreviation case_dict :: "execution_action list \<Rightarrow> case_map" where
  "case_dict actions \<equiv> dict_of case_id (all_cases actions)"

abbreviation frozen_dict :: "frozen_scenario \<Rightarrow> frozen_map" where
  "frozen_dict s \<equiv> dict_of frozen_key (fs_invocations s)"

lemma validated:
  assumes "validate_scenario_cases sha s actions = Inr ()"
  shows "\<exists>seen. check_occurrences sha s (case_dict actions) (frozen_dict s) [] (scenario_steps (fs_document s)) = Inr seen"
    and "distinct (map frozen_key (fs_invocations s))"
    and "frozen_key ` set (fs_invocations s) = (\<lambda>(e, v). (exp_id e, inv_id v)) ` set (scenario_steps (fs_document s))"
    and "validate_experiment_variants (fs_document s) (permission_map actions) = Inr ()"
    and "\<forall>x \<in> set (scenario_steps (fs_document s)). check_absences (fs_document s) (case_dict actions) (frozen_dict s) x = Inr ()"
    and "check_occurrences sha s (case_dict actions) (frozen_dict s) [] (scenario_steps (fs_document s)) = Inr seen \<Longrightarrow>
      set seen = set (map case_id (filter (\<lambda>c. case_occurrence c \<noteq> None)
        (map (the \<circ> case_dict actions) (dict_keys case_id (all_cases actions)))))"
  using assms unfolding validate_scenario_cases_def Let_def by (auto simp: guard_simps)

lemma scenario_steps_member:
  "(e, v) \<in> set (scenario_steps d) \<longleftrightarrow> e \<in> set (sd_experiments d) \<and> v \<in> set (exp_invocations e)"
  by (auto simp: scenario_steps_def)

lemma document_accepted:
  assumes "document_errors d = []"
  shows "distinct (map exp_id (sd_experiments d))"
    and "e \<in> set (sd_experiments d) \<Longrightarrow> exp_control e = Some k \<Longrightarrow>
      \<exists>n. dict_of exp_id (sd_experiments d) k = Some n \<and> exp_kind n = NORMAL"
proof -
  from assms have g: "\<not> has_duplicates (map exp_id (sd_experiments d))"
    "\<forall>e \<in> set (sd_experiments d). \<not> given (\<lambda>k. absent_or (\<lambda>n. exp_kind n \<noteq> NORMAL)
       (dict_of exp_id (sd_experiments d) k) \<or> k = exp_id e) (exp_control e)"
    unfolding document_errors_def Let_def after_fields_Nil by auto
  from g(1) show "distinct (map exp_id (sd_experiments d))" by (simp add: guard_simps)
  assume "e \<in> set (sd_experiments d)" "exp_control e = Some k"
  with g(2) have "\<not> absent_or (\<lambda>n. exp_kind n \<noteq> NORMAL) (dict_of exp_id (sd_experiments d) k)" by auto
  then show "\<exists>n. dict_of exp_id (sd_experiments d) k = Some n \<and> exp_kind n = NORMAL"
    by (cases "dict_of exp_id (sd_experiments d) k") auto
qed

lemma control_normal:
  assumes "document_errors d = []" and "e \<in> set (sd_experiments d)" and "control_of d e = Inr control"
  shows "control \<in> set (sd_experiments d) \<and> exp_control e = Some (exp_id control) \<and> exp_kind control = NORMAL"
proof -
  from next_item_Inr assms(3) have c: "control \<in> set (sd_experiments d)" "exp_control e = Some (exp_id control)"
    unfolding control_of_def by fastforce+
  from document_accepted(2) [OF assms(1,2) c(2)] obtain n
    where "dict_of exp_id (sd_experiments d) (exp_id control) = Some n" "exp_kind n = NORMAL" by blast
  with dict_of_distinct [OF document_accepted(1) [OF assms(1)] c(1)] c show ?thesis by simp
qed

lemma next_item_key:
  assumes "distinct (map k xs)" and "x \<in> set xs"
  shows "next_item (\<lambda>y. k y = k x) xs = Inr x"
  using assms by (induction xs) (auto simp: image_iff)

lemma found_frozen:
  assumes "validate_scenario_cases sha s actions = Inr ()" and "(e, v) \<in> set (scenario_steps (fs_document s))"
    and "frozen_dict s (exp_id e, inv_id v) = Some f" and "cid \<in> set (fi_cases f)"
  shows "find (\<lambda>i. cid \<in> set (fi_cases i)) (fs_invocations s) = Some f"
proof -
  from dict_of_Some [OF assms(3)] have f: "f \<in> set (fs_invocations s)" by simp
  with assms(4) obtain g where g: "find (\<lambda>i. cid \<in> set (fi_cases i)) (fs_invocations s) = Some g"
    by (metis find_None_iff option.exhaust)
  then have gm: "g \<in> set (fs_invocations s)" "cid \<in> set (fi_cases g)" by (auto simp: find_Some_iff)
  from gm(1) validated(3) [OF assms(1)]
  have "frozen_key g \<in> (\<lambda>(e, v). (exp_id e, inv_id v)) ` set (scenario_steps (fs_document s))" by (metis imageI)
  then obtain e' v' where step: "(e', v') \<in> set (scenario_steps (fs_document s))"
    and key: "frozen_key g = (exp_id e', inv_id v')" by auto
  from dict_of_distinct [OF validated(2) [OF assms(1)] gm(1)] key
  have "frozen_dict s (exp_id e', inv_id v') = Some g" by simp
  moreover from validated(1) [OF assms(1)] obtain seen where
    "check_occurrences sha s (case_dict actions) (frozen_dict s) [] (scenario_steps (fs_document s)) = Inr seen" by blast
  ultimately have "f = g"
    using check_occurrences_disjoint assms(2,3,4) step gm(2) by blast
  with g show ?thesis by simp
qed

lemma control_cases:
  assumes "validate_scenario_cases sha s actions = Inr ()" and "document_errors (fs_document s) = []"
    and "(e, v) \<in> set (scenario_steps (fs_document s))"
    and "frozen_dict s (exp_id e, inv_id v) = Some f" and "cid \<in> set (fi_cases f)" and "exp_control e = Some k"
  shows "scenario_control_cases s cid =
    Inr (concat (map fi_cases (filter (\<lambda>j. fi_experiment j = k) (fs_invocations s))))"
proof -
  from dict_of_Some [OF assms(4)] have "fi_experiment f = exp_id e" by (simp add: frozen_key_def)
  moreover have "next_item (\<lambda>e'. exp_id e' = exp_id e) (sd_experiments (fs_document s)) = Inr e"
    using next_item_key [OF document_accepted(1) [OF assms(2)]] assms(3) by (simp add: scenario_steps_member)
  ultimately show ?thesis
    using found_frozen [OF assms(1,3-5)] assms(6) by (simp add: scenario_control_cases_def)
qed

lemma selected_cases:
  assumes "select_cases (case_dict actions) (frozen_dict s) x i = Inr selected" and "n \<in> set selected"
  shows "n \<in> set (all_cases actions) \<and>
    case_id n \<in> set (concat (map fi_cases (filter (\<lambda>j. fi_experiment j = x) (fs_invocations s))))"
proof -
  from assms(1) obtain f where f: "frozen_dict s (x, i) = Some f" "traverse (lookup (case_dict actions)) (fi_cases f) = Inr selected"
    by (auto simp: select_cases_def)
  from traverse_set [OF f(2) assms(2)] obtain k where k: "k \<in> set (fi_cases f)" "case_dict actions k = Some n" by auto
  from dict_of_Some [OF k(2)] dict_of_Some [OF f(1)] k(1) show ?thesis by (auto simp: frozen_key_def)
qed

text \<open>In a normal experiment every case expects its effects to be present.\<close>

lemma item_checked:
  assumes "occurrence_ok sha s cases e v f selected" and "n \<in> set selected"
  shows "\<exists>i item. check_item sha s e v (list_ex denies selected) (i, item, n) = Inr ()"
proof -
  from assms(2) obtain i where i: "i < length selected" "selected ! i = n" by (auto simp: in_set_conv_nth)
  from assms(1) have len: "length selected = length (inv_items v)"
    by (auto simp: occurrence_ok_def dest: traverse_length)
  let ?zs = "zip [0..<length selected] (zip (inv_items v) selected)"
  have "?zs ! i = (i, inv_items v ! i, n)" "i < length ?zs" using i len by simp_all
  then have "(i, inv_items v ! i, n) \<in> set ?zs" by (metis nth_mem)
  with assms(1) show ?thesis by (auto simp: occurrence_ok_def)
qed

definition batch_shape :: "execution_case \<Rightarrow> bool" where
  "batch_shape c \<longleftrightarrow> (case_invocation_kind c = None \<longleftrightarrow> case_batch_effect c = None)"

lemma accepted_batch_shape: "execution_case_errors sha c = [] \<Longrightarrow> batch_shape c"
  unfolding execution_case_errors_def after_fields_Nil case_guards_def Let_def batch_shape_def by simp

lemma normal_present:
  assumes "occurrence_ok sha s cases e v f selected" and "exp_kind e = NORMAL" and "n \<in> set selected"
    and "inv_batch v \<noteq> None \<or> batch_shape n"
  shows "\<not> expects_absence n"
proof -
  from item_checked [OF assms(1,3)] obtain i item
    where item: "check_item sha s e v (list_ex denies selected) (i, item, n) = Inr ()" by blast
  from assms(1,2) have mixed: "\<not> list_ex denies selected" by (simp add: occurrence_ok_def)
  with assms(3) have "\<not> denies n" by (auto simp: list_ex_iff)
  with item mixed assms(4) show ?thesis
    by (cases "inv_batch v") (auto simp: check_item_def expects_absence_def batch_shape_def denies_def)
qed

lemma seen_occurrence:
  assumes "check_occurrences sha s cases frozen seen steps = Inr seen'" and "k \<in> set seen'" and "k \<notin> set seen"
  shows "\<exists>e v f. (e, v) \<in> set steps \<and> frozen (exp_id e, inv_id v) = Some f \<and> k \<in> set (fi_cases f)"
  using assms
proof (induction steps arbitrary: seen)
  case (Cons step rest)
  obtain e v where step: "step = (e, v)" by (cases step)
  from Cons.prems(1) obtain f where f: "frozen (exp_id e, inv_id v) = Some f"
    and rest: "check_occurrences sha s cases frozen (seen @ fi_cases f) rest = Inr seen'"
    unfolding step check_occurrences_Cons by blast
  show ?case
  proof (cases "k \<in> set (fi_cases f)")
    case True with f step show ?thesis by auto
  next
    case False
    with Cons.IH [OF rest Cons.prems(2)] Cons.prems(3) show ?thesis by auto
  qed
qed simp

lemma occurrence_located:
  assumes "validate_scenario_cases sha s actions = Inr ()" and "distinct (map case_id (all_cases actions))"
    and "c \<in> set (all_cases actions)" and "case_occurrence c \<noteq> None"
  shows "\<exists>e v f selected. (e, v) \<in> set (scenario_steps (fs_document s)) \<and>
    frozen_dict s (exp_id e, inv_id v) = Some f \<and> case_id c \<in> set (fi_cases f) \<and>
    occurrence_ok sha s (case_dict actions) e v f selected \<and> c \<in> set selected"
proof -
  from validated(1) [OF assms(1)] obtain seen where
    seen: "check_occurrences sha s (case_dict actions) (frozen_dict s) [] (scenario_steps (fs_document s)) = Inr seen" by blast
  have c: "case_dict actions (case_id c) = Some c" by (rule dict_of_distinct [OF assms(2,3)])
  have "case_id c \<in> set seen"
    unfolding validated(6) [OF assms(1) seen] using assms(3,4) c by (force simp: image_iff)
  from seen_occurrence [OF seen this] obtain e v f where ev: "(e, v) \<in> set (scenario_steps (fs_document s))"
    "frozen_dict s (exp_id e, inv_id v) = Some f" "case_id c \<in> set (fi_cases f)" by auto
  from check_occurrences_member [OF seen ev(1)] ev(2) obtain selected where
    ok: "occurrence_ok sha s (case_dict actions) e v f selected" by auto
  then have "traverse (lookup (case_dict actions)) (fi_cases f) = Inr selected" by (simp add: occurrence_ok_def)
  from traverse_member [OF this ev(3)] c have "c \<in> set selected" by auto
  with ev ok show ?thesis by blast
qed

lemma absence_in_control:
  assumes "validate_scenario_cases sha s actions = Inr ()" and "document_errors (fs_document s) = []"
    and "(e, v) \<in> set (scenario_steps (fs_document s))" and "exp_kind e \<noteq> NORMAL"
    and "select_cases (case_dict actions) (frozen_dict s) (exp_id e) (inv_id v) = Inr selected"
    and "c \<in> set selected" and "expects_absence c"
  shows "\<exists>(control :: scenario_experiment) (w :: scenario_invocation) normals n. exp_control e = Some (exp_id control) \<and>
    select_cases (case_dict actions) (frozen_dict s) (exp_id control) (inv_id w) = Inr normals \<and> n \<in> set normals \<and>
    case_signature n = case_signature c \<and> \<not> expects_absence n"
proof -
  have e: "e \<in> set (sd_experiments (fs_document s))" using assms(3) by (simp add: scenario_steps_member)
  from validated(5) [OF assms(1)] assms(3)
  have "check_absences (fs_document s) (case_dict actions) (frozen_dict s) (e, v) = Inr ()" by blast
  then obtain control where control: "control_of (fs_document s) e = Inr control"
    and rest: "if inv_batch v \<noteq> None
           then \<exists>cands. traverse (\<lambda>w. select_cases (case_dict actions) (frozen_dict s) (exp_id control) (inv_id w))
               (filter (\<lambda>w. inv_batch w = inv_batch v) (exp_invocations control)) = Inr cands \<and>
               map case_signature selected \<in> map case_signature ` set cands
           else \<exists>normals. traverse (\<lambda>w. select_cases (case_dict actions) (frozen_dict s) (exp_id control) (inv_id w))
               (exp_invocations control) = Inr normals \<and>
               list_all (\<lambda>c. expects_absence c \<longrightarrow> list_ex (\<lambda>n. case_signature n = case_signature c \<and>
                  \<not> expects_absence n \<and> ALLOW_REGRESSION \<in> set (case_roles n)) (concat normals)) selected"
    using assms(4,5) unfolding check_absences_def by (auto split: if_splits)
  note cn = control_normal [OF assms(2) e control]
  show ?thesis
  proof (cases "inv_batch v")
    case (Some b)
    with rest obtain cands cand where t: "traverse (\<lambda>w. select_cases (case_dict actions) (frozen_dict s) (exp_id control) (inv_id w))
        (filter (\<lambda>w. inv_batch w = inv_batch v) (exp_invocations control)) = Inr cands"
      and cand: "cand \<in> set cands" "map case_signature selected = map case_signature cand" by auto
    from traverse_set [OF t cand(1)] obtain w where w: "w \<in> set (exp_invocations control)" "inv_batch w = inv_batch v"
      "select_cases (case_dict actions) (frozen_dict s) (exp_id control) (inv_id w) = Inr cand" by auto
    have "case_signature c \<in> set (map case_signature cand)" using assms(6) cand(2) by (metis imageI set_map)
    then obtain n where n: "n \<in> set cand" "case_signature n = case_signature c" by auto
    have step: "(control, w) \<in> set (scenario_steps (fs_document s))" using cn w(1) by (simp add: scenario_steps_member)
    from validated(1) [OF assms(1)] obtain seen where
      "check_occurrences sha s (case_dict actions) (frozen_dict s) [] (scenario_steps (fs_document s)) = Inr seen" by blast
    from check_occurrences_member [OF this step] obtain f cand' where
      f: "frozen_dict s (exp_id control, inv_id w) = Some f" "occurrence_ok sha s (case_dict actions) control w f cand'" by auto
    with w(3) have "cand' = cand" by (auto simp: select_cases_def occurrence_ok_def)
    with f(2) n(1) cn w(2) Some have "\<not> expects_absence n"
      by (intro normal_present [of sha s "case_dict actions" control w f cand n]) simp_all
    with n w(3) cn show ?thesis
      by (intro exI [of _ control] exI [of _ w] exI [of _ cand] exI [of _ n]) simp
  next
    case None
    with rest obtain normals where t: "traverse (\<lambda>w. select_cases (case_dict actions) (frozen_dict s) (exp_id control) (inv_id w))
        (exp_invocations control) = Inr normals"
      and all: "list_all (\<lambda>c. expects_absence c \<longrightarrow> list_ex (\<lambda>n. case_signature n = case_signature c \<and>
                  \<not> expects_absence n \<and> ALLOW_REGRESSION \<in> set (case_roles n)) (concat normals)) selected" by auto
    from all assms(6,7) obtain n ns where n: "ns \<in> set normals" "n \<in> set ns" "case_signature n = case_signature c" "\<not> expects_absence n"
      unfolding list_all_iff list_ex_iff by auto
    from traverse_set [OF t n(1)] obtain w :: scenario_invocation where
      "select_cases (case_dict actions) (frozen_dict s) (exp_id control) (inv_id w) = Inr ns" by blast
    with n(2-) cn show ?thesis
      by (intro exI [of _ control] exI [of _ w] exI [of _ ns] exI [of _ n]) simp
  qed
qed

lemma absence_has_control:
  assumes "validate_scenario_cases sha s actions = Inr ()" and "document_errors (fs_document s) = []"
    and "distinct (map case_id (all_cases actions))"
    and "c \<in> set (all_cases actions)" and "batch_shape c"
    and "case_occurrence c \<noteq> None" and "expects_absence c"
  shows "\<exists>ks n. scenario_control_cases s (case_id c) = Inr ks \<and> n \<in> set (all_cases actions) \<and> case_id n \<in> set ks \<and>
    case_signature n = case_signature c \<and> \<not> expects_absence n"
proof -
  from occurrence_located [OF assms(1,3,4,6)] obtain e v f selected
    where ev: "(e, v) \<in> set (scenario_steps (fs_document s))" "frozen_dict s (exp_id e, inv_id v) = Some f"
      "case_id c \<in> set (fi_cases f)" and ok: "occurrence_ok sha s (case_dict actions) e v f selected" and c: "c \<in> set selected"
    by blast
  have sel: "select_cases (case_dict actions) (frozen_dict s) (exp_id e) (inv_id v) = Inr selected"
    using ev(2) ok by (simp add: select_cases_def occurrence_ok_def)
  have "exp_kind e \<noteq> NORMAL" using normal_present [OF ok _ c] assms(5,7) by blast
  from absence_in_control [OF assms(1,2) ev(1) this sel c assms(7)] obtain control :: scenario_experiment
    and w :: scenario_invocation and normals n where
    k: "exp_control e = Some (exp_id control)"
    and n: "select_cases (case_dict actions) (frozen_dict s) (exp_id control) (inv_id w) = Inr normals" "n \<in> set normals"
    and same: "case_signature n = case_signature c" "\<not> expects_absence n" by blast
  from control_cases [OF assms(1,2) ev k] selected_cases [OF n] same show ?thesis by blast
qed

end
