(* ===== verification/ScenarioSample.thy ===== *)
theory ScenarioSample
  imports ScenarioFacts
begin

section \<open>A sample scenario\<close>

text \<open>
  Two experiments on one document: its owner edits it, and another subject tries the same step. The
  reader accepts it; the witnesses of the scenario properties use it. The digest stays symbolic.
\<close>

definition digits :: "str \<Rightarrow> str" where
  "digits d = replicate 32 (hd d)"

definition sample_permission :: "str \<Rightarrow> permission_expectation \<Rightarrow> frozen_permission" where
  "sample_permission d x = \<lparr>ref_intent_id = ''pin_'' @ digits d, ref_revision = 1, ref_intent_hash = digits d @ digits d,
     fz_expectation = x, fz_relation = Other_Role, fz_subject_actor_id = ''bar_'' @ digits d, fz_subject_actor_revision = 1,
     fz_owner_actor_id = ''bar_'' @ digits ''0'', fz_owner_actor_revision = 1, fz_effect_ids = [''bef_'' @ digits ''1''],
     fz_conditions = None\<rparr>"

definition sample_item :: "str \<Rightarrow> scenario_item" where
  "sample_item d = \<lparr>item_id = ''edit'',
     item_permission = \<lparr>ref_intent_id = ''pin_'' @ digits d, ref_revision = 1, ref_intent_hash = digits d @ digits d\<rparr>,
     item_subject = Some (''tid_'' @ digits d), item_resource_id = ''doc-1'', item_resource_from = None\<rparr>"

definition sample_step :: "str \<Rightarrow> scenario_invocation" where
  "sample_step d = \<lparr>inv_id = ''step'', inv_label = ''edit the document'', inv_items = [sample_item d],
     inv_batch = None, inv_depends_on = []\<rparr>"

definition sample_normal :: scenario_experiment where
  "sample_normal = \<lparr>exp_id = ''normal'', exp_label = ''owner edits'', exp_kind = NORMAL, exp_control = None,
     exp_invocations = [sample_step ''1'']\<rparr>"

definition sample_challenge :: scenario_experiment where
  "sample_challenge = \<lparr>exp_id = ''other'', exp_label = ''another edits'', exp_kind = CHANGE_SUBJECT,
     exp_control = Some ''normal'', exp_invocations = [sample_step ''2'']\<rparr>"

definition sample_document :: scenario_document where
  "sample_document = \<lparr>sd_id = ''bsc_'' @ digits ''0'', sd_project_id = ''documents'', sd_revision = 1,
     sd_label = ''edit'', sd_description = [], sd_experiments = [sample_normal, sample_challenge]\<rparr>"

definition sample_frozen :: "str \<Rightarrow> str \<Rightarrow> frozen_invocation" where
  "sample_frozen d e = \<lparr>fi_experiment = e, fi_invocation = ''step'', fi_cases = [''case_'' @ digits d]\<rparr>"

definition sample_scenario :: frozen_scenario where
  "sample_scenario = \<lparr>fs_document = sample_document,
     fs_fingerprint = content_hash sha256_hex ''BusinessScenario'' (document_json sample_document),
     fs_invocations = [sample_frozen ''1'' ''normal'', sample_frozen ''2'' ''other'']\<rparr>"

definition sample_draft :: effect_proof where
  "sample_draft = \<lparr>proof_effect_id = ''bef_'' @ digits ''1'', proof_level = VERDICT_REQUIRED,
     proof_rule = HTTP_RESOURCE_PRESENCE, proof_binding_fingerprint = digits ''8'' @ digits ''8'',
     proof_resource_id = ''doc-1'',
     proof_reference = Recorded_Observation \<lparr>rec_recording_id = ''rec_'' @ digits ''0'', rec_draft_revision = 1,
       rec_draft_sha256 = digits ''9'' @ digits ''9'', rec_step_id = ''read'', rec_template_fingerprint = digits ''9'' @ digits ''9''\<rparr>,
     proof_fingerprint = []\<rparr>"

definition sample_proof :: effect_proof where
  "sample_proof = sample_draft\<lparr>proof_fingerprint :=
     content_hash sha256_hex ''EffectProofRequirement'' (JObj (proof_fields sample_draft))\<rparr>"

definition bare_case :: "str \<Rightarrow> case_role \<Rightarrow> permission_expectation \<Rightarrow> execution_case" where
  "bare_case d r x = \<lparr>case_id = ''case_'' @ digits d, case_roles = [r], case_permission = sample_permission d x,
     case_subject_identity = Some (''tid_'' @ digits d), case_subject_actor_id = ''bar_'' @ digits d,
     case_subject_actor_revision = 1, case_subject_fingerprint = Some (digits d @ digits d),
     case_owner_identity = ''tid_'' @ digits ''0'', case_owner_actor_id = ''bar_'' @ digits ''0'',
     case_owner_actor_revision = 1, case_owner_fingerprint = digits ''0'' @ digits ''0'', case_resource_id = ''doc-1'',
     case_resource_fingerprint = digits ''3'' @ digits ''3'',
     case_execution = \<lparr>flow_id = ''edit'', flow_sha256 = digits ''4'' @ digits ''4'',
       execution_binding_fingerprint = digits ''5'' @ digits ''5''\<rparr>,
     case_effect_ids = [''bef_'' @ digits ''1''], case_proofs = [], case_recovery = None, case_source_fingerprint = None,
     case_config_fingerprint = digits ''6'' @ digits ''6'',
     case_occurrence = None,
     case_invocation_kind = None, case_batch_effect = None\<rparr>"

definition sample_case :: "str \<Rightarrow> str \<Rightarrow> case_role \<Rightarrow> permission_expectation \<Rightarrow> execution_case" where
  "sample_case d e r x = (bare_case d r x)\<lparr>case_proofs := [sample_proof],
     case_occurrence := Some (occurrence_of sha256_hex (fs_fingerprint sample_scenario) e ''step'' 0)\<rparr>"

definition sample_action :: execution_action where
  "sample_action = \<lparr>ex_action_id = ''bac_'' @ digits ''0'', ex_action_revision = 1,
     ex_action_fingerprint = digits ''7'' @ digits ''7'',
     ex_cases = [sample_case ''1'' ''normal'' ALLOW_REGRESSION ALLOW, sample_case ''2'' ''other'' DENY_CHALLENGE DENY],
     ex_twins = []\<rparr>"

lemma sample_document_ok: "document_errors sample_document = []"
  by code_simp

lemmas scenario_sample_defs = digits_def sample_permission_def sample_item_def sample_step_def sample_normal_def
  sample_challenge_def sample_document_def sample_case_def bare_case_def sample_action_def

lemma sample_steps:
  "scenario_steps sample_document = [(sample_normal, sample_step ''1''), (sample_challenge, sample_step ''2'')]"
  by (simp add: scenario_steps_def sample_document_def sample_normal_def sample_challenge_def)

lemma sample_cases:
  "dict_of case_id (all_cases [sample_action]) (''case_'' @ digits ''1'') = Some (sample_case ''1'' ''normal'' ALLOW_REGRESSION ALLOW)"
  "dict_of case_id (all_cases [sample_action]) (''case_'' @ digits ''2'') = Some (sample_case ''2'' ''other'' DENY_CHALLENGE DENY)"
  by (simp_all add: dict_of_def all_cases_def sample_action_def sample_case_def bare_case_def digits_def)

lemma sample_frozen_dict:
  "frozen_dict sample_scenario (''normal'', ''step'') = Some (sample_frozen ''1'' ''normal'')"
  "frozen_dict sample_scenario (''other'', ''step'') = Some (sample_frozen ''2'' ''other'')"
  by (simp_all add: dict_of_def sample_scenario_def frozen_key_def sample_frozen_def)

lemma sample_occurrence_ok:
  "occurrence_ok sha256_hex sample_scenario (case_dict [sample_action]) sample_normal (sample_step ''1'')
     (sample_frozen ''1'' ''normal'') [sample_case ''1'' ''normal'' ALLOW_REGRESSION ALLOW]"
  "occurrence_ok sha256_hex sample_scenario (case_dict [sample_action]) sample_challenge (sample_step ''2'')
     (sample_frozen ''2'' ''other'') [sample_case ''2'' ''other'' DENY_CHALLENGE DENY]"
  unfolding occurrence_ok_def
  by (simp_all add: sample_frozen_def sample_cases del: append_Cons)
    (simp_all add: sample_step_def sample_item_def sample_normal_def sample_challenge_def sample_case_def bare_case_def
      sample_permission_def check_item_def denies_def reference_key_def)

lemma sample_occurrences:
  "check_occurrences sha256_hex sample_scenario (case_dict [sample_action]) (frozen_dict sample_scenario) []
     [(sample_normal, sample_step ''1''), (sample_challenge, sample_step ''2'')] =
   Inr [''case_'' @ digits ''1'', ''case_'' @ digits ''2'']"
proof -
  have keys: "exp_id sample_normal = ''normal''" "exp_id sample_challenge = ''other''" "inv_id (sample_step d) = ''step''" for d
    by (simp_all add: sample_normal_def sample_challenge_def sample_step_def)
  have "set [''case_'' @ digits ''1''] \<inter> set (fi_cases (sample_frozen ''2'' ''other'')) = {}"
    by (simp add: sample_frozen_def digits_def)
  then show ?thesis
    unfolding check_occurrences_Cons keys
    using sample_occurrence_ok sample_frozen_dict
    by (intro exI [of _ "sample_frozen ''1'' ''normal''"] exI [of _ "sample_frozen ''2'' ''other''"] exI conjI)
      (auto simp: sample_frozen_def)
qed

lemma sample_permissions:
  "permission_map [sample_action] (''pin_'' @ digits ''1'', 1, digits ''1'' @ digits ''1'') = Some (''bac_'' @ digits ''0'', None)"
  "permission_map [sample_action] (''pin_'' @ digits ''2'', 1, digits ''2'' @ digits ''2'') = Some (''bac_'' @ digits ''0'', None)"
  by (simp_all add: permission_map_def sample_action_def sample_case_def bare_case_def sample_permission_def reference_key_def digits_def)

lemma sample_signatures:
  "invocation_signature (permission_map [sample_action]) w (sample_step ''1'') =
     Inr ([(''bac_'' @ digits ''0'', if w then Some (''tid_'' @ digits ''1'') else None, ''doc-1'', None)], None)"
  "invocation_signature (permission_map [sample_action]) w (sample_step ''2'') =
     Inr ([(''bac_'' @ digits ''0'', if w then Some (''tid_'' @ digits ''2'') else None, ''doc-1'', None)], None)"
  by (simp_all add: invocation_signature_def signature_member_def sample_step_def sample_item_def reference_key_def
    lookup_def sample_permissions del: append_Cons)

lemma sample_control: "control_of sample_document sample_challenge = Inr sample_normal"
  by (simp add: control_of_def sample_document_def sample_challenge_def sample_normal_def)

lemma sample_variants: "validate_experiment_variants sample_document (permission_map [sample_action]) = Inr ()"
proof -
  have "check_variant (permission_map [sample_action]) sample_document sample_challenge = Inr ()"
  proof -
    have i: "exp_invocations sample_normal = [sample_step ''1'']" "exp_invocations sample_challenge = [sample_step ''2'']"
      "exp_kind sample_challenge = CHANGE_SUBJECT"
      by (simp_all add: sample_normal_def sample_challenge_def)
    have "digits ''1'' \<noteq> digits ''2''" by (simp add: digits_def)
    then show ?thesis
      by (simp add: check_variant_def sample_control i sample_signatures variant_valid_def del: append_Cons)
  qed
  moreover have "check_variant (permission_map [sample_action]) sample_document sample_normal = Inr ()"
    by (simp add: check_variant_def sample_normal_def)
  moreover have "sd_experiments sample_document = [sample_normal, sample_challenge]" by (simp add: sample_document_def)
  ultimately show ?thesis by (simp add: validate_experiment_variants_def)
qed

lemma sample_absences:
  "check_absences sample_document (case_dict [sample_action]) (frozen_dict sample_scenario) (sample_challenge, sample_step ''2'') = Inr ()"
  "check_absences sample_document (case_dict [sample_action]) (frozen_dict sample_scenario) (sample_normal, sample_step ''1'') = Inr ()"
proof -
  have k: "exp_id sample_normal = ''normal''" "exp_id sample_challenge = ''other''" "inv_id (sample_step d) = ''step''"
    "inv_batch (sample_step d) = None" "exp_invocations sample_normal = [sample_step ''1'']" "exp_kind sample_challenge = CHANGE_SUBJECT" for d
    by (simp_all add: sample_normal_def sample_challenge_def sample_step_def)
  have "case_signature (sample_case ''1'' ''normal'' ALLOW_REGRESSION ALLOW) = case_signature (sample_case ''2'' ''other'' DENY_CHALLENGE DENY)"
    "\<not> expects_absence (sample_case ''1'' ''normal'' ALLOW_REGRESSION ALLOW)"
    "ALLOW_REGRESSION \<in> set (case_roles (sample_case ''1'' ''normal'' ALLOW_REGRESSION ALLOW))"
    by (simp_all add: case_signature_def expects_absence_def sample_case_def bare_case_def sample_permission_def)
  then show "check_absences sample_document (case_dict [sample_action]) (frozen_dict sample_scenario) (sample_challenge, sample_step ''2'') = Inr ()"
    using sample_occurrence_ok
    by (simp add: check_absences_def k select_cases_def lookup_def sample_frozen_dict sample_control occurrence_ok_def del: append_Cons)
  show "check_absences sample_document (case_dict [sample_action]) (frozen_dict sample_scenario) (sample_normal, sample_step ''1'') = Inr ()"
    by (simp add: check_absences_def sample_normal_def)
qed

lemma sample_scenario_ok: "validate_scenario_cases sha256_hex sample_scenario [sample_action] = Inr ()"
proof -
  have d: "fs_document sample_scenario = sample_document"
    "fs_fingerprint sample_scenario = content_hash sha256_hex ''BusinessScenario'' (document_json sample_document)"
    by (simp_all add: sample_scenario_def)
  have keys: "frozen_key ` set (fs_invocations sample_scenario) =
      (\<lambda>(e, v). (exp_id e, inv_id v)) ` set (scenario_steps (fs_document sample_scenario))"
    "\<not> has_duplicates (map frozen_key (fs_invocations sample_scenario))"
    unfolding d sample_steps
    by (auto simp: sample_scenario_def frozen_key_def sample_frozen_def sample_normal_def sample_challenge_def sample_step_def has_duplicates_def)
  have "dict_keys case_id (all_cases [sample_action]) = [''case_'' @ digits ''1'', ''case_'' @ digits ''2'']"
    by (simp add: dict_keys_def uniq_def all_cases_def sample_action_def sample_case_def bare_case_def digits_def)
  then have "map (the \<circ> case_dict [sample_action]) (dict_keys case_id (all_cases [sample_action])) =
      [sample_case ''1'' ''normal'' ALLOW_REGRESSION ALLOW, sample_case ''2'' ''other'' DENY_CHALLENGE DENY]"
    by (simp add: sample_cases del: append_Cons)
  then have ids: "map case_id (filter (\<lambda>c. case_occurrence c \<noteq> None)
      (map (the \<circ> case_dict [sample_action]) (dict_keys case_id (all_cases [sample_action])))) =
      [''case_'' @ digits ''1'', ''case_'' @ digits ''2'']"
    by (simp add: sample_case_def bare_case_def)
  show ?thesis
    unfolding validate_scenario_cases_def Let_def keys ids
    using keys(2) sample_occurrences sample_variants sample_absences
    by (simp add: d sample_steps del: append_Cons check_occurrences.simps)
qed

end
