(* ===== verification/ScenarioProperties.thy ===== *)
theory ScenarioProperties
  imports ScenarioSample
begin

section \<open>Properties of business scenarios\<close>

text \<open>
  An accepted scenario proves absences only beside a normal experiment, its challenges are real
  variations, and the one way its reader fails outside its declared errors.
\<close>

text \<open>C18: in a scenario the reader accepts, every case that expects its effects to be absent has, among
  the cases \<open>scenario_control_cases\<close> returns for it, a normal case of the same flow, resource and
  effects that expects them to be present; so an absence is never accepted without an experiment that
  shows the effect can happen.\<close>

theorem scenario_absence_has_control:
  assumes "validate_scenario_cases sha s actions = Inr ()" and "document_errors (fs_document s) = []"
    and "distinct (map case_id (all_cases actions))"
    and "c \<in> set (all_cases actions)" and "batch_shape c"
    and "case_occurrence c \<noteq> None" and "expects_absence c"
  shows "\<exists>ks n. scenario_control_cases s (case_id c) = Inr ks \<and> n \<in> set (all_cases actions) \<and> case_id n \<in> set ks \<and>
    case_signature n = case_signature c \<and> \<not> expects_absence n"
  by (rule absence_has_control [OF assms])

theorem scenario_absence_has_control_witness:
  "\<exists>ks n. scenario_control_cases sample_scenario (''case_'' @ digits ''2'') = Inr ks \<and>
     n \<in> set (all_cases [sample_action]) \<and> case_id n \<in> set ks \<and> \<not> expects_absence n"
proof -
  let ?c = "sample_case ''2'' ''other'' DENY_CHALLENGE DENY"
  have c: "?c \<in> set (all_cases [sample_action])" "batch_shape ?c" "case_occurrence ?c \<noteq> None" "expects_absence ?c"
    "distinct (map case_id (all_cases [sample_action]))" "case_id ?c = ''case_'' @ digits ''2''"
    by (simp_all add: all_cases_def sample_action_def sample_case_def bare_case_def sample_permission_def batch_shape_def
      expects_absence_def digits_def)
  have "document_errors (fs_document sample_scenario) = []" by (simp add: sample_scenario_def sample_document_ok)
  from scenario_absence_has_control [OF sample_scenario_ok this c(5,1-4)] c(6) show ?thesis by auto
qed

text \<open>Every challenge experiment of an accepted scenario really varies its normal experiment in the
  way it claims: a proper subsequence, a different order of the same steps, a strict repetition of
  them, the same steps under another subject, or a permission that requires a revoked grant.\<close>

theorem scenario_variants_real:
  assumes "validate_scenario_cases sha s actions = Inr ()" and "e \<in> set (sd_experiments (fs_document s))"
    and "exp_kind e \<noteq> NORMAL"
  shows "\<exists>control. control_of (fs_document s) e = Inr control \<and> real_variation (permission_map actions) control e"
proof (rule check_variant_real [OF _ assms(3)])
  show "check_variant (permission_map actions) (fs_document s) e = Inr ()"
    using validated(4) [OF assms(1)] assms(2) by (simp add: validate_experiment_variants_def)
qed

theorem scenario_variants_real_witness:
  "\<exists>control. control_of sample_document sample_challenge = Inr control \<and>
     real_variation (permission_map [sample_action]) control sample_challenge"
proof -
  have "sample_challenge \<in> set (sd_experiments (fs_document sample_scenario))" "exp_kind sample_challenge \<noteq> NORMAL"
    by (simp_all add: sample_scenario_def sample_document_def sample_challenge_def)
  from scenario_variants_real [OF sample_scenario_ok this] show ?thesis by (simp add: sample_scenario_def)
qed

lemma traverse_missing: "k \<in> set ks \<Longrightarrow> m k = None \<Longrightarrow> traverse (lookup m) ks = Inl [''KeyError'']"
  by (induction ks) (auto simp: lookup_def split: option.split)

text \<open>A scenario whose first step names a case that no action holds does not raise one of the reader's
  \<open>ValueError\<close>s: the subscript fails with a \<open>KeyError\<close>, although the fingerprint, the coverage and the
  number of items are right.\<close>

theorem unknown_case_key_error:
  assumes "fs_fingerprint s = content_hash sha ''BusinessScenario'' (document_json (fs_document s))"
    and "frozen_key ` set (fs_invocations s) = (\<lambda>(e, v). (exp_id e, inv_id v)) ` set (scenario_steps (fs_document s))"
    and "distinct (map frozen_key (fs_invocations s))"
    and "scenario_steps (fs_document s) = (e, v) # rest" and "frozen_dict s (exp_id e, inv_id v) = Some f"
    and "length (fi_cases f) = length (inv_items v)" and "k \<in> set (fi_cases f)"
    and "k \<notin> case_id ` set (all_cases actions)"
  shows "validate_scenario_cases sha s actions = Inl [''KeyError'']"
proof -
  have "case_dict actions k = None" using assms(8) by (simp add: dict_simps)
  from traverse_missing [OF assms(7), of "case_dict actions"] this
  have "traverse (lookup (case_dict actions)) (fi_cases f) = Inl [''KeyError'']" by simp
  moreover have "lookup (frozen_dict s) (exp_id e, inv_id v) = Inr f" using assms(5) by simp
  ultimately have "check_occurrences sha s (case_dict actions) (frozen_dict s) [] (scenario_steps (fs_document s)) = Inl [''KeyError'']"
    using assms(6) by (simp add: assms(4) require_def lookup_def)
  then show ?thesis
    using assms(1-3) by (simp add: validate_scenario_cases_def Let_def require_def guard_simps)
qed

theorem unknown_case_key_error_witness: "validate_scenario_cases sha256_hex sample_scenario [] = Inl [''KeyError'']"
proof (rule unknown_case_key_error)
  show "scenario_steps (fs_document sample_scenario) = [(sample_normal, sample_step ''1''), (sample_challenge, sample_step ''2'')]"
    by (simp add: sample_scenario_def sample_steps)
  then show "frozen_key ` set (fs_invocations sample_scenario) =
      (\<lambda>(e, v). (exp_id e, inv_id v)) ` set (scenario_steps (fs_document sample_scenario))"
    by (auto simp: sample_scenario_def frozen_key_def sample_frozen_def sample_normal_def sample_challenge_def sample_step_def)
  show "frozen_dict sample_scenario (exp_id sample_normal, inv_id (sample_step ''1'')) = Some (sample_frozen ''1'' ''normal'')"
    by (simp add: sample_frozen_dict sample_normal_def sample_step_def)
  show "''case_'' @ digits ''1'' \<in> set (fi_cases (sample_frozen ''1'' ''normal''))"
    "length (fi_cases (sample_frozen ''1'' ''normal'')) = length (inv_items (sample_step ''1''))"
    by (simp_all add: sample_frozen_def sample_step_def)
  show "distinct (map frozen_key (fs_invocations sample_scenario))"
    "fs_fingerprint sample_scenario = content_hash sha256_hex ''BusinessScenario'' (document_json (fs_document sample_scenario))"
    by (simp_all add: sample_scenario_def frozen_key_def sample_frozen_def)
  show "''case_'' @ digits ''1'' \<notin> case_id ` set (all_cases [])" by (simp add: all_cases_def)
qed

end
