(* ===== verification/ExecutionRequest.thy ===== *)
theory ExecutionRequest
  imports ScenarioCheck
begin

section \<open>The execution request\<close>

text \<open>
  The rest of \<^verbatim>\<open>product/protocols/checks/execution_request.py\<close>: the contexts of a request, its
  requirement scope and selection, \<^verbatim>\<open>ExecutionRequest\<close> with its two validators, and the canonical
  bytes. The environment is carried as its JSON dump: its own class checks an address and is not
  modelled. Reading bytes back is \<^verbatim>\<open>json.loads\<close> and is not modelled either.
\<close>

subsection \<open>Contexts, requirements, selection\<close>

record change_context =
  cc_change_id :: str
  cc_impact_fingerprint :: str
  cc_intent_ids :: "str list"

definition change_errors :: "change_context \<Rightarrow> str list" where
  "change_errors c = after_fields
     (logical_field ''change_id'' (cc_change_id c) @ hash_field ''impact_fingerprint'' (cc_impact_fingerprint c)
      @ size_field ''required_intent_ids'' 1 4096 (cc_intent_ids c)
      @ each_field (tag_field ''required_intent_ids'' ''pin_'' 32) (cc_intent_ids c))
     [(\<not> ordered_set (cc_intent_ids c), ''change intent set'')]"

definition change_json :: "change_context \<Rightarrow> json" where
  "change_json c = JObj [(''change_id'', JStr (cc_change_id c)), (''impact_fingerprint'', JStr (cc_impact_fingerprint c)),
     (''required_intent_ids'', json_strings (cc_intent_ids c))]"

record repair_context =
  rp_reference :: str
  rp_source_run :: str
  rp_policy_epoch :: int
  rp_intents :: "permission_reference list"
  rp_permission :: permission_reference
  rp_resource_id :: str
  rp_owner_identity :: str
  rp_owner_fingerprint :: str
  rp_effect_ids :: "str list"
  rp_standards :: "str list"
  rp_regressions :: "str list"

definition references_field :: "str \<Rightarrow> nat \<Rightarrow> nat \<Rightarrow> permission_reference list \<Rightarrow> str list" where
  "references_field field lo hi rs = size_field field lo hi rs @ each_field reference_errors rs"

definition repair_errors :: "repair_context \<Rightarrow> str list" where
  "repair_errors r = after_fields
     (hash_field ''repair_reference'' (rp_reference r) @ logical_field ''source_run_id'' (rp_source_run r)
      @ least_field ''original_policy_epoch'' 0 (rp_policy_epoch r)
      @ references_field ''original_intents'' 1 4096 (rp_intents r) @ reference_errors (rp_permission r)
      @ size_field ''resource_id'' 1 256 (rp_resource_id r)
      @ tag_field ''resource_owner_test_identity_id'' ''tid_'' 32 (rp_owner_identity r)
      @ hash_field ''owner_identity_fingerprint'' (rp_owner_fingerprint r)
      @ size_field ''must_disappear_effect_ids'' 1 16 (rp_effect_ids r)
      @ each_field (tag_field ''must_disappear_effect_ids'' ''bef_'' 32) (rp_effect_ids r)
      @ size_field ''original_evidence_standard_fingerprints'' 1 48 (rp_standards r)
      @ each_field (hash_field ''original_evidence_standard_fingerprints'') (rp_standards r)
      @ size_field ''allow_regression_case_fingerprints'' 0 4096 (rp_regressions r)
      @ each_field (hash_field ''allow_regression_case_fingerprints'') (rp_regressions r))
     [resource_guard (rp_resource_id r),
      (\<not> ordered_set (rp_effect_ids r), ''repair reference set''),
      (\<not> ordered_set (rp_standards r), ''repair reference set''),
      (\<not> ordered_set (rp_regressions r), ''repair reference set''),
      (\<not> ordered_set (map reference_key (rp_intents r)), ''repair intent set'')]"

definition repair_json :: "repair_context \<Rightarrow> json" where
  "repair_json r = JObj
     [(''repair_reference'', JStr (rp_reference r)), (''source_run_id'', JStr (rp_source_run r)),
      (''original_policy_epoch'', JInt (rp_policy_epoch r)),
      (''original_intents'', JArr (map (JObj \<circ> reference_fields) (rp_intents r))),
      (''selected_allow_permission'', JObj (reference_fields (rp_permission r))),
      (''resource_id'', JStr (rp_resource_id r)), (''resource_owner_test_identity_id'', JStr (rp_owner_identity r)),
      (''owner_identity_fingerprint'', JStr (rp_owner_fingerprint r)),
      (''must_disappear_effect_ids'', json_strings (rp_effect_ids r)),
      (''original_evidence_standard_fingerprints'', json_strings (rp_standards r)),
      (''allow_regression_case_fingerprints'', json_strings (rp_regressions r))]"

record recheck_context =
  rk_environment_fingerprint :: str
  rk_statement :: str

definition recheck_errors :: "recheck_context \<Rightarrow> str list" where
  "recheck_errors r = hash_field ''source_environment_fingerprint'' (rk_environment_fingerprint r)
     @ size_field ''deployment_statement'' 1 256 (rk_statement r)"

definition recheck_json :: "recheck_context \<Rightarrow> json" where
  "recheck_json r = JObj [(''source_environment_fingerprint'', JStr (rk_environment_fingerprint r)),
     (''deployment_statement'', JStr (rk_statement r))]"

datatype disposition = IN_SCOPE | PREPARATION | OUT_OF_SCOPE

datatype time_scope = CHECK_WINDOW | HISTORY | NOT_APPLICABLE

fun disposition_value :: "disposition \<Rightarrow> str" where
  "disposition_value IN_SCOPE = ''IN_SCOPE''"
| "disposition_value PREPARATION = ''PREPARATION''"
| "disposition_value OUT_OF_SCOPE = ''OUT_OF_SCOPE''"

fun time_scope_value :: "time_scope \<Rightarrow> str" where
  "time_scope_value CHECK_WINDOW = ''CHECK_WINDOW''"
| "time_scope_value HISTORY = ''HISTORY''"
| "time_scope_value NOT_APPLICABLE = ''NOT_APPLICABLE''"

record frozen_requirement =
  fq_id :: str
  fq_text :: str
  fq_disposition :: disposition
  fq_time_scope :: time_scope
  fq_permissions :: "permission_reference list"

record requirement_scope =
  sc_candidate_id :: str
  sc_revision :: int
  sc_requirements :: "frozen_requirement list"

definition scope_errors :: "requirement_scope \<Rightarrow> str list" where
  "scope_errors s = tag_field ''candidate_id'' ''rcd_'' 32 (sc_candidate_id s) @ least_field ''revision'' 1 (sc_revision s)
     @ size_field ''requirements'' 1 100 (sc_requirements s)
     @ each_field (\<lambda>q. tag_field ''requirement_id'' ''req_'' 16 (fq_id q) @ size_field ''requirement'' 1 1024 (fq_text q)
         @ references_field ''permissions'' 0 200 (fq_permissions q)) (sc_requirements s)"

definition scope_json :: "requirement_scope \<Rightarrow> json" where
  "scope_json s = JObj [(''candidate_id'', JStr (sc_candidate_id s)), (''revision'', JInt (sc_revision s)),
     (''requirements'', JArr (map (\<lambda>q. JObj [(''requirement_id'', JStr (fq_id q)), (''requirement'', JStr (fq_text q)),
        (''disposition'', JStr (disposition_value (fq_disposition q))), (''time_scope'', JStr (time_scope_value (fq_time_scope q))),
        (''permissions'', JArr (map (JObj \<circ> reference_fields) (fq_permissions q)))]) (sc_requirements s)))]"

record check_selection =
  sel_selected :: "permission_reference list"
  sel_controls :: "permission_reference list"
  sel_omitted :: "permission_reference list"
  sel_uncovered :: "str list"
  sel_pending :: "str list"

definition selection_errors :: "check_selection \<Rightarrow> str list" where
  "selection_errors s =
     (let a = map reference_key (sel_selected s); b = map reference_key (sel_controls s); c = map reference_key (sel_omitted s)
      in after_fields
       (references_field ''selected'' 1 4096 (sel_selected s) @ references_field ''added_controls'' 0 4096 (sel_controls s)
        @ references_field ''omitted'' 0 4096 (sel_omitted s)
        @ size_field ''uncovered_requirements'' 0 20000 (sel_uncovered s)
        @ size_field ''pending_review_ids'' 0 20000 (sel_pending s))
       [(\<not> ordered_set a, ''selection references must be sorted, distinct and disjoint''),
        (\<not> ordered_set b \<or> set a \<inter> set b \<noteq> {}, ''selection references must be sorted, distinct and disjoint''),
        (\<not> ordered_set c \<or> (set a \<union> set b) \<inter> set c \<noteq> {}, ''selection references must be sorted, distinct and disjoint''),
        (\<not> ordered_set (sel_uncovered s), ''selection omissions must be sorted and unique''),
        (\<not> ordered_set (sel_pending s), ''selection omissions must be sorted and unique'')])"

definition selection_json :: "check_selection \<Rightarrow> json" where
  "selection_json s = JObj [(''selected'', JArr (map (JObj \<circ> reference_fields) (sel_selected s))),
     (''added_controls'', JArr (map (JObj \<circ> reference_fields) (sel_controls s))),
     (''omitted'', JArr (map (JObj \<circ> reference_fields) (sel_omitted s))),
     (''uncovered_requirements'', json_strings (sel_uncovered s)), (''pending_review_ids'', json_strings (sel_pending s))]"

subsection \<open>The request\<close>

record execution_request =
  rq_version :: str
  rq_environment :: "json option"
  rq_scope :: "requirement_scope list"
  rq_selection :: "check_selection option"
  rq_project_id :: str
  rq_source_fingerprint :: "str option"
  rq_policy_epoch :: int
  rq_engine_version :: str
  rq_plan_fingerprint :: str
  rq_actions :: "execution_action list"
  rq_config_fingerprint :: str
  rq_budget_fingerprint :: str
  rq_change :: "change_context option"
  rq_repair :: "repair_context option"
  rq_recheck :: "recheck_context option"
  rq_scenario :: "frozen_scenario option"

definition engine_text :: "str \<Rightarrow> bool" where
  "engine_text = headed (\<lambda>c. is_letter c \<or> is_digit c \<or> c \<in> set ''_.-'') (\<lambda>c. is_letter c \<or> is_digit c \<or> c \<in> set ''_.-'') 63"

definition request_fields_errors :: "(str \<Rightarrow> str) \<Rightarrow> execution_request \<Rightarrow> str list" where
  "request_fields_errors sha r =
     field_error [(rq_version r \<notin> {''1'', ''2''}, ''schema_version: literal_error'')]
     @ size_field ''requirement_scope'' 0 200 (rq_scope r) @ each_field scope_errors (rq_scope r)
     @ optional_field selection_errors (rq_selection r) @ logical_field ''project_id'' (rq_project_id r)
     @ optional_field (hash_field ''source_fingerprint'') (rq_source_fingerprint r)
     @ least_field ''policy_epoch'' 0 (rq_policy_epoch r)
     @ field_error [pattern_guard ''engine_version'' engine_text (rq_engine_version r)]
     @ hash_field ''plan_fingerprint'' (rq_plan_fingerprint r)
     @ size_field ''actions'' 1 512 (rq_actions r) @ each_field (execution_action_errors sha) (rq_actions r)
     @ hash_field ''config_fingerprint'' (rq_config_fingerprint r) @ hash_field ''budget_fingerprint'' (rq_budget_fingerprint r)
     @ optional_field change_errors (rq_change r) @ optional_field repair_errors (rq_repair r)
     @ optional_field recheck_errors (rq_recheck r) @ optional_field frozen_scenario_errors (rq_scenario r)"

definition identity_facts :: "execution_case \<Rightarrow> (str \<times> (str \<times> int \<times> str option)) list" where
  "identity_facts c =
     (case case_subject_identity c of None \<Rightarrow> []
      | Some i \<Rightarrow> [(i, (case_subject_actor_id c, case_subject_actor_revision c, case_subject_fingerprint c))])
     @ [(case_owner_identity c, (case_owner_actor_id c, case_owner_actor_revision c, Some (case_owner_fingerprint c)))]"

fun remember :: "('k \<rightharpoonup> 'v) \<Rightarrow> ('k \<times> 'v) list \<Rightarrow> ('k \<rightharpoonup> 'v)" where
  \<comment> \<open>\<open>setdefault\<close>: a key keeps its first value\<close>
  "remember m [] = m"
| "remember m ((k, v) # kvs) = remember (case m k of None \<Rightarrow> m(k \<mapsto> v) | Some _ \<Rightarrow> m) kvs"

fun case_source_guards ::
    "str option \<Rightarrow> str \<Rightarrow> (str \<rightharpoonup> str \<times> int \<times> str option) \<Rightarrow> execution_case list \<Rightarrow> guard list" where
  "case_source_guards source config seen [] = []"
| "case_source_guards source config seen (c # cs) =
     ((case_source_fingerprint c, case_config_fingerprint c) \<noteq> (source, config), ''case source configuration'')
     # (conflict_scan seen (identity_facts c), ''cross case identity facts'')
     # case_source_guards source config (remember seen (identity_facts c)) cs"

definition plan_document :: "execution_request \<Rightarrow> json" where
  "plan_document r = JObj
     ([(''project_id'', JStr (rq_project_id r)), (''source_fingerprint'', json_option JStr (rq_source_fingerprint r)),
       (''policy_epoch'', JInt (rq_policy_epoch r)), (''engine_version'', JStr (rq_engine_version r)),
       (''actions'', JArr (map (\<lambda>x. JObj (execution_action_json x @ [(''gaps'', JArr [])])) (sort_key ex_action_id (rq_actions r)))),
       (''gaps'', JArr [])]
      @ given_field ''scenario'' frozen_scenario_json (rq_scenario r))"

definition project_guards :: "(str \<Rightarrow> str) \<Rightarrow> execution_request \<Rightarrow> guard list" where
  "project_guards sha r =
     [((rq_version r = ''2'') \<noteq> (rq_environment r \<noteq> None), ''environment snapshot requires execution request version 2''),
      (rq_source_fingerprint r = None \<and> rq_environment r = None, ''source-free execution requires a frozen environment''),
      (rq_recheck r \<noteq> None \<and> (rq_environment r = None \<or> rq_source_fingerprint r \<noteq> None \<or> rq_repair r = None \<or>
         rq_change r \<noteq> None), ''external recheck requires its original contract and external environment''),
      (rq_environment r = None \<and>
         list_ex (\<lambda>c. list_ex (\<lambda>q. proof_rule q = HTTP_ENTITY_QUERY) (case_proofs c)) (all_cases (rq_actions r)),
         ''entity proof requires a frozen environment''),
      (has_duplicates (map ex_action_id (rq_actions r)), ''duplicate action''),
      (has_duplicates (map case_id (all_cases (rq_actions r))), ''cross action case identity'')]
     @ case_source_guards (rq_source_fingerprint r) (rq_config_fingerprint r) Map.empty (all_cases (rq_actions r))"

definition scenario_check :: "(str \<Rightarrow> str) \<Rightarrow> execution_request \<Rightarrow> unit checked" where
  "scenario_check sha r =
     (case rq_scenario r of
        Some s \<Rightarrow> validate_scenario_cases sha s (rq_actions r)
      | None \<Rightarrow> require (list_all (\<lambda>c. case_occurrence c = None) (all_cases (rq_actions r))) ''orphan scenario occurrence'')"

definition validate_project :: "(str \<Rightarrow> str) \<Rightarrow> execution_request \<Rightarrow> unit checked" where
  "validate_project sha r =
     (case first_error (project_guards sha r) of
        Some m \<Rightarrow> Inl [m]
      | None \<Rightarrow> andthen (scenario_check sha r)
          (\<lambda>_. require (rq_plan_fingerprint r = content_hash sha ''ProjectCheckPlan'' (plan_document r)) ''plan content identity''))"

definition permission_facts :: "execution_case list \<Rightarrow> (str \<times> int \<times> str) list" where
  "permission_facts cs = map (\<lambda>c. reference_key (case_permission c)) cs"

definition requirement_covered :: "(str \<times> int \<times> str) list \<Rightarrow> frozen_requirement \<Rightarrow> bool" where
  "requirement_covered facts q \<longleftrightarrow> fq_permissions q \<noteq> [] \<and> set (map reference_key (fq_permissions q)) \<subseteq> set facts \<and>
     fq_time_scope q \<noteq> HISTORY"

definition requirement_name :: "requirement_scope \<Rightarrow> frozen_requirement \<Rightarrow> str" where
  "requirement_name s q = sc_candidate_id s @ ''@'' @ int_text (sc_revision s) @ ''/'' @ fq_id q"

definition uncovered_requirements :: "execution_request \<Rightarrow> str list" where
  "uncovered_requirements r =
     (let facts = permission_facts (all_cases (rq_actions r)) in
      concat (map (\<lambda>s. map (requirement_name s)
        (filter (\<lambda>q. fq_disposition q = IN_SCOPE \<and> \<not> requirement_covered facts q) (sc_requirements s))) (rq_scope r)))"

definition requirement_guards :: "execution_request \<Rightarrow> guard list" where
  "requirement_guards r =
     (let cases = all_cases (rq_actions r); facts = permission_facts cases; uncovered = uncovered_requirements r in
      concat (map (\<lambda>s. map (\<lambda>q. (fq_disposition q \<noteq> IN_SCOPE \<and> fq_permissions q \<noteq> [],
        ''outside requirement must not claim checked rules'')) (sc_requirements s)) (rq_scope r))
      @ (case rq_selection r of
           None \<Rightarrow> [(uncovered \<noteq> [], ''frozen requirement is not covered by current cases'')]
         | Some s \<Rightarrow>
             [((rq_change r \<noteq> None \<or> rq_repair r \<noteq> None) \<and>
                 absent_or (\<lambda>p. set (map reference_key (rp_intents p)) \<noteq> set facts) (rq_repair r),
                 ''original-case revalidation cannot narrow its scope''),
              (set (map reference_key (sel_selected s)) \<union> set (map reference_key (sel_controls s)) \<noteq> set facts,
                 ''selected scope does not match executed cases''),
              (\<not> set (map reference_key (sel_controls s)) \<subseteq>
                 set (permission_facts (filter (\<lambda>c. ALLOW_CONTROL \<in> set (case_roles c)) cases)),
                 ''automatically added rules must be normal controls''),
              (sort uncovered \<noteq> sel_uncovered s, ''uncovered business requirements must remain explicit'')]))"

definition execution_request_check :: "(str \<Rightarrow> str) \<Rightarrow> execution_request \<Rightarrow> execution_request checked" where
  "execution_request_check sha r =
     andthen (checked (request_fields_errors sha r) ()) (\<lambda>_.
     andthen (validate_project sha r) (\<lambda>_.
     checked (field_error (requirement_guards r)) r))"

subsection \<open>Canonical bytes\<close>

definition request_json :: "execution_request \<Rightarrow> json" where
  "request_json r = JObj
     ([(''document_type'', JStr ''jiejian.execution-request''), (''schema_version'', JStr (rq_version r))]
      @ given_field ''environment'' (\<lambda>e. e) (rq_environment r)
      @ [(''requirement_scope'', JArr (map scope_json (rq_scope r)))]
      @ given_field ''selection'' selection_json (rq_selection r)
      @ [(''project_id'', JStr (rq_project_id r)), (''source_fingerprint'', json_option JStr (rq_source_fingerprint r)),
         (''policy_epoch'', JInt (rq_policy_epoch r)), (''engine_version'', JStr (rq_engine_version r)),
         (''plan_fingerprint'', JStr (rq_plan_fingerprint r)),
         (''actions'', JArr (map (JObj \<circ> execution_action_json) (sort_key ex_action_id (rq_actions r)))),
         (''config_fingerprint'', JStr (rq_config_fingerprint r)), (''budget_fingerprint'', JStr (rq_budget_fingerprint r)),
         (''change_context'', json_option change_json (rq_change r)), (''repair_context'', json_option repair_json (rq_repair r))]
      @ given_field ''external_recheck'' recheck_json (rq_recheck r)
      @ given_field ''scenario'' frozen_scenario_json (rq_scenario r))"

definition byte_space :: "char \<Rightarrow> bool" where
  \<comment> \<open>white space of \<open>re\<close> on bytes\<close>
  "byte_space c \<longleftrightarrow> (let n = of_char c :: nat in n = 32 \<or> (9 \<le> n \<and> n \<le> 13))"

definition assigned :: "str option \<Rightarrow> bool" where
  "assigned rest = given (\<lambda>s. case dropWhile byte_space s of [] \<Rightarrow> False | c # _ \<Rightarrow> c \<in> set '':='') rest"

definition unsafe_bytes :: "str \<Rightarrow> bool" where
  "unsafe_bytes raw = search (\<lambda>s.
     given (\<lambda>rest. rest \<noteq> [] \<and> byte_space (hd rest)) (after_prefix ''bearer'' s) \<or>
     assigned (after_prefix ''password'' s) \<or> assigned (after_prefix ''token'' s) \<or>
     after_prefix ''<script'' s \<noteq> None) raw"

definition canonical_execution_request_bytes :: "execution_request \<Rightarrow> str checked" where
  "canonical_execution_request_bytes r =
     (let raw = canonical_json_bytes (request_json r) in
      if 1048576 < length raw \<or> unsafe_bytes raw then Inl [''ExecutionRequestError''] else Inr raw)"

end
