(* ===== verification/CheckDecision.thy ===== *)
theory CheckDecision
  imports ScenarioCheck
begin

section \<open>The decision on one case and on a run\<close>

text \<open>
  Models \<^verbatim>\<open>product/backend/domain/verification/checks.py\<close>: what the observers saw becomes one fact per
  frozen proof, the facts of a case become its verdict, and the verdicts of a plan become the
  verdict of the run. The enumerations are those of \<^verbatim>\<open>domain/lifecycle.py\<close>.
\<close>

datatype effect_state = EFFECT_CONFIRMED | EFFECT_ABSENT | EFFECT_UNKNOWN

datatype closure_state = CLOSED | OPEN | CLOSURE_UNKNOWN

datatype execution_outcome = ACCEPTED | DENIED | EXECUTION_FAILED | EXECUTION_UNKNOWN

datatype case_verdict = SAFE | VULNERABLE | INCONCLUSIVE | SKIPPED | ERROR_VERDICT

datatype run_verdict = PASS | BLOCK | RUN_INCONCLUSIVE

datatype observation_phase = BASELINE | BEFORE | AFTER | EVENTUAL | RECOVERY

record effect_fact =
  ef_effect_id :: str
  ef_proof_fingerprint :: str
  ef_state :: effect_state
  ef_complete :: bool
  ef_reliable :: bool
  ef_correlated :: bool
  ef_authoritative :: bool
  ef_closure :: closure_state

record proof_observation =
  ob_proof_fingerprint :: str
  ob_observer_id :: str
  ob_phase :: observation_phase
  ob_level :: proof_level
  ob_state :: effect_state
  ob_closure :: closure_state
  ob_complete :: bool
  ob_reliable :: bool
  ob_correlated :: bool
  ob_authoritative :: bool

subsection \<open>From observations to facts\<close>

definition trusted_observation :: "proof_observation \<Rightarrow> bool" where
  "trusted_observation i \<longleftrightarrow> ob_complete i \<and> ob_reliable i \<and> ob_correlated i \<and> ob_authoritative i"

definition observed_for :: "effect_proof \<Rightarrow> proof_observation list \<Rightarrow> proof_observation list" where
  "observed_for p os = filter (\<lambda>i. ob_proof_fingerprint i = proof_fingerprint p \<and> ob_level i = proof_level p \<and>
     ob_phase i \<in> {AFTER, EVENTUAL}) os"

fun keep_latest :: "proof_observation \<Rightarrow> proof_observation list \<Rightarrow> proof_observation list" where
  \<comment> \<open>the entry of its observer is replaced by an eventual observation only\<close>
  "keep_latest i [] = [i]"
| "keep_latest i (j # js) =
     (if ob_observer_id j = ob_observer_id i then (if ob_phase i = EVENTUAL then i else j) # js
      else j # keep_latest i js)"

definition latest_observations :: "proof_observation list \<Rightarrow> proof_observation list" where
  "latest_observations os = foldl (\<lambda>latest i. keep_latest i latest) [] os"

definition project_proof :: "proof_observation list \<Rightarrow> effect_proof \<Rightarrow> effect_fact" where
  "project_proof os p =
     (let observed = observed_for p os;
          latest = latest_observations observed;
          confirmed = filter (\<lambda>i. ob_state i = EFFECT_CONFIRMED \<and> trusted_observation i) observed;
          reliable = (latest \<noteq> [] \<and> list_all trusted_observation latest);
          trusted = (confirmed \<noteq> [] \<or> reliable)
      in \<lparr>ef_effect_id = proof_effect_id p, ef_proof_fingerprint = proof_fingerprint p,
          ef_state = (if confirmed \<noteq> [] then EFFECT_CONFIRMED
            else if reliable \<and> list_all (\<lambda>i. ob_state i = EFFECT_ABSENT) latest then EFFECT_ABSENT else EFFECT_UNKNOWN),
          ef_complete = trusted, ef_reliable = trusted, ef_correlated = trusted, ef_authoritative = trusted,
          ef_closure = (if latest \<noteq> [] \<and> list_all (\<lambda>i. ob_closure i = CLOSED) latest then CLOSED else OPEN)\<rparr>)"

definition project_check_effect_facts :: "execution_case \<Rightarrow> proof_observation list \<Rightarrow> effect_fact list" where
  "project_check_effect_facts c os = map (project_proof os) (case_proofs c)"

subsection \<open>The decision on a case\<close>

record decision_input =
  di_case :: execution_case
  di_execution :: execution_outcome
  di_identity :: match_status
  di_run_correlated :: bool
  di_resource_correlated :: bool
  di_baseline_trusted :: bool
  di_recovery_verified :: bool
  di_control :: "case_verdict option"
  di_effects :: "effect_fact list"
  di_conditions :: "observed_conditions list"

fun condition_guards :: "(str \<rightharpoonup> effect_proof) \<Rightarrow> str list \<Rightarrow> observed_conditions list \<Rightarrow> guard list" where
  "condition_guards proofs seen [] = []"
| "condition_guards proofs seen (i # is) =
     ((case proofs (oc_proof_fingerprint i) of
         None \<Rightarrow> True
       | Some p \<Rightarrow> proof_rule p \<noteq> REGISTERED_EFFECT \<or> oc_proof_fingerprint i \<in> set seen \<or>
           (case proof_reference p of
              Registered_Observer r \<Rightarrow> oc_source_id i \<noteq> obs_descriptor_id r \<or>
                oc_source_fingerprint i \<noteq> obs_descriptor_fingerprint r
            | _ \<Rightarrow> True)),
      ''condition facts must reference their frozen independent source'')
     # condition_guards proofs (oc_proof_fingerprint i # seen) is"

definition effect_fact_errors :: "effect_fact \<Rightarrow> str list" where
  "effect_fact_errors f = tag_field ''effect_id'' ''bef_'' 32 (ef_effect_id f)
     @ hash_field ''proof_fingerprint'' (ef_proof_fingerprint f)"

definition decision_input_errors :: "(str \<Rightarrow> str) \<Rightarrow> decision_input \<Rightarrow> str list" where
  "decision_input_errors sha d =
     (let expected = map (\<lambda>p. (proof_effect_id p, proof_fingerprint p)) (case_proofs (di_case d));
          actual = map (\<lambda>f. (ef_effect_id f, ef_proof_fingerprint f)) (di_effects d)
      in after_fields
       (execution_case_errors sha (di_case d) @ size_field ''effects'' 0 48 (di_effects d)
        @ each_field effect_fact_errors (di_effects d)
        @ size_field ''condition_observations'' 0 48 (di_conditions d)
        @ each_field observed_conditions_errors (di_conditions d))
       ((has_duplicates actual \<or> \<not> set actual \<subseteq> set expected, ''check facts must reference unique frozen case proofs'')
        # condition_guards (dict_of proof_fingerprint (case_proofs (di_case d))) [] (di_conditions d)))"

record check_decision =
  cd_verdict :: case_verdict
  cd_reasons :: "str list"
  cd_confirmed :: "str list"

fun match_status_value :: "match_status \<Rightarrow> str" where
  "match_status_value MATCH = ''MATCH''"
| "match_status_value MISMATCH = ''MISMATCH''"
| "match_status_value UNMATCHED_UNKNOWN = ''UNKNOWN''"

definition trusted_fact :: "effect_fact \<Rightarrow> bool" where
  "trusted_fact f \<longleftrightarrow> ef_authoritative f \<and> ef_complete f \<and> ef_reliable f \<and> ef_correlated f"

definition required_facts :: "decision_input \<Rightarrow> effect_fact option list" where
  "required_facts d = map (\<lambda>p. dict_of ef_proof_fingerprint (di_effects d) (proof_fingerprint p))
     (filter (\<lambda>p. proof_level p = VERDICT_REQUIRED) (case_proofs (di_case d)))"

definition attributed :: "decision_input \<Rightarrow> bool" where
  "attributed d \<longleftrightarrow> di_identity d = MATCH \<and> di_run_correlated d \<and> di_resource_correlated d"

definition confirmed_effects :: "decision_input \<Rightarrow> str list" where
  "confirmed_effects d =
     (if attributed d
      then sort (remdups (map ef_effect_id (filter (\<lambda>f. ef_state f = EFFECT_CONFIRMED \<and> trusted_fact f)
        (concat (map option_list (required_facts d))))))
      else [])"

definition decision_reasons :: "decision_input \<Rightarrow> guard list" where
  \<comment> \<open>each condition under which a reason is added\<close>
  "decision_reasons d =
     (let required = required_facts d in
      [(di_identity d \<noteq> MATCH, ''ACTUAL_IDENTITY_'' @ match_status_value (di_identity d)),
       (\<not> di_run_correlated d, ''RUN_CORRELATION_UNTRUSTED''),
       (\<not> di_resource_correlated d, ''RESOURCE_CORRELATION_UNTRUSTED''),
       (\<not> di_baseline_trusted d, ''BASELINE_INTEGRITY_INVALID''),
       (\<not> di_recovery_verified d, ''RECOVERY_UNVERIFIED''),
       (di_execution d \<in> {EXECUTION_FAILED, EXECUTION_UNKNOWN},
          if di_execution d = EXECUTION_FAILED then ''EXECUTION_FAILED'' else ''EXECUTION_UNKNOWN''),
       (list_ex (absent_or (\<lambda>f. \<not> trusted_fact f \<or> ef_state f = EFFECT_UNKNOWN)) required, ''REQUIRED_EFFECT_UNKNOWN''),
       (list_ex (absent_or (\<lambda>f. ef_closure f \<noteq> CLOSED)) required, ''TEMPORAL_CLOSURE_INCOMPLETE'')]
      @ (if expects_absence (di_case d)
         then [(di_execution d = ACCEPTED \<and> case_invocation_kind (di_case d) = None, ''UNAUTHORIZED_EXECUTION_ACCEPTED''),
               (di_control d \<noteq> Some SAFE, ''ALLOW_CONTROL_INVALID''),
               (list_ex (absent_or (\<lambda>f. ef_state f \<noteq> EFFECT_ABSENT)) required, ''REQUIRED_EFFECT_NOT_ABSENT'')]
         else [(di_execution d = DENIED, ''ALLOW_EXECUTION_REJECTED''),
               (set (confirmed_effects d) \<noteq> set (case_effect_ids (di_case d)), ''ALLOW_EFFECT_UNCONFIRMED'')]))"

definition condition_status :: "(str \<Rightarrow> str) \<Rightarrow> decision_input \<Rightarrow> match_status" where
  "condition_status sha d = collected_conditions_status sha (fz_conditions (case_permission (di_case d))) (di_conditions d)"

definition evaluate_check_case :: "(str \<Rightarrow> str) \<Rightarrow> decision_input \<Rightarrow> check_decision" where
  "evaluate_check_case sha d =
     (if condition_status sha d \<noteq> MATCH
      then \<lparr>cd_verdict = INCONCLUSIVE,
            cd_reasons = [''PERMISSION_CONDITION_'' @ match_status_value (condition_status sha d)], cd_confirmed = []\<rparr>
      else if expects_absence (di_case d) \<and> confirmed_effects d \<noteq> []
      then \<lparr>cd_verdict = VULNERABLE, cd_reasons = [''ORPHAN_EFFECT_CONFIRMED''], cd_confirmed = confirmed_effects d\<rparr>
      else let reasons = violations (decision_reasons d) in
        \<lparr>cd_verdict = (if reasons = [] then SAFE else INCONCLUSIVE), cd_reasons = sort (remdups reasons), cd_confirmed = []\<rparr>)"

definition check_decision_errors :: "check_decision \<Rightarrow> str list" where
  "check_decision_errors d = size_field ''reason_codes'' 0 16 (cd_reasons d)
     @ size_field ''confirmed_forbidden_effect_ids'' 0 16 (cd_confirmed d)
     @ each_field (tag_field ''confirmed_forbidden_effect_ids'' ''bef_'' 32) (cd_confirmed d)"

subsection \<open>The run\<close>

definition aggregate_check_verdict :: "case_verdict list \<Rightarrow> int \<Rightarrow> bool \<Rightarrow> run_verdict checked" where
  "aggregate_check_verdict verdicts planned has_gaps =
     (if planned < 0 \<or> planned < int (length verdicts) then Inl [''invalid planned case cardinality'']
      else if VULNERABLE \<in> set verdicts then Inr BLOCK
      else if has_gaps \<or> verdicts = [] \<or> int (length verdicts) \<noteq> planned \<or> list_ex (\<lambda>v. v \<noteq> SAFE) verdicts
      then Inr RUN_INCONCLUSIVE else Inr PASS)"

definition control_keys :: "frozen_scenario option \<Rightarrow> execution_action \<Rightarrow> execution_case \<Rightarrow> str list checked" where
  "control_keys scenario x c =
     (let control = map_option twin_allow_case (find (\<lambda>t. twin_deny_case t = case_id c) (ex_twins x)) in
      andthen (case scenario of None \<Rightarrow> Inr [] | Some s \<Rightarrow> scenario_control_cases s (case_id c))
        (\<lambda>ks. Inr (option_list control @ ks)))"

definition resolved_control_verdict ::
    "frozen_scenario option \<Rightarrow> execution_action \<Rightarrow> execution_case \<Rightarrow> (str \<rightharpoonup> check_decision) \<Rightarrow> case_verdict option checked" where
  "resolved_control_verdict scenario x c results =
     andthen (control_keys scenario x c) (\<lambda>ks.
       Inr (if ks \<noteq> [] \<and> list_all (\<lambda>k. given (\<lambda>r. cd_verdict r = SAFE) (results k)) ks then Some SAFE else None))"

end
