(* ===== verification/CheckFacts.thy ===== *)
theory CheckFacts
  imports CheckDecision ScenarioFacts
begin

section \<open>What the decision functions compute\<close>

text \<open>
  The latest observation of each observer against a direct definition, the conditions under which a
  case is \<open>SAFE\<close> or \<open>VULNERABLE\<close>, and what a fact derived from observations says about them.
\<close>

subsection \<open>The latest observation of an observer\<close>

definition final_observation :: "proof_observation list \<Rightarrow> str \<Rightarrow> proof_observation option" where
  \<comment> \<open>the last eventual observation of the observer, or else its first one\<close>
  "final_observation os w =
     (let own = filter (\<lambda>i. ob_observer_id i = w) os; late = filter (\<lambda>i. ob_phase i = EVENTUAL) own in
      if late \<noteq> [] then Some (last late) else if own \<noteq> [] then Some (hd own) else None)"

lemma find_keep_latest:
  "find (\<lambda>j. ob_observer_id j = w) (keep_latest i js) =
     (if w = ob_observer_id i
      then Some (case find (\<lambda>j. ob_observer_id j = w) js of None \<Rightarrow> i | Some j \<Rightarrow> if ob_phase i = EVENTUAL then i else j)
      else find (\<lambda>j. ob_observer_id j = w) js)"
  by (induction js) auto

lemma keep_latest_observers:
  "ob_observer_id ` set (keep_latest i js) = insert (ob_observer_id i) (ob_observer_id ` set js)"
  by (induction js) auto

lemma keep_latest_distinct:
  "distinct (map ob_observer_id js) \<Longrightarrow> distinct (map ob_observer_id (keep_latest i js))"
proof (induction js)
  case (Cons j js)
  have "ob_observer_id j \<notin> ob_observer_id ` set (keep_latest i js)" if "ob_observer_id j \<noteq> ob_observer_id i"
    unfolding keep_latest_observers using that Cons.prems by simp
  with Cons show ?case by auto
qed simp

lemma latest_observations_snoc: "latest_observations (os @ [i]) = keep_latest i (latest_observations os)"
  by (simp add: latest_observations_def)

lemma latest_distinct: "distinct (map ob_observer_id (latest_observations os))"
  by (induction os rule: rev_induct) (simp_all add: latest_observations_def latest_observations_snoc keep_latest_distinct)

lemma find_latest: "find (\<lambda>j. ob_observer_id j = w) (latest_observations os) = final_observation os w"
proof (induction os rule: rev_induct)
  case Nil
  show ?case by (simp add: latest_observations_def final_observation_def)
next
  case (snoc i os)
  have none: "filter (\<lambda>i. ob_observer_id i = w \<and> ob_phase i = EVENTUAL) os = []"
    if "filter (\<lambda>i. ob_observer_id i = w) os = []" for w
    using that by (auto simp: filter_empty_conv)
  show ?case
    unfolding latest_observations_snoc find_keep_latest snoc
    by (auto simp: final_observation_def Let_def none)
qed

lemma find_distinct:
  assumes "distinct (map f xs)" and "x \<in> set xs"
  shows "find (\<lambda>y. f y = f x) xs = Some x"
  using assms by (induction xs) (auto simp: image_iff)

lemma latest_set: "i \<in> set (latest_observations os) \<longleftrightarrow> final_observation os (ob_observer_id i) = Some i"
proof
  assume "i \<in> set (latest_observations os)"
  from find_distinct [OF latest_distinct this] show "final_observation os (ob_observer_id i) = Some i"
    by (simp add: find_latest)
next
  assume "final_observation os (ob_observer_id i) = Some i"
  then have "find (\<lambda>j. ob_observer_id j = ob_observer_id i) (latest_observations os) = Some i" by (simp add: find_latest)
  then show "i \<in> set (latest_observations os)" by (auto simp: find_Some_iff)
qed

lemma final_observation_observer: "final_observation os w = Some i \<Longrightarrow> ob_observer_id i = w \<and> i \<in> set os"
proof -
  assume "final_observation os w = Some i"
  then have "i \<in> set (filter (\<lambda>i. ob_observer_id i = w) os)"
    unfolding final_observation_def Let_def
    by (auto split: if_splits dest: last_in_set hd_in_set)
  then show ?thesis by simp
qed

lemma latest_Nil: "latest_observations os = [] \<longleftrightarrow> os = []"
proof (cases os rule: rev_cases)
  case (snoc xs i)
  have "keep_latest i js \<noteq> []" for js by (cases js) auto
  with snoc show ?thesis by (simp add: latest_observations_snoc)
qed (simp add: latest_observations_def)

lemma latest_all: "list_all P (latest_observations os) \<longleftrightarrow> (\<forall>w i. final_observation os w = Some i \<longrightarrow> P i)"
  unfolding list_all_iff by (metis final_observation_observer latest_set)

subsection \<open>Facts of the proofs\<close>

lemma absent_fact:
  assumes "ef_state (project_proof os p) = EFFECT_ABSENT" and "ef_closure (project_proof os p) = CLOSED"
  shows "observed_for p os \<noteq> []"
    and "i \<in> set (observed_for p os) \<Longrightarrow> \<not> (ob_state i = EFFECT_CONFIRMED \<and> trusted_observation i)"
    and "final_observation (observed_for p os) w = Some i \<Longrightarrow>
      trusted_observation i \<and> ob_state i = EFFECT_ABSENT \<and> ob_closure i = CLOSED"
proof -
  let ?l = "latest_observations (observed_for p os)"
  from assms have a: "filter (\<lambda>i. ob_state i = EFFECT_CONFIRMED \<and> trusted_observation i) (observed_for p os) = []"
    "?l \<noteq> []" "list_all trusted_observation ?l" "list_all (\<lambda>i. ob_state i = EFFECT_ABSENT) ?l"
    "list_all (\<lambda>i. ob_closure i = CLOSED) ?l"
    unfolding project_proof_def Let_def by (auto split: if_splits)
  from a(2) show "observed_for p os \<noteq> []" by (simp add: latest_Nil)
  from a(1) show "i \<in> set (observed_for p os) \<Longrightarrow> \<not> (ob_state i = EFFECT_CONFIRMED \<and> trusted_observation i)"
    by (auto simp: filter_empty_conv)
  from a(3-5) show "final_observation (observed_for p os) w = Some i \<Longrightarrow>
      trusted_observation i \<and> ob_state i = EFFECT_ABSENT \<and> ob_closure i = CLOSED"
    unfolding latest_all by blast
qed

lemma confirmed_fact:
  assumes "ef_state (project_proof os p) = EFFECT_CONFIRMED"
  shows "\<exists>i \<in> set (observed_for p os). ob_state i = EFFECT_CONFIRMED \<and> trusted_observation i"
proof -
  from assms have "filter (\<lambda>i. ob_state i = EFFECT_CONFIRMED \<and> trusted_observation i) (observed_for p os) \<noteq> []"
    unfolding project_proof_def Let_def by (auto split: if_splits)
  then show ?thesis by (auto simp: filter_empty_conv)
qed

lemma projected_fact:
  assumes "distinct (map proof_fingerprint (case_proofs c))" and "p \<in> set (case_proofs c)"
  shows "dict_of ef_proof_fingerprint (project_check_effect_facts c os) (proof_fingerprint p) = Some (project_proof os p)"
proof -
  have fp: "ef_proof_fingerprint (project_proof os q) = proof_fingerprint q" for q by (simp add: project_proof_def Let_def)
  have "distinct (map ef_proof_fingerprint (project_check_effect_facts c os))"
    using assms(1) by (simp add: project_check_effect_facts_def comp_def fp)
  moreover have "project_proof os p \<in> set (project_check_effect_facts c os)"
    using assms(2) by (simp add: project_check_effect_facts_def)
  ultimately show ?thesis using dict_of_distinct [of ef_proof_fingerprint] fp by metis
qed

subsection \<open>The verdicts\<close>

definition required_proof :: "execution_case \<Rightarrow> effect_proof \<Rightarrow> bool" where
  "required_proof c p \<longleftrightarrow> p \<in> set (case_proofs c) \<and> proof_level p = VERDICT_REQUIRED"

lemma required_facts_set:
  "m \<in> set (required_facts d) \<longleftrightarrow>
     (\<exists>p. required_proof (di_case d) p \<and> m = dict_of ef_proof_fingerprint (di_effects d) (proof_fingerprint p))"
  by (auto simp: required_facts_def required_proof_def)

lemma confirmed_effects_set:
  "e \<in> set (confirmed_effects d) \<longleftrightarrow> attributed d \<and>
     (\<exists>p f. required_proof (di_case d) p \<and> dict_of ef_proof_fingerprint (di_effects d) (proof_fingerprint p) = Some f \<and>
        ef_state f = EFFECT_CONFIRMED \<and> trusted_fact f \<and> e = ef_effect_id f)"
proof -
  have "f \<in> set (concat (map option_list (required_facts d))) \<longleftrightarrow> Some f \<in> set (required_facts d)" for f
    by (force simp: option_list_def split: option.splits)
  then have "e \<in> set (confirmed_effects d) \<longleftrightarrow> attributed d \<and>
      (\<exists>f. Some f \<in> set (required_facts d) \<and> ef_state f = EFFECT_CONFIRMED \<and> trusted_fact f \<and> e = ef_effect_id f)"
    unfolding confirmed_effects_def by (auto simp: image_iff)
  then show ?thesis unfolding required_facts_set by metis
qed

lemma safe_reasons:
  "cd_verdict (evaluate_check_case sha d) = SAFE \<longleftrightarrow>
     condition_status sha d = MATCH \<and> (expects_absence (di_case d) \<longrightarrow> confirmed_effects d = []) \<and>
     (\<forall>g \<in> set (decision_reasons d). \<not> fst g)"
  unfolding evaluate_check_case_def Let_def violations_Nil [symmetric] by auto

lemma safe_common:
  assumes "cd_verdict (evaluate_check_case sha d) = SAFE"
  shows "condition_status sha d = MATCH" and "attributed d" and "di_baseline_trusted d" and "di_recovery_verified d"
    and "required_proof (di_case d) p \<Longrightarrow>
      \<exists>f. dict_of ef_proof_fingerprint (di_effects d) (proof_fingerprint p) = Some f \<and> trusted_fact f \<and> ef_closure f = CLOSED"
proof -
  note s = assms [unfolded safe_reasons]
  from s show "condition_status sha d = MATCH" "attributed d" "di_baseline_trusted d" "di_recovery_verified d"
    unfolding decision_reasons_def Let_def attributed_def by simp_all
  assume p: "required_proof (di_case d) p"
  let ?m = "dict_of ef_proof_fingerprint (di_effects d) (proof_fingerprint p)"
  have m: "?m \<in> set (required_facts d)" unfolding required_facts_set using p by blast
  from s have "\<not> list_ex (absent_or (\<lambda>f. \<not> trusted_fact f \<or> ef_state f = EFFECT_UNKNOWN)) (required_facts d)"
    "\<not> list_ex (absent_or (\<lambda>f. ef_closure f \<noteq> CLOSED)) (required_facts d)"
    unfolding decision_reasons_def Let_def by simp_all
  with m have "\<not> absent_or (\<lambda>f. \<not> trusted_fact f \<or> ef_state f = EFFECT_UNKNOWN) ?m" "\<not> absent_or (\<lambda>f. ef_closure f \<noteq> CLOSED) ?m"
    unfolding list_ex_iff by blast+
  then show "\<exists>f. ?m = Some f \<and> trusted_fact f \<and> ef_closure f = CLOSED" by (cases ?m) auto
qed

lemma safe_denial:
  assumes "cd_verdict (evaluate_check_case sha d) = SAFE" and "expects_absence (di_case d)"
  shows "di_control d = Some SAFE"
    and "required_proof (di_case d) p \<Longrightarrow>
      \<exists>f. dict_of ef_proof_fingerprint (di_effects d) (proof_fingerprint p) = Some f \<and> ef_state f = EFFECT_ABSENT \<and> ef_closure f = CLOSED"
proof -
  note s = assms(1) [unfolded safe_reasons]
  from s assms(2) show "di_control d = Some SAFE" unfolding decision_reasons_def Let_def by simp
  assume p: "required_proof (di_case d) p"
  let ?m = "dict_of ef_proof_fingerprint (di_effects d) (proof_fingerprint p)"
  have m: "?m \<in> set (required_facts d)" unfolding required_facts_set using p by blast
  from s assms(2) have "\<not> list_ex (absent_or (\<lambda>f. ef_state f \<noteq> EFFECT_ABSENT)) (required_facts d)"
    unfolding decision_reasons_def Let_def by simp
  with m have "\<not> absent_or (\<lambda>f. ef_state f \<noteq> EFFECT_ABSENT) ?m" unfolding list_ex_iff by blast
  with safe_common(5) [OF assms(1) p] show "\<exists>f. ?m = Some f \<and> ef_state f = EFFECT_ABSENT \<and> ef_closure f = CLOSED"
    by (cases ?m) auto
qed

lemma safe_allowance:
  assumes "cd_verdict (evaluate_check_case sha d) = SAFE" and "\<not> expects_absence (di_case d)"
  shows "set (confirmed_effects d) = set (case_effect_ids (di_case d))" and "di_execution d = ACCEPTED"
proof -
  note s = assms(1) [unfolded safe_reasons]
  from s assms(2) show "set (confirmed_effects d) = set (case_effect_ids (di_case d))"
    unfolding decision_reasons_def Let_def by simp
  from s assms(2) have "di_execution d \<notin> {EXECUTION_FAILED, EXECUTION_UNKNOWN}" "di_execution d \<noteq> DENIED"
    unfolding decision_reasons_def Let_def by simp_all
  then show "di_execution d = ACCEPTED" by (cases "di_execution d") auto
qed

end
