(* ===== verification/CheckSample.thy ===== *)
theory CheckSample
  imports ScenarioSample CheckFacts
begin

section \<open>A sample decision\<close>

text \<open>
  The two cases of the sample scenario are accepted by their validators; the normal one is observed
  to change the document, the denied one is observed not to. The witnesses of the decision
  properties use them.
\<close>

lemma sample_proof_ok: "effect_proof_errors sha256_hex sample_proof = []"
proof -
  have fields: "proof_fields sample_proof = proof_fields sample_draft"
    by (simp add: sample_proof_def proof_fields_def)
  have hex: "hex_text 64 (proof_fingerprint sample_proof)"
    by (simp add: sample_proof_def content_hash_def sha256.sha_hex)
  then have hf: "hash_field ''proof_fingerprint'' (proof_fingerprint sample_proof) = []"
    by (simp add: hash_field_def pattern_guard_def field_error_Nil)
  have draft: "tag_field ''effect_id'' ''bef_'' 32 (proof_effect_id sample_draft) = []"
     "hash_field ''binding_fingerprint'' (proof_binding_fingerprint sample_draft) = []"
      "size_field ''resource_id'' 1 256 (proof_resource_id sample_draft) = []" "proof_reference_errors (proof_reference sample_draft) = []"
      "resource_identifier (proof_resource_id sample_draft)"
    by code_simp+
  have same: "proof_effect_id sample_proof = proof_effect_id sample_draft"  "proof_binding_fingerprint sample_proof = proof_binding_fingerprint sample_draft"
    "proof_resource_id sample_proof = proof_resource_id sample_draft" "proof_reference sample_proof = proof_reference sample_draft"
    "proof_rule sample_proof = HTTP_RESOURCE_PRESENCE" "is_recorded (proof_reference sample_draft)"
    by (simp_all add: sample_proof_def sample_draft_def)
  show ?thesis
    unfolding effect_proof_errors_def after_fields_Nil same draft hf fields resource_guard_def
    by (simp add: same draft) (simp add: sample_proof_def)
qed

lemma sample_case_fields:
  assumes "(d, e, r, x) \<in> {(''1'', ''normal'', ALLOW_REGRESSION, ALLOW), (''2'', ''other'', DENY_CHALLENGE, DENY)}"
  shows "execution_case_errors sha256_hex (sample_case d e r x) = []"
proof -
  let ?c = "sample_case d e r x"
  obtain occ where occ: "case_occurrence ?c = Some occ" "tag_field ''occurrence_id'' ''occ_'' 32 occ = []"
    by (rule that [of "occurrence_of sha256_hex (fs_fingerprint sample_scenario) e ''step'' 0"])
      (simp_all add: sample_case_def tag_field_def pattern_guard_def tagged_def occurrence_of_def field_error_Nil
        content_hash_def hex_text_take [OF sha256.sha_hex])
  let ?p = "sample_draft\<lparr>proof_fingerprint := digits ''0'' @ digits ''0''\<rparr>"
  let ?b = "(bare_case d r x)\<lparr>case_proofs := [?p]\<rparr>"
  have "case_fields_errors (\<lambda>_. digits ''0'' @ digits ''0'') ((bare_case ''1'' ALLOW_REGRESSION ALLOW)\<lparr>case_proofs := [?p]\<rparr>) = []"
    "case_fields_errors (\<lambda>_. digits ''0'' @ digits ''0'') ((bare_case ''2'' DENY_CHALLENGE DENY)\<lparr>case_proofs := [?p]\<rparr>) = []"
    by code_simp+
  with assms have b: "case_fields_errors (\<lambda>_. digits ''0'' @ digits ''0'') ?b = []" by auto
  have "case_fields_errors sha256_hex ?c = []"
    using b occ sample_proof_ok
    unfolding case_fields_errors_def append_is_Nil_conv sample_case_def
    by (simp add: each_field_def size_field_def size_guards_def field_error_Nil optional_field_def)
  moreover have "list_all (\<lambda>g. \<not> fst g) (case_guards ((bare_case ''1'' ALLOW_REGRESSION ALLOW)\<lparr>case_proofs := [sample_draft]\<rparr>))"
    "list_all (\<lambda>g. \<not> fst g) (case_guards ((bare_case ''2'' DENY_CHALLENGE DENY)\<lparr>case_proofs := [sample_draft]\<rparr>))"
    by code_simp+
  then have "list_all (\<lambda>g. \<not> fst g) (case_guards ((bare_case d r x)\<lparr>case_proofs := [sample_draft]\<rparr>))" using assms by auto
  moreover have "case_guards ?c = case_guards ((bare_case d r x)\<lparr>case_proofs := [sample_draft]\<rparr>)"
    by (simp add: case_guards_def Let_def sample_case_def sample_proof_def anonymous_case_def bare_case_def)
  moreover have "resource_identifier (case_resource_id ?c)"
    by (simp add: sample_case_def bare_case_def) code_simp
  ultimately show ?thesis
    unfolding execution_case_errors_def after_fields_Nil list_all_iff by (simp add: resource_guard_def)
qed
abbreviation normal_case :: execution_case where
  "normal_case \<equiv> sample_case ''1'' ''normal'' ALLOW_REGRESSION ALLOW"

abbreviation denied_case :: execution_case where
  "denied_case \<equiv> sample_case ''2'' ''other'' DENY_CHALLENGE DENY"

definition sample_observation :: "effect_state \<Rightarrow> proof_observation" where
  "sample_observation x = \<lparr>ob_proof_fingerprint = proof_fingerprint sample_proof, ob_observer_id = ''reader'', ob_phase = AFTER,
     ob_level = VERDICT_REQUIRED, ob_state = x, ob_closure = CLOSED, ob_complete = True, ob_reliable = True,
     ob_correlated = True, ob_authoritative = True\<rparr>"

definition sample_input :: "execution_case \<Rightarrow> effect_state \<Rightarrow> execution_outcome \<Rightarrow> decision_input" where
  "sample_input c x outcome = \<lparr>di_case = c, di_execution = outcome, di_identity = MATCH, di_run_correlated = True,
     di_resource_correlated = True, di_baseline_trusted = True, di_recovery_verified = True, di_control = Some SAFE,
     di_effects = project_check_effect_facts c [sample_observation x], di_conditions = []\<rparr>"

lemma sample_parts:
  "case_proofs (sample_case d e r x) = [sample_proof]" "case_effect_ids (sample_case d e r x) = [''bef_'' @ digits ''1'']"
  "fz_conditions (case_permission (sample_case d e r x)) = None" "case_invocation_kind (sample_case d e r x) = None"
  "expects_absence (sample_case d e r x) \<longleftrightarrow> x = DENY"
  "proof_level sample_proof = VERDICT_REQUIRED" "proof_effect_id sample_proof = ''bef_'' @ digits ''1''"
  by (simp_all add: sample_case_def bare_case_def sample_permission_def expects_absence_def sample_proof_def sample_draft_def)

lemma sample_projection:
  "project_check_effect_facts (sample_case d e r x) [sample_observation y] =
     [\<lparr>ef_effect_id = ''bef_'' @ digits ''1'', ef_proof_fingerprint = proof_fingerprint sample_proof, ef_state = y,
       ef_complete = True, ef_reliable = True, ef_correlated = True, ef_authoritative = True, ef_closure = CLOSED\<rparr>]"
  if "y \<noteq> EFFECT_UNKNOWN" for y
  using that
  by (cases y) (simp_all add: project_check_effect_facts_def sample_parts project_proof_def Let_def observed_for_def
    sample_observation_def latest_observations_def trusted_observation_def del: append_Cons)

lemma sample_required:
  "y \<noteq> EFFECT_UNKNOWN \<Longrightarrow> required_facts (sample_input (sample_case d e r x) y outcome) =
     [Some \<lparr>ef_effect_id = ''bef_'' @ digits ''1'', ef_proof_fingerprint = proof_fingerprint sample_proof, ef_state = y,
       ef_complete = True, ef_reliable = True, ef_correlated = True, ef_authoritative = True, ef_closure = CLOSED\<rparr>]"
  by (simp add: required_facts_def sample_input_def sample_parts sample_projection dict_of_def del: append_Cons)

lemma sample_denied_safe:
  "evaluate_check_case sha (sample_input denied_case EFFECT_ABSENT DENIED) =
     \<lparr>cd_verdict = SAFE, cd_reasons = [], cd_confirmed = []\<rparr>"
proof -
  let ?d = "sample_input denied_case EFFECT_ABSENT DENIED"
  have f: "di_case ?d = denied_case" "di_identity ?d = MATCH" "di_run_correlated ?d" "di_resource_correlated ?d"
    "di_baseline_trusted ?d" "di_recovery_verified ?d" "di_control ?d = Some SAFE" "di_execution ?d = DENIED"
    by (simp_all add: sample_input_def)
  have "condition_status sha ?d = MATCH"
    by (simp add: condition_status_def f sample_parts collected_conditions_status_def)
  moreover have "confirmed_effects ?d = []"
    by (simp add: confirmed_effects_def sample_required)
  moreover have "violations (decision_reasons ?d) = []"
    by (simp add: decision_reasons_def Let_def f sample_required sample_parts trusted_fact_def)
  ultimately show ?thesis by (simp add: evaluate_check_case_def)
qed

lemma sample_normal_safe:
  "evaluate_check_case sha (sample_input normal_case EFFECT_CONFIRMED ACCEPTED) =
     \<lparr>cd_verdict = SAFE, cd_reasons = [], cd_confirmed = []\<rparr>"
proof -
  let ?d = "sample_input normal_case EFFECT_CONFIRMED ACCEPTED"
  have f: "di_case ?d = normal_case" "di_identity ?d = MATCH" "di_run_correlated ?d" "di_resource_correlated ?d"
    "di_baseline_trusted ?d" "di_recovery_verified ?d" "di_execution ?d = ACCEPTED"
    by (simp_all add: sample_input_def)
  have "condition_status sha ?d = MATCH"
    by (simp add: condition_status_def f sample_parts collected_conditions_status_def)
  moreover have "confirmed_effects ?d = [''bef_'' @ digits ''1'']"
    by (simp add: confirmed_effects_def attributed_def f sample_required trusted_fact_def del: append_Cons)
  then have "violations (decision_reasons ?d) = []"
    unfolding violations_Nil
    by (simp add: decision_reasons_def Let_def f sample_required sample_parts trusted_fact_def del: append_Cons)
  ultimately show ?thesis by (simp add: evaluate_check_case_def f sample_parts)
qed

lemma sample_input_ok:
  assumes "y \<noteq> EFFECT_UNKNOWN"
  shows "decision_input_errors sha256_hex (sample_input denied_case y outcome) = []"
proof -
  have "execution_case_errors sha256_hex denied_case = []" by (rule sample_case_fields) simp
  moreover have "hash_field ''proof_fingerprint'' (proof_fingerprint sample_proof) = []"
    by (simp add: sample_proof_def content_hash_def sha256.sha_hex hash_field_def pattern_guard_def field_error_Nil)
  moreover have "tag_field ''effect_id'' ''bef_'' 32 (''bef_'' @ digits ''1'') = []" by code_simp
  ultimately show ?thesis
    by (simp add: decision_input_errors_def sample_input_def sample_projection [OF assms] sample_parts each_field_def
      effect_fact_errors_def size_field_def size_guards_def field_error_Nil after_fields_Nil has_duplicates_def del: append_Cons)
qed

end
