(* ===== verification/CheckProperties.thy ===== *)
theory CheckProperties
  imports CheckSample
begin

section \<open>Properties of the decision\<close>

text \<open>
  A denial is judged safe only on complete evidence of absence next to a valid control; a confirmed
  forbidden effect is never lost; the run passes only when every planned case is safe; and, across
  the scenario reader and the decision, a safe denial rests on a normal case shown to have the effect.
\<close>

text \<open>C14: a denied case judged safe from observations has, for every proof the verdict requires, at least
  one observation after the operation, no trusted confirmation among them, and for each observer a
  final observation that is trusted, closed and reports the effect absent; its identity, baseline,
  recovery and normal control were verified.\<close>

theorem safe_denial_is_absence:
  assumes "cd_verdict (evaluate_check_case sha d) = SAFE" and "expects_absence (di_case d)"
    and "di_effects d = project_check_effect_facts (di_case d) os"
    and "distinct (map proof_fingerprint (case_proofs (di_case d)))" and "required_proof (di_case d) p"
  shows "observed_for p os \<noteq> [] \<and>
    (\<forall>i \<in> set (observed_for p os). \<not> (ob_state i = EFFECT_CONFIRMED \<and> trusted_observation i)) \<and>
    (\<forall>w i. final_observation (observed_for p os) w = Some i \<longrightarrow>
       trusted_observation i \<and> ob_state i = EFFECT_ABSENT \<and> ob_closure i = CLOSED) \<and>
    attributed d \<and> di_baseline_trusted d \<and> di_recovery_verified d \<and> di_control d = Some SAFE"
proof -
  from assms(5) have "p \<in> set (case_proofs (di_case d))" by (simp add: required_proof_def)
  from safe_denial(2) [OF assms(1,2,5)] projected_fact [OF assms(4) this, of os] assms(3)
  have "ef_state (project_proof os p) = EFFECT_ABSENT" "ef_closure (project_proof os p) = CLOSED" by auto
  note absent = absent_fact [OF this]
  from absent safe_common(2-4) [OF assms(1)] safe_denial(1) [OF assms(1,2)] show ?thesis by blast
qed

theorem safe_denial_is_absence_witness:
  "observed_for sample_proof [sample_observation EFFECT_ABSENT] \<noteq> [] \<and>
   (\<exists>i. final_observation (observed_for sample_proof [sample_observation EFFECT_ABSENT]) ''reader'' = Some i \<and>
        trusted_observation i \<and> ob_closure i = CLOSED)"
proof -
  let ?d = "sample_input denied_case EFFECT_ABSENT DENIED"
  have "cd_verdict (evaluate_check_case sha256_hex ?d) = SAFE" by (simp add: sample_denied_safe)
  moreover have "expects_absence (di_case ?d)" "di_effects ?d = project_check_effect_facts (di_case ?d) [sample_observation EFFECT_ABSENT]"
    "distinct (map proof_fingerprint (case_proofs (di_case ?d)))" "required_proof (di_case ?d) sample_proof"
    by (simp_all add: sample_input_def sample_parts required_proof_def)
  moreover have "final_observation (observed_for sample_proof [sample_observation EFFECT_ABSENT]) ''reader'' = Some (sample_observation EFFECT_ABSENT)"
    by (simp add: final_observation_def observed_for_def sample_observation_def sample_parts)
  ultimately show ?thesis using safe_denial_is_absence by blast
qed

text \<open>C16: a case is judged vulnerable exactly when its permission conditions hold, it expects absence, the
  execution is attributed to the right identity, run and resource, and a trusted fact confirms an effect of
  a required proof; the decision then names exactly the confirmed effects, whatever else failed.\<close>

theorem vulnerable_iff_confirmed:
  "(cd_verdict (evaluate_check_case sha d) = VULNERABLE \<longleftrightarrow>
      condition_status sha d = MATCH \<and> expects_absence (di_case d) \<and> attributed d \<and>
      (\<exists>p f. required_proof (di_case d) p \<and> dict_of ef_proof_fingerprint (di_effects d) (proof_fingerprint p) = Some f \<and>
         ef_state f = EFFECT_CONFIRMED \<and> trusted_fact f)) \<and>
   set (cd_confirmed (evaluate_check_case sha d)) =
     (if cd_verdict (evaluate_check_case sha d) = VULNERABLE
      then {ef_effect_id f | p f. required_proof (di_case d) p \<and>
         dict_of ef_proof_fingerprint (di_effects d) (proof_fingerprint p) = Some f \<and>
         ef_state f = EFFECT_CONFIRMED \<and> trusted_fact f}
      else {})"
proof -
  have v: "cd_verdict (evaluate_check_case sha d) = VULNERABLE \<longleftrightarrow>
      condition_status sha d = MATCH \<and> expects_absence (di_case d) \<and> confirmed_effects d \<noteq> []"
    by (simp add: evaluate_check_case_def Let_def)
  have c: "cd_confirmed (evaluate_check_case sha d) =
      (if cd_verdict (evaluate_check_case sha d) = VULNERABLE then confirmed_effects d else [])"
    by (simp add: evaluate_check_case_def Let_def)
  have ne: "confirmed_effects d \<noteq> [] \<longleftrightarrow> (\<exists>e. e \<in> set (confirmed_effects d))"
    by (cases "confirmed_effects d") auto
  show ?thesis
    unfolding c v ne by (auto simp: confirmed_effects_set)
qed

text \<open>C17: a run passes only when the plan has a verdict for every planned case and no gap, and every one of
  its decisions was safe: conditions met, execution attributed, baseline and recovery verified, a denied
  case beside a safe control, an allowed case with exactly its protected effects confirmed.\<close>

theorem pass_is_complete:
  assumes "aggregate_check_verdict (map (\<lambda>d. cd_verdict (evaluate_check_case sha d)) ds) planned gaps = Inr PASS"
  shows "int (length ds) = planned \<and> ds \<noteq> [] \<and> \<not> gaps \<and>
    (\<forall>d \<in> set ds. condition_status sha d = MATCH \<and> attributed d \<and> di_baseline_trusted d \<and> di_recovery_verified d \<and>
       (if expects_absence (di_case d) then di_control d = Some SAFE
        else set (confirmed_effects d) = set (case_effect_ids (di_case d))))"
proof -
  from assms have a: "int (length ds) = planned" "ds \<noteq> []" "\<not> gaps"
    "\<forall>d \<in> set ds. cd_verdict (evaluate_check_case sha d) = SAFE"
    by (auto simp: aggregate_check_verdict_def list_ex_iff split: if_splits)
  with safe_common(1-4) safe_denial(1) safe_allowance(1) show ?thesis by (simp split: if_splits) metis
qed

theorem pass_is_complete_witness:
  "aggregate_check_verdict (map (\<lambda>d. cd_verdict (evaluate_check_case sha256_hex d))
     [sample_input normal_case EFFECT_CONFIRMED ACCEPTED, sample_input denied_case EFFECT_ABSENT DENIED]) 2 False = Inr PASS \<and>
   attributed (sample_input denied_case EFFECT_ABSENT DENIED)"
proof -
  let ?ds = "[sample_input normal_case EFFECT_CONFIRMED ACCEPTED, sample_input denied_case EFFECT_ABSENT DENIED]"
  have p: "aggregate_check_verdict (map (\<lambda>d. cd_verdict (evaluate_check_case sha256_hex d)) ?ds) 2 False = Inr PASS"
    by (simp add: sample_normal_safe sample_denied_safe aggregate_check_verdict_def)
  from pass_is_complete [OF p] p show ?thesis by auto
qed

text \<open>C15: from the scenario reader to the decision: when the control verdict of a denied scenario case
  resolves to safe over results the evaluator produced, some case of the same flow, resource and effects
  was evaluated, expects the effects to be present, was judged safe, and had exactly those effects
  confirmed; the absence is never accepted for an operation that was not shown to work.\<close>

theorem safe_absence_shown_possible:
  assumes "validate_scenario_cases sha s actions = Inr ()" and "document_errors (fs_document s) = []"
    and "distinct (map case_id (all_cases actions))" and "c \<in> set (all_cases actions)" and "batch_shape c"
    and "case_occurrence c \<noteq> None" and "expects_absence c"
    and "resolved_control_verdict (Some s) x c results = Inr (Some SAFE)"
    and "\<forall>k r. results k = Some r \<longrightarrow> (\<exists>d. di_case d \<in> set (all_cases actions) \<and> case_id (di_case d) = k \<and>
      r = evaluate_check_case sha d)"
  shows "\<exists>d. di_case d \<in> set (all_cases actions) \<and> case_signature (di_case d) = case_signature c \<and>
    \<not> expects_absence (di_case d) \<and> cd_verdict (evaluate_check_case sha d) = SAFE \<and>
    set (confirmed_effects d) = set (case_effect_ids c)"
proof -
  from absence_has_control [OF assms(1-7)] obtain ks n where n: "scenario_control_cases s (case_id c) = Inr ks"
    "n \<in> set (all_cases actions)" "case_id n \<in> set ks" "case_signature n = case_signature c" "\<not> expects_absence n" by blast
  from assms(8) n(1,3) obtain r where "results (case_id n) = Some r" "cd_verdict r = SAFE"
    unfolding resolved_control_verdict_def control_keys_def Let_def list_all_iff given_def
    by (auto split: if_splits option.splits)
  with assms(9) obtain d where d: "di_case d \<in> set (all_cases actions)" "case_id (di_case d) = case_id n"
    "cd_verdict (evaluate_check_case sha d) = SAFE" by blast
  have "di_case d = n" using assms(3) d(1,2) n(2) by (auto simp: distinct_map dest: inj_onD)
  with d n safe_allowance(1) [OF d(3)] show ?thesis by (auto simp: case_signature_def)
qed

theorem safe_absence_shown_possible_witness:
  "\<exists>d. di_case d \<in> set (all_cases [sample_action]) \<and> \<not> expects_absence (di_case d) \<and>
     cd_verdict (evaluate_check_case sha256_hex d) = SAFE \<and> set (confirmed_effects d) = {''bef_'' @ digits ''1''}"
proof -
  let ?d = "sample_input normal_case EFFECT_CONFIRMED ACCEPTED"
  let ?results = "Map.empty(''case_'' @ digits ''1'' \<mapsto> evaluate_check_case sha256_hex ?d)"
  have c: "denied_case \<in> set (all_cases [sample_action])" "batch_shape denied_case" "case_occurrence denied_case \<noteq> None"
    "expects_absence denied_case" "distinct (map case_id (all_cases [sample_action]))" "case_id denied_case = ''case_'' @ digits ''2''"
    "normal_case \<in> set (all_cases [sample_action])" "case_id normal_case = ''case_'' @ digits ''1''"
    by (simp_all add: all_cases_def sample_action_def sample_case_def bare_case_def sample_permission_def batch_shape_def
      expects_absence_def digits_def)
  have doc: "document_errors (fs_document sample_scenario) = []" by (simp add: sample_scenario_def sample_document_ok)
  have "scenario_control_cases sample_scenario (case_id denied_case) = Inr [''case_'' @ digits ''1'']"
    unfolding c(6)
    by (simp add: scenario_control_cases_def sample_scenario_def sample_frozen_def sample_document_def sample_normal_def
      sample_challenge_def digits_def)
  then have resolved: "resolved_control_verdict (Some sample_scenario) (sample_action\<lparr>ex_twins := []\<rparr>) denied_case ?results = Inr (Some SAFE)"
    by (simp add: resolved_control_verdict_def control_keys_def sample_normal_safe del: append_Cons)
  have results: "\<forall>k r. ?results k = Some r \<longrightarrow> (\<exists>d. di_case d \<in> set (all_cases [sample_action]) \<and> case_id (di_case d) = k \<and>
      r = evaluate_check_case sha256_hex d)"
    using c(7,8) by (auto simp: sample_input_def intro!: exI [of _ ?d])
  from safe_absence_shown_possible [OF sample_scenario_ok doc c(5,1-4) resolved results]
  show ?thesis by (auto simp: sample_parts)
qed

lemma violations_length: "length (violations gs) \<le> length gs"
  by (induction gs rule: violations.induct) auto

text \<open>The decision on an accepted input is accepted by its own class: at most sixteen reasons and at most
  sixteen confirmed effects, each a well formed effect identifier, so building it never raises.\<close>

theorem decision_constructible:
  assumes "decision_input_errors sha d = []"
  shows "check_decision_errors (evaluate_check_case sha d) = []"
proof -
  let ?c = "di_case d"
  note fields = assms [unfolded decision_input_errors_def Let_def after_fields_Nil append_is_Nil_conv]
  from fields have case_ok: "execution_case_errors sha ?c = []" and facts: "each_field effect_fact_errors (di_effects d) = []"
    and known: "(\<lambda>f. (ef_effect_id f, ef_proof_fingerprint f)) ` set (di_effects d)
      \<subseteq> (\<lambda>p. (proof_effect_id p, proof_fingerprint p)) ` set (case_proofs ?c)"
    by auto
  from case_ok have size: "length (case_effect_ids ?c) \<le> 16" and own: "proof_effect_id ` set (case_proofs ?c) \<subseteq> set (case_effect_ids ?c)"
    unfolding execution_case_errors_def after_fields_Nil case_fields_errors_def append_is_Nil_conv effects_field_def
      size_field_def size_guards_def field_error_Nil case_guards_def Let_def list_ex_iff by auto
  have conf: "\<exists>f \<in> set (di_effects d). ef_effect_id f = e" if "e \<in> set (confirmed_effects d)" for e
    using that dict_of_Some unfolding confirmed_effects_set by fast
  have sub: "set (confirmed_effects d) \<subseteq> set (case_effect_ids ?c)"
  proof
    fix e assume "e \<in> set (confirmed_effects d)"
    with conf obtain f where "f \<in> set (di_effects d)" "ef_effect_id f = e" by blast
    with known have "e \<in> proof_effect_id ` set (case_proofs ?c)" by force
    with own show "e \<in> set (case_effect_ids ?c)" by blast
  qed
  have "distinct (confirmed_effects d)" by (simp add: confirmed_effects_def)
  then have "length (confirmed_effects d) \<le> 16"
    using card_mono [OF _ sub] card_length [of "case_effect_ids ?c"] size distinct_card [of "confirmed_effects d"] by simp
  moreover have "each_field (tag_field ''confirmed_forbidden_effect_ids'' ''bef_'' 32) (confirmed_effects d) = []"
  proof -
    have "tag_field ''effect_id'' ''bef_'' 32 (ef_effect_id f) = []" if "f \<in> set (di_effects d)" for f
      using facts that by (auto simp: each_field_def effect_fact_errors_def)
    with conf show ?thesis
      unfolding each_field_def concat_map_Nil tag_field_def field_error_Nil pattern_guard_def by fastforce
  qed
  moreover have "length (sort (remdups (violations (decision_reasons d)))) \<le> 16"
  proof -
    have "length (decision_reasons d) \<le> 11" by (simp add: decision_reasons_def Let_def)
    with violations_length [of "decision_reasons d"] length_remdups_leq [of "violations (decision_reasons d)"]
    show ?thesis unfolding length_sort by linarith
  qed
  ultimately show ?thesis
    by (auto simp: check_decision_errors_def evaluate_check_case_def Let_def size_field_def size_guards_def field_error_Nil each_field_def)
qed

theorem decision_constructible_witness:
  "check_decision_errors (evaluate_check_case sha256_hex (sample_input denied_case EFFECT_ABSENT DENIED)) = []"
  by (rule decision_constructible) (simp add: sample_input_ok)

end
