(* ===== verification/EffectFacts.thy ===== *)
theory EffectFacts
  imports CheckDecision
begin

section \<open>Security effect facts\<close>

text \<open>
  Models \<^verbatim>\<open>product/backend/domain/verification/facts.py\<close>: execution and observation facts, the digest
  proof of a disclosure, and the aggregation of the observations of one effect on one resource. The
  three enumerations are those of the decision. A constructor that raises makes the aggregation
  raise: its result is \<open>checked\<close>.
\<close>

subsection \<open>Execution and observation facts\<close>

definition reason_code :: "str \<Rightarrow> bool" where
  "reason_code = headed is_upper (\<lambda>c. is_upper c \<or> is_digit c \<or> c = CHR ''_'') 127"

definition reason_guard :: "str list \<Rightarrow> guard" where
  "reason_guard rs = (has_duplicates rs \<or> list_ex (\<lambda>r. \<not> reason_code r) rs, ''reason_codes must contain unique stable codes'')"

record execution_fact =
  xf_case_id :: str
  xf_action_id :: str
  xf_outcome :: execution_outcome
  xf_marker :: str
  xf_input_hash :: str
  xf_output_hash :: str
  xf_reasons :: "str list"

definition execution_fact_errors :: "execution_fact \<Rightarrow> str list" where
  "execution_fact_errors x = after_fields
     (logical_field ''case_id'' (xf_case_id x) @ logical_field ''action_id'' (xf_action_id x)
      @ logical_field ''execution_marker'' (xf_marker x) @ hash_field ''input_hash'' (xf_input_hash x)
      @ hash_field ''output_hash'' (xf_output_hash x) @ size_field ''reason_codes'' 0 16 (xf_reasons x))
     [reason_guard (xf_reasons x),
      (xf_outcome x \<in> {ACCEPTED, DENIED} \<and> xf_reasons x \<noteq> [], ''successful execution facts cannot contain failure reasons''),
      (xf_outcome x \<in> {EXECUTION_FAILED, EXECUTION_UNKNOWN} \<and> xf_reasons x = [],
         ''failed or unknown execution facts require a reason'')]"

definition execution_fact_norm :: "execution_fact \<Rightarrow> execution_fact" where
  "execution_fact_norm x = x\<lparr>xf_reasons := sort (xf_reasons x)\<rparr>"

record observation_fact =
  of_effect_id :: str
  of_requirement_id :: str
  of_resource_id :: str
  of_effect :: effect_state
  of_complete :: bool
  of_reliable :: bool
  of_correlated :: bool
  of_closure :: closure_state
  of_reasons :: "str list"

definition observation_fact_errors :: "observation_fact \<Rightarrow> str list" where
  "observation_fact_errors o' =
     (let sound = (of_complete o' \<and> of_reliable o' \<and> of_correlated o') in after_fields
       (logical_field ''effect_id'' (of_effect_id o') @ logical_field ''requirement_id'' (of_requirement_id o')
        @ logical_field ''resource_id'' (of_resource_id o') @ size_field ''reason_codes'' 0 16 (of_reasons o'))
       [reason_guard (of_reasons o'),
        (of_effect o' = EFFECT_UNKNOWN \<and> sound, ''unknown observation cannot be complete, reliable, and correlated''),
        ((\<not> sound \<or> of_closure o' \<noteq> CLOSED) \<and> of_reasons o' = [],
           ''incomplete, unreliable, uncorrelated, or open observations require a reason''),
        (sound \<and> of_closure o' = CLOSED \<and> of_reasons o' \<noteq> [],
           ''complete reliable observations cannot contain failure reasons'')])"

definition observation_fact_norm :: "observation_fact \<Rightarrow> observation_fact" where
  "observation_fact_norm o' = o'\<lparr>of_reasons := sort (of_reasons o')\<rparr>"

record disclosure_proof =
  dp_version :: str
  dp_complete :: bool
  dp_owner_digest :: str
  dp_response_digest :: str
  dp_matched :: bool
  dp_correlation_digest :: str

definition disclosure_errors :: "disclosure_proof \<Rightarrow> str list" where
  "disclosure_errors p = size_field ''projection_version'' 1 64 (dp_version p)
     @ hash_field ''owner_digest'' (dp_owner_digest p) @ hash_field ''response_digest'' (dp_response_digest p)
     @ hash_field ''correlation_digest'' (dp_correlation_digest p)"

subsection \<open>The aggregated fact\<close>

record security_effect_fact =
  sf_effect_id :: str
  sf_kind :: effect_kind
  sf_resource_id :: str
  sf_state :: effect_state
  sf_complete :: bool
  sf_reliable :: bool
  sf_correlated :: bool
  sf_closure :: closure_state
  sf_baseline :: bool
  sf_sources :: "str list"
  sf_proof :: "disclosure_proof option"
  sf_reasons :: "str list"

definition sound_fact :: "security_effect_fact \<Rightarrow> bool" where
  "sound_fact f \<longleftrightarrow> sf_complete f \<and> sf_reliable f \<and> sf_correlated f"

definition security_effect_guards :: "security_effect_fact \<Rightarrow> guard list" where
  "security_effect_guards f =
     [reason_guard (sf_reasons f),
      (has_duplicates (sf_sources f), ''source requirement IDs must be unique''),
      (sf_kind f = DATA_DISCLOSURE \<and> sf_proof f = None, ''DATA_DISCLOSURE requires a digest proof''),
      (sf_kind f = DATA_DISCLOSURE \<and> sf_state f = EFFECT_CONFIRMED \<and>
         given (\<lambda>p. \<not> dp_complete p \<or> \<not> dp_matched p) (sf_proof f), ''confirmed disclosure requires a matching digest''),
      (sf_kind f \<noteq> DATA_DISCLOSURE \<and> sf_proof f \<noteq> None, ''disclosure proof is only valid for DATA_DISCLOSURE''),
      (sf_state f = EFFECT_CONFIRMED \<and> \<not> sound_fact f, ''confirmed effect requires an authoritative complete source''),
      (sf_state f = EFFECT_ABSENT \<and> \<not> (sound_fact f \<and> sf_closure f = CLOSED \<and> sf_baseline f),
         ''absent effect requires complete closed evidence and a valid baseline''),
      (sf_state f = EFFECT_UNKNOWN \<and> sf_reasons f = [], ''unknown effect requires a reason'')]"

definition security_effect_errors :: "security_effect_fact \<Rightarrow> str list" where
  "security_effect_errors f = after_fields
     (logical_field ''effect_id'' (sf_effect_id f) @ logical_field ''resource_id'' (sf_resource_id f)
      @ size_field ''source_requirement_ids'' 1 64 (sf_sources f) @ optional_field disclosure_errors (sf_proof f)
      @ size_field ''reason_codes'' 0 32 (sf_reasons f))
     (security_effect_guards f)"

definition security_effect_norm :: "security_effect_fact \<Rightarrow> security_effect_fact" where
  "security_effect_norm f = f\<lparr>sf_sources := sort (sf_sources f), sf_reasons := sort (sf_reasons f)\<rparr>"

definition new_effect_fact :: "security_effect_fact \<Rightarrow> security_effect_fact checked" where
  \<comment> \<open>the constructor: its errors, or the object with its tuples sorted\<close>
  "new_effect_fact f = checked (security_effect_errors f) (security_effect_norm f)"

subsection \<open>Aggregation\<close>

definition aggregate_closure :: "closure_state list \<Rightarrow> closure_state" where
  "aggregate_closure vs = (if vs \<noteq> [] \<and> list_all (\<lambda>v. v = CLOSED) vs then CLOSED
     else if OPEN \<in> set vs then OPEN else CLOSURE_UNKNOWN)"

definition selected_facts ::
    "effect_definition \<Rightarrow> str \<Rightarrow> str list \<Rightarrow> str list \<Rightarrow> observation_fact list \<Rightarrow> observation_fact list" where
  "selected_facts e rid required corroborating os = filter (\<lambda>i. of_effect_id i = effect_id e \<and> of_resource_id i = rid \<and>
     of_requirement_id i \<in> set (required @ corroborating)) os"

definition authoritative_facts ::
    "effect_definition \<Rightarrow> str \<Rightarrow> str list \<Rightarrow> str list \<Rightarrow> observation_fact list \<Rightarrow> observation_fact list" where
  "authoritative_facts e rid required corroborating os =
     filter (\<lambda>i. of_requirement_id i \<in> set required) (selected_facts e rid required corroborating os)"

definition sound_observation :: "observation_fact \<Rightarrow> bool" where
  "sound_observation i \<longleftrightarrow> of_complete i \<and> of_reliable i \<and> of_correlated i"

definition proved :: "disclosure_proof option \<Rightarrow> bool" where
  "proved p \<longleftrightarrow> given (\<lambda>p. dp_complete p \<and> dp_matched p) p"

definition confirming_facts ::
    "effect_definition \<Rightarrow> str \<Rightarrow> str list \<Rightarrow> str list \<Rightarrow> observation_fact list \<Rightarrow> disclosure_proof option \<Rightarrow> observation_fact list" where
  "confirming_facts e rid required corroborating os proof =
     (let selected = selected_facts e rid required corroborating os;
          authoritative = authoritative_facts e rid required corroborating os
      in if proved proof then (if authoritative \<noteq> [] then authoritative else selected)
         else filter (\<lambda>i. of_effect i = EFFECT_CONFIRMED \<and> sound_observation i) authoritative)"

definition last_facts :: "observation_fact list \<Rightarrow> observation_fact list" where
  \<comment> \<open>\<open>{item.requirement_id: item for item in authoritative}.values()\<close>\<close>
  "last_facts authoritative = map (the \<circ> dict_of of_requirement_id authoritative) (dict_keys of_requirement_id authoritative)"

definition channels_complete :: "str list \<Rightarrow> observation_fact list \<Rightarrow> bool" where
  "channels_complete required authoritative \<longleftrightarrow> of_requirement_id ` set authoritative = set required \<and>
     list_all of_complete (last_facts authoritative)"

definition channels_reliable :: "str list \<Rightarrow> observation_fact list \<Rightarrow> bool" where
  "channels_reliable required authoritative \<longleftrightarrow> channels_complete required authoritative \<and>
     list_all of_reliable (last_facts authoritative)"

definition channels_correlated :: "str list \<Rightarrow> observation_fact list \<Rightarrow> bool" where
  "channels_correlated required authoritative \<longleftrightarrow> channels_reliable required authoritative \<and>
     list_all of_correlated (last_facts authoritative)"

definition channels_closure :: "observation_fact list \<Rightarrow> closure_state" where
  "channels_closure authoritative = aggregate_closure (map of_closure (last_facts authoritative))"

definition absence_established :: "str list \<Rightarrow> observation_fact list \<Rightarrow> bool \<Rightarrow> disclosure_proof option \<Rightarrow> bool" where
  "absence_established required authoritative baseline proof \<longleftrightarrow>
     channels_correlated required authoritative \<and>
     list_all (\<lambda>i. of_effect i = EFFECT_ABSENT) (last_facts authoritative) \<and>
     absent_or (\<lambda>p. dp_complete p \<and> \<not> dp_matched p) proof \<and>
     channels_closure authoritative = CLOSED \<and> baseline"

definition unknown_reasons :: "str list \<Rightarrow> observation_fact list \<Rightarrow> bool \<Rightarrow> disclosure_proof option \<Rightarrow> str list" where
  "unknown_reasons required authoritative baseline proof =
     (let reasons = violations
        [(\<not> channels_complete required authoritative, ''REQUIRED_EFFECT_CHANNEL_INCOMPLETE''),
         (channels_complete required authoritative \<and> \<not> channels_reliable required authoritative,
            ''REQUIRED_EFFECT_CHANNEL_UNRELIABLE''),
         (channels_reliable required authoritative \<and> \<not> channels_correlated required authoritative,
            ''REQUIRED_EFFECT_CHANNEL_UNCORRELATED''),
         (channels_closure authoritative \<noteq> CLOSED, ''TEMPORAL_CLOSURE_INCOMPLETE''),
         (\<not> baseline, ''BASELINE_INTEGRITY_INVALID''),
         (given (\<lambda>p. \<not> dp_complete p) proof, ''DISCLOSURE_PROJECTION_INCOMPLETE'')]
      in if reasons = [] then [''EFFECT_STATE_UNKNOWN''] else reasons)"

definition aggregate_security_effect ::
    "effect_definition \<Rightarrow> str \<Rightarrow> str list \<Rightarrow> str list \<Rightarrow> observation_fact list \<Rightarrow> bool \<Rightarrow> disclosure_proof option \<Rightarrow>
       security_effect_fact checked" where
  "aggregate_security_effect e rid required corroborating os baseline proof =
     (let confirmed = confirming_facts e rid required corroborating os proof;
          authoritative = authoritative_facts e rid required corroborating os;
          fact = \<lparr>sf_effect_id = effect_id e, sf_kind = effect_kind e, sf_resource_id = rid,
            sf_state = EFFECT_CONFIRMED, sf_complete = True, sf_reliable = True, sf_correlated = True,
            sf_closure = aggregate_closure (map of_closure confirmed), sf_baseline = baseline,
            sf_sources = sort (remdups (map of_requirement_id confirmed)), sf_proof = proof, sf_reasons = []\<rparr>
      in if confirmed \<noteq> [] then new_effect_fact fact
         else if absence_established required authoritative baseline proof
         then new_effect_fact (fact\<lparr>sf_state := EFFECT_ABSENT, sf_closure := CLOSED, sf_baseline := True, sf_sources := required\<rparr>)
         else new_effect_fact (fact\<lparr>sf_state := EFFECT_UNKNOWN,
           sf_complete := channels_complete required authoritative, sf_reliable := channels_reliable required authoritative,
           sf_correlated := channels_correlated required authoritative, sf_closure := channels_closure authoritative,
           sf_sources := sort (remdups (if required \<noteq> [] then required else required @ corroborating)),
           sf_reasons := unknown_reasons required authoritative baseline proof\<rparr>))"

subsection \<open>What the result says\<close>

lemma new_effect_fact_Inr: "new_effect_fact f = Inr g \<longleftrightarrow> security_effect_errors f = [] \<and> g = security_effect_norm f"
  by (auto simp: new_effect_fact_def guard_simps)

lemma aggregate_closure_closed: "aggregate_closure vs = CLOSED \<longleftrightarrow> vs \<noteq> [] \<and> (\<forall>v \<in> set vs. v = CLOSED)"
  by (auto simp: aggregate_closure_def list_all_iff)

lemma last_facts_set: "x \<in> set (last_facts xs) \<longleftrightarrow> (\<exists>i. dict_of of_requirement_id xs i = Some x)"
proof -
  have "(\<exists>i. dict_of of_requirement_id xs i = Some x) \<longleftrightarrow>
      (\<exists>i \<in> of_requirement_id ` set xs. the (dict_of of_requirement_id xs i) = x)"
    by (metis dict_of_None dict_of_member option.distinct(1) option.sel)
  then show ?thesis by (auto simp: last_facts_def)
qed

lemma aggregate_state:
  assumes "aggregate_security_effect e rid required corroborating os baseline proof = Inr f"
  shows "sf_state f =
    (if confirming_facts e rid required corroborating os proof \<noteq> [] then EFFECT_CONFIRMED
     else if absence_established required (authoritative_facts e rid required corroborating os) baseline proof then EFFECT_ABSENT
     else EFFECT_UNKNOWN)"
  using assms unfolding aggregate_security_effect_def Let_def
  by (simp add: new_effect_fact_Inr security_effect_norm_def split: if_splits)

lemma established_facts:
  assumes "absence_established required authoritative baseline proof"
  shows "of_requirement_id ` set authoritative = set required" and "baseline"
    and "absent_or (\<lambda>p. dp_complete p \<and> \<not> dp_matched p) proof"
    and "dict_of of_requirement_id authoritative q = Some i \<Longrightarrow>
      sound_observation i \<and> of_effect i = EFFECT_ABSENT \<and> of_closure i = CLOSED"
proof -
  note d = absence_established_def channels_correlated_def channels_reliable_def channels_complete_def
  from assms show "of_requirement_id ` set authoritative = set required" "baseline"
    "absent_or (\<lambda>p. dp_complete p \<and> \<not> dp_matched p) proof"
    unfolding d by blast+
  assume "dict_of of_requirement_id authoritative q = Some i"
  then have "i \<in> set (last_facts authoritative)" unfolding last_facts_set by blast
  with assms show "sound_observation i \<and> of_effect i = EFFECT_ABSENT \<and> of_closure i = CLOSED"
    unfolding d channels_closure_def aggregate_closure_closed list_all_iff sound_observation_def by auto
qed

end
