(* ===== verification/EffectProperties.thy ===== *)
theory EffectProperties
  imports EffectFacts Sample
begin

section \<open>Properties of the effect aggregation\<close>

text \<open>
  An absent effect rests on a complete, closed and sound last observation of every required channel;
  and the exact condition under which the aggregation raises instead of returning a fact.
\<close>

definition channel_facts :: "effect_definition \<Rightarrow> str \<Rightarrow> str \<Rightarrow> observation_fact list \<Rightarrow> observation_fact list" where
  \<comment> \<open>the observations of one requirement about the effect on the resource\<close>
  "channel_facts e rid q os = filter (\<lambda>i. of_effect_id i = effect_id e \<and> of_resource_id i = rid \<and> of_requirement_id i = q) os"

lemma dict_of_last: "dict_of k xs q = (if filter (\<lambda>x. k x = q) xs = [] then None else Some (last (filter (\<lambda>x. k x = q) xs)))"
  by (induction xs rule: rev_induct) (auto simp: dict_of_snoc)

lemma authoritative_channel:
  assumes "q \<in> set required"
  shows "filter (\<lambda>i. of_requirement_id i = q) (authoritative_facts e rid required corroborating os) = channel_facts e rid q os"
  using assms by (auto simp: authoritative_facts_def selected_facts_def channel_facts_def intro!: filter_cong)

lemma authoritative_member:
  "i \<in> set (channel_facts e rid q os) \<Longrightarrow> q \<in> set required \<Longrightarrow> i \<in> set (authoritative_facts e rid required corroborating os)"
  by (auto simp: authoritative_facts_def selected_facts_def channel_facts_def)

text \<open>C20: an effect reported absent has, for each required channel, at least one observation of this effect
  and resource, none of them a sound confirmation, and the last of them sound, closed and absent; the
  baseline was intact and no disclosure proof matched.\<close>

theorem absent_effect_established:
  assumes "aggregate_security_effect e rid required corroborating os baseline proof = Inr f"
    and "sf_state f = EFFECT_ABSENT" and "q \<in> set required"
  shows "channel_facts e rid q os \<noteq> [] \<and>
    (\<forall>i \<in> set (channel_facts e rid q os). \<not> (of_effect i = EFFECT_CONFIRMED \<and> sound_observation i)) \<and>
    sound_observation (last (channel_facts e rid q os)) \<and> of_effect (last (channel_facts e rid q os)) = EFFECT_ABSENT \<and>
    of_closure (last (channel_facts e rid q os)) = CLOSED \<and> baseline \<and> \<not> proved proof"
proof -
  let ?a = "authoritative_facts e rid required corroborating os"
  from aggregate_state [OF assms(1)] assms(2)
  have none: "confirming_facts e rid required corroborating os proof = []" and est: "absence_established required ?a baseline proof"
    by (auto split: if_splits)
  note est = established_facts [OF est]
  from est(3) have p: "\<not> proved proof" by (cases "proof") (auto simp: proved_def)
  with none have "filter (\<lambda>i. of_effect i = EFFECT_CONFIRMED \<and> sound_observation i) ?a = []"
    by (simp add: confirming_facts_def Let_def)
  then have conf: "\<forall>i \<in> set (channel_facts e rid q os). \<not> (of_effect i = EFFECT_CONFIRMED \<and> sound_observation i)"
    using authoritative_member [OF _ assms(3)] by (fastforce simp: filter_empty_conv)
  from est(1) assms(3) have "q \<in> of_requirement_id ` set ?a" by simp
  then obtain i where i: "dict_of of_requirement_id ?a q = Some i" using dict_of_member by metis
  then have "channel_facts e rid q os \<noteq> []" "last (channel_facts e rid q os) = i"
    unfolding dict_of_last authoritative_channel [OF assms(3)] by (auto split: if_splits)
  with est(4) [OF i] conf est(2) p show ?thesis by simp
qed

definition closed_observation :: "effect_state \<Rightarrow> observation_fact" where
  "closed_observation x = \<lparr>of_effect_id = ''changed'', of_requirement_id = ''reader'', of_resource_id = ''doc-1'', of_effect = x,
     of_complete = True, of_reliable = True, of_correlated = True, of_closure = CLOSED, of_reasons = []\<rparr>"

theorem absent_effect_established_witness:
  "\<exists>f. aggregate_security_effect changed_effect ''doc-1'' [''reader''] [] [closed_observation EFFECT_ABSENT] True None = Inr f \<and>
     of_closure (last (channel_facts changed_effect ''doc-1'' ''reader'' [closed_observation EFFECT_ABSENT])) = CLOSED"
proof -
  have "map_sum (\<lambda>x. x) sf_state (aggregate_security_effect changed_effect ''doc-1'' [''reader''] [] [closed_observation EFFECT_ABSENT] True None)
      = Inr EFFECT_ABSENT"
    by code_simp
  then obtain f where f: "aggregate_security_effect changed_effect ''doc-1'' [''reader''] [] [closed_observation EFFECT_ABSENT] True None = Inr f"
    "sf_state f = EFFECT_ABSENT"
    by (cases "aggregate_security_effect changed_effect ''doc-1'' [''reader''] [] [closed_observation EFFECT_ABSENT] True None") auto
  from absent_effect_established [OF f, of "''reader''"] f show ?thesis by auto
qed

subsection \<open>When the aggregation raises\<close>

lemma reason_literals:
  "reason_code ''REQUIRED_EFFECT_CHANNEL_INCOMPLETE''" "reason_code ''REQUIRED_EFFECT_CHANNEL_UNRELIABLE''"
  "reason_code ''REQUIRED_EFFECT_CHANNEL_UNCORRELATED''" "reason_code ''TEMPORAL_CLOSURE_INCOMPLETE''"
  "reason_code ''BASELINE_INTEGRITY_INVALID''" "reason_code ''DISCLOSURE_PROJECTION_INCOMPLETE''" "reason_code ''EFFECT_STATE_UNKNOWN''"
  by code_simp+

lemma unknown_reasons_ok:
  "unknown_reasons required a baseline proof \<noteq> []" "length (unknown_reasons required a baseline proof) \<le> 6"
  "distinct (unknown_reasons required a baseline proof)" "\<forall>r \<in> set (unknown_reasons required a baseline proof). reason_code r"
  unfolding unknown_reasons_def Let_def
  by (auto simp: reason_literals)

definition disclosure_mismatch :: "effect_definition \<Rightarrow> observation_fact list \<Rightarrow> disclosure_proof option \<Rightarrow> bool" where
  "disclosure_mismatch e confirming proof \<longleftrightarrow> (effect_kind e = DATA_DISCLOSURE) \<noteq> (proof \<noteq> None) \<or>
     (effect_kind e = DATA_DISCLOSURE \<and> confirming \<noteq> [] \<and> \<not> proved proof)"

lemma sources_ok:
  assumes "length (required @ corroborating) \<le> 64" and "set ids \<subseteq> set (required @ corroborating)"
  shows "length (sort (remdups ids)) \<le> 64"
proof -
  have "length (remdups ids) = card (set ids)" by (simp add: length_remdups_card_conv)
  also have "\<dots> \<le> card (set (required @ corroborating))" by (rule card_mono) (use assms in auto)
  also have "\<dots> \<le> 64" using card_length [of "required @ corroborating"] assms(1) by linarith
  finally show ?thesis by simp
qed

lemma effect_fact_accepted:
  assumes "intent_id (sf_effect_id f)" and "intent_id (sf_resource_id f)" and "sf_sources f \<noteq> []" and "length (sf_sources f) \<le> 64"
    and "distinct (sf_sources f)" and "optional_field disclosure_errors (sf_proof f) = []"
    and "length (sf_reasons f) \<le> 32" and "distinct (sf_reasons f)" and "\<forall>r \<in> set (sf_reasons f). reason_code r"
  shows "security_effect_errors f = [] \<longleftrightarrow>
    (sf_kind f = DATA_DISCLOSURE \<longleftrightarrow> sf_proof f \<noteq> None) \<and>
    (sf_kind f = DATA_DISCLOSURE \<and> sf_state f = EFFECT_CONFIRMED \<longrightarrow> proved (sf_proof f)) \<and>
    (sf_state f = EFFECT_CONFIRMED \<longrightarrow> sound_fact f) \<and>
    (sf_state f = EFFECT_ABSENT \<longrightarrow> sound_fact f \<and> sf_closure f = CLOSED \<and> sf_baseline f) \<and>
    (sf_state f = EFFECT_UNKNOWN \<longrightarrow> sf_reasons f \<noteq> [])"
proof -
  have fields: "logical_field ''effect_id'' (sf_effect_id f) @ logical_field ''resource_id'' (sf_resource_id f)
      @ size_field ''source_requirement_ids'' 1 64 (sf_sources f) @ optional_field disclosure_errors (sf_proof f)
      @ size_field ''reason_codes'' 0 32 (sf_reasons f) = []"
    using assms by (cases "sf_sources f") (auto simp: logical_field_def pattern_guard_def field_error_Nil size_field_def size_guards_def)
  have "list_ex (\<lambda>r. \<not> reason_code r) (sf_reasons f) = False" using assms(9) by (auto simp: list_ex_iff)
  with fields assms(5,8) show ?thesis
    unfolding security_effect_errors_def after_fields_Nil security_effect_guards_def
    by (cases "sf_proof f") (auto simp: reason_guard_def has_duplicates_iff proved_def)
qed

text \<open>On accepted inputs the aggregation raises exactly when the effect is a data disclosure without a
  digest proof, a proof is given for another kind of effect, or a disclosure is confirmed by an
  observation while the proof is incomplete or did not match; it never answers \<open>UNKNOWN\<close> in those cases.\<close>

theorem aggregate_raises_iff:
  assumes "intent_id (effect_id e)" and "intent_id rid" and "required \<noteq> []" and "distinct required"
    and "length (required @ corroborating) \<le> 64" and "optional_field disclosure_errors proof = []"
  shows "(\<exists>es. aggregate_security_effect e rid required corroborating os baseline proof = Inl es) \<longleftrightarrow>
    disclosure_mismatch e (confirming_facts e rid required corroborating os proof) proof"
proof -
  let ?c = "confirming_facts e rid required corroborating os proof"
  let ?a = "authoritative_facts e rid required corroborating os"
  have raises: "(\<exists>es. new_effect_fact f = Inl es) \<longleftrightarrow> security_effect_errors f \<noteq> []" for f
    by (auto simp: new_effect_fact_def guard_simps)
  have sub: "of_requirement_id ` set ?c \<subseteq> set (required @ corroborating)"
    by (auto simp: confirming_facts_def Let_def authoritative_facts_def selected_facts_def split: if_splits)
  have c64: "length (remdups (map of_requirement_id ?c)) \<le> 64"
    using sources_ok [OF assms(5), of "map of_requirement_id ?c"] sub by simp
  have r64: "length required \<le> 64" using assms(5) by simp
  note reasons = unknown_reasons_ok [of required ?a baseline "proof"]
  have r32: "length (unknown_reasons required ?a baseline proof) \<le> 32" using reasons(2) by simp
  show ?thesis
  proof (cases "?c = []")
    case False
    then show ?thesis
      unfolding aggregate_security_effect_def Let_def disclosure_mismatch_def
      by (simp add: raises effect_fact_accepted assms c64 sound_fact_def)
  next
    case True
    show ?thesis
    proof (cases "absence_established required ?a baseline proof")
      case est: True
      with established_facts(2) have "baseline" by blast
      with True est show ?thesis
        unfolding aggregate_security_effect_def Let_def disclosure_mismatch_def
        by (simp add: raises effect_fact_accepted assms r64 sound_fact_def)
    next
      case est: False
      with True show ?thesis
        unfolding aggregate_security_effect_def Let_def disclosure_mismatch_def
        by (simp add: raises effect_fact_accepted assms r64 sound_fact_def reasons r32 distinct_remdups_id)
    qed
  qed
qed

theorem aggregate_raises_iff_witness:
  "\<exists>es. aggregate_security_effect (changed_effect\<lparr>effect_kind := DATA_DISCLOSURE\<rparr>) ''doc-1'' [''reader''] []
     [closed_observation EFFECT_ABSENT] True None = Inl es"
proof -
  have "intent_id (effect_id (changed_effect\<lparr>effect_kind := DATA_DISCLOSURE\<rparr>))" "intent_id ''doc-1''" by code_simp+
  then show ?thesis
    by (subst aggregate_raises_iff) (simp_all add: optional_field_def disclosure_mismatch_def)
qed

end
