(* ===== verification/Scalars.thy ===== *)
theory Scalars
  imports WireModels Complex_Main
begin

section \<open>Scalar facts and field mutations\<close>

text \<open>
  Models \<^verbatim>\<open>product/protocols/checks/field_mutation.py\<close>. A scalar is what a JSON leaf becomes in Python:
  a finite float is the rational number it denotes (the two zeros are one value, as for \<open>==\<close>).
\<close>

datatype scalar = Null | Truth bool | Whole int | Ratio rat | Chars str

fun scalar_errors :: "str \<Rightarrow> scalar \<Rightarrow> str list" where
  "scalar_errors field (Chars s) = size_field field 0 256 s"
| "scalar_errors field (Whole n) = field_error
     [(n < - 9007199254740991, field @ '': greater_than_equal''), (9007199254740991 < n, field @ '': less_than_equal'')]"
| "scalar_errors field _ = []"

definition field_name :: "str \<Rightarrow> bool" where
  "field_name = headed (\<lambda>c. is_lower c \<or> is_upper c \<or> c = CHR ''_'')
     (\<lambda>c. is_lower c \<or> is_upper c \<or> is_digit c \<or> c = CHR ''_'') 63"

definition path_field :: "str \<Rightarrow> str list \<Rightarrow> str list" where
  "path_field field p = size_field field 1 8 p @ each_field (\<lambda>v. field_error [pattern_guard field field_name v]) p"

datatype mutation_operation = CHANGE | ASSIGN | ADD | REMOVE

record field_mutation =
  fm_path :: "str list"
  fm_operation :: mutation_operation
  fm_expected :: scalar

definition secret_names :: "str list" where
  "secret_names = [''password'', ''passwd'', ''cookie'', ''authorization'', ''token'', ''accesstoken'', ''refreshtoken'',
     ''apikey'', ''secret'', ''clientsecret'', ''privatekey'', ''credential'', ''credentials'']"

definition secret_part :: "str \<Rightarrow> bool" where
  "secret_part v \<longleftrightarrow> filter (\<lambda>c. c \<noteq> CHR ''_'') (map lower_char v) \<in> set secret_names"

definition mutation_errors :: "field_mutation \<Rightarrow> str list" where
  "mutation_errors m = after_fields
     (after_fields (path_field ''path'' (fm_path m))
        [(list_ex secret_part (fm_path m), ''secret fields cannot be published as mutation effects'')]
      @ scalar_errors ''expected_value'' (fm_expected m))
     [(fm_operation m \<in> {CHANGE, REMOVE} \<and> fm_expected m \<noteq> Null, ''only ASSIGN and ADD accept an expected value'')]"

fun numeric :: "scalar \<Rightarrow> rat option" where
  "numeric (Whole n) = Some (of_int n)"
| "numeric (Ratio q) = Some q"
| "numeric _ = None"

definition is_truth :: "scalar \<Rightarrow> bool" where
  "is_truth v = (case v of Truth _ \<Rightarrow> True | _ \<Rightarrow> False)"

definition python_equal :: "scalar \<Rightarrow> scalar \<Rightarrow> bool" where
  \<comment> \<open>\<open>==\<close> on values that are not booleans\<close>
  "python_equal l r \<longleftrightarrow> (if numeric l \<noteq> None \<and> numeric r \<noteq> None then numeric l = numeric r else l = r)"

definition same_scalar :: "scalar \<Rightarrow> scalar \<Rightarrow> bool" where
  "same_scalar l r \<longleftrightarrow> (if is_truth l \<or> is_truth r then l = r else python_equal l r)"

definition mutation_happened ::
    "field_mutation option \<Rightarrow> scalar \<Rightarrow> scalar \<Rightarrow> bool \<Rightarrow> bool \<Rightarrow> scalar \<Rightarrow> bool" where
  \<comment> \<open>the expected state is \<open>Null\<close> when none is expected\<close>
  "mutation_happened requirement before after before_present after_present wanted =
     (let changed = (before_present \<noteq> after_present \<or> (before_present \<and> \<not> same_scalar before after)) in
      case requirement of
        None \<Rightarrow> changed \<and> after_present \<and> (wanted = Null \<or> same_scalar after wanted)
      | Some m \<Rightarrow>
          (case fm_operation m of
             REMOVE \<Rightarrow> before_present \<and> \<not> after_present
           | ADD \<Rightarrow> \<not> before_present \<and> after_present \<and> same_scalar after (fm_expected m)
           | ASSIGN \<Rightarrow> changed \<and> after_present \<and> same_scalar after (fm_expected m)
           | CHANGE \<Rightarrow> changed))"

lemma same_scalar_refl [simp]: "same_scalar v v"
  by (simp add: same_scalar_def python_equal_def)

lemma same_scalar_sym: "same_scalar v w = same_scalar w v"
  by (auto simp: same_scalar_def python_equal_def)

lemma same_scalar_trans: "same_scalar u v \<Longrightarrow> same_scalar v w \<Longrightarrow> same_scalar u w"
  by (cases u; cases v; cases w) (auto simp: same_scalar_def python_equal_def is_truth_def)

lemma mutation_changes:
  "mutation_happened m b a bp ap x \<Longrightarrow> bp \<noteq> ap \<or> \<not> same_scalar b a"
  by (auto simp: mutation_happened_def Let_def split: option.splits mutation_operation.splits)

end
