(* ===== verification/AsyncTask.thy ===== *)
theory AsyncTask
  imports Prelude
begin

section \<open>Following an asynchronous task\<close>

text \<open>
  Models \<^verbatim>\<open>product/backend/domain/verification/async_progress.py\<close> and the part of the polling loop of
  \<^verbatim>\<open>infrastructure/observers/adapters/async_task.py\<close> that follows one task: the task it is bound to,
  the states it has seen and the terminal one. A poll that is not accepted ends the loop with a
  conflict, so the accepted polls are the steps of the machine.
\<close>

datatype task_state = NOT_CREATED | QUEUED | RUNNING | SUCCESS | TASK_FAILED | TIMED_OUT | CANCELLED

fun task_order :: "task_state \<Rightarrow> nat" where
  "task_order NOT_CREATED = 0"
| "task_order QUEUED = 1"
| "task_order RUNNING = 2"
| "task_order SUCCESS = 3"
| "task_order TASK_FAILED = 3"
| "task_order TIMED_OUT = 3"
| "task_order CANCELLED = 3"

definition task_transition ::
    "task_state option \<Rightarrow> str option \<Rightarrow> task_state option \<Rightarrow> str option \<Rightarrow> bool checked" where
  \<comment> \<open>\<open>current = None\<close>: a text that names no state\<close>
  "task_transition previous previous_task current current_task =
     (case current of
        None \<Rightarrow> Inl [''ASYNC_TASK_STATE_CONFLICT'']
      | Some c \<Rightarrow>
          if (previous_task \<noteq> None \<and> current_task \<noteq> previous_task) \<or>
             given (\<lambda>p. task_order c < task_order p \<or> (task_order p = 3 \<and> c \<noteq> p)) previous
          then Inl [''ASYNC_TASK_STATE_CONFLICT''] else Inr (task_order c = 3))"

record poll_state =
  ps_task :: "str option"
  ps_states :: "task_state list"
  ps_terminal :: "task_state option"

definition poll_start :: poll_state where
  "poll_start = \<lparr>ps_task = None, ps_states = [], ps_terminal = None\<rparr>"

definition last_state :: "poll_state \<Rightarrow> task_state option" where
  "last_state s = (if ps_states s = [] then None else Some (last (ps_states s)))"

definition accept_poll :: "poll_state \<Rightarrow> task_state \<times> str option \<Rightarrow> poll_state checked" where
  "accept_poll s = (\<lambda>(current, task).
     andthen (task_transition (last_state s) (ps_task s) (Some current) task) (\<lambda>_. Inr
       \<lparr>ps_task = (if task \<noteq> None then task else ps_task s), ps_states = ps_states s @ [current],
        ps_terminal = (if ps_terminal s = None \<and> task_order current = 3 then Some current else ps_terminal s)\<rparr>))"

text \<open>The loop leaves at the first terminal state, so no poll follows one.\<close>

inductive polled :: "(task_state \<times> str option) list \<Rightarrow> poll_state \<Rightarrow> bool" where
  start: "polled [] poll_start"
| poll: "polled rs s \<Longrightarrow> ps_terminal s = None \<Longrightarrow> accept_poll s r = Inr s' \<Longrightarrow> polled (rs @ [r]) s'"

inductive_cases polled_Nil: "polled [] s"
inductive_cases polled_snoc: "polled (rs @ [r]) s"

code_pred polled .

lemma task_transition_Inr:
  "task_transition previous previous_task (Some c) task = Inr t \<longleftrightarrow>
     (previous_task \<noteq> None \<longrightarrow> task = previous_task) \<and> t = (task_order c = 3) \<and>
     (\<forall>p. previous = Some p \<longrightarrow> task_order p \<le> task_order c \<and> (task_order p = 3 \<longrightarrow> c = p))"
  by (cases previous) (auto simp: task_transition_def)

definition followed :: "(task_state \<times> str option) list \<Rightarrow> poll_state \<Rightarrow> bool" where
  \<comment> \<open>what the loop keeps true of the responses it accepted\<close>
  "followed rs s \<longleftrightarrow> ps_states s = map fst rs \<and> sorted (map task_order (ps_states s)) \<and>
     (case ps_terminal s of
        None \<Rightarrow> \<forall>x \<in> set (ps_states s). task_order x \<noteq> 3
      | Some x \<Rightarrow> task_order x = 3 \<and> (\<exists>xs. ps_states s = xs @ [x] \<and> (\<forall>y \<in> set xs. task_order y \<noteq> 3))) \<and>
     (\<exists>k m. map snd rs = replicate k None @ replicate m (ps_task s) \<and> (m = 0 \<longleftrightarrow> ps_task s = None))"

lemma sorted_snoc_last:
  assumes "sorted (map f xs)" and "xs \<noteq> [] \<Longrightarrow> f (last xs) \<le> f c"
  shows "sorted (map f (xs @ [c :: 'a])) "
  using assms by (cases xs rule: rev_cases) (auto simp: sorted_append)

lemma polled_followed: "polled rs s \<Longrightarrow> followed rs s"
proof (induction rule: polled.induct)
  case start
  show ?case by (auto simp: followed_def poll_start_def)
next
  case (poll rs s r s')
  obtain c t where r: "r = (c, t)" by (cases r)
  from poll.hyps(2,3) have s': "s' = \<lparr>ps_task = (if t \<noteq> None then t else ps_task s), ps_states = ps_states s @ [c],
        ps_terminal = (if task_order c = 3 then Some c else None)\<rparr>"
    and bound: "ps_task s \<noteq> None \<Longrightarrow> t = ps_task s" and up: "last_state s = Some p \<Longrightarrow> task_order p \<le> task_order c" for p
    unfolding accept_poll_def r by (auto simp: task_transition_Inr)
  from poll.IH poll.hyps(2) obtain k m where inv: "ps_states s = map fst rs" "sorted (map task_order (ps_states s))"
    "\<forall>x \<in> set (ps_states s). task_order x \<noteq> 3"
    and tasks: "map snd rs = replicate k None @ replicate m (ps_task s)" "m = 0 \<longleftrightarrow> ps_task s = None"
    unfolding followed_def by auto
  have "sorted (map task_order (ps_states s @ [c]))"
    by (rule sorted_snoc_last [OF inv(2)]) (use up in \<open>simp add: last_state_def\<close>)
  moreover have "\<exists>k m. map snd (rs @ [(c, t)]) = replicate k None @ replicate m (ps_task s') \<and> (m = 0 \<longleftrightarrow> ps_task s' = None)"
  proof (cases "ps_task s")
    case None
    with tasks have "map snd rs = replicate k None" by simp
    with None show ?thesis
    proof (cases t)
      assume "t = None"
      with None \<open>map snd rs = replicate k None\<close> show ?thesis
        by (intro exI [of _ "Suc k"] exI [of _ 0]) (simp add: s' replicate_append_same)
    next
      fix a assume "t = Some a"
      with \<open>map snd rs = replicate k None\<close> show ?thesis
        by (intro exI [of _ k] exI [of _ 1]) (simp add: s')
    qed
  next
    case (Some u)
    with bound have "t = Some u" by simp
    with Some tasks show ?thesis
      by (intro exI [of _ k] exI [of _ "Suc m"]) (simp add: s' replicate_append_same)
  qed
  ultimately show ?case
    using inv unfolding followed_def r by (auto simp: s')
qed

text \<open>C21: whatever the polls return, the states the loop accepts never go back; a terminal state is the
  last one and the only one, and it is what the loop reports; and the responses name no task until they
  all name the one the loop is bound to.\<close>

theorem poll_invariant:
  assumes "polled rs s"
  shows "ps_states s = map fst rs \<and> sorted (map task_order (ps_states s)) \<and>
    (\<forall>x. ps_terminal s = Some x \<longleftrightarrow> task_order x = 3 \<and> (\<exists>xs. ps_states s = xs @ [x])) \<and>
    (\<forall>x \<in> set (butlast (ps_states s)). task_order x \<noteq> 3) \<and>
    (\<exists>k m. map snd rs = replicate k None @ replicate m (ps_task s) \<and> (m = 0 \<longleftrightarrow> ps_task s = None))"
proof -
  note f = polled_followed [OF assms, unfolded followed_def]
  show ?thesis
  proof (cases "ps_terminal s")
    case None
    with f have all: "\<forall>x \<in> set (ps_states s). task_order x \<noteq> 3" by simp
    then have "\<forall>x \<in> set (butlast (ps_states s)). task_order x \<noteq> 3" using in_set_butlastD by fast
    moreover have "\<forall>x. ps_terminal s = Some x \<longleftrightarrow> task_order x = 3 \<and> (\<exists>xs. ps_states s = xs @ [x])"
      using all None by auto
    ultimately show ?thesis
      by (intro conjI f [THEN conjunct1] f [THEN conjunct2, THEN conjunct1] f [THEN conjunct2, THEN conjunct2, THEN conjunct2])
  next
    case (Some x)
    with f [THEN conjunct2, THEN conjunct2, THEN conjunct1] obtain xs
      where xs: "task_order x = 3" "ps_states s = xs @ [x]" "\<forall>y \<in> set xs. task_order y \<noteq> 3" by auto
    then have "\<forall>x \<in> set (butlast (ps_states s)). task_order x \<noteq> 3" by simp
    moreover have "\<forall>z. ps_terminal s = Some z \<longleftrightarrow> task_order z = 3 \<and> (\<exists>xs. ps_states s = xs @ [z])"
      using xs Some by auto
    ultimately show ?thesis
      by (intro conjI f [THEN conjunct1] f [THEN conjunct2, THEN conjunct1] f [THEN conjunct2, THEN conjunct2, THEN conjunct2])
  qed
qed

theorem poll_invariant_witness:
  "\<exists>s. polled [(NOT_CREATED, None), (RUNNING, Some ''t1''), (SUCCESS, Some ''t1'')] s \<and> ps_terminal s = Some SUCCESS"
proof -
  let ?rs = "[(NOT_CREATED, None), (RUNNING, Some ''t1''), (SUCCESS, Some ''t1'')]"
  note steps = poll_start_def accept_poll_def last_state_def task_transition_def
  have "polled [(NOT_CREATED, None)] \<lparr>ps_task = None, ps_states = [NOT_CREATED], ps_terminal = None\<rparr>"
    using polled.poll [OF polled.start, of "(NOT_CREATED, None)" "\<lparr>ps_task = None, ps_states = [NOT_CREATED], ps_terminal = None\<rparr>"]
    by (simp add: steps)
  from polled.poll [OF this, of "(RUNNING, Some ''t1'')" "\<lparr>ps_task = Some ''t1'', ps_states = [NOT_CREATED, RUNNING], ps_terminal = None\<rparr>"]
  have "polled [(NOT_CREATED, None), (RUNNING, Some ''t1'')] \<lparr>ps_task = Some ''t1'', ps_states = [NOT_CREATED, RUNNING], ps_terminal = None\<rparr>"
    by (simp add: steps)
  from polled.poll [OF this, of "(SUCCESS, Some ''t1'')" "\<lparr>ps_task = Some ''t1'', ps_states = [NOT_CREATED, RUNNING, SUCCESS], ps_terminal = Some SUCCESS\<rparr>"]
  have "polled ?rs \<lparr>ps_task = Some ''t1'', ps_states = [NOT_CREATED, RUNNING, SUCCESS], ps_terminal = Some SUCCESS\<rparr>"
    by (simp add: steps)
  then obtain s where s: "polled ?rs s" "ps_states s = [NOT_CREATED, RUNNING, SUCCESS]" by force
  from poll_invariant [OF s(1)] s have "ps_terminal s = Some SUCCESS" by force
  with s(1) show ?thesis by blast
qed

end
