(* ===== verification/BusinessFacts.thy ===== *)
theory BusinessFacts
  imports Scalars AsyncTask CheckDecision
begin

section \<open>Sealed business facts\<close>

text \<open>
  Models \<^verbatim>\<open>product/protocols/checks/business_facts.py\<close>: the facts a collector seals, addressed by
  the hash of their content, and the windows and references an observation gives to read them.
  \<open>ft\<close> is the text \<^verbatim>\<open>json.dumps\<close> gives a float and \<open>wt\<close> the text pydantic gives it; both are
  parameters. The version field of a collector has one value and is left out of the record.
\<close>

subsection \<open>Identifiers\<close>

definition record_id :: "str \<Rightarrow> bool" where
  "record_id = public_id"

definition record_field :: "str \<Rightarrow> str \<Rightarrow> str list" where
  "record_field field v = field_error [pattern_guard field record_id v]"

definition identity_field :: "str \<Rightarrow> str \<Rightarrow> str list" where
  "identity_field field v = tag_field field ''tid_'' 32 v"

definition bounded_field :: "str \<Rightarrow> int \<Rightarrow> int \<Rightarrow> int \<Rightarrow> str list" where
  "bounded_field field lo hi n = field_error [(n < lo, field @ '': greater_than_equal''), (hi < n, field @ '': less_than_equal'')]"

definition fact_source_id :: "str \<Rightarrow> bool" where
  "fact_source_id v \<longleftrightarrow> tagged ''psr_'' 32 v \<or> tagged ''exp_'' 32 v"

record fact_proof =
  fp_effect_id :: str
  fp_fingerprint :: str
  fp_source_id :: str
  fp_source_revision :: int
  fp_source_fingerprint :: str

definition fact_proof_errors :: "fact_proof \<Rightarrow> str list" where
  "fact_proof_errors p = tag_field ''effect_id'' ''bef_'' 32 (fp_effect_id p)
     @ hash_field ''proof_fingerprint'' (fp_fingerprint p)
     @ field_error [pattern_guard ''source_id'' fact_source_id (fp_source_id p)]
     @ least_field ''source_revision'' 1 (fp_source_revision p)
     @ hash_field ''source_fingerprint'' (fp_source_fingerprint p)"

definition fact_proof_json :: "fact_proof \<Rightarrow> json" where
  "fact_proof_json p = JObj [(''effect_id'', JStr (fp_effect_id p)), (''proof_fingerprint'', JStr (fp_fingerprint p)),
     (''source_id'', JStr (fp_source_id p)), (''source_revision'', JInt (fp_source_revision p)),
     (''source_fingerprint'', JStr (fp_source_fingerprint p))]"

subsection \<open>Kinds of facts\<close>

record field_change =
  fc_proof :: str
  fc_path :: "str list"
  fc_before :: scalar
  fc_after :: scalar
  fc_before_present :: bool
  fc_after_present :: bool

definition field_change_errors :: "field_change \<Rightarrow> str list" where
  "field_change_errors c = after_fields
     (hash_field ''proof_fingerprint'' (fc_proof c) @ path_field ''path'' (fc_path c)
      @ scalar_errors ''before'' (fc_before c) @ scalar_errors ''after'' (fc_after c))
     [((\<not> fc_before_present c \<and> fc_before c \<noteq> Null) \<or> (\<not> fc_after_present c \<and> fc_after c \<noteq> Null),
       ''absent fields cannot carry a value'')]"

fun scalar_json :: "(rat \<Rightarrow> str) \<Rightarrow> scalar \<Rightarrow> json" where
  "scalar_json ft Null = JNull"
| "scalar_json ft (Truth b) = JBool b"
| "scalar_json ft (Whole n) = JInt n"
| "scalar_json ft (Ratio q) = JNum (ft q)"
| "scalar_json ft (Chars s) = JStr s"

definition field_change_json :: "(rat \<Rightarrow> str) \<Rightarrow> field_change \<Rightarrow> json" where
  "field_change_json ft c = JObj
     ([(''proof_fingerprint'', JStr (fc_proof c)), (''path'', json_strings (fc_path c)),
       (''before'', scalar_json ft (fc_before c)), (''after'', scalar_json ft (fc_after c))]
      @ (if fc_before_present c then [] else [(''before_present'', JBool False)])
      @ (if fc_after_present c then [] else [(''after_present'', JBool False)]))"

record committed_fact =
  cm_generation :: str
  cm_operation_id :: str
  cm_ordinal :: int
  cm_before_version :: int
  cm_after_version :: int
  cm_subject :: "str option"
  cm_owner :: str
  cm_resource :: str
  cm_changes :: "field_change list"

definition change_key :: "field_change \<Rightarrow> str \<times> str list" where
  "change_key c = (fc_proof c, fc_path c)"

definition principals_errors :: "str option \<Rightarrow> str \<Rightarrow> str list" where
  "principals_errors s w = optional_field (identity_field ''subject_identity_id'') s @ identity_field ''owner_identity_id'' w"

definition committed_errors :: "committed_fact \<Rightarrow> str list" where
  "committed_errors c = after_fields
     (record_field ''generation'' (cm_generation c) @ record_field ''operation_id'' (cm_operation_id c)
      @ bounded_field ''scope_ordinal'' 0 31 (cm_ordinal c) @ least_field ''before_version'' 0 (cm_before_version c)
      @ least_field ''after_version'' 1 (cm_after_version c) @ principals_errors (cm_subject c) (cm_owner c)
      @ size_field ''resource_id'' 1 256 (cm_resource c)
      @ size_field ''changes'' 1 8 (cm_changes c) @ each_field field_change_errors (cm_changes c))
     [resource_guard (cm_resource c),
      (cm_after_version c \<noteq> cm_before_version c + 1, ''commit versions are not consecutive''),
      (has_duplicates (map change_key (cm_changes c)) \<or> \<not> sorted (map change_key (cm_changes c)),
         ''duplicate or unsorted committed projection'')]"

record identity_fact =
  id_identity :: str
  id_subject_match :: match_status
  id_role_match :: match_status

record content_comparison =
  cc_path :: str
  cc_expected :: "str option"
  cc_received :: "str option"
  cc_matched :: bool

definition comparison_errors :: "content_comparison \<Rightarrow> str list" where
  "comparison_errors c = after_fields
     (size_field ''path'' 1 128 (cc_path c) @ optional_field (hash_field ''expected_digest'') (cc_expected c)
      @ optional_field (hash_field ''received_digest'') (cc_received c))
     [(cc_matched c \<noteq> (cc_expected c \<noteq> None \<and> cc_expected c = cc_received c), ''field comparison differs from collected digests'')]"

record disclosure_fact =
  df_subject :: "str option"
  df_owner :: str
  df_resource :: str
  df_fields :: "content_comparison list"

record manifest =
  mf_asset_id :: str
  mf_sha256 :: str
  mf_size :: int

definition manifest_errors :: "manifest \<Rightarrow> str list" where
  "manifest_errors m = tag_field ''asset_id'' ''pai_'' 32 (mf_asset_id m) @ hash_field ''sha256'' (mf_sha256 m)
     @ field_error [(mf_size m \<le> 0, ''size: greater_than''), (4194304 < mf_size m, ''size: less_than_equal'')]"

definition manifest_json :: "manifest \<Rightarrow> json" where
  "manifest_json m = JObj [(''asset_id'', JStr (mf_asset_id m)), (''sha256'', JStr (mf_sha256 m)), (''size'', JInt (mf_size m))]"

record artifact_fact =
  af_manifest :: manifest
  af_uploaded :: bool
  af_adoption :: str

datatype file_comparison = FILE_MATCH | FILE_DIFFERENT | FILE_INCOMPLETE

record receipt_fact =
  rf_size :: int
  rf_sha256 :: "str option"
  rf_complete :: bool
  rf_expected :: manifest
  rf_comparison :: file_comparison
  rf_subject :: "str option"
  rf_owner :: str
  rf_resource :: str

definition receipt_matched :: "receipt_fact \<Rightarrow> bool" where
  "receipt_matched r \<longleftrightarrow> rf_complete r \<and> rf_size r = mf_size (rf_expected r) \<and> rf_sha256 r = Some (mf_sha256 (rf_expected r))"

definition receipt_errors :: "receipt_fact \<Rightarrow> str list" where
  "receipt_errors r = after_fields
     (bounded_field ''actual_size'' 0 4194304 (rf_size r) @ optional_field (hash_field ''actual_sha256'') (rf_sha256 r)
      @ manifest_errors (rf_expected r) @ principals_errors (rf_subject r) (rf_owner r)
      @ size_field ''resource_id'' 1 256 (rf_resource r))
     [resource_guard (rf_resource r),
      ((rf_comparison r = FILE_MATCH) \<noteq> receipt_matched r \<or>
         (rf_comparison r = FILE_DIFFERENT) \<noteq> (rf_complete r \<and> \<not> receipt_matched r),
         ''file comparison differs from collected entity bytes'')]"

record task_fact =
  tf_task :: str
  tf_mapping :: str
  tf_dispatch :: str
  tf_state :: task_state
  tf_subject :: "str option"
  tf_owner :: str
  tf_resource :: str
  tf_correlated :: bool
  tf_polls :: int

record creation_fact =
  cf_generation :: str
  cf_sequence :: int
  cf_resource :: str
  cf_incarnation :: str
  cf_subject :: "str option"
  cf_owner :: str

datatype fact_data =
    Committed_State committed_fact
  | Identity_Check identity_fact
  | Anonymous_Check bool
  | Field_Disclosure disclosure_fact
  | Reference_Artifact artifact_fact
  | File_Receipt receipt_fact
  | Async_Task task_fact
  | Object_Creation creation_fact

fun fact_data_errors :: "fact_data \<Rightarrow> str list" where
  "fact_data_errors (Committed_State c) = committed_errors c"
| "fact_data_errors (Identity_Check i) = identity_field ''identity_id'' (id_identity i)"
| "fact_data_errors (Anonymous_Check b) = []"
| "fact_data_errors (Field_Disclosure d) = after_fields
     (principals_errors (df_subject d) (df_owner d) @ size_field ''resource_id'' 1 256 (df_resource d)
      @ size_field ''fields'' 1 16 (df_fields d) @ each_field comparison_errors (df_fields d)) [resource_guard (df_resource d)]"
| "fact_data_errors (Reference_Artifact a) = manifest_errors (af_manifest a) @ record_field ''adoption_ref'' (af_adoption a)"
| "fact_data_errors (File_Receipt r) = receipt_errors r"
| "fact_data_errors (Async_Task t) = after_fields
     (hash_field ''task_fingerprint'' (tf_task t) @ hash_field ''mapping_fingerprint'' (tf_mapping t)
      @ hash_field ''dispatch_request_digest'' (tf_dispatch t)
      @ field_error [(tf_state t = NOT_CREATED, ''state: literal_error'')] @ principals_errors (tf_subject t) (tf_owner t)
      @ size_field ''resource_id'' 1 256 (tf_resource t) @ bounded_field ''polls_used'' 1 32 (tf_polls t)) [resource_guard (tf_resource t)]"
| "fact_data_errors (Object_Creation c) = after_fields
     (record_field ''generation'' (cf_generation c) @ least_field ''sequence'' 1 (cf_sequence c)
      @ size_field ''resource_id'' 1 256 (cf_resource c) @ record_field ''incarnation'' (cf_incarnation c)
      @ principals_errors (cf_subject c) (cf_owner c)) [resource_guard (cf_resource c)]"

fun task_state_value :: "task_state \<Rightarrow> str" where
  "task_state_value NOT_CREATED = ''NOT_CREATED''"
| "task_state_value QUEUED = ''QUEUED''"
| "task_state_value RUNNING = ''RUNNING''"
| "task_state_value SUCCESS = ''SUCCESS''"
| "task_state_value TASK_FAILED = ''FAILED''"
| "task_state_value TIMED_OUT = ''TIMED_OUT''"
| "task_state_value CANCELLED = ''CANCELLED''"

definition principals_json :: "str option \<Rightarrow> str \<Rightarrow> (str \<times> json) list" where
  "principals_json s w = [(''subject_identity_id'', json_option JStr s), (''owner_identity_id'', JStr w)]"

fun fact_data_json :: "(rat \<Rightarrow> str) \<Rightarrow> fact_data \<Rightarrow> json" where
  "fact_data_json ft (Committed_State c) = JObj
     ([(''kind'', JStr ''COMMITTED_STATE''), (''generation'', JStr (cm_generation c)), (''operation_id'', JStr (cm_operation_id c)),
       (''scope_ordinal'', JInt (cm_ordinal c)), (''before_version'', JInt (cm_before_version c)),
       (''after_version'', JInt (cm_after_version c)), (''commit_semantics'', JStr ''ATOMIC_COMMIT''),
       (''resource_id'', JStr (cm_resource c)), (''changes'', JArr (map (field_change_json ft) (cm_changes c)))]
      @ principals_json (cm_subject c) (cm_owner c))"
| "fact_data_json ft (Identity_Check i) = JObj
     [(''kind'', JStr ''IDENTITY_CHECK''), (''identity_id'', JStr (id_identity i)),
      (''subject_match'', JStr (match_status_value (id_subject_match i))), (''role_match'', JStr (match_status_value (id_role_match i)))]"
| "fact_data_json ft (Anonymous_Check b) = JObj [(''kind'', JStr ''ANONYMOUS_CHECK''), (''unauthenticated'', JBool b)]"
| "fact_data_json ft (Field_Disclosure d) = JObj
     ([(''kind'', JStr ''FIELD_DISCLOSURE''), (''resource_id'', JStr (df_resource d)),
       (''fields'', JArr (map (\<lambda>c. JObj [(''path'', JStr (cc_path c)), (''expected_digest'', json_option JStr (cc_expected c)),
          (''received_digest'', json_option JStr (cc_received c)), (''matched'', JBool (cc_matched c))]) (df_fields d)))]
      @ principals_json (df_subject d) (df_owner d))"
| "fact_data_json ft (Reference_Artifact a) = JObj
     [(''kind'', JStr ''REFERENCE_ARTIFACT''), (''manifest'', manifest_json (af_manifest a)),
      (''origin'', JStr (if af_uploaded a then ''UPLOAD'' else ''REFERENCE_CAPTURE'')), (''adoption_ref'', JStr (af_adoption a))]"
| "fact_data_json ft (File_Receipt r) = JObj
     ([(''kind'', JStr ''FILE_RECEIPT''), (''actual_size'', JInt (rf_size r)), (''actual_sha256'', json_option JStr (rf_sha256 r)),
       (''complete'', JBool (rf_complete r)), (''expected'', manifest_json (rf_expected r)),
       (''comparison'', JStr (case rf_comparison r of FILE_MATCH \<Rightarrow> ''MATCH'' | FILE_DIFFERENT \<Rightarrow> ''DIFFERENT'' | FILE_INCOMPLETE \<Rightarrow> ''INCOMPLETE'')),
       (''resource_id'', JStr (rf_resource r))] @ principals_json (rf_subject r) (rf_owner r))"
| "fact_data_json ft (Async_Task t) = JObj
     ([(''kind'', JStr ''ASYNC_TASK''), (''task_fingerprint'', JStr (tf_task t)), (''mapping_fingerprint'', JStr (tf_mapping t)),
       (''dispatch_request_digest'', JStr (tf_dispatch t)), (''state'', JStr (task_state_value (tf_state t))),
       (''resource_id'', JStr (tf_resource t)), (''correlated'', JBool (tf_correlated t)), (''polls_used'', JInt (tf_polls t))]
      @ principals_json (tf_subject t) (tf_owner t))"
| "fact_data_json ft (Object_Creation c) = JObj
     ([(''kind'', JStr ''OBJECT_CREATION''), (''generation'', JStr (cf_generation c)), (''sequence'', JInt (cf_sequence c)),
       (''resource_id'', JStr (cf_resource c)), (''incarnation'', JStr (cf_incarnation c))] @ principals_json (cf_subject c) (cf_owner c))"

subsection \<open>The fact\<close>

datatype collector = CONTROLLED_RECORDS | IDENTITY_READER | HTTP_ENTITY | REFERENCE_STORE | ASYNC_STATUS

fun collector_value :: "collector \<Rightarrow> str" where
  "collector_value CONTROLLED_RECORDS = ''CONTROLLED_RECORDS''"
| "collector_value IDENTITY_READER = ''IDENTITY_READER''"
| "collector_value HTTP_ENTITY = ''HTTP_ENTITY''"
| "collector_value REFERENCE_STORE = ''REFERENCE_STORE''"
| "collector_value ASYNC_STATUS = ''ASYNC_STATUS''"

fun expected_collector :: "fact_data \<Rightarrow> collector" where
  "expected_collector (Committed_State _) = CONTROLLED_RECORDS"
| "expected_collector (Object_Creation _) = CONTROLLED_RECORDS"
| "expected_collector (Identity_Check _) = IDENTITY_READER"
| "expected_collector (Anonymous_Check _) = IDENTITY_READER"
| "expected_collector (Field_Disclosure _) = HTTP_ENTITY"
| "expected_collector (File_Receipt _) = HTTP_ENTITY"
| "expected_collector (Reference_Artifact _) = REFERENCE_STORE"
| "expected_collector (Async_Task _) = ASYNC_STATUS"

record business_fact =
  bf_id :: str
  bf_case_id :: str
  bf_request_ref :: str
  bf_observed_at_us :: int
  bf_collector :: collector
  bf_proofs :: "fact_proof list"
  bf_complete :: bool
  bf_reasons :: "str list"
  bf_data :: fact_data

definition fact_payload :: "(rat \<Rightarrow> str) \<Rightarrow> business_fact \<Rightarrow> (str \<times> json) list" where
  \<comment> \<open>the dump without the content address\<close>
  "fact_payload ft f =
     [(''case_id'', JStr (bf_case_id f)), (''request_ref'', JStr (bf_request_ref f)), (''observed_at_us'', JInt (bf_observed_at_us f)),
      (''collector_kind'', JStr (collector_value (bf_collector f))), (''collector_version'', JStr ''2''),
      (''proofs'', JArr (map fact_proof_json (bf_proofs f))), (''complete'', JBool (bf_complete f)),
      (''reason_codes'', json_strings (bf_reasons f)), (''data'', fact_data_json ft (bf_data f))]"

definition fact_content_id :: "(str \<Rightarrow> str) \<Rightarrow> json \<Rightarrow> str" where
  "fact_content_id sha payload = ''bf_'' @ sha (canonical_json_bytes payload)"

definition fact_bytes :: "(rat \<Rightarrow> str) \<Rightarrow> business_fact \<Rightarrow> str" where
  "fact_bytes wt f = canonical_json_bytes (JObj ((''fact_id'', JStr (bf_id f)) # fact_payload wt f))"

definition upper_code :: "str \<Rightarrow> bool" where
  "upper_code = headed is_upper (\<lambda>c. is_upper c \<or> is_digit c \<or> c = CHR ''_'') 127"

definition codes_field :: "str list \<Rightarrow> str list" where
  "codes_field rs = size_field ''reason_codes'' 0 8 rs @ each_field (\<lambda>r. field_error [pattern_guard ''reason_codes'' upper_code r]) rs"

definition business_fact_errors :: "(str \<Rightarrow> str) \<Rightarrow> (rat \<Rightarrow> str) \<Rightarrow> (rat \<Rightarrow> str) \<Rightarrow> business_fact \<Rightarrow> str list" where
  "business_fact_errors sha ft wt f =
     (let keys = map fp_fingerprint (bf_proofs f) in after_fields
       (tag_field ''fact_id'' ''bf_'' 64 (bf_id f) @ tag_field ''case_id'' ''case_'' 32 (bf_case_id f)
        @ tag_field ''request_ref'' ''req_'' 48 (bf_request_ref f) @ least_field ''observed_at_us'' 0 (bf_observed_at_us f)
        @ size_field ''proofs'' 1 8 (bf_proofs f) @ each_field fact_proof_errors (bf_proofs f)
        @ codes_field (bf_reasons f) @ fact_data_errors (bf_data f))
       [(\<not> ordered_set keys, ''fact proof references must be unique and sorted''),
        (bf_id f \<noteq> fact_content_id sha (JObj (fact_payload ft f)), ''business fact content address mismatch''),
        (2048 < length (fact_bytes wt f), ''business fact exceeds 2KiB''),
        ((case bf_data f of Committed_State c \<Rightarrow> fc_proof ` set (cm_changes c) \<noteq> set keys | _ \<Rightarrow> False),
           ''committed projection must cover exact proof references''),
        (bf_collector f \<noteq> expected_collector (bf_data f), ''business fact collector mismatch'')])"

definition seal_business_fact :: "(str \<Rightarrow> str) \<Rightarrow> (rat \<Rightarrow> str) \<Rightarrow> (rat \<Rightarrow> str) \<Rightarrow> business_fact \<Rightarrow> business_fact checked" where
  "seal_business_fact sha ft wt draft =
     (let f = draft\<lparr>bf_id := fact_content_id sha (JObj (fact_payload ft draft))\<rparr> in checked (business_fact_errors sha ft wt f) f)"

end
