(* ===== verification/FactReduction.thy ===== *)
theory FactReduction
  imports BusinessFacts
begin

section \<open>From sealed facts to observations\<close>

text \<open>
  Models \<^verbatim>\<open>product/backend/domain/verification/business_facts.py\<close> and the observation windows and
  references of \<^verbatim>\<open>product/protocols/checks/business_facts.py\<close> it reads. A reduction answers the
  state of the effect, whether the window is closed, and whether the answer is trusted.
\<close>

subsection \<open>Windows and references\<close>

datatype scope_state = SCOPE_OPEN | SCOPE_COMPLETE | SCOPE_INCOMPLETE | SCOPE_MISSING

record record_window =
  rw_generation :: str
  rw_before_version :: int
  rw_after_version :: int
  rw_before_value :: scalar
  rw_after_value :: scalar
  rw_before_present :: bool
  rw_after_present :: bool
  rw_before_operation :: "str option"
  rw_after_operation :: "str option"
  rw_scope :: scope_state
  rw_operation_count :: int
  rw_ordinals :: "int list"
  rw_request_matched :: bool
  rw_source_complete :: bool
  rw_field_path :: "str list"

definition record_window_errors :: "record_window \<Rightarrow> str list" where
  "record_window_errors w = after_fields
     (record_field ''generation'' (rw_generation w) @ least_field ''before_version'' 0 (rw_before_version w)
      @ least_field ''after_version'' 0 (rw_after_version w) @ scalar_errors ''before_value'' (rw_before_value w)
      @ scalar_errors ''after_value'' (rw_after_value w)
      @ optional_field (record_field ''before_operation'') (rw_before_operation w)
      @ optional_field (record_field ''after_operation'') (rw_after_operation w)
      @ bounded_field ''operation_count'' 0 32 (rw_operation_count w) @ size_field ''operation_ordinals'' 0 32 (rw_ordinals w)
      @ each_field (bounded_field ''operation_ordinals'' 0 31) (rw_ordinals w) @ path_field ''field_path'' (rw_field_path w))
     [(rw_ordinals w \<noteq> [] \<and> (int (length (rw_ordinals w)) \<noteq> rw_operation_count w \<or> \<not> ordered_set (rw_ordinals w)),
         ''resource commit ordinal projection mismatch''),
      ((\<not> rw_before_present w \<and> rw_before_value w \<noteq> Null) \<or> (\<not> rw_after_present w \<and> rw_after_value w \<noteq> Null),
         ''absent fields cannot carry a value'')]"

record disclosure_window =
  dw_paths :: "str list"
  dw_baseline :: "str option"
  dw_current :: "str option"
  dw_source_unchanged :: bool
  dw_resource_matched :: bool
  dw_rejected_empty :: bool
  dw_scope :: scope_state
  dw_request_matched :: bool

definition disclosure_window_errors :: "disclosure_window \<Rightarrow> str list" where
  "disclosure_window_errors w = size_field ''protected_paths'' 1 64 (dw_paths w)
     @ each_field (size_field ''protected_paths'' 1 256) (dw_paths w)
     @ optional_field (hash_field ''baseline_digest'') (dw_baseline w) @ optional_field (hash_field ''current_digest'') (dw_current w)"

record file_window =
  fw_expected :: manifest
  fw_resource_matched :: bool
  fw_request_matched :: bool
  fw_scope :: scope_state
  fw_refused :: bool
  fw_async :: bool
  fw_task :: "str option"

definition file_window_errors :: "file_window \<Rightarrow> str list" where
  "file_window_errors w = manifest_errors (fw_expected w) @ optional_field (hash_field ''task_fingerprint'') (fw_task w)"

datatype observation_method = STATE_SNAPSHOT | ATOMIC_STATE | FIELD_SNAPSHOT | FIELD_DISCLOSURE | FILE_SNAPSHOT | FILE_DELIVERY

record fact_reference =
  fr_proof :: str
  fr_observer :: str
  fr_phase :: observation_phase
  fr_fact_ids :: "str list"
  fr_source :: fact_proof
  fr_method :: observation_method
  fr_record :: "record_window option"
  fr_disclosure :: "disclosure_window option"
  fr_file :: "file_window option"
  fr_complete :: bool
  fr_reasons :: "str list"

definition fact_ids_field :: "str list \<Rightarrow> str list" where
  "fact_ids_field ids = size_field ''fact_ids'' 0 64 ids @ each_field (tag_field ''fact_ids'' ''bf_'' 64) ids"

definition fact_reference_errors :: "fact_reference \<Rightarrow> str list" where
  "fact_reference_errors r = after_fields
     (hash_field ''proof_fingerprint'' (fr_proof r) @ logical_field ''observer_id'' (fr_observer r) @ fact_ids_field (fr_fact_ids r)
      @ fact_proof_errors (fr_source r) @ optional_field record_window_errors (fr_record r)
      @ optional_field disclosure_window_errors (fr_disclosure r) @ optional_field file_window_errors (fr_file r)
      @ codes_field (fr_reasons r))
     [(fp_fingerprint (fr_source r) \<noteq> fr_proof r \<or> has_duplicates (fr_fact_ids r), ''observation fact reference mismatch''),
      ((fr_method r \<in> {STATE_SNAPSHOT, ATOMIC_STATE}) \<noteq> (fr_record r \<noteq> None), ''record window does not match observation method''),
      ((fr_method r \<in> {FIELD_SNAPSHOT, FIELD_DISCLOSURE}) \<noteq> (fr_disclosure r \<noteq> None),
         ''disclosure window does not match observation method''),
      ((fr_method r \<in> {FILE_SNAPSHOT, FILE_DELIVERY}) \<noteq> (fr_file r \<noteq> None), ''file window does not match observation method'')]"

record creation_window =
  cw_generation :: str
  cw_baseline_watermark :: int
  cw_current_watermark :: int
  cw_baseline :: str
  cw_current :: str
  cw_scope :: scope_state
  cw_request_matched :: bool
  cw_source_complete :: bool
  cw_created_count :: int
  cw_response_resource :: "str option"
  cw_response_matched :: bool

definition creation_window_errors :: "creation_window \<Rightarrow> str list" where
  "creation_window_errors w = record_field ''generation'' (cw_generation w)
     @ least_field ''baseline_watermark'' 0 (cw_baseline_watermark w) @ least_field ''current_watermark'' 0 (cw_current_watermark w)
     @ hash_field ''baseline_digest'' (cw_baseline w) @ hash_field ''current_digest'' (cw_current w)
     @ bounded_field ''created_count'' 0 32 (cw_created_count w)
     @ optional_field (size_field ''response_resource_id'' 0 256) (cw_response_resource w)"

record creation_reference =
  cr_proof :: str
  cr_observer :: str
  cr_phase :: observation_phase
  cr_fact_ids :: "str list"
  cr_source :: fact_proof
  cr_snapshot :: bool
  cr_window :: creation_window
  cr_complete :: bool
  cr_reasons :: "str list"

definition creation_reference_errors :: "creation_reference \<Rightarrow> str list" where
  "creation_reference_errors r = after_fields
     (hash_field ''proof_fingerprint'' (cr_proof r) @ logical_field ''observer_id'' (cr_observer r) @ fact_ids_field (cr_fact_ids r)
      @ fact_proof_errors (cr_source r) @ creation_window_errors (cr_window r) @ codes_field (cr_reasons r))
     [(fp_fingerprint (cr_source r) \<noteq> cr_proof r \<or> has_duplicates (cr_fact_ids r), ''creation fact source mismatch''),
      ((cr_phase r \<in> {BASELINE, BEFORE, RECOVERY}) \<noteq> cr_snapshot r, ''creation observation phase mismatch'')]"

subsection \<open>Shared parts of the reductions\<close>

type_synonym reduction = "effect_state \<times> closure_state \<times> bool"

definition undecided :: reduction where
  "undecided = (EFFECT_UNKNOWN, OPEN, False)"

definition decided :: "effect_state \<Rightarrow> reduction" where
  "decided x = (x, CLOSED, True)"

definition selected_facts_of :: "str list \<Rightarrow> business_fact list \<Rightarrow> business_fact list" where
  "selected_facts_of ids facts = filter (\<lambda>f. bf_id f \<in> set ids) facts"

definition verified_identities :: "business_fact list \<Rightarrow> str list" where
  "verified_identities facts = concat (map (\<lambda>f. case bf_data f of
      Identity_Check i \<Rightarrow> if bf_complete f \<and> id_subject_match i = MATCH \<and> id_role_match i = MATCH then [id_identity i] else []
    | _ \<Rightarrow> []) facts)"

definition anonymous_checked :: "business_fact list \<Rightarrow> bool" where
  "anonymous_checked facts \<longleftrightarrow> list_ex (\<lambda>f. bf_complete f \<and> bf_data f = Anonymous_Check True) facts"

definition verified_principals :: "execution_case \<Rightarrow> business_fact list \<Rightarrow> bool" where
  "verified_principals c facts \<longleftrightarrow>
     case_owner_identity c \<in> set (verified_identities facts) \<and>
     (case case_subject_identity c of
        Some s \<Rightarrow> s \<in> set (verified_identities facts)
      | None \<Rightarrow> given (\<lambda>k. pc_principal k = ANONYMOUS) (fz_conditions (case_permission c)) \<and> anonymous_checked facts)"

definition admitted :: "bool \<Rightarrow> bool \<Rightarrow> str list \<Rightarrow> business_fact list \<Rightarrow> execution_case \<Rightarrow> bool" where
  \<comment> \<open>the reference is complete, its request matched, every fact it names is there, the principals are verified\<close>
  "admitted whole matched ids facts c \<longleftrightarrow> whole \<and> matched \<and>
     length (selected_facts_of ids facts) = length ids \<and> verified_principals c (selected_facts_of ids facts)"

definition parties :: "execution_case \<Rightarrow> str option \<times> str \<times> str" where
  "parties c = (case_subject_identity c, case_owner_identity c, case_resource_id c)"

subsection \<open>Creation\<close>

definition creations :: "business_fact list \<Rightarrow> (business_fact \<times> creation_fact) list" where
  "creations facts = concat (map (\<lambda>f. case bf_data f of Object_Creation d \<Rightarrow> [(f, d)] | _ \<Rightarrow> []) facts)"

definition creation_fits :: "creation_window \<Rightarrow> execution_case \<Rightarrow> business_fact \<times> creation_fact \<Rightarrow> bool" where
  "creation_fits w c = (\<lambda>(f, d). bf_complete f \<and> cf_generation d = cw_generation w \<and>
     cw_baseline_watermark w < cf_sequence d \<and> cf_sequence d \<le> cw_current_watermark w \<and>
     (cf_subject d, cf_owner d) = (case_subject_identity c, case_owner_identity c))"

definition reduce_creation_facts :: "creation_reference \<Rightarrow> business_fact list \<Rightarrow> execution_case \<Rightarrow> reduction" where
  "reduce_creation_facts r facts c =
     (let w = cr_window r; selected = selected_facts_of (cr_fact_ids r) facts; created = creations selected in
      if \<not> admitted (cr_complete r) (cw_request_matched w) (cr_fact_ids r) facts c then undecided
      else if cr_snapshot r then (if cw_source_complete w then decided EFFECT_ABSENT else undecided)
      else if list_ex (\<lambda>x. \<not> creation_fits w c x) created then undecided
      else if created \<noteq> [] then decided EFFECT_CONFIRMED
      else if cw_source_complete w \<and> cw_scope w = SCOPE_COMPLETE \<and> cw_created_count w = 0 then decided EFFECT_ABSENT
      else undecided)"

subsection \<open>Records\<close>

definition commits_of :: "business_fact list \<Rightarrow> (business_fact \<times> committed_fact) list" where
  "commits_of facts = sort_key (\<lambda>(f, d). cm_ordinal d)
     (concat (map (\<lambda>f. case bf_data f of Committed_State d \<Rightarrow> [(f, d)] | _ \<Rightarrow> []) facts))"

record chain_state =
  ch_value :: scalar
  ch_present :: bool
  ch_version :: int
  ch_happened :: bool

definition chain_step ::
    "fact_reference \<Rightarrow> record_window \<Rightarrow> execution_case \<Rightarrow> field_mutation option \<Rightarrow> scalar \<Rightarrow> int option \<Rightarrow>
       chain_state \<Rightarrow> business_fact \<times> committed_fact \<Rightarrow> chain_state option" where
  \<comment> \<open>one commit read in order; \<open>ordinal\<close> is the one the window expects, if it expects one\<close>
  "chain_step r w c mutation wanted ordinal s = (\<lambda>(f, d).
     (case filter (\<lambda>x. fc_proof x = fr_proof r \<and> fc_path x = rw_field_path w) (cm_changes d) of
        [x] \<Rightarrow>
          if \<not> bf_complete f \<or> ordinal \<noteq> Some (cm_ordinal d) \<or> cm_generation d \<noteq> rw_generation w \<or>
             cm_before_version d \<noteq> ch_version s \<or> (cm_subject d, cm_owner d, cm_resource d) \<noteq> parties c \<or>
             fc_before_present x \<noteq> ch_present s \<or> \<not> same_scalar (fc_before x) (ch_value s)
          then None
          else Some \<lparr>ch_value = fc_after x, ch_present = fc_after_present x, ch_version = cm_after_version d,
            ch_happened = (ch_happened s \<or>
              mutation_happened mutation (ch_value s) (fc_after x) (ch_present s) (fc_after_present x) wanted)\<rparr>
      | _ \<Rightarrow> None))"

fun chain_run ::
    "fact_reference \<Rightarrow> record_window \<Rightarrow> execution_case \<Rightarrow> field_mutation option \<Rightarrow> scalar \<Rightarrow> int list \<Rightarrow>
       chain_state \<Rightarrow> (business_fact \<times> committed_fact) list \<Rightarrow> chain_state option" where
  "chain_run r w c mutation wanted ordinals s [] = Some s"
| "chain_run r w c mutation wanted ordinals s (x # xs) =
     (case chain_step r w c mutation wanted (case ordinals of [] \<Rightarrow> None | k # _ \<Rightarrow> Some k) s x of
        None \<Rightarrow> None
      | Some s' \<Rightarrow> chain_run r w c mutation wanted (tl ordinals) s' xs)"

definition chain_start :: "record_window \<Rightarrow> chain_state" where
  "chain_start w = \<lparr>ch_value = rw_before_value w, ch_present = rw_before_present w, ch_version = rw_before_version w, ch_happened = False\<rparr>"

definition expected_ordinals :: "record_window \<Rightarrow> int list" where
  "expected_ordinals w = (if rw_ordinals w \<noteq> [] then rw_ordinals w else map int [0..<nat (rw_operation_count w)])"

definition window_settled :: "record_window \<Rightarrow> (business_fact \<times> committed_fact) list \<Rightarrow> chain_state \<Rightarrow> bool" where
  "window_settled w commits s \<longleftrightarrow>
     rw_source_complete w \<and> rw_scope w = SCOPE_COMPLETE \<and> int (length commits) = rw_operation_count w \<and>
     ch_present s = rw_after_present w \<and> same_scalar (ch_value s) (rw_after_value w) \<and> ch_version s = rw_after_version w \<and>
     (if commits \<noteq> [] then Some (cm_operation_id (snd (last commits))) else rw_before_operation w) = rw_after_operation w"

definition reduce_record_facts ::
    "fact_reference \<Rightarrow> business_fact list \<Rightarrow> execution_case \<Rightarrow> scalar \<Rightarrow> field_mutation option \<Rightarrow> reduction" where
  "reduce_record_facts r facts c wanted mutation =
     (case fr_record r of
        None \<Rightarrow> undecided
      | Some w \<Rightarrow>
          let commits = commits_of (selected_facts_of (fr_fact_ids r) facts) in
          if \<not> fr_complete r \<or> \<not> rw_request_matched w then undecided
          else if given (\<lambda>m. fm_path m \<noteq> rw_field_path w) mutation then undecided
          else if mutation = None \<and> \<not> (rw_before_present w \<and> rw_after_present w) then undecided
          else if \<not> admitted True True (fr_fact_ids r) facts c then undecided
          else if fr_method r = STATE_SNAPSHOT
          then (if \<not> rw_source_complete w then undecided
                else decided (if mutation \<noteq> None \<or> same_scalar (rw_after_value w) wanted then EFFECT_CONFIRMED else EFFECT_ABSENT))
          else (case chain_run r w c mutation wanted (expected_ordinals w) (chain_start w) commits of
                  None \<Rightarrow> undecided
                | Some s \<Rightarrow>
                    if ch_happened s then decided EFFECT_CONFIRMED
                    else if window_settled w commits s then decided EFFECT_ABSENT else undecided))"

subsection \<open>Disclosure\<close>

definition disclosures :: "business_fact list \<Rightarrow> disclosure_fact list" where
  "disclosures facts = concat (map (\<lambda>f. case bf_data f of Field_Disclosure d \<Rightarrow> [d] | _ \<Rightarrow> []) facts)"

fun merge_fields :: "(str \<rightharpoonup> content_comparison) \<Rightarrow> content_comparison list \<Rightarrow> (str \<rightharpoonup> content_comparison) option" where
  \<comment> \<open>two different comparisons of one path are a conflict\<close>
  "merge_fields m [] = Some m"
| "merge_fields m (x # xs) =
     (if given (\<lambda>y. y \<noteq> x) (m (cc_path x)) then None else merge_fields (m(cc_path x \<mapsto> x)) xs)"

fun merge_disclosures ::
    "execution_case \<Rightarrow> (str \<rightharpoonup> content_comparison) \<Rightarrow> disclosure_fact list \<Rightarrow> (str \<rightharpoonup> content_comparison) option" where
  "merge_disclosures c m [] = Some m"
| "merge_disclosures c m (d # ds) =
     (if (df_subject d, df_owner d, df_resource d) \<noteq> parties c then None
      else case merge_fields m (df_fields d) of None \<Rightarrow> None | Some m' \<Rightarrow> merge_disclosures c m' ds)"

definition path_matches :: "(str \<rightharpoonup> content_comparison) \<Rightarrow> str list \<Rightarrow> bool list" where
  "path_matches m paths = concat (map (\<lambda>p. option_list (map_option cc_matched (m p))) paths)"

definition reduce_disclosure_facts :: "fact_reference \<Rightarrow> business_fact list \<Rightarrow> execution_case \<Rightarrow> reduction" where
  "reduce_disclosure_facts r facts c =
     (case fr_disclosure r of
        None \<Rightarrow> undecided
      | Some w \<Rightarrow>
          if \<not> admitted (fr_complete r) (dw_request_matched w) (fr_fact_ids r) facts c then undecided
          else if fr_method r = FIELD_SNAPSHOT then (if dw_current w \<noteq> None then decided EFFECT_CONFIRMED else undecided)
          else if \<not> dw_source_unchanged w \<or> dw_baseline w = None \<or> dw_baseline w \<noteq> dw_current w then undecided
          else if dw_rejected_empty w then (if dw_scope w = SCOPE_COMPLETE then decided EFFECT_ABSENT else undecided)
          else if \<not> dw_resource_matched w then undecided
          else (case merge_disclosures c Map.empty (disclosures (selected_facts_of (fr_fact_ids r) facts)) of
                  None \<Rightarrow> undecided
                | Some m \<Rightarrow>
                    let matches = path_matches m (dw_paths w) in
                    if (if expects_absence c then list_ex (\<lambda>b. b) matches
                        else length matches = length (dw_paths w) \<and> list_all (\<lambda>b. b) matches)
                    then decided EFFECT_CONFIRMED else undecided))"

subsection \<open>Files\<close>

definition artifact_known :: "manifest \<Rightarrow> business_fact list \<Rightarrow> bool" where
  "artifact_known m facts \<longleftrightarrow> list_ex (\<lambda>f. bf_complete f \<and>
     (case bf_data f of Reference_Artifact a \<Rightarrow> af_manifest a = m | _ \<Rightarrow> False)) facts"

definition receipts :: "business_fact list \<Rightarrow> receipt_fact list" where
  "receipts facts = concat (map (\<lambda>f. case bf_data f of File_Receipt d \<Rightarrow> if bf_complete f then [d] else [] | _ \<Rightarrow> []) facts)"

definition tasks_of :: "business_fact list \<Rightarrow> task_fact list" where
  "tasks_of facts = concat (map (\<lambda>f. case bf_data f of Async_Task d \<Rightarrow> if bf_complete f then [d] else [] | _ \<Rightarrow> []) facts)"

definition task_fits :: "file_window \<Rightarrow> execution_case \<Rightarrow> task_fact \<Rightarrow> bool" where
  "task_fits w c t \<longleftrightarrow> tf_correlated t \<and> tf_state t = SUCCESS \<and> Some (tf_task t) = fw_task w \<and>
     (tf_subject t, tf_owner t, tf_resource t) = parties c"

definition async_settled :: "file_window \<Rightarrow> execution_case \<Rightarrow> business_fact list \<Rightarrow> bool" where
  "async_settled w c facts \<longleftrightarrow> \<not> fw_async w \<or> (case tasks_of facts of [t] \<Rightarrow> task_fits w c t | _ \<Rightarrow> False)"

definition reduce_file_facts :: "fact_reference \<Rightarrow> business_fact list \<Rightarrow> execution_case \<Rightarrow> reduction" where
  "reduce_file_facts r facts c =
     (case fr_file r of
        None \<Rightarrow> undecided
      | Some w \<Rightarrow>
          let selected = selected_facts_of (fr_fact_ids r) facts in
          if \<not> admitted (fr_complete r) (fw_request_matched w \<and> fw_resource_matched w) (fr_fact_ids r) facts c \<or>
             \<not> artifact_known (fw_expected w) selected
          then undecided
          else if fr_method r = FILE_SNAPSHOT then decided EFFECT_CONFIRMED
          else (case receipts selected of
                  [x] \<Rightarrow>
                    if (rf_subject x, rf_owner x, rf_resource x) \<noteq> parties c \<or> rf_expected x \<noteq> fw_expected w \<or>
                       \<not> async_settled w c selected
                    then undecided
                    else if rf_complete x \<and> rf_comparison x = FILE_MATCH then decided EFFECT_CONFIRMED
                    else if rf_complete x \<and> fw_refused w \<and> fw_scope w = SCOPE_COMPLETE then decided EFFECT_ABSENT
                    else undecided
                | _ \<Rightarrow> undecided))"

end
