(* ===== verification/FactProperties.thy ===== *)
theory FactProperties
  imports FactReduction CheckSample
begin

section \<open>Properties of the reductions\<close>

text \<open>
  No reduction answers anything but \<open>UNKNOWN\<close> unless the principals are verified by the facts it
  reads; a confirmed mutation rests on one committed change that makes it; and an absent one on a
  closed window whose commits account for every version of the record.
\<close>

lemma mutation_happened_same:
  assumes "same_scalar b b'"
  shows "mutation_happened m b a bp ap x = mutation_happened m b' a bp ap x"
proof -
  have "same_scalar b a = same_scalar b' a" using assms same_scalar_trans same_scalar_sym by blast
  then show ?thesis by (simp add: mutation_happened_def)
qed

definition own_changes :: "fact_reference \<Rightarrow> record_window \<Rightarrow> committed_fact \<Rightarrow> field_change list" where
  "own_changes r w d = filter (\<lambda>x. fc_proof x = fr_proof r \<and> fc_path x = rw_field_path w) (cm_changes d)"

definition mutates :: "field_mutation option \<Rightarrow> scalar \<Rightarrow> field_change \<Rightarrow> bool" where
  "mutates mutation wanted x \<longleftrightarrow>
     mutation_happened mutation (fc_before x) (fc_after x) (fc_before_present x) (fc_after_present x) wanted"

lemma chain_step_Some:
  "chain_step r w c mutation wanted ordinal s (f, d) = Some s' \<longleftrightarrow>
     (\<exists>x. own_changes r w d = [x] \<and> bf_complete f \<and> ordinal = Some (cm_ordinal d) \<and> cm_generation d = rw_generation w \<and>
        cm_before_version d = ch_version s \<and> (cm_subject d, cm_owner d, cm_resource d) = parties c \<and>
        fc_before_present x = ch_present s \<and> same_scalar (fc_before x) (ch_value s) \<and>
        s' = \<lparr>ch_value = fc_after x, ch_present = fc_after_present x, ch_version = cm_after_version d,
              ch_happened = (ch_happened s \<or> mutates mutation wanted x)\<rparr>)"
proof -
  have "mutation_happened mutation (ch_value s) (fc_after x) (ch_present s) (fc_after_present x) wanted = mutates mutation wanted x"
    if "same_scalar (fc_before x) (ch_value s)" "fc_before_present x = ch_present s" for x
    using mutation_happened_same [OF that(1)] that(2) by (simp add: mutates_def)
  then show ?thesis
    unfolding chain_step_def own_changes_def by (auto split: list.splits)
qed

text \<open>What a chain of commits says, as one induction over it.\<close>

definition commit_fits :: "fact_reference \<Rightarrow> record_window \<Rightarrow> execution_case \<Rightarrow> business_fact \<times> committed_fact \<Rightarrow> field_change \<Rightarrow> bool" where
  "commit_fits r w c = (\<lambda>(f, d) x. own_changes r w d = [x] \<and> bf_complete f \<and> cm_generation d = rw_generation w \<and>
     (cm_subject d, cm_owner d, cm_resource d) = parties c)"

lemma chain_run_facts:
  assumes "chain_run r w c mutation wanted ordinals s xs = Some s'"
  shows "ch_happened s' \<longleftrightarrow> ch_happened s \<or> (\<exists>y \<in> set xs. \<exists>x. commit_fits r w c y x \<and> mutates mutation wanted x)"
    and "\<forall>y \<in> set xs. \<exists>x. commit_fits r w c y x"
    and "\<forall>(f, d) \<in> set xs. cm_after_version d = cm_before_version d + 1 \<Longrightarrow> ch_version s' = ch_version s + int (length xs)"
  using assms
proof (induction xs arbitrary: s ordinals)
  case Nil
  { case 1 then show ?case by simp }
  { case 2 then show ?case by simp }
  { case 3 then show ?case by simp }
next
  case (Cons y ys)
  obtain f d where y: "y = (f, d)" by (cases y)
  have step: "\<exists>s1 x. chain_run r w c mutation wanted (tl ordinals) s1 ys = Some s' \<and> commit_fits r w c y x \<and>
      ch_happened s1 = (ch_happened s \<or> mutates mutation wanted x) \<and> cm_before_version d = ch_version s \<and>
      ch_version s1 = cm_after_version d"
    if "chain_run r w c mutation wanted ordinals s (y # ys) = Some s'" for ordinals s
  proof -
    from that obtain s1 where s1: "chain_step r w c mutation wanted (case ordinals of [] \<Rightarrow> None | k # _ \<Rightarrow> Some k) s (f, d) = Some s1"
      "chain_run r w c mutation wanted (tl ordinals) s1 ys = Some s'"
      unfolding y by (auto split: option.splits)
    from s1(1) show ?thesis unfolding chain_step_Some using s1(2) by (auto simp: commit_fits_def y)
  qed
  have one: "x = x'" if "commit_fits r w c y x" "commit_fits r w c y x'" for x x'
    using that by (auto simp: commit_fits_def y)
  {
    case 1
    from step [OF 1] obtain s1 x where s: "chain_run r w c mutation wanted (tl ordinals) s1 ys = Some s'" "commit_fits r w c y x"
      "ch_happened s1 = (ch_happened s \<or> mutates mutation wanted x)" by blast
    from Cons.IH(1) [OF s(1)] s(2,3) one show ?case by auto
  next
    case 2
    from step [OF 2] obtain s1 x where "chain_run r w c mutation wanted (tl ordinals) s1 ys = Some s'" "commit_fits r w c y x" by blast
    with Cons.IH(2) show ?case by auto
  next
    case 3
    from step [OF 3(2)] obtain s1 x where s: "chain_run r w c mutation wanted (tl ordinals) s1 ys = Some s'"
      "cm_before_version d = ch_version s" "ch_version s1 = cm_after_version d" by blast
    from Cons.IH(3) [OF _ s(1)] 3(1) s(2,3) y show ?case by simp
  }
qed

lemma commits_of_member:
  "(f, d) \<in> set (commits_of facts) \<longleftrightarrow> f \<in> set facts \<and> bf_data f = Committed_State d"
  by (auto simp: commits_of_def split: fact_data.splits)

lemma record_cases:
  assumes "reduce_record_facts r facts c wanted mutation = decided x" and "fr_method r \<noteq> STATE_SNAPSHOT"
  shows "\<exists>w s. fr_record r = Some w \<and> fr_complete r \<and> rw_request_matched w \<and>
    admitted True True (fr_fact_ids r) facts c \<and>
    chain_run r w c mutation wanted (expected_ordinals w) (chain_start w) (commits_of (selected_facts_of (fr_fact_ids r) facts)) = Some s \<and>
    (if ch_happened s then x = EFFECT_CONFIRMED
     else x = EFFECT_ABSENT \<and> window_settled w (commits_of (selected_facts_of (fr_fact_ids r) facts)) s)"
proof -
  from assms(1) obtain w where w: "fr_record r = Some w"
    by (cases "fr_record r") (auto simp: reduce_record_facts_def undecided_def decided_def)
  have nd: "undecided \<noteq> decided x" by (simp add: undecided_def decided_def)
  have dd: "decided y = decided x \<longleftrightarrow> y = x" for y by (simp add: decided_def)
  from assms(1) [unfolded reduce_record_facts_def w option.case Let_def] assms(2) nd
  have "fr_complete r \<and> rw_request_matched w" "admitted True True (fr_fact_ids r) facts c"
    and rest: "(case chain_run r w c mutation wanted (expected_ordinals w) (chain_start w)
        (commits_of (selected_facts_of (fr_fact_ids r) facts)) of
        None \<Rightarrow> undecided
      | Some s \<Rightarrow> if ch_happened s then decided EFFECT_CONFIRMED
          else if window_settled w (commits_of (selected_facts_of (fr_fact_ids r) facts)) s then decided EFFECT_ABSENT
          else undecided) = decided x"
    by (metis (no_types, lifting))+
  moreover from rest nd dd obtain s where "chain_run r w c mutation wanted (expected_ordinals w) (chain_start w)
        (commits_of (selected_facts_of (fr_fact_ids r) facts)) = Some s"
    "if ch_happened s then x = EFFECT_CONFIRMED
     else x = EFFECT_ABSENT \<and> window_settled w (commits_of (selected_facts_of (fr_fact_ids r) facts)) s"
    by (auto split: option.splits if_splits)
  ultimately show ?thesis using w by blast
qed

subsection \<open>A sample window\<close>

definition sealed :: "str \<Rightarrow> fact_data \<Rightarrow> business_fact" where
  "sealed i x = \<lparr>bf_id = i, bf_case_id = ''case_'' @ digits ''1'', bf_request_ref = ''req_'' @ digits ''0'', bf_observed_at_us = 0,
     bf_collector = expected_collector x, bf_proofs = [], bf_complete = True, bf_reasons = [], bf_data = x\<rparr>"

definition who :: "str \<Rightarrow> fact_data" where
  "who d = Identity_Check \<lparr>id_identity = ''tid_'' @ digits d, id_subject_match = MATCH, id_role_match = MATCH\<rparr>"

definition publish :: "scalar \<Rightarrow> fact_data" where
  "publish v = Committed_State \<lparr>cm_generation = ''g'', cm_operation_id = ''op1'', cm_ordinal = 0, cm_before_version = 4,
     cm_after_version = 5, cm_subject = Some (''tid_'' @ digits ''1''), cm_owner = ''tid_'' @ digits ''0'', cm_resource = ''doc-1'',
     cm_changes = [\<lparr>fc_proof = digits ''5'' @ digits ''5'', fc_path = [''state''], fc_before = Chars ''draft'', fc_after = v,
       fc_before_present = True, fc_after_present = True\<rparr>]\<rparr>"

definition sample_window :: "scalar \<Rightarrow> record_window" where
  "sample_window v = \<lparr>rw_generation = ''g'', rw_before_version = 4, rw_after_version = 5, rw_before_value = Chars ''draft'',
     rw_after_value = v, rw_before_present = True, rw_after_present = True, rw_before_operation = None,
     rw_after_operation = Some ''op1'', rw_scope = SCOPE_COMPLETE, rw_operation_count = 1, rw_ordinals = [],
     rw_request_matched = True, rw_source_complete = True, rw_field_path = [''state'']\<rparr>"

definition sample_reference :: "scalar \<Rightarrow> fact_reference" where
  "sample_reference v = \<lparr>fr_proof = digits ''5'' @ digits ''5'', fr_observer = ''reader'', fr_phase = AFTER,
     fr_fact_ids = [''f0'', ''f1'', ''f2''],
     fr_source = \<lparr>fp_effect_id = ''bef_'' @ digits ''1'', fp_fingerprint = digits ''5'' @ digits ''5'', fp_source_id = ''psr_'' @ digits ''0'',
       fp_source_revision = 1, fp_source_fingerprint = digits ''0'' @ digits ''0''\<rparr>,
     fr_method = ATOMIC_STATE, fr_record = Some (sample_window v), fr_disclosure = None, fr_file = None,
     fr_complete = True, fr_reasons = []\<rparr>"

definition sample_facts :: "scalar \<Rightarrow> business_fact list" where
  "sample_facts v = [sealed ''f0'' (who ''0''), sealed ''f1'' (who ''1''), sealed ''f2'' (publish v)]"

definition plain_case :: execution_case where
  "plain_case = bare_case ''1'' ALLOW_REGRESSION ALLOW"

lemma sample_confirmed:
  "reduce_record_facts (sample_reference (Chars ''published'')) (sample_facts (Chars ''published'')) plain_case (Chars ''published'') None
     = decided EFFECT_CONFIRMED"
  by code_simp

lemma sample_absent:
  "reduce_record_facts (sample_reference (Chars ''draft'')) (sample_facts (Chars ''draft'')) plain_case (Chars ''published'') None
     = decided EFFECT_ABSENT"
  by code_simp

subsection \<open>The properties\<close>

lemma admitted_principals: "admitted a m ids facts c \<Longrightarrow> verified_principals c (selected_facts_of ids facts)"
  by (simp add: admitted_def)

text \<open>C19: a mutation confirmed from committed facts rests on one of them: a complete sealed commit the
  reference names, by the verified subject, owner and resource of the case, whose only change of the
  observed field under this proof makes the required mutation.\<close>

theorem confirmed_rests_on_commit:
  assumes "reduce_record_facts r facts c wanted mutation = decided EFFECT_CONFIRMED" and "fr_method r \<noteq> STATE_SNAPSHOT"
  shows "\<exists>w f d x. fr_record r = Some w \<and> f \<in> set facts \<and> bf_id f \<in> set (fr_fact_ids r) \<and> bf_complete f \<and>
    bf_data f = Committed_State d \<and> (cm_subject d, cm_owner d, cm_resource d) = parties c \<and> cm_generation d = rw_generation w \<and>
    own_changes r w d = [x] \<and> mutates mutation wanted x \<and> verified_principals c (selected_facts_of (fr_fact_ids r) facts)"
proof -
  from record_cases [OF assms] obtain w s where w: "fr_record r = Some w" "admitted True True (fr_fact_ids r) facts c"
    "chain_run r w c mutation wanted (expected_ordinals w) (chain_start w) (commits_of (selected_facts_of (fr_fact_ids r) facts)) = Some s"
    "ch_happened s" by (auto split: if_splits)
  from chain_run_facts(1) [OF w(3)] w(4) obtain y x where y: "y \<in> set (commits_of (selected_facts_of (fr_fact_ids r) facts))"
    "commit_fits r w c y x" "mutates mutation wanted x" by (auto simp: chain_start_def)
  obtain f d where fd: "y = (f, d)" by (cases y)
  with y(1) have "f \<in> set facts" "bf_id f \<in> set (fr_fact_ids r)" "bf_data f = Committed_State d"
    by (auto simp: commits_of_member selected_facts_of_def)
  with w(1) y(2,3) fd admitted_principals [OF w(2)] show ?thesis by (auto simp: commit_fits_def)
qed

theorem confirmed_rests_on_commit_witness:
  "\<exists>f \<in> set (sample_facts (Chars ''published'')). \<exists>d. bf_data f = Committed_State d \<and> bf_complete f"
proof -
  have "fr_method (sample_reference (Chars ''published'')) \<noteq> STATE_SNAPSHOT" by (simp add: sample_reference_def)
  from confirmed_rests_on_commit [OF sample_confirmed this] show ?thesis by blast
qed

text \<open>A mutation is found absent from committed facts only in a complete window: its commits account for
  every version between its ends, and each of them changes the observed field once under this proof
  without making the required mutation.\<close>

theorem absent_accounts_for_versions:
  assumes "reduce_record_facts r facts c wanted mutation = decided EFFECT_ABSENT" and "fr_method r \<noteq> STATE_SNAPSHOT"
    and "\<forall>f \<in> set facts. \<forall>d. bf_data f = Committed_State d \<longrightarrow> committed_errors d = []"
  shows "\<exists>w. fr_record r = Some w \<and> rw_source_complete w \<and> rw_scope w = SCOPE_COMPLETE \<and>
    rw_after_version w = rw_before_version w + rw_operation_count w \<and>
    (\<forall>f \<in> set (selected_facts_of (fr_fact_ids r) facts). \<forall>d. bf_data f = Committed_State d \<longrightarrow>
       (\<exists>x. own_changes r w d = [x] \<and> \<not> mutates mutation wanted x)) \<and>
    verified_principals c (selected_facts_of (fr_fact_ids r) facts)"
proof -
  let ?cs = "commits_of (selected_facts_of (fr_fact_ids r) facts)"
  from record_cases [OF assms(1,2)] obtain w s where w: "fr_record r = Some w" "admitted True True (fr_fact_ids r) facts c"
    "chain_run r w c mutation wanted (expected_ordinals w) (chain_start w) ?cs = Some s"
    "\<not> ch_happened s" "window_settled w ?cs s" by (auto split: if_splits)
  have next_version: "cm_after_version d = cm_before_version d + 1" if "committed_errors d = []" for d
    using that unfolding committed_errors_def after_fields_Nil by simp
  have "\<forall>(f, d) \<in> set ?cs. cm_after_version d = cm_before_version d + 1"
    using assms(3) next_version by (auto simp: commits_of_member selected_facts_of_def)
  from chain_run_facts(3) [OF w(3) this] w(5) have "rw_after_version w = rw_before_version w + rw_operation_count w"
    by (simp add: chain_start_def window_settled_def)
  moreover have "\<exists>x. own_changes r w d = [x] \<and> \<not> mutates mutation wanted x"
    if "f \<in> set (selected_facts_of (fr_fact_ids r) facts)" "bf_data f = Committed_State d" for f d
  proof -
    have m: "(f, d) \<in> set ?cs" using that by (simp add: commits_of_member)
    with chain_run_facts(2) [OF w(3)] obtain x where x: "commit_fits r w c (f, d) x" by blast
    with chain_run_facts(1) [OF w(3)] w(4) m have "\<not> mutates mutation wanted x" by (auto simp: chain_start_def)
    with x show ?thesis by (auto simp: commit_fits_def)
  qed
  ultimately show ?thesis
    using w(1,5) admitted_principals [OF w(2)] by (auto simp: window_settled_def)
qed

theorem absent_accounts_for_versions_witness:
  "rw_after_version (sample_window (Chars ''draft'')) =
     rw_before_version (sample_window (Chars ''draft'')) + rw_operation_count (sample_window (Chars ''draft''))"
proof -
  have m: "fr_method (sample_reference (Chars ''draft'')) \<noteq> STATE_SNAPSHOT" by (simp add: sample_reference_def)
  have "\<forall>f \<in> set (sample_facts (Chars ''draft'')). \<forall>d. bf_data f = Committed_State d \<longrightarrow> committed_errors d = []"
  proof -
    have "fact_data_errors (publish (Chars ''draft'')) = []" by code_simp
    then show ?thesis by (auto simp: sample_facts_def sealed_def who_def publish_def)
  qed
  from absent_accounts_for_versions [OF sample_absent m this] show ?thesis by (auto simp: sample_reference_def)
qed

text \<open>None of the four reductions answers anything but an open, untrusted \<open>UNKNOWN\<close> unless every fact the
  reference names was found and these facts verify the owner and the subject of the case, or that the
  request of an anonymous case was unauthenticated.\<close>

theorem answers_need_principals:
  "(reduce_record_facts r facts c wanted mutation = undecided \<or> admitted True True (fr_fact_ids r) facts c) \<and>
   (reduce_disclosure_facts r facts c = undecided \<or> admitted True True (fr_fact_ids r) facts c) \<and>
   (reduce_file_facts r facts c = undecided \<or> admitted True True (fr_fact_ids r) facts c) \<and>
   (reduce_creation_facts q facts c = undecided \<or> admitted True True (cr_fact_ids q) facts c)"
  by (intro conjI)
    (auto simp: reduce_record_facts_def reduce_disclosure_facts_def reduce_file_facts_def reduce_creation_facts_def Let_def
      admitted_def split: option.splits if_splits)

end
