(* ===== verification/Trace.thy ===== *)
theory Trace
  imports WireModels
begin

section \<open>Execution traces\<close>

text \<open>
  Models \<^verbatim>\<open>product/backend/domain/verification/trace.py\<close>: the events of one executed case as a graph
  of parents, and the order in which a trace stores them. \<^verbatim>\<open>heapq\<close> on pairs is a sorted list: its
  head is the least pair, and pushing inserts at the place of the pair. An identifier pattern is
  matched to its end by both regular expression engines; \<open>inline_secret\<close> is the search of
  \<^verbatim>\<open>_INLINE_SECRET\<close>, a word boundary being a position with no word character before it.
\<close>

subsection \<open>Events\<close>

datatype correlation_kind = EXPLICIT_PARENT | CASE_MARKER | RESOURCE_LINK | TEMPORAL

datatype trace_decision = TRACE_ALLOW | TRACE_DENY

datatype event_kind =
  ENTRY | IDENTITY | AUTHORIZATION | PERSISTENT_EFFECT | MESSAGE | DELEGATED | FINAL_EFFECT | RECOVERED

fun event_kind_value :: "event_kind \<Rightarrow> str" where
  "event_kind_value ENTRY = ''ENTRY''"
| "event_kind_value IDENTITY = ''IDENTITY''"
| "event_kind_value AUTHORIZATION = ''AUTHORIZATION''"
| "event_kind_value PERSISTENT_EFFECT = ''PERSISTENT_EFFECT''"
| "event_kind_value MESSAGE = ''MESSAGE''"
| "event_kind_value DELEGATED = ''DELEGATION''"
| "event_kind_value FINAL_EFFECT = ''FINAL_EFFECT''"
| "event_kind_value RECOVERED = ''RECOVERY''"

definition trace_id :: "str \<Rightarrow> bool" where
  "trace_id = headed (\<lambda>c. is_lower c \<or> is_upper c \<or> is_digit c)
     (\<lambda>c. is_lower c \<or> is_upper c \<or> is_digit c \<or> c \<in> set ''_.:/-'') 159"

definition semantic_key :: "str \<Rightarrow> bool" where
  "semantic_key = headed is_lower (\<lambda>c. is_lower c \<or> is_digit c \<or> c = CHR ''_'') 63"

definition trace_reason :: "str \<Rightarrow> bool" where
  "trace_reason = headed is_upper (\<lambda>c. is_upper c \<or> is_digit c \<or> c = CHR ''_'') 63"

fun word_search :: "(str \<Rightarrow> bool) \<Rightarrow> bool \<Rightarrow> str \<Rightarrow> bool" where
  \<comment> \<open>\<open>m\<close> matches at a position that no word character precedes\<close>
  "word_search m inside [] = (\<not> inside \<and> m [])"
| "word_search m inside (c # cs) = (\<not> inside \<and> m (c # cs) \<or> word_search m (is_word c) cs)"

definition more_text :: "str \<Rightarrow> bool" where
  \<comment> \<open>\<open>\s*\S+\<close>\<close>
  "more_text s \<longleftrightarrow> dropWhile is_space s \<noteq> []"

definition assigned_text :: "str \<Rightarrow> bool" where
  \<comment> \<open>\<open>\s*[:=]\s*\S+\<close>\<close>
  "assigned_text s =
     (case dropWhile is_space s of [] \<Rightarrow> False | c # cs \<Rightarrow> c \<in> set '':='' \<and> more_text cs)"

definition inline_secret :: "str \<Rightarrow> bool" where
  "inline_secret = word_search (\<lambda>s.
     follows ''bearer'' (\<lambda>r. case r of [] \<Rightarrow> False | c # cs \<Rightarrow> is_space c \<and> more_text cs) s \<or>
     list_ex (\<lambda>w. follows w assigned_text s)
       [''authorization'', ''cookie'', ''credential'', ''password'', ''passwd'', ''secret'', ''token'',
        ''apikey'', ''api_key'', ''api-key'']) False"

record authority_scope =
  as_actions :: "str list"
  as_resources :: "str list"
  as_origin :: "str option"
  as_delegated_from :: "str option"

definition trace_field :: "str \<Rightarrow> str \<Rightarrow> str list" where
  "trace_field field v = field_error [pattern_guard field trace_id v]"

definition authority_scope_errors :: "authority_scope \<Rightarrow> str list" where
  "authority_scope_errors s = after_fields
     (size_field ''allowed_action_ids'' 0 64 (as_actions s) @ size_field ''allowed_resource_ids'' 0 64 (as_resources s)
      @ optional_field (trace_field ''origin_authorization_event_id'') (as_origin s)
      @ optional_field (trace_field ''delegated_from_event_id'') (as_delegated_from s))
     [(has_duplicates (as_actions s), ''trace authority action IDs must be unique''),
      (has_duplicates (as_resources s), ''trace authority resource IDs must be unique''),
      (list_ex (\<lambda>v. \<not> trace_id v \<or> inline_secret v)
         (as_actions s @ as_resources s @ option_list (as_origin s) @ option_list (as_delegated_from s)),
       ''invalid or secret trace authority scope'')]"

definition scope_norm :: "authority_scope \<Rightarrow> authority_scope" where
  "scope_norm s = s\<lparr>as_actions := sort (as_actions s), as_resources := sort (as_resources s)\<rparr>"

record trace_event =
  te_event_id :: str
  te_parents :: "str list"
  te_case_id :: str
  te_action_id :: str
  te_resources :: "str list"
  te_kind :: event_kind
  te_semantic_key :: str
  te_subject :: "str option"
  te_actor :: "str option"
  te_credential :: "str option"
  te_scope :: authority_scope
  te_decision :: "trace_decision option"
  te_effect :: "str option"
  te_dispatch :: "str list"
  te_component :: str
  te_location :: str
  te_correlation :: correlation_kind
  te_evidence :: "str list"
  te_recorded_at :: int

definition event_field_errors :: "trace_event \<Rightarrow> str list" where
  "event_field_errors e =
     trace_field ''event_id'' (te_event_id e) @ size_field ''parent_event_ids'' 0 16 (te_parents e)
     @ trace_field ''case_id'' (te_case_id e) @ trace_field ''action_id'' (te_action_id e)
     @ size_field ''resource_ids'' 1 64 (te_resources e)
     @ field_error [pattern_guard ''semantic_key'' semantic_key (te_semantic_key e)]
     @ optional_field (trace_field ''subject_id'') (te_subject e) @ optional_field (trace_field ''actor_id'') (te_actor e)
     @ optional_field (trace_field ''credential_source'') (te_credential e) @ authority_scope_errors (te_scope e)
     @ optional_field (trace_field ''effect_id'') (te_effect e) @ size_field ''dispatch_effect_ids'' 0 16 (te_dispatch e)
     @ trace_field ''source_component'' (te_component e) @ trace_field ''source_location'' (te_location e)
     @ size_field ''evidence_refs'' 0 64 (te_evidence e) @ least_field ''recorded_at_us'' 0 (te_recorded_at e)"

definition event_texts :: "trace_event \<Rightarrow> str list" where
  "event_texts e = te_event_id e # te_parents e @ [te_case_id e, te_action_id e] @ te_resources e
     @ [event_kind_value (te_kind e), te_semantic_key e] @ option_list (te_subject e) @ option_list (te_actor e)
     @ option_list (te_credential e) @ as_actions (te_scope e) @ as_resources (te_scope e)
     @ option_list (as_origin (te_scope e)) @ option_list (as_delegated_from (te_scope e)) @ option_list (te_effect e)
     @ [te_component e, te_location e] @ te_evidence e"

definition event_guards :: "trace_event \<Rightarrow> guard list" where
  "event_guards e =
     (if te_dispatch e = [] then [] else
       [(te_kind e \<notin> {MESSAGE, DELEGATED} \<or> te_effect e \<noteq> None, ''dispatch is distinct from a realized effect''),
        (has_duplicates (te_dispatch e) \<or> list_ex (\<lambda>v. \<not> trace_id v \<or> inline_secret v) (te_dispatch e),
         ''invalid dispatch effect identifiers'')])
     @ [(te_event_id e \<in> set (te_parents e), ''trace event cannot reference itself as a parent''),
        (has_duplicates (te_parents e), ''trace event parent references must be unique''),
        (has_duplicates (te_resources e), ''trace event resource IDs must be unique''),
        (has_duplicates (te_evidence e), ''trace event evidence refs must be unique''),
        (list_ex inline_secret (event_texts e), ''secret material must not enter a trace event'')]"

definition event_errors :: "trace_event \<Rightarrow> str list" where
  "event_errors e = after_fields (event_field_errors e) (event_guards e)"

definition event_norm :: "trace_event \<Rightarrow> trace_event" where
  "event_norm e = e\<lparr>te_scope := scope_norm (te_scope e), te_dispatch := sort (te_dispatch e),
     te_parents := sort (te_parents e), te_resources := sort (te_resources e), te_evidence := sort (te_evidence e)\<rparr>"

subsection \<open>The stable topological order\<close>

definition children :: "trace_event list \<Rightarrow> str \<Rightarrow> str list" where
  \<comment> \<open>the entry of a parent: one element per edge, in the order of the events\<close>
  "children es p = concat (map (\<lambda>e. map (\<lambda>_. te_event_id e) (filter (\<lambda>q. q = p) (te_parents e))) es)"

type_synonym ready_queue = "(int \<times> str) list"

definition ready_key :: "trace_event \<Rightarrow> int \<times> str" where
  "ready_key e = (te_recorded_at e, te_event_id e)"

fun release :: "(str \<rightharpoonup> trace_event) \<Rightarrow> (str \<Rightarrow> int) \<Rightarrow> ready_queue \<Rightarrow> str list \<Rightarrow> (str \<Rightarrow> int) \<times> ready_queue" where
  \<comment> \<open>one edge into each child is done; a child with no open edge left is pushed\<close>
  "release events indegree ready [] = (indegree, ready)"
| "release events indegree ready (c # cs) =
     (let indegree' = indegree(c := indegree c - 1) in
      release events indegree'
        (if indegree' c = 0 then (case events c of None \<Rightarrow> ready | Some child \<Rightarrow> insort (ready_key child) ready) else ready) cs)"

fun drain :: "nat \<Rightarrow> trace_event list \<Rightarrow> (str \<Rightarrow> int) \<Rightarrow> ready_queue \<Rightarrow> trace_event list \<Rightarrow> trace_event list \<times> ready_queue" where
  \<comment> \<open>the loop \<open>while ready\<close>; the fuel is the number of iterations allowed\<close>
  "drain 0 es indegree ready ordered = (ordered, ready)"
| "drain (Suc n) es indegree [] ordered = (ordered, [])"
| "drain (Suc n) es indegree ((t, i) # ready) ordered =
     (case dict_of te_event_id es i of
        None \<Rightarrow> (ordered, (t, i) # ready)
      | Some e \<Rightarrow>
          let (indegree', ready') = release (dict_of te_event_id es) indegree ready (sort (children es i))
          in drain n es indegree' ready' (ordered @ [e]))"

definition open_parents :: "trace_event list \<Rightarrow> str \<Rightarrow> int" where
  "open_parents es i = (case dict_of te_event_id es i of None \<Rightarrow> 0 | Some e \<Rightarrow> int (length (te_parents e)))"

definition drained :: "trace_event list \<Rightarrow> trace_event list \<times> ready_queue" where
  "drained es = drain (length es) es (open_parents es)
     (sort (map ready_key (filter (\<lambda>e. open_parents es (te_event_id e) = 0) es))) []"

definition stable_topological_order :: "trace_event list \<Rightarrow> trace_event list checked" where
  "stable_topological_order es =
     (let ordered = fst (drained es) in
      if length ordered \<noteq> length es then Inl [''trace event graph contains a cycle''] else Inr ordered)"

subsection \<open>Traces\<close>

record execution_trace =
  tr_case_id :: str
  tr_action_id :: str
  tr_subject :: "str option"
  tr_events :: "trace_event list"
  tr_complete :: bool
  tr_reasons :: "str list"

definition trace_field_errors :: "execution_trace \<Rightarrow> str list" where
  "trace_field_errors t =
     trace_field ''case_id'' (tr_case_id t) @ trace_field ''action_id'' (tr_action_id t)
     @ optional_field (trace_field ''planned_subject_id'') (tr_subject t)
     @ size_field ''events'' 0 512 (tr_events t) @ each_field event_errors (tr_events t)
     @ field_error (size_guards ''reason_codes'' 0 64 (tr_reasons t)
         @ [(has_duplicates (tr_reasons t), ''trace reason codes must be unique''),
            (list_ex (\<lambda>r. \<not> trace_reason r) (tr_reasons t), ''trace reason codes must be stable uppercase tokens'')])"

definition member_guards :: "execution_trace \<Rightarrow> trace_event \<Rightarrow> guard list" where
  "member_guards t e =
     (let known = (\<lambda>i. i \<in> te_event_id ` set (tr_events t)) in
      [(te_case_id e \<noteq> tr_case_id t \<or> te_action_id e \<noteq> tr_action_id t, ''trace event does not match trace case and action''),
       (list_ex (\<lambda>p. \<not> known p) (te_parents e), ''trace event references a missing parent''),
       (list_ex (\<lambda>i. \<not> known i) (option_list (as_origin (te_scope e)) @ option_list (as_delegated_from (te_scope e))),
        ''trace authority scope references a missing event'')])"

definition trace_guards :: "execution_trace \<Rightarrow> guard list" where
  "trace_guards t =
     [(tr_complete t \<and> (tr_events t = [] \<or> tr_reasons t \<noteq> []), ''complete trace requires events and no reason codes''),
      (\<not> tr_complete t \<and> tr_reasons t = [], ''partial trace requires a reason code''),
      (has_duplicates (map te_event_id (tr_events t)), ''trace event IDs must be unique'')]
     @ concat (map (member_guards t) (tr_events t))"

definition trace_field_norm :: "execution_trace \<Rightarrow> execution_trace" where
  "trace_field_norm t = t\<lparr>tr_events := map event_norm (tr_events t), tr_reasons := sort (tr_reasons t)\<rparr>"

definition validate_trace :: "execution_trace \<Rightarrow> execution_trace checked" where
  "validate_trace t =
     (if trace_field_errors t \<noteq> [] then Inl (trace_field_errors t)
      else let n = trace_field_norm t in
        case first_error (trace_guards n) of
          Some m \<Rightarrow> Inl [m]
        | None \<Rightarrow> andthen (stable_topological_order (tr_events n)) (\<lambda>es. Inr (n\<lparr>tr_events := es\<rparr>)))"

end
