(* ===== verification/TraceFacts.thy ===== *)
theory TraceFacts
  imports Trace
begin

section \<open>The stable topological order is one\<close>

text \<open>
  The invariant of the draining loop, its termination within one iteration per event, and the result:
  an order with every parent before its children exists exactly when the parent relation is acyclic,
  and it does not depend on the order in which the events arrived.
\<close>

abbreviation event_ids :: "trace_event list \<Rightarrow> str set" where
  "event_ids es \<equiv> te_event_id ` set es"

definition parent_edges :: "trace_event list \<Rightarrow> (str \<times> str) set" where
  "parent_edges es = {(p, te_event_id e) | p e. e \<in> set es \<and> p \<in> set (te_parents e)}"

definition well_linked :: "trace_event list \<Rightarrow> bool" where
  "well_linked es \<longleftrightarrow> distinct (map te_event_id es) \<and>
     (\<forall>e \<in> set es. distinct (te_parents e) \<and> set (te_parents e) \<subseteq> event_ids es)"

definition parents_first :: "trace_event list \<Rightarrow> bool" where
  "parents_first es \<longleftrightarrow> (\<forall>xs e ys. es = xs @ e # ys \<longrightarrow> set (te_parents e) \<subseteq> event_ids xs)"

lemma parents_first_snoc:
  assumes "parents_first xs" and "set (te_parents e) \<subseteq> event_ids xs"
  shows "parents_first (xs @ [e])"
  unfolding parents_first_def
proof (intro allI impI)
  fix as a bs assume "xs @ [e] = as @ a # bs"
  then show "set (te_parents a) \<subseteq> event_ids as"
    using assms by (cases bs rule: rev_cases) (auto simp: parents_first_def)
qed

lemma short_takeWhile: "x \<in> set xs \<Longrightarrow> \<not> P x \<Longrightarrow> length (takeWhile P xs) < length xs"
  by (induction xs) auto

definition place :: "trace_event list \<Rightarrow> str \<Rightarrow> nat" where
  "place es i = length (takeWhile (\<lambda>e. te_event_id e \<noteq> i) es)"

lemma place_edge:
  assumes "parents_first es" and "distinct (map te_event_id es)" and "(p, c) \<in> parent_edges es"
  shows "place es p < place es c" and "place es c < length es"
proof -
  from assms(3) obtain e where e: "e \<in> set es" "c = te_event_id e" "p \<in> set (te_parents e)"
    by (auto simp: parent_edges_def)
  then obtain xs ys where es: "es = xs @ e # ys" by (meson split_list)
  with assms(1) e(3) have "p \<in> event_ids xs" by (auto simp: parents_first_def)
  then obtain x where x: "x \<in> set xs" "\<not> te_event_id x \<noteq> p" by auto
  have "takeWhile (\<lambda>e. te_event_id e \<noteq> p) es = takeWhile (\<lambda>e. te_event_id e \<noteq> p) xs"
    unfolding es using x by (rule takeWhile_append1)
  with short_takeWhile [of x xs "\<lambda>e. te_event_id e \<noteq> p"] x have "place es p < length xs" by (simp add: place_def)
  moreover have "place es c = length xs"
  proof -
    from assms(2) es have "c \<notin> event_ids xs" by (simp add: e(2))
    then have "\<forall>x \<in> set xs. te_event_id x \<noteq> c" by blast
    then show ?thesis by (simp add: place_def es e(2) takeWhile_append2)
  qed
  ultimately show "place es p < place es c" "place es c < length es" by (simp_all add: es)
qed

lemma parents_first_acyclic:
  assumes "parents_first es" and "distinct (map te_event_id es)"
  shows "acyclic (parent_edges es)"
proof -
  have "parent_edges es \<subseteq> inv_image less_than (place es)" using place_edge(1) [OF assms] by auto
  then show ?thesis by (meson wf_less_than wf_inv_image wf_subset wf_acyclic)
qed

subsection \<open>One round\<close>

lemma dict_of_event:
  assumes "distinct (map te_event_id es)" and "e \<in> set es"
  shows "dict_of te_event_id es (te_event_id e) = Some e"
  using dict_of_distinct [OF assms] .

lemma distinct_filter_same: "distinct xs \<Longrightarrow> filter (\<lambda>q. q = p) xs = (if p \<in> set xs then [p] else [])"
  by (induction xs) auto

lemma children_linked:
  assumes "well_linked es"
  shows "children es p = map te_event_id (filter (\<lambda>e. p \<in> set (te_parents e)) es)"
proof -
  have "\<forall>e \<in> set es. distinct (te_parents e)" using assms by (simp add: well_linked_def)
  then show ?thesis
    unfolding children_def by (induction es) (auto simp: distinct_filter_same)
qed

lemma sorted_children:
  assumes "well_linked es"
  shows "distinct (sort (children es p))" and "set (sort (children es p)) \<subseteq> event_ids es"
    and "e \<in> set es \<Longrightarrow> te_event_id e \<in> set (sort (children es p)) \<longleftrightarrow> p \<in> set (te_parents e)"
proof -
  from assms have d: "distinct (map te_event_id es)" by (simp add: well_linked_def)
  then show "distinct (sort (children es p))"
    by (simp add: children_linked [OF assms] distinct_map inj_on_def)
  show "set (sort (children es p)) \<subseteq> event_ids es" by (auto simp: children_linked [OF assms])
  show "te_event_id e \<in> set (sort (children es p)) \<longleftrightarrow> p \<in> set (te_parents e)" if "e \<in> set es"
    using d that by (auto simp: children_linked [OF assms] distinct_map dest: inj_onD)
qed

lemma release_result:
  assumes "distinct cs" and "\<forall>c \<in> set cs. \<exists>e. events c = Some e \<and> te_event_id e = c"
  shows "fst (release events indegree ready cs) = (\<lambda>i. if i \<in> set cs then indegree i - 1 else indegree i) \<and>
    mset (map snd (snd (release events indegree ready cs))) = mset (map snd ready) + mset (filter (\<lambda>c. indegree c = 1) cs)"
  using assms
proof (induction cs arbitrary: indegree ready)
  case (Cons c cs)
  obtain e where e: "events c = Some e" "te_event_id e = c" using Cons.prems(2) by auto
  define indegree' where "indegree' = indegree(c := indegree c - 1)"
  define ready' where "ready' = (if indegree' c = 0 then insort (ready_key e) ready else ready)"
  have step: "release events indegree ready (c # cs) = release events indegree' ready' cs"
    by (simp add: e Let_def indegree'_def ready'_def)
  have "mset (map snd (insort (ready_key e) ready)) = add_mset c (mset (map snd ready))"
    by (simp add: ready_key_def e)
  then have m: "mset (map snd ready') = mset (map snd ready) + (if indegree c = 1 then {#c#} else {#})"
    by (simp add: ready'_def indegree'_def)
  have "filter (\<lambda>x. indegree' x = 1) cs = filter (\<lambda>x. indegree x = 1) cs"
    using Cons.prems(1) by (intro filter_cong) (auto simp: indegree'_def)
  moreover have "(\<lambda>i. if i \<in> set cs then indegree' i - 1 else indegree' i) =
      (\<lambda>i. if i \<in> set (c # cs) then indegree i - 1 else indegree i)"
    using Cons.prems(1) by (auto simp: fun_eq_iff indegree'_def)
  moreover have "distinct cs" "\<forall>c \<in> set cs. \<exists>e. events c = Some e \<and> te_event_id e = c" using Cons.prems by auto
  note Cons.IH [OF this, of indegree' ready']
  ultimately show ?case unfolding step m by simp
qed simp

definition draining :: "trace_event list \<Rightarrow> (str \<Rightarrow> int) \<Rightarrow> ready_queue \<Rightarrow> trace_event list \<Rightarrow> bool" where
  "draining es indegree ready ordered \<longleftrightarrow>
     set ordered \<subseteq> set es \<and> distinct (map te_event_id ordered @ map snd ready) \<and>
     set (map snd ready) \<subseteq> event_ids es \<and>
     (\<forall>e \<in> set es. indegree (te_event_id e) = int (length (filter (\<lambda>p. p \<notin> event_ids ordered) (te_parents e)))) \<and>
     (\<forall>e \<in> set es. te_event_id e \<in> event_ids ordered \<union> set (map snd ready) \<longleftrightarrow> indegree (te_event_id e) = 0) \<and>
     parents_first ordered"

lemma open_parents_less:
  assumes "distinct ps" and "i \<in> set ps" and "i \<notin> S"
  shows "length (filter (\<lambda>p. p \<notin> S) ps) = Suc (length (filter (\<lambda>p. p \<notin> insert i S) ps))"
  using assms
proof (induction ps)
  case (Cons a ps)
  show ?case
  proof (cases "a = i")
    case True
    then have "filter (\<lambda>p. p \<notin> insert i S) ps = filter (\<lambda>p. p \<notin> S) ps"
      using Cons.prems(1) by (intro filter_cong) auto
    with True Cons.prems(3) show ?thesis by simp
  next
    case False
    with Cons show ?thesis by simp
  qed
qed simp

lemma draining_round:
  assumes wl: "well_linked es" and inv: "draining es indegree ((t, i) # ready) ordered"
    and e: "e \<in> set es" "te_event_id e = i"
    and rel: "release (dict_of te_event_id es) indegree ready (sort (children es i)) = (indegree', ready')"
  shows "draining es indegree' ready' (ordered @ [e])"
proof -
  note d = inv [unfolded draining_def]
  have new: "i \<notin> event_ids ordered" "i \<notin> set (map snd ready)" using d by auto
  have open_c: "indegree (te_event_id c) = int (length (filter (\<lambda>p. p \<notin> event_ids ordered) (te_parents c)))"
    and zero: "te_event_id c \<in> insert i (event_ids ordered \<union> set (map snd ready)) \<longleftrightarrow> indegree (te_event_id c) = 0"
    and ps: "distinct (te_parents c)" if "c \<in> set es" for c
    using d wl that by (auto simp: well_linked_def)
  define cs where "cs = sort (children es i)"
  note cs = sorted_children [OF wl, where p = i, folded cs_def]
  have "\<forall>c \<in> set cs. \<exists>e. dict_of te_event_id es c = Some e \<and> te_event_id e = c"
    using cs(2) dict_of_event wl by (fastforce simp: well_linked_def)
  from release_result [OF cs(1) this, of indegree ready] rel [folded cs_def]
  have r: "indegree' = (\<lambda>j. if j \<in> set cs then indegree j - 1 else indegree j)"
    and m: "mset (map snd ready') = mset (map snd ready) + mset (filter (\<lambda>c. indegree c = 1) cs)"
    by simp_all
  have set': "set (map snd ready') = set (map snd ready) \<union> {c \<in> set cs. indegree c = 1}"
    using arg_cong [OF m, of set_mset] by (auto)
  have child: "indegree' (te_event_id c) = indegree (te_event_id c) - (if i \<in> set (te_parents c) then 1 else 0)"
    if "c \<in> set es" for c
    using cs(3) [OF that] by (simp add: r)
  have fresh: "te_event_id c \<notin> insert i (event_ids ordered \<union> set (map snd ready))"
    if "c \<in> set es" "i \<in> set (te_parents c)" for c
    using zero [OF that(1)] open_c [OF that(1)] open_parents_less [OF ps [OF that(1)] that(2) new(1)] by simp
  have open': "indegree' (te_event_id c) = int (length (filter (\<lambda>p. p \<notin> event_ids (ordered @ [e])) (te_parents c)))"
    if c: "c \<in> set es" for c
  proof (cases "i \<in> set (te_parents c)")
    case True
    then show ?thesis
      using child [OF c] open_c [OF c] open_parents_less [OF ps [OF c] True new(1)] e(2) by simp
  next
    case False
    then have "filter (\<lambda>p. p \<notin> event_ids (ordered @ [e])) (te_parents c) = filter (\<lambda>p. p \<notin> event_ids ordered) (te_parents c)"
      using e(2) by (intro filter_cong) auto
    with False child [OF c] open_c [OF c] show ?thesis by simp
  qed
  have zero': "te_event_id c \<in> event_ids (ordered @ [e]) \<union> set (map snd ready') \<longleftrightarrow> indegree' (te_event_id c) = 0"
    if c: "c \<in> set es" for c
  proof -
    have m': "te_event_id c \<in> set (map snd ready') \<longleftrightarrow>
        te_event_id c \<in> set (map snd ready) \<or> i \<in> set (te_parents c) \<and> indegree (te_event_id c) = 1"
      unfolding set' using cs(3) [OF c] by blast
    have o: "te_event_id c \<in> event_ids (ordered @ [e]) \<longleftrightarrow> te_event_id c \<in> insert i (event_ids ordered)"
      using e(2) by auto
    show ?thesis
      unfolding Un_iff o m' child [OF c] using zero [OF c] fresh [OF c] by auto
  qed
  have outside: "c \<notin> insert i (event_ids ordered \<union> set (map snd ready))" if "c \<in> set cs" for c
  proof -
    from cs(2) that have "c \<in> event_ids es" by (rule subsetD)
    then obtain e' where e': "c = te_event_id e'" "e' \<in> set es" by (rule imageE)
    from cs(3) [OF e'(2)] that e'(1) have "i \<in> set (te_parents e')" by simp
    from fresh [OF e'(2) this] e'(1) show ?thesis by simp
  qed
  have dd: "distinct (map te_event_id ordered)" "distinct (map snd ready)"
    "event_ids ordered \<inter> set (map snd ready) = {}" using d by auto
  have distinct': "distinct (map te_event_id (ordered @ [e]) @ map snd ready')"
  proof -
    have "distinct (map snd ready @ filter (\<lambda>c. indegree c = 1) cs)"
      unfolding distinct_append using dd(2) distinct_filter [OF cs(1)] filter_is_subset [of "\<lambda>c. indegree c = 1" cs] outside
      by blast
    then have "distinct (map snd ready')" using m by (metis mset_append mset_eq_imp_distinct_iff)
    moreover have "set (map snd ready') \<inter> insert i (event_ids ordered) = {}"
      unfolding set' using dd(3) new outside by blast
    ultimately show ?thesis using dd(1) new(1) e(2) by auto
  qed
  have "indegree i = 0" using zero [OF e(1)] e(2) by simp
  then have "set (te_parents e) \<subseteq> event_ids ordered"
    using open_c [OF e(1)] e(2) by (auto simp: filter_empty_conv)
  then have "parents_first (ordered @ [e])" using d by (intro parents_first_snoc) auto
  moreover have "set (map snd ready') \<subseteq> event_ids es" unfolding set' using d cs(2) by auto
  ultimately show ?thesis
    unfolding draining_def using d e(1) open' zero' distinct' by auto
qed

lemma draining_room:
  assumes "draining es indegree ready ordered"
  shows "length ordered + length ready \<le> length es"
proof -
  have "length (map te_event_id ordered @ map snd ready) = card (event_ids ordered \<union> set (map snd ready))"
    using assms unfolding draining_def by (metis distinct_card set_append set_map)
  also have "\<dots> \<le> card (event_ids es)"
    using assms by (intro card_mono) (auto simp: draining_def)
  also have "\<dots> \<le> length es" by (metis card_length length_map set_map)
  finally show ?thesis by simp
qed

lemma drain_result:
  assumes "well_linked es" and "draining es indegree ready ordered" and "length es \<le> length ordered + n"
  shows "\<exists>indegree' ordered'. drain n es indegree ready ordered = (ordered', []) \<and> draining es indegree' [] ordered'"
  using assms(2,3)
proof (induction n arbitrary: indegree ready ordered)
  case 0
  from draining_room [OF 0(1)] 0(2) have "length ready = 0" by linarith
  then have "ready = []" by simp
  with 0(1) show ?case by auto
next
  case (Suc n)
  show ?case
  proof (cases ready)
    case Nil
    with Suc.prems(1) show ?thesis by auto
  next
    case (Cons r rest)
    obtain t i where r: "r = (t, i)" by (cases r)
    from Suc.prems(1) obtain e where e: "e \<in> set es" "te_event_id e = i" by (auto simp: draining_def Cons r)
    have look: "dict_of te_event_id es i = Some e"
      using dict_of_event assms(1) e by (auto simp: well_linked_def)
    obtain indegree' ready' where rel:
      "release (dict_of te_event_id es) indegree rest (sort (children es i)) = (indegree', ready')" by fastforce
    have "draining es indegree' ready' (ordered @ [e])"
      using draining_round [OF assms(1) _ e rel] Suc.prems(1) by (simp add: Cons r)
    from Suc.IH [OF this] Suc.prems(2) show ?thesis by (simp add: Cons r look rel)
  qed
qed

lemma draining_start:
  assumes "well_linked es"
  shows "draining es (open_parents es) (sort (map ready_key (filter (\<lambda>e. open_parents es (te_event_id e) = 0) es))) []"
proof -
  from assms have d: "distinct (map te_event_id es)" by (simp add: well_linked_def)
  have o: "open_parents es (te_event_id e) = int (length (te_parents e))" if "e \<in> set es" for e
    by (simp add: open_parents_def dict_of_event [OF d that])
  let ?start = "map ready_key (filter (\<lambda>e. open_parents es (te_event_id e) = 0) es)"
  have "map snd ?start = map te_event_id (filter (\<lambda>e. open_parents es (te_event_id e) = 0) es)"
    by (simp add: ready_key_def)
  then have "distinct (map snd ?start)" using d by (simp add: distinct_map inj_on_def)
  moreover have "mset (map snd (sort ?start)) = mset (map snd ?start)" by (simp del: map_map)
  ultimately have "distinct (map snd (sort ?start))" by (metis mset_eq_imp_distinct_iff)
  moreover have "set (map snd (sort ?start)) = te_event_id ` {e \<in> set es. open_parents es (te_event_id e) = 0}"
    by (auto simp: ready_key_def image_image)
  ultimately show ?thesis
    using d o by (auto simp: draining_def parents_first_def distinct_map dest: inj_onD)
qed

lemma drained_result:
  assumes "well_linked es"
  shows "\<exists>indegree. snd (drained es) = [] \<and> draining es indegree [] (fst (drained es))"
  using drain_result [OF assms draining_start [OF assms], of "length es"] by (auto simp: drained_def)

subsection \<open>The result\<close>

lemma stable_order_Inr:
  assumes "well_linked es" and "stable_topological_order es = Inr os"
  shows "mset os = mset es" and "parents_first os" and "acyclic (parent_edges es)"
proof -
  from drained_result [OF assms(1)] assms(2) obtain indegree where inv: "draining es indegree [] os" "length os = length es"
    by (auto simp: stable_topological_order_def Let_def split: if_splits)
  have d: "distinct (map te_event_id os)" "distinct (map te_event_id es)"
    using inv(1) assms(1) by (auto simp: draining_def well_linked_def)
  then have "distinct os" "distinct es" by (simp_all add: distinct_map)
  with inv have s: "set os = set es"
    by (metis (no_types, lifting) List.finite_set card_subset_eq distinct_card draining_def)
  with \<open>distinct os\<close> \<open>distinct es\<close> show "mset os = mset es" by (simp add: set_eq_iff_mset_eq_distinct)
  show "parents_first os" using inv(1) by (simp add: draining_def)
  from parents_first_acyclic [OF this d(1)] show "acyclic (parent_edges es)"
    by (simp add: parent_edges_def s)
qed

lemma stable_order_exists:
  assumes wl: "well_linked es" and "acyclic (parent_edges es)"
  shows "\<exists>os. stable_topological_order es = Inr os"
proof -
  let ?os = "fst (drained es)"
  from drained_result [OF wl] obtain indegree where inv: "draining es indegree [] ?os" by blast
  have "parent_edges es = (\<Union>e \<in> set es. (\<lambda>p. (p, te_event_id e)) ` set (te_parents e))"
    by (auto simp: parent_edges_def)
  then have "finite (parent_edges es)" by simp
  then have wf: "wf (parent_edges es)" using assms(2) by (rule finite_acyclic_wf)
  have "event_ids es - event_ids ?os = {}"
  proof (rule ccontr)
    assume "event_ids es - event_ids ?os \<noteq> {}"
    then obtain z where z: "z \<in> event_ids es - event_ids ?os"
      "\<And>y. (y, z) \<in> parent_edges es \<Longrightarrow> y \<notin> event_ids es - event_ids ?os"
      using wfE_min [OF wf] by (metis ex_in_conv)
    from z(1) obtain e where e: "e \<in> set es" "z = te_event_id e" "z \<notin> event_ids ?os" by blast
    with inv have "indegree z \<noteq> 0" by (auto simp: draining_def)
    with inv e obtain p where p: "p \<in> set (te_parents e)" "p \<notin> event_ids ?os"
      by (fastforce simp: draining_def filter_empty_conv)
    with wl e(1) have "p \<in> event_ids es" by (auto simp: well_linked_def)
    with p e(1,2) z(2) [of p] show False by (auto simp: parent_edges_def)
  qed
  then have "event_ids es \<subseteq> event_ids ?os" by blast
  then have "card (event_ids es) \<le> length ?os" by (metis (no_types) card_length card_mono finite_imageI List.finite_set le_trans length_map list.set_map)
  moreover have "card (event_ids es) = length es" using wl by (metis distinct_card length_map list.set_map well_linked_def)
  ultimately have "length ?os = length es" using draining_room [OF inv] by simp
  then show ?thesis by (simp add: stable_topological_order_def Let_def)
qed

lemma drain_cong:
  assumes "dict_of te_event_id es' = dict_of te_event_id es" and "\<And>i. sort (children es' i) = sort (children es i)"
  shows "drain n es' indegree ready ordered = drain n es indegree ready ordered"
proof (induction n arbitrary: indegree ready ordered)
  case (Suc n)
  show ?case
  proof (cases ready)
    case (Cons r rest)
    obtain t i where r: "r = (t, i)" by (cases r)
    show ?thesis by (simp add: Cons r assms Suc.IH split: option.split prod.split)
  qed simp
qed simp

lemma stable_order_arrival:
  assumes "distinct (map te_event_id es)" and "mset es' = mset es"
  shows "stable_topological_order es' = stable_topological_order es"
proof -
  have look: "dict_of te_event_id es' = dict_of te_event_id es" using dict_of_perm [OF assms] .
  have ch: "sort (children es' i) = sort (children es i)" for i
  proof (rule properties_for_sort)
    have "mset (concat (map f xs)) = (\<Sum>x \<in># mset xs. mset (f x))" for f :: "trace_event \<Rightarrow> str list" and xs
      by (induction xs) auto
    then have "mset (children es' i) = mset (children es i)" by (simp add: children_def assms(2))
    then show "mset (sort (children es i)) = mset (children es' i)" by simp
  qed simp
  have op: "open_parents es' = open_parents es" by (simp add: open_parents_def look fun_eq_iff)
  have st: "sort (map ready_key (filter P es')) = sort (map ready_key (filter P es))" for P
    by (rule properties_for_sort) (simp_all add: assms(2))
  have len: "length es' = length es" using assms(2) by (metis size_mset)
  show ?thesis
    by (simp add: stable_topological_order_def drained_def op st len drain_cong [OF look ch])
qed

end
