(* ===== verification/TraceProperties.thy ===== *)
theory TraceProperties
  imports TraceFacts
begin

section \<open>Properties of traces\<close>

text \<open>
  The trace reader stores the events with every parent before its children, refuses exactly the cyclic
  ones, and stores the same trace for every order of arrival.
\<close>

lemma linked_norm:
  assumes "trace_field_errors t = []" and "first_error (trace_guards (trace_field_norm t)) = None"
  shows "well_linked (tr_events (trace_field_norm t))"
proof -
  let ?es = "tr_events (trace_field_norm t)"
  from assms(2) have g: "\<forall>g \<in> set (trace_guards (trace_field_norm t)). \<not> fst g" by (simp only: first_error_None)
  then have "distinct (map te_event_id ?es)" by (simp add: trace_guards_def has_duplicates_iff)
  moreover have "set (te_parents e) \<subseteq> event_ids ?es" if "e \<in> set ?es" for e
    using g that by (auto simp: trace_guards_def member_guards_def Let_def list_ex_iff)
  moreover have "distinct (te_parents e)" if "e \<in> set ?es" for e
  proof -
    from that obtain e0 where e0: "e0 \<in> set (tr_events t)" "e = event_norm e0" by (auto simp: trace_field_norm_def)
    from assms(1) e0(1) have "event_errors e0 = []"
      by (auto simp: trace_field_errors_def each_field_def concat_map_Nil)
    then have "distinct (te_parents e0)"
      by (simp add: event_errors_def after_fields_Nil event_guards_def has_duplicates_iff)
    then show ?thesis by (simp add: e0(2) event_norm_def)
  qed
  ultimately show ?thesis by (simp add: well_linked_def)
qed

lemma validate_trace_cases:
  assumes "trace_field_errors t = []" and "first_error (trace_guards (trace_field_norm t)) = None"
  shows "validate_trace t = andthen (stable_topological_order (tr_events (trace_field_norm t)))
    (\<lambda>es. Inr ((trace_field_norm t)\<lparr>tr_events := es\<rparr>))"
  using assms by (simp add: validate_trace_def Let_def)

text \<open>C22: a trace whose fields and references are in order is stored with every parent before its children,
  as a permutation of its events, when the parent relation is acyclic, and is refused as cyclic otherwise; the
  loop that orders the events ends with nothing left to do after at most one round per event.\<close>

theorem trace_order_exact:
  assumes "trace_field_errors t = []" and "first_error (trace_guards (trace_field_norm t)) = None"
  shows "snd (drained (tr_events (trace_field_norm t))) = [] \<and>
    (if acyclic (parent_edges (tr_events (trace_field_norm t)))
     then \<exists>n. validate_trace t = Inr n \<and> mset (tr_events n) = mset (map event_norm (tr_events t)) \<and> parents_first (tr_events n)
     else validate_trace t = Inl [''trace event graph contains a cycle''])"
proof -
  let ?es = "tr_events (trace_field_norm t)"
  have wl: "well_linked ?es" by (rule linked_norm [OF assms])
  have es: "?es = map event_norm (tr_events t)" by (simp add: trace_field_norm_def)
  have "if acyclic (parent_edges ?es)
     then \<exists>n. validate_trace t = Inr n \<and> mset (tr_events n) = mset ?es \<and> parents_first (tr_events n)
     else validate_trace t = Inl [''trace event graph contains a cycle'']"
  proof (cases "stable_topological_order ?es")
    case (Inr os)
    from stable_order_Inr [OF wl Inr] show ?thesis
      by (simp add: validate_trace_cases [OF assms] Inr)
  next
    case (Inl m)
    then have "m = [''trace event graph contains a cycle'']"
      by (simp add: stable_topological_order_def Let_def split: if_splits)
    moreover from Inl stable_order_exists [OF wl] have "\<not> acyclic (parent_edges ?es)" by fastforce
    ultimately show ?thesis by (simp add: validate_trace_cases [OF assms] Inl)
  qed
  with drained_result [OF wl] show ?thesis unfolding es by blast
qed

definition plain_event :: "str \<Rightarrow> str list \<Rightarrow> event_kind \<Rightarrow> int \<Rightarrow> trace_event" where
  "plain_event i ps k at = \<lparr>te_event_id = i, te_parents = ps, te_case_id = ''case-1'', te_action_id = ''edit'',
     te_resources = [''doc-1''], te_kind = k, te_semantic_key = ''step'', te_subject = None, te_actor = None,
     te_credential = None, te_scope = \<lparr>as_actions = [], as_resources = [], as_origin = None, as_delegated_from = None\<rparr>,
     te_decision = None, te_effect = None, te_dispatch = [], te_component = ''api'', te_location = ''main'',
     te_correlation = EXPLICIT_PARENT, te_evidence = [], te_recorded_at = at\<rparr>"

definition sample_trace :: execution_trace where
  "sample_trace = \<lparr>tr_case_id = ''case-1'', tr_action_id = ''edit'', tr_subject = Some ''alice'',
     tr_events = [plain_event ''e3'' [''e2'', ''e1''] FINAL_EFFECT 1, plain_event ''e1'' [] ENTRY 7,
                  plain_event ''e2'' [''e1''] AUTHORIZATION 5],
     tr_complete = True, tr_reasons = []\<rparr>"

lemma sample_trace_fields: "trace_field_errors sample_trace = []"
  "first_error (trace_guards (trace_field_norm sample_trace)) = None"
  by code_simp+

theorem trace_order_exact_witness:
  "\<exists>n. validate_trace sample_trace = Inr n \<and> parents_first (tr_events n) \<and> length (tr_events n) = 3"
proof -
  let ?es = "tr_events (trace_field_norm sample_trace)"
  let ?os = "[plain_event ''e1'' [] ENTRY 7, plain_event ''e2'' [''e1''] AUTHORIZATION 5,
    plain_event ''e3'' [''e1'', ''e2''] FINAL_EFFECT 1]"
  have "stable_topological_order ?es = Inr ?os" by code_simp
  from stable_order_Inr(3) [OF linked_norm [OF sample_trace_fields] this] have "acyclic (parent_edges ?es)" .
  with trace_order_exact [OF sample_trace_fields] obtain n where
    n: "validate_trace sample_trace = Inr n" "mset (tr_events n) = mset (map event_norm (tr_events sample_trace))"
      "parents_first (tr_events n)" by (auto split: if_splits)
  from arg_cong [OF n(2), of size] have "length (tr_events n) = 3" by (simp add: sample_trace_def)
  with n show ?thesis by blast
qed

text \<open>C23: a trace does not depend on the order in which its events arrived: any permutation of the events
  of an accepted trace is accepted and stored as the same trace.\<close>

theorem trace_arrival_irrelevant:
  assumes "validate_trace t = Inr n" and "mset es = mset (tr_events t)"
  shows "validate_trace (t\<lparr>tr_events := es\<rparr>) = Inr n"
proof -
  let ?t = "t\<lparr>tr_events := es\<rparr>"
  from assms(1) have f: "trace_field_errors t = []" and g: "first_error (trace_guards (trace_field_norm t)) = None"
    by (auto simp: validate_trace_def Let_def split: if_splits option.splits)
  have s: "set es = set (tr_events t)" "length es = length (tr_events t)"
    using assms(2) by (metis set_mset_mset, metis size_mset)
  have f': "trace_field_errors ?t = []"
    using f s by (simp add: trace_field_errors_def each_field_def concat_map_Nil size_field_def field_error_Nil size_guards_ok)
  have d: "distinct (map te_event_id (tr_events (trace_field_norm t)))"
    using linked_norm [OF f g] by (simp add: well_linked_def)
  have m: "mset (tr_events (trace_field_norm ?t)) = mset (tr_events (trace_field_norm t))"
    by (simp add: trace_field_norm_def assms(2))
  then have d': "distinct (map te_event_id (tr_events (trace_field_norm ?t)))"
    using d by (metis mset_eq_imp_distinct_iff mset_map)
  have member: "member_guards (trace_field_norm ?t) e = member_guards (trace_field_norm t) e" for e
    using s(1) by (simp add: member_guards_def trace_field_norm_def)
  have empty: "es = [] \<longleftrightarrow> tr_events t = []" using s(2) by auto
  have "\<forall>g \<in> set (trace_guards (trace_field_norm ?t)). \<not> fst g"
    using g d d' s(1) unfolding first_error_None trace_guards_def member
    by (simp add: trace_field_norm_def has_duplicates_iff empty)
  then have g': "first_error (trace_guards (trace_field_norm ?t)) = None" by (simp only: first_error_None)
  have o: "stable_topological_order (tr_events (trace_field_norm ?t)) = stable_topological_order (tr_events (trace_field_norm t))"
    by (rule stable_order_arrival [OF d m])
  have n: "(trace_field_norm ?t)\<lparr>tr_events := os\<rparr> = (trace_field_norm t)\<lparr>tr_events := os\<rparr>" for os
    by (simp add: trace_field_norm_def)
  from assms(1) show ?thesis
    unfolding validate_trace_cases [OF f g] validate_trace_cases [OF f' g'] o n .
qed

theorem trace_arrival_irrelevant_witness:
  "\<exists>n. validate_trace (sample_trace\<lparr>tr_events := rev (tr_events sample_trace)\<rparr>) = Inr n \<and> tr_complete n"
proof -
  let ?os = "[plain_event ''e1'' [] ENTRY 7, plain_event ''e2'' [''e1''] AUTHORIZATION 5,
    plain_event ''e3'' [''e1'', ''e2''] FINAL_EFFECT 1]"
  have "stable_topological_order (tr_events (trace_field_norm sample_trace)) = Inr ?os" by code_simp
  then have "validate_trace sample_trace = Inr ((trace_field_norm sample_trace)\<lparr>tr_events := ?os\<rparr>)"
    by (simp add: validate_trace_cases [OF sample_trace_fields])
  from trace_arrival_irrelevant [OF this, of "rev (tr_events sample_trace)"] show ?thesis
    by (simp add: trace_field_norm_def sample_trace_def)
qed

end
