(* ===== verification/Differential.thy ===== *)
theory Differential
  imports CoverageModels "HOL-Library.AList"
begin

section \<open>Differential twins\<close>

text \<open>
  Models \<^verbatim>\<open>product/backend/domain/verification/differential.py\<close>: each single-resource DENY case of a
  coverage plan is paired with the one ALLOW case that differs from it in a single dimension, or
  listed as a gap. The texts of a gap's detail are Chinese and outside the characters of the model:
  they are the parameter \<open>texts\<close>. A nested object is an instance that its own validator accepted,
  and is not validated again.
\<close>

datatype twin_gap_code = MISSING_ALLOW_CONTROL | AMBIGUOUS_ALLOW_CONTROL | MULTIPLE_VARIATIONS | MISSING_INVARIANT

fun twin_gap_value :: "twin_gap_code \<Rightarrow> str" where
  "twin_gap_value MISSING_ALLOW_CONTROL = ''MISSING_ALLOW_CONTROL''"
| "twin_gap_value AMBIGUOUS_ALLOW_CONTROL = ''AMBIGUOUS_ALLOW_CONTROL''"
| "twin_gap_value MULTIPLE_VARIATIONS = ''MULTIPLE_VARIATIONS''"
| "twin_gap_value MISSING_INVARIANT = ''MISSING_INVARIANT''"

record mutation_descriptor =
  md_dimension :: coverage_dimension
  md_changed :: "str list"
  md_allow_value :: str
  md_deny_value :: str

definition descriptor_errors :: "mutation_descriptor \<Rightarrow> str list" where
  "descriptor_errors m = field_error (size_guards ''changed_fields'' 1 16 (md_changed m))
     @ field_error [pattern_guard ''allow_value_fingerprint'' (hex_text 64) (md_allow_value m)]
     @ field_error [pattern_guard ''deny_value_fingerprint'' (hex_text 64) (md_deny_value m)]"

definition descriptor_json :: "mutation_descriptor \<Rightarrow> json" where
  "descriptor_json m = JObj
     [(''dimension'', dimension_json (md_dimension m)), (''changed_fields'', json_strings (md_changed m)),
      (''allow_value_fingerprint'', JStr (md_allow_value m)), (''deny_value_fingerprint'', JStr (md_deny_value m))]"

record twin_invariant =
  ti_action_id :: str
  ti_resource_ids :: "str list"
  ti_workflow :: str
  ti_effect :: str
  ti_observer :: str
  ti_baseline :: str
  ti_normalization :: str

definition twin_invariant_errors :: "twin_invariant \<Rightarrow> str list" where
  "twin_invariant_errors i = field_error (size_guards ''resource_ids'' 1 256 (ti_resource_ids i))
     @ field_error [pattern_guard ''workflow_fingerprint'' (hex_text 64) (ti_workflow i)]
     @ field_error [pattern_guard ''effect_fingerprint'' (hex_text 64) (ti_effect i)]
     @ field_error [pattern_guard ''observer_fingerprint'' (hex_text 64) (ti_observer i)]
     @ field_error [pattern_guard ''baseline_fingerprint'' (hex_text 64) (ti_baseline i)]
     @ field_error (size_guards ''normalization_version'' 1 64 (ti_normalization i))"

definition twin_invariant_json :: "twin_invariant \<Rightarrow> json" where
  "twin_invariant_json i = JObj
     [(''action_id'', JStr (ti_action_id i)), (''resource_ids'', json_strings (ti_resource_ids i)),
      (''workflow_fingerprint'', JStr (ti_workflow i)), (''effect_fingerprint'', JStr (ti_effect i)),
      (''observer_fingerprint'', JStr (ti_observer i)), (''baseline_fingerprint'', JStr (ti_baseline i)),
      (''normalization_version'', JStr (ti_normalization i))]"

record permission_twin =
  pt_twin_id :: str
  pt_source_rule_id :: str
  pt_allow :: mutation_case
  pt_deny :: mutation_case
  pt_dimension :: coverage_dimension
  pt_mutation :: mutation_descriptor
  pt_invariant :: twin_invariant
  pt_fingerprint :: str

definition twin_payload :: "permission_twin \<Rightarrow> (str \<times> json) list" where
  "twin_payload t =
     [(''source_rule_id'', JStr (pt_source_rule_id t)), (''allow_case'', mutation_case_json (pt_allow t)),
      (''deny_case'', mutation_case_json (pt_deny t)), (''varied_dimension'', dimension_json (pt_dimension t)),
      (''mutation'', descriptor_json (pt_mutation t)), (''invariant'', twin_invariant_json (pt_invariant t))]"

definition permission_twin_json :: "permission_twin \<Rightarrow> json" where
  "permission_twin_json t = JObj
     (twin_payload t @ [(''twin_id'', JStr (pt_twin_id t)), (''twin_fingerprint'', JStr (pt_fingerprint t))])"

definition permission_twin_errors :: "(str \<Rightarrow> str) \<Rightarrow> permission_twin \<Rightarrow> str list" where
  "permission_twin_errors sha t =
     (let expected = permission_model_sha256 sha (JObj (twin_payload t)) in after_fields
       (field_error [pattern_guard ''twin_id'' (prefixed_hex ''twin-'') (pt_twin_id t)]
        @ field_error [pattern_guard ''twin_fingerprint'' (hex_text 64) (pt_fingerprint t)])
       [(\<not> list_all (\<lambda>v. v = ALLOW) (mc_expectations (pt_allow t)), ''twin allow case must contain only ALLOW expectations''),
        (\<not> list_all (\<lambda>v. v = DENY) (mc_expectations (pt_deny t)), ''twin deny case must contain only DENY expectations''),
        (pt_dimension t \<noteq> md_dimension (pt_mutation t), ''twin mutation dimension must match varied_dimension''),
        (mc_action_id (pt_allow t) \<noteq> mc_action_id (pt_deny t) \<or> mc_action_id (pt_allow t) \<noteq> ti_action_id (pt_invariant t),
         ''twin action invariant is inconsistent''),
        (mc_resource_ids (pt_allow t) \<noteq> mc_resource_ids (pt_deny t) \<or> mc_resource_ids (pt_allow t) \<noteq> ti_resource_ids (pt_invariant t),
         ''twin resource invariant is inconsistent''),
        (pt_twin_id t \<noteq> ''twin-'' @ take 32 expected \<or> pt_fingerprint t \<noteq> expected,
         ''twin fingerprint does not match its semantic payload'')])"

record twin_gap =
  tg_deny_case_id :: str
  tg_code :: twin_gap_code
  tg_detail :: str

definition twin_gap_errors :: "twin_gap \<Rightarrow> str list" where
  "twin_gap_errors g = field_error [pattern_guard ''deny_case_id'' (prefixed_hex ''case-'') (tg_deny_case_id g)]
     @ field_error (size_guards ''detail'' 1 160 (tg_detail g))"

definition twin_gap_json :: "twin_gap \<Rightarrow> json" where
  "twin_gap_json g = JObj
     [(''deny_case_id'', JStr (tg_deny_case_id g)), (''code'', JStr (twin_gap_value (tg_code g))), (''detail'', JStr (tg_detail g))]"

record differential_plan =
  dp_plan_id :: str
  dp_fingerprint :: str
  dp_coverage_fingerprint :: str
  dp_twins :: "permission_twin list"
  dp_gaps :: "twin_gap list"

definition differential_payload :: "differential_plan \<Rightarrow> json" where
  "differential_payload p = JObj
     [(''coverage_plan_fingerprint'', JStr (dp_coverage_fingerprint p)),
      (''twins'', JArr (map permission_twin_json (dp_twins p))), (''gaps'', JArr (map twin_gap_json (dp_gaps p)))]"

definition differential_plan_errors :: "(str \<Rightarrow> str) \<Rightarrow> differential_plan \<Rightarrow> str list" where
  "differential_plan_errors sha p =
     (let expected = permission_model_sha256 sha (differential_payload p) in after_fields
       (field_error [pattern_guard ''differential_plan_id'' (prefixed_hex ''dplan-'') (dp_plan_id p)]
        @ field_error [pattern_guard ''differential_fingerprint'' (hex_text 64) (dp_fingerprint p)]
        @ field_error [pattern_guard ''coverage_plan_fingerprint'' (hex_text 64) (dp_coverage_fingerprint p)]
        @ field_error (size_guards ''twins'' 0 8192 (dp_twins p)) @ field_error (size_guards ''gaps'' 0 8192 (dp_gaps p)))
       [(has_duplicates (map pt_twin_id (dp_twins p)), ''differential twin IDs must be unique''),
        (has_duplicates (map (\<lambda>t. mc_case_id (pt_deny t)) (dp_twins p)), ''each DENY case can belong to only one twin''),
        (has_duplicates (map tg_deny_case_id (dp_gaps p)), ''differential gaps must be unique per DENY case''),
        (dp_plan_id p \<noteq> ''dplan-'' @ take 32 expected \<or> dp_fingerprint p \<noteq> expected,
         ''differential plan fingerprint does not match its semantic payload'')])"

subsection \<open>What differs between two cases\<close>

definition variation_fields :: "mutation_case \<Rightarrow> mutation_case \<Rightarrow> str list" where
  "variation_fields a d = violations
     [(mc_subject_id a \<noteq> mc_subject_id d, ''subject_id''),
      (mc_relation_paths a \<noteq> mc_relation_paths d, ''relation_paths''),
      (mc_context a \<noteq> mc_context d, ''context'')]"

definition same_workflow :: "mutation_case \<Rightarrow> mutation_case \<Rightarrow> bool" where
  "same_workflow a d \<longleftrightarrow> context_workflow_states (mc_context a) = context_workflow_states (mc_context d)"

definition context_dimension :: "mutation_case \<Rightarrow> coverage_dimension" where
  "context_dimension d = (if TENANT \<in> set (mc_dimensions d) then TENANT
     else if DEPARTMENT \<in> set (mc_dimensions d) then DEPARTMENT else RELATION)"

definition variation_groups :: "mutation_case \<Rightarrow> mutation_case \<Rightarrow> (coverage_dimension \<times> str list) list" where
  \<comment> \<open>the dictionary of dimensions, in insertion order; assigning an existing key keeps its place\<close>
  "variation_groups a d =
     (let changed = variation_fields a d;
          groups =
            [(if ''relation_paths'' \<in> set changed then RELATION else ROLE,
              filter (\<lambda>f. f \<in> {''subject_id'', ''relation_paths''}) changed),
             (WORKFLOW, filter (\<lambda>f. f = ''context'' \<and> \<not> same_workflow a d) changed)]
      in if ''context'' \<in> set changed \<and> same_workflow a d
         then AList.update (context_dimension d) [''context''] groups else groups)"

definition variation :: "mutation_case \<Rightarrow> mutation_case \<Rightarrow> coverage_dimension option \<times> str list" where
  "variation a d =
     (case filter (\<lambda>(dim, fs). fs \<noteq> []) (variation_groups a d) of
        [(dim, fs)] \<Rightarrow> (Some dim, sort fs)
      | _ \<Rightarrow> (None, variation_fields a d))"

definition case_field_json :: "mutation_case \<Rightarrow> str \<Rightarrow> json" where
  "case_field_json m field =
     (if field = ''subject_id'' then JStr (mc_subject_id m)
      else if field = ''relation_paths'' then JArr (map json_strings (mc_relation_paths m))
      else context_json (mc_context m))"

definition variation_payload :: "mutation_case \<Rightarrow> str list \<Rightarrow> json" where
  "variation_payload m fs = JObj (map (\<lambda>f. (f, case_field_json m f)) fs)"

subsection \<open>Pairing\<close>

record frozen_invariants =
  fi_workflow :: "str \<rightharpoonup> str"
  fi_effect :: "str \<rightharpoonup> str"
  fi_observer :: str
  fi_baseline :: "str \<rightharpoonup> str"
  fi_normalization :: str

definition single_cases :: "permission_expectation \<Rightarrow> mutation_plan \<Rightarrow> mutation_case list" where
  "single_cases x p = filter (\<lambda>m. mc_batch_mode m = None \<and> list_all (\<lambda>v. v = x) (mc_expectations m)) (mp_cases p)"

definition controls :: "mutation_plan \<Rightarrow> mutation_case \<Rightarrow> mutation_case list" where
  "controls p d = filter (\<lambda>a. mc_action_id a = mc_action_id d \<and> mc_resource_ids a = mc_resource_ids d \<and>
     mc_observations a = mc_observations d) (single_cases ALLOW p)"

definition distance :: "mutation_case \<Rightarrow> mutation_case \<Rightarrow> nat" where
  "distance d a = length (variation_fields a d)"

definition ranked :: "mutation_plan \<Rightarrow> mutation_case \<Rightarrow> mutation_case list" where
  "ranked p d = sort_key (\<lambda>a. (distance d a, mc_fingerprint a)) (controls p d)"

definition make_twin :: "(str \<Rightarrow> str) \<Rightarrow> str \<Rightarrow> mutation_case \<Rightarrow> mutation_case \<Rightarrow> coverage_dimension \<Rightarrow> mutation_descriptor \<Rightarrow>
    twin_invariant \<Rightarrow> permission_twin" where
  "make_twin sha rule a d dim m i =
     (let t = \<lparr>pt_twin_id = [], pt_source_rule_id = rule, pt_allow = a, pt_deny = d, pt_dimension = dim, pt_mutation = m,
               pt_invariant = i, pt_fingerprint = []\<rparr>;
          fingerprint = permission_model_sha256 sha (JObj (twin_payload t))
      in t\<lparr>pt_twin_id := ''twin-'' @ take 32 fingerprint, pt_fingerprint := fingerprint\<rparr>)"

definition build_twin :: "(str \<Rightarrow> str) \<Rightarrow> frozen_invariants \<Rightarrow> mutation_case \<Rightarrow> mutation_case \<Rightarrow> coverage_dimension \<Rightarrow> str list \<Rightarrow>
    str \<Rightarrow> str \<Rightarrow> str \<Rightarrow> permission_twin checked" where
  "build_twin sha v a d dim changed workflow effect baseline =
     (let m = \<lparr>md_dimension = dim, md_changed = changed,
               md_allow_value = permission_model_sha256 sha (variation_payload a changed),
               md_deny_value = permission_model_sha256 sha (variation_payload d changed)\<rparr>;
          i = \<lparr>ti_action_id = mc_action_id d, ti_resource_ids = mc_resource_ids d, ti_workflow = workflow, ti_effect = effect,
               ti_observer = fi_observer v, ti_baseline = baseline, ti_normalization = fi_normalization v\<rparr>
      in andthen (checked (descriptor_errors m) ()) (\<lambda>_. andthen (checked (twin_invariant_errors i) ()) (\<lambda>_.
         case mc_source_rule_ids d of
           [] \<Rightarrow> Inl [''IndexError'']
         | rule # _ \<Rightarrow> let t = make_twin sha rule a d dim m i in checked (permission_twin_errors sha t) t)))"

definition build_gap :: "(twin_gap_code \<Rightarrow> str) \<Rightarrow> mutation_case \<Rightarrow> twin_gap_code \<Rightarrow> (twin_gap + permission_twin) checked" where
  "build_gap texts d code =
     (let g = \<lparr>tg_deny_case_id = mc_case_id d, tg_code = code, tg_detail = texts code\<rparr> in checked (twin_gap_errors g) (Inl g))"

definition ambiguous :: "mutation_case \<Rightarrow> mutation_case list \<Rightarrow> bool" where
  "ambiguous d as = (case as of a # b # _ \<Rightarrow> distance d a = distance d b | _ \<Rightarrow> False)"

definition pair_deny :: "(str \<Rightarrow> str) \<Rightarrow> (twin_gap_code \<Rightarrow> str) \<Rightarrow> frozen_invariants \<Rightarrow> mutation_plan \<Rightarrow> mutation_case \<Rightarrow>
    (twin_gap + permission_twin) checked" where
  "pair_deny sha texts v p d =
     (case ranked p d of
        [] \<Rightarrow> build_gap texts d MISSING_ALLOW_CONTROL
      | a # as \<Rightarrow>
          if ambiguous d (a # as) then build_gap texts d AMBIGUOUS_ALLOW_CONTROL
          else case variation a d of
              (None, _) \<Rightarrow> build_gap texts d MULTIPLE_VARIATIONS
            | (Some dim, changed) \<Rightarrow>
                (case (fi_workflow v (mc_action_id d), fi_effect v (mc_action_id d), fi_baseline v (mc_action_id d)) of
                   (Some workflow, Some effect, Some baseline) \<Rightarrow>
                     andthen (build_twin sha v a d dim changed workflow effect baseline) (\<lambda>t. Inr (Inr t))
                 | _ \<Rightarrow> build_gap texts d MISSING_INVARIANT))"

definition gaps_of :: "('a + 'b) list \<Rightarrow> 'a list" where
  "gaps_of rs = concat (map (\<lambda>r. case r of Inl g \<Rightarrow> [g] | Inr _ \<Rightarrow> []) rs)"

definition twins_of :: "('a + 'b) list \<Rightarrow> 'b list" where
  "twins_of rs = concat (map (\<lambda>r. case r of Inl _ \<Rightarrow> [] | Inr t \<Rightarrow> [t]) rs)"

definition build_differential_experiment_plan :: "(str \<Rightarrow> str) \<Rightarrow> (twin_gap_code \<Rightarrow> str) \<Rightarrow> frozen_invariants \<Rightarrow> mutation_plan \<Rightarrow>
    differential_plan checked" where
  "build_differential_experiment_plan sha texts v p =
     andthen (traverse (pair_deny sha texts v p) (sort_key mc_case_id (single_cases DENY p))) (\<lambda>rs.
       let body = \<lparr>dp_plan_id = [], dp_fingerprint = [], dp_coverage_fingerprint = mp_plan_fingerprint p,
                   dp_twins = sort_key pt_twin_id (twins_of rs), dp_gaps = sort_key tg_deny_case_id (gaps_of rs)\<rparr>;
           fingerprint = permission_model_sha256 sha (differential_payload body);
           plan = body\<lparr>dp_plan_id := ''dplan-'' @ take 32 fingerprint, dp_fingerprint := fingerprint\<rparr>
       in checked (differential_plan_errors sha plan) plan)"

end
