(* ===== verification/DifferentialProperties.thy ===== *)
theory DifferentialProperties
  imports Differential Sha256
begin

section \<open>Properties of differential twins\<close>

text \<open>
  Every DENY case of the plan ends up in one twin or in one gap, a twin uses the one nearest ALLOW
  control, and the exact condition under which the varied dimension explains all the differences.
\<close>

lemma sorted_head_nearest:
  assumes "sort_key (\<lambda>a. (distance d a, mc_fingerprint a)) xs = a # as" and "\<not> ambiguous d (a # as)" and "b \<in> set as"
  shows "distance d a < distance d b"
proof -
  have "sorted (map (\<lambda>a. (distance d a, mc_fingerprint a)) (a # as))"
    using sorted_sort_key [of "\<lambda>a. (distance d a, mc_fingerprint a)" xs] by (simp add: assms(1))
  then have le: "distance d a \<le> distance d b" "sorted (map (\<lambda>a. (distance d a, mc_fingerprint a)) as)"
    using assms(3) by (auto simp: less_eq_prod_def)
  obtain c cs where c: "as = c # cs" using assms(3) by (cases as) auto
  have "distance d c \<le> distance d b" using le(2) assms(3) by (auto simp: c less_eq_prod_def)
  moreover have "distance d a \<le> distance d c"
    using \<open>sorted (map _ (a # as))\<close> by (auto simp: c less_eq_prod_def)
  moreover have "distance d a \<noteq> distance d c" using assms(2) by (simp add: ambiguous_def c)
  ultimately show ?thesis by simp
qed

lemma build_gap_Inr: "build_gap texts d code = Inr r \<Longrightarrow> \<exists>g. r = Inl g \<and> tg_deny_case_id g = mc_case_id d \<and> tg_code g = code"
  by (auto simp: build_gap_def Let_def checked_Inr)

lemma build_twin_Inr:
  assumes "build_twin sha v a d dim changed workflow effect baseline = Inr t"
  shows "pt_allow t = a" and "pt_deny t = d" and "pt_dimension t = dim" and "md_changed (pt_mutation t) = changed"
  using assms by (auto simp: build_twin_def make_twin_def Let_def checked_Inr split: list.splits)

definition nearest_control :: "mutation_plan \<Rightarrow> permission_twin \<Rightarrow> bool" where
  "nearest_control p t \<longleftrightarrow> pt_allow t \<in> set (controls p (pt_deny t)) \<and>
     (\<forall>b \<in># mset (controls p (pt_deny t)) - {#pt_allow t#}. distance (pt_deny t) (pt_allow t) < distance (pt_deny t) b) \<and>
     variation (pt_allow t) (pt_deny t) = (Some (pt_dimension t), md_changed (pt_mutation t))"

lemma pair_deny_cases:
  assumes "pair_deny sha texts v p d = Inr r"
  shows "case r of Inl g \<Rightarrow> tg_deny_case_id g = mc_case_id d | Inr t \<Rightarrow> pt_deny t = d \<and> nearest_control p t"
proof (cases r)
  case (Inl g)
  with assms show ?thesis
    by (auto simp: pair_deny_def split: list.splits if_splits prod.splits option.splits dest: build_gap_Inr)
next
  case (Inr t)
  with assms obtain a as dim changed workflow effect baseline where
    r: "ranked p d = a # as" "\<not> ambiguous d (a # as)" "variation a d = (Some dim, changed)"
      "build_twin sha v a d dim changed workflow effect baseline = Inr t"
    by (auto simp: pair_deny_def split: list.splits if_splits prod.splits option.splits dest: build_gap_Inr)
  have m: "mset (controls p d) = add_mset a (mset as)"
    using arg_cong [OF r(1), of mset] by (simp add: ranked_def)
  then have "a \<in> set (controls p d)" by (metis set_mset_mset union_single_eq_member)
  moreover have "\<forall>b \<in> set as. distance d a < distance d b"
    using sorted_head_nearest r(1,2) by (auto simp: ranked_def)
  ultimately show ?thesis
    by (simp add: Inr nearest_control_def build_twin_Inr [OF r(4)] r(3) m)
qed

lemma paired_partition:
  assumes "traverse (pair_deny sha texts v p) ds = Inr rs"
  shows "mset (map mc_case_id ds) = mset (map (\<lambda>t. mc_case_id (pt_deny t)) (twins_of rs)) + mset (map tg_deny_case_id (gaps_of rs))"
  using assms
proof (induction ds arbitrary: rs)
  case (Cons d ds)
  then obtain r rs' where r: "pair_deny sha texts v p d = Inr r" "traverse (pair_deny sha texts v p) ds = Inr rs'" "rs = r # rs'"
    by auto
  from Cons.IH [OF r(2)] pair_deny_cases [OF r(1)] show ?case
    by (cases r) (simp_all add: r(3) twins_of_def gaps_of_def)
qed (simp add: twins_of_def gaps_of_def)

text \<open>C24: a differential plan accounts for every single-resource DENY case of the coverage plan exactly once,
  as a twin or as a gap; the ALLOW case of a twin is a control with the same action, resources and observations
  that differs from the DENY case in strictly fewer fields than every other such control.\<close>

theorem differential_plan_accounts:
  assumes "build_differential_experiment_plan sha texts v p = Inr plan"
  shows "mset (map mc_case_id (single_cases DENY p)) =
      mset (map (\<lambda>t. mc_case_id (pt_deny t)) (dp_twins plan)) + mset (map tg_deny_case_id (dp_gaps plan)) \<and>
    (\<forall>t \<in> set (dp_twins plan). pt_deny t \<in> set (single_cases DENY p) \<and> nearest_control p t)"
proof -
  let ?ds = "sort_key mc_case_id (single_cases DENY p)"
  from assms obtain rs where rs: "traverse (pair_deny sha texts v p) ?ds = Inr rs"
    and twins: "dp_twins plan = sort_key pt_twin_id (twins_of rs)"
    and gaps: "dp_gaps plan = sort_key tg_deny_case_id (gaps_of rs)"
    by (auto simp: build_differential_experiment_plan_def Let_def checked_Inr)
  have "pt_deny t \<in> set (single_cases DENY p) \<and> nearest_control p t" if "t \<in> set (dp_twins plan)" for t
  proof -
    from that have "Inr t \<in> set rs" by (auto simp: twins twins_of_def split: sum.splits)
    from traverse_set [OF rs this] obtain d where "d \<in> set ?ds" "pair_deny sha texts v p d = Inr (Inr t)" by blast
    with pair_deny_cases [OF this(2)] show ?thesis by simp
  qed
  with paired_partition [OF rs] show ?thesis by (simp add: twins gaps)
qed

text \<open>The groups as a table of five facts: subject, relation, context, workflow and the dimensions covered.\<close>

definition group_table :: "bool \<Rightarrow> bool \<Rightarrow> bool \<Rightarrow> bool \<Rightarrow> bool \<Rightarrow> bool \<Rightarrow> (coverage_dimension \<times> str list) list" where
  "group_table s r c w t p =
     (let groups = [(if r then RELATION else ROLE, (if s then [''subject_id''] else []) @ (if r then [''relation_paths''] else [])),
                    (WORKFLOW, if c \<and> \<not> w then [''context''] else [])]
      in if c \<and> w then AList.update (if t then TENANT else if p then DEPARTMENT else RELATION) [''context''] groups else groups)"

lemma variation_groups_flags:
  "variation_groups a d = group_table (mc_subject_id a \<noteq> mc_subject_id d) (mc_relation_paths a \<noteq> mc_relation_paths d)
     (mc_context a \<noteq> mc_context d) (same_workflow a d) (TENANT \<in> set (mc_dimensions d)) (DEPARTMENT \<in> set (mc_dimensions d))"
  by (simp add: variation_groups_def group_table_def variation_fields_def context_dimension_def Let_def)

text \<open>
  The entry of the relation is overwritten by the one of the context: both differ, the workflow states agree and the DENY
  case covers neither tenant nor department.
\<close>

definition overwritten :: "mutation_case \<Rightarrow> mutation_case \<Rightarrow> bool" where
  "overwritten a d \<longleftrightarrow> mc_relation_paths a \<noteq> mc_relation_paths d \<and> mc_context a \<noteq> mc_context d \<and> same_workflow a d \<and>
     TENANT \<notin> set (mc_dimensions d) \<and> DEPARTMENT \<notin> set (mc_dimensions d)"

definition access_differs :: "mutation_case \<Rightarrow> mutation_case \<Rightarrow> bool" where
  "access_differs a d \<longleftrightarrow> mc_subject_id a \<noteq> mc_subject_id d \<or> mc_relation_paths a \<noteq> mc_relation_paths d"

definition varied_dimension :: "mutation_case \<Rightarrow> mutation_case \<Rightarrow> coverage_dimension" where
  "varied_dimension a d = (if mc_context a = mc_context d then (if mc_relation_paths a = mc_relation_paths d then ROLE else RELATION)
     else if same_workflow a d then context_dimension d else WORKFLOW)"

lemma variation_table:
  "variation a d =
     (if overwritten a d then (Some RELATION, [''context''])
      else if access_differs a d = (mc_context a \<noteq> mc_context d) then (None, variation_fields a d)
      else (Some (varied_dimension a d), sort (variation_fields a d)))"
proof -
  define c where "c \<longleftrightarrow> mc_context a \<noteq> mc_context d"
  define r where "r \<longleftrightarrow> mc_relation_paths a \<noteq> mc_relation_paths d"
  define u where "u \<longleftrightarrow> mc_subject_id a \<noteq> mc_subject_id d"
  have w: "c \<or> same_workflow a d" by (auto simp: c_def same_workflow_def)
  have fields: "variation_fields a d = violations [(u, ''subject_id''), (r, ''relation_paths''), (c, ''context'')]"
    by (simp add: variation_fields_def c_def r_def u_def)
  have groups: "variation_groups a d = group_table u r c (same_workflow a d) (TENANT \<in> set (mc_dimensions d)) (DEPARTMENT \<in> set (mc_dimensions d))"
    unfolding variation_groups_flags c_def r_def u_def by (rule refl)
  have facts: "overwritten a d \<longleftrightarrow> r \<and> c \<and> same_workflow a d \<and> TENANT \<notin> set (mc_dimensions d) \<and> DEPARTMENT \<notin> set (mc_dimensions d)"
    "access_differs a d \<longleftrightarrow> u \<or> r" "varied_dimension a d = (if \<not> c then if \<not> r then ROLE else RELATION
       else if same_workflow a d then context_dimension d else WORKFLOW)"
    by (simp_all add: overwritten_def access_differs_def varied_dimension_def c_def r_def u_def)
  show ?thesis
    unfolding variation_def groups facts fields c_def [symmetric] context_dimension_def
    using w by (cases u; cases r; cases c; cases "same_workflow a d"; cases "TENANT \<in> set (mc_dimensions d)";
      cases "DEPARTMENT \<in> set (mc_dimensions d)"; simp add: group_table_def)
qed

definition sample_case_of :: "str \<Rightarrow> str \<Rightarrow> permission_expectation \<Rightarrow> str list \<Rightarrow> str list \<Rightarrow> mutation_case" where
  "sample_case_of i s x path tenants = \<lparr>mc_case_id = i, mc_fingerprint = replicate 64 CHR ''0'',
     mc_finding_identity = replicate 64 CHR ''0'', mc_source_rule_ids = [''rule-1''], mc_dimensions = [RELATION],
     mc_retention = EXPLICIT_DENY_RISK, mc_subject_id = s, mc_action_id = ''edit'', mc_resource_ids = [''doc-1''],
     mc_expectations = [x], mc_relation_paths = [path],
     mc_context = \<lparr>context_workflow_states = [], context_tenant_ids = tenants, context_department_ids = [], context_resource_ids = []\<rparr>,
     mc_observations = [''resource_state''], mc_batch_mode = None, mc_atomic = False\<rparr>"

definition case_name :: "char \<Rightarrow> str" where
  "case_name c = ''case-'' @ replicate 32 c"

definition paired_plan :: mutation_plan where
  "paired_plan = \<lparr>mp_plan_id = ''plan-'' @ replicate 32 CHR ''0'', mp_plan_fingerprint = replicate 64 CHR ''0'',
     mp_contract_fingerprint = replicate 64 CHR ''0'', mp_seed = 0, mp_engine_version = ''v1'', mp_case_budget = 8,
     mp_candidate_count = 2, mp_retained_count = 2,
     mp_cases = [sample_case_of (case_name CHR ''1'') ''alice'' ALLOW [''owns-1''] [],
                 sample_case_of (case_name CHR ''2'') ''bob'' DENY [''owns-1''] []],
     mp_coverage = [], mp_gaps = [], mp_eliminated = []\<rparr>"

definition sample_invariants :: frozen_invariants where
  "sample_invariants = \<lparr>fi_workflow = [''edit'' \<mapsto> replicate 64 CHR ''a''], fi_effect = [''edit'' \<mapsto> replicate 64 CHR ''b''],
     fi_observer = replicate 64 CHR ''c'', fi_baseline = [''edit'' \<mapsto> replicate 64 CHR ''d''], fi_normalization = ''v1''\<rparr>"

lemma tagged_digest:
  assumes "hex_text 64 h"
  shows "prefixed_hex ''twin-'' (''twin-'' @ take 32 h)" and "prefixed_hex ''dplan-'' (''dplan-'' @ take 32 h)"
  using hex_text_take [OF assms, of 32] by (simp_all add: prefixed_hex_def)

lemma sample_build:
  fixes i j s u path path' scope scope'
  defines "a \<equiv> sample_case_of i s ALLOW path scope" and "d \<equiv> sample_case_of j u DENY path' scope'"
  shows "\<exists>t. build_twin sha256_hex sample_invariants a d dim [field] (replicate 64 CHR ''a'')
      (replicate 64 CHR ''b'') (replicate 64 CHR ''d'') = Inr t"
proof -
  have hex: "hex_text 64 (replicate 64 CHR ''a'')" "hex_text 64 (replicate 64 CHR ''b'')" "hex_text 64 (replicate 64 CHR ''c'')"
    "hex_text 64 (replicate 64 CHR ''d'')" by code_simp+
  have parts: "mc_source_rule_ids d = [''rule-1'']" "mc_expectations a = [ALLOW]" "mc_expectations d = [DENY]"
    "mc_action_id a = mc_action_id d" "mc_resource_ids a = mc_resource_ids d" "length (mc_resource_ids d) = 1"
    "fi_observer sample_invariants = replicate 64 CHR ''c''" "fi_normalization sample_invariants = ''v1''"
    by (simp_all add: a_def d_def sample_case_of_def sample_invariants_def)
  show ?thesis
    unfolding build_twin_def Let_def
    by (simp add: descriptor_errors_def twin_invariant_errors_def field_error_Nil checked_def size_guards_ok ball_Un
        pattern_guard_fst sha256.model_digest_hex hex parts permission_twin_errors_def make_twin_def Let_def after_fields_Nil
        tagged_digest twin_payload_def del: append_Cons)
qed

lemma sample_frozen:
  "fi_workflow sample_invariants (mc_action_id (sample_case_of i s x path scope)) = Some (replicate 64 CHR ''a'')"
  "fi_effect sample_invariants (mc_action_id (sample_case_of i s x path scope)) = Some (replicate 64 CHR ''b'')"
  "fi_baseline sample_invariants (mc_action_id (sample_case_of i s x path scope)) = Some (replicate 64 CHR ''d'')"
  by (simp_all add: sample_invariants_def sample_case_of_def)

lemma sample_pair:
  "\<exists>t. pair_deny sha256_hex texts sample_invariants paired_plan (sample_case_of (case_name CHR ''2'') ''bob'' DENY [''owns-1''] []) = Inr (Inr t)"
proof -
  let ?a = "sample_case_of (case_name CHR ''1'') ''alice'' ALLOW [''owns-1''] []"
  let ?d = "sample_case_of (case_name CHR ''2'') ''bob'' DENY [''owns-1''] []"
  have r: "ranked paired_plan ?d = [?a]" by code_simp
  have v: "variation ?a ?d = (Some ROLE, [''subject_id''])" by code_simp
  obtain t where "build_twin sha256_hex sample_invariants ?a ?d ROLE [''subject_id''] (replicate 64 CHR ''a'')
      (replicate 64 CHR ''b'') (replicate 64 CHR ''d'') = Inr t"
    using sample_build by blast
  then show ?thesis by (auto simp: pair_deny_def r v sample_frozen ambiguous_def)
qed

theorem differential_plan_accounts_witness:
  "\<exists>plan. build_differential_experiment_plan sha256_hex (\<lambda>_. ''gap'') sample_invariants paired_plan = Inr plan \<and>
     map (\<lambda>t. mc_case_id (pt_deny t)) (dp_twins plan) = [case_name CHR ''2''] \<and> dp_gaps plan = []"
proof -
  let ?d = "sample_case_of (case_name CHR ''2'') ''bob'' DENY [''owns-1''] []"
  have ds: "sort_key mc_case_id (single_cases DENY paired_plan) = [?d]" by code_simp
  have "mset (map mc_case_id (single_cases DENY paired_plan)) = mset (map mc_case_id (sort_key mc_case_id (single_cases DENY paired_plan)))"
    by simp
  also have "\<dots> = {#case_name CHR ''2''#}" unfolding ds by (simp add: sample_case_of_def)
  finally have single: "mset (map mc_case_id (single_cases DENY paired_plan)) = {#case_name CHR ''2''#}" .
  obtain t where t: "pair_deny sha256_hex (\<lambda>_. ''gap'') sample_invariants paired_plan ?d = Inr (Inr t)" using sample_pair by blast
  have hex: "hex_text 64 (mp_plan_fingerprint paired_plan)" by code_simp
  obtain plan where plan: "build_differential_experiment_plan sha256_hex (\<lambda>_. ''gap'') sample_invariants paired_plan = Inr plan"
      "length (dp_gaps plan) = 0"
    unfolding build_differential_experiment_plan_def ds
    by (simp add: t twins_of_def gaps_of_def Let_def checked_def differential_plan_errors_def after_fields_Nil field_error_Nil
        size_guards_ok pattern_guard_fst has_duplicates_iff tagged_digest sha256.model_digest_hex hex differential_payload_def del: append_Cons)
  from differential_plan_accounts [OF plan(1), THEN conjunct1] plan(2)
  have "mset (map (\<lambda>t. mc_case_id (pt_deny t)) (dp_twins plan)) = {#case_name CHR ''2''#}" unfolding single by simp
  then have "map (\<lambda>t. mc_case_id (pt_deny t)) (dp_twins plan) = [case_name CHR ''2'']" by (simp only: mset_single_iff)
  with plan show ?thesis by simp
qed

text \<open>C25: what the pairing does with the one nearest control of a DENY case whose invariants are frozen. If the two cases
  differ either in subject or relation path or in the context, but not in both, it builds the twin that names the
  dimension and every differing field; if they differ in both or in nothing, it leaves a gap. There is exactly one
  exception: relation path and context both differ, the workflow states agree and the DENY case covers neither tenant
  nor department. Then the entry of the relation is overwritten, and a twin is built that names the context as the only
  change, under the dimension of relations.\<close>

theorem twin_change_exact:
  assumes "ranked p d = a # as" and "\<not> ambiguous d (a # as)"
    and "fi_workflow v (mc_action_id d) = Some w" and "fi_effect v (mc_action_id d) = Some e"
    and "fi_baseline v (mc_action_id d) = Some b"
  shows "pair_deny sha texts v p d =
    (if overwritten a d then andthen (build_twin sha v a d RELATION [''context''] w e b) (\<lambda>t. Inr (Inr t))
     else if access_differs a d = (mc_context a \<noteq> mc_context d) then build_gap texts d MULTIPLE_VARIATIONS
     else andthen (build_twin sha v a d (varied_dimension a d) (sort (variation_fields a d)) w e b) (\<lambda>t. Inr (Inr t))) \<and>
    (overwritten a d \<longrightarrow> {''relation_paths'', ''context''} \<subseteq> set (variation_fields a d))"
  using assms by (simp add: pair_deny_def variation_table variation_fields_def overwritten_def)

definition hidden_plan :: mutation_plan where
  "hidden_plan = paired_plan\<lparr>mp_cases := [sample_case_of (case_name CHR ''1'') ''bob'' ALLOW [''owns-1''] [],
     sample_case_of (case_name CHR ''2'') ''bob'' DENY [''owns-2''] [''acme'']]\<rparr>"

theorem twin_change_exact_witness:
  "\<exists>t. pair_deny sha256_hex (\<lambda>_. ''gap'') sample_invariants hidden_plan
       (sample_case_of (case_name CHR ''2'') ''bob'' DENY [''owns-2''] [''acme'']) = Inr (Inr t) \<and>
     pt_dimension t = RELATION \<and> md_changed (pt_mutation t) = [''context''] \<and>
     set (variation_fields (pt_allow t) (pt_deny t)) = {''relation_paths'', ''context''}"
proof -
  let ?a = "sample_case_of (case_name CHR ''1'') ''bob'' ALLOW [''owns-1''] []"
  let ?d = "sample_case_of (case_name CHR ''2'') ''bob'' DENY [''owns-2''] [''acme'']"
  have r: "ranked hidden_plan ?d = [?a]" and h: "overwritten ?a ?d"
    and f: "set (variation_fields ?a ?d) = {''relation_paths'', ''context''}"
    by code_simp+
  obtain t where t: "build_twin sha256_hex sample_invariants ?a ?d RELATION [''context''] (replicate 64 CHR ''a'')
      (replicate 64 CHR ''b'') (replicate 64 CHR ''d'') = Inr t"
    using sample_build by blast
  have "pair_deny sha256_hex (\<lambda>_. ''gap'') sample_invariants hidden_plan ?d = Inr (Inr t)"
    using twin_change_exact [OF r _ sample_frozen] t h by (simp add: ambiguous_def)
  then show ?thesis using build_twin_Inr [OF t] f by auto
qed

end
