(* ===== verification/Continuity.thy ===== *)
theory Continuity
  imports Differential EffectFacts Trace
begin

section \<open>Continuity of an authorization\<close>

text \<open>
  Models \<^verbatim>\<open>product/backend/domain/verification/continuity.py\<close>: which protected effects of a denied case
  are confirmed, which are not reliably absent, and the state that follows. The assessment is made on
  the facts of an executed case, or on a contract, a differential twin and its effect facts.
\<close>

datatype continuity_state = INTACT | ORPHAN_CONFIRMED | CONTINUITY_UNKNOWN

record effect_reference =
  er_effect_id :: str
  er_resource_id :: str

definition effect_key :: "effect_reference \<Rightarrow> str \<times> str" where
  "effect_key r = (er_effect_id r, er_resource_id r)"

definition effect_reference_errors :: "effect_reference \<Rightarrow> str list" where
  "effect_reference_errors r = trace_field ''effect_id'' (er_effect_id r) @ size_field ''resource_id'' 1 256 (er_resource_id r)"

record continuity =
  ca_case_id :: str
  ca_action_id :: str
  ca_state :: continuity_state
  ca_protected :: "effect_reference list"
  ca_confirmed :: "effect_reference list"
  ca_unknown :: "effect_reference list"
  ca_reasons :: "str list"

definition effect_references_field :: "str \<Rightarrow> nat \<Rightarrow> effect_reference list \<Rightarrow> str list" where
  "effect_references_field field lo rs = field_error (size_guards field lo 4096 rs
     @ [(has_duplicates (map effect_key rs), ''authorization continuity effect references must be unique'')])"

definition continuity_guards :: "continuity \<Rightarrow> guard list" where
  "continuity_guards a =
     (let protected = set (ca_protected a); confirmed = set (ca_confirmed a); unknown = set (ca_unknown a) in
      [(\<not> confirmed \<subseteq> protected \<or> \<not> unknown \<subseteq> protected, ''continuity result references an unprotected effect''),
       (confirmed \<inter> unknown \<noteq> {}, ''continuity effect cannot be both confirmed and unknown'')]
      @ (case ca_state a of
           ORPHAN_CONFIRMED \<Rightarrow> [(ca_confirmed a = [], ''confirmed orphan continuity requires a confirmed effect'')]
         | CONTINUITY_UNKNOWN \<Rightarrow> [(ca_confirmed a \<noteq> [] \<or> ca_unknown a = [],
             ''unknown continuity requires only unknown protected effects'')]
         | INTACT \<Rightarrow> [(ca_confirmed a \<noteq> [] \<or> ca_unknown a \<noteq> [],
             ''intact continuity requires every protected effect to be absent'')]))"

definition continuity_errors :: "continuity \<Rightarrow> str list" where
  "continuity_errors a = after_fields
     (trace_field ''case_id'' (ca_case_id a) @ trace_field ''action_id'' (ca_action_id a)
      @ effect_references_field ''protected_effects'' 1 (ca_protected a) @ effect_references_field ''confirmed_effects'' 0 (ca_confirmed a)
      @ effect_references_field ''unknown_effects'' 0 (ca_unknown a)
      @ field_error (size_guards ''reason_codes'' 1 64 (ca_reasons a)
          @ [(has_duplicates (ca_reasons a) \<or> list_ex (\<lambda>r. \<not> reason_code r) (ca_reasons a),
              ''authorization continuity reason codes must be stable tokens'')]))
     (continuity_guards a)"

definition continuity_norm :: "continuity \<Rightarrow> continuity" where
  "continuity_norm a = a\<lparr>ca_protected := sort_key effect_key (ca_protected a),
     ca_confirmed := sort_key effect_key (ca_confirmed a), ca_unknown := sort_key effect_key (ca_unknown a),
     ca_reasons := sort (ca_reasons a)\<rparr>"

definition new_continuity :: "continuity \<Rightarrow> continuity checked" where
  "new_continuity a = checked (continuity_errors a) (continuity_norm a)"

definition continuity_state_of :: "'a list \<Rightarrow> 'a list \<Rightarrow> continuity_state" where
  "continuity_state_of confirmed unknown =
     (if confirmed \<noteq> [] then ORPHAN_CONFIRMED else if unknown \<noteq> [] then CONTINUITY_UNKNOWN else INTACT)"

definition continuity_reason :: "'a list \<Rightarrow> 'a list \<Rightarrow> str" where
  "continuity_reason confirmed unknown =
     (if confirmed \<noteq> [] then ''DENY_PROTECTED_EFFECT_CONFIRMED''
      else if unknown \<noteq> [] then ''PROTECTED_EFFECT_EVIDENCE_INCOMPLETE'' else ''ALL_PROTECTED_EFFECTS_RELIABLY_ABSENT'')"

subsection \<open>On the facts of an executed case\<close>

definition reference_facts :: "decision_input \<Rightarrow> str \<Rightarrow> effect_fact option list" where
  \<comment> \<open>the facts of the required proofs of one effect\<close>
  "reference_facts d effect = map (\<lambda>p. dict_of ef_proof_fingerprint (di_effects d) (proof_fingerprint p))
     (filter (\<lambda>p. proof_level p = VERDICT_REQUIRED \<and> proof_effect_id p = effect) (case_proofs (di_case d)))"

definition trusted_values :: "effect_fact option list \<Rightarrow> effect_fact list" where
  "trusted_values vs = filter trusted_fact (concat (map option_list vs))"

definition reference_confirmed :: "decision_input \<Rightarrow> str \<Rightarrow> bool" where
  "reference_confirmed d effect \<longleftrightarrow>
     attributed d \<and> list_ex (\<lambda>f. ef_state f = EFFECT_CONFIRMED) (trusted_values (reference_facts d effect))"

definition reference_absent :: "decision_input \<Rightarrow> str \<Rightarrow> bool" where
  "reference_absent d effect \<longleftrightarrow>
     (let vs = reference_facts d effect; trusted = trusted_values vs in
      attributed d \<and> di_baseline_trusted d \<and> vs \<noteq> [] \<and> length trusted = length vs \<and>
      list_all (\<lambda>f. ef_state f = EFFECT_ABSENT \<and> ef_closure f = CLOSED) trusted)"

definition case_references :: "execution_case \<Rightarrow> effect_reference list" where
  "case_references c = map (\<lambda>e. \<lparr>er_effect_id = e, er_resource_id = case_resource_id c\<rparr>) (case_effect_ids c)"

definition assess_check_continuity :: "execution_action \<Rightarrow> decision_input \<Rightarrow> continuity checked" where
  "assess_check_continuity x d =
     (let c = di_case d; protected = case_references c;
          confirmed = filter (\<lambda>r. reference_confirmed d (er_effect_id r)) protected;
          unknown = filter (\<lambda>r. \<not> reference_confirmed d (er_effect_id r) \<and> \<not> reference_absent d (er_effect_id r)) protected
      in if c \<notin> set (ex_cases x) then Inl [''continuity case is outside the frozen action'']
         else if fz_expectation (case_permission c) \<noteq> DENY then Inl [''authorization continuity requires a frozen DENY case'']
         else if first_failure (map effect_reference_errors protected) \<noteq> []
         then Inl (first_failure (map effect_reference_errors protected))
         else new_continuity \<lparr>ca_case_id = case_id c, ca_action_id = ex_action_id x, ca_state = continuity_state_of confirmed unknown,
           ca_protected = protected, ca_confirmed = confirmed, ca_unknown = unknown,
           ca_reasons = [continuity_reason confirmed unknown]\<rparr>)"

subsection \<open>On a contract and a differential twin\<close>

definition deny_scope_guards :: "permission_contract \<Rightarrow> permission_twin \<Rightarrow> guard list" where
  "deny_scope_guards c t =
     (let i = pt_invariant t; action = find (\<lambda>a. action_id a = ti_action_id i) (actions c) in
      [(list_ex (\<lambda>x. x \<noteq> DENY) (mc_expectations (pt_deny t)), ''authorization continuity requires a frozen DENY case''),
       (absent_or (\<lambda>a. action_effect_ids a = []) action \<or> mc_subject_id (pt_deny t) \<notin> subject_id ` set (subjects c) \<or>
          list_ex (\<lambda>r. r \<notin> resource_id ` set (resources c)) (ti_resource_ids i),
        ''continuity twin is outside the frozen contract'')])"

definition reliably_absent :: "security_effect_fact option \<Rightarrow> bool" where
  "reliably_absent = given (\<lambda>f. sf_state f = EFFECT_ABSENT \<and> sf_complete f \<and> sf_reliable f \<and> sf_correlated f \<and>
     sf_closure f = CLOSED \<and> sf_baseline f)"

definition fact_key :: "security_effect_fact \<Rightarrow> str \<times> str" where
  "fact_key f = (sf_effect_id f, sf_resource_id f)"

definition twin_references :: "action_definition \<Rightarrow> permission_twin \<Rightarrow> effect_reference list" where
  "twin_references a t = concat (map (\<lambda>e. map (\<lambda>r. \<lparr>er_effect_id = e, er_resource_id = r\<rparr>) (ti_resource_ids (pt_invariant t)))
     (action_effect_ids a))"

definition assess_twin_continuity ::
    "permission_contract \<Rightarrow> permission_twin \<Rightarrow> security_effect_fact list \<Rightarrow> continuity checked" where
  "assess_twin_continuity c t fs =
     (case first_error (deny_scope_guards c t) of
        Some m \<Rightarrow> Inl [m]
      | None \<Rightarrow> andthen (next_item (\<lambda>a. action_id a = ti_action_id (pt_invariant t)) (actions c)) (\<lambda>a.
          let protected = twin_references a t;
              matching = filter (\<lambda>f. fact_key f \<in> set (map effect_key protected)) fs;
              by_key = dict_of fact_key matching;
              confirmed = filter (\<lambda>r. given (\<lambda>f. sf_state f = EFFECT_CONFIRMED) (by_key (effect_key r))) protected;
              unknown = (if confirmed \<noteq> [] then [] else filter (\<lambda>r. \<not> reliably_absent (by_key (effect_key r))) protected)
          in if first_failure (map effect_reference_errors protected) \<noteq> []
             then Inl (first_failure (map effect_reference_errors protected))
             else if has_duplicates (map fact_key matching)
             then Inl [''continuity facts must be unique per protected effect and resource'']
             else new_continuity \<lparr>ca_case_id = mc_case_id (pt_deny t), ca_action_id = ti_action_id (pt_invariant t),
               ca_state = continuity_state_of confirmed unknown, ca_protected = protected, ca_confirmed = confirmed,
               ca_unknown = unknown, ca_reasons = [continuity_reason confirmed unknown]\<rparr>))"

end
