(* ===== verification/ContinuityProperties.thy ===== *)
theory ContinuityProperties
  imports Continuity CheckSample
begin

section \<open>Continuity and the verdict\<close>

text \<open>
  The continuity of a denied case is read from the same facts as its verdict. The two never disagree:
  the assessment refines the verdict, naming for each vulnerable case the effects that were confirmed.
\<close>

lemma fact_effect:
  assumes "decision_input_errors sha d = []" and dist: "distinct (map proof_fingerprint (case_proofs (di_case d)))"
    and p: "p \<in> set (case_proofs (di_case d))"
    and f: "dict_of ef_proof_fingerprint (di_effects d) (proof_fingerprint p) = Some f"
  shows "ef_effect_id f = proof_effect_id p"
proof -
  from dict_of_Some [OF f] have f: "f \<in> set (di_effects d)" "ef_proof_fingerprint f = proof_fingerprint p" by simp_all
  from assms(1) have "set (map (\<lambda>f. (ef_effect_id f, ef_proof_fingerprint f)) (di_effects d))
      \<subseteq> set (map (\<lambda>p. (proof_effect_id p, proof_fingerprint p)) (case_proofs (di_case d)))"
    by (simp add: decision_input_errors_def Let_def after_fields_Nil)
  with f(1) obtain q where q: "q \<in> set (case_proofs (di_case d))" "ef_effect_id f = proof_effect_id q"
    "ef_proof_fingerprint f = proof_fingerprint q" by auto
  with f(2) dist p have "q = p" by (auto simp: distinct_map dest: inj_onD)
  with q(2) show ?thesis by simp
qed

lemma proof_effect_protected:
  assumes "decision_input_errors sha d = []"
  shows "p \<in> set (case_proofs (di_case d)) \<Longrightarrow> proof_effect_id p \<in> set (case_effect_ids (di_case d))"
    and "e \<in> set (case_effect_ids (di_case d)) \<Longrightarrow> \<exists>p. required_proof (di_case d) p \<and> proof_effect_id p = e"
proof -
  from assms have "execution_case_errors sha (di_case d) = []"
    by (simp add: decision_input_errors_def Let_def after_fields_Nil)
  then have g: "\<forall>g \<in> set (case_guards (di_case d)). \<not> fst g"
    by (simp add: execution_case_errors_def after_fields_Nil)
  then have "\<not> list_ex (\<lambda>q. proof_resource_id q \<noteq> case_resource_id (di_case d) \<or>
      proof_effect_id q \<notin> set (case_effect_ids (di_case d))) (case_proofs (di_case d))"
    "set (map proof_effect_id (filter (\<lambda>q. proof_level q = VERDICT_REQUIRED) (case_proofs (di_case d)))) = set (case_effect_ids (di_case d))"
    by (simp_all add: case_guards_def Let_def)
  then show "p \<in> set (case_proofs (di_case d)) \<Longrightarrow> proof_effect_id p \<in> set (case_effect_ids (di_case d))"
    and "e \<in> set (case_effect_ids (di_case d)) \<Longrightarrow> \<exists>p. required_proof (di_case d) p \<and> proof_effect_id p = e"
    unfolding list_ex_iff required_proof_def by (blast, force)
qed

lemma reference_facts_set:
  "m \<in> set (reference_facts d e) \<longleftrightarrow> (\<exists>p. required_proof (di_case d) p \<and> proof_effect_id p = e \<and>
     m = dict_of ef_proof_fingerprint (di_effects d) (proof_fingerprint p))"
  by (auto simp: reference_facts_def required_proof_def)

lemma trusted_values_set: "f \<in> set (trusted_values vs) \<longleftrightarrow> Some f \<in> set vs \<and> trusted_fact f"
  by (force simp: trusted_values_def option_list_def split: option.splits)

lemma trusted_values_all:
  "\<forall>m \<in> set vs. \<exists>f. m = Some f \<and> trusted_fact f \<Longrightarrow> length (trusted_values vs) = length vs"
  by (induction vs) (auto simp: trusted_values_def)

lemma reference_confirmed_iff:
  assumes "decision_input_errors sha d = []" and "distinct (map proof_fingerprint (case_proofs (di_case d)))"
  shows "reference_confirmed d e \<longleftrightarrow> e \<in> set (confirmed_effects d)"
proof -
  have "reference_confirmed d e \<longleftrightarrow> attributed d \<and> (\<exists>p f. required_proof (di_case d) p \<and> proof_effect_id p = e \<and>
      dict_of ef_proof_fingerprint (di_effects d) (proof_fingerprint p) = Some f \<and> ef_state f = EFFECT_CONFIRMED \<and> trusted_fact f)"
    unfolding reference_confirmed_def list_ex_iff Bex_def trusted_values_set reference_facts_set by metis
  also have "\<dots> \<longleftrightarrow> e \<in> set (confirmed_effects d)"
    unfolding confirmed_effects_set using fact_effect [OF assms] by (metis required_proof_def)
  finally show ?thesis .
qed

lemma safe_reference_absent:
  assumes "cd_verdict (evaluate_check_case sha d) = SAFE" and "expects_absence (di_case d)"
    and "decision_input_errors sha d = []" and "e \<in> set (case_effect_ids (di_case d))"
  shows "reference_absent d e"
proof -
  from proof_effect_protected(2) [OF assms(3,4)] obtain p where p: "required_proof (di_case d) p" "proof_effect_id p = e" by blast
  have ok: "\<exists>f. m = Some f \<and> trusted_fact f \<and> ef_state f = EFFECT_ABSENT \<and> ef_closure f = CLOSED"
    if "m \<in> set (reference_facts d e)" for m
  proof -
    from that obtain q where q: "required_proof (di_case d) q"
      "m = dict_of ef_proof_fingerprint (di_effects d) (proof_fingerprint q)" unfolding reference_facts_set by blast
    from safe_common(5) [OF assms(1) q(1)] safe_denial(2) [OF assms(1,2) q(1)] show ?thesis by (auto simp: q(2))
  qed
  from p have "reference_facts d e \<noteq> []" by (metis reference_facts_set empty_iff empty_set)
  moreover have "length (trusted_values (reference_facts d e)) = length (reference_facts d e)"
    by (rule trusted_values_all) (use ok in blast)
  moreover have "list_all (\<lambda>f. ef_state f = EFFECT_ABSENT \<and> ef_closure f = CLOSED) (trusted_values (reference_facts d e))"
    unfolding list_all_iff Ball_def trusted_values_set using ok by fastforce
  ultimately show ?thesis
    using safe_common(2,3) [OF assms(1)] by (simp add: reference_absent_def Let_def)
qed

lemma assessed:
  assumes "assess_check_continuity x d = Inr a"
  shows "set (ca_confirmed a) = {r \<in> set (case_references (di_case d)). reference_confirmed d (er_effect_id r)}"
    and "ca_state a = continuity_state_of
      (filter (\<lambda>r. reference_confirmed d (er_effect_id r)) (case_references (di_case d)))
      (filter (\<lambda>r. \<not> reference_confirmed d (er_effect_id r) \<and> \<not> reference_absent d (er_effect_id r)) (case_references (di_case d)))"
    and "fz_expectation (case_permission (di_case d)) = DENY"
  using assms
  by (auto simp: assess_check_continuity_def Let_def new_continuity_def checked_Inr continuity_norm_def split: if_splits)

text \<open>C26: the continuity of a denied case refines its verdict: with the permission conditions met it is an orphan
  effect exactly when the case is vulnerable, its confirmed references name exactly the confirmed effects of the
  decision, and it is intact whenever the case is judged safe.\<close>

theorem continuity_refines_verdict:
  assumes "assess_check_continuity x d = Inr a" and "decision_input_errors sha d = []"
    and "distinct (map proof_fingerprint (case_proofs (di_case d)))"
    and "expects_absence (di_case d)" and "condition_status sha d = MATCH"
  shows "(ca_state a = ORPHAN_CONFIRMED \<longleftrightarrow> cd_verdict (evaluate_check_case sha d) = VULNERABLE) \<and>
    er_effect_id ` set (ca_confirmed a) = set (cd_confirmed (evaluate_check_case sha d)) \<and>
    (cd_verdict (evaluate_check_case sha d) = SAFE \<longrightarrow> ca_state a = INTACT)"
proof (intro conjI impI)
  note conf = reference_confirmed_iff [OF assms(2,3)]
  have refs: "er_effect_id ` set (case_references (di_case d)) = set (case_effect_ids (di_case d))"
    by (auto simp: case_references_def image_iff)
  have inside: "set (confirmed_effects d) \<subseteq> set (case_effect_ids (di_case d))"
    unfolding confirmed_effects_set subset_iff
    using fact_effect [OF assms(2,3)] proof_effect_protected(1) [OF assms(2)] by (metis required_proof_def)
  have verdict: "cd_verdict (evaluate_check_case sha d) = VULNERABLE \<longleftrightarrow> confirmed_effects d \<noteq> []"
    "set (cd_confirmed (evaluate_check_case sha d)) = set (confirmed_effects d)"
    using assms(4,5) by (simp_all add: evaluate_check_case_def Let_def)
  have "er_effect_id ` set (ca_confirmed a) = {e \<in> er_effect_id ` set (case_references (di_case d)). reference_confirmed d e}"
    unfolding assessed(1) [OF assms(1)] by auto
  also have "\<dots> = set (confirmed_effects d)" unfolding refs conf using inside by blast
  finally have c: "er_effect_id ` set (ca_confirmed a) = set (confirmed_effects d)" .
  then show "er_effect_id ` set (ca_confirmed a) = set (cd_confirmed (evaluate_check_case sha d))" by (simp add: verdict)
  have "ca_state a = ORPHAN_CONFIRMED \<longleftrightarrow> set (ca_confirmed a) \<noteq> {}"
    unfolding assessed(1,2) [OF assms(1)] by (auto simp: continuity_state_of_def filter_empty_conv)
  with c show "ca_state a = ORPHAN_CONFIRMED \<longleftrightarrow> cd_verdict (evaluate_check_case sha d) = VULNERABLE"
    unfolding verdict by (metis image_is_empty set_empty)
  assume safe: "cd_verdict (evaluate_check_case sha d) = SAFE"
  with verdict(1) have "confirmed_effects d = []" by auto
  then have "\<not> reference_confirmed d e" for e by (simp add: conf)
  moreover have "reference_absent d (er_effect_id r)" if "r \<in> set (case_references (di_case d))" for r
    using that safe_reference_absent [OF safe assms(4,2)] refs by blast
  ultimately show "ca_state a = INTACT"
    unfolding assessed(2) [OF assms(1)] by (simp add: continuity_state_of_def filter_empty_conv)
qed

theorem continuity_refines_verdict_witness:
  "\<exists>a. assess_check_continuity sample_action (sample_input denied_case EFFECT_CONFIRMED ACCEPTED) = Inr a \<and>
     ca_state a = ORPHAN_CONFIRMED \<and> er_effect_id ` set (ca_confirmed a) = {''bef_'' @ digits ''1''}"
proof -
  let ?d = "sample_input denied_case EFFECT_CONFIRMED ACCEPTED"
  have f: "di_case ?d = denied_case" "attributed ?d" by (simp_all add: sample_input_def attributed_def)
  have p: "di_effects ?d = [\<lparr>ef_effect_id = ''bef_'' @ digits ''1'', ef_proof_fingerprint = proof_fingerprint sample_proof,
      ef_state = EFFECT_CONFIRMED, ef_complete = True, ef_reliable = True, ef_correlated = True, ef_authoritative = True, ef_closure = CLOSED\<rparr>]"
    by (simp add: sample_input_def sample_projection)
  have refs: "case_references denied_case = [\<lparr>er_effect_id = ''bef_'' @ digits ''1'', er_resource_id = case_resource_id denied_case\<rparr>]"
    by (simp add: case_references_def sample_parts)
  have conf: "reference_confirmed ?d (''bef_'' @ digits ''1'')"
    by (simp add: reference_confirmed_def f trusted_values_def reference_facts_def p sample_parts dict_of_def trusted_fact_def)
  have c: "condition_status sha256_hex ?d = MATCH" "confirmed_effects ?d = [''bef_'' @ digits ''1'']"
    by (simp_all add: condition_status_def f sample_parts collected_conditions_status_def)
      (simp add: confirmed_effects_def f sample_required trusted_fact_def del: append_Cons)
  have ids: "trace_id (''bef_'' @ digits ''1'')" "trace_id (''case_'' @ digits ''2'')" "trace_id (''bac_'' @ digits ''0'')"
    "reason_code ''DENY_PROTECTED_EFFECT_CONFIRMED''" by code_simp+
  have case_parts: "case_id denied_case = ''case_'' @ digits ''2''" "fz_expectation (case_permission denied_case) = DENY"
    "Suc 0 \<le> length (case_resource_id denied_case)" "length (case_resource_id denied_case) \<le> 256"
    "denied_case \<in> set (ex_cases sample_action)" "ex_action_id sample_action = ''bac_'' @ digits ''0''"
    by (simp_all add: sample_case_def bare_case_def sample_permission_def sample_action_def sample_draft_def)
  have "\<exists>a. assess_check_continuity sample_action ?d = Inr a"
    unfolding assess_check_continuity_def Let_def f refs
    by (simp add: conf case_parts effect_reference_errors_def trace_field_def size_field_def field_error_Nil size_guards_ok
        pattern_guard_fst ids new_continuity_def checked_def continuity_errors_def after_fields_Nil effect_references_field_def
        continuity_guards_def continuity_state_of_def continuity_reason_def has_duplicates_def del: append_Cons)
  then obtain a where a: "assess_check_continuity sample_action ?d = Inr a" ..
  have "cd_verdict (evaluate_check_case sha256_hex ?d) = VULNERABLE" "cd_confirmed (evaluate_check_case sha256_hex ?d) = [''bef_'' @ digits ''1'']"
    by (simp_all add: evaluate_check_case_def c f sample_parts)
  with continuity_refines_verdict [OF a sample_input_ok] a c f show ?thesis
    by (simp add: sample_parts)
qed

end
