(* ===== verification/BreakpointModels.thy ===== *)
theory BreakpointModels
  imports Continuity
begin

section \<open>Causal graphs and breakpoint results\<close>

text \<open>
  Models \<^verbatim>\<open>breakpoints/graph.py\<close> and \<^verbatim>\<open>breakpoints/models.py\<close> of \<^verbatim>\<open>product/backend/domain/verification\<close>.
  The graph of a trace holds its events with their ancestors, descendants and depth. The source computes
  them by cached recursion over the parents (or children); \<open>reach\<close> recurses on the number of events,
  which no chain of a stored trace exceeds. A frozen set is a set, iterated only to be sorted or tested.
\<close>

subsection \<open>The graph\<close>

record event_graph =
  gr_events :: "trace_event list"
  gr_ancestors :: "str \<Rightarrow> str set"
  gr_descendants :: "str \<Rightarrow> str set"
  gr_depth :: "str \<Rightarrow> nat"

fun reach :: "nat \<Rightarrow> (str \<Rightarrow> str list) \<Rightarrow> str \<Rightarrow> str set" where
  "reach 0 next i = {}"
| "reach (Suc n) next i = (\<Union>j \<in> set (next i). insert j (reach n next j))"

fun level :: "nat \<Rightarrow> (str \<Rightarrow> str list) \<Rightarrow> str \<Rightarrow> nat" where
  "level 0 next i = 0"
| "level (Suc n) next i = (if next i = [] then 0 else Suc (foldr (\<lambda>j m. max (level n next j) m) (next i) 0))"

definition event_of :: "trace_event list \<Rightarrow> str \<rightharpoonup> trace_event" where
  "event_of es = dict_of te_event_id es"

definition parents_of_event :: "trace_event list \<Rightarrow> str \<Rightarrow> str list" where
  "parents_of_event es i = (case event_of es i of None \<Rightarrow> [] | Some e \<Rightarrow> te_parents e)"

definition children_of_event :: "trace_event list \<Rightarrow> str \<Rightarrow> str list" where
  "children_of_event es i = map te_event_id (filter (\<lambda>e. i \<in> set (te_parents e)) es)"

definition build_graph :: "execution_trace \<Rightarrow> event_graph" where
  "build_graph t =
     (let es = tr_events t; n = length es in
      \<lparr>gr_events = es, gr_ancestors = reach n (parents_of_event es), gr_descendants = reach n (children_of_event es),
       gr_depth = level n (parents_of_event es)\<rparr>)"

definition parent_roles :: "event_graph \<Rightarrow> trace_event \<Rightarrow> str list" where
  "parent_roles g e = sort (concat (map (\<lambda>p. option_list (map_option (\<lambda>q. event_kind_value (te_kind q)) (event_of (gr_events g) p)))
     (te_parents e)))"

definition event_business_key ::
    "event_graph \<Rightarrow> trace_event \<Rightarrow> nat \<times> str \<times> str list \<times> str \<times> str \<times> str list \<times> str \<times> str" where
  "event_business_key g e =
     (gr_depth g (te_event_id e), te_action_id e, te_resources e, event_kind_value (te_kind e),
      (case te_effect e of None \<Rightarrow> [] | Some x \<Rightarrow> x), parent_roles g e, te_semantic_key e, te_event_id e)"

definition sorted_events :: "event_graph \<Rightarrow> str set \<Rightarrow> str list" where
  \<comment> \<open>a set of events, ordered by their business key\<close>
  "sorted_events g is = map te_event_id (sort_key (event_business_key g) (filter (\<lambda>e. te_event_id e \<in> is) (gr_events g)))"

subsection \<open>Results\<close>

datatype breakpoint_type =
    AUTHORIZATION_MISSING | AUTHORIZATION_LATE | AUTHORIZATION_BYPASS | IDENTITY_SUBSTITUTION | AUTHORITY_EXPANSION
  | COMPENSATION_MASKING

fun breakpoint_value :: "breakpoint_type \<Rightarrow> str" where
  "breakpoint_value AUTHORIZATION_MISSING = ''AUTHORIZATION_MISSING''"
| "breakpoint_value AUTHORIZATION_LATE = ''AUTHORIZATION_LATE''"
| "breakpoint_value AUTHORIZATION_BYPASS = ''AUTHORIZATION_BYPASS''"
| "breakpoint_value IDENTITY_SUBSTITUTION = ''IDENTITY_SUBSTITUTION''"
| "breakpoint_value AUTHORITY_EXPANSION = ''AUTHORITY_EXPANSION''"
| "breakpoint_value COMPENSATION_MASKING = ''COMPENSATION_MASKING''"

datatype breakpoint_precision = EXACT | RANGE | VIOLATION_ONLY

record breakpoint_result =
  br_case_id :: str
  br_action_id :: str
  br_type :: "breakpoint_type option"
  br_precision :: breakpoint_precision
  br_last_good :: "str option"
  br_first_violation :: "str option"
  br_range_start :: "str option"
  br_range_end :: "str option"
  br_continuity :: continuity
  br_orphans :: "str list"
  br_downstream :: "str list"
  br_amplifiers :: "breakpoint_type list"
  br_evidence :: "str list"
  br_reasons :: "str list"

definition unique_ids_field :: "str \<Rightarrow> nat \<Rightarrow> nat \<Rightarrow> str list \<Rightarrow> str list" where
  "unique_ids_field field lo hi vs = field_error (size_guards field lo hi vs
     @ [(has_duplicates vs, ''breakpoint ID references must be unique'')])"

definition precision_guards :: "breakpoint_result \<Rightarrow> guard list" where
  "precision_guards r =
     (case br_precision r of
        EXACT \<Rightarrow>
          [(br_type r = None \<or> br_first_violation r = None, ''EXACT breakpoint requires a type and first violation event''),
           (br_range_start r \<noteq> None \<or> br_range_end r \<noteq> None, ''EXACT breakpoint cannot carry a range'')]
      | RANGE \<Rightarrow>
          [(br_type r = None \<or> br_first_violation r \<noteq> None \<or> br_range_start r = None \<or> br_range_end r = None,
            ''RANGE breakpoint requires only range boundaries'')]
      | VIOLATION_ONLY \<Rightarrow>
          [(br_last_good r \<noteq> None \<or> br_range_start r \<noteq> None \<or> br_range_end r \<noteq> None,
            ''VIOLATION_ONLY cannot claim a stable trace boundary'')])"

definition breakpoint_guards :: "breakpoint_result \<Rightarrow> guard list" where
  "breakpoint_guards r =
     [(ca_state (br_continuity r) \<noteq> ORPHAN_CONFIRMED \<or> ca_case_id (br_continuity r) \<noteq> br_case_id r \<or>
         ca_action_id (br_continuity r) \<noteq> br_action_id r \<or>
         set (br_orphans r) \<noteq> er_effect_id ` set (ca_confirmed (br_continuity r)),
       ''breakpoint must reuse its confirmed continuity assessment''),
      (given (\<lambda>t. t \<in> set (br_amplifiers r)) (br_type r), ''primary breakpoint cannot also be an amplifier'')]
     @ precision_guards r"

definition breakpoint_errors :: "breakpoint_result \<Rightarrow> str list" where
  "breakpoint_errors r = after_fields
     (trace_field ''case_id'' (br_case_id r) @ trace_field ''action_id'' (br_action_id r)
      @ optional_field (trace_field ''last_known_good_event_id'') (br_last_good r)
      @ optional_field (trace_field ''first_violation_event_id'') (br_first_violation r)
      @ optional_field (trace_field ''range_start_event_id'') (br_range_start r)
      @ optional_field (trace_field ''range_end_event_id'') (br_range_end r)
      @ unique_ids_field ''orphan_effect_ids'' 1 64 (br_orphans r)
      @ unique_ids_field ''downstream_event_ids'' 0 512 (br_downstream r)
      @ field_error (size_guards ''amplifier_types'' 0 5 (br_amplifiers r)
          @ [(has_duplicates (br_amplifiers r), ''breakpoint amplifier types must be unique'')])
      @ unique_ids_field ''evidence_refs'' 1 128 (br_evidence r)
      @ field_error (size_guards ''reason_codes'' 1 32 (br_reasons r)
          @ [(has_duplicates (br_reasons r) \<or> list_ex (\<lambda>c. \<not> reason_code c) (br_reasons r),
              ''breakpoint reason codes must be stable unique tokens'')]))
     (breakpoint_guards r)"

definition breakpoint_norm :: "breakpoint_result \<Rightarrow> breakpoint_result" where
  "breakpoint_norm r = r\<lparr>br_reasons := sort (br_reasons r)\<rparr>"

definition new_breakpoint :: "breakpoint_result \<Rightarrow> breakpoint_result checked" where
  "new_breakpoint r = checked (breakpoint_errors r) (breakpoint_norm r)"

record bp_candidate =
  bc_type :: breakpoint_type
  bc_event :: str
  bc_orphans :: "str list"
  bc_reason :: str

record control_event =
  ce_event :: trace_event
  ce_parent_roles :: "str list"

record located_effect =
  le_effect_id :: str
  le_resource_id :: str
  le_state :: effect_state

record authorization_scope =
  az_subjects :: "str set"
  az_actions :: "str set"
  az_resources :: "str set"
  az_invariant_action :: str
  az_invariant_resources :: "str set"

end
