(* ===== verification/BreakpointCausality.thy ===== *)
theory BreakpointCausality
  imports BreakpointModels
begin

section \<open>Causal candidates\<close>

text \<open>
  Models \<^verbatim>\<open>breakpoints/causality.py\<close>: the events of the protected effects, the authorizations before
  and after them, and the findings they give rise to. The dictionary of findings is the list of its
  values in insertion order; a repeated finding keeps its place and collects the effect events.
\<close>

definition protected_events :: "event_graph \<Rightarrow> located_effect list \<Rightarrow> trace_event list" where
  "protected_events g orphans =
     (let keys = (\<lambda>f. (le_effect_id f, le_resource_id f)) ` set orphans in
      sort_key (event_business_key g)
        (filter (\<lambda>e. given (\<lambda>x. list_ex (\<lambda>r. (x, r) \<in> keys) (te_resources e)) (te_effect e)) (gr_events g)))"

definition relevant_authorization :: "trace_event \<Rightarrow> trace_event \<Rightarrow> bool" where
  "relevant_authorization e protected \<longleftrightarrow>
     te_kind e = AUTHORIZATION \<and> te_action_id e = te_action_id protected \<and>
     set (te_resources e) \<inter> set (te_resources protected) \<noteq> {} \<and>
     (as_actions (te_scope e) = [] \<or> te_action_id protected \<in> set (as_actions (te_scope e))) \<and>
     (as_resources (te_scope e) = [] \<or> set (as_resources (te_scope e)) \<inter> set (te_resources protected) \<noteq> {})"

definition has_allow_authorization :: "trace_event list \<Rightarrow> event_graph \<Rightarrow> trace_event \<Rightarrow> bool" where
  "has_allow_authorization es g e \<longleftrightarrow> list_ex (\<lambda>a. te_decision a = Some TRACE_ALLOW \<and> relevant_authorization a e \<and>
     te_event_id a \<in> gr_ancestors g (te_event_id e)) es"

definition allow_control_events :: "execution_trace \<Rightarrow> event_graph \<Rightarrow> located_effect list \<Rightarrow> control_event list" where
  "allow_control_events t g facts =
     (let confirmed = (\<lambda>f. (le_effect_id f, le_resource_id f)) ` set (filter (\<lambda>f. le_state f = EFFECT_CONFIRMED) facts) in
      map (\<lambda>e. \<lparr>ce_event = e, ce_parent_roles = parent_roles g e\<rparr>)
        (filter (\<lambda>e. given (\<lambda>x. list_ex (\<lambda>r. (x, r) \<in> confirmed) (te_resources e)) (te_effect e) \<and>
           has_allow_authorization (tr_events t) g e) (gr_events g)))"

definition control_has_normal_path :: "trace_event \<Rightarrow> control_event list \<Rightarrow> event_graph \<Rightarrow> bool" where
  "control_has_normal_path d cs g =
     (let matches = filter (\<lambda>c. te_action_id (ce_event c) = te_action_id d \<and> te_resources (ce_event c) = te_resources d \<and>
            te_kind (ce_event c) = te_kind d \<and> te_effect (ce_event c) = te_effect d) cs;
          semantic = filter (\<lambda>c. te_semantic_key (ce_event c) = te_semantic_key d) matches
      in list_ex (\<lambda>c. ce_parent_roles c \<noteq> parent_roles g d) (if semantic \<noteq> [] then semantic else matches))"

definition reliable_actual_subject :: "execution_trace \<Rightarrow> str option" where
  "reliable_actual_subject t =
     (if \<not> tr_complete t then None
      else case remdups (concat (map (\<lambda>e. if te_kind e = IDENTITY then option_list (te_subject e) else []) (tr_events t))) of
          [s] \<Rightarrow> Some s | _ \<Rightarrow> None)"

definition legal_scope :: "permission_contract \<Rightarrow> str option \<Rightarrow> str set \<times> str set" where
  "legal_scope c subject =
     (let allowed = filter (\<lambda>r. Some (rule_subject_id r) = subject \<and> rule_expectation r = ALLOW) (rules c);
          pairs = concat (map (\<lambda>b. map (\<lambda>i. (batch_action_id b, batch_resource_id i))
              (filter (\<lambda>i. batch_expectation i = ALLOW) (batch_items b)))
            (filter (\<lambda>b. Some (batch_subject_id b) = subject) (batch_rules c)))
      in (set (map rule_action_id allowed @ map fst pairs), set (map rule_resource_id allowed @ map snd pairs)))"

definition background_actor :: "trace_event \<Rightarrow> str option \<Rightarrow> bool" where
  "background_actor e subject \<longleftrightarrow> te_actor e \<noteq> None \<and> te_actor e \<noteq> subject"

definition has_legal_delegation :: "event_graph \<Rightarrow> trace_event \<Rightarrow> bool" where
  "has_legal_delegation g e =
     (case as_delegated_from (te_scope e) of
        None \<Rightarrow> False
      | Some i \<Rightarrow> i \<in> gr_ancestors g (te_event_id e) \<and>
          given (\<lambda>source. let s = te_scope source; d = te_scope e in
            te_kind source = AUTHORIZATION \<and> te_decision source = Some TRACE_ALLOW \<and>
            as_actions s \<noteq> [] \<and> as_resources s \<noteq> [] \<and>
            set (as_actions d) \<subseteq> set (as_actions s) \<and> set (as_resources d) \<subseteq> set (as_resources s) \<and>
            te_action_id e \<in> set (as_actions s) \<and> set (te_resources e) \<subseteq> set (as_resources s) \<and>
            (te_credential e = None \<or> te_credential e = te_credential source)) (event_of (gr_events g) i))"

definition exceeds_legal_scope :: "authorization_scope \<Rightarrow> execution_trace \<Rightarrow> event_graph \<Rightarrow> trace_event \<Rightarrow> bool" where
  "exceeds_legal_scope z t g e =
     (if has_legal_delegation g e then False
      else if list_ex (\<lambda>a. a \<notin> az_actions z \<or> a \<noteq> az_invariant_action z) (as_actions (te_scope e)) then True
      else if list_ex (\<lambda>r. r \<notin> az_resources z \<or> r \<notin> az_invariant_resources z) (as_resources (te_scope e)) then True
      else case te_credential e of
          None \<Rightarrow> False
        | Some c \<Rightarrow> \<not> list_ex (\<lambda>s. te_credential s = Some c \<and> te_event_id s \<in> gr_ancestors g (te_event_id e) \<and>
            te_kind s \<in> {IDENTITY, AUTHORIZATION}) (tr_events t))"

subsection \<open>The findings of one effect\<close>

definition late_dispatch :: "execution_trace \<Rightarrow> event_graph \<Rightarrow> trace_event \<Rightarrow> trace_event \<Rightarrow> bool" where
  "late_dispatch t g effect d \<longleftrightarrow>
     given (\<lambda>x. x \<in> set (te_dispatch d)) (te_effect effect) \<and> te_event_id d \<in> gr_ancestors g (te_event_id effect) \<and>
     (te_case_id d, te_action_id d, te_resources d) = (te_case_id effect, te_action_id effect, te_resources effect) \<and>
     (let relevant = filter (\<lambda>e. relevant_authorization e d) (tr_events t) in
      \<not> list_ex (\<lambda>e. te_event_id e \<in> gr_ancestors g (te_event_id d)) relevant \<and>
      list_ex (\<lambda>e. te_event_id e \<in> gr_descendants g (te_event_id d) \<and> te_decision e \<noteq> None) relevant)"

definition dispatch_findings :: "execution_trace \<Rightarrow> event_graph \<Rightarrow> trace_event \<Rightarrow> (breakpoint_type \<times> str) list" where
  "dispatch_findings t g effect =
     (if tr_complete t then map (\<lambda>d. (AUTHORIZATION_LATE, te_event_id d)) (filter (late_dispatch t g effect) (tr_events t)) else [])"

definition authorization_findings ::
    "event_graph \<Rightarrow> control_event list \<Rightarrow> trace_event \<Rightarrow> (breakpoint_type \<times> str) list" where
  "authorization_findings g cs effect =
     (let i = te_event_id effect;
          authorizations = filter (\<lambda>e. relevant_authorization e effect) (gr_events g);
          earlier = filter (\<lambda>e. te_event_id e \<in> gr_ancestors g i) authorizations;
          later = filter (\<lambda>e. te_event_id e \<in> gr_descendants g i) authorizations
      in if authorizations = [] then [(AUTHORIZATION_MISSING, i)]
         else if later \<noteq> [] \<and> earlier = [] then [(AUTHORIZATION_LATE, i)]
         else if \<not> list_ex (\<lambda>e. te_decision e = Some TRACE_ALLOW) earlier \<and> control_has_normal_path effect cs g
         then [(AUTHORIZATION_BYPASS, i)] else [])"

definition identity_findings ::
    "authorization_scope \<Rightarrow> execution_trace \<Rightarrow> event_graph \<Rightarrow> trace_event \<Rightarrow> (breakpoint_type \<times> str) list" where
  "identity_findings z t g effect =
     (case reliable_actual_subject t of
        None \<Rightarrow> []
      | Some s \<Rightarrow>
          if s \<in> az_subjects z \<and> given (\<lambda>p. p \<in> az_subjects z) (tr_subject t) \<and> Some s \<noteq> tr_subject t
          then case sort_key (event_business_key g)
                 (filter (\<lambda>e. te_kind e = IDENTITY \<and> te_subject e = Some s \<and>
                    te_event_id e \<in> gr_ancestors g (te_event_id effect) \<and>
                    \<not> has_legal_delegation g e \<and> \<not> has_legal_delegation g effect) (gr_events g)) of
               [] \<Rightarrow> [] | e # _ \<Rightarrow> [(IDENTITY_SUBSTITUTION, te_event_id e)]
          else [])"

definition acting_subject :: "execution_trace \<Rightarrow> str option" where
  "acting_subject t = (case reliable_actual_subject t of None \<Rightarrow> tr_subject t | Some s \<Rightarrow> Some s)"

definition expansion_findings ::
    "authorization_scope \<Rightarrow> execution_trace \<Rightarrow> event_graph \<Rightarrow> trace_event \<Rightarrow> (breakpoint_type \<times> str) list" where
  "expansion_findings z t g effect =
     map (\<lambda>e. (AUTHORITY_EXPANSION, te_event_id e))
       (filter (\<lambda>e. te_event_id e \<in> insert (te_event_id effect) (gr_ancestors g (te_event_id effect)) \<and>
          background_actor e (acting_subject t) \<and> exceeds_legal_scope z t g e) (gr_events g))"

definition recovery_findings :: "event_graph \<Rightarrow> trace_event \<Rightarrow> (breakpoint_type \<times> str) list" where
  "recovery_findings g effect =
     map (\<lambda>e. (COMPENSATION_MASKING, te_event_id e))
       (filter (\<lambda>e. te_kind e = RECOVERED \<and> te_event_id e \<in> gr_descendants g (te_event_id effect) \<and>
          set (te_resources e) \<inter> set (te_resources effect) \<noteq> {}) (gr_events g))"

definition effect_findings ::
    "authorization_scope \<Rightarrow> execution_trace \<Rightarrow> event_graph \<Rightarrow> control_event list \<Rightarrow> trace_event \<Rightarrow>
       (breakpoint_type \<times> str) list" where
  "effect_findings z t g cs effect =
     dispatch_findings t g effect @ authorization_findings g cs effect @ identity_findings z t g effect
     @ expansion_findings z t g effect @ recovery_findings g effect"

subsection \<open>Collecting\<close>

definition new_candidate :: "breakpoint_type \<Rightarrow> str \<Rightarrow> str list \<Rightarrow> bp_candidate" where
  "new_candidate k i orphans = \<lparr>bc_type = k, bc_event = i, bc_orphans = sort (remdups orphans),
     bc_reason = ''BREAKPOINT_'' @ breakpoint_value k\<rparr>"

fun add_candidate :: "breakpoint_type \<times> str \<Rightarrow> str \<Rightarrow> bp_candidate list \<Rightarrow> bp_candidate list" where
  "add_candidate (k, i) orphan [] = [new_candidate k i [orphan]]"
| "add_candidate (k, i) orphan (c # cs) =
     (if (bc_type c, bc_event c) = (k, i) then new_candidate k i (bc_orphans c @ [orphan]) # cs
      else c # add_candidate (k, i) orphan cs)"

definition collect_candidates ::
    "authorization_scope \<Rightarrow> execution_trace \<Rightarrow> event_graph \<Rightarrow> trace_event list \<Rightarrow> control_event list \<Rightarrow> bp_candidate list" where
  "collect_candidates z t g protected cs =
     foldl (\<lambda>found effect. foldl (\<lambda>found k. add_candidate k (te_event_id effect) found) found (effect_findings z t g cs effect))
       [] protected"

definition candidate_order ::
    "event_graph \<Rightarrow> bp_candidate \<Rightarrow> nat \<times> str \<times> str list \<times> str \<times> str \<times> str list \<times> str \<times> str \<times> str" where
  \<comment> \<open>every candidate names an event of the graph: the first branch is not reached\<close>
  "candidate_order g c =
     (case event_of (gr_events g) (bc_event c) of
        None \<Rightarrow> (0, [], [], [], [], [], [], breakpoint_value (bc_type c), bc_event c)
      | Some e \<Rightarrow>
          (gr_depth g (bc_event c), te_action_id e, te_resources e, event_kind_value (te_kind e),
           (case te_effect e of None \<Rightarrow> [] | Some x \<Rightarrow> x), parent_roles g e, te_semantic_key e,
           breakpoint_value (bc_type c), bc_event c))"

definition amplifiers :: "event_graph \<Rightarrow> bp_candidate \<Rightarrow> bp_candidate list \<Rightarrow> breakpoint_type list" where
  "amplifiers g primary cs = sort_key breakpoint_value (remdups (map bc_type
     (filter (\<lambda>c. bc_type c \<noteq> bc_type primary \<and> bc_event c \<in> gr_descendants g (bc_event primary)) cs)))"

definition downstream_events :: "event_graph \<Rightarrow> bp_candidate \<Rightarrow> bp_candidate list \<Rightarrow> trace_event list \<Rightarrow> str list" where
  "downstream_events g primary cs protected = sorted_events g
     ({i \<in> gr_descendants g (bc_event primary). list_ex (\<lambda>e. i = te_event_id e \<or> i \<in> gr_ancestors g (te_event_id e) \<or>
         i \<in> gr_descendants g (te_event_id e)) protected}
      \<union> (bc_event ` set (filter (\<lambda>c. bc_event c \<in> gr_descendants g (bc_event primary)) cs)))"

record boundary =
  bd_precision :: breakpoint_precision
  bd_last_good :: "str option"
  bd_first_violation :: "str option"
  bd_range_start :: "str option"
  bd_range_end :: "str option"
  bd_reasons :: "str list"

definition precision_of :: "execution_trace \<Rightarrow> execution_trace \<Rightarrow> str \<Rightarrow> str list \<Rightarrow> bool \<Rightarrow> boundary" where
  "precision_of allow deny primary parents unclear =
     (let last_good = (case parents of [p] \<Rightarrow> Some p | _ \<Rightarrow> None) in
      if tr_complete allow \<and> tr_complete deny \<and> \<not> unclear
      then \<lparr>bd_precision = EXACT, bd_last_good = last_good, bd_first_violation = Some primary, bd_range_start = None,
            bd_range_end = None, bd_reasons = [''EXACT_BREAKPOINT'']\<rparr>
      else if last_good \<noteq> None
      then \<lparr>bd_precision = RANGE, bd_last_good = last_good, bd_first_violation = None, bd_range_start = last_good,
            bd_range_end = Some primary, bd_reasons = [''BREAKPOINT_RANGE_ONLY'', ''TRACE_EVIDENCE_INCOMPLETE'']\<rparr>
      else \<lparr>bd_precision = VIOLATION_ONLY, bd_last_good = None, bd_first_violation = Some primary, bd_range_start = None,
            bd_range_end = None, bd_reasons = [''TRACE_EVIDENCE_INCOMPLETE'', ''VIOLATION_ONLY'']\<rparr>)"

end
