(* ===== verification/BreakpointLocator.thy ===== *)
theory BreakpointLocator
  imports BreakpointCausality
begin

section \<open>Locating a breakpoint\<close>

text \<open>
  Models \<^verbatim>\<open>breakpoints/locator.py\<close>: the shared algorithm on frozen effects, and its two entries, one on a
  contract with its differential plan, one on a frozen action with the facts of an executed twin. Of an
  identity (\<^verbatim>\<open>checks/identity.py\<close>) the locator reads the identifier, the fingerprint and the namespace
  and subject of its verification.
\<close>

definition published_refs :: "str list \<Rightarrow> str list checked" where
  "published_refs vs =
     (if has_duplicates vs then Inl [''published Evidence references must be unique'']
      else if list_ex (\<lambda>v. \<not> trace_id v) vs then Inl [''published Evidence reference is invalid'']
      else Inr (sort vs))"

definition violation_only :: "continuity \<Rightarrow> str list \<Rightarrow> str \<Rightarrow> breakpoint_result checked" where
  "violation_only a refs reason = new_breakpoint
     \<lparr>br_case_id = ca_case_id a, br_action_id = ca_action_id a, br_type = None, br_precision = VIOLATION_ONLY,
      br_last_good = None, br_first_violation = None, br_range_start = None, br_range_end = None, br_continuity = a,
      br_orphans = sort (remdups (map er_effect_id (ca_confirmed a))), br_downstream = [], br_amplifiers = [],
      br_evidence = refs,
      br_reasons = [''CONFIRMED_ORPHAN_EFFECT'', reason, ''TRACE_EVIDENCE_INCOMPLETE'', ''VIOLATION_ONLY'']\<rparr>"

definition causal_first :: "event_graph \<Rightarrow> bp_candidate list \<Rightarrow> bp_candidate list" where
  "causal_first g cs = filter (\<lambda>c. \<not> list_ex (\<lambda>o'. o' \<noteq> c \<and> bc_event o' \<in> gr_ancestors g (bc_event c)) cs) cs"

definition result_refs :: "event_graph \<Rightarrow> str list \<Rightarrow> bp_candidate \<Rightarrow> str list" where
  "result_refs g refs primary = sort (remdups (refs @ concat (map (\<lambda>i. case event_of (gr_events g) i of
     None \<Rightarrow> [] | Some e \<Rightarrow> te_evidence e) (bc_event primary # bc_orphans primary))))"

definition event_refs :: "breakpoint_result \<Rightarrow> str list" where
  "event_refs r = option_list (br_last_good r) @ option_list (br_first_violation r) @ option_list (br_range_start r)
     @ option_list (br_range_end r) @ br_downstream r"

definition check_event_refs :: "event_graph \<Rightarrow> breakpoint_result \<Rightarrow> breakpoint_result checked" where
  "check_event_refs g r =
     (if list_ex (\<lambda>i. event_of (gr_events g) i = None) (event_refs r)
      then Inl [''breakpoint event reference is outside the current Trace''] else Inr r)"

definition located_result :: "event_graph \<Rightarrow> execution_trace \<Rightarrow> execution_trace \<Rightarrow> continuity \<Rightarrow> str list \<Rightarrow> str list \<Rightarrow>
    trace_event list \<Rightarrow> bp_candidate list \<Rightarrow> bp_candidate \<Rightarrow> breakpoint_result checked" where
  "located_result g allow deny a orphan_ids refs protected cs primary =
     (let ordered = sort_key (candidate_order g) cs;
          parents = sorted_events g (set (parents_of_event (gr_events g) (bc_event primary)));
          b = precision_of allow deny (bc_event primary) parents (1 < length (causal_first g cs));
          evidence = result_refs g refs primary
      in if evidence = [] then Inl [''breakpoint requires a published Evidence reference'']
         else andthen (new_breakpoint
           \<lparr>br_case_id = tr_case_id deny, br_action_id = tr_action_id deny, br_type = Some (bc_type primary),
            br_precision = bd_precision b, br_last_good = bd_last_good b, br_first_violation = bd_first_violation b,
            br_range_start = bd_range_start b, br_range_end = bd_range_end b, br_continuity = a,
            br_orphans = sort (remdups orphan_ids), br_downstream = downstream_events g primary ordered protected,
            br_amplifiers = amplifiers g primary ordered, br_evidence = evidence,
            br_reasons = remdups ([''CONFIRMED_ORPHAN_EFFECT'', bc_reason primary] @ bd_reasons b)\<rparr>) (check_event_refs g))"

definition locate_frozen_effects :: "continuity \<Rightarrow> execution_trace \<Rightarrow> execution_trace \<Rightarrow> located_effect list \<Rightarrow>
    located_effect list \<Rightarrow> str list \<Rightarrow> authorization_scope \<Rightarrow> breakpoint_result checked" where
  "locate_frozen_effects a allow deny orphans allow_facts refs z =
     (let g = build_graph deny; protected = protected_events g orphans;
          control = allow_control_events allow (build_graph allow) allow_facts;
          cs = collect_candidates z deny g protected control
      in if protected = [] then violation_only a refs ''PROTECTED_EFFECT_EVENT_UNAVAILABLE''
         else if cs = [] then violation_only a refs ''BREAKPOINT_TRACE_UNRESOLVED''
         else case sort_key (candidate_order g) (causal_first g cs) of
             [] \<Rightarrow> Inl [''min() arg is an empty sequence'']
           | primary # _ \<Rightarrow> located_result g allow deny a (map le_effect_id orphans) refs protected cs primary)"

subsection \<open>On a contract and its differential plan\<close>

definition resolve_twin :: "differential_plan \<Rightarrow> execution_trace \<Rightarrow> execution_trace \<Rightarrow> permission_twin checked" where
  "resolve_twin p allow deny =
     (case filter (\<lambda>t. mc_case_id (pt_allow t) = tr_case_id allow \<and> mc_case_id (pt_deny t) = tr_case_id deny) (dp_twins p) of
        [t] \<Rightarrow> Inr t | _ \<Rightarrow> Inl [''traces must identify exactly one frozen differential twin''])"

definition frozen_scope_guards :: "permission_contract \<Rightarrow> permission_twin \<Rightarrow> execution_trace \<Rightarrow> execution_trace \<Rightarrow> guard list" where
  "frozen_scope_guards c t allow deny =
     (let i = pt_invariant t; subject_ids = subject_id ` set (subjects c) in
      [(list_ex (\<lambda>v. v \<noteq> ALLOW) (mc_expectations (pt_allow t)) \<or> list_ex (\<lambda>v. v \<noteq> DENY) (mc_expectations (pt_deny t)),
        ''breakpoint locator requires an ALLOW/DENY twin''),
       (tr_action_id allow \<noteq> ti_action_id i \<or> tr_action_id deny \<noteq> ti_action_id i, ''trace action does not match the frozen twin''),
       (tr_subject allow \<noteq> Some (mc_subject_id (pt_allow t)) \<or> tr_subject deny \<noteq> Some (mc_subject_id (pt_deny t)),
        ''trace planned subject does not match the frozen twin''),
       (list_ex (\<lambda>e. \<not> set (te_resources e) \<subseteq> set (ti_resource_ids i)) (tr_events allow @ tr_events deny),
        ''trace event resource is outside the frozen twin''),
       (ti_action_id i \<notin> action_id ` set (actions c) \<or> list_ex (\<lambda>r. r \<notin> resource_id ` set (resources c)) (ti_resource_ids i),
        ''frozen twin is outside the contract action or resource scope''),
       (absent_or (\<lambda>s. s \<notin> subject_ids) (tr_subject allow) \<or> absent_or (\<lambda>s. s \<notin> subject_ids) (tr_subject deny),
        ''trace planned subject is outside the frozen contract'')])"

definition located_fact :: "security_effect_fact \<Rightarrow> located_effect" where
  "located_fact f = \<lparr>le_effect_id = sf_effect_id f, le_resource_id = sf_resource_id f, le_state = sf_state f\<rparr>"

definition locate :: "permission_contract \<Rightarrow> differential_plan \<Rightarrow> execution_trace \<Rightarrow> execution_trace \<Rightarrow>
    security_effect_fact list \<Rightarrow> security_effect_fact list \<Rightarrow> str list \<Rightarrow> breakpoint_result option checked" where
  "locate c p allow deny allow_facts deny_facts refs =
     andthen (resolve_twin p allow deny) (\<lambda>t.
       case first_error (frozen_scope_guards c t allow deny) of
         Some m \<Rightarrow> Inl [m]
       | None \<Rightarrow> andthen (published_refs refs) (\<lambda>published. andthen (assess_twin_continuity c t deny_facts) (\<lambda>a.
           if ca_state a \<noteq> ORPHAN_CONFIRMED then Inr None
           else let keys = effect_key ` set (ca_confirmed a);
                    orphans = filter (\<lambda>f. fact_key f \<in> keys) deny_facts;
                    legal = legal_scope c (tr_subject deny);
                    z = \<lparr>az_subjects = subject_id ` set (subjects c), az_actions = fst legal, az_resources = snd legal,
                         az_invariant_action = ti_action_id (pt_invariant t),
                         az_invariant_resources = set (ti_resource_ids (pt_invariant t))\<rparr>
                in andthen (locate_frozen_effects a allow deny (map located_fact orphans) (map located_fact allow_facts) published z)
                     (\<lambda>r. Inr (Some r)))))"

subsection \<open>On a frozen action and the facts of its twin\<close>

record identity_verification =
  iv_namespace :: str
  iv_subject :: str

record check_identity =
  ci_identity_id :: str
  ci_fingerprint :: str
  ci_verification :: "identity_verification option"

definition identity_of :: "check_identity list \<Rightarrow> str option \<Rightarrow> check_identity option" where
  "identity_of is i = (case i of None \<Rightarrow> None | Some k \<Rightarrow> dict_of ci_identity_id is k)"

definition namespace_subject :: "str option \<Rightarrow> check_identity \<Rightarrow> str option" where
  \<comment> \<open>the application's name for the identity, in the namespace of the trace\<close>
  "namespace_subject ns i = (case ci_verification i of
     None \<Rightarrow> None | Some v \<Rightarrow> if Some (iv_namespace v) = ns then Some (iv_subject v) else None)"

definition expected_subject :: "check_identity list \<Rightarrow> str option \<Rightarrow> execution_case \<Rightarrow> str option" where
  "expected_subject is ns c = (case identity_of is (case_subject_identity c) of
       None \<Rightarrow> case_subject_identity c
     | Some i \<Rightarrow> (case namespace_subject ns i of None \<Rightarrow> case_subject_identity c | Some s \<Rightarrow> Some s))"

definition outside_case :: "execution_action \<Rightarrow> check_identity list \<Rightarrow> str option \<Rightarrow> decision_input \<Rightarrow> str list \<Rightarrow>
    execution_trace \<Rightarrow> bool" where
  "outside_case x is ns d refs t \<longleftrightarrow>
     tr_case_id t \<noteq> case_id (di_case d) \<or> tr_action_id t \<noteq> ex_action_id x \<or>
     tr_subject t \<noteq> expected_subject is ns (di_case d) \<or>
     list_ex (\<lambda>e. \<not> set (te_evidence e) \<subseteq> set refs) (tr_events t) \<or>
     list_ex (\<lambda>e. \<not> set (te_resources e) \<subseteq> {case_resource_id (di_case d)}) (tr_events t)"

definition case_mapping :: "check_identity list \<Rightarrow> str option \<Rightarrow> execution_case \<Rightarrow> (str \<times> str) option" where
  \<comment> \<open>the subject a case is mapped to and the identity that maps it\<close>
  "case_mapping is ns c = (case identity_of is (case_subject_identity c) of
       None \<Rightarrow> None
     | Some i \<Rightarrow> if Some (ci_fingerprint i) \<noteq> case_subject_fingerprint c then None
         else map_option (\<lambda>s. (s, ci_identity_id i)) (namespace_subject ns i))"

definition current_scope :: "execution_action \<Rightarrow> check_identity list \<Rightarrow> str option \<Rightarrow> decision_input \<Rightarrow> execution_trace \<Rightarrow>
    authorization_scope" where
  "current_scope x is ns d deny =
     (let mapped = concat (map (\<lambda>c. option_list (case_mapping is ns c)) (ex_cases x));
          legal = map case_resource_id (filter (\<lambda>c. given (\<lambda>m. Some (fst m) = tr_subject deny) (case_mapping is ns c) \<and>
            fz_expectation (case_permission c) = ALLOW) (ex_cases x))
      in \<lparr>az_subjects = set (filter (\<lambda>s. length (remdups (map snd (filter (\<lambda>m. fst m = s) mapped))) = 1) (map fst mapped)),
          az_actions = (if legal \<noteq> [] then {ex_action_id x} else {}), az_resources = set legal,
          az_invariant_action = ex_action_id x, az_invariant_resources = {case_resource_id (di_case d)}\<rparr>)"

definition current_allow_effects :: "decision_input \<Rightarrow> located_effect list" where
  "current_allow_effects d =
     (if attributed d
      then map (\<lambda>f. \<lparr>le_effect_id = ef_effect_id f, le_resource_id = case_resource_id (di_case d), le_state = EFFECT_CONFIRMED\<rparr>)
        (filter (\<lambda>f. ef_proof_fingerprint f \<in> proof_fingerprint ` set (filter (\<lambda>p. proof_level p = VERDICT_REQUIRED) (case_proofs (di_case d))) \<and>
           ef_state f = EFFECT_CONFIRMED \<and> trusted_fact f) (di_effects d))
      else [])"

definition current_effects :: "continuity \<Rightarrow> located_effect list" where
  "current_effects a = map (\<lambda>r. \<lparr>le_effect_id = er_effect_id r, le_resource_id = er_resource_id r, le_state = EFFECT_CONFIRMED\<rparr>)
     (ca_confirmed a)"

definition locate_current :: "execution_action \<Rightarrow> execution_twin \<Rightarrow> decision_input \<Rightarrow> decision_input \<Rightarrow> execution_trace option \<Rightarrow>
    execution_trace option \<Rightarrow> check_identity list \<Rightarrow> str option \<Rightarrow> str list \<Rightarrow> str list \<Rightarrow> breakpoint_result option checked" where
  "locate_current x twin ad dd allow deny is ns allow_evidence deny_evidence =
     (if twin \<notin> set (ex_twins x) \<or> di_case ad \<notin> set (ex_cases x) \<or> di_case dd \<notin> set (ex_cases x) \<or>
         (case_id (di_case ad), case_id (di_case dd)) \<noteq> (twin_allow_case twin, twin_deny_case twin)
      then Inl [''breakpoint inputs must belong to one frozen twin'']
      else andthen (assess_check_continuity x dd) (\<lambda>a.
        if ca_state a \<noteq> ORPHAN_CONFIRMED then Inr None
        else andthen (published_refs deny_evidence) (\<lambda>dr. andthen (published_refs allow_evidence) (\<lambda>ar.
          if set dr \<inter> set ar \<noteq> {} then Inl [''breakpoint evidence must remain case scoped'']
          else if has_duplicates (map ci_identity_id is) then Inl [''duplicate frozen identity'']
          else if given (outside_case x is ns ad ar) allow \<or> given (outside_case x is ns dd dr) deny
          then Inl [''trace is outside the frozen published case'']
          else andthen (case (allow, deny) of
              (Some at, Some dt) \<Rightarrow> locate_frozen_effects a at dt (current_effects a) (current_allow_effects ad) dr
                (current_scope x is ns dd dt)
            | _ \<Rightarrow> violation_only a dr ''PROTECTED_EFFECT_EVENT_UNAVAILABLE'') (\<lambda>r. Inr (Some r))))))"

end
