(* ===== verification/BreakpointFacts.thy ===== *)
theory BreakpointFacts
  imports BreakpointLocator TraceFacts
begin

section \<open>The graph of a stored trace\<close>

text \<open>
  On a trace whose events stand parents first, the bounded recursion of the graph is the transitive
  closure of the parent relation; the candidates that no other candidate precedes are where every
  chain of candidates begins.
\<close>

definition stored :: "execution_trace \<Rightarrow> bool" where
  "stored t \<longleftrightarrow> well_linked (tr_events t) \<and> parents_first (tr_events t)"

definition step_relation :: "(str \<Rightarrow> str list) \<Rightarrow> (str \<times> str) set" where
  "step_relation next = {(j, i). j \<in> set (next i)}"

lemma reach_iff: "j \<in> reach n next i \<longleftrightarrow> (\<exists>k. 0 < k \<and> k \<le> n \<and> (j, i) \<in> step_relation next ^^ k)"
proof (induction n arbitrary: i)
  case (Suc n)
  have "j \<in> reach (Suc n) next i \<longleftrightarrow>
      (\<exists>y. (y, i) \<in> step_relation next \<and> (j = y \<or> (\<exists>k. 0 < k \<and> k \<le> n \<and> (j, y) \<in> step_relation next ^^ k)))"
    by (auto simp: Suc.IH step_relation_def)
  also have "\<dots> \<longleftrightarrow> (\<exists>y. (y, i) \<in> step_relation next \<and> (\<exists>k \<le> n. (j, y) \<in> step_relation next ^^ k))"
    by (metis bot_nat_0.not_eq_extremum le0 pair_in_Id_conv relpow.simps(1))
  also have "\<dots> \<longleftrightarrow> (\<exists>k \<le> n. (j, i) \<in> step_relation next ^^ Suc k)" by auto
  also have "\<dots> \<longleftrightarrow> (\<exists>k. 0 < k \<and> k \<le> Suc n \<and> (j, i) \<in> step_relation next ^^ k)"
    by (metis Suc_le_mono gr0_conv_Suc zero_less_Suc)
  finally show ?case .
qed simp

lemma ranked_path:
  assumes "\<And>p c. (p, c) \<in> r \<Longrightarrow> rank p < (rank c :: nat)" and "(j, i) \<in> r ^^ k"
  shows "rank j + k \<le> rank i"
  using assms(2)
proof (induction k arbitrary: i)
  case (Suc k)
  then obtain y where y: "(j, y) \<in> r ^^ k" "(y, i) \<in> r" by auto
  from Suc.IH [OF y(1)] assms(1) [OF y(2)] show ?case by simp
qed simp

lemma graph_edges:
  assumes "distinct (map te_event_id es)"
  shows "step_relation (parents_of_event es) = parent_edges es" and "step_relation (children_of_event es) = (parent_edges es)\<inverse>"
proof -
  have "(p, c) \<in> step_relation (parents_of_event es) \<longleftrightarrow> (p, c) \<in> parent_edges es" for p c
  proof (cases "dict_of te_event_id es c")
    case None
    then have "c \<notin> event_ids es" by (simp only: dict_of_None simp_thms)
    with None show ?thesis by (auto simp: step_relation_def parents_of_event_def event_of_def parent_edges_def)
  next
    case (Some e)
    with dict_of_Some have e: "e \<in> set es" "te_event_id e = c" by fast+
    have "(p, c) \<in> parent_edges es \<longleftrightarrow> p \<in> set (te_parents e)"
    proof
      assume "(p, c) \<in> parent_edges es"
      then obtain x where x: "x \<in> set es" "te_event_id x = c" "p \<in> set (te_parents x)"
        by (auto simp: parent_edges_def)
      from dict_of_event [OF assms x(1)] x(2) Some have "x = e" by simp
      with x(3) show "p \<in> set (te_parents e)" by simp
    qed (use e in \<open>auto simp: parent_edges_def\<close>)
    with Some show ?thesis by (simp add: step_relation_def parents_of_event_def event_of_def)
  qed
  then show "step_relation (parents_of_event es) = parent_edges es" by auto
  show "step_relation (children_of_event es) = (parent_edges es)\<inverse>"
    by (auto simp: step_relation_def children_of_event_def parent_edges_def)
qed

lemma stored_distinct: "stored t \<Longrightarrow> distinct (map te_event_id (tr_events t))"
  by (simp add: stored_def well_linked_def)

lemma stored_acyclic: "stored t \<Longrightarrow> acyclic (parent_edges (tr_events t))"
  using parents_first_acyclic stored_distinct by (simp add: stored_def)

lemma graph_ancestors:
  assumes "stored t"
  shows "j \<in> gr_ancestors (build_graph t) i \<longleftrightarrow> (j, i) \<in> (parent_edges (tr_events t))\<^sup>+"
proof -
  let ?r = "parent_edges (tr_events t)"
  from assms have pf: "parents_first (tr_events t)" by (simp add: stored_def)
  note edge = place_edge [OF pf stored_distinct [OF assms]]
  have "k \<le> length (tr_events t)" if k: "(j, i) \<in> ?r ^^ k" "0 < k" for k
  proof -
    from k obtain l where "k = Suc l" by (cases k) auto
    with k(1) obtain y where "(y, i) \<in> ?r" by auto
    from edge(2) [OF this] ranked_path [of ?r "place (tr_events t)", OF edge(1) k(1)] show ?thesis by simp
  qed
  then show ?thesis
    unfolding build_graph_def Let_def trancl_power
    by (auto simp: reach_iff graph_edges [OF stored_distinct [OF assms]])
qed

lemma causal_first_origin:
  assumes t: "stored t" and first: "causal_first (build_graph t) cs = [c]" and "x \<in> set cs"
  shows "x = c \<or> (bc_event c, bc_event x) \<in> (parent_edges (tr_events t))\<^sup>+"
proof -
  let ?r = "parent_edges (tr_events t)"
  have fin: "parent_edges (tr_events t) = (\<Union>e \<in> set (tr_events t). (\<lambda>p. (p, te_event_id e)) ` set (te_parents e))"
    by (auto simp: parent_edges_def)
  have "finite ?r" unfolding fin by simp
  then have "wf (?r\<^sup>+)" using stored_acyclic [OF t] finite_acyclic_wf wf_trancl by blast
  then show ?thesis
    using assms(3)
  proof (induction "bc_event x" arbitrary: x rule: wf_induct_rule)
    case less
    show ?case
    proof (cases "x \<in> set (causal_first (build_graph t) cs)")
      case True
      with first show ?thesis by simp
    next
      case False
      with less.prems obtain y where y: "y \<in> set cs" "(bc_event y, bc_event x) \<in> ?r\<^sup>+"
        by (auto simp: causal_first_def list_ex_iff graph_ancestors [OF t])
      from less.hyps [OF y(2,1)] y(2) show ?thesis by (metis trancl_trans)
    qed
  qed
qed

lemma exact_boundary:
  assumes "bd_precision (precision_of allow deny i ps unclear) = EXACT"
  shows "tr_complete allow" and "tr_complete deny" and "\<not> unclear"
    and "bd_first_violation (precision_of allow deny i ps unclear) = Some i"
  using assms by (auto simp: precision_of_def Let_def split: if_splits)

lemma located_fields:
  assumes "located_result g allow deny a ids refs protected cs primary = Inr r"
  shows "br_type r = Some (bc_type primary)"
    and "br_precision r = bd_precision (precision_of allow deny (bc_event primary)
      (sorted_events g (set (parents_of_event (gr_events g) (bc_event primary)))) (1 < length (causal_first g cs)))"
    and "br_first_violation r = bd_first_violation (precision_of allow deny (bc_event primary)
      (sorted_events g (set (parents_of_event (gr_events g) (bc_event primary)))) (1 < length (causal_first g cs)))"
  using assms
  by (auto simp: located_result_def Let_def new_breakpoint_def checked_Inr check_event_refs_def breakpoint_norm_def split: if_splits)

lemma located_primary:
  assumes "locate_frozen_effects a allow deny orphans facts refs z = Inr r" and "br_type r \<noteq> None"
  shows "\<exists>primary. primary \<in> set (causal_first (build_graph deny) (collect_candidates z deny (build_graph deny)
      (protected_events (build_graph deny) orphans) (allow_control_events allow (build_graph allow) facts))) \<and>
    located_result (build_graph deny) allow deny a (map le_effect_id orphans) refs (protected_events (build_graph deny) orphans)
      (collect_candidates z deny (build_graph deny) (protected_events (build_graph deny) orphans)
        (allow_control_events allow (build_graph allow) facts)) primary = Inr r"
proof -
  have v: "br_type r = None" if "violation_only a refs m = Inr r" for m
    using that by (auto simp: violation_only_def new_breakpoint_def checked_Inr breakpoint_norm_def)
  let ?g = "build_graph deny" and ?p = "protected_events (build_graph deny) orphans"
  let ?cs = "collect_candidates z deny ?g ?p (allow_control_events allow (build_graph allow) facts)"
  from assms v obtain primary rest where p: "sort_key (candidate_order ?g) (causal_first ?g ?cs) = primary # rest"
    "located_result ?g allow deny a (map le_effect_id orphans) refs ?p ?cs primary = Inr r"
    by (auto simp: locate_frozen_effects_def Let_def split: if_splits list.splits)
  from arg_cong [OF p(1), of set] have "primary \<in> set (causal_first ?g ?cs)" by auto
  with p(2) show ?thesis by blast
qed

end
