(* ===== verification/BreakpointProperties.thy ===== *)
theory BreakpointProperties
  imports BreakpointFacts TraceProperties
begin

section \<open>Properties of a located breakpoint\<close>

text \<open>
  An exact breakpoint is the one causal origin of everything that was found, on complete evidence.
\<close>

definition found_candidates :: "authorization_scope \<Rightarrow> execution_trace \<Rightarrow> execution_trace \<Rightarrow> located_effect list \<Rightarrow>
    located_effect list \<Rightarrow> bp_candidate list" where
  "found_candidates z allow deny orphans facts = collect_candidates z deny (build_graph deny)
     (protected_events (build_graph deny) orphans) (allow_control_events allow (build_graph allow) facts)"

lemma validated_stored:
  assumes "validate_trace t = Inr n"
  shows "stored n"
proof -
  from assms have f: "trace_field_errors t = []" "first_error (trace_guards (trace_field_norm t)) = None"
    by (auto simp: validate_trace_def Let_def split: if_splits option.splits)
  note wl = linked_norm [OF f]
  from assms obtain os where os: "stable_topological_order (tr_events (trace_field_norm t)) = Inr os" "tr_events n = os"
    by (auto simp: validate_trace_cases [OF f])
  note r = stable_order_Inr [OF wl os(1)]
  from r(1) have s: "set os = set (tr_events (trace_field_norm t))" by (metis set_mset_mset)
  from r(1) wl have "distinct (map te_event_id os)" by (metis mset_eq_imp_distinct_iff mset_map well_linked_def)
  with wl r(2) s show ?thesis by (simp add: stored_def well_linked_def os(2))
qed

text \<open>C27: an exact breakpoint rests on two complete traces and is the causal origin of the violation: its type and
  event are those of one finding, and every other finding of the denied trace lies strictly downstream of it.\<close>

theorem exact_breakpoint_is_origin:
  assumes "validate_trace t = Inr deny" and "locate_frozen_effects a allow deny orphans facts refs z = Inr r"
    and "br_precision r = EXACT"
  shows "tr_complete allow \<and> tr_complete deny \<and>
    (\<exists>c \<in> set (found_candidates z allow deny orphans facts).
       br_type r = Some (bc_type c) \<and> br_first_violation r = Some (bc_event c) \<and>
       (\<forall>x \<in> set (found_candidates z allow deny orphans facts).
          x = c \<or> (bc_event c, bc_event x) \<in> (parent_edges (tr_events deny))\<^sup>+))"
proof -
  let ?g = "build_graph deny" and ?cs = "found_candidates z allow deny orphans facts"
  have "br_type r \<noteq> None"
    using assms(2,3) by (auto simp: locate_frozen_effects_def Let_def violation_only_def new_breakpoint_def checked_Inr
        breakpoint_norm_def dest: located_fields(1) split: if_splits list.splits)
  from located_primary [OF assms(2) this] obtain c where
    c: "c \<in> set (causal_first ?g ?cs)" "located_result ?g allow deny a (map le_effect_id orphans) refs
      (protected_events ?g orphans) ?cs c = Inr r"
    unfolding found_candidates_def by blast
  from assms(3) have "bd_precision (precision_of allow deny (bc_event c)
      (sorted_events ?g (set (parents_of_event (gr_events ?g) (bc_event c)))) (1 < length (causal_first ?g ?cs))) = EXACT"
    using located_fields(2) [OF c(2)] by simp
  note exact = exact_boundary [OF this]
  from exact(3) c(1) have "causal_first ?g ?cs = [c]" by (cases "causal_first ?g ?cs") auto
  from causal_first_origin [OF validated_stored [OF assms(1)] this]
  have "\<forall>x \<in> set ?cs. x = c \<or> (bc_event c, bc_event x) \<in> (parent_edges (tr_events deny))\<^sup>+" by blast
  moreover from c(1) have "c \<in> set ?cs" by (simp add: causal_first_def)
  moreover have "br_first_violation r = Some (bc_event c)" using located_fields(3) [OF c(2)] exact(4) by simp
  ultimately show ?thesis using exact(1,2) located_fields(1) [OF c(2)] by blast
qed

definition effect_event :: "str \<Rightarrow> str list \<Rightarrow> int \<Rightarrow> trace_event" where
  "effect_event i ps at = (plain_event i ps PERSISTENT_EFFECT at)\<lparr>te_effect := Some ''changed'', te_evidence := [''proof-1'']\<rparr>"

definition granted :: "str \<Rightarrow> str list \<Rightarrow> int \<Rightarrow> trace_event" where
  "granted i ps at = (plain_event i ps AUTHORIZATION at)\<lparr>te_decision := Some TRACE_ALLOW\<rparr>"

definition two_traces :: "execution_trace \<times> execution_trace" where
  "two_traces =
     (\<lparr>tr_case_id = ''case-1'', tr_action_id = ''edit'', tr_subject = Some ''alice'',
       tr_events = [plain_event ''a1'' [] ENTRY 1, granted ''a2'' [''a1''] 2, effect_event ''a3'' [''a2''] 3],
       tr_complete = True, tr_reasons = []\<rparr>,
      \<lparr>tr_case_id = ''case-1'', tr_action_id = ''edit'', tr_subject = Some ''bob'',
       tr_events = [plain_event ''d1'' [] ENTRY 1, effect_event ''d2'' [''d1''] 2, plain_event ''d3'' [''d2''] RECOVERED 3],
       tr_complete = True, tr_reasons = []\<rparr>)"

definition changed_orphan :: continuity where
  "changed_orphan = \<lparr>ca_case_id = ''case-1'', ca_action_id = ''edit'', ca_state = ORPHAN_CONFIRMED,
     ca_protected = [\<lparr>er_effect_id = ''changed'', er_resource_id = ''doc-1''\<rparr>],
     ca_confirmed = [\<lparr>er_effect_id = ''changed'', er_resource_id = ''doc-1''\<rparr>], ca_unknown = [],
     ca_reasons = [''DENY_PROTECTED_EFFECT_CONFIRMED'']\<rparr>"

abbreviation sample_scope :: authorization_scope where
  "sample_scope \<equiv> \<lparr>az_subjects = {''alice'', ''bob''}, az_actions = {''edit''}, az_resources = {''doc-1''},
     az_invariant_action = ''edit'', az_invariant_resources = {''doc-1''}\<rparr>"

definition changed_effects :: "located_effect list" where
  "changed_effects = [\<lparr>le_effect_id = ''changed'', le_resource_id = ''doc-1'', le_state = EFFECT_CONFIRMED\<rparr>]"

definition sample_breakpoint :: breakpoint_result where
  "sample_breakpoint = \<lparr>br_case_id = ''case-1'', br_action_id = ''edit'', br_type = Some AUTHORIZATION_MISSING,
     br_precision = EXACT, br_last_good = Some ''d1'', br_first_violation = Some ''d2'', br_range_start = None,
     br_range_end = None, br_continuity = changed_orphan, br_orphans = [''changed''], br_downstream = [''d3''],
     br_amplifiers = [COMPENSATION_MASKING], br_evidence = [''proof-1'', ''pub-1''],
     br_reasons = [''BREAKPOINT_AUTHORIZATION_MISSING'', ''CONFIRMED_ORPHAN_EFFECT'', ''EXACT_BREAKPOINT'']\<rparr>"

theorem exact_breakpoint_is_origin_witness:
  "locate_frozen_effects changed_orphan (fst two_traces) (snd two_traces) changed_effects changed_effects [''pub-1''] sample_scope
     = Inr sample_breakpoint \<and> (''d2'', ''d3'') \<in> (parent_edges (tr_events (snd two_traces)))\<^sup>+"
proof -
  have v: "validate_trace (snd two_traces) = Inr (snd two_traces)" by code_simp
  have l: "locate_frozen_effects changed_orphan (fst two_traces) (snd two_traces) changed_effects changed_effects [''pub-1'']
      sample_scope = Inr sample_breakpoint" by code_simp
  have c: "map (\<lambda>c. (bc_type c, bc_event c)) (found_candidates sample_scope (fst two_traces) (snd two_traces) changed_effects changed_effects)
      = [(AUTHORIZATION_MISSING, ''d2''), (COMPENSATION_MASKING, ''d3'')]" by code_simp
  let ?cs = "found_candidates sample_scope (fst two_traces) (snd two_traces) changed_effects changed_effects"
  from arg_cong [OF c, of set] have "(COMPENSATION_MASKING, ''d3'') \<in> (\<lambda>c. (bc_type c, bc_event c)) ` set ?cs" by simp
  then obtain x :: bp_candidate where x: "x \<in> set ?cs" "bc_event x = ''d3''" by auto
  from exact_breakpoint_is_origin [OF v l] obtain o' :: bp_candidate where
    "bc_event o' = ''d2''" "x = o' \<or> (bc_event o', bc_event x) \<in> (parent_edges (tr_events (snd two_traces)))\<^sup>+"
    using x(1) by (auto simp: sample_breakpoint_def)
  with x(2) l show ?thesis by auto
qed

end
