(* ===== verification/JsonReader.thy ===== *)
theory JsonReader
  imports WireModels
begin

section \<open>Writing and reading JSON documents\<close>

text \<open>
  Models \<^verbatim>\<open>product/protocols/codec.py\<close> with what it uses of Python's \<^verbatim>\<open>json\<close> and of the strict
  UTF-8 codec: the encoder, the reader and the reader of canonical documents. A text is a list of code
  points, the surrogates included, as a Python string is; bytes are a list of characters. A \<open>doc\<close> is a
  value over such texts. A float is its canonical text: the parameter \<open>ft\<close> maps a float token to the
  text Python prints for its value, or to nothing when the value is not finite. \<^verbatim>\<open>int\<close> refuses texts of
  more than 4300 digits, in both directions. The recursion of the reader is bounded by twice the
  length of its text, which is never exceeded; the recursion limit of the interpreter is not modelled.
\<close>

subsection \<open>Texts and bytes\<close>

type_synonym unicode = "nat list"

abbreviation pt :: "char \<Rightarrow> nat" where
  "pt c \<equiv> of_char c"

definition points :: "str \<Rightarrow> unicode" where
  "points s = map pt s"

definition surrogate :: "nat \<Rightarrow> bool" where
  "surrogate n \<longleftrightarrow> 0xD800 \<le> n \<and> n \<le> 0xDFFF"

definition utf8_bytes :: "nat \<Rightarrow> nat list option" where
  \<comment> \<open>the bytes of a code point; a surrogate has none\<close>
  "utf8_bytes n =
     (if n < 0x80 then Some [n]
      else if n < 0x800 then Some [0xC0 + n div 64, 0x80 + n mod 64]
      else if surrogate n then None
      else if n < 0x10000 then Some [0xE0 + n div 4096, 0x80 + n div 64 mod 64, 0x80 + n mod 64]
      else if n < 0x110000
      then Some [0xF0 + n div 262144, 0x80 + n div 4096 mod 64, 0x80 + n div 64 mod 64, 0x80 + n mod 64]
      else None)"

fun to_utf8 :: "unicode \<Rightarrow> nat list option" where
  "to_utf8 [] = Some []"
| "to_utf8 (n # s) = (case (utf8_bytes n, to_utf8 s) of (Some b, Some bs) \<Rightarrow> Some (b @ bs) | _ \<Rightarrow> None)"

definition trailing :: "nat \<Rightarrow> bool" where
  "trailing b \<longleftrightarrow> 0x80 \<le> b \<and> b < 0xC0"

definition two_bytes :: "nat \<Rightarrow> nat \<Rightarrow> nat option" where
  "two_bytes b c = (if 0xC2 \<le> b \<and> b < 0xE0 \<and> trailing c then Some ((b - 0xC0) * 64 + (c - 0x80)) else None)"

definition three_bytes :: "nat \<Rightarrow> nat \<Rightarrow> nat \<Rightarrow> nat option" where
  "three_bytes b c d =
     (let n = (b - 0xE0) * 4096 + (c - 0x80) * 64 + (d - 0x80) in
      if 0xE0 \<le> b \<and> b < 0xF0 \<and> trailing c \<and> trailing d \<and> 0x800 \<le> n \<and> \<not> surrogate n then Some n else None)"

definition four_bytes :: "nat \<Rightarrow> nat \<Rightarrow> nat \<Rightarrow> nat \<Rightarrow> nat option" where
  "four_bytes b c d e =
     (let n = (b - 0xF0) * 262144 + (c - 0x80) * 4096 + (d - 0x80) * 64 + (e - 0x80) in
      if 0xF0 \<le> b \<and> b < 0xF5 \<and> trailing c \<and> trailing d \<and> trailing e \<and> 0x10000 \<le> n \<and> n < 0x110000
      then Some n else None)"

definition then_point :: "nat option \<Rightarrow> unicode option \<Rightarrow> unicode option" where
  "then_point n s = (case n of None \<Rightarrow> None | Some m \<Rightarrow> map_option ((#) m) s)"

fun from_utf8 :: "nat list \<Rightarrow> unicode option" where
  \<comment> \<open>strict: no overlong form, no surrogate, nothing above the last code point\<close>
  "from_utf8 [] = Some []"
| "from_utf8 (b # bs) =
     (if b < 0x80 then map_option ((#) b) (from_utf8 bs)
      else if b < 0xE0 then (case bs of c # r \<Rightarrow> then_point (two_bytes b c) (from_utf8 r) | _ \<Rightarrow> None)
      else if b < 0xF0 then (case bs of c # d # r \<Rightarrow> then_point (three_bytes b c d) (from_utf8 r) | _ \<Rightarrow> None)
      else (case bs of c # d # e # r \<Rightarrow> then_point (four_bytes b c d e) (from_utf8 r) | _ \<Rightarrow> None))"

definition encode_utf8 :: "unicode \<Rightarrow> str checked" where
  "encode_utf8 s = (case to_utf8 s of None \<Rightarrow> Inl [''surrogates not allowed''] | Some bs \<Rightarrow> Inr (map char_of bs))"

definition decode_utf8 :: "str \<Rightarrow> unicode option" where
  "decode_utf8 raw = from_utf8 (map of_char raw)"

subsection \<open>Values and the encoder\<close>

datatype doc =
    DNull
  | DBool bool
  | DInt int
  | DNum unicode
  | DStr unicode
  | DArr "doc list"
  | DObj "(unicode \<times> doc) list"

definition hex_point :: "nat \<Rightarrow> nat" where
  "hex_point n = (if n < 10 then 48 + n else 87 + n)"

definition escape_point :: "nat \<Rightarrow> unicode" where
  "escape_point n =
     (if n = 34 \<or> n = 92 then [92, n]
      else if n = 8 then [92, pt CHR ''b'']
      else if n = 9 then [92, pt CHR ''t'']
      else if n = 10 then [92, pt CHR ''n'']
      else if n = 12 then [92, pt CHR ''f'']
      else if n = 13 then [92, pt CHR ''r'']
      else if n < 32 then [92, pt CHR ''u'', pt CHR ''0'', pt CHR ''0'', hex_point (n div 16), hex_point (n mod 16)]
      else [n])"

definition quoted :: "unicode \<Rightarrow> unicode" where
  "quoted s = 34 # concat (map escape_point s) @ [34]"

definition int_points :: "int \<Rightarrow> unicode" where
  "int_points i = points (int_text i)"

fun commas :: "unicode list \<Rightarrow> unicode" where
  "commas [] = []"
| "commas [s] = s"
| "commas (s # t # ts) = s @ pt CHR '','' # commas (t # ts)"

fun dumps :: "doc \<Rightarrow> unicode" where
  "dumps DNull = points ''null''"
| "dumps (DBool b) = (if b then points ''true'' else points ''false'')"
| "dumps (DInt i) = int_points i"
| "dumps (DNum t) = t"
| "dumps (DStr s) = quoted s"
| "dumps (DArr xs) = pt CHR ''['' # commas (map dumps xs) @ [pt CHR '']'']"
| "dumps (DObj kvs) =
     pt CHR ''{'' # commas (map (\<lambda>(k, t). quoted k @ pt CHR '':'' # t)
                          (sort_key fst (map (\<lambda>(k, v). (k, dumps v)) kvs))) @ [pt CHR ''}'']"

definition point_digit :: "nat \<Rightarrow> bool" where
  "point_digit n \<longleftrightarrow> 48 \<le> n \<and> n \<le> 57"

definition int_digits :: "unicode \<Rightarrow> nat" where
  "int_digits s = length (filter point_digit s)"

fun printable_ints :: "doc \<Rightarrow> bool" where
  \<comment> \<open>every integer has at most 4300 digits\<close>
  "printable_ints (DInt i) = (int_digits (int_points i) \<le> 4300)"
| "printable_ints (DArr xs) = list_all printable_ints xs"
| "printable_ints (DObj kvs) = list_all (\<lambda>(k, v). printable_ints v) kvs"
| "printable_ints v = True"

definition encode_json :: "doc \<Rightarrow> str checked" where
  "encode_json v = (if printable_ints v then encode_utf8 (dumps v) else Inl [''Exceeds the limit for integer string conversion''])"

subsection \<open>Tokens\<close>

definition json_space :: "nat \<Rightarrow> bool" where
  "json_space n \<longleftrightarrow> n = 32 \<or> n = 9 \<or> n = 10 \<or> n = 13"

definition skip_space :: "unicode \<Rightarrow> unicode" where
  "skip_space = dropWhile json_space"

definition starts_with :: "unicode \<Rightarrow> unicode \<Rightarrow> bool" where
  "starts_with p s \<longleftrightarrow> take (length p) s = p"

definition hex_value :: "nat \<Rightarrow> nat option" where
  "hex_value n =
     (if point_digit n then Some (n - 48) else if 97 \<le> n \<and> n \<le> 102 then Some (n - 87)
      else if 65 \<le> n \<and> n \<le> 70 then Some (n - 55) else None)"

definition hex_four :: "nat \<Rightarrow> nat \<Rightarrow> nat \<Rightarrow> nat \<Rightarrow> nat option" where
  "hex_four a b c d = (case (hex_value a, hex_value b, hex_value c, hex_value d) of
     (Some w, Some x, Some y, Some z) \<Rightarrow> Some (((w * 16 + x) * 16 + y) * 16 + z) | _ \<Rightarrow> None)"

definition low_surrogate :: "unicode \<Rightarrow> nat option" where
  \<comment> \<open>the low surrogate an escape at the beginning of the text stands for\<close>
  "low_surrogate s = (case s of
     b # u # w # x # y # z # _ \<Rightarrow>
       if b = 92 \<and> u = pt CHR ''u'' then
         (case hex_four w x y z of Some n \<Rightarrow> if 0xDC00 \<le> n \<and> n \<le> 0xDFFF then Some n else None | None \<Rightarrow> None)
       else None
   | _ \<Rightarrow> None)"

definition escaped_point :: "nat \<Rightarrow> unicode \<Rightarrow> nat \<times> unicode" where
  \<comment> \<open>the code point of a \<^verbatim>\<open>\u\<close> escape with value \<open>n\<close> and what follows: a surrogate pair is joined\<close>
  "escaped_point n s =
     (case low_surrogate s of
        Some m \<Rightarrow> if 0xD800 \<le> n \<and> n \<le> 0xDBFF then (0x10000 + (n - 0xD800) * 1024 + (m - 0xDC00), drop 6 s) else (n, s)
      | None \<Rightarrow> (n, s))"

definition simple_escape :: "nat \<Rightarrow> nat option" where
  "simple_escape n =
     map_of [(34, 34), (92, 92), (pt CHR ''/'', pt CHR ''/''), (pt CHR ''b'', 8), (pt CHR ''f'', 12), (pt CHR ''n'', 10),
       (pt CHR ''r'', 13), (pt CHR ''t'', 9)] n"

lemma escaped_point_shorter: "length (snd (escaped_point n s)) \<le> length s"
  by (auto simp: escaped_point_def split: option.split)

function read_string :: "unicode \<Rightarrow> (unicode \<times> unicode) option" where
  \<comment> \<open>the text up to the closing quote, and what follows it\<close>
  "read_string [] = None"
| "read_string (c # s) =
     (if c = 34 then Some ([], s)
      else if c = 92 then
        (case s of
           [] \<Rightarrow> None
         | e # r \<Rightarrow>
             if e = pt CHR ''u'' then
               (case r of
                  w # x # y # z # r' \<Rightarrow>
                    (case hex_four w x y z of
                       None \<Rightarrow> None
                     | Some n \<Rightarrow> map_option (apfst ((#) (fst (escaped_point n r')))) (read_string (snd (escaped_point n r'))))
                | _ \<Rightarrow> None)
             else (case simple_escape e of None \<Rightarrow> None | Some u \<Rightarrow> map_option (apfst ((#) u)) (read_string r)))
      else if c < 32 then None
      else map_option (apfst ((#) c)) (read_string s))"
  by pat_completeness auto
termination
  by (relation "measure length") (auto simp: le_imp_less_Suc escaped_point_shorter le_trans [OF escaped_point_shorter])

subsection \<open>Numbers\<close>

definition digits_of :: "unicode \<Rightarrow> unicode \<times> unicode" where
  "digits_of s = (takeWhile point_digit s, dropWhile point_digit s)"

definition integer_part :: "unicode \<Rightarrow> (unicode \<times> unicode) option" where
  "integer_part s = (case s of
     [] \<Rightarrow> None
   | c # r \<Rightarrow> if c = pt CHR ''0'' then Some ([c], r) else if point_digit c then Some (digits_of s) else None)"

definition signed_part :: "unicode \<Rightarrow> (unicode \<times> unicode) option" where
  "signed_part s = (case s of
     [] \<Rightarrow> None
   | c # r \<Rightarrow> if c = pt CHR ''-'' then map_option (apfst ((#) c)) (integer_part r) else integer_part s)"

definition starts_digit :: "unicode \<Rightarrow> bool" where
  "starts_digit s = (case s of [] \<Rightarrow> False | c # _ \<Rightarrow> point_digit c)"

definition fraction_part :: "unicode \<Rightarrow> unicode \<times> unicode" where
  "fraction_part s = (case s of
     [] \<Rightarrow> ([], [])
   | c # r \<Rightarrow> if c = pt CHR ''.'' \<and> starts_digit r then apfst ((#) c) (digits_of r) else ([], s))"

definition exponent_part :: "unicode \<Rightarrow> unicode \<times> unicode" where
  "exponent_part s = (case s of
     [] \<Rightarrow> ([], [])
   | c # r \<Rightarrow>
       if c \<in> {pt CHR ''e'', pt CHR ''E''} then
         (case r of
            [] \<Rightarrow> ([], s)
          | d # r' \<Rightarrow>
              if d \<in> {pt CHR ''+'', pt CHR ''-''} then (if starts_digit r' then apfst (\<lambda>ds. c # d # ds) (digits_of r') else ([], s))
              else if point_digit d then apfst ((#) c) (digits_of r) else ([], s))
       else ([], s))"

definition scan_number :: "unicode \<Rightarrow> (unicode \<times> unicode \<times> unicode) option" where
  \<comment> \<open>the integer text, the rest of the token (empty for an integer) and what follows\<close>
  "scan_number s = map_option (\<lambda>(i, r). let (f, r') = fraction_part r; (e, r'') = exponent_part r' in (i, f @ e, r''))
     (signed_part s)"

definition read_nat :: "unicode \<Rightarrow> nat" where
  "read_nat = foldl (\<lambda>n c. 10 * n + (c - 48)) 0"

definition read_int :: "unicode \<Rightarrow> int" where
  "read_int s = (case s of c # r \<Rightarrow> if c = pt CHR ''-'' then - int (read_nat r) else int (read_nat s) | [] \<Rightarrow> 0)"

definition read_number :: "(unicode \<Rightarrow> unicode option) \<Rightarrow> unicode \<Rightarrow> (doc \<times> unicode) option" where
  "read_number ft s = (case scan_number s of
     None \<Rightarrow> None
   | Some (i, x, r) \<Rightarrow>
       if x = [] then (if 4300 < int_digits i then None else Some (DInt (read_int i), r))
       else map_option (\<lambda>t. (DNum t, r)) (ft (i @ x)))"

definition read_word :: "unicode \<Rightarrow> (doc \<times> unicode) option" where
  "read_word s =
     (if starts_with (points ''null'') s then Some (DNull, drop 4 s)
      else if starts_with (points ''true'') s then Some (DBool True, drop 4 s)
      else if starts_with (points ''false'') s then Some (DBool False, drop 5 s) else None)"

subsection \<open>Values\<close>

fun read_value :: "(unicode \<Rightarrow> unicode option) \<Rightarrow> nat \<Rightarrow> unicode \<Rightarrow> (doc \<times> unicode) option"
  and read_items :: "(unicode \<Rightarrow> unicode option) \<Rightarrow> nat \<Rightarrow> unicode \<Rightarrow> (doc list \<times> unicode) option"
  and read_members :: "(unicode \<Rightarrow> unicode option) \<Rightarrow> nat \<Rightarrow> unicode \<Rightarrow> ((unicode \<times> doc) list \<times> unicode) option"
where
  "read_value ft 0 s = None"
| "read_value ft (Suc n) s =
     (case s of
        [] \<Rightarrow> None
      | c # r \<Rightarrow>
          if c = 34 then map_option (apfst DStr) (read_string r)
          else if c = pt CHR ''{'' then
            (if starts_with (points ''}'') (skip_space r) then Some (DObj [], tl (skip_space r))
             else case read_members ft n (skip_space r) of
                 None \<Rightarrow> None
               | Some (kvs, r') \<Rightarrow> if has_duplicates (map fst kvs) then None else Some (DObj kvs, r'))
          else if c = pt CHR ''['' then
            (if starts_with (points '']'') (skip_space r) then Some (DArr [], tl (skip_space r))
             else map_option (apfst DArr) (read_items ft n (skip_space r)))
          else case read_word s of Some x \<Rightarrow> Some x | None \<Rightarrow> read_number ft s)"
| "read_items ft 0 s = None"
| "read_items ft (Suc n) s =
     (case read_value ft n s of
        None \<Rightarrow> None
      | Some (v, r) \<Rightarrow>
          if starts_with (points '']'') (skip_space r) then Some ([v], tl (skip_space r))
          else if starts_with (points '','') (skip_space r)
          then map_option (apfst ((#) v)) (read_items ft n (skip_space (tl (skip_space r)))) else None)"
| "read_members ft 0 s = None"
| "read_members ft (Suc n) s =
     (if \<not> starts_with [34] s then None
      else case read_string (tl s) of
          None \<Rightarrow> None
        | Some (k, r) \<Rightarrow>
            if \<not> starts_with (points '':'') (skip_space r) then None
            else case read_value ft n (skip_space (tl (skip_space r))) of
                None \<Rightarrow> None
              | Some (v, r') \<Rightarrow>
                  if starts_with (points ''}'') (skip_space r') then Some ([(k, v)], tl (skip_space r'))
                  else if starts_with (points '','') (skip_space r')
                  then map_option (apfst ((#) (k, v))) (read_members ft n (skip_space (tl (skip_space r')))) else None)"

subsection \<open>Documents\<close>

definition loads :: "(unicode \<Rightarrow> unicode option) \<Rightarrow> unicode \<Rightarrow> doc option" where
  "loads ft s = (case read_value ft (2 * length s + 2) (skip_space s) of
     Some (v, r) \<Rightarrow> if skip_space r = [] then Some v else None | None \<Rightarrow> None)"

datatype raw_document =
    Raw_Bytes str
  | Raw_Text unicode

definition wire_bytes :: "raw_document \<Rightarrow> str checked" where
  "wire_bytes raw = (case raw of Raw_Bytes b \<Rightarrow> Inr b | Raw_Text t \<Rightarrow> encode_utf8 t)"

definition byte_order_mark :: "nat list" where
  "byte_order_mark = [0xEF, 0xBB, 0xBF]"

definition is_object :: "doc \<Rightarrow> bool" where
  "is_object v = (case v of DObj _ \<Rightarrow> True | _ \<Rightarrow> False)"

definition decode_json :: "(unicode \<Rightarrow> unicode option) \<Rightarrow> nat option \<Rightarrow> raw_document \<Rightarrow> doc checked" where
  "decode_json ft limit raw = (case wire_bytes raw of
     Inl _ \<Rightarrow> Inl [''invalid JSON document'']
   | Inr wire \<Rightarrow>
       if given (\<lambda>n. n < length wire) limit \<or> starts_with byte_order_mark (map of_char wire)
       then Inl [''invalid JSON document'']
       else case Option.bind (decode_utf8 wire) (loads ft) of
          None \<Rightarrow> Inl [''invalid JSON document'']
        | Some v \<Rightarrow> if is_object v then Inr v else Inl [''JSON root must be an object''])"

definition member_of :: "doc \<Rightarrow> unicode \<Rightarrow> doc option" where
  "member_of v k = (case v of DObj kvs \<Rightarrow> map_of kvs k | _ \<Rightarrow> None)"

definition decode_document :: "(unicode \<Rightarrow> unicode option) \<Rightarrow> unicode \<Rightarrow> unicode \<Rightarrow> nat \<Rightarrow> raw_document \<Rightarrow> doc checked" where
  "decode_document ft kind version limit raw = (case raw of
     Raw_Text _ \<Rightarrow> Inl [''invalid document bytes'']
   | Raw_Bytes wire \<Rightarrow>
       andthen (decode_json ft (Some limit) raw) (\<lambda>v.
         if member_of v (points ''document_type'') \<noteq> Some (DStr kind) \<or>
            member_of v (points ''schema_version'') \<noteq> Some (DStr version)
         then Inl [''unsupported or noncanonical document'']
         else andthen (encode_json v) (\<lambda>again.
           if again \<noteq> wire then Inl [''unsupported or noncanonical document''] else Inr v)))"

end
