(* ===== verification/JsonFacts.thy ===== *)
theory JsonFacts
  imports JsonReader
begin

section \<open>What the reader gives back of an encoded value\<close>

text \<open>
  The encoder and the reader of \<^verbatim>\<open>codec.py\<close> piece by piece: bytes, code points, integers, number
  tokens, then values. \<open>sorted_doc\<close> is a value with the members of every object in the order of their
  keys, which is how the encoder writes them; \<open>wf_doc\<close> says that a value is one Python can hold: no
  key twice in an object, finite floats; \<open>readable\<close> adds the digit limit. \<open>need\<close> is the fuel a value takes, at most twice the length of
  its text.
\<close>

lemma points_simps [simp]: "points [] = []" "points (c # s) = pt c # points s"
  by (simp_all add: points_def)

subsection \<open>Bytes\<close>

lemma base_64:
  fixes n :: nat
  shows "n div 64 * 64 + n mod 64 = n"
    and "n div 4096 * 4096 + n div 64 mod 64 * 64 + n mod 64 = n"
    and "n div 262144 * 262144 + n div 4096 mod 64 * 4096 + n div 64 mod 64 * 64 + n mod 64 = n"
proof -
  show "n div 64 * 64 + n mod 64 = n" by simp
  have b: "m div 64 * 64 + m mod 64 = m" for m :: nat by simp
  have d: "n div 4096 = n div 64 div 64" "n div 262144 = n div 4096 div 64"
    by (simp_all add: div_mult2_eq [symmetric])
  show c: "n div 4096 * 4096 + n div 64 mod 64 * 64 + n mod 64 = n"
    using b [of n] b [of "n div 64"] unfolding d(1) by linarith
  show "n div 262144 * 262144 + n div 4096 mod 64 * 4096 + n div 64 mod 64 * 64 + n mod 64 = n"
    using c b [of "n div 4096"] unfolding d(2) by linarith
qed

lemma from_utf8_bytes:
  assumes "utf8_bytes n = Some b"
  shows "from_utf8 (b @ s) = map_option ((#) n) (from_utf8 s)"
proof -
  consider "n < 0x80" | "0x80 \<le> n" "n < 0x800" | "0x800 \<le> n" "n < 0x10000" "\<not> surrogate n" | "0x10000 \<le> n" "n < 0x110000"
    using assms by (auto simp: utf8_bytes_def surrogate_def split: if_splits)
  then show ?thesis
  proof cases
    case 2
    then have "2 \<le> n div 64" "n div 64 < 32" by auto
    with 2 assms base_64(1) [of n] show ?thesis
      by (auto simp: utf8_bytes_def then_point_def two_bytes_def trailing_def)
  next
    case 3
    then have "n div 4096 < 16" by auto
    with 3 assms base_64(2) [of n] show ?thesis
      by (auto simp: utf8_bytes_def then_point_def three_bytes_def trailing_def Let_def)
  next
    case 4
    then have "n div 262144 < 5" "\<not> surrogate n" by (auto simp: surrogate_def)
    with 4 assms base_64(3) [of n] show ?thesis
      by (auto simp: utf8_bytes_def then_point_def four_bytes_def trailing_def Let_def)
  qed (use assms in \<open>auto simp: utf8_bytes_def\<close>)
qed

lemma to_utf8_Cons: "to_utf8 (n # s) = Some bs \<longleftrightarrow> (\<exists>b bs'. utf8_bytes n = Some b \<and> to_utf8 s = Some bs' \<and> bs = b @ bs')"
  by (auto split: option.splits)

lemma from_to_utf8: "to_utf8 s = Some bs \<Longrightarrow> from_utf8 bs = Some s"
  by (induction s arbitrary: bs) (auto simp: to_utf8_Cons from_utf8_bytes simp del: to_utf8.simps(2) from_utf8.simps(2))

lemma utf8_bytes_small: "utf8_bytes n = Some b \<Longrightarrow> list_all (\<lambda>c. c < 256) b"
  by (auto simp: utf8_bytes_def split: if_splits)

lemma to_utf8_small: "to_utf8 s = Some bs \<Longrightarrow> list_all (\<lambda>c. c < 256) bs"
  by (induction s arbitrary: bs) (auto simp: to_utf8_Cons utf8_bytes_small simp del: to_utf8.simps(2))

lemma codes_of_bytes: "list_all (\<lambda>c. c < 256) bs \<Longrightarrow> map (of_char :: char \<Rightarrow> nat) (map char_of bs) = bs"
  by (induction bs) simp_all

lemma encode_utf8_Inr:
  "encode_utf8 s = Inr raw \<longleftrightarrow> (\<exists>bs. to_utf8 s = Some bs \<and> raw = map char_of bs)"
  by (auto simp: encode_utf8_def split: option.splits)

lemma decode_encode_utf8: "encode_utf8 s = Inr raw \<Longrightarrow> decode_utf8 raw = Some s"
  by (auto simp: encode_utf8_Inr decode_utf8_def codes_of_bytes [OF to_utf8_small] from_to_utf8 simp del: map_map)

text \<open>A text has bytes when it has no surrogate (and, as a Python string, no number above the last code point).\<close>

lemma to_utf8_None: "to_utf8 s = None \<longleftrightarrow> (\<exists>n \<in> set s. surrogate n \<or> 0x110000 \<le> n)"
  by (induction s) (auto simp: utf8_bytes_def surrogate_def split: option.splits if_splits)

subsection \<open>Strings\<close>

lemma hex_value_hex_point: "k < 16 \<Longrightarrow> hex_value (hex_point k) = Some k"
  by (simp add: hex_value_def hex_point_def point_digit_def)

lemma read_string_escape: "read_string (escape_point n @ s) = map_option (apfst ((#) n)) (read_string s)"
proof -
  consider "n < 32" "n \<notin> {8, 9, 10, 12, 13}" | "n = 8 \<or> n = 9 \<or> n = 10 \<or> n = 12 \<or> n = 13 \<or> n = 34 \<or> n = 92"
    | "32 \<le> n" "n \<noteq> 34" "n \<noteq> 92"
    by fastforce
  then show ?thesis
  proof cases
    case 1
    have h: "hex_value (hex_point (n div 16)) = Some (n div 16)" "hex_value (hex_point (n mod 16)) = Some (n mod 16)"
      using 1 by (auto intro!: hex_value_hex_point)
    have z: "hex_value (pt CHR ''0'') = Some 0" by code_simp
    have "hex_four (pt CHR ''0'') (pt CHR ''0'') (hex_point (n div 16)) (hex_point (n mod 16)) = Some n"
      unfolding hex_four_def z h by simp
    moreover have "escaped_point n t = (n, t)" for t
      using 1 by (simp add: escaped_point_def split: option.split)
    ultimately show ?thesis using 1 by (simp add: escape_point_def)
  next
    case 2
    then show ?thesis by (elim disjE) (simp_all add: escape_point_def simple_escape_def)
  qed (simp add: escape_point_def)
qed

lemma read_string_quote: "read_string (concat (map escape_point s) @ 34 # r) = Some (s, r)"
  by (induction s) (simp_all add: read_string_escape)

subsection \<open>Integers\<close>

lemma digit_char_facts:
  assumes "k < 10"
  shows "of_char (digit_char k) = 48 + k" and "is_digit (digit_char k)"
  using assms by (simp_all add: is_digit_def Let_def)

lemma nat_text_digits: "list_all is_digit (nat_text n)"
  by (induction n rule: nat_text.induct)
    (subst nat_text.simps, simp add: digit_char_facts del: digit_char.simps)

lemma nat_text_head: "\<exists>c r. nat_text n = c # r \<and> is_digit c \<and> (0 < n \<longrightarrow> c \<noteq> CHR ''0'')"
proof (induction n rule: nat_text.induct)
  case (1 n)
  show ?case
  proof (cases "n < 10")
    case True
    have "digit_char n \<noteq> CHR ''0''" if "0 < n"
    proof
      assume "digit_char n = CHR ''0''"
      then have "(of_char (digit_char n) :: nat) = 48" by (simp del: digit_char.simps)
      with that show False by (simp add: digit_char_facts [OF True] del: digit_char.simps)
    qed
    with True show ?thesis by (subst nat_text.simps) (auto simp: digit_char_facts simp del: digit_char.simps)
  next
    case False
    then have "0 < n div 10" by linarith
    with 1 [OF False] obtain c r where "nat_text (n div 10) = c # r" "is_digit c" "c \<noteq> CHR ''0''" by blast
    with False show ?thesis by (subst nat_text.simps) simp
  qed
qed

lemma nat_text_0: "nat_text 0 = ''0''"
  by code_simp

lemma points_digits: "list_all point_digit (points (nat_text n))"
  using nat_text_digits [of n] by (auto simp: points_def list_all_iff is_digit_def point_digit_def Let_def)

lemma points_head: "\<exists>c r. points (nat_text n) = c # r \<and> point_digit c \<and> (0 < n \<longrightarrow> c \<noteq> pt CHR ''0'')"
  using nat_text_head [of n] by (auto simp: points_def is_digit_def point_digit_def Let_def simp del: of_char_Char)

lemma read_nat_snoc: "read_nat (s @ [c]) = 10 * read_nat s + (c - 48)"
  by (simp add: read_nat_def)

lemma read_nat_text: "read_nat (points (nat_text n)) = n"
proof (induction n rule: nat_text.induct)
  case (1 n)
  have d: "points (s @ [digit_char k]) = points s @ [48 + k]" if "k < 10" for k s
    using digit_char_facts(1) [OF that] by (simp add: points_def del: digit_char.simps)
  show ?case
  proof (cases "n < 10")
    case True
    then show ?thesis using d [of n "[]"] by (subst nat_text.simps) (simp add: read_nat_def points_def del: digit_char.simps)
  next
    case False
    with 1 have "read_nat (points (nat_text (n div 10))) = n div 10" by simp
    with False show ?thesis
      by (subst nat_text.simps) (simp add: read_nat_snoc d del: digit_char.simps)
  qed
qed

lemma minus_no_digit: "\<not> point_digit 45"
  by code_simp

lemma int_points_cases: "int_points i = (if i < 0 then 45 # points (nat_text (nat (- i))) else points (nat_text (nat i)))"
  by (simp add: int_points_def int_text_def points_def)

lemma read_int_text: "read_int (int_points i) = i"
proof (cases "i < 0")
  case False
  obtain c r where h: "points (nat_text (nat i)) = c # r" "point_digit c" using points_head [of "nat i"] by blast
  then have "c \<noteq> 45" using minus_no_digit by auto
  with False h have "read_int (int_points i) = int (read_nat (points (nat_text (nat i))))"
    by (simp add: read_int_def int_points_cases)
  with False show ?thesis by (simp add: read_nat_text)
qed (simp add: read_int_def int_points_cases read_nat_text)

subsection \<open>Number tokens\<close>

text \<open>What may follow a value: nothing, or the end of the list or object it stands in.\<close>

definition stop :: "unicode \<Rightarrow> bool" where
  "stop r \<longleftrightarrow> r = [] \<or> hd r \<in> {44, 125, 93}"

lemma stop_chars:
  "\<forall>c \<in> {44, 125, 93}. \<not> point_digit c \<and> \<not> json_space c \<and> c \<notin> {46, 101, 69, 43, 45}"
  by code_simp

lemma stop_cases:
  assumes "stop r"
  obtains "r = []" | c t where "r = c # t" "\<not> point_digit c" "\<not> json_space c" "c \<noteq> 46" "c \<noteq> 101" "c \<noteq> 69"
    "c \<noteq> 43" "c \<noteq> 45"
proof (cases r)
  case (Cons c t)
  then have "c \<in> {44, 125, 93}" using assms by (simp add: stop_def)
  then show thesis using stop_chars Cons that(2) by blast
qed (use that in blast)

lemma stop_skip_space: "stop r \<Longrightarrow> skip_space r = r"
  by (erule stop_cases) (simp_all add: skip_space_def)

lemma digits_of_append: "stop r \<Longrightarrow> digits_of (s @ r) = apsnd (\<lambda>q. q @ r) (digits_of s)"
  by (erule stop_cases) (simp_all add: digits_of_def takeWhile_tail, induction s, simp_all)

lemma starts_digit_append: "stop r \<Longrightarrow> starts_digit (s @ r) = starts_digit s"
  by (cases s) (auto simp: starts_digit_def elim: stop_cases)

lemma integer_part_append:
  "stop r \<Longrightarrow> integer_part s = Some (i, q) \<Longrightarrow> integer_part (s @ r) = Some (i, q @ r)"
  using digits_of_append [of r s]
  by (cases s) (auto simp: integer_part_def split: if_splits)

lemma signed_part_append:
  "stop r \<Longrightarrow> signed_part s = Some (i, q) \<Longrightarrow> signed_part (s @ r) = Some (i, q @ r)"
  using integer_part_append [of r] integer_part_append [of r s]
  by (cases s) (auto simp: signed_part_def split: if_splits)

lemma fraction_part_append: "stop r \<Longrightarrow> fraction_part (s @ r) = apsnd (\<lambda>q. q @ r) (fraction_part s)"
  by (cases s) (auto simp: fraction_part_def digits_of_append starts_digit_append prod_eq_iff elim: stop_cases)

lemma exponent_part_append: "stop r \<Longrightarrow> exponent_part (s @ r) = apsnd (\<lambda>q. q @ r) (exponent_part s)"
proof -
  assume r: "stop r"
  consider "s = []" | c where "s = [c]" | c d t where "s = c # d # t" by (metis list.exhaust)
  then show ?thesis
  proof cases
    case 3
    with r show ?thesis
      using digits_of_append [of r "d # t"]
      by (auto simp: exponent_part_def digits_of_append starts_digit_append prod_eq_iff)
  qed (use r in \<open>auto simp: exponent_part_def elim!: stop_cases\<close>)
qed

lemma scan_number_append:
  assumes "stop r" and "scan_number s = Some (i, x, q)"
  shows "scan_number (s @ r) = Some (i, x, q @ r)"
  using assms by (auto simp: scan_number_def signed_part_append fraction_part_append exponent_part_append split_def Let_def)

lemma scan_number_text: "scan_number s = Some (i, x, q) \<Longrightarrow> i @ x @ q = s"
proof -
  have d: "fst (digits_of t) @ snd (digits_of t) = t" for t by (simp add: digits_of_def)
  have f: "fst (fraction_part t) @ snd (fraction_part t) = t" for t
    by (cases t) (simp_all add: fraction_part_def d)
  have e: "fst (exponent_part t) @ snd (exponent_part t) = t" for t
    by (cases t rule: remdups_adj.cases) (simp_all add: exponent_part_def d)
  have n: "integer_part t = Some (j, u) \<Longrightarrow> j @ u = t" for t j u
    using d [of t] by (cases t) (auto simp: integer_part_def split: if_splits)
  have g: "signed_part t = Some (j, u) \<Longrightarrow> j @ u = t" for t j u
    using n by (cases t) (auto simp: signed_part_def split: if_splits)
  assume "scan_number s = Some (i, x, q)"
  then obtain u where u: "signed_part s = Some (i, u)" "x = fst (fraction_part u) @ fst (exponent_part (snd (fraction_part u)))"
      "q = snd (exponent_part (snd (fraction_part u)))"
    by (auto simp: scan_number_def split_def Let_def)
  then show ?thesis using g [OF u(1)] f [of u] e [of "snd (fraction_part u)"] by simp
qed

lemma scan_int_points: "scan_number (int_points i) = Some (int_points i, [], [])"
proof -
  have n: "integer_part (points (nat_text k)) = Some (points (nat_text k), [])" for k
  proof (cases "k = 0")
    case False
    then obtain c r where h: "points (nat_text k) = c # r" "point_digit c" "c \<noteq> 48" using points_head [of k] by auto
    have "\<forall>d \<in> set (points (nat_text k)). point_digit d" using points_digits [of k] by (simp add: list_all_iff)
    then have "digits_of (points (nat_text k)) = (points (nat_text k), [])"
      by (simp add: digits_of_def takeWhile_eq_all_conv dropWhile_eq_Nil_conv)
    with h show ?thesis by (simp add: integer_part_def)
  qed (simp add: nat_text_0 integer_part_def)
  have "signed_part (points (nat_text k)) = Some (points (nat_text k), [])" for k
    using n [of k] points_head [of k] minus_no_digit by (auto simp: signed_part_def)
  then have "signed_part (int_points i) = Some (int_points i, [])"
    using n by (auto simp: int_points_cases signed_part_def)
  then show ?thesis by (simp add: scan_number_def fraction_part_def exponent_part_def)
qed

text \<open>A number token does not begin like another value or like the end of one.\<close>

lemma scan_number_head:
  assumes "scan_number s = Some x"
  obtains c t where "s = c # t" "point_digit c \<or> c = 45"
proof -
  obtain p where p: "signed_part s = Some p" using assms by (auto simp: scan_number_def)
  then have "\<exists>c t. s = c # t \<and> (point_digit c \<or> c = 45)"
    by (cases s) (auto simp: signed_part_def integer_part_def point_digit_def split: if_splits)
  then show thesis using that by blast
qed

definition number_start :: "nat \<Rightarrow> bool" where
  "number_start c \<longleftrightarrow> point_digit c \<or> c = 45"

lemma number_start_other:
  "\<forall>c \<in> {34, 123, 91, 110, 116, 102, 125, 93, 32}. \<not> number_start c"
  by code_simp

lemma number_start_space: "number_start c \<Longrightarrow> \<not> json_space c"
  by (auto simp: number_start_def point_digit_def json_space_def Let_def)

lemma read_value_number:
  assumes "scan_number (c # t) \<noteq> None"
  shows "read_value ft (Suc n) (c # t) = read_number ft (c # t)"
proof -
  have "number_start c" using assms by (auto simp: number_start_def elim: scan_number_head)
  then have "c \<noteq> 34" "c \<noteq> 123" "c \<noteq> 91" "c \<noteq> 110" "c \<noteq> 116" "c \<noteq> 102"
    using number_start_other by blast+
  then show ?thesis by (simp add: read_word_def starts_with_def)
qed

subsection \<open>Values\<close>

fun sorted_doc :: "doc \<Rightarrow> doc" where
  "sorted_doc (DArr xs) = DArr (map sorted_doc xs)"
| "sorted_doc (DObj kvs) = DObj (sort_key fst (map (\<lambda>(k, v). (k, sorted_doc v)) kvs))"
| "sorted_doc v = v"

definition float_token :: "(unicode \<Rightarrow> unicode option) \<Rightarrow> unicode \<Rightarrow> bool" where
  "float_token ft t \<longleftrightarrow> (case scan_number t of Some (i, x, q) \<Rightarrow> x \<noteq> [] \<and> q = [] \<and> ft t = Some t | None \<Rightarrow> False)"

fun readable :: "(unicode \<Rightarrow> unicode option) \<Rightarrow> doc \<Rightarrow> bool" where
  "readable ft (DInt i) = (int_digits (int_points i) \<le> 4300)"
| "readable ft (DNum t) = float_token ft t"
| "readable ft (DArr xs) = list_all (readable ft) xs"
| "readable ft (DObj kvs) = (distinct (map fst kvs) \<and> list_all (\<lambda>(k, v). readable ft v) kvs)"
| "readable ft v = True"

fun wf_doc :: "(unicode \<Rightarrow> unicode option) \<Rightarrow> doc \<Rightarrow> bool" where
  "wf_doc ft (DNum t) = float_token ft t"
| "wf_doc ft (DArr xs) = list_all (wf_doc ft) xs"
| "wf_doc ft (DObj kvs) = (distinct (map fst kvs) \<and> list_all (\<lambda>(k, v). wf_doc ft v) kvs)"
| "wf_doc ft v = True"

lemma readable_iff: "readable ft v \<longleftrightarrow> wf_doc ft v \<and> printable_ints v"
  by (induction v) (auto simp: list_all_iff)

fun need :: "doc \<Rightarrow> nat" where
  "need (DArr xs) = Suc (sum_list (map (\<lambda>v. Suc (need v)) xs))"
| "need (DObj kvs) = Suc (sum_list (map (\<lambda>(k, v). Suc (need v)) kvs))"
| "need v = 1"

lemma sort_key_apsnd:
  fixes f :: "'c \<Rightarrow> 'b" and kvs :: "('a :: linorder \<times> 'c) list"
  shows "sort_key fst (map (\<lambda>(k, v). (k, f v)) kvs) = map (\<lambda>(k, v). (k, f v)) (sort_key fst kvs)"
proof -
  have i: "insort_key fst (k, f v) (map (\<lambda>(k, v). (k, f v)) xs) = map (\<lambda>(k, v). (k, f v)) (insort_key fst (k, v) xs)"
    for k v and xs :: "('a \<times> 'c) list"
    by (induction xs) auto
  show ?thesis by (induction kvs) (auto simp: i)
qed

lemma dumps_head: "readable ft v \<Longrightarrow> \<exists>c t. dumps v = c # t \<and> \<not> json_space c \<and> c \<noteq> 93 \<and> c \<noteq> 125"
proof (cases v)
  case (DInt i)
  obtain c t where h: "int_points i = c # t" "number_start c"
    using scan_int_points [of i] by (auto elim!: scan_number_head simp: number_start_def)
  then show ?thesis using DInt number_start_space number_start_other by auto
next
  case (DNum t)
  assume "readable ft v"
  with DNum have "scan_number t \<noteq> None" by (auto simp: float_token_def split: option.splits)
  then obtain c u where h: "t = c # u" "number_start c"
    by (auto elim!: scan_number_head simp: number_start_def)
  then show ?thesis using DNum number_start_space number_start_other by auto
next
  case (DBool b)
  then show ?thesis by (cases b) (simp_all add: json_space_def)
qed (simp_all add: json_space_def quoted_def)

definition reads :: "(unicode \<Rightarrow> unicode option) \<Rightarrow> doc \<Rightarrow> bool" where
  "reads ft v \<longleftrightarrow> (\<forall>n r. need v \<le> n \<longrightarrow> stop r \<longrightarrow> read_value ft n (dumps v @ r) = Some (sorted_doc v, r))"

lemma readsD: "reads ft v \<Longrightarrow> need v \<le> n \<Longrightarrow> stop r \<Longrightarrow> read_value ft n (dumps v @ r) = Some (sorted_doc v, r)"
  by (simp add: reads_def)

lemma skip_dumps: "readable ft v \<Longrightarrow> skip_space (dumps v @ r) = dumps v @ r"
  using dumps_head [of ft v] by (auto simp: skip_space_def)

lemma skip_symbol [simp]:
  "skip_space (44 # r) = 44 # r" "skip_space (93 # r) = 93 # r"
  "skip_space (125 # r) = 125 # r" "skip_space (58 # r) = 58 # r"
  "skip_space (34 # r) = 34 # r"
  by (simp_all add: skip_space_def json_space_def)

lemma stop_symbol [simp]: "stop (44 # r)" "stop (93 # r)" "stop (125 # r)"
  by (simp_all add: stop_def)

lemma starts_with_one [simp]: "starts_with [c] (d # s) \<longleftrightarrow> c = d"
  by (auto simp: starts_with_def)

lemma read_items_dumps:
  assumes "xs \<noteq> []" and "\<forall>v \<in> set xs. readable ft v \<and> reads ft v" and "sum_list (map (\<lambda>v. Suc (need v)) xs) \<le> n"
  shows "read_items ft n (commas (map dumps xs) @ 93 # r) = Some (map sorted_doc xs, r)"
  using assms
proof (induction xs arbitrary: n rule: induct_list012)
  case (2 v)
  then obtain m where "n = Suc m" "need v \<le> m" by (cases n) auto
  with 2 show ?case by (simp add: readsD)
next
  case (3 v w xs)
  then obtain m where m: "n = Suc m" "need v \<le> m" "sum_list (map (\<lambda>v. Suc (need v)) (w # xs)) \<le> m"
    by (cases n) auto
  have s: "skip_space (commas (map dumps (w # xs)) @ 93 # r) = commas (map dumps (w # xs)) @ 93 # r"
    using 3(4) by (cases xs) (auto simp: skip_dumps [of ft])
  have "read_items ft m (commas (map dumps (w # xs)) @ 93 # r) = Some (map sorted_doc (w # xs), r)"
    using 3 m by (intro "3.IH"(2)) auto
  with s show ?case using 3(4) m by (simp add: readsD del: commas.simps(2)) 
qed simp

definition member_text :: "unicode \<times> doc \<Rightarrow> unicode" where
  "member_text = (\<lambda>(k, v). quoted k @ 58 # dumps v)"

lemma read_members_dumps:
  assumes "kvs \<noteq> []" and "\<forall>(k, v) \<in> set kvs. readable ft v \<and> reads ft v"
    and "sum_list (map (\<lambda>(k, v). Suc (need v)) kvs) \<le> n"
  shows "read_members ft n (commas (map member_text kvs) @ 125 # r) = Some (map (\<lambda>(k, v). (k, sorted_doc v)) kvs, r)"
  using assms
proof (induction kvs arbitrary: n rule: induct_list012)
  case (2 p)
  obtain k v where p: "p = (k, v)" by fastforce
  with 2 obtain m where "n = Suc m" "need v \<le> m" by (cases n) auto
  with 2 p show ?case by (simp add: readsD member_text_def quoted_def read_string_quote skip_dumps [of ft])
next
  case (3 p q xs)
  obtain k v where p: "p = (k, v)" by fastforce
  with 3 obtain m where m: "n = Suc m" "need v \<le> m" "sum_list (map (\<lambda>(k, v). Suc (need v)) (q # xs)) \<le> m"
    by (cases n) auto
  let ?rest = "commas (map member_text (q # xs)) @ 125 # r"
  have s: "skip_space ?rest = ?rest"
    by (cases xs) (simp_all add: member_text_def quoted_def split_def)
  have "read_members ft m ?rest = Some (map (\<lambda>(k, v). (k, sorted_doc v)) (q # xs), r)"
    using 3 m by (intro "3.IH"(2)) auto
  with s show ?case using 3(4) m p
    by (simp add: readsD member_text_def quoted_def read_string_quote skip_dumps [of ft] del: commas.simps(2)) 
qed simp

lemma dumps_DObj: "dumps (DObj kvs) = 123 # commas (map member_text (sort_key fst kvs)) @ [125]"
  unfolding dumps.simps sort_key_apsnd by (simp add: member_text_def case_prod_unfold comp_def)

lemma sorted_DObj: "sorted_doc (DObj kvs) = DObj (map (\<lambda>(k, v). (k, sorted_doc v)) (sort_key fst kvs))"
  by (simp add: sort_key_apsnd)

lemma need_DObj: "need (DObj kvs) = Suc (sum_list (map (\<lambda>(k, v). Suc (need v)) (sort_key fst kvs)))"
  by (simp flip: sum_mset_sum_list)

theorem read_dumps: "readable ft v \<Longrightarrow> reads ft v"
proof (induction v)
  case (DInt i)
  obtain c t where h: "int_points i = c # t" using scan_int_points [of i] by (auto elim: scan_number_head)
  have s: "scan_number (int_points i @ r) = Some (int_points i, [], r)" if "stop r" for r
    using scan_number_append [OF that scan_int_points] by simp
  have "read_value ft n (int_points i @ r) = Some (DInt i, r)" if "1 \<le> n" "stop r" for n r
  proof -
    obtain m where "n = Suc m" using \<open>1 \<le> n\<close> by (cases n) auto
    moreover have "read_value ft (Suc m) (int_points i @ r) = read_number ft (int_points i @ r)"
      using read_value_number [of c "t @ r"] s [OF that(2)] by (simp add: h)
    ultimately show ?thesis using s [OF that(2)] DInt by (simp add: read_number_def read_int_text)
  qed
  then show ?case by (simp add: reads_def)
next
  case (DNum t)
  then obtain i x where x: "scan_number t = Some (i, x, [])" "x \<noteq> []" "ft t = Some t"
    by (auto simp: float_token_def split: option.splits)
  then have t: "i @ x = t" using scan_number_text by fastforce
  obtain c u where h: "t = c # u" using x(1) by (auto elim: scan_number_head)
  have s: "scan_number (t @ r) = Some (i, x, r)" if "stop r" for r
    using scan_number_append [OF that x(1)] by simp
  have "read_value ft n (t @ r) = Some (DNum t, r)" if "1 \<le> n" "stop r" for n r
  proof -
    obtain m where "n = Suc m" using \<open>1 \<le> n\<close> by (cases n) auto
    moreover have "read_value ft (Suc m) (t @ r) = read_number ft (t @ r)"
      using read_value_number [of c "u @ r"] s [OF that(2)] by (simp add: h)
    ultimately show ?thesis using s [OF that(2)] x t by (simp add: read_number_def)
  qed
  then show ?case by (simp add: reads_def)
next
  case (DArr xs)
  then have all: "\<forall>v \<in> set xs. readable ft v \<and> reads ft v" by (simp add: list_all_iff)
  have "read_value ft (Suc m) (dumps (DArr xs) @ r) = Some (sorted_doc (DArr xs), r)"
    if m: "sum_list (map (\<lambda>v. Suc (need v)) xs) \<le> m" for m r
  proof (cases "xs = []")
    case False
    then have j: "skip_space (commas (map dumps xs) @ q) = commas (map dumps xs) @ q \<and>
        \<not> starts_with [93] (commas (map dumps xs) @ q)" for q
      using all dumps_head [of ft "hd xs"] by (cases xs; cases "tl xs"; auto simp: skip_space_def)
    show ?thesis using read_items_dumps [OF False all m] j by simp
  qed simp
  then show ?case unfolding reads_def by (auto simp: Suc_le_eq elim!: less_natE) 
next
  case (DObj kvs)
  let ?ys = "sort_key fst kvs"
  have all: "\<forall>(k, v) \<in> set ?ys. readable ft v \<and> reads ft v" using DObj by (auto simp: list_all_iff)
  have d: "\<not> has_duplicates (map fst (map (\<lambda>(k, v). (k, sorted_doc v)) ?ys))"
    using DObj(2) by (simp add: has_duplicates_iff comp_def split_def)
  have "read_value ft (Suc m) (dumps (DObj kvs) @ r) = Some (sorted_doc (DObj kvs), r)"
    if m: "sum_list (map (\<lambda>(k, v). Suc (need v)) ?ys) \<le> m" for m r
  proof (cases "?ys = []")
    case False
    then have j: "skip_space (commas (map member_text ?ys) @ q) = commas (map member_text ?ys) @ q \<and>
        \<not> starts_with [125] (commas (map member_text ?ys) @ q)" for q
      by (cases ?ys; cases "tl ?ys"; auto simp: member_text_def quoted_def split_def skip_space_def json_space_def)
    show ?thesis unfolding sorted_DObj dumps_DObj
      using read_members_dumps [OF False all m] j d by simp
  qed (simp add: dumps_DObj sorted_DObj del: dumps.simps sorted_doc.simps)
  then show ?case unfolding reads_def need_DObj by (auto simp: Suc_le_eq elim!: less_natE)
qed (auto simp: reads_def quoted_def read_word_def starts_with_def read_string_quote
     Suc_le_eq elim!: less_natE)

lemma join_length: "sum_list (map (\<lambda>s. Suc (2 * length s)) ss) \<le> Suc (2 * length (commas ss))"
  by (induction ss rule: induct_list012) auto

lemma need_bound: "readable ft v \<Longrightarrow> need v \<le> 2 * length (dumps v)"
proof (induction v)
  case (DInt i)
  then show ?case using dumps_head [of ft "DInt i"] by auto
next
  case (DNum t)
  then show ?case using dumps_head [of ft "DNum t"] by auto
next
  case (DArr xs)
  have "sum_list (map (\<lambda>v. Suc (need v)) xs) \<le> sum_list (map (\<lambda>s. Suc (2 * length s)) (map dumps xs))"
    unfolding map_map using DArr by (intro sum_list_mono) (auto simp: list_all_iff)
  with join_length [of "map dumps xs"] show ?case by simp
next
  case (DObj kvs)
  have "sum_list (map (\<lambda>(k, v). Suc (need v)) (sort_key fst kvs))
      \<le> sum_list (map (\<lambda>s. Suc (2 * length s)) (map member_text (sort_key fst kvs)))"
    unfolding map_map using DObj
    by (intro sum_list_mono) (fastforce simp: list_all_iff member_text_def quoted_def)
  with join_length [of "map member_text (sort_key fst kvs)"] show ?case
    unfolding need_DObj dumps_DObj by simp
qed (auto simp: quoted_def)

end
