(* ===== verification/JsonProperties.thy ===== *)
theory JsonProperties
  imports JsonFacts
begin

section \<open>Encoding and reading documents\<close>

text \<open>
  The exchange of documents: what one side encodes, the other side reads back, and the bytes identify
  the value. The texts of the other components have characters below 256; \<open>encode_widened\<close> shows that
  what they hash is what the encoder writes for the same value over code points.
\<close>

subsection \<open>What the encoder accepts\<close>

fun doc_texts :: "doc \<Rightarrow> unicode list" where
  "doc_texts (DNum t) = [t]"
| "doc_texts (DStr s) = [s]"
| "doc_texts (DArr xs) = concat (map doc_texts xs)"
| "doc_texts (DObj kvs) = concat (map (\<lambda>(k, v). k # doc_texts v) kvs)"
| "doc_texts v = []"

definition has_bytes :: "nat \<Rightarrow> bool" where
  "has_bytes n \<longleftrightarrow> n < 0x110000 \<and> \<not> surrogate n"

definition encodable :: "doc \<Rightarrow> bool" where
  "encodable v \<longleftrightarrow> printable_ints v \<and> list_all (list_all has_bytes) (doc_texts v)"

lemma has_bytes_small: "n < 128 \<Longrightarrow> has_bytes n"
  by (simp add: has_bytes_def surrogate_def)

lemma to_utf8_Some: "(\<exists>bs. to_utf8 s = Some bs) \<longleftrightarrow> list_all has_bytes s"
proof -
  have "has_bytes n \<longleftrightarrow> \<not> (surrogate n \<or> 0x110000 \<le> n)" for n by (auto simp: has_bytes_def)
  then have "list_all has_bytes s \<longleftrightarrow> to_utf8 s \<noteq> None" by (simp only: to_utf8_None list_all_iff) blast
  then show ?thesis by simp
qed

lemma has_bytes_quoted: "list_all has_bytes (quoted s) \<longleftrightarrow> list_all has_bytes s"
proof -
  have "list_all has_bytes (escape_point n) \<longleftrightarrow> has_bytes n" for n
    by (auto simp: escape_point_def has_bytes_small hex_point_def)
  then show ?thesis by (induction s) (simp_all add: quoted_def has_bytes_small)
qed

lemma has_bytes_commas: "list_all has_bytes (commas ss) \<longleftrightarrow> list_all (list_all has_bytes) ss"
  by (induction ss rule: commas.induct) (simp_all add: has_bytes_small)

lemma has_bytes_int: "list_all has_bytes (int_points i)"
proof -
  have "list_all has_bytes (points (nat_text n))" for n
    using points_digits [of n] by (rule list.pred_mono_strong) (simp add: has_bytes_small point_digit_def)
  then show ?thesis by (simp add: int_points_cases has_bytes_small)
qed

lemma has_bytes_dumps: "list_all has_bytes (dumps v) \<longleftrightarrow> list_all (list_all has_bytes) (doc_texts v)"
proof (induction v)
  case (DArr xs)
  then show ?case by (auto simp: has_bytes_commas has_bytes_small list_all_iff [of "list_all has_bytes"])
next
  case (DObj kvs)
  have "list_all has_bytes (dumps (DObj kvs)) \<longleftrightarrow> (\<forall>(k, v) \<in> set kvs. list_all has_bytes k \<and> list_all has_bytes (dumps v))"
    unfolding dumps_DObj
    by (auto simp: has_bytes_commas has_bytes_small member_text_def has_bytes_quoted list_all_iff [of "list_all has_bytes"])
  then show ?case using DObj by (auto simp: list_all_iff [of "list_all has_bytes"] split_def)
qed (simp_all add: has_bytes_small has_bytes_int has_bytes_quoted)

lemma encode_json_Inr: "encode_json v = Inr raw \<Longrightarrow> encodable v \<and> printable_ints v \<and> encode_utf8 (dumps v) = Inr raw"
  using to_utf8_Some [of "dumps v"] has_bytes_dumps [of v]
  by (auto simp: encode_json_def encodable_def encode_utf8_Inr split: if_splits)

lemma encode_json_Inl: "encode_json v = Inl e \<Longrightarrow> \<not> encodable v"
  using to_utf8_Some [of "dumps v"] has_bytes_dumps [of v]
  by (auto simp: encode_json_def encodable_def encode_utf8_def split: if_splits option.splits)

subsection \<open>Texts below 256\<close>

fun widen :: "json \<Rightarrow> doc" where
  "widen JNull = DNull"
| "widen (JBool b) = DBool b"
| "widen (JInt i) = DInt i"
| "widen (JNum t) = DNum (points t)"
| "widen (JStr s) = DStr (points s)"
| "widen (JArr xs) = DArr (map widen xs)"
| "widen (JObj kvs) = DObj (map (\<lambda>(k, v). (points k, widen v)) kvs)"

lemma points_append: "points (s @ t) = points s @ points t"
  by (simp add: points_def)

lemma points_le: "points s \<le> points t \<longleftrightarrow> s \<le> t"
proof (induction s arbitrary: t)
  case (Cons c s)
  then show ?case by (cases t) (auto simp: less_char_def)
qed simp

lemma points_quote: "points (quote s) = quoted (points s)"
proof -
  have "points (escape_char c) = escape_point (pt c)" for c
    using less_mult_imp_div_less [of "pt c" 10 16]
    by (simp add: escape_char_def escape_point_def Let_def backslash_def quote_mark_def hex_char_def hex_point_def)
  then show ?thesis by (induction s) (simp_all add: quote_def quoted_def quote_mark_def points_append)
qed

lemma points_join: "points (join '','' ss) = commas (map points ss)"
  by (induction ss rule: induct_list012) (simp_all add: points_append)

lemma sort_key_points:
  fixes f :: "'a \<Rightarrow> 'b" and kvs :: "(str \<times> 'a) list"
  shows "sort_key fst (map (\<lambda>(k, v). (points k, f v)) kvs) = map (\<lambda>(k, v). (points k, f v)) (sort_key fst kvs)"
proof -
  have "insort_key fst (points k, f v) (map (\<lambda>(k, v). (points k, f v)) xs)
      = map (\<lambda>(k, v). (points k, f v)) (insort_key fst (k, v) xs)" for k v and xs :: "(str \<times> 'a) list"
    by (induction xs) (auto simp: points_le)
  then show ?thesis by (induction kvs) auto
qed

lemma dumps_widen: "dumps (widen v) = points (render v)"
proof (induction v)
  case (JArr xs)
  then have "map dumps (map widen xs) = map points (map render xs)" by simp
  then show ?case unfolding widen.simps dumps.simps render.simps by (simp add: points_append points_join del: map_map)
next
  case (JObj kvs)
  have "map (\<lambda>(k, v). (k, dumps v)) (map (\<lambda>(k, v). (points k, widen v)) kvs)
      = map (\<lambda>(k, t). (points k, points t)) (map (\<lambda>(k, v). (k, render v)) kvs)"
    using JObj by auto
  then have "sort_key fst (map (\<lambda>(k, v). (k, dumps v)) (map (\<lambda>(k, v). (points k, widen v)) kvs))
      = map (\<lambda>(k, t). (points k, points t)) (sort_key fst (map (\<lambda>(k, v). (k, render v)) kvs))"
    by (simp only: sort_key_points)
  then show ?case
    unfolding widen.simps dumps.simps render.simps
    by (simp add: points_append points_join points_quote comp_def split_def)
qed (simp_all add: int_points_def points_quote)

lemma to_utf8_points: "to_utf8 (points s) = Some (map pt (utf8 s))"
proof (induction s)
  case (Cons c s)
  have s: "pt c < 1114112" "pt c < 65536" "\<not> 128 \<le> pt c \<or> pt c < 2048"
    using nat_of_char_less_256 [of c] by linarith+
  have "pt c div 64 < 4" using less_mult_imp_div_less [of "pt c" 4 64] by simp
  then have "(192 + pt c div 64) mod 256 = 192 + pt c div 64" "(128 + pt c mod 64) mod 256 = 128 + pt c mod 64" by auto
  with Cons s show ?case by (simp add: utf8_def utf8_char_def utf8_bytes_def Let_def)
qed (simp add: utf8_def)

lemma encode_widened:
  assumes "printable_ints (widen v)"
  shows "encode_json (widen v) = Inr (canonical_json_bytes v)"
  using assms by (simp add: encode_json_def encode_utf8_def dumps_widen to_utf8_points canonical_json_bytes_def comp_def)

subsection \<open>The round trip\<close>

lemma printable_sorted: "printable_ints (sorted_doc v) = printable_ints v"
  by (induction v) (auto simp: list_all_iff split_def)

lemma dumps_sorted: "dumps (sorted_doc v) = dumps v"
proof (induction v)
  case (DArr xs)
  then have "map dumps (map sorted_doc xs) = map dumps xs" by simp
  then show ?case unfolding sorted_doc.simps dumps.simps by (rule arg_cong)
next
  case (DObj kvs)
  have "map (\<lambda>(k, v). (k, dumps (sorted_doc v))) kvs = map (\<lambda>(k, v). (k, dumps v)) kvs"
    using DObj by auto
  then have "map (\<lambda>(k, v). (k, dumps v)) (map (\<lambda>(k, v). (k, sorted_doc v)) kvs) = map (\<lambda>(k, v). (k, dumps v)) kvs"
    by (simp add: comp_def case_prod_unfold)
  then have "sort_key fst (map (\<lambda>(k, v). (k, dumps v)) (sort_key fst (map (\<lambda>(k, v). (k, sorted_doc v)) kvs)))
      = sort_key fst (map (\<lambda>(k, v). (k, dumps v)) kvs)"
    by (simp only: sort_key_apsnd [symmetric]) (simp add: sort_key_id_if_sorted)
  then show ?case unfolding sorted_doc.simps dumps.simps by simp
qed simp_all

lemma loads_dumps:
  assumes "wf_doc ft v" and "printable_ints v"
  shows "loads ft (dumps v) = Some (sorted_doc v)"
proof -
  have r: "readable ft v" using assms by (simp add: readable_iff)
  have "read_value ft (2 * length (dumps v) + 2) (dumps v @ []) = Some (sorted_doc v, [])"
    using need_bound [OF r] by (intro readsD [OF read_dumps [OF r]]) (simp_all add: stop_def)
  then show ?thesis using skip_dumps [OF r, of "[]"]
    by (simp add: loads_def skip_space_def del: read_value.simps)
qed

lemma decode_bytes:
  assumes "wf_doc ft v" and "is_object v" and "encode_json v = Inr raw"
  shows "decode_json ft (Some limit) (Raw_Bytes raw) =
    (if length raw \<le> limit then Inr (sorted_doc v) else Inl [''invalid JSON document''])"
proof -
  have e: "printable_ints v" "encode_utf8 (dumps v) = Inr raw"
    using encode_json_Inr [OF assms(3)] by blast+
  obtain t where "dumps v = 123 # t" using assms(2) by (cases v) (auto simp: is_object_def)
  with e(2) have "\<not> starts_with byte_order_mark (map of_char raw)"
    by (auto simp: encode_utf8_Inr utf8_bytes_def starts_with_def byte_order_mark_def split: option.splits)
  moreover have "Option.bind (decode_utf8 raw) (loads ft) = Some (sorted_doc v)"
    using loads_dumps [OF assms(1) e(1)] decode_encode_utf8 [OF e(2)] by simp
  moreover have "is_object (sorted_doc v)" using assms(2) by (cases v) (simp_all add: is_object_def)
  ultimately show ?thesis by (simp add: decode_json_def wire_bytes_def)
qed

lemma member_sorted:
  assumes "wf_doc ft v"
  shows "member_of (sorted_doc v) k = Some (DStr s) \<longleftrightarrow> member_of v k = Some (DStr s)"
proof (cases v)
  case (DObj kvs)
  let ?ys = "sort_key fst kvs"
  have "map_of (map (\<lambda>(k, v). (k, sorted_doc v)) ?ys) k = map_option sorted_doc (map_of kvs k)"
  proof -
    have "map_of ?ys = map_of kvs"
      using assms DObj by (intro map_of_inject_set [THEN iffD2]) (simp_all)
    then show ?thesis by (simp add: map_of_map)
  qed
  moreover have "sorted_doc w = DStr s \<longleftrightarrow> w = DStr s" for w by (cases w) simp_all
  ultimately show ?thesis unfolding DObj sorted_DObj by (auto simp: member_of_def)
qed (simp_all add: member_of_def)

lemma decode_document_bytes:
  assumes "wf_doc ft v" and "is_object v" and "encode_json v = Inr raw" and "length raw \<le> limit"
  shows "decode_document ft kind version limit (Raw_Bytes raw) =
    (if member_of v (points ''document_type'') = Some (DStr kind) \<and> member_of v (points ''schema_version'') = Some (DStr version)
     then Inr (sorted_doc v) else Inl [''unsupported or noncanonical document''])"
proof -
  have "encode_json (sorted_doc v) = Inr raw"
    using assms(3) by (simp add: encode_json_def dumps_sorted printable_sorted split: if_splits)
  then show ?thesis
    using decode_bytes [OF assms(1-3)] assms(4)
    by (simp add: decode_document_def andthen_def member_sorted [OF assms(1)] del: points_simps)
qed

lemma encoded_once:
  assumes "wf_doc ft v" and "wf_doc ft w" and "encode_json v = Inr raw" and "encode_json w = Inr raw"
  shows "sorted_doc w = sorted_doc v"
proof -
  have "dumps w = dumps v"
    using encode_json_Inr [OF assms(3)] encode_json_Inr [OF assms(4)] decode_encode_utf8 by (metis option.inject)
  then show ?thesis
    using loads_dumps [OF assms(1)] loads_dumps [OF assms(2)] encode_json_Inr [OF assms(3)] encode_json_Inr [OF assms(4)]
    by simp
qed

text \<open>C28: What \<^verbatim>\<open>encode_json\<close> writes is read back, for texts over all of Unicode. For a value Python can hold (no
  key twice in an object, finite floats) the encoder fails exactly when an integer is over the digit limit of \<^verbatim>\<open>int\<close> or
  a text holds a surrogate. Otherwise, within the size limit, \<^verbatim>\<open>decode_json\<close> returns the value with its members in key
  order, from the bytes and from the text they encode, and \<^verbatim>\<open>decode_document\<close> returns it exactly when the document
  names the expected type and version; above the limit the document is refused. Two values with the same bytes are the
  same value up to member order, so what is hashed over the bytes is hashed over the value.\<close>

theorem document_round_trip:
  assumes "wf_doc ft v" and "is_object v"
  shows "case encode_json v of
      Inl _ \<Rightarrow> \<not> encodable v
    | Inr raw \<Rightarrow>
        encodable v \<and>
        decode_json ft (Some limit) (Raw_Bytes raw) =
          (if length raw \<le> limit then Inr (sorted_doc v) else Inl [''invalid JSON document'']) \<and>
        decode_json ft (Some limit) (Raw_Text (dumps v)) = decode_json ft (Some limit) (Raw_Bytes raw) \<and>
        (length raw \<le> limit \<longrightarrow>
          decode_document ft kind version limit (Raw_Bytes raw) =
            (if member_of v (points ''document_type'') = Some (DStr kind) \<and>
                member_of v (points ''schema_version'') = Some (DStr version)
             then Inr (sorted_doc v) else Inl [''unsupported or noncanonical document''])) \<and>
        (\<forall>w. wf_doc ft w \<longrightarrow> encode_json w = Inr raw \<longrightarrow> sorted_doc w = sorted_doc v)"
proof (cases "encode_json v")
  case (Inr raw)
  have "decode_json ft (Some limit) (Raw_Text (dumps v)) = decode_json ft (Some limit) (Raw_Bytes raw)"
    using encode_json_Inr [OF Inr] by (simp add: decode_json_def wire_bytes_def)
  then show ?thesis
    using encode_json_Inr [OF Inr] decode_bytes [OF assms Inr] decode_document_bytes [OF assms Inr]
      encoded_once [OF assms(1) _ Inr] by (simp add: Inr del: points_simps)
qed (simp add: encode_json_Inl)

definition sample_document :: doc where
  \<comment> \<open>its note holds an escape, a control character, and characters of one to four bytes\<close>
  "sample_document = DObj
     [(points ''schema_version'', DStr (points ''1.0'')), (points ''document_type'', DStr (points ''batch'')),
      (points ''items'', DArr [DInt (-40), DNum (points ''2.5e-07''), DBool True, DNull, DObj []]),
      (points ''note'', DStr [0x61, 0x22, 0x5C, 0x0A, 0x07, 0xE9, 0x6743, 0x1F512])]"

theorem document_round_trip_witness:
  "\<exists>raw. encode_json sample_document = Inr raw \<and>
   decode_json Some (Some (length raw)) (Raw_Bytes raw) = Inr (sorted_doc sample_document) \<and>
   decode_document Some (points ''batch'') (points ''1.0'') (length raw) (Raw_Bytes raw) = Inr (sorted_doc sample_document) \<and>
   map fst (case sorted_doc sample_document of DObj kvs \<Rightarrow> kvs | _ \<Rightarrow> [])
     = map points [''document_type'', ''items'', ''note'', ''schema_version'']"
proof -
  have f: "float_token Some (points ''2.5e-07'')" by code_simp
  have w: "wf_doc Some sample_document" using f by (simp add: sample_document_def)
  have m: "is_object sample_document" "member_of sample_document (points ''document_type'') = Some (DStr (points ''batch''))"
    "member_of sample_document (points ''schema_version'') = Some (DStr (points ''1.0''))"
    by (simp_all add: sample_document_def is_object_def member_of_def)
  have "int_points (- 40) = [45, 52, 48]"
    by code_simp
  then have e: "encodable sample_document"
    by (simp add: sample_document_def encodable_def int_digits_def point_digit_def has_bytes_def surrogate_def)
  have k: "map fst (case sorted_doc sample_document of DObj kvs \<Rightarrow> kvs | _ \<Rightarrow> [])
     = map points [''document_type'', ''items'', ''note'', ''schema_version'']"
    by (simp add: sample_document_def)
  obtain raw where raw: "encode_json sample_document = Inr raw"
    using document_round_trip [OF w m(1), of 0 "[]" "[]"] e by (cases "encode_json sample_document") simp_all
  have "decode_json Some (Some (length raw)) (Raw_Bytes raw) = Inr (sorted_doc sample_document) \<and>
    decode_document Some (points ''batch'') (points ''1.0'') (length raw) (Raw_Bytes raw) = Inr (sorted_doc sample_document)"
    using document_round_trip [OF w m(1), of "length raw" "points ''batch''" "points ''1.0''"]
    unfolding raw sum.case by (simp only: m order.refl simp_thms if_True)
  with raw k show ?thesis by blast
qed

end
