(* ===== verification/Recordings.thy ===== *)
theory Recordings
  imports WireModels EffectFacts
begin

section \<open>The life of a recording\<close>

text \<open>
  Models \<^verbatim>\<open>product/backend/domain/recording/models.py\<close>: the record of a browser recording with its
  validator, the table of allowed transitions and the function that makes one. The target of a
  transition is \<open>None\<close> when the text given names no state. \<^verbatim>\<open>JiejianError\<close> is the name of its code.
\<close>

datatype recording_state =
  CREATED | STARTING | RECORDING | CLEANING | PROCESSING | PENDING_REVIEW | COMPLETED
  | RECORDING_FAILED | RECORDING_CANCELLED | RECORDING_STOPPED

datatype recording_purpose = TARGET_RECORDING | OBSERVATION_RECORDING | RECOVERY_RECORDING

datatype recording_end = END_FAILED | END_CANCELLED | END_STOPPED

fun end_state :: "recording_end \<Rightarrow> recording_state" where
  "end_state END_FAILED = RECORDING_FAILED"
| "end_state END_CANCELLED = RECORDING_CANCELLED"
| "end_state END_STOPPED = RECORDING_STOPPED"

record state_event =
  se_sequence :: int
  se_source :: recording_state
  se_target :: recording_state
  se_operator :: str
  se_at :: int
  se_reason :: "str option"

record recording =
  rc_recording_id :: str
  rc_project_id :: str
  rc_action_id :: str
  rc_action_revision :: int
  rc_subject :: str
  rc_owner :: str
  rc_source :: str
  rc_purpose :: recording_purpose
  rc_parent :: "str option"
  rc_effect :: "str option"
  rc_state :: recording_state
  rc_created :: int
  rc_updated :: int
  rc_started :: "int option"
  rc_captured :: "int option"
  rc_finished :: "int option"
  rc_pending :: "recording_end option"
  rc_reasons :: "str list"
  rc_events :: "state_event list"

subsection \<open>Validation\<close>

definition state_event_errors :: "state_event \<Rightarrow> str list" where
  "state_event_errors e = least_field ''sequence'' 1 (se_sequence e) @ size_field ''operator'' 1 128 (se_operator e)
     @ least_field ''occurred_at_us'' 0 (se_at e)
     @ optional_field (\<lambda>c. field_error [pattern_guard ''reason_code'' reason_code c]) (se_reason e)"

definition terminal_states :: "recording_state set" where
  "terminal_states = {COMPLETED, RECORDING_FAILED, RECORDING_CANCELLED, RECORDING_STOPPED}"

definition started_states :: "recording_state set" where
  "started_states = {STARTING, RECORDING, CLEANING, PROCESSING, PENDING_REVIEW, COMPLETED, RECORDING_STOPPED}"

definition processed_states :: "recording_state set" where
  "processed_states = {PROCESSING, PENDING_REVIEW, COMPLETED}"

definition recording_guards :: "recording \<Rightarrow> guard list" where
  "recording_guards r =
     [((rc_purpose r = TARGET_RECORDING) \<noteq> (rc_parent r = None), ''only supplemental recordings reference a parent recording''),
      ((rc_purpose r = OBSERVATION_RECORDING) \<noteq> (rc_effect r \<noteq> None), ''only observation recordings bind a confirmed business effect''),
      (rc_parent r = Some (rc_recording_id r), ''recording cannot reference itself as parent''),
      (rc_updated r < rc_created r, ''recording update time precedes creation''),
      (given (\<lambda>t. t < rc_created r) (rc_started r), ''recording start time precedes creation''),
      (given (\<lambda>c. given (\<lambda>t. c < t) (rc_started r)) (rc_captured r), ''recording capture finish precedes start''),
      (given (\<lambda>t. t < rc_updated r) (rc_finished r), ''recording finish time precedes update''),
      (has_duplicates (rc_reasons r) \<or> list_ex (\<lambda>c. \<not> reason_code c) (rc_reasons r),
        ''recording reason codes must be unique stable codes''),
      (map se_sequence (rc_events r) \<noteq> map int [1..<Suc (length (rc_events r))], ''recording event sequence must be continuous''),
      ((rc_state r \<in> terminal_states) \<noteq> (rc_finished r \<noteq> None), ''recording terminal state and finish time must agree''),
      (rc_pending r \<noteq> None \<and> rc_state r \<noteq> CLEANING, ''pending terminal state only belongs to cleanup''),
      (rc_state r \<in> started_states \<and> rc_started r = None, ''started recording state requires start time''),
      (rc_state r \<in> processed_states \<and> rc_captured r = None, ''processed recording state requires capture finish time'')]"

definition recording_field_errors :: "recording \<Rightarrow> str list" where
  "recording_field_errors r =
     tag_field ''recording_id'' ''rec_'' 32 (rc_recording_id r) @ logical_field ''project_id'' (rc_project_id r)
     @ tag_field ''business_action_id'' ''bac_'' 32 (rc_action_id r) @ least_field ''action_revision'' 1 (rc_action_revision r)
     @ tag_field ''subject_test_identity_id'' ''tid_'' 32 (rc_subject r)
     @ tag_field ''resource_owner_test_identity_id'' ''tid_'' 32 (rc_owner r)
     @ hash_field ''preparation_source_fingerprint'' (rc_source r)
     @ optional_field (tag_field ''parent_recording_id'' ''rec_'' 32) (rc_parent r)
     @ optional_field (tag_field ''effect_id'' ''bef_'' 32) (rc_effect r)
     @ least_field ''created_at_us'' 0 (rc_created r) @ least_field ''updated_at_us'' 0 (rc_updated r)
     @ optional_field (least_field ''started_at_us'' 0) (rc_started r)
     @ optional_field (least_field ''capture_finished_at_us'' 0) (rc_captured r)
     @ optional_field (least_field ''finished_at_us'' 0) (rc_finished r)
     @ size_field ''reason_codes'' 0 64 (rc_reasons r)
     @ each_field state_event_errors (rc_events r) @ size_field ''events'' 0 128 (rc_events r)"

definition recording_errors :: "recording \<Rightarrow> str list" where
  "recording_errors r = after_fields (recording_field_errors r) (recording_guards r)"

subsection \<open>Transitions\<close>

fun recording_targets :: "recording_state \<Rightarrow> recording_state list" where
  "recording_targets CREATED = [STARTING, RECORDING_FAILED, RECORDING_CANCELLED]"
| "recording_targets STARTING = [RECORDING, CLEANING]"
| "recording_targets RECORDING = [CLEANING]"
| "recording_targets CLEANING = [PROCESSING, RECORDING_FAILED, RECORDING_CANCELLED, RECORDING_STOPPED]"
| "recording_targets PROCESSING = [PENDING_REVIEW, CLEANING]"
| "recording_targets PENDING_REVIEW = [COMPLETED, RECORDING_CANCELLED]"
| "recording_targets _ = []"

definition refused_cleanup :: "recording \<Rightarrow> recording_state \<Rightarrow> str option \<Rightarrow> recording_end option \<Rightarrow> bool" where
  \<comment> \<open>the checks on entering and on leaving \<open>CLEANING\<close>\<close>
  "refused_cleanup r t reason pending =
     (if t = CLEANING then pending = None \<and> rc_state r \<noteq> RECORDING
      else if rc_state r = CLEANING then
        (if t = PROCESSING then rc_pending r \<noteq> None
         else given (\<lambda>p. t \<noteq> end_state p) (rc_pending r) \<and> \<not> (t = RECORDING_FAILED \<and> reason = Some ''CLEANUP_FAILED''))
      else False)"

definition transition_event :: "recording \<Rightarrow> recording_state \<Rightarrow> str \<Rightarrow> int \<Rightarrow> str option \<Rightarrow> state_event" where
  "transition_event r t operator at reason =
     \<lparr>se_sequence = int (length (rc_events r)) + 1, se_source = rc_state r, se_target = t, se_operator = operator,
      se_at = at, se_reason = reason\<rparr>"

definition transition_update :: "recording \<Rightarrow> recording_state \<Rightarrow> str \<Rightarrow> int \<Rightarrow> str option \<Rightarrow> recording_end option \<Rightarrow> recording" where
  "transition_update r t operator at reason pending = r\<lparr>rc_state := t, rc_updated := at,
     rc_pending := (if t = CLEANING then pending else None),
     rc_started := (if t = STARTING then Some at else rc_started r),
     rc_captured := (if rc_state r = CLEANING \<and> t = PROCESSING then Some at else rc_captured r),
     rc_finished := (if t \<in> terminal_states then Some at else rc_finished r),
     rc_reasons := (case reason of None \<Rightarrow> rc_reasons r
       | Some c \<Rightarrow> if c \<in> set (rc_reasons r) then rc_reasons r else rc_reasons r @ [c]),
     rc_events := rc_events r @ [transition_event r t operator at reason]\<rparr>"

definition transition_recording_state ::
    "recording \<Rightarrow> recording_state option \<Rightarrow> str \<Rightarrow> int \<Rightarrow> str option \<Rightarrow> recording_end option \<Rightarrow> recording checked" where
  "transition_recording_state r target operator at reason pending =
     (if list_all is_space operator then Inl [''STATE_OPERATOR_REQUIRED'']
      else if at < rc_updated r then Inl [''RECORD_STATE_PRECONDITION'']
      else case target of
          None \<Rightarrow> Inl [''RECORD_STATE_INVALID'']
        | Some t \<Rightarrow>
            if t \<notin> set (recording_targets (rc_state r)) then Inl [''RECORD_STATE_INVALID'']
            else if refused_cleanup r t reason pending then Inl [''RECORD_STATE_PRECONDITION'']
            else andthen (checked (state_event_errors (transition_event r t operator at reason)) ())
              (\<lambda>_. let r' = transition_update r t operator at reason pending in checked (recording_errors r') r'))"

definition new_recording :: "recording \<Rightarrow> recording checked" where
  "new_recording r = checked (recording_errors r) r"

end
