(* ===== verification/RecordingProperties.thy ===== *)
theory RecordingProperties
  imports Recordings
begin

section \<open>Recordings end, and their history is exact\<close>

text \<open>
  A recording that is created and then moved by \<^verbatim>\<open>transition_recording_state\<close> only.
\<close>

definition fresh_recording :: "recording \<Rightarrow> bool" where
  "fresh_recording r \<longleftrightarrow> recording_errors r = [] \<and> rc_state r = CREATED \<and> rc_pending r = None \<and> rc_reasons r = [] \<and> rc_events r = []"

inductive recording_step :: "recording \<Rightarrow> recording \<Rightarrow> bool" where
  "transition_recording_state r target operator at reason pending = Inr r' \<Longrightarrow> recording_step r r'"

inductive recorded :: "recording \<Rightarrow> bool" where
  created: "fresh_recording r \<Longrightarrow> recorded r"
| moved: "recorded r \<Longrightarrow> recording_step r r' \<Longrightarrow> recorded r'"

lemma transition_Inr:
  "transition_recording_state r target operator at reason pending = Inr r' \<longleftrightarrow>
     (\<exists>t. target = Some t \<and> \<not> list_all is_space operator \<and> rc_updated r \<le> at \<and> t \<in> set (recording_targets (rc_state r)) \<and>
        \<not> refused_cleanup r t reason pending \<and> state_event_errors (transition_event r t operator at reason) = [] \<and>
        recording_errors (transition_update r t operator at reason pending) = [] \<and>
        r' = transition_update r t operator at reason pending)"
  by (auto simp: transition_recording_state_def Let_def guard_simps split: option.splits)

text \<open>How many transitions are left at most.\<close>

fun transitions_left :: "recording_state \<Rightarrow> recording_end option \<Rightarrow> nat" where
  "transitions_left CREATED _ = 6"
| "transitions_left STARTING _ = 5"
| "transitions_left RECORDING _ = 4"
| "transitions_left CLEANING None = 3"
| "transitions_left CLEANING (Some _) = 1"
| "transitions_left PROCESSING _ = 2"
| "transitions_left PENDING_REVIEW _ = 1"
| "transitions_left _ _ = 0"

abbreviation left_of :: "recording \<Rightarrow> nat" where
  "left_of r \<equiv> transitions_left (rc_state r) (rc_pending r)"

lemma transitions_left_CLEANING: "transitions_left CLEANING p = (if p = None then 3 else 1)"
  by (cases p) simp_all

lemma move_decreases:
  assumes "t \<in> set (recording_targets s)" and "t = CLEANING \<Longrightarrow> pending \<noteq> None \<or> s = RECORDING"
    and "s = CLEANING \<Longrightarrow> t = PROCESSING \<Longrightarrow> p = None"
  shows "transitions_left t (if t = CLEANING then pending else None) < transitions_left s p"
  using assms by (cases s) (auto simp: transitions_left_CLEANING)

lemma step_decreases:
  assumes "recording_step r r'"
  shows "left_of r' < left_of r"
proof -
  obtain target operator at reason pending where "transition_recording_state r target operator at reason pending = Inr r'"
    using assms by cases
  then obtain t where t: "t \<in> set (recording_targets (rc_state r))" "\<not> refused_cleanup r t reason pending"
      "r' = transition_update r t operator at reason pending"
    by (auto simp: transition_Inr)
  have "transitions_left t (if t = CLEANING then pending else None) < left_of r"
    by (rule move_decreases [OF t(1)]) (use t(2) in \<open>simp_all add: refused_cleanup_def\<close>)
  then show ?thesis by (simp add: t(3) transition_update_def)
qed

definition chained :: "recording \<Rightarrow> bool" where
  "chained r \<longleftrightarrow> map se_source (rc_events r) @ [rc_state r] = CREATED # map se_target (rc_events r)"

definition recording_ok :: "recording \<Rightarrow> bool" where
  "recording_ok r \<longleftrightarrow> recording_errors r = [] \<and> chained r \<and> length (rc_events r) + left_of r \<le> 6 \<and>
     length (rc_reasons r) \<le> length (rc_events r) \<and> sorted (map se_at (rc_events r) @ [rc_updated r]) \<and>
     (rc_state r = CREATED \<longleftrightarrow> rc_events r = [])"

lemma recorded_ok: "recorded r \<Longrightarrow> recording_ok r"
proof (induction rule: recorded.induct)
  case (created r)
  then show ?case by (simp add: fresh_recording_def recording_ok_def chained_def)
next
  case (moved r r')
  from moved.hyps(2) obtain target operator at reason pending
    where "transition_recording_state r target operator at reason pending = Inr r'" by cases
  then obtain t where t: "t \<in> set (recording_targets (rc_state r))" "rc_updated r \<le> at"
      "recording_errors r' = []" "r' = transition_update r t operator at reason pending"
    by (auto simp: transition_Inr)
  have "rc_events r' = rc_events r @ [transition_event r t operator at reason]" "rc_state r' = t" "rc_updated r' = at"
      "length (rc_reasons r') \<le> Suc (length (rc_reasons r))"
    using t by (simp_all add: transition_update_def split: option.split)
  moreover have "t \<noteq> CREATED" using t(1) by (cases "rc_state r") auto
  ultimately show ?case
    using moved.IH t(2,3) step_decreases [OF moved.hyps(2)]
    by (auto simp: recording_ok_def chained_def transition_event_def sorted_append)
qed

text \<open>C29: the history of a recording is exact: its events are numbered from one, lead from \<open>CREATED\<close> to its state
  without a gap, at times that never decrease, and there are at most six of them.\<close>

theorem recording_history_exact:
  assumes "recorded r"
  shows "map se_sequence (rc_events r) = map int [1..<Suc (length (rc_events r))] \<and>
    map se_source (rc_events r) @ [rc_state r] = CREATED # map se_target (rc_events r) \<and>
    sorted (map se_at (rc_events r) @ [rc_updated r]) \<and> length (rc_events r) \<le> 6"
proof -
  have "recording_ok r" using assms by (rule recorded_ok)
  then show ?thesis
    by (auto simp: recording_ok_def chained_def recording_errors_def recording_guards_def guard_simps)
qed

subsection \<open>Every recording can be brought to an end\<close>

definition closing_move :: "recording \<Rightarrow> recording_state \<times> recording_end option" where
  \<comment> \<open>a transition towards the end that every state but the final ones has\<close>
  "closing_move r = (case rc_state r of
     CREATED \<Rightarrow> (RECORDING_FAILED, None)
   | CLEANING \<Rightarrow> ((case rc_pending r of None \<Rightarrow> RECORDING_FAILED | Some e \<Rightarrow> end_state e), None)
   | PENDING_REVIEW \<Rightarrow> (RECORDING_CANCELLED, None)
   | _ \<Rightarrow> (CLEANING, Some END_FAILED))"

lemma closing_move_allowed:
  assumes "rc_state r \<notin> terminal_states"
  shows "fst (closing_move r) \<in> set (recording_targets (rc_state r))"
    and "\<not> refused_cleanup r (fst (closing_move r)) None (snd (closing_move r))"
    and "fst (closing_move r) \<notin> processed_states \<union> {STARTING, RECORDING}"
    and "fst (closing_move r) \<in> started_states \<Longrightarrow> rc_state r \<in> started_states"
  using assms
  by (cases "rc_state r"; cases "rc_pending r"; cases "the (rc_pending r)";
      simp add: closing_move_def refused_cleanup_def terminal_states_def processed_states_def started_states_def)+

lemma closing_step:
  assumes ok: "recording_ok r" and live: "rc_state r \<notin> terminal_states" and at: "rc_updated r \<le> at"
  shows "\<exists>r'. transition_recording_state r (Some (fst (closing_move r))) ''WORKER'' at None (snd (closing_move r)) = Inr r'"
proof -
  let ?t = "fst (closing_move r)" and ?p = "snd (closing_move r)"
  let ?r = "transition_update r ?t ''WORKER'' at None ?p"
  note allowed = closing_move_allowed [OF live]
  have v: "recording_field_errors r = []" "\<forall>g \<in> set (recording_guards r). \<not> fst g" "length (rc_events r) \<le> 6"
    using ok by (auto simp: recording_ok_def recording_errors_def guard_simps)
  have at0: "0 \<le> at" using v(1) at by (auto simp: recording_field_errors_def least_field_def guard_simps)
  have e: "state_event_errors (transition_event r ?t ''WORKER'' at None) = []"
    using at0 by (simp add: state_event_errors_def transition_event_def least_field_def size_field_def size_guards_def
        optional_field_def guard_simps)
  have "recording_field_errors ?r = []"
    using v(1,3) at0 e allowed(3)
    by (auto simp: recording_field_errors_def transition_update_def least_field_def size_field_def size_guards_def
        optional_field_def each_field_def processed_states_def guard_simps)
  moreover have "\<forall>g \<in> set (recording_guards ?r). \<not> fst g"
    using v(2) at allowed(3,4) live
    by (auto simp: recording_guards_def transition_update_def transition_event_def processed_states_def given_def
        split: option.splits)
  ultimately have "recording_errors ?r = []" by (simp add: recording_errors_def guard_simps)
  moreover have "\<not> list_all is_space ''WORKER''" by code_simp
  ultimately show ?thesis using allowed(1,2) at e by (auto simp: transition_Inr)
qed

lemma recorded_moves:
  assumes "recorded r" and "rc_state r \<notin> terminal_states"
  shows "\<exists>r'. recording_step r r'"
  using closing_step [OF recorded_ok [OF assms(1)] assms(2) order.refl] by (auto intro: recording_step.intros)

lemma recorded_ends: "recorded r \<Longrightarrow> \<exists>r'. recording_step\<^sup>*\<^sup>* r r' \<and> rc_state r' \<in> terminal_states"
proof (induction "left_of r" arbitrary: r rule: less_induct)
  case less
  show ?case
  proof (cases "rc_state r \<in> terminal_states")
    case False
    then obtain s where s: "recording_step r s" using recorded_moves [OF less.prems] by blast
    obtain r' where "recording_step\<^sup>*\<^sup>* s r'" "rc_state r' \<in> terminal_states"
      using less.hyps [OF step_decreases [OF s] recorded.moved [OF less.prems s]] by blast
    with s show ?thesis by (blast intro: converse_rtranclp_into_rtranclp)
  qed blast
qed

lemma steps_bounded:
  "\<forall>i < n. recording_step (f i) (f (Suc i)) \<Longrightarrow> left_of (f n) + n \<le> left_of (f 0)"
proof (induction n)
  case (Suc n)
  then have "left_of (f n) + n \<le> left_of (f 0)" by simp
  with step_decreases [of "f n" "f (Suc n)"] Suc.prems show ?case by force
qed simp

lemma terminal_stuck: "recording_step r r' \<Longrightarrow> rc_state r \<notin> terminal_states"
  by (auto elim!: recording_step.cases simp: transition_Inr terminal_states_def)

text \<open>C30: every recording ends. Whatever state it is in, its transitions lead to a final state; a run of the
  machine makes at most six transitions in total, and stops exactly in the final states, so a machine that moves
  while it can always arrives.\<close>

theorem recording_reaches_end:
  assumes "recorded r"
  shows "(\<exists>r'. recording_step\<^sup>*\<^sup>* r r' \<and> rc_state r' \<in> terminal_states) \<and>
    (\<forall>f n. f 0 = r \<and> (\<forall>i < n. recording_step (f i) (f (Suc i))) \<longrightarrow> length (rc_events r) + n \<le> 6) \<and>
    ((\<nexists>r'. recording_step r r') \<longleftrightarrow> rc_state r \<in> terminal_states)"
proof (intro conjI allI impI)
  show "\<exists>r'. recording_step\<^sup>*\<^sup>* r r' \<and> rc_state r' \<in> terminal_states" using assms by (rule recorded_ends)
  show "(\<nexists>r'. recording_step r r') \<longleftrightarrow> rc_state r \<in> terminal_states"
    using terminal_stuck recorded_moves [OF assms] by blast
  fix f :: "nat \<Rightarrow> recording" and n
  assume f: "f 0 = r \<and> (\<forall>i < n. recording_step (f i) (f (Suc i)))"
  then have "left_of (f n) + n \<le> left_of r" using steps_bounded [of n f] by simp
  then show "length (rc_events r) + n \<le> 6"
    using recorded_ok [OF assms] by (simp add: recording_ok_def)
qed

subsection \<open>A recording on which the properties are applied\<close>

definition sample_recording :: recording where
  "sample_recording = \<lparr>rc_recording_id = ''rec_'' @ replicate 32 CHR ''a'', rc_project_id = ''shop'',
     rc_action_id = ''bac_'' @ replicate 32 CHR ''b'', rc_action_revision = 1, rc_subject = ''tid_'' @ replicate 32 CHR ''c'',
     rc_owner = ''tid_'' @ replicate 32 CHR ''d'', rc_source = replicate 64 CHR ''e'', rc_purpose = TARGET_RECORDING,
     rc_parent = None, rc_effect = None, rc_state = CREATED, rc_created = 10, rc_updated = 10, rc_started = None,
     rc_captured = None, rc_finished = None, rc_pending = None, rc_reasons = [], rc_events = []\<rparr>"

definition sample_started :: recording where
  "sample_started = transition_update sample_recording STARTING ''WORKER'' 20 None None"

lemma sample_recorded: "recorded sample_started"
proof (rule recorded.moved)
  show "recorded sample_recording" by (rule recorded.created) code_simp
  have "transition_recording_state sample_recording (Some STARTING) ''WORKER'' 20 None None = Inr sample_started"
    by code_simp
  then show "recording_step sample_recording sample_started" by (rule recording_step.intros)
qed

theorem recording_history_exact_witness:
  "map se_source (rc_events sample_started) @ [rc_state sample_started] = [CREATED, STARTING] \<and>
   map se_source (rc_events sample_started) @ [rc_state sample_started] = CREATED # map se_target (rc_events sample_started)"
proof -
  have "map se_source (rc_events sample_started) @ [rc_state sample_started] = [CREATED, STARTING]" by code_simp
  then show ?thesis using recording_history_exact [OF sample_recorded] by blast
qed

theorem recording_reaches_end_witness:
  "(\<exists>r'. recording_step\<^sup>*\<^sup>* sample_started r' \<and> rc_state r' \<in> terminal_states) \<and> rc_state sample_started = STARTING"
proof -
  have "rc_state sample_started = STARTING" by code_simp
  then show ?thesis using recording_reaches_end [OF sample_recorded] by blast
qed

end
