(* ===== verification/JobModels.thy ===== *)
theory JobModels
  imports CheckDecision Trace Recordings
begin

section \<open>Jobs and the requests that control them\<close>

text \<open>
  Models the persistent side of the job queue: the lifecycle enumerations of
  \<^verbatim>\<open>domain/lifecycle.py\<close>, the records and the table constraints of
  \<^verbatim>\<open>infrastructure/storage/execution/jobs.py\<close> and \<^verbatim>\<open>runs.py\<close>, and the requests and the retry policy of
  \<^verbatim>\<open>infrastructure/runtime/jobs/models.py\<close>. A table row holds the fields of its record; the record is
  validated on reading, the constraints on writing. A \<^verbatim>\<open>JiejianError\<close> is the name of its code.
\<close>

subsection \<open>States\<close>

datatype job_state = Pending | Running | Retry_Wait | Succeeded | Failed | Cancelled

fun job_state_value :: "job_state \<Rightarrow> str" where
  "job_state_value Pending = ''PENDING''"
| "job_state_value Running = ''RUNNING''"
| "job_state_value Retry_Wait = ''RETRY_WAIT''"
| "job_state_value Succeeded = ''SUCCEEDED''"
| "job_state_value Failed = ''FAILED''"
| "job_state_value Cancelled = ''CANCELLED''"

datatype run_lifecycle = Run_Queued | Run_Running | Run_Completed | Run_Failed | Run_Cancelled | Run_Stopped

fun run_lifecycle_value :: "run_lifecycle \<Rightarrow> str" where
  "run_lifecycle_value Run_Queued = ''QUEUED''"
| "run_lifecycle_value Run_Running = ''RUNNING''"
| "run_lifecycle_value Run_Completed = ''COMPLETED''"
| "run_lifecycle_value Run_Failed = ''FAILED''"
| "run_lifecycle_value Run_Cancelled = ''CANCELLED''"
| "run_lifecycle_value Run_Stopped = ''SAFETY_STOPPED''"

fun run_verdict_value :: "run_verdict \<Rightarrow> str" where
  "run_verdict_value PASS = ''PASS''"
| "run_verdict_value BLOCK = ''BLOCK''"
| "run_verdict_value RUN_INCONCLUSIVE = ''INCONCLUSIVE''"

definition waiting_states :: "job_state set" where
  "waiting_states = {Pending, Retry_Wait}"

definition ended_states :: "job_state set" where
  "ended_states = {Succeeded, Failed, Cancelled}"

definition open_runs :: "run_lifecycle set" where
  "open_runs = {Run_Queued, Run_Running}"

subsection \<open>Payloads free of secrets\<close>

fun json_texts :: "json \<Rightarrow> str list" where
  "json_texts (JStr s) = [s]"
| "json_texts (JArr vs) = concat (map json_texts vs)"
| "json_texts (JObj kvs) = map fst kvs @ concat (map (\<lambda>(k, v). json_texts v) kvs)"
| "json_texts _ = []"

definition payload_unsafe :: "str list \<Rightarrow> json \<Rightarrow> bool" where
  "payload_unsafe secrets v \<longleftrightarrow> list_ex (\<lambda>s. inline_secret s \<or>
     list_ex (\<lambda>k. k \<noteq> [] \<and> search (\<lambda>r. take (length k) r = k) s) secrets) (json_texts v)"

definition ensure_safe :: "str list \<Rightarrow> json \<Rightarrow> unit checked" where
  "ensure_safe secrets v = (if payload_unsafe secrets v then Inl [''STORAGE_SECRET''] else Inr ())"

subsection \<open>Job records\<close>

record job =
  jb_job_id :: str
  jb_project_id :: str
  jb_run_id :: "str option"
  jb_recording_id :: "str option"
  jb_load_id :: "str option"
  jb_preflight_id :: "str option"
  jb_capture_id :: "str option"
  jb_trial_id :: "str option"
  jb_preparation_id :: "str option"
  jb_operation :: str
  jb_state :: job_state
  jb_key :: str
  jb_request_hash :: str
  jb_attempt :: int
  jb_max_attempts :: int
  jb_available :: int
  jb_owner :: "str option"
  jb_token :: int
  jb_expires :: "int option"
  jb_cancel :: "int option"
  jb_created :: int
  jb_updated :: int

definition operation_type :: "str \<Rightarrow> bool" where
  "operation_type = headed is_upper (\<lambda>c. is_upper c \<or> is_digit c \<or> c = CHR ''_'') 63"

definition lease_owner :: "str \<Rightarrow> bool" where
  "lease_owner = headed (\<lambda>c. is_lower c \<or> is_upper c \<or> is_digit c)
     (\<lambda>c. is_lower c \<or> is_upper c \<or> is_digit c \<or> c \<in> set ''._:-'') 127"

definition pattern_field :: "str \<Rightarrow> (str \<Rightarrow> bool) \<Rightarrow> str \<Rightarrow> str list" where
  "pattern_field field p v = field_error [pattern_guard field p v]"

definition job_target_ids :: "job \<Rightarrow> str option list" where
  "job_target_ids j = [jb_run_id j, jb_recording_id j, jb_load_id j, jb_preflight_id j, jb_capture_id j, jb_preparation_id j,
     jb_trial_id j]"

definition one_target :: "str option list \<Rightarrow> bool" where
  "one_target ids \<longleftrightarrow> length (filter (\<lambda>i. i \<noteq> None) ids) = 1"

definition own_operation :: "str option \<Rightarrow> str \<Rightarrow> job \<Rightarrow> bool" where
  \<comment> \<open>a single attempt target and its operation belong together\<close>
  "own_operation i operation j \<longleftrightarrow> (i \<noteq> None) = (jb_operation j = operation) \<and> (i \<noteq> None \<longrightarrow> jb_max_attempts j = 1)"

definition job_guards :: "job \<Rightarrow> guard list" where
  "job_guards j =
     [(\<not> one_target (job_target_ids j), ''job must reference exactly one execution target''),
      (jb_load_id j \<noteq> None \<and> jb_operation j \<noteq> ''RUNTIME_LOAD'', ''runtime load target requires its own operation''),
      (jb_preflight_id j \<noteq> None \<and> jb_operation j \<noteq> ''PROOF_PREFLIGHT'', ''preflight target requires its own operation''),
      (\<not> own_operation (jb_capture_id j) ''REFERENCE_CAPTURE'' j, ''capture requires its own target and one attempt''),
      (\<not> own_operation (jb_preparation_id j) ''IDENTITY_PREPARATION'' j,
        ''identity preparation requires its own target and one attempt''),
      (\<not> own_operation (jb_trial_id j) ''FLOW_TRIAL'' j, ''trial job must have one attempt and its own target''),
      (jb_max_attempts j < jb_attempt j, ''job attempt exceeds maximum''),
      (jb_attempt j = 0 \<and> (jb_token j \<noteq> 0 \<or> jb_owner j \<noteq> None \<or> jb_expires j \<noteq> None), ''unclaimed job contains lease fields''),
      (0 < jb_attempt j \<and> jb_token j \<le> 0, ''claimed job requires a fencing token''),
      ((jb_owner j = None) \<noteq> (jb_expires j = None), ''job lease owner and expiry must be stored together''),
      (jb_state j = Running \<and> (jb_owner j = None \<or> jb_token j \<le> 0 \<or> jb_expires j = None), ''running job requires a lease''),
      (jb_updated j < jb_created j, ''job update time precedes creation''),
      (given (\<lambda>t. t < jb_created j) (jb_cancel j), ''cancel request time precedes creation'')]"

definition job_field_errors :: "job \<Rightarrow> str list" where
  "job_field_errors j =
     tag_field ''job_id'' ''job_'' 32 (jb_job_id j) @ logical_field ''project_id'' (jb_project_id j)
     @ optional_field (tag_field ''run_id'' ''run_'' 32) (jb_run_id j)
     @ optional_field (tag_field ''recording_id'' ''rec_'' 32) (jb_recording_id j)
     @ optional_field (tag_field ''runtime_load_id'' ''rld_'' 32) (jb_load_id j)
     @ optional_field (tag_field ''preflight_id'' ''ppf_'' 32) (jb_preflight_id j)
     @ optional_field (tag_field ''reference_capture_id'' ''rpc_'' 32) (jb_capture_id j)
     @ optional_field (tag_field ''flow_trial_id'' ''ftr_'' 32) (jb_trial_id j)
     @ optional_field (tag_field ''identity_preparation_id'' ''prep_'' 32) (jb_preparation_id j)
     @ pattern_field ''operation_type'' operation_type (jb_operation j)
     @ size_field ''idempotency_key'' 1 128 (jb_key j) @ hash_field ''request_hash'' (jb_request_hash j)
     @ least_field ''attempt'' 0 (jb_attempt j) @ least_field ''max_attempts'' 1 (jb_max_attempts j)
     @ least_field ''available_at_us'' 0 (jb_available j)
     @ optional_field (pattern_field ''lease_owner'' lease_owner) (jb_owner j)
     @ least_field ''fencing_token'' 0 (jb_token j) @ optional_field (least_field ''lease_expires_at_us'' 0) (jb_expires j)
     @ optional_field (least_field ''cancel_requested_at_us'' 0) (jb_cancel j)
     @ least_field ''created_at_us'' 0 (jb_created j) @ least_field ''updated_at_us'' 0 (jb_updated j)"

definition job_errors :: "job \<Rightarrow> str list" where
  "job_errors j = after_fields (job_field_errors j) (job_guards j)"

text \<open>The constraints of the table. \<open>NULL\<close> satisfies a comparison; a \<open>GLOB\<close> class is a predicate on characters.\<close>

definition job_row_ok :: "job \<Rightarrow> bool" where
  "job_row_ok j \<longleftrightarrow>
     tagged ''job_'' 32 (jb_job_id j) \<and>
     1 \<le> length (jb_operation j) \<and> length (jb_operation j) \<le> 64 \<and>
     list_all (\<lambda>c. is_upper c \<or> is_digit c \<or> c = CHR ''_'') (jb_operation j) \<and>
     one_target (job_target_ids j) \<and>
     (jb_load_id j = None \<or> jb_operation j = ''RUNTIME_LOAD'') \<and>
     (jb_preflight_id j = None \<or> jb_operation j = ''PROOF_PREFLIGHT'') \<and>
     (jb_capture_id j \<noteq> None) = (jb_operation j = ''REFERENCE_CAPTURE'') \<and>
     (jb_capture_id j = None \<or> jb_max_attempts j = 1) \<and>
     (jb_trial_id j \<noteq> None) = (jb_operation j = ''FLOW_TRIAL'') \<and> (jb_trial_id j = None \<or> jb_max_attempts j = 1) \<and>
     (jb_preparation_id j \<noteq> None) = (jb_operation j = ''IDENTITY_PREPARATION'') \<and>
     (jb_preparation_id j = None \<or> jb_max_attempts j = 1) \<and>
     1 \<le> length (jb_key j) \<and> length (jb_key j) \<le> 128 \<and> hex_text 64 (jb_request_hash j) \<and>
     0 \<le> jb_attempt j \<and> 1 \<le> jb_max_attempts j \<and> jb_attempt j \<le> jb_max_attempts j \<and> 0 \<le> jb_token j \<and>
     (jb_attempt j = 0 \<and> jb_token j = 0 \<and> jb_owner j = None \<and> jb_expires j = None \<or> 0 < jb_attempt j \<and> 0 < jb_token j) \<and>
     (jb_owner j = None) = (jb_expires j = None) \<and>
     (jb_state j \<noteq> Running \<or> jb_owner j \<noteq> None \<and> 0 < jb_token j \<and> jb_expires j \<noteq> None) \<and>
     absent_or (\<lambda>v. 1 \<le> length v \<and> length v \<le> 128 \<and>
       list_all (\<lambda>c. is_lower c \<or> is_upper c \<or> is_digit c \<or> c \<in> set ''._:-'') v) (jb_owner j) \<and>
     0 \<le> jb_created j \<and> jb_created j \<le> jb_updated j \<and> 0 \<le> jb_available j \<and>
     absent_or (\<lambda>t. 0 \<le> t) (jb_expires j) \<and> absent_or (\<lambda>t. jb_created j \<le> t) (jb_cancel j)"

definition job_json :: "job \<Rightarrow> json" where
  "job_json j = JObj
     [(''job_id'', JStr (jb_job_id j)), (''project_id'', JStr (jb_project_id j)), (''run_id'', json_option JStr (jb_run_id j)),
      (''recording_id'', json_option JStr (jb_recording_id j)), (''runtime_load_id'', json_option JStr (jb_load_id j)),
      (''preflight_id'', json_option JStr (jb_preflight_id j)), (''reference_capture_id'', json_option JStr (jb_capture_id j)),
      (''flow_trial_id'', json_option JStr (jb_trial_id j)),
      (''identity_preparation_id'', json_option JStr (jb_preparation_id j)), (''operation_type'', JStr (jb_operation j)),
      (''state'', JStr (job_state_value (jb_state j))), (''idempotency_key'', JStr (jb_key j)),
      (''request_hash'', JStr (jb_request_hash j)), (''attempt'', JInt (jb_attempt j)), (''max_attempts'', JInt (jb_max_attempts j)),
      (''available_at_us'', JInt (jb_available j)), (''lease_owner'', json_option JStr (jb_owner j)),
      (''fencing_token'', JInt (jb_token j)), (''lease_expires_at_us'', json_option JInt (jb_expires j)),
      (''cancel_requested_at_us'', json_option JInt (jb_cancel j)), (''created_at_us'', JInt (jb_created j)),
      (''updated_at_us'', JInt (jb_updated j))]"

subsection \<open>Run records\<close>

record run =
  rn_run_id :: str
  rn_project_id :: str
  rn_request_hash :: str
  rn_plan :: str
  rn_source :: "str option"
  rn_epoch :: int
  rn_engine :: str
  rn_lifecycle :: run_lifecycle
  rn_verdict :: "run_verdict option"
  rn_created :: int
  rn_updated :: int
  rn_finished :: "int option"

definition run_matrix :: "run_lifecycle \<Rightarrow> run_verdict option \<Rightarrow> bool" where
  "run_matrix l v = (if l = Run_Stopped then v \<in> {None, Some BLOCK, Some RUN_INCONCLUSIVE}
     else (l = Run_Completed) = (v \<noteq> None))"

definition run_guards :: "run \<Rightarrow> guard list" where
  "run_guards r =
     [(\<not> run_matrix (rn_lifecycle r) (rn_verdict r), ''run lifecycle and verdict are inconsistent''),
      (rn_updated r < rn_created r, ''run update time precedes creation''),
      (given (\<lambda>t. t < rn_created r) (rn_finished r), ''run finish time precedes creation'')]"

definition run_errors :: "run \<Rightarrow> str list" where
  "run_errors r = after_fields
     (tag_field ''run_id'' ''run_'' 32 (rn_run_id r) @ logical_field ''project_id'' (rn_project_id r)
      @ hash_field ''request_hash'' (rn_request_hash r) @ hash_field ''plan_fingerprint'' (rn_plan r)
      @ optional_field (hash_field ''source_fingerprint'') (rn_source r) @ least_field ''policy_epoch'' 0 (rn_epoch r)
      @ size_field ''engine_version'' 1 64 (rn_engine r) @ least_field ''created_at_us'' 0 (rn_created r)
      @ least_field ''updated_at_us'' 0 (rn_updated r) @ optional_field (least_field ''finished_at_us'' 0) (rn_finished r))
     (run_guards r)"

definition run_row_ok :: "run \<Rightarrow> bool" where
  "run_row_ok r \<longleftrightarrow> tagged ''run_'' 32 (rn_run_id r) \<and> run_matrix (rn_lifecycle r) (rn_verdict r) \<and> 0 \<le> rn_epoch r \<and>
     1 \<le> length (rn_engine r) \<and> length (rn_engine r) \<le> 64 \<and> hex_text 64 (rn_request_hash r) \<and> hex_text 64 (rn_plan r) \<and>
     absent_or (hex_text 64) (rn_source r) \<and> 0 \<le> rn_created r \<and> rn_created r \<le> rn_updated r \<and>
     absent_or (\<lambda>t. rn_created r \<le> t) (rn_finished r)"

definition run_json :: "run \<Rightarrow> json" where
  "run_json r = JObj
     [(''run_id'', JStr (rn_run_id r)), (''project_id'', JStr (rn_project_id r)), (''request_hash'', JStr (rn_request_hash r)),
      (''plan_fingerprint'', JStr (rn_plan r)), (''source_fingerprint'', json_option JStr (rn_source r)),
      (''policy_epoch'', JInt (rn_epoch r)), (''engine_version'', JStr (rn_engine r)),
      (''lifecycle'', JStr (run_lifecycle_value (rn_lifecycle r))),
      (''verdict'', json_option (JStr \<circ> run_verdict_value) (rn_verdict r)), (''created_at_us'', JInt (rn_created r)),
      (''updated_at_us'', JInt (rn_updated r)), (''finished_at_us'', json_option JInt (rn_finished r))]"

end
