(* ===== verification/JobRequests.thy ===== *)
theory JobRequests
  imports JobModels
begin

section \<open>Requests and the retry policy\<close>

text \<open>
  Models the requests and the retry policy of \<^verbatim>\<open>infrastructure/runtime/jobs/models.py\<close> and the event
  record of \<^verbatim>\<open>infrastructure/storage/execution/jobs.py\<close>. The source of jitter is a parameter:
  \<open>None\<close> when it raises or gives something that is no \<^verbatim>\<open>int\<close>.
\<close>

subsection \<open>Events\<close>

datatype job_event_type =
  Job_Submitted | Job_Claimed | Job_Lease_Renewed | Job_Cancel_Requested | Job_Cancelled | Job_Retry_Scheduled
  | Job_Failed | Job_Recovery_Confirmed | Job_Succeeded

fun job_event_value :: "job_event_type \<Rightarrow> str" where
  "job_event_value Job_Submitted = ''JOB_SUBMITTED''"
| "job_event_value Job_Claimed = ''JOB_CLAIMED''"
| "job_event_value Job_Lease_Renewed = ''JOB_LEASE_RENEWED''"
| "job_event_value Job_Cancel_Requested = ''JOB_CANCEL_REQUESTED''"
| "job_event_value Job_Cancelled = ''JOB_CANCELLED''"
| "job_event_value Job_Retry_Scheduled = ''JOB_RETRY_SCHEDULED''"
| "job_event_value Job_Failed = ''JOB_FAILED''"
| "job_event_value Job_Recovery_Confirmed = ''JOB_RECOVERY_CONFIRMED''"
| "job_event_value Job_Succeeded = ''JOB_SUCCEEDED''"

record job_event =
  je_job_id :: str
  je_sequence :: int
  je_type :: job_event_type
  je_source :: "job_state option"
  je_target :: "job_state option"
  je_at :: int
  je_metadata :: "(str \<times> json) list"

definition metadata_key :: "str \<Rightarrow> bool" where
  "metadata_key = headed is_lower (\<lambda>c. is_lower c \<or> is_digit c \<or> c = CHR ''_'') 63"

definition sensitive_key :: "str \<Rightarrow> bool" where
  "sensitive_key = search (\<lambda>s. list_ex (\<lambda>w. after_prefix w s \<noteq> None)
     [''authorization'', ''cookie'', ''credential'', ''password'', ''passwd'', ''secret'', ''token'', ''apikey'', ''api_key'', ''api-key''])"

definition metadata_guards :: "(str \<times> json) list \<Rightarrow> guard list" where
  "metadata_guards kvs =
     (32 < length kvs, ''job event metadata has too many entries'')
     # concat (map (\<lambda>(k, v).
         [(\<not> metadata_key k \<or> sensitive_key k \<and> \<not> (k = ''fencing_token'' \<and> (case v of JInt _ \<Rightarrow> True | _ \<Rightarrow> False)),
            ''job event metadata key is not stable''),
          ((case v of JStr s \<Rightarrow> 256 < length s | _ \<Rightarrow> False), ''job event metadata value is too long'')]) kvs)
     @ [(4096 < length (canonical_json_bytes (JObj kvs)), ''job event metadata exceeds its byte limit'')]"

definition job_event_errors :: "job_event \<Rightarrow> str list" where
  "job_event_errors e = tag_field ''job_id'' ''job_'' 32 (je_job_id e) @ least_field ''sequence'' 1 (je_sequence e)
     @ pattern_field ''event_type'' operation_type (job_event_value (je_type e)) @ least_field ''occurred_at_us'' 0 (je_at e)
     @ field_error (metadata_guards (je_metadata e))"

definition job_event_json :: "job_event \<Rightarrow> json" where
  "job_event_json e = JObj
     [(''job_id'', JStr (je_job_id e)), (''sequence'', JInt (je_sequence e)), (''event_type'', JStr (job_event_value (je_type e))),
      (''source_state'', json_option (JStr \<circ> job_state_value) (je_source e)),
      (''target_state'', json_option (JStr \<circ> job_state_value) (je_target e)), (''occurred_at_us'', JInt (je_at e)),
      (''metadata'', JObj (je_metadata e))]"

subsection \<open>Requests\<close>

definition max_lease_duration :: int where "max_lease_duration = 300000000"

definition max_retry_delay :: int where "max_retry_delay = 86400000000"

definition max_sqlite_integer :: int where "max_sqlite_integer = 9223372036854775807"

definition range_field :: "str \<Rightarrow> int \<Rightarrow> int \<Rightarrow> int \<Rightarrow> str list" where
  "range_field field lo hi n = field_error
     [(n < lo, field @ '': greater_than_equal''), (hi < n, field @ '': less_than_equal'')]"

record submit_job =
  sj_project_id :: str
  sj_operation :: str
  sj_key :: str
  sj_request_hash :: str
  sj_plan :: str
  sj_source :: "str option"
  sj_epoch :: int
  sj_engine :: str
  sj_max_attempts :: int
  sj_available :: int
  sj_now :: int
  sj_run_id :: "str option"
  sj_job_id :: "str option"

definition submit_errors :: "submit_job \<Rightarrow> str list" where
  "submit_errors q = logical_field ''project_id'' (sj_project_id q) @ pattern_field ''operation_type'' operation_type (sj_operation q)
     @ size_field ''idempotency_key'' 1 128 (sj_key q) @ hash_field ''request_hash'' (sj_request_hash q)
     @ hash_field ''plan_fingerprint'' (sj_plan q) @ optional_field (hash_field ''source_fingerprint'') (sj_source q)
     @ least_field ''policy_epoch'' 0 (sj_epoch q) @ size_field ''engine_version'' 1 64 (sj_engine q)
     @ range_field ''max_attempts'' 1 1000 (sj_max_attempts q) @ least_field ''available_at_us'' 0 (sj_available q)
     @ least_field ''now_us'' 0 (sj_now q) @ optional_field (tag_field ''run_id'' ''run_'' 32) (sj_run_id q)
     @ optional_field (tag_field ''job_id'' ''job_'' 32) (sj_job_id q)"

definition submit_json :: "submit_job \<Rightarrow> json" where
  "submit_json q = JObj
     [(''project_id'', JStr (sj_project_id q)), (''operation_type'', JStr (sj_operation q)), (''idempotency_key'', JStr (sj_key q)),
      (''request_hash'', JStr (sj_request_hash q)), (''plan_fingerprint'', JStr (sj_plan q)),
      (''source_fingerprint'', json_option JStr (sj_source q)), (''policy_epoch'', JInt (sj_epoch q)),
      (''engine_version'', JStr (sj_engine q)), (''max_attempts'', JInt (sj_max_attempts q)),
      (''available_at_us'', JInt (sj_available q)), (''now_us'', JInt (sj_now q)), (''run_id'', json_option JStr (sj_run_id q)),
      (''job_id'', json_option JStr (sj_job_id q))]"

record claim_job =
  cl_owner :: str
  cl_now :: int
  cl_duration :: int
  cl_job_id :: "str option"

definition claim_errors :: "claim_job \<Rightarrow> str list" where
  "claim_errors q = pattern_field ''lease_owner'' lease_owner (cl_owner q) @ least_field ''now_us'' 0 (cl_now q)
     @ range_field ''lease_duration_us'' 1 max_lease_duration (cl_duration q)
     @ optional_field (tag_field ''job_id'' ''job_'' 32) (cl_job_id q)"

definition claim_json :: "claim_job \<Rightarrow> json" where
  "claim_json q = JObj [(''lease_owner'', JStr (cl_owner q)), (''now_us'', JInt (cl_now q)),
     (''lease_duration_us'', JInt (cl_duration q)), (''job_id'', json_option JStr (cl_job_id q))]"

text \<open>The fields of \<^verbatim>\<open>FencedJobMutation\<close>, which the requests of a running attempt share.\<close>

record fenced =
  fm_job_id :: str
  fm_owner :: str
  fm_token :: int
  fm_now :: int

definition fenced_errors :: "'a fenced_scheme \<Rightarrow> str list" where
  "fenced_errors q = tag_field ''job_id'' ''job_'' 32 (fm_job_id q) @ pattern_field ''lease_owner'' lease_owner (fm_owner q)
     @ least_field ''fencing_token'' 1 (fm_token q) @ least_field ''now_us'' 0 (fm_now q)"

definition fenced_members :: "'a fenced_scheme \<Rightarrow> (str \<times> json) list" where
  "fenced_members q = [(''job_id'', JStr (fm_job_id q)), (''lease_owner'', JStr (fm_owner q)),
     (''fencing_token'', JInt (fm_token q)), (''now_us'', JInt (fm_now q))]"

record renew_lease = fenced +
  rl_expires :: int

definition renew_errors :: "renew_lease \<Rightarrow> str list" where
  "renew_errors q = after_fields (fenced_errors q @ least_field ''lease_expires_at_us'' 0 (rl_expires q))
     [(rl_expires q \<le> fm_now q, ''new lease deadline must be in the future''),
      (max_lease_duration < rl_expires q - fm_now q, ''new lease duration exceeds its maximum'')]"

definition renew_json :: "renew_lease \<Rightarrow> json" where
  "renew_json q = JObj (fenced_members q @ [(''lease_expires_at_us'', JInt (rl_expires q))])"

record cancel_job =
  cj_job_id :: str
  cj_now :: int

definition cancel_errors :: "cancel_job \<Rightarrow> str list" where
  "cancel_errors q = tag_field ''job_id'' ''job_'' 32 (cj_job_id q) @ least_field ''now_us'' 0 (cj_now q)"

definition cancel_json :: "cancel_job \<Rightarrow> json" where
  "cancel_json q = JObj [(''job_id'', JStr (cj_job_id q)), (''now_us'', JInt (cj_now q))]"

record waiting_failure = cancel_job +
  wf_error :: "str option"

definition waiting_failure_errors :: "waiting_failure \<Rightarrow> str list" where
  "waiting_failure_errors q = tag_field ''job_id'' ''job_'' 32 (cj_job_id q) @ least_field ''now_us'' 0 (cj_now q)
     @ optional_field (pattern_field ''error_code'' reason_code) (wf_error q)"

definition waiting_failure_json :: "waiting_failure \<Rightarrow> json" where
  "waiting_failure_json q = JObj [(''job_id'', JStr (cj_job_id q)), (''now_us'', JInt (cj_now q)),
     (''error_code'', json_option JStr (wf_error q)), (''reason_code'', JStr ''WORKER_FATAL'')]"

text \<open>
  A failure of a running attempt. The enumerations of its reason, its phase and its cleanup issues reach the queue as
  their texts; \<open>retryable_codes\<close> and \<open>fatal_codes\<close> are the values of the two reason enumerations.
\<close>

definition retryable_codes :: "str list" where
  "retryable_codes = [''EXEC_REQUEST'', ''EXEC_TIMEOUT'', ''RUNNER_START_FAILED'', ''WORKER_INTERRUPTED'']"

definition fatal_codes :: "str list" where
  "fatal_codes = [''PROTOCOL_INVALID'', ''RUNNER_FATAL'', ''CLEANUP_FAILED'', ''WORKER_FATAL'']"

record job_failure = fenced +
  jf_reason :: str
  jf_error :: "str option"
  jf_phase :: "str option"
  jf_cause :: "str option"
  jf_cleanup :: "str list"

definition failure_errors :: "str list \<Rightarrow> job_failure \<Rightarrow> str list" where
  "failure_errors codes q = fenced_errors q @ field_error [(jf_reason q \<notin> set codes, ''reason_code: is_instance_of'')]
     @ optional_field (pattern_field ''error_code'' reason_code) (jf_error q)
     @ optional_field (pattern_field ''cause_code'' reason_code) (jf_cause q)
     @ size_field ''cleanup_issue_codes'' 0 4 (jf_cleanup q)"

definition failure_json :: "job_failure \<Rightarrow> json" where
  "failure_json q = JObj (fenced_members q @
     [(''reason_code'', JStr (jf_reason q)), (''error_code'', json_option JStr (jf_error q)),
      (''phase'', json_option JStr (jf_phase q)), (''cause_code'', json_option JStr (jf_cause q)),
      (''cleanup_issue_codes'', json_strings (jf_cleanup q))])"

datatype recovery_proof = EXECUTION_EXITED | CLEANUP_COMPLETED

datatype recovery_operator = WORKER_SUPERVISOR | RECOVERY_CONTROLLER

datatype recovery_reason = PROCESS_EXIT_CONFIRMED | CLEANUP_CONFIRMED

fun recovery_proof_value :: "recovery_proof \<Rightarrow> str" where
  "recovery_proof_value EXECUTION_EXITED = ''EXECUTION_EXITED''"
| "recovery_proof_value CLEANUP_COMPLETED = ''CLEANUP_COMPLETED''"

fun recovery_operator_value :: "recovery_operator \<Rightarrow> str" where
  "recovery_operator_value WORKER_SUPERVISOR = ''WORKER_SUPERVISOR''"
| "recovery_operator_value RECOVERY_CONTROLLER = ''RECOVERY_CONTROLLER''"

fun recovery_reason_value :: "recovery_reason \<Rightarrow> str" where
  "recovery_reason_value PROCESS_EXIT_CONFIRMED = ''PROCESS_EXIT_CONFIRMED''"
| "recovery_reason_value CLEANUP_CONFIRMED = ''CLEANUP_CONFIRMED''"

record confirm_recovery = fenced +
  cr_proof :: recovery_proof
  cr_operator :: recovery_operator
  cr_reason :: recovery_reason

definition recovery_errors :: "confirm_recovery \<Rightarrow> str list" where
  "recovery_errors q = after_fields (fenced_errors q)
     [(cr_reason q \<noteq> (case cr_proof q of EXECUTION_EXITED \<Rightarrow> PROCESS_EXIT_CONFIRMED | CLEANUP_COMPLETED \<Rightarrow> CLEANUP_CONFIRMED),
        ''recovery proof and reason code are inconsistent'')]"

definition recovery_json :: "confirm_recovery \<Rightarrow> json" where
  "recovery_json q = JObj (fenced_members q @
     [(''proof_type'', JStr (recovery_proof_value (cr_proof q))), (''operator'', JStr (recovery_operator_value (cr_operator q))),
      (''reason_code'', JStr (recovery_reason_value (cr_reason q)))])"

text \<open>
  \<open>validate_control_request\<close>: the request has the field errors given, its time fields are within the range of the
  database, and no text of it holds a secret.
\<close>

definition validate_control_request :: "str list \<Rightarrow> int list \<Rightarrow> json \<Rightarrow> str list \<Rightarrow> unit checked" where
  "validate_control_request es ts v secrets =
     (if es \<noteq> [] then Inl es
      else if list_ex (\<lambda>t. max_sqlite_integer < t) ts then Inl [''JOB_TIME_INVALID'']
      else if payload_unsafe secrets v then Inl [''JOB_SECRET''] else Inr ())"

subsection \<open>Times\<close>

definition checked_time_add :: "int \<Rightarrow> int \<Rightarrow> int checked" where
  "checked_time_add left right = (if max_sqlite_integer < left + right then Inl [''JOB_TIME_INVALID''] else Inr (left + right))"

record retry_policy =
  rp_base :: int
  rp_max :: int
  rp_jitter :: int

definition retry_policy_errors :: "retry_policy \<Rightarrow> str list" where
  "retry_policy_errors p = after_fields
     (range_field ''base_delay_us'' 1 max_retry_delay (rp_base p) @ range_field ''max_delay_us'' 1 max_retry_delay (rp_max p)
      @ range_field ''max_jitter_us'' 0 max_retry_delay (rp_jitter p))
     [(rp_max p < rp_base p, ''retry base delay exceeds maximum''), (rp_max p < rp_jitter p, ''retry jitter exceeds maximum'')]"

definition default_policy :: retry_policy where
  "default_policy = \<lparr>rp_base = 1000000, rp_max = 300000000, rp_jitter = 250000\<rparr>"

fun bit_length :: "nat \<Rightarrow> nat" where
  "bit_length n = (if n = 0 then 0 else Suc (bit_length (n div 2)))"

declare bit_length.simps [simp del]

definition base_delay :: "retry_policy \<Rightarrow> int \<Rightarrow> int" where
  "base_delay p attempt =
     (let e = nat (max (attempt - 1) 0) in
      if bit_length (nat (rp_max p)) \<le> e then rp_max p else min (rp_base p * 2 ^ e) (rp_max p))"

definition compute_retry_available_at :: "retry_policy \<Rightarrow> (int \<Rightarrow> int option) \<Rightarrow> int \<Rightarrow> int \<Rightarrow> int checked" where
  "compute_retry_available_at p jitter_source now attempt =
     (let base = base_delay p attempt; limit = min (rp_jitter p) (rp_max p - base) in
      andthen (if limit = 0 then Inr 0
               else case jitter_source (limit + 1) of
                   None \<Rightarrow> Inl [''JOB_RETRY_POLICY_INVALID'']
                 | Some t \<Rightarrow> if 0 \<le> t \<and> t \<le> limit then Inr t else Inl [''JOB_RETRY_POLICY_INVALID''])
        (\<lambda>t. checked_time_add now (base + t)))"

end
