(* ===== verification/JobStore.thy ===== *)
theory JobStore
  imports JobRequests
begin

section \<open>The job tables and their conditional updates\<close>

text \<open>
  Models the repositories of \<^verbatim>\<open>infrastructure/storage/execution\<close>: \<^verbatim>\<open>jobs.py\<close>, \<^verbatim>\<open>runs.py\<close> and
  \<^verbatim>\<open>job_control.py\<close>, on a database that holds the rows of the tables they touch. Every state change of
  a job is one \<^verbatim>\<open>UPDATE ... WHERE ... RETURNING\<close>, written once as \<open>cas_job\<close> with its condition and its
  assignment; the row is checked against the table on writing and against the record on reading.
  Frozen inputs of the other targets are rows with their fingerprint. A failure leaves the database
  as it was, since the unit of work rolls back. Failures of SQLite itself are not modelled.
\<close>

subsection \<open>The database\<close>

datatype job_target =
  Capture_Target | Load_Target | Preflight_Target | Preparation_Target | Recording_Target | Run_Target | Trial_Target

record recording_row =
  rr_recording :: recording
  rr_flow :: str
  rr_browser :: "(int \<times> json) list"

record frozen_input =
  fi_kind :: job_target
  fi_id :: str
  fi_project :: str
  fi_fingerprint :: str

record preparation =
  pr_id :: str
  pr_project :: str
  pr_fingerprint :: str
  pr_phase :: str
  pr_updated :: int

datatype asset_state = Asset_Pending | Asset_Complete | Asset_Incomplete | Asset_Cancelled

record asset =
  as_id :: str
  as_project :: str
  as_state :: asset_state
  as_content :: json

record capture =
  cp_id :: str
  cp_project :: str
  cp_fingerprint :: str
  cp_asset :: "str option"
  cp_restores :: bool
  cp_authorized :: bool
  cp_resolved :: "int option"
  cp_report :: "str option"

record database =
  db_projects :: "str list"
  db_runs :: "run list"
  db_jobs :: "job list"
  db_events :: "job_event list"
  db_recordings :: "recording_row list"
  db_inputs :: "frozen_input list"
  db_preparations :: "preparation list"
  db_captures :: "capture list"
  db_assets :: "asset list"

subsection \<open>Rows\<close>

definition job_row :: "database \<Rightarrow> str \<Rightarrow> job option" where
  "job_row db i = find (\<lambda>j. jb_job_id j = i) (db_jobs db)"

definition read_job :: "database \<Rightarrow> str \<Rightarrow> job option checked" where
  "read_job db i = (case job_row db i of None \<Rightarrow> Inr None | Some j \<Rightarrow> checked (job_errors j) (Some j))"

definition put_job :: "job \<Rightarrow> database \<Rightarrow> database" where
  "put_job j db = db\<lparr>db_jobs := map (\<lambda>k. if jb_job_id k = jb_job_id j then j else k) (db_jobs db)\<rparr>"

definition run_row :: "database \<Rightarrow> str \<Rightarrow> run option" where
  "run_row db i = find (\<lambda>r. rn_run_id r = i) (db_runs db)"

definition read_run :: "database \<Rightarrow> str \<Rightarrow> run option checked" where
  "read_run db i = (case run_row db i of None \<Rightarrow> Inr None | Some r \<Rightarrow> checked (run_errors r) (Some r))"

definition put_run :: "run \<Rightarrow> database \<Rightarrow> database" where
  "put_run r db = db\<lparr>db_runs := map (\<lambda>k. if rn_run_id k = rn_run_id r then r else k) (db_runs db)\<rparr>"

definition cas_job :: "(job \<Rightarrow> bool) \<Rightarrow> (job \<Rightarrow> job) \<Rightarrow> str \<Rightarrow> database \<Rightarrow> (database \<times> job option) checked" where
  "cas_job p f i db = (case job_row db i of
     None \<Rightarrow> Inr (db, None)
   | Some j \<Rightarrow>
       if \<not> p j then Inr (db, None)
       else if \<not> job_row_ok (f j) then Inl [''STORAGE_CONSTRAINT'']
       else let db' = put_job (f j) db in andthen (read_job db' i) (\<lambda>r. Inr (db', r)))"

definition cas_run :: "(run \<Rightarrow> bool) \<Rightarrow> (run \<Rightarrow> run) \<Rightarrow> str \<Rightarrow> database \<Rightarrow> (database \<times> bool) checked" where
  "cas_run p f i db = (case run_row db i of
     None \<Rightarrow> Inr (db, False)
   | Some r \<Rightarrow>
       if \<not> p r then Inr (db, False)
       else if \<not> run_row_ok (f r) then Inl [''STORAGE_CONSTRAINT''] else Inr (put_run (f r) db, True))"

subsection \<open>Submission and the queue\<close>

definition by_idempotency :: "database \<Rightarrow> str \<Rightarrow> str \<Rightarrow> str \<Rightarrow> job option checked" where
  "by_idempotency db project operation key =
     (case find (\<lambda>j. jb_project_id j = project \<and> jb_operation j = operation \<and> jb_key j = key) (db_jobs db) of
        None \<Rightarrow> Inr None
      | Some j \<Rightarrow> read_job db (jb_job_id j))"

definition operation_limit :: "str \<Rightarrow> int" where
  "operation_limit operation = (case map_of
     [(''CHECK'', 8), (''BROWSER_RECORDING'', 2), (''RUNTIME_LOAD'', 2), (''PROOF_PREFLIGHT'', 16), (''REFERENCE_CAPTURE'', 4),
      (''FLOW_TRIAL'', 8), (''IDENTITY_PREPARATION'', 2)] operation of None \<Rightarrow> 4 | Some n \<Rightarrow> n)"

definition waiting_jobs :: "database \<Rightarrow> job list" where
  "waiting_jobs db = filter (\<lambda>j. jb_state j \<in> waiting_states) (db_jobs db)"

definition queued :: "(job \<Rightarrow> bool) \<Rightarrow> database \<Rightarrow> int" where
  "queued p db = int (length (filter p (waiting_jobs db)))"

definition can_submit :: "database \<Rightarrow> str \<Rightarrow> str \<Rightarrow> bool" where
  "can_submit db project operation \<longleftrightarrow>
     queued (\<lambda>_. True) db < 128 \<and> queued (\<lambda>j. jb_project_id j = project) db < 32 \<and>
     queued (\<lambda>j. jb_project_id j = project \<and> jb_operation j = operation) db < operation_limit operation"

definition same_target :: "(job \<Rightarrow> str option) \<Rightarrow> job \<Rightarrow> job \<Rightarrow> bool" where
  "same_target f j k \<longleftrightarrow> f j \<noteq> None \<and> f j = f k"

definition job_insertable :: "database \<Rightarrow> job \<Rightarrow> bool" where
  \<comment> \<open>the unique constraints, the foreign keys and the checks of the table\<close>
  "job_insertable db j \<longleftrightarrow> job_row_ok j \<and> jb_project_id j \<in> set (db_projects db) \<and>
     list_all (\<lambda>k. jb_job_id k \<noteq> jb_job_id j \<and>
       (jb_project_id k, jb_operation k, jb_key k) \<noteq> (jb_project_id j, jb_operation j, jb_key j) \<and>
       \<not> list_ex (\<lambda>f. same_target f j k) [jb_run_id, jb_recording_id, jb_load_id, jb_preflight_id, jb_capture_id, jb_trial_id,
          jb_preparation_id]) (db_jobs db) \<and>
     absent_or (\<lambda>i. list_ex (\<lambda>r. rn_run_id r = i) (db_runs db)) (jb_run_id j) \<and>
     absent_or (\<lambda>i. list_ex (\<lambda>r. rc_recording_id (rr_recording r) = i) (db_recordings db)) (jb_recording_id j) \<and>
     list_all (\<lambda>(kind, i). absent_or (\<lambda>i. list_ex (\<lambda>x. fi_kind x = kind \<and> fi_id x = i) (db_inputs db)) i)
       [(Load_Target, jb_load_id j), (Preflight_Target, jb_preflight_id j), (Trial_Target, jb_trial_id j)] \<and>
     absent_or (\<lambda>i. list_ex (\<lambda>c. cp_id c = i) (db_captures db)) (jb_capture_id j)"

definition add_job :: "str list \<Rightarrow> job \<Rightarrow> database \<Rightarrow> database checked" where
  "add_job secrets j db =
     andthen (ensure_safe secrets (job_json j)) (\<lambda>_.
     andthen (by_idempotency db (jb_project_id j) (jb_operation j) (jb_key j)) (\<lambda>existing.
       if existing = None \<and> \<not> can_submit db (jb_project_id j) (jb_operation j) then Inl [''JOB_QUEUE_FULL'']
       else if \<not> job_insertable db j then Inl [''STORAGE_CONSTRAINT'']
       else Inr (db\<lparr>db_jobs := db_jobs db @ [j]\<rparr>)))"

definition add_run :: "str list \<Rightarrow> run \<Rightarrow> database \<Rightarrow> database checked" where
  "add_run secrets r db =
     andthen (ensure_safe secrets (run_json r)) (\<lambda>_.
       if \<not> run_row_ok r \<or> rn_project_id r \<notin> set (db_projects db) \<or> list_ex (\<lambda>k. rn_run_id k = rn_run_id r) (db_runs db)
       then Inl [''STORAGE_CONSTRAINT''] else Inr (db\<lparr>db_runs := db_runs db @ [r]\<rparr>))"

definition append_job_event :: "str list \<Rightarrow> job \<Rightarrow> job_event_type \<Rightarrow> job_state option \<Rightarrow> job_state option \<Rightarrow> int \<Rightarrow>
    (str \<times> json) list \<Rightarrow> database \<Rightarrow> database checked" where
  "append_job_event secrets j ty source target at metadata db =
     (let stored = filter (\<lambda>e. je_job_id e = jb_job_id j) (db_events db);
          e = \<lparr>je_job_id = jb_job_id j, je_sequence = int (length stored) + 1, je_type = ty, je_source = source,
               je_target = target, je_at = at, je_metadata = metadata\<rparr> in
      andthen (checked (first_failure (map job_event_errors stored)) ()) (\<lambda>_.
      andthen (checked (job_event_errors e) ()) (\<lambda>_.
      andthen (ensure_safe secrets (job_event_json e)) (\<lambda>_.
        if je_sequence e \<noteq> fold max (map je_sequence stored) 0 + 1 then Inl [''STORAGE_CONSTRAINT'']
        else if job_row db (jb_job_id j) = None \<or> 4096 < length (render (JObj metadata)) then Inl [''STORAGE_CONSTRAINT'']
        else Inr (db\<lparr>db_events := db_events db @ [e]\<rparr>)))))"

subsection \<open>Claims and leases\<close>

definition target_claimable :: "job_target list \<Rightarrow> database \<Rightarrow> job \<Rightarrow> bool" where
  "target_claimable types db j \<longleftrightarrow>
     Run_Target \<in> set types \<and> given (\<lambda>i. given (\<lambda>r. rn_lifecycle r \<in> open_runs \<and> rn_verdict r = None) (run_row db i)) (jb_run_id j) \<or>
     Recording_Target \<in> set types \<and> given (\<lambda>i. given (\<lambda>r. rc_state (rr_recording r) \<in> {CREATED, STARTING})
         (find (\<lambda>r. rc_recording_id (rr_recording r) = i) (db_recordings db))) (jb_recording_id j) \<or>
     Load_Target \<in> set types \<and> jb_load_id j \<noteq> None \<and> jb_operation j = ''RUNTIME_LOAD'' \<or>
     Preflight_Target \<in> set types \<and> jb_preflight_id j \<noteq> None \<and> jb_operation j = ''PROOF_PREFLIGHT'' \<or>
     Trial_Target \<in> set types \<and> jb_trial_id j \<noteq> None \<and> jb_operation j = ''FLOW_TRIAL'' \<or>
     Capture_Target \<in> set types \<and> jb_capture_id j \<noteq> None \<and> jb_operation j = ''REFERENCE_CAPTURE'' \<or>
     Preparation_Target \<in> set types \<and> jb_preparation_id j \<noteq> None \<and> jb_operation j = ''IDENTITY_PREPARATION''"

definition eligible :: "job_target list \<Rightarrow> int \<Rightarrow> database \<Rightarrow> job \<Rightarrow> bool" where
  "eligible types now db j \<longleftrightarrow> jb_state j \<in> waiting_states \<and> jb_available j \<le> now \<and> jb_cancel j = None \<and>
     jb_attempt j < jb_max_attempts j \<and> jb_owner j = None \<and> jb_expires j = None \<and> jb_updated j \<le> now \<and>
     target_claimable types db j"

definition claim_order :: "job \<Rightarrow> int \<times> int \<times> str" where
  "claim_order j = (jb_available j, jb_created j, jb_job_id j)"

definition claimed_row :: "str \<Rightarrow> int \<Rightarrow> int \<Rightarrow> job \<Rightarrow> job" where
  "claimed_row owner now expires j = j\<lparr>jb_state := Running, jb_attempt := jb_attempt j + 1, jb_token := jb_token j + 1,
     jb_owner := Some owner, jb_expires := Some expires, jb_updated := now\<rparr>"

definition claim_row :: "str option \<Rightarrow> str \<Rightarrow> int \<Rightarrow> int \<Rightarrow> job_target list \<Rightarrow> database \<Rightarrow> (database \<times> job option) checked" where
  "claim_row i owner now expires types db =
     (case sort_key claim_order (filter (\<lambda>j. eligible types now db j \<and> absent_or (\<lambda>i. jb_job_id j = i) i) (db_jobs db)) of
        [] \<Rightarrow> Inr (db, None)
      | j # _ \<Rightarrow> cas_job (\<lambda>_. True) (claimed_row owner now expires) (jb_job_id j) db)"

definition advance_run :: "str \<Rightarrow> int \<Rightarrow> database \<Rightarrow> (database \<times> run option) checked" where
  "advance_run i now db =
     andthen (cas_run (\<lambda>r. rn_lifecycle r = Run_Queued \<and> rn_verdict r = None \<and> rn_updated r \<le> now)
        (\<lambda>r. r\<lparr>rn_lifecycle := Run_Running, rn_updated := now\<rparr>) i db) (\<lambda>(db', _).
     andthen (read_run db' i) (\<lambda>r. Inr (db', if given (\<lambda>r. rn_lifecycle r = Run_Running) r then r else None)))"

definition holds_lease :: "str \<Rightarrow> int \<Rightarrow> job \<Rightarrow> bool" where
  "holds_lease owner token j \<longleftrightarrow> jb_state j = Running \<and> jb_owner j = Some owner \<and> jb_token j = token"

definition renew_row :: "str \<Rightarrow> str \<Rightarrow> int \<Rightarrow> int \<Rightarrow> int \<Rightarrow> database \<Rightarrow> (database \<times> job option) checked" where
  "renew_row i owner token now expires = cas_job
     (\<lambda>j. holds_lease owner token j \<and> given (\<lambda>t. now < t \<and> t < expires) (jb_expires j) \<and> jb_updated j \<le> now)
     (\<lambda>j. j\<lparr>jb_expires := Some expires, jb_updated := now\<rparr>) i"

definition set_cancel :: "str \<Rightarrow> int \<Rightarrow> database \<Rightarrow> (database \<times> job option \<times> bool) checked" where
  "set_cancel i now db =
     andthen (cas_job (\<lambda>j. jb_state j \<notin> ended_states \<and> jb_cancel j = None \<and> jb_updated j \<le> now)
        (\<lambda>j. j\<lparr>jb_cancel := Some now, jb_updated := now\<rparr>) i db) (\<lambda>(db', r).
        case r of
          Some j \<Rightarrow> Inr (db', Some j, True)
        | None \<Rightarrow> andthen (read_job db' i) (\<lambda>r. Inr (db', r, False)))"

definition cancel_waiting_row :: "str \<Rightarrow> int \<Rightarrow> database \<Rightarrow> (database \<times> job option) checked" where
  "cancel_waiting_row i now = cas_job
     (\<lambda>j. jb_state j \<in> waiting_states \<and> jb_cancel j \<noteq> None \<and> jb_updated j \<le> now)
     (\<lambda>j. j\<lparr>jb_state := Cancelled, jb_updated := now\<rparr>) i"

definition fail_waiting_row :: "str \<Rightarrow> int \<Rightarrow> database \<Rightarrow> (database \<times> job option) checked" where
  "fail_waiting_row i now = cas_job
     (\<lambda>j. jb_state j \<in> waiting_states \<and> jb_owner j = None \<and> jb_expires j = None \<and> jb_cancel j = None \<and> jb_updated j \<le> now)
     (\<lambda>j. j\<lparr>jb_state := Failed, jb_updated := now\<rparr>) i"

definition released :: "job_state \<Rightarrow> int option \<Rightarrow> int \<Rightarrow> job \<Rightarrow> job" where
  "released target available now j = j\<lparr>jb_state := target, jb_owner := None, jb_expires := None, jb_updated := now,
     jb_available := (case available of None \<Rightarrow> jb_available j | Some t \<Rightarrow> t)\<rparr>"

definition finish_running :: "str \<Rightarrow> str \<Rightarrow> int \<Rightarrow> int \<Rightarrow> job_state \<Rightarrow> int option \<Rightarrow> bool \<Rightarrow> bool \<Rightarrow> database \<Rightarrow>
    (database \<times> job option) checked" where
  "finish_running i owner token now target available require_cancel require_expired = cas_job
     (\<lambda>j. holds_lease owner token j \<and> jb_updated j \<le> now \<and>
        given (\<lambda>t. if require_expired then t \<le> now else now < t) (jb_expires j) \<and> (require_cancel \<longrightarrow> jb_cancel j \<noteq> None))
     (released target available now) i"

definition complete_cancelled :: "str \<Rightarrow> str \<Rightarrow> int \<Rightarrow> int \<Rightarrow> database \<Rightarrow> (database \<times> job option) checked" where
  "complete_cancelled i owner token now = finish_running i owner token now Cancelled None True False"

definition record_running_failure :: "str \<Rightarrow> str \<Rightarrow> int \<Rightarrow> int \<Rightarrow> job_state \<Rightarrow> int option \<Rightarrow> database \<Rightarrow>
    (database \<times> job option) checked" where
  "record_running_failure i owner token now target available db =
     (if target \<notin> {Retry_Wait, Failed} then Inl [''STORAGE_STATE'']
      else finish_running i owner token now target available False False db)"

definition recover_row :: "str \<Rightarrow> str \<Rightarrow> int \<Rightarrow> int \<Rightarrow> job_state \<Rightarrow> int option \<Rightarrow> database \<Rightarrow> (database \<times> job option) checked" where
  "recover_row i owner token now target available db =
     (if target \<notin> {Retry_Wait, Failed, Cancelled} then Inl [''STORAGE_STATE'']
      else finish_running i owner token now target available (target = Cancelled) True db)"

definition has_target :: "job_target list \<Rightarrow> job \<Rightarrow> bool" where
  "has_target types j \<longleftrightarrow> list_ex (\<lambda>(t, i). t \<in> set types \<and> i \<noteq> None)
     [(Run_Target, jb_run_id j), (Recording_Target, jb_recording_id j), (Load_Target, jb_load_id j),
      (Preflight_Target, jb_preflight_id j), (Capture_Target, jb_capture_id j), (Trial_Target, jb_trial_id j),
      (Preparation_Target, jb_preparation_id j)]"

definition expired_order :: "job \<Rightarrow> int \<times> int \<times> str" where
  "expired_order j = (case jb_expires j of None \<Rightarrow> 0 | Some t \<Rightarrow> t, jb_created j, jb_job_id j)"

definition list_expired_running :: "int \<Rightarrow> nat \<Rightarrow> job_target list \<Rightarrow> database \<Rightarrow> job list checked" where
  "list_expired_running now limit types db = map_sum id (map the \<circ> filter (\<lambda>r. r \<noteq> None))
     (traverse (\<lambda>j. read_job db (jb_job_id j))
       (take limit (sort_key expired_order (filter (\<lambda>j. jb_state j = Running \<and> given (\<lambda>t. t \<le> now) (jb_expires j) \<and>
          has_target types j) (db_jobs db)))))"

subsection \<open>The end of a run\<close>

definition end_run :: "str \<Rightarrow> run_lifecycle \<Rightarrow> int \<Rightarrow> database \<Rightarrow> (database \<times> run option) checked" where
  "end_run i target now db =
     (if target \<notin> {Run_Failed, Run_Cancelled} then Inl [''STORAGE_STATE'']
      else andthen (cas_run (\<lambda>r. rn_lifecycle r \<in> open_runs \<and> rn_verdict r = None \<and> rn_updated r \<le> now)
          (\<lambda>r. r\<lparr>rn_lifecycle := target, rn_verdict := None, rn_updated := now, rn_finished := Some now\<rparr>) i db)
        (\<lambda>(db', changed). if changed then andthen (read_run db' i) (\<lambda>r. Inr (db', r)) else Inr (db', None)))"

record publication =
  pb_job_id :: str
  pb_run_id :: str
  pb_attempt :: int
  pb_owner :: str
  pb_token :: int
  pb_lifecycle :: run_lifecycle
  pb_verdict :: "run_verdict option"
  pb_completed :: int
  pb_active_lease :: bool
  pb_request_hash :: "str option"
  pb_published :: "int option"

definition publication_conditions :: "publication \<Rightarrow> job \<Rightarrow> bool" where
  "publication_conditions p j \<longleftrightarrow>
     jb_run_id j = Some (pb_run_id p) \<and> holds_lease (pb_owner p) (pb_token p) j \<and> jb_attempt j = pb_attempt p \<and>
     jb_updated j \<le> pb_completed p \<and>
     absent_or (\<lambda>h. jb_request_hash j = h \<and> jb_operation j = ''CHECK'' \<and> jb_cancel j = None) (pb_request_hash p) \<and>
     absent_or (\<lambda>t. given (\<lambda>e. t < e) (jb_expires j)) (pb_published p) \<and>
     (pb_active_lease p \<or> pb_request_hash p \<noteq> None \<and> pb_published p = None \<longrightarrow> given (\<lambda>e. pb_completed p < e) (jb_expires j))"

definition complete_published_result :: "publication \<Rightarrow> database \<Rightarrow> (database \<times> (job \<times> run) option) checked" where
  "complete_published_result p db =
     (if pb_lifecycle p \<notin> {Run_Completed, Run_Stopped} then Inl [''STORAGE_STATE'']
      else if pb_lifecycle p = Run_Completed \<and> pb_verdict p = None \<or>
              pb_lifecycle p = Run_Stopped \<and> pb_verdict p \<notin> {None, Some BLOCK, Some RUN_INCONCLUSIVE} then Inl [''STORAGE_STATE'']
      else if pb_request_hash p \<noteq> None \<and> pb_verdict p = None then Inl [''STORAGE_STATE'']
      else if given (\<lambda>t. pb_request_hash p = None \<or> \<not> (0 \<le> t \<and> t \<le> pb_completed p)) (pb_published p) then Inl [''STORAGE_STATE'']
      else andthen (cas_job (publication_conditions p) (released Succeeded None (pb_completed p)) (pb_job_id p) db) (\<lambda>(db', j).
        case j of
          None \<Rightarrow> Inr (db, None)
        | Some j \<Rightarrow>
            andthen (cas_run (\<lambda>r. rn_lifecycle r \<in> open_runs \<and> rn_verdict r = None \<and> rn_updated r \<le> pb_completed p)
                (\<lambda>r. r\<lparr>rn_lifecycle := pb_lifecycle p, rn_verdict := pb_verdict p, rn_updated := pb_completed p,
                   rn_finished := Some (pb_completed p)\<rparr>) (pb_run_id p) db') (\<lambda>(db'', changed).
              if \<not> changed then Inl [''STORAGE_STATE'']
              else andthen (read_run db'' (pb_run_id p)) (\<lambda>r. case r of
                  None \<Rightarrow> Inl [''STORAGE_STATE''] | Some r \<Rightarrow> Inr (db'', Some (j, r))))))"

text \<open>
  The other targets end with one update of the job. \<open>completion\<close> holds what the five methods with a request hash compare
  beyond the lease; a recording compares its target alone.
\<close>

record completion =
  co_job_id :: str
  co_target :: job_target
  co_target_id :: str
  co_request_hash :: str
  co_attempt :: int
  co_owner :: str
  co_token :: int
  co_now :: int
  co_active_lease :: bool
  co_details :: "(str \<times> json) list"

definition target_operation :: "job_target \<Rightarrow> str" where
  "target_operation t = (case t of Load_Target \<Rightarrow> ''RUNTIME_LOAD'' | Preflight_Target \<Rightarrow> ''PROOF_PREFLIGHT''
     | Preparation_Target \<Rightarrow> ''IDENTITY_PREPARATION'' | Capture_Target \<Rightarrow> ''REFERENCE_CAPTURE'' | Trial_Target \<Rightarrow> ''FLOW_TRIAL''
     | Run_Target \<Rightarrow> ''CHECK'' | Recording_Target \<Rightarrow> ''BROWSER_RECORDING'')"

definition target_id :: "job_target \<Rightarrow> job \<Rightarrow> str option" where
  "target_id t j = (case t of Run_Target \<Rightarrow> jb_run_id j | Recording_Target \<Rightarrow> jb_recording_id j | Load_Target \<Rightarrow> jb_load_id j
     | Preflight_Target \<Rightarrow> jb_preflight_id j | Capture_Target \<Rightarrow> jb_capture_id j | Preparation_Target \<Rightarrow> jb_preparation_id j
     | Trial_Target \<Rightarrow> jb_trial_id j)"

definition lease_window :: "bool \<Rightarrow> int \<Rightarrow> job \<Rightarrow> bool" where
  "lease_window active now j \<longleftrightarrow> (if active then given (\<lambda>e. now < e) (jb_expires j) else jb_expires j \<noteq> None)"

definition complete_frozen :: "completion \<Rightarrow> database \<Rightarrow> (database \<times> job option) checked" where
  "complete_frozen c = cas_job
     (\<lambda>j. target_id (co_target c) j = Some (co_target_id c) \<and> jb_operation j = target_operation (co_target c) \<and>
        jb_request_hash j = co_request_hash c \<and> holds_lease (co_owner c) (co_token c) j \<and> jb_attempt j = co_attempt c \<and>
        lease_window (co_active_lease c) (co_now c) j \<and> jb_updated j \<le> co_now c \<and> jb_cancel j = None)
     (released Succeeded None (co_now c)) (co_job_id c)"

definition complete_recording :: "completion \<Rightarrow> database \<Rightarrow> (database \<times> job option) checked" where
  "complete_recording c = cas_job
     (\<lambda>j. jb_recording_id j = Some (co_target_id c) \<and> jb_run_id j = None \<and> holds_lease (co_owner c) (co_token c) j \<and>
        jb_attempt j = co_attempt c \<and> lease_window True (co_now c) j \<and> jb_updated j \<le> co_now c)
     (released Succeeded None (co_now c)) (co_job_id c)"

end
