(* ===== verification/JobTargets.thy ===== *)
theory JobTargets
  imports JobStore
begin

section \<open>What a job acts on\<close>

text \<open>
  Models \<^verbatim>\<open>infrastructure/runtime/jobs/targets.py\<close>, the target handler of \<^verbatim>\<open>jobs/recording.py\<close> and the parts
  of the recording, preparation and artifact repositories they call. A handler checks that a job and
  its target belong together, follows a claim and ends the target with its job. The documents of the
  frozen targets are represented by their fingerprints, browser events by sequence number and content.
\<close>

subsection \<open>Recordings in the database\<close>

fun recording_state_value :: "recording_state \<Rightarrow> str" where
  "recording_state_value CREATED = ''CREATED''"
| "recording_state_value STARTING = ''STARTING''"
| "recording_state_value RECORDING = ''RECORDING''"
| "recording_state_value CLEANING = ''CLEANING''"
| "recording_state_value PROCESSING = ''PROCESSING''"
| "recording_state_value PENDING_REVIEW = ''PENDING_REVIEW''"
| "recording_state_value COMPLETED = ''COMPLETED''"
| "recording_state_value RECORDING_FAILED = ''FAILED''"
| "recording_state_value RECORDING_CANCELLED = ''CANCELLED''"
| "recording_state_value RECORDING_STOPPED = ''SAFETY_STOPPED''"

definition recording_purpose_value :: "recording_purpose \<Rightarrow> str" where
  "recording_purpose_value p = (case p of TARGET_RECORDING \<Rightarrow> ''TARGET'' | OBSERVATION_RECORDING \<Rightarrow> ''OBSERVATION''
     | RECOVERY_RECORDING \<Rightarrow> ''RECOVERY'')"

definition state_event_json :: "state_event \<Rightarrow> json" where
  "state_event_json e = JObj
     [(''sequence'', JInt (se_sequence e)), (''source'', JStr (recording_state_value (se_source e))),
      (''target'', JStr (recording_state_value (se_target e))), (''operator'', JStr (se_operator e)),
      (''occurred_at_us'', JInt (se_at e)), (''reason_code'', json_option JStr (se_reason e))]"

definition recording_row_json :: "recording_row \<Rightarrow> json" where
  "recording_row_json rr = (let r = rr_recording rr in JObj
     [(''recording_id'', JStr (rc_recording_id r)), (''project_id'', JStr (rc_project_id r)),
      (''business_action_id'', JStr (rc_action_id r)), (''action_revision'', JInt (rc_action_revision r)),
      (''subject_test_identity_id'', JStr (rc_subject r)), (''resource_owner_test_identity_id'', JStr (rc_owner r)),
      (''purpose'', JStr (recording_purpose_value (rc_purpose r))), (''parent_recording_id'', json_option JStr (rc_parent r)),
      (''effect_id'', json_option JStr (rc_effect r)), (''flow_id'', JStr (rr_flow rr)),
      (''state'', JStr (recording_state_value (rc_state r))), (''created_at_us'', JInt (rc_created r)),
      (''updated_at_us'', JInt (rc_updated r)), (''preparation_source_fingerprint'', JStr (rc_source r)),
      (''started_at_us'', json_option JInt (rc_started r)), (''capture_finished_at_us'', json_option JInt (rc_captured r)),
      (''finished_at_us'', json_option JInt (rc_finished r)),
      (''pending_terminal_state'', json_option (JStr \<circ> recording_state_value \<circ> end_state) (rc_pending r)),
      (''reason_codes'', json_strings (rc_reasons r)), (''state_events'', JArr (map state_event_json (rc_events r))),
      (''browser_events'', JArr (map snd (rr_browser rr)))])"

definition recording_row_errors :: "recording_row \<Rightarrow> str list" where
  "recording_row_errors rr = after_fields
     (recording_field_errors (rr_recording rr) @ logical_field ''flow_id'' (rr_flow rr)
      @ size_field ''browser_events'' 0 10000 (rr_browser rr))
     (recording_guards (rr_recording rr)
      @ [(map fst (rr_browser rr) \<noteq> map int [1..<Suc (length (rr_browser rr))],
          ''recording browser event sequence must be continuous'')])"

definition between :: "nat \<Rightarrow> nat \<Rightarrow> 'a list \<Rightarrow> bool" where
  "between lo hi xs \<longleftrightarrow> lo \<le> length xs \<and> length xs \<le> hi"

definition recording_row_ok :: "recording_row \<Rightarrow> bool" where
  "recording_row_ok rr \<longleftrightarrow> (let r = rr_recording rr in
     1 \<le> rc_action_revision r \<and>
     (case rc_purpose r of TARGET_RECORDING \<Rightarrow> rc_parent r = None \<and> rc_effect r = None
        | OBSERVATION_RECORDING \<Rightarrow> rc_parent r \<noteq> None \<and> rc_effect r \<noteq> None
        | RECOVERY_RECORDING \<Rightarrow> rc_parent r \<noteq> None \<and> rc_effect r = None) \<and>
     tagged ''rec_'' 32 (rc_recording_id r) \<and> intent_id (rr_flow rr) \<and>
     0 \<le> rc_created r \<and> rc_created r \<le> rc_updated r \<and> absent_or (\<lambda>t. rc_created r \<le> t) (rc_started r) \<and>
     absent_or (\<lambda>c. absent_or (\<lambda>t. t \<le> c) (rc_started r)) (rc_captured r) \<and>
     absent_or (\<lambda>t. rc_updated r \<le> t) (rc_finished r) \<and>
     (rc_state r \<in> terminal_states) = (rc_finished r \<noteq> None) \<and>
     between 2 8192 (render (json_strings (rc_reasons r))) \<and>
     between 2 131072 (render (JArr (map state_event_json (rc_events r)))) \<and>
     between 2 4194304 (render (JArr (map snd (rr_browser rr)))))"

definition recording_row :: "database \<Rightarrow> str \<Rightarrow> recording_row option" where
  "recording_row db i = find (\<lambda>r. rc_recording_id (rr_recording r) = i) (db_recordings db)"

definition read_recording :: "database \<Rightarrow> str \<Rightarrow> recording_row option checked" where
  "read_recording db i = (case recording_row db i of None \<Rightarrow> Inr None | Some r \<Rightarrow> checked (recording_row_errors r) (Some r))"

definition put_recording :: "recording_row \<Rightarrow> database \<Rightarrow> database" where
  "put_recording rr db = db\<lparr>db_recordings :=
     map (\<lambda>k. if rc_recording_id (rr_recording k) = rc_recording_id (rr_recording rr) then rr else k) (db_recordings db)\<rparr>"

definition same_origin :: "recording_row \<Rightarrow> recording_row \<Rightarrow> bool" where
  "same_origin a b \<longleftrightarrow> (let r = rr_recording a; s = rr_recording b in
     rc_project_id r = rc_project_id s \<and> rc_action_id r = rc_action_id s \<and> rc_action_revision r = rc_action_revision s \<and>
     rc_subject r = rc_subject s \<and> rc_owner r = rc_owner s \<and> rc_purpose r = rc_purpose s \<and> rc_parent r = rc_parent s \<and>
     rc_effect r = rc_effect s \<and> rr_flow a = rr_flow b \<and> rc_source r = rc_source s)"

definition replace_recording :: "str list \<Rightarrow> recording_row \<Rightarrow> database \<Rightarrow> database checked" where
  "replace_recording secrets rr db =
     andthen (ensure_safe secrets (recording_row_json rr)) (\<lambda>_.
       case recording_row db (rc_recording_id (rr_recording rr)) of
         None \<Rightarrow> Inl [''STORAGE_CONSTRAINT'']
       | Some old \<Rightarrow> if \<not> same_origin old rr \<or> \<not> recording_row_ok rr then Inl [''STORAGE_CONSTRAINT''] else Inr (put_recording rr db))"

subsection \<open>Handlers\<close>

datatype job_outcome = Outcome_Cancelled | Outcome_Failed

type_synonym target_view = "run option \<times> recording_row option"

definition target_of :: "job \<Rightarrow> job_target checked" where
  "target_of j =
     (if jb_trial_id j \<noteq> None then Inr Trial_Target
      else if jb_preparation_id j \<noteq> None then Inr Preparation_Target
      else if jb_capture_id j \<noteq> None then Inr Capture_Target
      else if jb_preflight_id j \<noteq> None then Inr Preflight_Target
      else if jb_load_id j \<noteq> None \<and> jb_run_id j = None \<and> jb_recording_id j = None then Inr Load_Target
      else if jb_run_id j \<noteq> None \<and> jb_recording_id j = None then Inr Run_Target
      else if jb_recording_id j \<noteq> None \<and> jb_run_id j = None then Inr Recording_Target
      else Inl [''JOB_PERSISTENCE''])"

definition resolve_target :: "job_target list \<Rightarrow> job \<Rightarrow> job_target checked" where
  "resolve_target types j =
     andthen (target_of j) (\<lambda>t. if t \<in> set types then Inr t else Inl [''JOB_PERSISTENCE''])"

definition load_run :: "job \<Rightarrow> database \<Rightarrow> run checked" where
  "load_run j db = (case (jb_run_id j, jb_recording_id j) of
     (Some i, None) \<Rightarrow> andthen (read_run db i) (\<lambda>r. case r of
         None \<Rightarrow> Inl [''JOB_PERSISTENCE'']
       | Some r \<Rightarrow>
           if jb_operation j \<noteq> ''CHECK'' \<or> rn_project_id r \<noteq> jb_project_id j \<or> rn_request_hash r \<noteq> jb_request_hash j
           then Inl [''JOB_REQUEST_CONFLICT''] else Inr r)
   | _ \<Rightarrow> Inl [''JOB_PERSISTENCE''])"

definition load_recording :: "job \<Rightarrow> database \<Rightarrow> recording_row checked" where
  "load_recording j db = (case (jb_recording_id j, jb_run_id j) of
     (Some i, None) \<Rightarrow> andthen (read_recording db i) (\<lambda>r. case r of None \<Rightarrow> Inl [''JOB_PERSISTENCE''] | Some r \<Rightarrow> Inr r)
   | _ \<Rightarrow> Inl [''JOB_PERSISTENCE''])"

definition frozen_row :: "job_target \<Rightarrow> database \<Rightarrow> str \<Rightarrow> frozen_input option" where
  "frozen_row kind db i = find (\<lambda>x. fi_kind x = kind \<and> fi_id x = i) (db_inputs db)"

definition capture_of :: "job \<Rightarrow> database \<Rightarrow> capture option" where
  "capture_of j db = Option.bind (jb_capture_id j)
     (\<lambda>i. Option.bind (find (\<lambda>c. cp_id c = i) (db_captures db)) (\<lambda>c. if cp_project c = jb_project_id j then Some c else None))"

definition frozen_matches :: "job_target \<Rightarrow> job \<Rightarrow> database \<Rightarrow> bool" where
  \<comment> \<open>the stored input of the job is there, belongs to its project and has the fingerprint the job was submitted with\<close>
  "frozen_matches t j db \<longleftrightarrow> (case t of
     Preflight_Target \<Rightarrow> jb_operation j = ''PROOF_PREFLIGHT'' \<and> given (\<lambda>i. given (\<lambda>x. fi_project x = jb_project_id j \<and>
         fi_fingerprint x = jb_request_hash j) (frozen_row t db i)) (jb_preflight_id j)
   | Load_Target \<Rightarrow> jb_run_id j = None \<and> jb_recording_id j = None \<and> jb_operation j = ''RUNTIME_LOAD'' \<and>
       given (\<lambda>i. given (\<lambda>x. fi_project x = jb_project_id j \<and> fi_fingerprint x = jb_request_hash j) (frozen_row t db i)) (jb_load_id j)
   | Trial_Target \<Rightarrow> given (\<lambda>i. given (\<lambda>x. fi_project x = jb_project_id j \<and> fi_fingerprint x = jb_request_hash j)
       (frozen_row t db i)) (jb_trial_id j)
   | Preparation_Target \<Rightarrow> given (\<lambda>i. given (\<lambda>p. pr_project p = jb_project_id j \<and> pr_fingerprint p = jb_request_hash j)
       (find (\<lambda>p. pr_id p = i) (db_preparations db))) (jb_preparation_id j)
   | Capture_Target \<Rightarrow> jb_operation j = ''REFERENCE_CAPTURE'' \<and> jb_max_attempts j = 1 \<and>
       given (\<lambda>c. cp_fingerprint c = jb_request_hash j) (capture_of j db)
   | _ \<Rightarrow> False)"

definition load_target :: "job_target list \<Rightarrow> job \<Rightarrow> database \<Rightarrow> target_view checked" where
  "load_target types j db = andthen (resolve_target types j) (\<lambda>t. case t of
     Run_Target \<Rightarrow> andthen (load_run j db) (\<lambda>r. Inr (Some r, None))
   | Recording_Target \<Rightarrow> andthen (load_recording j db) (\<lambda>r. Inr (None, Some r))
   | _ \<Rightarrow> if frozen_matches t j db then Inr (None, None) else Inl [''JOB_REQUEST_CONFLICT''])"

subsection \<open>After a claim\<close>

definition rebuilt :: "recording_row \<Rightarrow> recording \<Rightarrow> recording_row checked" where
  "rebuilt rr r = (let new = rr\<lparr>rr_recording := r\<rparr> in checked (recording_row_errors new) new)"

definition start_recording :: "str list \<Rightarrow> job \<Rightarrow> int \<Rightarrow> database \<Rightarrow> (database \<times> recording_row) checked" where
  "start_recording secrets j now db = andthen (load_recording j db) (\<lambda>rr.
     if rc_state (rr_recording rr) = CREATED then
       andthen (transition_recording_state (rr_recording rr) (Some STARTING) ''WORKER'' now None None) (\<lambda>r.
       andthen (rebuilt rr r) (\<lambda>new. andthen (replace_recording secrets new db) (\<lambda>db'. Inr (db', new))))
     else if rc_state (rr_recording rr) \<noteq> STARTING then Inl [''JOB_PERSISTENCE''] else Inr (db, rr))"

definition advance_target :: "str list \<Rightarrow> job_target list \<Rightarrow> job \<Rightarrow> int \<Rightarrow> database \<Rightarrow> (database \<times> target_view) checked" where
  "advance_target secrets types j now db = andthen (resolve_target types j) (\<lambda>t. case t of
     Run_Target \<Rightarrow> andthen (load_run j db) (\<lambda>_. case jb_run_id j of
         None \<Rightarrow> Inl [''JOB_PERSISTENCE'']
       | Some i \<Rightarrow> andthen (advance_run i now db) (\<lambda>(db', r).
           case r of None \<Rightarrow> Inl [''JOB_PERSISTENCE''] | Some r \<Rightarrow> Inr (db', (Some r, None))))
   | Recording_Target \<Rightarrow> andthen (start_recording secrets j now db) (\<lambda>(db', rr). Inr (db', (None, Some rr)))
   | Capture_Target \<Rightarrow>
       if \<not> frozen_matches t j db then Inl [''JOB_REQUEST_CONFLICT'']
       else if given cp_authorized (capture_of j db) then Inr (db, (None, None)) else Inl [''STATE_PRECONDITION'']
   | _ \<Rightarrow> if frozen_matches t j db then Inr (db, (None, None)) else Inl [''JOB_REQUEST_CONFLICT''])"

subsection \<open>At the end\<close>

definition outcome_end :: "job_outcome \<Rightarrow> recording_end" where
  "outcome_end outcome = (case outcome of Outcome_Cancelled \<Rightarrow> END_CANCELLED | Outcome_Failed \<Rightarrow> END_FAILED)"

definition outcome_reason :: "job_outcome \<Rightarrow> str" where
  "outcome_reason outcome = (case outcome of Outcome_Cancelled \<Rightarrow> ''CANCEL_REQUESTED'' | Outcome_Failed \<Rightarrow> ''PROCESSING_FAILED'')"

definition ended_recording :: "recording \<Rightarrow> int \<Rightarrow> job_outcome \<Rightarrow> recording checked" where
  "ended_recording r now outcome =
     (let final = (\<lambda>r. transition_recording_state r (Some (end_state (outcome_end outcome))) ''WORKER'' now (Some (outcome_reason outcome)) None) in
      if rc_state r = CREATED \<or> rc_state r = CLEANING then final r
      else andthen (transition_recording_state r (Some CLEANING) ''WORKER'' now (Some (outcome_reason outcome)) (Some (outcome_end outcome))) final)"

definition finish_recording :: "str list \<Rightarrow> job \<Rightarrow> int \<Rightarrow> job_outcome \<Rightarrow> database \<Rightarrow> (database \<times> recording_row) checked" where
  "finish_recording secrets j now outcome db = andthen (load_recording j db) (\<lambda>rr.
     andthen (ended_recording (rr_recording rr) now outcome) (\<lambda>r.
     andthen (rebuilt rr r) (\<lambda>new. andthen (replace_recording secrets new db) (\<lambda>db'. Inr (db', new)))))"

definition finish_preparation :: "str \<Rightarrow> int \<Rightarrow> job_outcome \<Rightarrow> database \<Rightarrow> database" where
  "finish_preparation i now outcome db = db\<lparr>db_preparations := map (\<lambda>p.
     if pr_id p = i then p\<lparr>pr_phase := (case outcome of Outcome_Cancelled \<Rightarrow> ''CANCELLED'' | Outcome_Failed \<Rightarrow> ''FAILED''),
       pr_updated := max (pr_updated p) now\<rparr> else p) (db_preparations db)\<rparr>"

definition asset_of :: "database \<Rightarrow> str \<Rightarrow> str \<Rightarrow> asset option" where
  "asset_of db project i = Option.bind (find (\<lambda>a. as_id a = i) (db_assets db)) (\<lambda>a. if as_project a = project then Some a else None)"

definition end_asset :: "str list \<Rightarrow> asset \<Rightarrow> job_outcome \<Rightarrow> database \<Rightarrow> database checked" where
  \<comment> \<open>the pending input of a capture is cancelled or left incomplete; the stored document names its new state\<close>
  "end_asset secrets a outcome db =
     (let state = (case outcome of Outcome_Cancelled \<Rightarrow> Asset_Cancelled | Outcome_Failed \<Rightarrow> Asset_Incomplete);
          text = (case outcome of Outcome_Cancelled \<Rightarrow> ''CANCELLED'' | Outcome_Failed \<Rightarrow> ''INCOMPLETE'');
          content = (case as_content a of JObj kvs \<Rightarrow> JObj (map (\<lambda>(k, v). (k, if k = ''state'' then JStr text else v)) kvs) | v \<Rightarrow> v) in
      andthen (ensure_safe secrets content) (\<lambda>_. Inr (db\<lparr>db_assets :=
        map (\<lambda>b. if as_id b = as_id a then a\<lparr>as_state := state, as_content := content\<rparr> else b) (db_assets db)\<rparr>)))"

definition resolve_recovery :: "capture \<Rightarrow> int \<Rightarrow> database \<Rightarrow> database checked" where
  "resolve_recovery c now db =
     (if cp_report c \<noteq> None then Inl [''STATE_PRECONDITION'']
      else Inr (db\<lparr>db_captures := map (\<lambda>d. if cp_id d = cp_id c then c\<lparr>cp_resolved := Some now, cp_report := None\<rparr> else d)
        (db_captures db)\<rparr>))"

definition finish_capture :: "str list \<Rightarrow> job \<Rightarrow> capture \<Rightarrow> int \<Rightarrow> job_outcome \<Rightarrow> database \<Rightarrow> database checked" where
  "finish_capture secrets j c now outcome db =
     andthen (case Option.bind (cp_asset c) (asset_of db (jb_project_id j)) of
         None \<Rightarrow> Inr db
       | Some a \<Rightarrow> if as_state a = Asset_Pending then end_asset secrets a outcome db else Inr db) (\<lambda>db'.
       if jb_attempt j = 0 \<or> cp_restores c then resolve_recovery c now db' else Inr db')"

definition finish_target :: "str list \<Rightarrow> job_target list \<Rightarrow> job \<Rightarrow> int \<Rightarrow> job_outcome \<Rightarrow> database \<Rightarrow> (database \<times> target_view) checked" where
  "finish_target secrets types j now outcome db = andthen (resolve_target types j) (\<lambda>t. case t of
     Run_Target \<Rightarrow> andthen (load_run j db) (\<lambda>_. case jb_run_id j of
         None \<Rightarrow> Inl [''JOB_PERSISTENCE'']
       | Some i \<Rightarrow> andthen (end_run i (case outcome of Outcome_Cancelled \<Rightarrow> Run_Cancelled | Outcome_Failed \<Rightarrow> Run_Failed) now db) (\<lambda>(db', r).
           case r of None \<Rightarrow> Inl [''JOB_PERSISTENCE''] | Some r \<Rightarrow> Inr (db', (Some r, None))))
   | Recording_Target \<Rightarrow> andthen (finish_recording secrets j now outcome db) (\<lambda>(db', rr). Inr (db', (None, Some rr)))
   | Preparation_Target \<Rightarrow>
       if \<not> frozen_matches t j db then Inl [''JOB_REQUEST_CONFLICT'']
       else Inr ((case jb_preparation_id j of None \<Rightarrow> db | Some i \<Rightarrow> finish_preparation i now outcome db), (None, None))
   | Capture_Target \<Rightarrow>
       if \<not> frozen_matches t j db then Inl [''JOB_REQUEST_CONFLICT'']
       else (case capture_of j db of None \<Rightarrow> Inl [''JOB_REQUEST_CONFLICT'']
         | Some c \<Rightarrow> andthen (finish_capture secrets j c now outcome db) (\<lambda>db'. Inr (db', (None, None))))
   | _ \<Rightarrow> if frozen_matches t j db then Inr (db, (None, None)) else Inl [''JOB_REQUEST_CONFLICT''])"

end
