(* ===== verification/JobControl.thy ===== *)
theory JobControl
  imports JobTargets
begin

section \<open>The operations on jobs\<close>

text \<open>
  Models the services of \<^verbatim>\<open>infrastructure/runtime/jobs\<close>: \<^verbatim>\<open>queue.py\<close> (submission, cancellation),
  \<^verbatim>\<open>attempts.py\<close> (claims, leases, the end of an attempt) and \<^verbatim>\<open>recovery.py\<close>. An operation is one unit
  of work: \<open>Inr\<close> is the database it commits with its result, \<open>Inl\<close> an error that rolls it back.

  SQLite's driver opens a transaction with the first write, so what a service reads before it is not
  protected: another worker may commit in between. An operation that reads first takes two databases,
  \<open>old\<close> for these reads and \<open>db\<close> for everything from the first write on. They are equal when nothing
  intervenes. A \<^verbatim>\<open>JobRecord\<close> is passed on as it was read.
\<close>

record job_service =
  js_secrets :: "str list"
  js_targets :: "job_target list"
  js_policy :: retry_policy
  js_jitter :: "int \<Rightarrow> int option"

type_synonym mutation = "job \<times> target_view"

definition target_shown :: "job \<Rightarrow> target_view \<Rightarrow> bool" where
  \<comment> \<open>the validator of the results: exactly one target is exposed\<close>
  "target_shown j v \<longleftrightarrow> length (filter id
     [fst v \<noteq> None, snd v \<noteq> None, jb_load_id j \<noteq> None, jb_preflight_id j \<noteq> None, jb_capture_id j \<noteq> None,
      jb_preparation_id j \<noteq> None, jb_trial_id j \<noteq> None]) = 1"

definition mutation_result :: "job \<Rightarrow> target_view \<Rightarrow> database \<Rightarrow> (database \<times> mutation) checked" where
  "mutation_result j v db = checked (field_error [(\<not> target_shown j v, ''job mutation must expose exactly one target'')]) (db, (j, v))"

definition require_job :: "database \<Rightarrow> str \<Rightarrow> job checked" where
  "require_job db i = andthen (read_job db i) (\<lambda>j. case j of None \<Rightarrow> Inl [''JOB_NOT_FOUND''] | Some j \<Rightarrow> Inr j)"

subsection \<open>Errors\<close>

definition claim_error :: "database \<Rightarrow> str \<Rightarrow> int \<Rightarrow> 'a checked" where
  "claim_error db i now = andthen (require_job db i) (\<lambda>j. Inl
     [if jb_state j \<in> ended_states then ''JOB_TERMINAL_CONFLICT''
      else if jb_state j = Running then (if given (\<lambda>t. t \<le> now) (jb_expires j) then ''JOB_RECOVERY_REQUIRED'' else ''JOB_NOT_CLAIMABLE'')
      else if jb_cancel j \<noteq> None then ''JOB_CANCEL_CONFLICT''
      else if jb_max_attempts j \<le> jb_attempt j then ''JOB_ATTEMPTS_EXHAUSTED'' else ''JOB_NOT_CLAIMABLE''])"

definition fenced_error :: "database \<Rightarrow> 'b fenced_scheme \<Rightarrow> str \<Rightarrow> 'a checked" where
  "fenced_error db q expired = andthen (require_job db (fm_job_id q)) (\<lambda>j. Inl
     [if jb_state j \<in> ended_states then ''JOB_TERMINAL_CONFLICT''
      else if jb_state j \<noteq> Running then ''JOB_LEASE_MISMATCH''
      else if jb_owner j \<noteq> Some (fm_owner q) \<or> jb_token j \<noteq> fm_token q then ''JOB_LEASE_MISMATCH''
      else if absent_or (\<lambda>t. t \<le> fm_now q) (jb_expires j) then expired else ''JOB_NOT_CLAIMABLE''])"

definition require_current_fence :: "database \<Rightarrow> 'b fenced_scheme \<Rightarrow> job checked" where
  "require_current_fence db q = andthen (require_job db (fm_job_id q)) (\<lambda>j.
     if jb_state j \<noteq> Running then Inl [if jb_state j \<in> ended_states then ''JOB_TERMINAL_CONFLICT'' else ''JOB_LEASE_MISMATCH'']
     else if jb_owner j \<noteq> Some (fm_owner q) \<or> jb_token j \<noteq> fm_token q then Inl [''JOB_LEASE_MISMATCH'']
     else if absent_or (\<lambda>t. t \<le> fm_now q) (jb_expires j) then Inl [''JOB_RECOVERY_REQUIRED''] else Inr j)"

subsection \<open>Submission\<close>

definition queued_run :: "submit_job \<Rightarrow> str \<Rightarrow> run" where
  "queued_run q i = \<lparr>rn_run_id = i, rn_project_id = sj_project_id q, rn_request_hash = sj_request_hash q, rn_plan = sj_plan q,
     rn_source = sj_source q, rn_epoch = sj_epoch q, rn_engine = sj_engine q, rn_lifecycle = Run_Queued, rn_verdict = None,
     rn_created = sj_now q, rn_updated = sj_now q, rn_finished = None\<rparr>"

definition pending_job :: "submit_job \<Rightarrow> str \<Rightarrow> str \<Rightarrow> job" where
  "pending_job q i r = \<lparr>jb_job_id = i, jb_project_id = sj_project_id q, jb_run_id = Some r, jb_recording_id = None,
     jb_load_id = None, jb_preflight_id = None, jb_capture_id = None, jb_trial_id = None, jb_preparation_id = None,
     jb_operation = sj_operation q, jb_state = Pending, jb_key = sj_key q, jb_request_hash = sj_request_hash q, jb_attempt = 0,
     jb_max_attempts = sj_max_attempts q, jb_available = sj_available q, jb_owner = None, jb_token = 0, jb_expires = None,
     jb_cancel = None, jb_created = sj_now q, jb_updated = sj_now q\<rparr>"

definition existing_submission :: "database \<Rightarrow> job \<Rightarrow> submit_job \<Rightarrow> (bool \<times> job \<times> run) checked" where
  "existing_submission db j q =
     (if jb_request_hash j \<noteq> sj_request_hash q then Inl [''JOB_IDEMPOTENCY_CONFLICT'']
      else case jb_run_id j of
          None \<Rightarrow> Inl [''JOB_PERSISTENCE'']
        | Some i \<Rightarrow> andthen (read_run db i) (\<lambda>r. case r of None \<Rightarrow> Inl [''JOB_PERSISTENCE''] | Some r \<Rightarrow> Inr (False, j, r)))"

definition create_submission :: "job_service \<Rightarrow> submit_job \<Rightarrow> str \<Rightarrow> str \<Rightarrow> (run \<Rightarrow> database \<Rightarrow> database checked) \<Rightarrow> database \<Rightarrow>
    (database \<times> bool \<times> job \<times> run) checked" where
  \<comment> \<open>from the first write on; \<open>on_created\<close> is the callback of the caller\<close>
  "create_submission s q run_id job_id on_created db =
     (let r = queued_run q run_id; j = pending_job q job_id run_id; secrets = js_secrets s in
      andthen (checked (run_errors r) ()) (\<lambda>_.
      andthen (checked (job_errors j) ()) (\<lambda>_.
      andthen (resolve_target (js_targets s) j) (\<lambda>_.
      andthen (add_run secrets r db) (\<lambda>db.
      andthen (add_job secrets j db) (\<lambda>db.
      andthen (on_created r db) (\<lambda>db.
      andthen (append_job_event secrets j Job_Submitted None (Some Pending) (sj_now q) [(''attempt'', JInt 0)] db) (\<lambda>db.
        Inr (db, True, j, r)))))))))"

definition resolve_submission_race :: "submit_job \<Rightarrow> database \<Rightarrow> (database \<times> bool \<times> job \<times> run) checked" where
  "resolve_submission_race q db = andthen (by_idempotency db (sj_project_id q) (sj_operation q) (sj_key q)) (\<lambda>j. case j of
       None \<Rightarrow> Inl [''JOB_PERSISTENCE'']
     | Some j \<Rightarrow> andthen (existing_submission db j q) (\<lambda>r. Inr (db, r)))"

definition create_or_resolve :: "job_service \<Rightarrow> submit_job \<Rightarrow> str \<Rightarrow> str \<Rightarrow> (run \<Rightarrow> database \<Rightarrow> database checked) \<Rightarrow> database \<Rightarrow>
    (database \<times> bool \<times> job \<times> run) checked" where
  "create_or_resolve s q run_id job_id on_created db = (case create_submission s q run_id job_id on_created db of
       Inr r \<Rightarrow> Inr r
     | Inl es \<Rightarrow> if es \<noteq> [''STORAGE_CONSTRAINT''] then Inl es else resolve_submission_race q db)"

definition chosen_id :: "str \<Rightarrow> str option \<Rightarrow> str" where
  "chosen_id fresh i = (case i of None \<Rightarrow> fresh | Some i \<Rightarrow> i)"

definition submit :: "job_service \<Rightarrow> submit_job \<Rightarrow> str \<Rightarrow> str \<Rightarrow> (database \<Rightarrow> unit checked) \<Rightarrow> (run \<Rightarrow> database \<Rightarrow> database checked) \<Rightarrow>
    database \<Rightarrow> database \<Rightarrow> (database \<times> bool \<times> job \<times> run) checked" where
  \<comment> \<open>\<open>fresh_run\<close> and \<open>fresh_job\<close> are the generated identifiers\<close>
  "submit s q fresh_run fresh_job precondition on_created old db =
     andthen (validate_control_request (submit_errors q) [sj_available q, sj_now q] (submit_json q) (js_secrets s)) (\<lambda>_.
     andthen (by_idempotency old (sj_project_id q) (sj_operation q) (sj_key q)) (\<lambda>existing. case existing of
         Some j \<Rightarrow> andthen (existing_submission old j q) (\<lambda>r. Inr (db, r))
       | None \<Rightarrow>
           if sj_project_id q \<notin> set (db_projects old) then Inl [''JOB_PERSISTENCE'']
           else andthen (precondition old) (\<lambda>_.
             create_or_resolve s q (chosen_id fresh_run (sj_run_id q)) (chosen_id fresh_job (sj_job_id q)) on_created db)))"

text \<open>
  The other services put their job into the queue in the transaction that stores its target: the record, then the event.
\<close>

definition preflight_job :: "str \<Rightarrow> str \<Rightarrow> str \<Rightarrow> str \<Rightarrow> str \<Rightarrow> int \<Rightarrow> job" where
  "preflight_job i project preflight key fingerprint now = \<lparr>jb_job_id = i, jb_project_id = project, jb_run_id = None,
     jb_recording_id = None, jb_load_id = None, jb_preflight_id = Some preflight, jb_capture_id = None, jb_trial_id = None,
     jb_preparation_id = None, jb_operation = ''PROOF_PREFLIGHT'', jb_state = Pending, jb_key = key, jb_request_hash = fingerprint,
     jb_attempt = 0, jb_max_attempts = 1, jb_available = now, jb_owner = None, jb_token = 0, jb_expires = None, jb_cancel = None,
     jb_created = now, jb_updated = now\<rparr>"

definition recording_job :: "str \<Rightarrow> str \<Rightarrow> str \<Rightarrow> str \<Rightarrow> str \<Rightarrow> int \<Rightarrow> int \<Rightarrow> int \<Rightarrow> job" where
  "recording_job i project recording key request_hash max_attempts available now = \<lparr>jb_job_id = i, jb_project_id = project,
     jb_run_id = None, jb_recording_id = Some recording, jb_load_id = None, jb_preflight_id = None, jb_capture_id = None,
     jb_trial_id = None, jb_preparation_id = None, jb_operation = ''BROWSER_RECORDING'', jb_state = Pending, jb_key = key,
     jb_request_hash = request_hash, jb_attempt = 0, jb_max_attempts = max_attempts, jb_available = available, jb_owner = None,
     jb_token = 0, jb_expires = None, jb_cancel = None, jb_created = now, jb_updated = now\<rparr>"

definition enqueue :: "str list \<Rightarrow> job \<Rightarrow> (str \<times> json) list \<Rightarrow> database \<Rightarrow> database checked" where
  "enqueue secrets j metadata db =
     andthen (checked (job_errors j) ()) (\<lambda>_.
     andthen (add_job secrets j db) (append_job_event secrets j Job_Submitted None (Some Pending) (jb_created j) metadata))"

subsection \<open>Claims and leases\<close>

definition claim :: "job_service \<Rightarrow> claim_job \<Rightarrow> database \<Rightarrow> (database \<times> mutation option) checked" where
  "claim s q db =
     andthen (validate_control_request (claim_errors q) [cl_now q, cl_duration q] (claim_json q) (js_secrets s)) (\<lambda>_.
     andthen (checked_time_add (cl_now q) (cl_duration q)) (\<lambda>expires.
     andthen (claim_row (cl_job_id q) (cl_owner q) (cl_now q) expires (js_targets s) db) (\<lambda>(db', j). case j of
         None \<Rightarrow> (case cl_job_id q of None \<Rightarrow> Inr (db, None) | Some i \<Rightarrow> claim_error db' i (cl_now q))
       | Some j \<Rightarrow>
           andthen (advance_target (js_secrets s) (js_targets s) j (cl_now q) db') (\<lambda>(db', v).
           andthen (append_job_event (js_secrets s) j Job_Claimed (Some (if jb_attempt j = 1 then Pending else Retry_Wait))
               (Some Running) (cl_now q) [(''attempt'', JInt (jb_attempt j)), (''fencing_token'', JInt (jb_token j))] db') (\<lambda>db'.
           andthen (mutation_result j v db') (\<lambda>(db', m). Inr (db', Some m)))))))"

definition renew :: "job_service \<Rightarrow> renew_lease \<Rightarrow> database \<Rightarrow> (database \<times> mutation) checked" where
  "renew s q db =
     andthen (validate_control_request (renew_errors q) [fm_now q, rl_expires q] (renew_json q) (js_secrets s)) (\<lambda>_.
     andthen (renew_row (fm_job_id q) (fm_owner q) (fm_token q) (fm_now q) (rl_expires q) db) (\<lambda>(db', j). case j of
         None \<Rightarrow> fenced_error db' q ''JOB_LEASE_EXPIRED''
       | Some j \<Rightarrow>
           andthen (load_target (js_targets s) j db') (\<lambda>v.
           andthen (append_job_event (js_secrets s) j Job_Lease_Renewed (Some Running) (Some Running) (fm_now q)
               [(''attempt'', JInt (jb_attempt j)), (''fencing_token'', JInt (jb_token j))] db') (\<lambda>db'.
             mutation_result j v db'))))"

subsection \<open>Cancellation\<close>

type_synonym cancellation = "mutation \<times> int \<times> bool"

definition cancellation_result :: "job \<Rightarrow> target_view \<Rightarrow> bool \<Rightarrow> database \<Rightarrow> (database \<times> cancellation) checked" where
  \<comment> \<open>\<open>CancellationResult\<close>: the time of the first request is required\<close>
  "cancellation_result j v completed db = (case jb_cancel j of
     None \<Rightarrow> Inl [''first_requested_at_us: int_type'']
   | Some t \<Rightarrow> andthen (mutation_result j v db) (\<lambda>(db, m). Inr (db, (m, t, completed))))"

definition cancel_waiting :: "job_service \<Rightarrow> job \<Rightarrow> int \<Rightarrow> database \<Rightarrow> (database \<times> cancellation) checked" where
  "cancel_waiting s j now db =
     andthen (cancel_waiting_row (jb_job_id j) now db) (\<lambda>(db, c). case c of
         None \<Rightarrow> Inl [''JOB_CANCEL_CONFLICT'']
       | Some c \<Rightarrow>
           andthen (finish_target (js_secrets s) (js_targets s) c now Outcome_Cancelled db) (\<lambda>(db, v).
           andthen (append_job_event (js_secrets s) c Job_Cancelled (Some (jb_state j)) (Some Cancelled) now
               [(''attempt'', JInt (jb_attempt c))] db) (\<lambda>db.
             cancellation_result c v True db)))"

definition already_cancelled :: "job \<Rightarrow> bool" where
  "already_cancelled j \<longleftrightarrow> jb_state j = Cancelled \<and> jb_cancel j \<noteq> None"

definition cancel_marked :: "job_service \<Rightarrow> job \<Rightarrow> int \<Rightarrow> database \<Rightarrow> (database \<times> cancellation) checked" where
  \<comment> \<open>what follows once the request is stored, or was stored before\<close>
  "cancel_marked s j now db =
     (if jb_state j \<in> waiting_states then cancel_waiting s j now db
      else if jb_state j \<noteq> Running then Inl [''JOB_CANCEL_CONFLICT'']
      else andthen (load_target (js_targets s) j db) (\<lambda>v. cancellation_result j v False db))"

definition request_cancellation :: "job_service \<Rightarrow> cancel_job \<Rightarrow> database \<Rightarrow> database \<Rightarrow> (database \<times> cancellation) checked" where
  "request_cancellation s q old db =
     andthen (validate_control_request (cancel_errors q) [cj_now q] (cancel_json q) (js_secrets s)) (\<lambda>_.
     andthen (require_job old (cj_job_id q)) (\<lambda>first.
     andthen (resolve_target (js_targets s) first) (\<lambda>_.
       if jb_state first \<in> ended_states then
         (if already_cancelled first then andthen (load_target (js_targets s) first old) (\<lambda>v. cancellation_result first v True db)
          else Inl [''JOB_TERMINAL_CONFLICT''])
       else andthen (set_cancel (cj_job_id q) (cj_now q) db) (\<lambda>(db, j, marked). case j of
           None \<Rightarrow> Inl [''JOB_CANCEL_CONFLICT'']
         | Some j \<Rightarrow>
             if already_cancelled j then andthen (load_target (js_targets s) j db) (\<lambda>v. cancellation_result j v True db)
             else if marked then
               andthen (append_job_event (js_secrets s) j Job_Cancel_Requested (Some (jb_state j)) (Some (jb_state j)) (cj_now q)
                   [(''attempt'', JInt (jb_attempt j))] db) (cancel_marked s j (cj_now q))
             else cancel_marked s j (cj_now q) db))))"

definition complete_cancellation :: "job_service \<Rightarrow> fenced \<Rightarrow> database \<Rightarrow> database \<Rightarrow> (database \<times> cancellation) checked" where
  "complete_cancellation s q old db =
     andthen (validate_control_request (fenced_errors q) [fm_now q] (JObj (fenced_members q)) (js_secrets s)) (\<lambda>_.
     andthen (require_current_fence old q) (\<lambda>current.
       if jb_cancel current = None then Inl [''JOB_CANCEL_CONFLICT'']
       else andthen (complete_cancelled (fm_job_id q) (fm_owner q) (fm_token q) (fm_now q) db) (\<lambda>(db, j). case j of
           None \<Rightarrow> fenced_error db q ''JOB_RECOVERY_REQUIRED''
         | Some j \<Rightarrow>
             andthen (finish_target (js_secrets s) (js_targets s) j (fm_now q) Outcome_Cancelled db) (\<lambda>(db, v).
             andthen (append_job_event (js_secrets s) j Job_Cancelled (Some Running) (Some Cancelled) (fm_now q)
                 [(''attempt'', JInt (jb_attempt j)), (''fencing_token'', JInt (fm_token q))] db) (\<lambda>db.
               cancellation_result j v True db)))))"

subsection \<open>Failures of an attempt\<close>

definition comma_joined :: "str list \<Rightarrow> str" where
  "comma_joined ss = join '','' ss"

definition failure_metadata :: "job \<Rightarrow> job_failure \<Rightarrow> int option \<Rightarrow> (str \<times> json) list" where
  "failure_metadata j q available =
     [(''attempt'', JInt (jb_attempt j)), (''fencing_token'', JInt (fm_token q)), (''reason_code'', JStr (jf_reason q))]
     @ given_field ''error_code'' JStr (jf_error q) @ given_field ''phase'' JStr (jf_phase q)
     @ given_field ''cause_code'' JStr (jf_cause q)
     @ (if jf_cleanup q = [] then [] else [(''cleanup_issue_codes'', JStr (comma_joined (jf_cleanup q)))])
     @ given_field ''available_at_us'' JInt available"

definition persist_failure :: "job_service \<Rightarrow> job_failure \<Rightarrow> job_state \<Rightarrow> int option \<Rightarrow> database \<Rightarrow> (database \<times> mutation) checked" where
  "persist_failure s q target available db =
     andthen (record_running_failure (fm_job_id q) (fm_owner q) (fm_token q) (fm_now q) target available db) (\<lambda>(db, j). case j of
         None \<Rightarrow> fenced_error db q ''JOB_RECOVERY_REQUIRED''
       | Some j \<Rightarrow>
           andthen (if target = Failed then finish_target (js_secrets s) (js_targets s) j (fm_now q) Outcome_Failed db
                    else andthen (load_target (js_targets s) j db) (\<lambda>v. Inr (db, v))) (\<lambda>(db, v).
           andthen (append_job_event (js_secrets s) j (if target = Failed then Job_Failed else Job_Retry_Scheduled) (Some Running)
               (Some target) (fm_now q) (failure_metadata j q available) db) (\<lambda>db.
             mutation_result j v db)))"

definition record_retryable_failure :: "job_service \<Rightarrow> job_failure \<Rightarrow> database \<Rightarrow> database \<Rightarrow> (database \<times> mutation) checked" where
  "record_retryable_failure s q old db =
     andthen (validate_control_request (failure_errors retryable_codes q) [fm_now q] (failure_json q) (js_secrets s)) (\<lambda>_.
     andthen (require_current_fence old q) (\<lambda>current.
       if jb_cancel current \<noteq> None then Inl [''JOB_CANCEL_CONFLICT'']
       else if jb_max_attempts current \<le> jb_attempt current then persist_failure s q Failed None db
       else andthen (compute_retry_available_at (js_policy s) (js_jitter s) (fm_now q) (jb_attempt current)) (\<lambda>t.
         persist_failure s q Retry_Wait (Some t) db)))"

definition record_fatal_failure :: "job_service \<Rightarrow> job_failure \<Rightarrow> database \<Rightarrow> database \<Rightarrow> (database \<times> mutation) checked" where
  "record_fatal_failure s q old db =
     andthen (validate_control_request (failure_errors fatal_codes q) [fm_now q] (failure_json q) (js_secrets s)) (\<lambda>_.
     andthen (require_current_fence old q) (\<lambda>_. persist_failure s q Failed None db))"

definition record_waiting_fatal_failure :: "job_service \<Rightarrow> waiting_failure \<Rightarrow> database \<Rightarrow> database \<Rightarrow>
    (database \<times> mutation option) checked" where
  "record_waiting_fatal_failure s q old db =
     andthen (validate_control_request (waiting_failure_errors q) [cj_now q] (waiting_failure_json q) (js_secrets s)) (\<lambda>_.
     andthen (read_job old (cj_job_id q)) (\<lambda>current.
     andthen (fail_waiting_row (cj_job_id q) (cj_now q) db) (\<lambda>(db', j). case j of
         None \<Rightarrow> Inr (db, None)
       | Some j \<Rightarrow> (case current of
             None \<Rightarrow> Inl [''STORAGE_STATE'']
           | Some current \<Rightarrow>
               if jb_state current \<notin> waiting_states then Inl [''STORAGE_STATE'']
               else andthen (finish_target (js_secrets s) (js_targets s) j (cj_now q) Outcome_Failed db') (\<lambda>(db', v).
                 andthen (append_job_event (js_secrets s) j Job_Failed (Some (jb_state current)) (Some Failed) (cj_now q)
                     ([(''attempt'', JInt (jb_attempt j)), (''reason_code'', JStr ''WORKER_FATAL'')]
                      @ given_field ''error_code'' JStr (wf_error q)) db') (\<lambda>db'.
                 andthen (mutation_result j v db') (\<lambda>(db', m). Inr (db', Some m))))))))"

subsection \<open>Recovery of an expired lease\<close>

definition require_recovery_fence :: "database \<Rightarrow> 'b fenced_scheme \<Rightarrow> job checked" where
  "require_recovery_fence db q = andthen (require_job db (fm_job_id q)) (\<lambda>j.
     if jb_state j \<noteq> Running then Inl [if jb_state j \<in> ended_states then ''JOB_TERMINAL_CONFLICT'' else ''JOB_LEASE_MISMATCH'']
     else if jb_owner j \<noteq> Some (fm_owner q) \<or> jb_token j \<noteq> fm_token q then Inl [''JOB_LEASE_MISMATCH'']
     else if absent_or (\<lambda>t. fm_now q < t) (jb_expires j) then Inl [''JOB_RECOVERY_REQUIRED''] else Inr j)"

definition recovery_metadata :: "job \<Rightarrow> confirm_recovery \<Rightarrow> int option \<Rightarrow> (str \<times> json) list" where
  "recovery_metadata j q available =
     [(''attempt'', JInt (jb_attempt j)), (''fencing_token'', JInt (fm_token q)),
      (''operator'', JStr (recovery_operator_value (cr_operator q))), (''proof_type'', JStr (recovery_proof_value (cr_proof q))),
      (''reason_code'', JStr (recovery_reason_value (cr_reason q)))]
     @ given_field ''available_at_us'' JInt available"

definition recovery_target :: "job \<Rightarrow> job_state" where
  "recovery_target j =
     (if jb_cancel j \<noteq> None then Cancelled else if jb_max_attempts j \<le> jb_attempt j then Failed else Retry_Wait)"

definition recover :: "job_service \<Rightarrow> confirm_recovery \<Rightarrow> database \<Rightarrow> database \<Rightarrow> (database \<times> mutation) checked" where
  "recover s q old db =
     andthen (validate_control_request (recovery_errors q) [fm_now q] (recovery_json q) (js_secrets s)) (\<lambda>_.
     andthen (require_recovery_fence old q) (\<lambda>current.
     andthen (resolve_target (js_targets s) current) (\<lambda>_.
     andthen (if recovery_target current = Retry_Wait
              then andthen (compute_retry_available_at (js_policy s) (js_jitter s) (fm_now q) (jb_attempt current)) (\<lambda>t. Inr (Some t))
              else Inr None) (\<lambda>available.
     andthen (recover_row (fm_job_id q) (fm_owner q) (fm_token q) (fm_now q) (recovery_target current) available db) (\<lambda>(db, j). case j of
         None \<Rightarrow> Inl [''JOB_LEASE_MISMATCH'']
       | Some j \<Rightarrow>
           andthen (case recovery_target current of
               Cancelled \<Rightarrow> finish_target (js_secrets s) (js_targets s) j (fm_now q) Outcome_Cancelled db
             | Failed \<Rightarrow> finish_target (js_secrets s) (js_targets s) j (fm_now q) Outcome_Failed db
             | _ \<Rightarrow> andthen (load_target (js_targets s) j db) (\<lambda>v. Inr (db, v))) (\<lambda>(db, v).
           andthen (append_job_event (js_secrets s) j Job_Recovery_Confirmed (Some Running) (Some (recovery_target current)) (fm_now q)
               (recovery_metadata j q available) db) (\<lambda>db.
             mutation_result j v db)))))))"

definition recovery_candidates :: "job_service \<Rightarrow> int \<Rightarrow> nat \<Rightarrow> database \<Rightarrow> job list checked" where
  \<comment> \<open>\<open>list_recovery_candidates\<close>: the candidates are shown by their job\<close>
  "recovery_candidates s now limit db =
     andthen (validate_control_request (least_field ''now_us'' 0 now @ range_field ''limit'' 1 1000 (int limit)) [now]
        (JObj [(''now_us'', JInt now), (''limit'', JInt (int limit))]) (js_secrets s)) (\<lambda>_.
     map_sum id (filter (\<lambda>j. jb_owner j \<noteq> None \<and> jb_expires j \<noteq> None)) (list_expired_running now limit (js_targets s) db))"

subsection \<open>The end of a successful attempt\<close>

text \<open>
  The callers that store results end their transaction with the update of the job and the event of its success. Their
  artefacts are not part of the model; \<open>publish\<close> and \<open>complete_attempt\<close> are these last two steps. The event of a recording
  also tells the type of its result and the revision of its draft, which are the details of the completion.
\<close>

definition success_metadata :: "job \<Rightarrow> (str \<times> json) list" where
  "success_metadata j = [(''attempt'', JInt (jb_attempt j)), (''fencing_token'', JInt (jb_token j))]"

definition publish :: "job_service \<Rightarrow> publication \<Rightarrow> database \<Rightarrow> (database \<times> job \<times> run) checked" where
  "publish s p db = andthen (complete_published_result p db) (\<lambda>(db, r). case r of
       None \<Rightarrow> Inl [''ARTIFACT_FENCE'']
     | Some (j, r) \<Rightarrow>
         andthen (append_job_event (js_secrets s) j Job_Succeeded (Some Running) (Some Succeeded) (pb_completed p) (success_metadata j) db)
           (\<lambda>db. Inr (db, j, r)))"

definition completion_refusal :: "job_target \<Rightarrow> str" where
  \<comment> \<open>recordings and identity preparations blame the lease, the others a precondition\<close>
  "completion_refusal t = (if t \<in> {Recording_Target, Preparation_Target} then ''JOB_LEASE_MISMATCH'' else ''STATE_PRECONDITION'')"

definition complete_attempt :: "job_service \<Rightarrow> completion \<Rightarrow> database \<Rightarrow> (database \<times> job) checked" where
  "complete_attempt s c db =
     andthen (if co_target c = Recording_Target then complete_recording c db
              else if co_target c = Run_Target then Inl [''ARTIFACT_FENCE''] else complete_frozen c db) (\<lambda>(db, j). case j of
         None \<Rightarrow> Inl [completion_refusal (co_target c)]
       | Some j \<Rightarrow>
           andthen (append_job_event (js_secrets s) j Job_Succeeded (Some Running) (Some Succeeded) (co_now c)
               (success_metadata j @ co_details c) db)
             (\<lambda>db. Inr (db, j)))"

end
