(* ===== verification/JobFacts.thy ===== *)
theory JobFacts
  imports JobControl
begin

section \<open>What an operation does to the tables\<close>

text \<open>
  Every operation is a sequence of moves of one row each: a claim, a renewal, a request to cancel, the
  end of a waiting job or the end of an attempt, with its event and what happens to the run of the job.
  \<open>job_move\<close> lists the moves, \<open>job_step\<close> is one move on the database.
\<close>

text \<open>The tables of jobs, events and runs are the same.\<close>

definition same_jobs :: "database \<Rightarrow> database \<Rightarrow> bool" where
  "same_jobs db db' \<longleftrightarrow> db_jobs db' = db_jobs db \<and> db_events db' = db_events db"

definition same_tables :: "database \<Rightarrow> database \<Rightarrow> bool" where
  "same_tables db db' \<longleftrightarrow> same_jobs db db' \<and> db_runs db' = db_runs db"

lemma same_jobs_refl [simp]: "same_jobs db db"
  by (simp add: same_jobs_def)

lemma same_tables_refl [simp]: "same_tables db db"
  by (simp add: same_tables_def)

subsection \<open>The conditional update\<close>

definition with_job :: "job \<Rightarrow> job list \<Rightarrow> job list" where
  "with_job j = map (\<lambda>k. if jb_job_id k = jb_job_id j then j else k)"

definition with_run :: "run \<Rightarrow> run list \<Rightarrow> run list" where
  "with_run r = map (\<lambda>k. if rn_run_id k = rn_run_id r then r else k)"

lemma put_job_tables [simp]:
  "db_jobs (put_job j db) = with_job j (db_jobs db)" "db_events (put_job j db) = db_events db" "db_runs (put_job j db) = db_runs db"
  by (simp_all add: put_job_def with_job_def)

lemma put_run_tables [simp]:
  "db_jobs (put_run r db) = db_jobs db" "db_events (put_run r db) = db_events db" "db_runs (put_run r db) = with_run r (db_runs db)"
  by (simp_all add: put_run_def with_run_def)

lemma job_row_Some: "job_row db i = Some j \<Longrightarrow> jb_job_id j = i \<and> j \<in> set (db_jobs db)"
  unfolding job_row_def by (metis (mono_tags, lifting) find_Some_iff nth_mem)

lemma run_row_Some: "run_row db i = Some r \<Longrightarrow> rn_run_id r = i \<and> r \<in> set (db_runs db)"
  unfolding run_row_def by (metis (mono_tags, lifting) find_Some_iff nth_mem)

lemma find_with_job:
  "find (\<lambda>k. jb_job_id k = i) (with_job j js) =
     (case find (\<lambda>k. jb_job_id k = i) js of None \<Rightarrow> None | Some k \<Rightarrow> Some (if jb_job_id j = i then j else k))"
  by (induction js) (auto simp: with_job_def)

lemma find_with_run:
  "find (\<lambda>k. rn_run_id k = i) (with_run r rs) =
     (case find (\<lambda>k. rn_run_id k = i) rs of None \<Rightarrow> None | Some k \<Rightarrow> Some (if rn_run_id r = i then r else k))"
  by (induction rs) (auto simp: with_run_def)

lemma job_row_put_job: "job_row (put_job j db) i = (case job_row db i of None \<Rightarrow> None | Some k \<Rightarrow> Some (if jb_job_id j = i then j else k))"
  by (simp add: job_row_def find_with_job)

definition written :: "job \<Rightarrow> bool" where
  \<comment> \<open>the row satisfies the constraints of the table and can be read back\<close>
  "written j \<longleftrightarrow> job_row_ok j \<and> job_errors j = []"

lemma cas_job_Some:
  assumes "cas_job p f i db = Inr (db', Some j')" and "\<And>j. jb_job_id (f j) = jb_job_id j"
  obtains j where "job_row db i = Some j" "p j" "j' = f j" "written j'" "db' = put_job j' db"
proof -
  obtain j where j: "job_row db i = Some j" "p j" "job_row_ok (f j)" "db' = put_job (f j) db" "read_job db' i = Inr (Some j')"
    using assms(1) by (auto simp: cas_job_def Let_def split: option.splits if_splits)
  have "jb_job_id (f j) = i"
    using job_row_Some [OF j(1)] assms(2) by simp
  with j have "job_errors (f j) = []" "j' = f j"
    by (auto simp: read_job_def job_row_put_job guard_simps)
  then show thesis
    using j by (intro that [of j]) (auto simp: written_def)
qed

lemma cas_job_None:
  assumes "cas_job p f i db = Inr (db', None)" and "\<And>j. jb_job_id (f j) = jb_job_id j"
  shows "db' = db"
proof (cases "job_row db i")
  case (Some j)
  have "jb_job_id (f j) = i"
    using job_row_Some [OF Some] assms(2) by simp
  then show ?thesis
    using assms(1) Some by (auto simp: cas_job_def Let_def read_job_def job_row_put_job guard_simps split: if_splits)
qed (use assms(1) in \<open>simp add: cas_job_def\<close>)

lemma cas_run_True:
  assumes "cas_run p f i db = Inr (db', True)"
  obtains r where "run_row db i = Some r" "p r" "db' = put_run (f r) db"
  using assms by (auto simp: cas_run_def split: option.splits if_splits)

lemma cas_run_False: "cas_run p f i db = Inr (db', False) \<Longrightarrow> db' = db"
  by (auto simp: cas_run_def split: option.splits if_splits)

subsection \<open>Events and targets\<close>

definition logged :: "job \<Rightarrow> job_event_type \<Rightarrow> job_state option \<Rightarrow> job_state option \<Rightarrow> job_event list \<Rightarrow> job_event \<Rightarrow> bool" where
  "logged j ty source target es e \<longleftrightarrow> je_job_id e = jb_job_id j \<and> je_type e = ty \<and> je_source e = source \<and> je_target e = target \<and>
     je_sequence e = int (length (filter (\<lambda>e. je_job_id e = jb_job_id j) es)) + 1"

lemma append_job_event_Inr:
  assumes "append_job_event secrets j ty source target at metadata db = Inr db'"
  obtains e where "logged j ty source target (db_events db) e" "db_events db' = db_events db @ [e]" "db_jobs db' = db_jobs db"
    "db_runs db' = db_runs db"
proof -
  define e where "e = \<lparr>je_job_id = jb_job_id j, je_sequence = int (length (filter (\<lambda>e. je_job_id e = jb_job_id j) (db_events db))) + 1,
    je_type = ty, je_source = source, je_target = target, je_at = at, je_metadata = metadata\<rparr>"
  have "db' = db\<lparr>db_events := db_events db @ [e]\<rparr>"
    using assms by (auto simp: append_job_event_def Let_def e_def split: if_splits)
  then show thesis
    by (intro that [of e]) (simp_all add: e_def logged_def)
qed

lemma run_row_cong: "db_runs db' = db_runs db \<Longrightarrow> run_row db' = run_row db"
  by (simp add: run_row_def fun_eq_iff)

lemma job_row_cong: "db_jobs db' = db_jobs db \<Longrightarrow> job_row db' = job_row db"
  by (simp add: job_row_def fun_eq_iff)

text \<open>The run of a job moves from one set of lifecycles to another, and no other run changes.\<close>

definition run_moved :: "job \<Rightarrow> run_lifecycle set \<Rightarrow> run_lifecycle set \<Rightarrow> (str \<Rightarrow> run option) \<Rightarrow> (str \<Rightarrow> run option) \<Rightarrow> bool" where
  "run_moved j src ls rs rs' \<longleftrightarrow> (\<forall>i. jb_run_id j \<noteq> Some i \<longrightarrow> rs' i = rs i) \<and>
     (\<forall>i. jb_run_id j = Some i \<longrightarrow> given (\<lambda>r. rn_lifecycle r \<in> src) (rs i) \<and> given (\<lambda>r. rn_lifecycle r \<in> ls) (rs' i))"

lemma run_row_put_run:
  assumes "run_row db i = Some r" and "rn_run_id r' = i"
  shows "run_row (put_run r' db) k = (if k = i then Some r' else run_row db k)"
  using assms by (auto simp: run_row_def find_with_run split: option.splits)

lemma cas_run_moved:
  assumes "cas_run p f i db = Inr (db', True)" and "jb_run_id j = Some i" and "\<And>r. rn_run_id (f r) = rn_run_id r"
    and "\<And>r. p r \<Longrightarrow> rn_lifecycle r \<in> src \<and> rn_lifecycle (f r) \<in> ls"
  shows "same_jobs db db' \<and> run_moved j src ls (run_row db) (run_row db')"
proof -
  obtain r where r: "run_row db i = Some r" "p r" "db' = put_run (f r) db"
    using assms(1) by (rule cas_run_True)
  moreover have "rn_run_id (f r) = i"
    using run_row_Some [OF r(1)] assms(3) by simp
  ultimately show ?thesis
    using assms(2,4) by (auto simp: same_jobs_def run_moved_def run_row_put_run)
qed

lemma one_target_run: "one_target (job_target_ids j) \<Longrightarrow> jb_run_id j = Some i \<Longrightarrow> target_of j = Inr Run_Target"
  by (auto simp: one_target_def job_target_ids_def target_of_def split: if_splits)

lemma written_one_target: "written j \<Longrightarrow> one_target (job_target_ids j)"
  by (simp add: written_def job_row_ok_def)

lemma resolve_run:
  assumes "written j" and "resolve_target types j = Inr t"
  shows "t = Run_Target \<longleftrightarrow> jb_run_id j \<noteq> None"
proof (cases "jb_run_id j")
  case None
  then show ?thesis
    using assms(2) by (auto simp: resolve_target_def target_of_def split: if_splits)
next
  case (Some i)
  with written_one_target [OF assms(1)] have "target_of j = Inr Run_Target"
    by (rule one_target_run)
  then show ?thesis
    using assms(2) Some by (auto simp: resolve_target_def split: if_splits)
qed

lemma no_run_moved: "same_tables db db' \<Longrightarrow> jb_run_id j = None \<Longrightarrow> same_jobs db db' \<and> run_moved j src ls (run_row db) (run_row db')"
  by (auto simp: same_tables_def run_moved_def dest: run_row_cong)

lemma replace_recording_same: "replace_recording secrets rr db = Inr db' \<Longrightarrow> same_tables db db'"
  by (auto simp: replace_recording_def put_recording_def same_tables_def same_jobs_def split: option.splits if_splits)

lemma start_recording_same: "start_recording secrets j now db = Inr (db', rr) \<Longrightarrow> same_tables db db'"
  by (auto simp: start_recording_def dest: replace_recording_same split: if_splits)

lemma finish_recording_same: "finish_recording secrets j now outcome db = Inr (db', rr) \<Longrightarrow> same_tables db db'"
  by (auto simp: finish_recording_def dest: replace_recording_same)

lemma finish_capture_same: "finish_capture secrets j c now outcome db = Inr db' \<Longrightarrow> same_tables db db'"
  by (auto simp: finish_capture_def end_asset_def resolve_recovery_def Let_def same_tables_def same_jobs_def
      split: option.splits if_splits)

lemma finish_preparation_same: "same_tables db (finish_preparation i now outcome db)"
  by (simp add: finish_preparation_def same_tables_def same_jobs_def)

lemma advance_run_moved:
  assumes "advance_run i now db = Inr (db', Some r)" and "jb_run_id j = Some i"
  shows "same_jobs db db' \<and> run_moved j open_runs {Run_Running} (run_row db) (run_row db')"
proof -
  obtain b where b: "cas_run (\<lambda>r. rn_lifecycle r = Run_Queued \<and> rn_verdict r = None \<and> rn_updated r \<le> now)
        (\<lambda>r. r\<lparr>rn_lifecycle := Run_Running, rn_updated := now\<rparr>) i db = Inr (db', b)"
      and r: "read_run db' i = Inr (Some r)" "rn_lifecycle r = Run_Running"
    using assms(1) by (auto simp: advance_run_def split: if_splits)
  show ?thesis
  proof (cases b)
    case True
    with b have "cas_run (\<lambda>r. rn_lifecycle r = Run_Queued \<and> rn_verdict r = None \<and> rn_updated r \<le> now)
        (\<lambda>r. r\<lparr>rn_lifecycle := Run_Running, rn_updated := now\<rparr>) i db = Inr (db', True)" by simp
    then show ?thesis
      by (rule cas_run_moved [OF _ assms(2)]) (simp_all add: open_runs_def)
  next
    case False
    with b have "db' = db"
      by (auto dest: cas_run_False)
    moreover have "run_row db' i = Some r"
      using r(1) by (auto simp: read_run_def guard_simps split: option.splits)
    ultimately show ?thesis
      using r(2) assms(2) by (auto simp: run_moved_def open_runs_def)
  qed
qed

lemma end_run_moved:
  assumes "end_run i l now db = Inr (db', Some r)" and "jb_run_id j = Some i"
  shows "same_jobs db db' \<and> run_moved j open_runs {l} (run_row db) (run_row db')"
proof -
  have "cas_run (\<lambda>r. rn_lifecycle r \<in> open_runs \<and> rn_verdict r = None \<and> rn_updated r \<le> now)
      (\<lambda>r. r\<lparr>rn_lifecycle := l, rn_verdict := None, rn_updated := now, rn_finished := Some now\<rparr>) i db = Inr (db', True)"
    using assms(1) by (auto simp: end_run_def split: if_splits)
  then show ?thesis
    by (rule cas_run_moved [OF _ assms(2)]) simp_all
qed

lemma advance_target_moved:
  assumes "advance_target secrets types j now db = Inr (db', v)" and "written j"
  shows "same_jobs db db' \<and> run_moved j open_runs {Run_Running} (run_row db) (run_row db')"
proof -
  obtain t where t: "resolve_target types j = Inr t"
    using assms(1) by (auto simp: advance_target_def)
  note none = no_run_moved [where j = j and src = open_runs and ls = "{Run_Running}"]
  show ?thesis
  proof (cases "t = Run_Target")
    case True
    with assms(1) t obtain i r where "jb_run_id j = Some i" "advance_run i now db = Inr (db', Some r)"
      by (auto simp: advance_target_def split: option.splits)
    then show ?thesis by (metis advance_run_moved)
  next
    case False
    with resolve_run [OF assms(2) t] have "jb_run_id j = None" by simp
    moreover have "same_tables db db'"
      using assms(1) t False by (auto simp: advance_target_def dest: start_recording_same split: job_target.splits if_splits)
    ultimately show ?thesis using none by blast
  qed
qed

definition outcome_run :: "job_outcome \<Rightarrow> run_lifecycle" where
  "outcome_run outcome = (case outcome of Outcome_Cancelled \<Rightarrow> Run_Cancelled | Outcome_Failed \<Rightarrow> Run_Failed)"

lemma finish_target_moved:
  assumes "finish_target secrets types j now outcome db = Inr (db', v)" and "written j"
  shows "same_jobs db db' \<and> run_moved j open_runs {outcome_run outcome} (run_row db) (run_row db')"
proof -
  obtain t where t: "resolve_target types j = Inr t"
    using assms(1) by (auto simp: finish_target_def)
  note none = no_run_moved [where j = j and src = open_runs and ls = "{outcome_run outcome}"]
  show ?thesis
  proof (cases "t = Run_Target")
    case True
    with assms(1) t obtain i r where "jb_run_id j = Some i" "end_run i (outcome_run outcome) now db = Inr (db', Some r)"
      by (auto simp: finish_target_def outcome_run_def split: option.splits)
    then show ?thesis by (metis end_run_moved)
  next
    case False
    with resolve_run [OF assms(2) t] have "jb_run_id j = None" by simp
    moreover have "same_tables db db'"
      using assms(1) t False
      by (auto simp: finish_target_def finish_preparation_same dest: finish_recording_same finish_capture_same
          split: job_target.splits if_splits option.splits)
    ultimately show ?thesis using none by blast
  qed
qed

subsection \<open>Moves of a row\<close>

inductive job_move :: "job \<Rightarrow> job_event_type \<Rightarrow> job \<Rightarrow> bool" where
  claimed: "jb_state j \<in> waiting_states \<Longrightarrow> jb_cancel j = None \<Longrightarrow> jb_attempt j < jb_max_attempts j \<Longrightarrow> jb_updated j \<le> now \<Longrightarrow>
    jb_available j \<le> now \<Longrightarrow> job_move j Job_Claimed (claimed_row owner now expires j)"
| renewed: "jb_state j = Running \<Longrightarrow> jb_updated j \<le> now \<Longrightarrow> given (\<lambda>t. now < t \<and> t < expires) (jb_expires j) \<Longrightarrow>
    job_move j Job_Lease_Renewed (j\<lparr>jb_expires := Some expires, jb_updated := now\<rparr>)"
| marked: "jb_state j \<notin> ended_states \<Longrightarrow> jb_cancel j = None \<Longrightarrow> jb_updated j \<le> now \<Longrightarrow>
    job_move j Job_Cancel_Requested (j\<lparr>jb_cancel := Some now, jb_updated := now\<rparr>)"
| waiting_cancelled: "jb_state j \<in> waiting_states \<Longrightarrow> jb_cancel j \<noteq> None \<Longrightarrow> jb_updated j \<le> now \<Longrightarrow>
    job_move j Job_Cancelled (j\<lparr>jb_state := Cancelled, jb_updated := now\<rparr>)"
| waiting_failed: "jb_state j \<in> waiting_states \<Longrightarrow> jb_cancel j = None \<Longrightarrow> jb_updated j \<le> now \<Longrightarrow>
    job_move j Job_Failed (j\<lparr>jb_state := Failed, jb_updated := now\<rparr>)"
| retried: "jb_state j = Running \<Longrightarrow> jb_updated j \<le> now \<Longrightarrow> jb_attempt j < jb_max_attempts j \<Longrightarrow>
    ty \<in> {Job_Retry_Scheduled, Job_Recovery_Confirmed} \<Longrightarrow> job_move j ty (released Retry_Wait (Some t) now j)"
| ended: "jb_state j = Running \<Longrightarrow> jb_updated j \<le> now \<Longrightarrow>
    (ty, target) \<in> {(Job_Succeeded, Succeeded), (Job_Failed, Failed), (Job_Cancelled, Cancelled), (Job_Recovery_Confirmed, Failed),
      (Job_Recovery_Confirmed, Cancelled)} \<Longrightarrow> (target = Cancelled \<longrightarrow> jb_cancel j \<noteq> None) \<Longrightarrow>
    job_move j ty (released target None now j)"

fun runs_at :: "job_state \<Rightarrow> run_lifecycle set" where
  "runs_at Pending = {Run_Queued}"
| "runs_at Running = {Run_Running}"
| "runs_at Retry_Wait = {Run_Running}"
| "runs_at Succeeded = {Run_Completed, Run_Stopped}"
| "runs_at Failed = {Run_Failed}"
| "runs_at Cancelled = {Run_Cancelled}"

definition run_follows :: "job \<Rightarrow> job \<Rightarrow> (str \<Rightarrow> run option) \<Rightarrow> (str \<Rightarrow> run option) \<Rightarrow> bool" where
  \<comment> \<open>the run stays while the job keeps its state or waits again, and moves with the job otherwise\<close>
  "run_follows j j' rs rs' \<longleftrightarrow> (if jb_state j' = jb_state j \<or> jb_state j' = Retry_Wait then rs' = rs
     else run_moved j' open_runs (runs_at (jb_state j')) rs rs')"

definition event_source :: "job \<Rightarrow> job_event \<Rightarrow> bool" where
  \<comment> \<open>the state before the move; the failure of a waiting job is told with a state that was read earlier\<close>
  "event_source j e \<longleftrightarrow> je_source e = Some (jb_state j) \<or>
     je_type e = Job_Failed \<and> jb_state j \<in> waiting_states \<and> je_source e \<in> Some ` waiting_states"

definition runs_kept :: "job list \<Rightarrow> (str \<Rightarrow> run option) \<Rightarrow> (str \<Rightarrow> run option) \<Rightarrow> bool" where
  "runs_kept js rs rs' \<longleftrightarrow> (\<forall>j \<in> set js. \<forall>i. jb_run_id j = Some i \<longrightarrow> rs' i = rs i)"

definition fresh_job :: "job \<Rightarrow> bool" where
  "fresh_job j \<longleftrightarrow> written j \<and> jb_state j = Pending \<and> jb_attempt j = 0 \<and> jb_cancel j = None"

definition job_key :: "job \<Rightarrow> str \<times> str \<times> str" where
  "job_key j = (jb_project_id j, jb_operation j, jb_key j)"

inductive job_step :: "database \<Rightarrow> database \<Rightarrow> bool" where
  elsewhere: "same_jobs db db' \<Longrightarrow> runs_kept (db_jobs db) (run_row db) (run_row db') \<Longrightarrow> job_step db db'"
| added: "fresh_job j \<Longrightarrow> job_row db (jb_job_id j) = None \<Longrightarrow> job_key j \<notin> job_key ` set (db_jobs db) \<Longrightarrow>
    db_jobs db' = db_jobs db @ [j] \<Longrightarrow>
    logged j Job_Submitted None (Some Pending) (db_events db) e \<Longrightarrow> db_events db' = db_events db @ [e] \<Longrightarrow>
    runs_kept (db_jobs db) (run_row db) (run_row db') \<Longrightarrow>
    absent_or (\<lambda>i. given (\<lambda>r. rn_lifecycle r = Run_Queued) (run_row db' i) \<and>
      (\<forall>k \<in> set (db_jobs db). jb_run_id k \<noteq> Some i)) (jb_run_id j) \<Longrightarrow> job_step db db'"
| moved: "job_row db i = Some j \<Longrightarrow> job_move j ty j' \<Longrightarrow> written j' \<Longrightarrow> db_jobs db' = with_job j' (db_jobs db) \<Longrightarrow>
    logged j ty source (Some (jb_state j')) (db_events db) e \<Longrightarrow> event_source j e \<Longrightarrow>
    db_events db' = db_events db @ [e] \<Longrightarrow> run_follows j j' (run_row db) (run_row db') \<Longrightarrow> job_step db db'"

abbreviation job_steps :: "database \<Rightarrow> database \<Rightarrow> bool" where
  "job_steps \<equiv> job_step\<^sup>*\<^sup>*"

text \<open>What a move does not change, and what it does to the fence.\<close>

definition same_job :: "job \<Rightarrow> job \<Rightarrow> bool" where
  "same_job j k \<longleftrightarrow> jb_job_id k = jb_job_id j \<and> jb_project_id k = jb_project_id j \<and> jb_operation k = jb_operation j \<and>
     jb_key k = jb_key j \<and> jb_request_hash k = jb_request_hash j \<and> jb_max_attempts k = jb_max_attempts j \<and>
     jb_created k = jb_created j \<and> job_target_ids k = job_target_ids j"

lemma same_job_trans: "same_job j k \<Longrightarrow> same_job k l \<Longrightarrow> same_job j l"
  by (simp add: same_job_def)

lemma move_same_job: "job_move j ty j' \<Longrightarrow> same_job j j'"
  by (auto elim!: job_move.cases simp: same_job_def claimed_row_def released_def job_target_ids_def)

lemma same_job_id: "same_job j k \<Longrightarrow> jb_job_id k = jb_job_id j" "same_job j k \<Longrightarrow> jb_run_id k = jb_run_id j"
    "same_job j k \<Longrightarrow> jb_max_attempts k = jb_max_attempts j"
  by (simp_all add: same_job_def job_target_ids_def)

lemma move_fence: "job_move j ty j' \<Longrightarrow> jb_attempt j' - jb_attempt j = jb_token j' - jb_token j \<and>
    jb_token j' = jb_token j + (if ty = Job_Claimed then 1 else 0)"
  by (auto elim!: job_move.cases simp: claimed_row_def released_def)

lemma move_ended: "job_move j ty j' \<Longrightarrow> jb_state j \<notin> ended_states"
  by (auto elim!: job_move.cases simp: ended_states_def waiting_states_def)

lemma move_state: "job_move j ty j' \<Longrightarrow> jb_state j' = jb_state j \<or>
    jb_state j \<in> waiting_states \<and> jb_state j' \<in> {Running, Failed, Cancelled} \<or>
    jb_state j = Running \<and> jb_state j' \<in> {Retry_Wait, Succeeded, Failed, Cancelled}"
  by (erule job_move.cases) (simp_all add: claimed_row_def released_def, blast)

lemma moved_step:
  assumes "job_row db i = Some j" "job_move j ty j'" "written j'" "db1 = put_job j' db"
    and "same_jobs db1 db2" "run_follows j j' (run_row db1) (run_row db2)"
    and "append_job_event secrets j' ty source target at metadata db2 = Inr db'"
    and "source = Some (jb_state j) \<or> ty = Job_Failed \<and> jb_state j \<in> waiting_states \<and> source \<in> Some ` waiting_states"
    and "target = Some (jb_state j')"
  shows "job_step db db'"
proof -
  have id: "jb_job_id j' = jb_job_id j"
    using move_same_job [OF assms(2)] by (simp add: same_job_def)
  obtain e where e: "logged j' ty source target (db_events db2) e" "db_events db' = db_events db2 @ [e]"
      "db_jobs db' = db_jobs db2" "db_runs db' = db_runs db2"
    using assms(7) by (rule append_job_event_Inr)
  have runs: "run_row db1 = run_row db"
    by (rule run_row_cong) (simp add: assms(4))
  have old: "db_events db2 = db_events db" "db_jobs db2 = with_job j' (db_jobs db)"
    using assms(4,5) by (simp_all add: same_jobs_def)
  show ?thesis
  proof (rule moved [OF assms(1-3)])
    show "db_jobs db' = with_job j' (db_jobs db)" "db_events db' = db_events db @ [e]"
      using e old by simp_all
    show "logged j ty source (Some (jb_state j')) (db_events db) e"
      using e(1) assms(9) id old by (simp add: logged_def)
    show "event_source j e"
      using e(1) assms(8) by (auto simp: event_source_def logged_def)
    show "run_follows j j' (run_row db) (run_row db')"
      using assms(6) runs run_row_cong [OF e(4)] by simp
  qed
qed

end
