(* ===== verification/JobSteps.thy ===== *)
theory JobSteps
  imports JobFacts
begin

section \<open>Operations are moves\<close>

text \<open>
  Each operation of the queue that returns has taken the database through moves of \<open>job_step\<close>: one for most of them,
  none or two for a cancellation. The operations that read first are given an earlier database \<open>old\<close>; what they rely on
  is \<open>follows_on\<close>: a row of \<open>old\<close> is there later, with the same frozen fields, and its fence counts its attempts.
\<close>

lemma fenced_error_Inl [simp]: "fenced_error db q expired \<noteq> Inr x"
  by (simp add: fenced_error_def)

lemma claim_error_Inl [simp]: "claim_error db i now \<noteq> Inr x"
  by (simp add: claim_error_def)

lemma mutation_result_Inr [simp]: "mutation_result j v db = Inr (db', m) \<longleftrightarrow> target_shown j v \<and> db' = db \<and> m = (j, v)"
  by (auto simp: mutation_result_def guard_simps)

lemma cancellation_result_Inr [simp]: "cancellation_result j v completed db = Inr (db', c) \<longleftrightarrow>
    (\<exists>t. jb_cancel j = Some t \<and> target_shown j v \<and> db' = db \<and> c = ((j, v), t, completed))"
  by (auto simp: cancellation_result_def split: option.splits)

lemma renew_step: "renew s q db = Inr (db', m) \<Longrightarrow> job_step db db'"
proof -
  assume ok: "renew s q db = Inr (db', m)"
  obtain d1 j' v where row: "renew_row (fm_job_id q) (fm_owner q) (fm_token q) (fm_now q) (rl_expires q) db = Inr (d1, Some j')"
    and ev: "append_job_event (js_secrets s) j' Job_Lease_Renewed (Some Running) (Some Running) (fm_now q)
      [(''attempt'', JInt (jb_attempt j')), (''fencing_token'', JInt (jb_token j'))] d1 = Inr db'"
    using ok by (auto simp: renew_def split: option.splits)
  from row [unfolded renew_row_def] obtain j where j: "job_row db (fm_job_id q) = Some j"
      "holds_lease (fm_owner q) (fm_token q) j" "given (\<lambda>t. fm_now q < t \<and> t < rl_expires q) (jb_expires j)" "jb_updated j \<le> fm_now q"
      "j' = j\<lparr>jb_expires := Some (rl_expires q), jb_updated := fm_now q\<rparr>" "written j'" "d1 = put_job j' db"
    by (elim cas_job_Some) auto
  have "job_move j Job_Lease_Renewed j'"
    unfolding j(5) by (rule renewed) (use j(2-4) in \<open>simp_all add: holds_lease_def\<close>)
  then show ?thesis
    by (rule moved_step [OF j(1) _ j(6,7) _ _ ev]) (use j(2,5) in \<open>simp_all add: run_follows_def holds_lease_def\<close>)
qed

definition job_ok :: "job \<Rightarrow> bool" where
  "job_ok j \<longleftrightarrow> written j \<and> jb_token j = jb_attempt j \<and> (jb_owner j \<noteq> None) = (jb_state j = Running) \<and>
     (jb_state j = Pending \<longrightarrow> jb_attempt j = 0) \<and> (jb_state j = Retry_Wait \<longrightarrow> 0 < jb_attempt j \<and> jb_attempt j < jb_max_attempts j) \<and>
     (jb_state j \<in> {Running, Succeeded} \<longrightarrow> 0 < jb_attempt j)"

definition jobs_ok :: "database \<Rightarrow> bool" where
  "jobs_ok db \<longleftrightarrow> distinct (map jb_job_id (db_jobs db)) \<and> distinct (map job_key (db_jobs db)) \<and> (\<forall>j \<in> set (db_jobs db). job_ok j)"

lemma job_row_unique: "jobs_ok db \<Longrightarrow> j \<in> set (db_jobs db) \<Longrightarrow> job_row db (jb_job_id j) = Some j"
proof -
  have "distinct (map jb_job_id js) \<Longrightarrow> j \<in> set js \<Longrightarrow> find (\<lambda>k. jb_job_id k = jb_job_id j) js = Some j" for js
    by (induction js) force+
  then show "jobs_ok db \<Longrightarrow> j \<in> set (db_jobs db) \<Longrightarrow> job_row db (jb_job_id j) = Some j"
    by (simp add: jobs_ok_def job_row_def)
qed

lemma claim_row_Some:
  assumes "claim_row i owner now expires types db = Inr (d1, Some j')" and "jobs_ok db"
  obtains j where "j \<in> set (db_jobs db)" "eligible types now db j" "absent_or (\<lambda>i. jb_job_id j = i) i"
    "\<forall>k \<in> set (db_jobs db). eligible types now db k \<and> absent_or (\<lambda>i. jb_job_id k = i) i \<longrightarrow> claim_order j \<le> claim_order k"
    "j' = claimed_row owner now expires j" "written j'" "d1 = put_job j' db" "job_row db (jb_job_id j) = Some j"
proof -
  let ?js = "filter (\<lambda>j. eligible types now db j \<and> absent_or (\<lambda>i. jb_job_id j = i) i) (db_jobs db)"
  obtain j js where sorted: "sort_key claim_order ?js = j # js"
      and cas: "cas_job (\<lambda>_. True) (claimed_row owner now expires) (jb_job_id j) db = Inr (d1, Some j')"
    using assms(1) by (auto simp: claim_row_def split: list.splits)
  have mem: "set (j # js) = set ?js"
    by (metis sorted set_sort)
  have least: "claim_order j \<le> claim_order k" if "k \<in> set ?js" for k
  proof -
    have "sorted (map claim_order (j # js))" using sorted by (metis sorted_sort_key)
    moreover have "k \<in> set (j # js)" using that mem by simp
    ultimately show ?thesis by (auto simp: )
  qed
  have j: "j \<in> set ?js" using mem by (metis list.set_intros(1))
  then have row: "job_row db (jb_job_id j) = Some j" by (auto intro: job_row_unique [OF assms(2)])
  obtain k where "job_row db (jb_job_id j) = Some k" "j' = claimed_row owner now expires k" "written j'" "d1 = put_job j' db"
    using cas by (rule cas_job_Some) (simp add: claimed_row_def)
  with row j least show thesis
    by (intro that [of j]) auto
qed

lemma claim_row_None: "claim_row i owner now expires types db = Inr (d1, None) \<Longrightarrow> d1 = db"
  by (auto simp: claim_row_def claimed_row_def dest!: cas_job_None split: list.splits)

lemma claim_step:
  assumes "claim s q db = Inr (db', m)" and "jobs_ok db"
  shows "job_step db db'"
proof -
  obtain expires d1 r where row: "claim_row (cl_job_id q) (cl_owner q) (cl_now q) expires (js_targets s) db = Inr (d1, r)"
      and rest: "r = None \<Longrightarrow> db' = db" "\<And>j'. r = Some j' \<Longrightarrow> \<exists>d2 v. advance_target (js_secrets s) (js_targets s) j' (cl_now q) d1 = Inr (d2, v) \<and>
        append_job_event (js_secrets s) j' Job_Claimed (Some (if jb_attempt j' = 1 then Pending else Retry_Wait)) (Some Running) (cl_now q)
          [(''attempt'', JInt (jb_attempt j')), (''fencing_token'', JInt (jb_token j'))] d2 = Inr db'"
    using assms(1) by (fastforce simp: claim_def split: option.splits)
  show ?thesis
  proof (cases r)
    case None
    with rest show ?thesis by (auto intro: elsewhere simp: runs_kept_def)
  next
    case (Some j')
    obtain d2 v where adv: "advance_target (js_secrets s) (js_targets s) j' (cl_now q) d1 = Inr (d2, v)" and
      ev: "append_job_event (js_secrets s) j' Job_Claimed (Some (if jb_attempt j' = 1 then Pending else Retry_Wait)) (Some Running) (cl_now q)
          [(''attempt'', JInt (jb_attempt j')), (''fencing_token'', JInt (jb_token j'))] d2 = Inr db'"
      using rest(2) [OF Some] by blast
    obtain j where j: "j \<in> set (db_jobs db)" "eligible (js_targets s) (cl_now q) db j" "j' = claimed_row (cl_owner q) (cl_now q) expires j"
        "written j'" "d1 = put_job j' db" "job_row db (jb_job_id j) = Some j"
      using row [unfolded Some] assms(2) by (rule claim_row_Some)
    have states: "jb_state j \<in> waiting_states" "jb_state j' = Running" "jb_attempt j' = jb_attempt j + 1"
      using j(2,3) by (simp_all add: eligible_def claimed_row_def)
    have "job_ok j" using j(1) assms(2) by (simp add: jobs_ok_def)
    with states have source: "(if jb_attempt j' = 1 then Pending else Retry_Wait) = jb_state j"
      by (auto simp: job_ok_def waiting_states_def)
    have move: "job_move j Job_Claimed j'"
      unfolding j(3) using j(2) by (intro claimed) (simp_all add: eligible_def)
    show ?thesis
      by (rule moved_step [OF j(6) move j(4,5) _ _ ev])
        (use states source advance_target_moved [OF adv j(4)] in \<open>auto simp: run_follows_def waiting_states_def\<close>)
  qed
qed

lemma finish_running_Some:
  assumes "finish_running i owner token now target available require_cancel require_expired db = Inr (d1, Some j')"
  obtains j where "job_row db i = Some j" "holds_lease owner token j" "jb_updated j \<le> now" "require_cancel \<longrightarrow> jb_cancel j \<noteq> None"
    "given (\<lambda>t. if require_expired then t \<le> now else now < t) (jb_expires j)"
    "j' = released target available now j" "written j'" "d1 = put_job j' db"
  using assms unfolding finish_running_def by (elim cas_job_Some) (auto simp: released_def)

definition may_retry :: "str \<Rightarrow> int \<Rightarrow> database \<Rightarrow> bool" where
  "may_retry i token db \<longleftrightarrow> given (\<lambda>j. jb_token j = token \<longrightarrow> jb_attempt j < jb_max_attempts j) (job_row db i)"

lemma attempt_over_step:
  assumes "finish_running i owner token now target available require_cancel require_expired db = Inr (d1, Some j')"
    and "target = Retry_Wait \<Longrightarrow> may_retry i token db \<and> available \<noteq> None"
    and "target \<noteq> Retry_Wait \<Longrightarrow> available = None"
    and "ty = Job_Retry_Scheduled \<and> target = Retry_Wait \<or> ty = Job_Failed \<and> target = Failed \<or> ty = Job_Cancelled \<and> target = Cancelled \<or>
      ty = Job_Recovery_Confirmed \<and> target \<in> {Retry_Wait, Failed, Cancelled}"
    and "target = Cancelled \<Longrightarrow> require_cancel"
    and "if target = Retry_Wait then d2 = d1 else same_jobs d1 d2 \<and> run_moved j' open_runs (runs_at target) (run_row d1) (run_row d2)"
    and "append_job_event secrets j' ty (Some Running) (Some target) at metadata d2 = Inr db'"
  shows "job_step db db'"
proof -
  obtain j where j: "job_row db i = Some j" "holds_lease owner token j" "jb_updated j \<le> now" "require_cancel \<longrightarrow> jb_cancel j \<noteq> None"
    "j' = released target available now j" "written j'" "d1 = put_job j' db"
    using assms(1) by (rule finish_running_Some)
  have state: "jb_state j = Running" "jb_state j' = target"
    using j(2,5) by (simp_all add: holds_lease_def released_def)
  have "job_move j ty j'"
  proof (cases "target = Retry_Wait")
    case True
    with assms(2) obtain t where t: "available = Some t" "jb_attempt j < jb_max_attempts j"
      using j(1,2) by (auto simp: may_retry_def holds_lease_def)
    show ?thesis
      unfolding j(5) t(1) True by (rule retried) (use state t j(3) True assms(4) in auto)
  next
    case False
    then have none: "available = None" by (rule assms(3))
    show ?thesis
      unfolding j(5) none by (rule ended) (use state j(3,4) False assms(4,5) in auto)
  qed
  then show ?thesis
    by (rule moved_step [OF j(1) _ j(6,7) _ _ assms(7)])
      (use assms(4,6) state in \<open>auto simp: run_follows_def split: if_splits\<close>)
qed

lemma complete_cancellation_step:
  assumes "complete_cancellation s q old db = Inr (db', c)"
  shows "job_step db db'"
proof -
  obtain d1 d2 j' v where row: "finish_running (fm_job_id q) (fm_owner q) (fm_token q) (fm_now q) Cancelled None True False db = Inr (d1, Some j')"
    and fin: "finish_target (js_secrets s) (js_targets s) j' (fm_now q) Outcome_Cancelled d1 = Inr (d2, v)"
    and ev: "append_job_event (js_secrets s) j' Job_Cancelled (Some Running) (Some Cancelled) (fm_now q)
      [(''attempt'', JInt (jb_attempt j')), (''fencing_token'', JInt (fm_token q))] d2 = Inr db'"
    using assms by (auto simp: complete_cancellation_def complete_cancelled_def split: if_splits option.splits)
  have "written j'" using row by (rule finish_running_Some)
  then show ?thesis
    by (intro attempt_over_step [OF row _ _ _ _ _ ev]) (use finish_target_moved [OF fin] in \<open>simp_all add: outcome_run_def\<close>)
qed

lemma persist_failure_step:
  assumes "persist_failure s q target available db = Inr (db', m)"
    and "target = Retry_Wait \<Longrightarrow> may_retry (fm_job_id q) (fm_token q) db \<and> available \<noteq> None"
    and "target \<noteq> Retry_Wait \<Longrightarrow> available = None"
  shows "job_step db db'"
proof -
  obtain d1 d2 j' v where target: "target \<in> {Retry_Wait, Failed}"
    and row: "finish_running (fm_job_id q) (fm_owner q) (fm_token q) (fm_now q) target available False False db = Inr (d1, Some j')"
    and fin: "target = Failed \<Longrightarrow> finish_target (js_secrets s) (js_targets s) j' (fm_now q) Outcome_Failed d1 = Inr (d2, v)"
      "target \<noteq> Failed \<Longrightarrow> d2 = d1"
    and ev: "append_job_event (js_secrets s) j' (if target = Failed then Job_Failed else Job_Retry_Scheduled) (Some Running) (Some target)
      (fm_now q) (failure_metadata j' q available) d2 = Inr db'"
    using assms(1) by (fastforce simp: persist_failure_def record_running_failure_def split: if_splits option.splits)
  have "written j'" using row by (rule finish_running_Some)
  then show ?thesis
    by (intro attempt_over_step [OF row assms(2,3) _ _ _ ev])
      (use target fin finish_target_moved [OF fin(1)] in \<open>auto simp: outcome_run_def\<close>)
qed

text \<open>A job read earlier and the same job later: whatever was frozen is the same, and the fence counts the attempts.\<close>

definition later :: "job \<Rightarrow> job \<Rightarrow> bool" where
  "later j k \<longleftrightarrow> same_job j k \<and> jb_attempt k - jb_attempt j = jb_token k - jb_token j \<and> jb_token j \<le> jb_token k \<and>
     (jb_state j \<in> ended_states \<longrightarrow> k = j)"

definition follows_on :: "database \<Rightarrow> database \<Rightarrow> bool" where
  "follows_on old db \<longleftrightarrow> (\<forall>i j. job_row old i = Some j \<longrightarrow> given (later j) (job_row db i))"

lemma later_trans: "later j k \<Longrightarrow> later k l \<Longrightarrow> later j l"
  by (auto simp: later_def same_job_def)

lemma later_retry: "follows_on old db \<Longrightarrow> job_row old i = Some j \<Longrightarrow> jb_token j = token \<Longrightarrow> jb_attempt j < jb_max_attempts j \<Longrightarrow>
    may_retry i token db"
proof -
  assume *: "follows_on old db" "job_row old i = Some j" "jb_token j = token" "jb_attempt j < jb_max_attempts j"
  then have "given (later j) (job_row db i)" by (simp add: follows_on_def)
  then obtain k where "job_row db i = Some k" "later j k" by (cases "job_row db i") auto
  with * show ?thesis by (simp add: may_retry_def later_def same_job_def)
qed

lemma require_job_Inr: "require_job db i = Inr j \<longleftrightarrow> job_row db i = Some j \<and> job_errors j = []"
  by (auto simp: require_job_def read_job_def guard_simps split: option.splits)

lemma not_absent_or: "absent_or p x = (\<not> given (\<lambda>t. \<not> p t) x)"
  by (cases x) simp_all

lemma require_current_fence_Inr: "require_current_fence db q = Inr j \<longleftrightarrow> job_row db (fm_job_id q) = Some j \<and> job_errors j = [] \<and>
    holds_lease (fm_owner q) (fm_token q) j \<and> given (\<lambda>t. fm_now q < t) (jb_expires j)"
  unfolding require_current_fence_def andthen_Inr require_job_Inr not_absent_or holds_lease_def not_le
  by (simp split: if_split) blast

lemma require_recovery_fence_Inr: "require_recovery_fence db q = Inr j \<longleftrightarrow> job_row db (fm_job_id q) = Some j \<and> job_errors j = [] \<and>
    holds_lease (fm_owner q) (fm_token q) j \<and> given (\<lambda>t. t \<le> fm_now q) (jb_expires j)"
  unfolding require_recovery_fence_def andthen_Inr require_job_Inr not_absent_or holds_lease_def not_less
  by (simp split: if_split) blast

lemma record_retryable_failure_step:
  assumes "record_retryable_failure s q old db = Inr (db', m)" and "follows_on old db"
  shows "job_step db db'"
proof -
  obtain j where j: "require_current_fence old q = Inr j"
      and rest: "(if jb_max_attempts j \<le> jb_attempt j then persist_failure s q Failed None db
        else andthen (compute_retry_available_at (js_policy s) (js_jitter s) (fm_now q) (jb_attempt j)) (\<lambda>t.
          persist_failure s q Retry_Wait (Some t) db)) = Inr (db', m)"
    using assms(1) by (auto simp del: andthen_Inr simp: record_retryable_failure_def andthen_def split: if_splits sum.splits)
  have row: "job_row old (fm_job_id q) = Some j" "jb_token j = fm_token q"
    using j by (simp_all add: require_current_fence_Inr holds_lease_def)
  show ?thesis
  proof (cases "jb_max_attempts j \<le> jb_attempt j")
    case True
    with rest have "persist_failure s q Failed None db = Inr (db', m)" by simp
    then show ?thesis by (rule persist_failure_step) simp_all
  next
    case False
    then have may: "may_retry (fm_job_id q) (fm_token q) db"
      using later_retry [OF assms(2) row] by simp
    obtain t where retry: "persist_failure s q Retry_Wait (Some t) db = Inr (db', m)"
      using False rest by auto
    show ?thesis
      by (rule persist_failure_step [OF retry]) (use may in simp_all)
  qed
qed

lemma record_fatal_failure_step: "record_fatal_failure s q old db = Inr (db', m) \<Longrightarrow> job_step db db'"
  by (auto simp: record_fatal_failure_def intro: persist_failure_step)

lemma recover_step:
  assumes "recover s q old db = Inr (db', m)" and "follows_on old db"
  shows "job_step db db'"
proof -
  obtain j available d1 d2 j' v where j: "require_recovery_fence old q = Inr j"
    and available: "(recovery_target j = Retry_Wait) = (available \<noteq> None)"
    and row: "finish_running (fm_job_id q) (fm_owner q) (fm_token q) (fm_now q) (recovery_target j) available (recovery_target j = Cancelled)
      True db = Inr (d1, Some j')"
    and fin: "(case recovery_target j of
        Cancelled \<Rightarrow> finish_target (js_secrets s) (js_targets s) j' (fm_now q) Outcome_Cancelled d1
      | Failed \<Rightarrow> finish_target (js_secrets s) (js_targets s) j' (fm_now q) Outcome_Failed d1
      | _ \<Rightarrow> andthen (load_target (js_targets s) j' d1) (\<lambda>v. Inr (d1, v))) = Inr (d2, v)"
    and ev: "append_job_event (js_secrets s) j' Job_Recovery_Confirmed (Some Running) (Some (recovery_target j)) (fm_now q)
      (recovery_metadata j' q available) d2 = Inr db'"
    using assms(1) by (fastforce simp: recover_def recover_row_def split: if_splits option.splits)
  have written: "written j'" using row by (rule finish_running_Some)
  have target: "recovery_target j \<in> {Retry_Wait, Failed, Cancelled}" and retry: "recovery_target j = Retry_Wait \<Longrightarrow> jb_attempt j < jb_max_attempts j"
    by (auto simp: recovery_target_def split: if_splits)
  have held: "job_row old (fm_job_id q) = Some j" "jb_token j = fm_token q"
    using j by (simp_all add: require_recovery_fence_Inr holds_lease_def)
  have run: "if recovery_target j = Retry_Wait then d2 = d1
      else same_jobs d1 d2 \<and> run_moved j' open_runs (runs_at (recovery_target j)) (run_row d1) (run_row d2)"
    using target fin finish_target_moved [OF _ written] by (fastforce simp: outcome_run_def)
  show ?thesis
    by (rule attempt_over_step [OF row _ _ _ _ run ev])
      (use target retry available later_retry [OF assms(2) held] in auto)
qed

lemma record_waiting_fatal_failure_step:
  assumes "record_waiting_fatal_failure s q old db = Inr (db', m)"
  shows "job_step db db'"
proof (cases "db' = db")
  case True
  then show ?thesis by (auto intro: elsewhere simp: runs_kept_def)
next
  case False
  note ok = assms [unfolded record_waiting_fatal_failure_def]
  obtain d1 r where row': "fail_waiting_row (cj_job_id q) (cj_now q) db = Inr (d1, r)"
    using ok by auto
  obtain j' where r: "r = Some j'"
    using ok row' False by (cases r) auto
  note row = row' [unfolded r]
  obtain k where k: "read_job old (cj_job_id q) = Inr (Some k)" "jb_state k \<in> waiting_states"
    using ok row by (auto split: option.splits if_splits)
  obtain d2 v1 v2 where fin: "finish_target (js_secrets s) (js_targets s) j' (cj_now q) Outcome_Failed d1 = Inr (d2, v1, v2)"
    and ev: "append_job_event (js_secrets s) j' Job_Failed (Some (jb_state k)) (Some Failed) (cj_now q)
      ((''attempt'', JInt (jb_attempt j')) # (''reason_code'', JStr ''WORKER_FATAL'') # given_field ''error_code'' JStr (wf_error q)) d2
      = Inr db'"
    using ok row k by auto
  from row [unfolded fail_waiting_row_def] obtain j where j: "job_row db (cj_job_id q) = Some j"
      "jb_state j \<in> waiting_states" "jb_cancel j = None" "jb_updated j \<le> cj_now q"
      "j' = j\<lparr>jb_state := Failed, jb_updated := cj_now q\<rparr>" "written j'" "d1 = put_job j' db"
    by (elim cas_job_Some) auto
  have move: "job_move j Job_Failed j'"
    unfolding j(5) using j(2-4) by (rule waiting_failed)
  show ?thesis
    by (rule moved_step [OF j(1) move j(6,7) _ _ ev])
      (use j(2,5) k(2) finish_target_moved [OF fin j(6)] in \<open>auto simp: run_follows_def outcome_run_def waiting_states_def\<close>)
qed

lemma cancel_waiting_step:
  assumes "cancel_waiting s k now db = Inr (db', c)" and "job_row db (jb_job_id k) = Some k"
  shows "job_step db db'"
proof -
  obtain d1 d2 j' v where row: "cancel_waiting_row (jb_job_id k) now db = Inr (d1, Some j')"
    and fin: "finish_target (js_secrets s) (js_targets s) j' now Outcome_Cancelled d1 = Inr (d2, v)"
    and ev: "append_job_event (js_secrets s) j' Job_Cancelled (Some (jb_state k)) (Some Cancelled) now [(''attempt'', JInt (jb_attempt j'))] d2
      = Inr db'"
    using assms(1) by (fastforce simp: cancel_waiting_def split: option.splits)
  from row [unfolded cancel_waiting_row_def] obtain j where j: "job_row db (jb_job_id k) = Some j"
      "jb_state j \<in> waiting_states" "jb_cancel j \<noteq> None" "jb_updated j \<le> now"
      "j' = j\<lparr>jb_state := Cancelled, jb_updated := now\<rparr>" "written j'" "d1 = put_job j' db"
    by (elim cas_job_Some) auto
  have move: "job_move j Job_Cancelled j'"
    unfolding j(5) using j(2-4) by (rule waiting_cancelled)
  have "j = k" using j(1) assms(2) by simp
  then show ?thesis
    by (intro moved_step [OF j(1) move j(6,7) _ _ ev])
      (use j(2,5) finish_target_moved [OF fin j(6)] in \<open>auto simp: run_follows_def outcome_run_def waiting_states_def\<close>)
qed

lemma cancel_marked_step:
  assumes "cancel_marked s j now db = Inr (db', c)" and "job_row db (jb_job_id j) = Some j"
  shows "job_step db db'"
  using assms by (auto simp: cancel_marked_def runs_kept_def intro: cancel_waiting_step elsewhere split: if_splits)

lemma set_cancel_Inr:
  assumes "set_cancel i now db = Inr (d1, Some j', b)"
  shows "if b then \<exists>j. job_row db i = Some j \<and> job_move j Job_Cancel_Requested j' \<and> jb_state j' = jb_state j \<and> written j' \<and> d1 = put_job j' db
    else d1 = db \<and> job_row db i = Some j'"
proof -
  let ?cas = "cas_job (\<lambda>j. jb_state j \<notin> ended_states \<and> jb_cancel j = None \<and> jb_updated j \<le> now)
        (\<lambda>j. j\<lparr>jb_cancel := Some now, jb_updated := now\<rparr>) i db"
  obtain d r where r: "?cas = Inr (d, r)"
    using assms by (auto simp: set_cancel_def)
  show ?thesis
  proof (cases r)
    case (Some k)
    with r assms have 1: "b" "?cas = Inr (d1, Some j')"
      by (simp_all add: set_cancel_def)
    from 1(2) obtain j where "job_row db i = Some j" "jb_state j \<notin> ended_states \<and> jb_cancel j = None \<and> jb_updated j \<le> now"
        "j' = j\<lparr>jb_cancel := Some now, jb_updated := now\<rparr>" "written j'" "d1 = put_job j' db"
      by (rule cas_job_Some) simp
    then show ?thesis using 1(1) by (auto intro!: exI [of _ j] marked)
  next
    case None
    with r assms have 2: "\<not> b" "?cas = Inr (d1, None)" "read_job d1 i = Inr (Some j')"
      by (auto simp: set_cancel_def)
    from 2(2) have "d1 = db" by (rule cas_job_None) simp
    with 2(1,3) show ?thesis by (auto simp: read_job_def guard_simps split: option.splits)
  qed
qed

lemma request_cancellation_steps:
  assumes "request_cancellation s q old db = Inr (db', c)"
  shows "job_steps db db'"
proof -
  note ok = assms [unfolded request_cancellation_def]
  obtain first where first: "require_job old (cj_job_id q) = Inr first"
    using ok by auto
  show ?thesis
  proof (cases "jb_state first \<in> ended_states")
    case True
    with ok first have "db' = db" by (auto split: if_splits)
    then show ?thesis by simp
  next
    case False
    obtain d1 r marked where set': "set_cancel (cj_job_id q) (cj_now q) db = Inr (d1, r, marked)"
      using ok first False by auto
    obtain j where r: "r = Some j"
      using ok first False set' by (cases r) auto
    note set = set_cancel_Inr [OF set' [unfolded r]]
    show ?thesis
    proof (cases marked)
      case True
      with set obtain k where k: "job_row db (cj_job_id q) = Some k" "job_move k Job_Cancel_Requested j" "jb_state j = jb_state k"
          "written j" "d1 = put_job j db" by auto
      have "\<not> already_cancelled j"
        using move_ended [OF k(2)] k(3) by (auto simp: already_cancelled_def ended_states_def)
      then obtain d2 where ev: "append_job_event (js_secrets s) j Job_Cancel_Requested (Some (jb_state j)) (Some (jb_state j)) (cj_now q)
            [(''attempt'', JInt (jb_attempt j))] d1 = Inr d2" and rest: "cancel_marked s j (cj_now q) d2 = Inr (db', c)"
        using ok first False set' r True by auto
      have "jb_job_id j = cj_job_id q"
        using job_row_Some [OF k(1)] same_job_id(1) [OF move_same_job [OF k(2)]] by simp
      moreover have "job_row d2 = job_row d1"
        using ev by (rule append_job_event_Inr) (rule job_row_cong)
      ultimately have row: "job_row d2 (jb_job_id j) = Some j"
        using k(1,5) by (simp add: job_row_put_job)
      have "job_step db d2"
        by (rule moved_step [OF k(1,2,4,5) _ _ ev]) (simp_all add: run_follows_def k(3))
      moreover have "job_step d2 db'"
        using rest row by (rule cancel_marked_step)
      ultimately show ?thesis by (meson converse_rtranclp_into_rtranclp rtranclp.rtrancl_refl)
    next
      case False
      with set have d1: "d1 = db" and stored: "job_row db (cj_job_id q) = Some j"
        by simp_all
      have row: "job_row db (jb_job_id j) = Some j"
        using stored job_row_Some [OF stored] by simp
      from ok first \<open>jb_state first \<notin> ended_states\<close> set' r False d1 have "db' = db \<or> cancel_marked s j (cj_now q) db = Inr (db', c)"
        by (auto split: if_splits)
      with row show ?thesis by (auto dest: cancel_marked_step)
    qed
  qed
qed

lemma add_job_Inr:
  assumes "add_job secrets j db = Inr db'"
  shows "job_insertable db j \<and> db' = db\<lparr>db_jobs := db_jobs db @ [j]\<rparr>"
  using assms by (auto simp: add_job_def split: if_splits)

lemma insertable_new:
  assumes "job_insertable db j"
  shows "job_row db (jb_job_id j) = None" and "jb_run_id j = Some i \<Longrightarrow> \<forall>k \<in> set (db_jobs db). jb_run_id k \<noteq> Some i"
proof -
  from assms show "job_row db (jb_job_id j) = None"
    by (auto simp: job_insertable_def job_row_def find_None_iff list_all_iff)
  from assms show "jb_run_id j = Some i \<Longrightarrow> \<forall>k \<in> set (db_jobs db). jb_run_id k \<noteq> Some i"
    by (auto simp: job_insertable_def same_target_def list_all_iff)
qed

lemma insertable_key: "job_insertable db j \<Longrightarrow> job_key j \<notin> job_key ` set (db_jobs db)"
  by (auto simp: job_insertable_def job_key_def list_all_iff)

lemma added_step:
  assumes "add_job secrets j d1 = Inr d2" and "fresh_job j" and "append_job_event secrets j Job_Submitted None (Some Pending) at metadata d3 = Inr db'"
    and "same_jobs db d1" "same_tables d2 d3" "runs_kept (db_jobs db) (run_row db) (run_row d1)"
    and "absent_or (\<lambda>i. given (\<lambda>r. rn_lifecycle r = Run_Queued) (run_row d1 i)) (jb_run_id j)"
  shows "job_step db db'"
proof -
  have ins: "job_insertable d1 j" and d2: "d2 = d1\<lparr>db_jobs := db_jobs d1 @ [j]\<rparr>"
    using add_job_Inr [OF assms(1)] by auto
  obtain e where e: "logged j Job_Submitted None (Some Pending) (db_events d3) e" "db_events db' = db_events d3 @ [e]"
      "db_jobs db' = db_jobs d3" "db_runs db' = db_runs d3"
    using assms(3) by (rule append_job_event_Inr)
  have same: "db_jobs d1 = db_jobs db" "db_events d3 = db_events db" "db_jobs d3 = db_jobs db @ [j]" "run_row db' = run_row d1"
    using assms(4,5) e(4) by (simp_all add: same_jobs_def same_tables_def d2 run_row_def fun_eq_iff)
  have rows: "job_row db = job_row d1" using same(1) by (simp add: job_row_def fun_eq_iff)
  show ?thesis
  proof (rule added [OF assms(2)])
    show "job_row db (jb_job_id j) = None" using insertable_new(1) [OF ins] rows by simp
    show "job_key j \<notin> job_key ` set (db_jobs db)" using insertable_key [OF ins] same(1) by simp
    show "absent_or (\<lambda>i. given (\<lambda>r. rn_lifecycle r = Run_Queued) (run_row db' i) \<and> (\<forall>k \<in> set (db_jobs db). jb_run_id k \<noteq> Some i)) (jb_run_id j)"
      using assms(7) insertable_new(2) [OF ins] same by (cases "jb_run_id j") auto
  qed (use e same assms(6) in simp_all)
qed

lemma enqueue_step:
  assumes "enqueue secrets j metadata db = Inr db'" and "fresh_job j" and "jb_run_id j = None"
  shows "job_step db db'"
proof -
  obtain d2 where d2: "add_job secrets j db = Inr d2"
    and ev: "append_job_event secrets j Job_Submitted None (Some Pending) (jb_created j) metadata d2 = Inr db'"
    using assms(1) by (auto simp: enqueue_def)
  show ?thesis
    by (rule added_step [OF d2 assms(2) ev]) (use assms(3) in \<open>simp_all add: runs_kept_def\<close>)
qed

text \<open>The callback of a submission stores what belongs to its run in other tables.\<close>

definition local_callback :: "(run \<Rightarrow> database \<Rightarrow> database checked) \<Rightarrow> bool" where
  "local_callback on_created \<longleftrightarrow> (\<forall>r d d'. on_created r d = Inr d' \<longrightarrow> same_tables d d')"

lemma run_row_added: "db_runs d = db_runs db @ [r] \<Longrightarrow> run_row d i =
    (case run_row db i of None \<Rightarrow> if rn_run_id r = i then Some r else None | Some k \<Rightarrow> Some k)"
proof -
  have "find p (xs @ [r]) = (case find p xs of None \<Rightarrow> if p r then Some r else None | Some k \<Rightarrow> Some k)" for p and xs :: "run list"
    by (induction xs) auto
  then show "db_runs d = db_runs db @ [r] \<Longrightarrow> ?thesis"
    by (simp add: run_row_def)
qed

definition runs_known :: "database \<Rightarrow> bool" where
  "runs_known db \<longleftrightarrow> (\<forall>j \<in> set (db_jobs db). \<forall>i. jb_run_id j = Some i \<longrightarrow> run_row db i \<noteq> None)"

lemma create_submission_step:
  assumes "create_submission s q run_id job_id on_created db = Inr (db', r)" and "local_callback on_created" and "runs_known db"
  shows "job_step db db'"
proof -
  let ?r = "queued_run q run_id" and ?j = "pending_job q job_id run_id"
  note ok = assms(1) [unfolded create_submission_def Let_def]
  obtain d1 d2 d3 where errors: "job_errors ?j = []"
    and run: "add_run (js_secrets s) ?r db = Inr d1" and d2: "add_job (js_secrets s) ?j d1 = Inr d2" and callback: "on_created ?r d2 = Inr d3"
    and ev: "append_job_event (js_secrets s) ?j Job_Submitted None (Some Pending) (sj_now q) [(''attempt'', JInt 0)] d3 = Inr db'"
    using ok by (auto simp: guard_simps)
  have d1: "d1 = db\<lparr>db_runs := db_runs db @ [?r]\<rparr>" and new: "run_row db run_id = None"
    using run by (auto simp: add_run_def run_row_def find_None_iff list_ex_iff queued_run_def split: if_splits)
  have rows: "run_row d1 i = (case run_row db i of None \<Rightarrow> if run_id = i then Some ?r else None | Some k \<Rightarrow> Some k)" for i
    using run_row_added [of d1 db ?r i] by (simp add: d1 queued_run_def)
  have "job_row_ok ?j"
    using add_job_Inr [OF d2] by (simp add: job_insertable_def)
  with errors have fresh: "fresh_job ?j"
    by (simp add: fresh_job_def written_def pending_job_def)
  show ?thesis
  proof (rule added_step [OF d2 fresh ev])
    show "same_tables d2 d3" using callback assms(2) by (simp add: local_callback_def)
    show "runs_kept (db_jobs db) (run_row db) (run_row d1)"
      using assms(3) by (fastforce simp: runs_kept_def runs_known_def rows split: option.splits)
    show "absent_or (\<lambda>i. given (\<lambda>r. rn_lifecycle r = Run_Queued) (run_row d1 i)) (jb_run_id ?j)"
      by (simp add: pending_job_def rows new queued_run_def)
  qed (simp add: d1 same_jobs_def)
qed

lemma create_or_resolve_Inr: "create_or_resolve s q a b on_created db = Inr x \<Longrightarrow>
    create_submission s q a b on_created db = Inr x \<or> resolve_submission_race q db = Inr x"
  by (simp add: create_or_resolve_def split: sum.split_asm if_split_asm)

lemma resolve_submission_race_Inr: "resolve_submission_race q db = Inr (db', x) \<longleftrightarrow> db' = db \<and>
    (\<exists>j. by_idempotency db (sj_project_id q) (sj_operation q) (sj_key q) = Inr (Some j) \<and> existing_submission db j q = Inr x)"
proof -
  have "by_idempotency db a b c = Inr e \<Longrightarrow> ?thesis" if "a = sj_project_id q" "b = sj_operation q" "c = sj_key q" for a b c e
    using that by (cases e; cases x) (auto simp: resolve_submission_race_def)
  then show ?thesis
    by (cases "by_idempotency db (sj_project_id q) (sj_operation q) (sj_key q)") (auto simp: resolve_submission_race_def)
qed

lemma submit_Inr:
  assumes "submit s q run_id job_id precondition on_created old db = Inr (db', x)"
  shows "db' = db \<and> (\<exists>d \<in> {old, db}. \<exists>j. by_idempotency d (sj_project_id q) (sj_operation q) (sj_key q) = Inr (Some j) \<and>
       existing_submission d j q = Inr x) \<or>
    (\<exists>a b. create_submission s q a b on_created db = Inr (db', x))"
proof -
  obtain e where e: "by_idempotency old (sj_project_id q) (sj_operation q) (sj_key q) = Inr e"
    using assms unfolding submit_def andthen_Inr by blast
  note ok = assms [unfolded submit_def e andthen_simps]
  show ?thesis
  proof (cases e)
    case None
    then obtain a b where "create_or_resolve s q a b on_created db = Inr (db', x)"
      using ok by (auto split: if_split_asm)
    then show ?thesis
      using create_or_resolve_Inr [of s q a b on_created db "(db', x)"] by (auto simp: resolve_submission_race_Inr)
  next
    case (Some j)
    then show ?thesis using ok e by auto
  qed
qed

lemma submit_step:
  assumes "submit s q run_id job_id precondition on_created old db = Inr (db', r)" and "local_callback on_created" and "runs_known db"
  shows "job_step db db'"
  using submit_Inr [OF assms(1)]
proof (elim disjE exE conjE)
  assume "db' = db"
  then show ?thesis by (simp add: elsewhere runs_kept_def)
qed (rule create_submission_step [OF _ assms(2,3)])

lemma succeeded_step:
  assumes "job_row db i = Some j" "holds_lease owner token j" "jb_updated j \<le> now" "j' = released Succeeded None now j" "written j'"
    and "d1 = put_job j' db" "same_jobs d1 d2" "run_moved j' open_runs (runs_at Succeeded) (run_row d1) (run_row d2)"
    and "append_job_event secrets j' Job_Succeeded (Some Running) (Some Succeeded) at metadata d2 = Inr db'"
  shows "job_step db db'"
proof -
  have "job_move j Job_Succeeded j'"
    unfolding assms(4) using assms(2,3) by (intro ended) (simp_all add: holds_lease_def)
  then show ?thesis
    by (rule moved_step [OF assms(1) _ assms(5-7) _ assms(9)])
      (use assms(2,4,8) in \<open>simp_all add: run_follows_def holds_lease_def released_def\<close>)
qed

lemma publish_step:
  assumes "publish s p db = Inr (db', r)"
  shows "job_step db db'"
proof -
  note ok = assms [unfolded publish_def complete_published_result_def]
  obtain d1 j' d2 where cas: "cas_job (publication_conditions p) (released Succeeded None (pb_completed p)) (pb_job_id p) db = Inr (d1, Some j')"
    and run: "cas_run (\<lambda>r. rn_lifecycle r \<in> open_runs \<and> rn_verdict r = None \<and> rn_updated r \<le> pb_completed p)
      (\<lambda>r. r\<lparr>rn_lifecycle := pb_lifecycle p, rn_verdict := pb_verdict p, rn_updated := pb_completed p,
         rn_finished := Some (pb_completed p)\<rparr>) (pb_run_id p) d1 = Inr (d2, True)"
    and ev: "append_job_event (js_secrets s) j' Job_Succeeded (Some Running) (Some Succeeded) (pb_completed p) (success_metadata j') d2 = Inr db'"
    and lifecycle: "pb_lifecycle p \<in> {Run_Completed, Run_Stopped}"
    using ok by (auto split: if_splits option.splits)
  obtain j where j: "job_row db (pb_job_id p) = Some j" "publication_conditions p j" "j' = released Succeeded None (pb_completed p) j"
      "written j'" "d1 = put_job j' db"
    using cas by (rule cas_job_Some) (simp add: released_def)
  have "jb_run_id j' = Some (pb_run_id p)"
    using j(2,3) by (simp add: publication_conditions_def released_def)
  from cas_run_moved [OF run this, of open_runs "runs_at Succeeded"] lifecycle
  have "same_jobs d1 d2 \<and> run_moved j' open_runs (runs_at Succeeded) (run_row d1) (run_row d2)"
    by simp
  then show ?thesis
    by (intro succeeded_step [OF j(1) _ _ j(3-5) _ _ ev]) (use j(2) in \<open>auto simp: publication_conditions_def\<close>)
qed

lemma frozen_target_run:
  assumes "written j" and "target_id t j = Some i" and "t \<notin> {Run_Target}"
  shows "jb_run_id j = None"
proof (rule ccontr)
  assume "jb_run_id j \<noteq> None"
  with assms(2,3) have "\<not> one_target (job_target_ids j)"
    by (cases t) (auto simp: one_target_def job_target_ids_def target_id_def)
  with written_one_target [OF assms(1)] show False by contradiction
qed

lemma complete_attempt_step:
  assumes "complete_attempt s c db = Inr (db', j')"
  shows "job_step db db'"
proof -
  note ok = assms [unfolded complete_attempt_def]
  obtain d1 where row: "(if co_target c = Recording_Target then complete_recording c db else complete_frozen c db) = Inr (d1, Some j')"
    and target: "co_target c \<noteq> Run_Target"
    and ev: "append_job_event (js_secrets s) j' Job_Succeeded (Some Running) (Some Succeeded) (co_now c)
      (success_metadata j' @ co_details c) d1 = Inr db'"
    using ok by (auto split: if_splits option.splits)
  obtain j where j: "job_row db (co_job_id c) = Some j" "holds_lease (co_owner c) (co_token c) j" "jb_updated j \<le> co_now c"
      "j' = released Succeeded None (co_now c) j" "written j'" "d1 = put_job j' db" "target_id (co_target c) j = Some (co_target_id c)"
  proof (cases "co_target c = Recording_Target")
    case True
    with row have "complete_recording c db = Inr (d1, Some j')" by simp
    then show thesis
      unfolding complete_recording_def by (rule cas_job_Some) (use that True in \<open>auto simp: released_def target_id_def\<close>)
  next
    case False
    with row have "complete_frozen c db = Inr (d1, Some j')" by simp
    then show thesis
      unfolding complete_frozen_def by (rule cas_job_Some) (use that in \<open>auto simp: released_def\<close>)
  qed
  have "target_id (co_target c) j' = Some (co_target_id c)"
    using j(4,7) by (simp add: released_def target_id_def split: job_target.splits)
  then have "jb_run_id j' = None"
    using target j(5) by (intro frozen_target_run) auto
  then show ?thesis
    by (intro succeeded_step [OF j(1-6) _ _ ev]) (simp_all add: run_moved_def)
qed

end
