(* ===== verification/JobHistory.thy ===== *)
theory JobHistory
  imports JobSteps
begin

section \<open>Histories of the queue\<close>

text \<open>
  A history is the list of the databases committed so far, the latest first. Any worker may act on the latest
  database, and what it read before its first write may be any database of the history.
\<close>

inductive acts :: "database \<Rightarrow> database \<Rightarrow> database \<Rightarrow> bool" where
  act_submit: "submit s q run_id job_id precondition on_created old db = Inr (db', r) \<Longrightarrow> local_callback on_created \<Longrightarrow> acts old db db'"
| act_enqueue: "enqueue secrets j metadata db = Inr db' \<Longrightarrow> fresh_job j \<Longrightarrow> jb_run_id j = None \<Longrightarrow> acts old db db'"
| act_claim: "claim s q db = Inr (db', c) \<Longrightarrow> acts old db db'"
| act_renew: "renew s rq db = Inr (db', m) \<Longrightarrow> acts old db db'"
| act_cancel: "request_cancellation s cq old db = Inr (db', cr) \<Longrightarrow> acts old db db'"
| act_cancelled: "complete_cancellation s fq old db = Inr (db', cr) \<Longrightarrow> acts old db db'"
| act_retryable: "record_retryable_failure s jq old db = Inr (db', m) \<Longrightarrow> acts old db db'"
| act_fatal: "record_fatal_failure s jq old db = Inr (db', m) \<Longrightarrow> acts old db db'"
| act_waiting_fatal: "record_waiting_fatal_failure s wq old db = Inr (db', wm) \<Longrightarrow> acts old db db'"
| act_recover: "recover s rcq old db = Inr (db', m) \<Longrightarrow> acts old db db'"
| act_publish: "publish s p db = Inr (db', pr) \<Longrightarrow> acts old db db'"
| act_complete: "complete_attempt s co db = Inr (db', cj) \<Longrightarrow> acts old db db'"
| act_elsewhere: "same_jobs db db' \<Longrightarrow> runs_kept (db_jobs db) (run_row db) (run_row db') \<Longrightarrow> acts old db db'"

inductive job_history :: "database list \<Rightarrow> bool" where
  start: "db_jobs db = [] \<Longrightarrow> db_events db = [] \<Longrightarrow> job_history [db]"
| act: "job_history (db # dbs) \<Longrightarrow> old \<in> set (db # dbs) \<Longrightarrow> acts old db db' \<Longrightarrow> job_history (db' # db # dbs)"

subsection \<open>The rows\<close>

lemma move_ok: "job_move j ty j' \<Longrightarrow> job_ok j \<Longrightarrow> written j' \<Longrightarrow> job_ok j'"
  by (erule job_move.cases) (auto simp: job_ok_def claimed_row_def released_def waiting_states_def)

lemma with_job_ids: "map jb_job_id (with_job j js) = map jb_job_id js"
  by (induction js) (auto simp: with_job_def)

lemma with_job_keys: "(\<And>k. k \<in> set js \<Longrightarrow> jb_job_id k = jb_job_id j \<Longrightarrow> job_key k = job_key j) \<Longrightarrow> map job_key (with_job j js) = map job_key js"
  by (induction js) (auto simp: with_job_def)

lemma with_job_set: "k \<in> set (with_job j js) \<Longrightarrow> k = j \<or> k \<in> set js \<and> jb_job_id k \<noteq> jb_job_id j"
  by (auto simp: with_job_def split: if_splits)

lemma move_id: "job_move j ty j' \<Longrightarrow> jb_job_id j' = jb_job_id j"
  by (auto dest: move_same_job simp: same_job_def)

lemma row_fence: "job_row_ok j \<Longrightarrow> jb_attempt j = 0 \<Longrightarrow> jb_token j = 0 \<and> jb_owner j = None"
  unfolding job_row_ok_def by (elim conjE disjE) simp_all

lemma fresh_ok: "fresh_job j \<Longrightarrow> job_ok j"
  using row_fence [of j] by (simp add: fresh_job_def job_ok_def written_def)

lemma step_jobs_ok:
  assumes "job_step db db'" and "jobs_ok db"
  shows "jobs_ok db'"
  using assms
proof (cases rule: job_step.cases)
  case elsewhere
  with assms(2) show ?thesis by (simp add: jobs_ok_def same_jobs_def)
next
  case (added j e)
  with fresh_ok [OF added(1)] added(2-4) assms(2) show ?thesis
    by (auto simp: jobs_ok_def job_row_def find_None_iff)
next
  case (moved i j ty j' source e)
  have "job_ok j'"
    using moved(1-3) assms(2) job_row_Some [of db i j] by (auto simp: jobs_ok_def intro: move_ok)
  moreover have "map job_key (with_job j' (db_jobs db)) = map job_key (db_jobs db)"
  proof (rule with_job_keys)
    fix k
    assume "k \<in> set (db_jobs db)" "jb_job_id k = jb_job_id j'"
    then have "job_row db i = Some k"
      using job_row_unique [OF assms(2), of k] move_id [OF moved(2)] job_row_Some [OF moved(1)] by simp
    with moved(1) move_same_job [OF moved(2)] show "job_key k = job_key j'"
      by (simp add: job_key_def same_job_def)
  qed
  ultimately show ?thesis
    using moved(4) assms(2) by (auto simp: jobs_ok_def with_job_ids dest: with_job_set)
qed

subsection \<open>The runs\<close>

definition runs_agree :: "database \<Rightarrow> bool" where
  "runs_agree db \<longleftrightarrow> (\<forall>j \<in> set (db_jobs db). \<forall>i. jb_run_id j = Some i \<longrightarrow>
     given (\<lambda>r. rn_lifecycle r \<in> runs_at (jb_state j)) (run_row db i) \<and>
     (\<forall>k \<in> set (db_jobs db). jb_run_id k = Some i \<longrightarrow> jb_job_id k = jb_job_id j))"

lemma runs_agree_known: "runs_agree db \<Longrightarrow> runs_known db"
  unfolding runs_agree_def runs_known_def by (metis given_simps(1))

lemma step_runs_agree:
  assumes "job_step db db'" and "jobs_ok db" and "runs_agree db"
  shows "runs_agree db'"
  using assms(1)
proof (cases rule: job_step.cases)
  case elsewhere
  then have "db_jobs db' = db_jobs db" by (simp add: same_jobs_def)
  with elsewhere(2) assms(3) show ?thesis
    unfolding runs_agree_def runs_kept_def by metis
next
  case (added j e)
  have kept: "run_row db' a = run_row db a" if "k \<in> set (db_jobs db)" "jb_run_id k = Some a" for k a
    using added(7) that by (simp add: runs_kept_def)
  have own: "given (\<lambda>r. rn_lifecycle r \<in> runs_at (jb_state j)) (run_row db' a)" "\<forall>k \<in> set (db_jobs db). jb_run_id k \<noteq> Some a"
    if "jb_run_id j = Some a" for a
    using added(1,8) that by (simp_all add: fresh_job_def)
  show ?thesis
    unfolding runs_agree_def added(4)
  proof (intro ballI allI impI conjI)
    fix k a
    assume k: "k \<in> set (db_jobs db @ [j])" and a: "jb_run_id k = Some a"
    show "given (\<lambda>r. rn_lifecycle r \<in> runs_at (jb_state k)) (run_row db' a)"
    proof (cases "k = j")
      case True
      with own a show ?thesis by simp
    next
      case False
      with k have "k \<in> set (db_jobs db)" by simp
      with kept a assms(3) show ?thesis by (simp add: runs_agree_def)
    qed
    fix l
    assume "l \<in> set (db_jobs db @ [j])" "jb_run_id l = Some a"
    with k a own(2) assms(3) show "jb_job_id l = jb_job_id k"
      unfolding runs_agree_def by (metis UnE empty_set list.set(2) set_append singletonD)
  qed
next
  case (moved i j ty j' source e)
  have j: "j \<in> set (db_jobs db)"
    using job_row_Some [OF moved(1)] by simp
  have same: "jb_run_id j' = jb_run_id j" "jb_job_id j' = jb_job_id j"
    using same_job_id [OF move_same_job [OF moved(2)]] by simp_all
  have own: "given (\<lambda>r. rn_lifecycle r \<in> runs_at (jb_state j')) (run_row db' a)" if "jb_run_id j = Some a" for a
  proof -
    have before: "given (\<lambda>r. rn_lifecycle r \<in> runs_at (jb_state j)) (run_row db a)"
      using assms(3) j that by (simp add: runs_agree_def)
    show ?thesis
    proof (cases "jb_state j' = jb_state j \<or> jb_state j' = Retry_Wait")
      case True
      with moved(8) have "run_row db' = run_row db" by (simp add: run_follows_def)
      moreover have "runs_at (jb_state j') = runs_at (jb_state j)"
        using True move_state [OF moved(2)] by (auto simp: waiting_states_def)
      ultimately show ?thesis using before by simp
    next
      case False
      with moved(8) same that show ?thesis by (simp add: run_follows_def run_moved_def)
    qed
  qed
  have others: "run_row db' a = run_row db a" if "jb_run_id j \<noteq> Some a" for a
    using moved(8) same that by (auto simp: run_follows_def run_moved_def split: if_splits)
  show ?thesis
    unfolding runs_agree_def moved(4)
  proof (intro ballI allI impI conjI)
    fix k a
    assume k: "k \<in> set (with_job j' (db_jobs db))" and a: "jb_run_id k = Some a"
    from with_job_set [OF k] show "given (\<lambda>r. rn_lifecycle r \<in> runs_at (jb_state k)) (run_row db' a)"
    proof
      assume "k = j'"
      with a own same show ?thesis by simp
    next
      assume old: "k \<in> set (db_jobs db) \<and> jb_job_id k \<noteq> jb_job_id j'"
      then have "jb_run_id j \<noteq> Some a"
        using assms(3) a j same by (auto simp: runs_agree_def)
      then have "run_row db' a = run_row db a" by (rule others)
      with assms(3) old a show ?thesis by (simp add: runs_agree_def)
    qed
    fix l
    assume l: "l \<in> set (with_job j' (db_jobs db))" "jb_run_id l = Some a"
    have "\<exists>m \<in> set (db_jobs db). jb_job_id m = jb_job_id n \<and> jb_run_id m = jb_run_id n"
      if "n \<in> set (with_job j' (db_jobs db))" for n
      using with_job_set [OF that] j same by metis
    with k a l assms(3) show "jb_job_id l = jb_job_id k"
      unfolding runs_agree_def by metis
  qed
qed

subsection \<open>Rows over time\<close>

lemma later_refl [simp]: "later j j"
  by (simp add: later_def same_job_def)

lemma move_later: "job_move j ty j' \<Longrightarrow> later j j'"
  using move_same_job [of j ty j'] move_fence [of j ty j'] move_ended [of j ty j'] by (simp add: later_def)

lemma step_follows_on:
  assumes "job_step db db'"
  shows "follows_on db db'"
  using assms
proof (cases rule: job_step.cases)
  case elsewhere
  then have "job_row db' = job_row db" by (auto simp: same_jobs_def intro: job_row_cong)
  then show ?thesis by (simp add: follows_on_def)
next
  case (added j e)
  have "find p (js @ [j]) = Some k" if "find p js = Some k" for p k and js :: "job list"
    using that by (induction js) auto
  with added(4) show ?thesis by (simp add: follows_on_def job_row_def)
next
  case (moved i j ty j' source e)
  have id: "jb_job_id j' = i"
    using job_row_Some [OF moved(1)] move_id [OF moved(2)] by simp
  then have "job_row db' a = (case job_row db a of None \<Rightarrow> None | Some k \<Rightarrow> Some (if i = a then j' else k))" for a
    using moved(4) by (simp add: job_row_def find_with_job split: option.split)
  then show ?thesis
    using moved(1) move_later [OF moved(2)] by (simp add: follows_on_def)
qed

lemma follows_on_trans: "follows_on a b \<Longrightarrow> follows_on b c \<Longrightarrow> follows_on a c"
  unfolding follows_on_def
proof (intro allI impI)
  fix i j
  assume ab: "\<forall>i j. job_row a i = Some j \<longrightarrow> given (later j) (job_row b i)"
    and bc: "\<forall>i j. job_row b i = Some j \<longrightarrow> given (later j) (job_row c i)" and j: "job_row a i = Some j"
  from ab j have "given (later j) (job_row b i)" by blast
  then obtain k where k: "job_row b i = Some k" "later j k" by (cases "job_row b i") auto
  with bc have "given (later k) (job_row c i)" by blast
  with k(2) show "given (later j) (job_row c i)" by (cases "job_row c i") (auto intro: later_trans)
qed

lemma steps_follow_on: "job_steps a b \<Longrightarrow> follows_on a b"
proof (induction rule: rtranclp_induct)
  case base
  show ?case by (simp add: follows_on_def)
next
  case (step b c)
  from step.IH step_follows_on [OF step.hyps(2)] show ?case by (rule follows_on_trans)
qed

subsection \<open>What holds throughout a history\<close>

definition queue_ok :: "database \<Rightarrow> bool" where
  "queue_ok db \<longleftrightarrow> jobs_ok db \<and> runs_agree db"

lemma steps_queue_ok: "job_steps a b \<Longrightarrow> queue_ok a \<Longrightarrow> queue_ok b"
  by (induction rule: rtranclp_induct) (auto simp: queue_ok_def intro: step_jobs_ok step_runs_agree)

lemma acts_steps:
  assumes "acts old db db'" and "queue_ok db" and "follows_on old db"
  shows "job_steps db db'"
proof -
  have ok: "jobs_ok db" "runs_known db"
    using assms(2) by (auto simp: queue_ok_def intro: runs_agree_known)
  show ?thesis
    using assms(1)
  proof (cases rule: acts.cases)
    case act_cancel
    then show ?thesis by (rule request_cancellation_steps)
  qed (auto intro!: r_into_rtranclp
      intro: submit_step enqueue_step claim_step renew_step complete_cancellation_step record_retryable_failure_step
        record_fatal_failure_step record_waiting_fatal_failure_step recover_step publish_step complete_attempt_step elsewhere
        ok assms(3))
qed

lemma history_sound:
  assumes "job_history dbs"
  shows "queue_ok (hd dbs) \<and> (\<forall>old \<in> set dbs. job_steps old (hd dbs))"
  using assms
proof (induction rule: job_history.induct)
  case (start db)
  then show ?case by (simp add: queue_ok_def jobs_ok_def runs_agree_def)
next
  case (act db dbs old db')
  have ok: "queue_ok db" and steps: "\<And>old. old \<in> set (db # dbs) \<Longrightarrow> job_steps old db"
    using act.IH by auto
  have new: "job_steps db db'"
    using act.hyps(3) ok steps_follow_on [OF steps [OF act.hyps(2)]] by (rule acts_steps)
  show ?case
    using steps_queue_ok [OF new ok] steps new by (auto intro: rtranclp_trans)
qed

lemma history_queue_ok:
  assumes "job_history dbs" and "db \<in> set dbs"
  shows "queue_ok db"
  using assms
proof (induction rule: job_history.induct)
  case (act db' dbs old db'')
  then show ?case
    using history_sound [OF job_history.act [OF act.hyps]] by auto
qed (use history_sound [OF job_history.start] in auto)

text \<open>Later in a history is reached by moves.\<close>

lemma history_suffix: "job_history (dbs' @ dbs) \<Longrightarrow> dbs \<noteq> [] \<Longrightarrow> job_history dbs"
proof (induction dbs')
  case (Cons db dbs')
  from Cons.prems(1) have "job_history (dbs' @ dbs)"
    by (cases rule: job_history.cases) (use Cons.prems(2) in auto)
  then show ?case using Cons.prems(2) by (rule Cons.IH)
qed simp

lemma history_steps:
  assumes "job_history (dbs' @ db # dbs)" and "db' \<in> set (db # dbs')"
  shows "job_steps db db'"
proof -
  obtain xs ys where split: "dbs' @ [db] = xs @ db' # ys"
    using assms(2) by (metis in_set_conv_decomp rotate1.simps(2) set_rotate1)
  then have whole: "dbs' @ db # dbs = xs @ (db' # ys @ dbs)"
    by (metis append.assoc append_Cons append_Nil)
  have "job_history (db' # ys @ dbs)"
    using assms(1) unfolding whole by (rule history_suffix) simp
  moreover have "db \<in> set (db' # ys)"
    using split by (metis append_is_Nil_conv last_append last_in_set last_snoc list.distinct(1))
  ultimately show ?thesis
    using history_sound by fastforce
qed

end
