(* ===== verification/JobLog.thy ===== *)
theory JobLog
  imports JobHistory
begin

section \<open>The log of a job\<close>

text \<open>
  What the events of a job tell about it: they are numbered without gaps, each starts where the one before ended,
  the claims among them are counted by the fence, and the changes of state are bounded by the attempts allowed.
\<close>

definition job_log :: "database \<Rightarrow> str \<Rightarrow> job_event list" where
  "job_log db i = filter (\<lambda>e. je_job_id e = i) (db_events db)"

definition continues :: "job_state option \<Rightarrow> job_event \<Rightarrow> bool" where
  \<comment> \<open>the failure of a waiting job may name the other waiting state\<close>
  "continues s e \<longleftrightarrow> je_source e = s \<or>
     je_type e = Job_Failed \<and> s \<in> Some ` waiting_states \<and> je_source e \<in> Some ` waiting_states"

fun log_leads :: "job_state option \<Rightarrow> job_event list \<Rightarrow> job_state option \<Rightarrow> bool" where
  "log_leads s [] t \<longleftrightarrow> s = t"
| "log_leads s (e # es) t \<longleftrightarrow> continues s e \<and> log_leads (je_target e) es t"

definition claims_in :: "job_event list \<Rightarrow> nat" where
  "claims_in es = length (filter (\<lambda>e. je_type e = Job_Claimed) es)"

definition changes_in :: "job_event list \<Rightarrow> nat" where
  "changes_in es = length (filter (\<lambda>e. je_source e \<noteq> None \<and> je_source e \<noteq> je_target e) es)"

text \<open>How many changes of state a job has left at most.\<close>

definition changes_left :: "job \<Rightarrow> nat" where
  "changes_left j = (if jb_state j \<in> waiting_states then 2 * nat (jb_max_attempts j - jb_attempt j)
     else if jb_state j = Running then 2 * nat (jb_max_attempts j - jb_attempt j) + 1 else 0)"

definition log_exact :: "job \<Rightarrow> job_event list \<Rightarrow> bool" where
  "log_exact j es \<longleftrightarrow> map je_sequence es = map int [1..<Suc (length es)] \<and> log_leads None es (Some (jb_state j)) \<and>
     int (claims_in es) = jb_token j \<and> changes_in es + changes_left j \<le> 2 * nat (jb_max_attempts j)"

lemma log_leads_snoc: "log_leads s es t \<Longrightarrow> continues t e \<Longrightarrow> log_leads s (es @ [e]) (je_target e)"
  by (induction es arbitrary: s) auto

lemma count_snoc [simp]:
  "claims_in (es @ [e]) = claims_in es + (if je_type e = Job_Claimed then 1 else 0)"
  "changes_in (es @ [e]) = changes_in es + (if je_source e \<noteq> None \<and> je_source e \<noteq> je_target e then 1 else 0)"
  by (simp_all add: claims_in_def changes_in_def)

lemma move_changes:
  assumes "job_move j ty j'" and "job_ok j"
  shows "jb_state j' = jb_state j \<and> changes_left j' = changes_left j \<or> changes_left j' < changes_left j"
proof -
  have one_less: "Suc (2 * nat (m - (a + 1))) < 2 * nat (m - a)" if "a < m" for a m :: int
    using that by linarith
  have waiting: "jb_attempt j < jb_max_attempts j" if "jb_state j \<in> waiting_states"
  proof -
    have "1 \<le> jb_max_attempts j" using assms(2) unfolding job_ok_def written_def job_row_ok_def by (elim conjE) simp
    with that assms(2) show ?thesis by (auto simp: job_ok_def waiting_states_def)
  qed
  show ?thesis
    using assms(1)
  proof cases
    case (claimed now owner expires)
    then show ?thesis using one_less by (simp add: changes_left_def claimed_row_def waiting_states_def)
  next
    case (retried now t)
    then show ?thesis by (simp add: changes_left_def released_def waiting_states_def)
  next
    case (ended now target)
    then show ?thesis by (auto simp: changes_left_def released_def waiting_states_def)
  qed (use waiting in \<open>auto simp: changes_left_def waiting_states_def\<close>)
qed

lemma move_max: "job_move j ty j' \<Longrightarrow> jb_max_attempts j' = jb_max_attempts j"
  by (rule same_job_id(3)) (rule move_same_job)

lemma log_exact_snoc:
  assumes "log_exact j es" and "job_move j ty j'" and "job_ok j" and "job_ok j'"
    and "je_sequence e = int (length es) + 1" and "je_type e = ty" and "event_source j e" and "je_target e = Some (jb_state j')"
  shows "log_exact j' (es @ [e])"
  unfolding log_exact_def
proof (intro conjI)
  show "map je_sequence (es @ [e]) = map int [1..<Suc (length (es @ [e]))]"
    using assms(1,5) by (simp add: log_exact_def)
  have "continues (Some (jb_state j)) e"
    using assms(7) by (auto simp: event_source_def continues_def)
  then show "log_leads None (es @ [e]) (Some (jb_state j'))"
    using assms(1,8) log_leads_snoc [of None es "Some (jb_state j)" e] by (simp add: log_exact_def)
  show "int (claims_in (es @ [e])) = jb_token j'"
    using assms(1,6) move_fence [OF assms(2)] by (simp add: log_exact_def)
  have "changes_in (es @ [e]) + changes_left j' \<le> changes_in es + changes_left j"
  proof (cases "changes_left j' < changes_left j")
    case False
    with move_changes [OF assms(2,3)] have same: "jb_state j' = jb_state j" "changes_left j' = changes_left j" by auto
    have "je_source e = je_target e"
    proof -
      have "ty \<noteq> Job_Failed \<or> jb_state j \<notin> waiting_states"
        using assms(2) same(1) by (auto elim!: job_move.cases simp: waiting_states_def)
      then show ?thesis
        using assms(6-8) same(1) by (auto simp: event_source_def)
    qed
    with same show ?thesis by simp
  qed simp
  then show "changes_in (es @ [e]) + changes_left j' \<le> 2 * nat (jb_max_attempts j')"
    using assms(1) move_max [OF assms(2)] by (simp add: log_exact_def)
qed

lemma log_exact_fresh:
  assumes "fresh_job j" and "je_sequence e = 1" "je_type e = Job_Submitted" "je_source e = None" "je_target e = Some Pending"
  shows "log_exact j [e]"
proof -
  have "jb_token j = 0" using assms(1) row_fence by (auto simp: fresh_job_def written_def)
  with assms show ?thesis
    by (simp add: log_exact_def continues_def claims_in_def changes_in_def changes_left_def fresh_job_def waiting_states_def)
qed

definition logs_ok :: "database \<Rightarrow> bool" where
  "logs_ok db \<longleftrightarrow> (\<forall>e \<in> set (db_events db). \<exists>j \<in> set (db_jobs db). jb_job_id j = je_job_id e) \<and>
     (\<forall>j \<in> set (db_jobs db). log_exact j (job_log db (jb_job_id j)))"

lemma job_log_snoc: "db_events db' = db_events db @ [e] \<Longrightarrow>
    job_log db' i = job_log db i @ (if je_job_id e = i then [e] else [])"
  by (simp add: job_log_def)

lemma step_logs_ok:
  assumes "job_step db db'" and "jobs_ok db" and "logs_ok db"
  shows "logs_ok db'"
  using assms(1)
proof (cases rule: job_step.cases)
  case elsewhere
  with assms(3) show ?thesis by (simp add: logs_ok_def same_jobs_def job_log_def)
next
  case (added j e)
  have e: "je_job_id e = jb_job_id j"
    using added(5) by (simp add: logged_def)
  have new: "\<And>k. k \<in> set (db_jobs db) \<Longrightarrow> jb_job_id k \<noteq> jb_job_id j"
    using added(2) by (auto simp: job_row_def find_None_iff)
  have none: "job_log db (jb_job_id j) = []"
    using assms(3) new by (fastforce simp: job_log_def logs_ok_def filter_empty_conv)
  have "log_exact j [e]"
    using added(1,5) none by (intro log_exact_fresh) (simp_all add: logged_def job_log_def)
  with none e new assms(3) show ?thesis
    unfolding logs_ok_def added(4,6) job_log_snoc [OF added(6)] by fastforce
next
  case (moved i j ty j' source e)
  have j: "j \<in> set (db_jobs db)"
    using job_row_Some [OF moved(1)] by simp
  have ids: "jb_job_id j' = jb_job_id j" "je_job_id e = jb_job_id j"
    using move_id [OF moved(2)] moved(5) by (simp_all add: logged_def)
  have ok: "job_ok j" "job_ok j'"
    using j assms(2) moved(2,3) by (auto simp: jobs_ok_def intro: move_ok)
  have exact: "log_exact j' (job_log db (jb_job_id j) @ [e])"
    using assms(3) j moved(5) ids by (intro log_exact_snoc [OF _ moved(2) ok _ _ moved(6)]) (simp_all add: logs_ok_def logged_def job_log_def)
  have known: "\<exists>k \<in> set (with_job j' (db_jobs db)). jb_job_id k = a" if "\<exists>k \<in> set (db_jobs db). jb_job_id k = a" for a
    using that with_job_ids [of j' "db_jobs db"] by (metis (no_types, lifting) image_iff list.set_map)
  show ?thesis
    unfolding logs_ok_def moved(4,7) job_log_snoc [OF moved(7)]
  proof (intro conjI ballI)
    fix f
    assume "f \<in> set (db_events db @ [e])"
    then have "\<exists>k \<in> set (db_jobs db). jb_job_id k = je_job_id f"
      using assms(3) j ids by (auto simp: logs_ok_def)
    then show "\<exists>k \<in> set (with_job j' (db_jobs db)). jb_job_id k = je_job_id f" by (rule known)
  next
    fix k
    assume "k \<in> set (with_job j' (db_jobs db))"
    from with_job_set [OF this] show "log_exact k (job_log db (jb_job_id k) @ (if je_job_id e = jb_job_id k then [e] else []))"
    proof
      assume "k = j'"
      with exact ids show ?thesis by simp
    next
      assume k: "k \<in> set (db_jobs db) \<and> jb_job_id k \<noteq> jb_job_id j'"
      then have "log_exact k (job_log db (jb_job_id k))" using assms(3) unfolding logs_ok_def by blast
      with k ids show ?thesis by auto
    qed
  qed
qed

lemma steps_logs_ok: "job_steps a b \<Longrightarrow> queue_ok a \<Longrightarrow> logs_ok a \<Longrightarrow> queue_ok b \<and> logs_ok b"
  by (induction rule: rtranclp_induct) (auto simp: queue_ok_def intro: step_jobs_ok step_runs_agree step_logs_ok)

lemma history_start: "job_history dbs \<Longrightarrow> db_jobs (last dbs) = [] \<and> db_events (last dbs) = []"
  by (induction rule: job_history.induct) auto

lemma history_logs_ok:
  assumes "job_history dbs" and "db \<in> set dbs"
  shows "logs_ok db"
proof -
  have whole: "dbs \<noteq> []" using assms(2) by auto
  have steps: "job_steps (last dbs) db"
  proof -
    obtain xs ys where split: "dbs = xs @ db # ys" using assms(2) by (meson in_set_conv_decomp)
    then have "job_history (db # ys)" using assms(1) history_suffix [of xs "db # ys"] by simp
    moreover have "last dbs \<in> set (db # ys)" using split by simp
    ultimately show ?thesis using history_sound by fastforce
  qed
  have "logs_ok (last dbs)" using history_start [OF assms(1)] by (simp add: logs_ok_def)
  moreover have "queue_ok (last dbs)" using history_queue_ok [OF assms(1)] whole by simp
  ultimately show ?thesis using steps_logs_ok [OF steps] by simp
qed

end
