(* ===== verification/JobSample.thy ===== *)
theory JobSample
  imports JobLog
begin

section \<open>A concrete history of one job\<close>

text \<open>
  A check is submitted and claimed; while its attempt runs, its owner asks to cancel it, and the worker
  reports a retryable failure with the row it had read before.
\<close>

definition a_service :: job_service where
  "a_service = \<lparr>js_secrets = [], js_targets = [Run_Target], js_policy = \<lparr>rp_base = 2, rp_max = 8, rp_jitter = 1\<rparr>, js_jitter = (\<lambda>_. Some 0)\<rparr>"

definition a_run_id :: str where "a_run_id = ''run_00000000000000000000000000000001''"

definition a_job_id :: str where "a_job_id = ''job_00000000000000000000000000000002''"

definition a_hash :: str where "a_hash = replicate 64 CHR ''a''"

definition a_submission :: submit_job where
  "a_submission = \<lparr>sj_project_id = ''shop'', sj_operation = ''CHECK'', sj_key = ''k'', sj_request_hash = a_hash, sj_plan = a_hash,
     sj_source = None, sj_epoch = 0, sj_engine = ''1'', sj_max_attempts = 3, sj_available = 10, sj_now = 10, sj_run_id = None,
     sj_job_id = None\<rparr>"

definition a_claim :: claim_job where
  "a_claim = \<lparr>cl_owner = ''w'', cl_now = 20, cl_duration = 100, cl_job_id = None\<rparr>"

definition a_request :: cancel_job where
  "a_request = \<lparr>cj_job_id = a_job_id, cj_now = 30\<rparr>"

definition a_failure :: job_failure where
  "a_failure = \<lparr>fm_job_id = a_job_id, fm_owner = ''w'', fm_token = 1, fm_now = 40, jf_reason = ''EXEC_TIMEOUT'', jf_error = None,
     jf_phase = None, jf_cause = None, jf_cleanup = []\<rparr>"

definition before_all :: database where
  "before_all = \<lparr>db_projects = [''shop''], db_runs = [], db_jobs = [], db_events = [], db_recordings = [], db_inputs = [],
     db_preparations = [], db_captures = [], db_assets = []\<rparr>"

text \<open>Text without white space, colons and equality signs needs no search for secrets.\<close>

fun plain_char :: "char \<Rightarrow> bool" where
  \<comment> \<open>letters, digits and the signs above them\<close>
  "plain_char (Char b0 b1 b2 b3 b4 b5 b6 b7) \<longleftrightarrow> \<not> b7 \<and> (b6 \<or> b5 \<and> b4 \<and> \<not> (b3 \<and> (b1 \<or> b2)))"

lemma plain_char: "plain_char c \<Longrightarrow> c \<notin> {CHR '':'', CHR ''=''} \<and> \<not> is_space c"
  by (cases c) (auto simp: is_space_def Let_def of_char_def)

definition plain_text :: "str \<Rightarrow> bool" where
  "plain_text = list_all plain_char"

lemma word_search_none: "(\<And>r. set r \<subseteq> set s \<Longrightarrow> \<not> m r) \<Longrightarrow> \<not> word_search m inside s"
proof (induction s arbitrary: inside)
  case (Cons c cs)
  have "\<not> word_search m (is_word c) cs"
    using Cons.prems by (intro Cons.IH) auto
  with Cons.prems [of "c # cs"] show ?case by simp
qed simp

lemma follows_rest: "follows w p s \<Longrightarrow> \<exists>r. set r \<subseteq> set s \<and> p r"
  by (cases "after_prefix w s") (auto simp: follows_def dest: after_prefix_set)

lemma plain_not_assigned: "plain_text s \<Longrightarrow> set r \<subseteq> set s \<Longrightarrow> \<not> assigned_text r"
proof (cases "dropWhile is_space r")
  case (Cons c cs)
  assume "plain_text s" "set r \<subseteq> set s"
  moreover have "c \<in> set r"
    using Cons by (metis list.set_intros(1) set_dropWhileD)
  ultimately have "c \<notin> {CHR '':'', CHR ''=''}"
    using plain_char unfolding plain_text_def list_all_iff by blast
  with Cons show ?thesis by (simp add: assigned_text_def)
next
  case Nil
  show ?thesis unfolding assigned_text_def Nil by simp
qed

lemma plain_no_secret: "plain_text s \<Longrightarrow> \<not> inline_secret s"
  unfolding inline_secret_def
proof (rule word_search_none)
  fix r
  assume s: "plain_text s" and r: "set r \<subseteq> set s"
  have "\<not> follows ''bearer'' (\<lambda>r. case r of [] \<Rightarrow> False | c # cs \<Rightarrow> is_space c \<and> more_text cs) r"
  proof
    assume "follows ''bearer'' (\<lambda>r. case r of [] \<Rightarrow> False | c # cs \<Rightarrow> is_space c \<and> more_text cs) r"
    then obtain c cs where "set (c # cs) \<subseteq> set r" "is_space c"
      by (metis (no_types, lifting) follows_rest list.case_eq_if list.collapse)
    with s r show False using plain_char unfolding plain_text_def list_all_iff by auto
  qed
  moreover have "\<not> follows w assigned_text r" for w
  proof
    assume "follows w assigned_text r"
    then obtain t where "set t \<subseteq> set r" "assigned_text t" using follows_rest by blast
    with plain_not_assigned [OF s] r show False by blast
  qed
  ultimately show "\<not> (follows ''bearer'' (\<lambda>r. case r of [] \<Rightarrow> False | c # cs \<Rightarrow> is_space c \<and> more_text cs) r \<or>
      list_ex (\<lambda>w. follows w assigned_text r) [''authorization'', ''cookie'', ''credential'', ''password'', ''passwd'', ''secret'',
        ''token'', ''apikey'', ''api_key'', ''api-key''])"
    by simp
qed

lemma payload_unsafe_code [code]:
  "payload_unsafe secrets v = (if secrets = [] \<and> list_all plain_text (json_texts v) then False
     else list_ex (\<lambda>s. inline_secret s \<or> list_ex (\<lambda>k. k \<noteq> [] \<and> search (\<lambda>r. take (length k) r = k) s) secrets) (json_texts v))"
  using plain_no_secret by (auto simp: payload_unsafe_def list_all_iff list_ex_iff)

subsection \<open>The databases\<close>

definition waiting_run :: run where
  "waiting_run = queued_run a_submission a_run_id"

definition waiting_job :: job where
  "waiting_job = pending_job a_submission a_job_id a_run_id"

definition an_event :: "int \<Rightarrow> job_event_type \<Rightarrow> job_state option \<Rightarrow> job_state option \<Rightarrow> int \<Rightarrow> (str \<times> json) list \<Rightarrow> job_event" where
  "an_event n ty source target at metadata = \<lparr>je_job_id = a_job_id, je_sequence = n, je_type = ty, je_source = source,
     je_target = target, je_at = at, je_metadata = metadata\<rparr>"

definition submitted :: database where
  "submitted = before_all\<lparr>db_runs := [waiting_run], db_jobs := [waiting_job],
     db_events := [an_event 1 Job_Submitted None (Some Pending) 10 [(''attempt'', JInt 0)]]\<rparr>"

definition running_job :: job where
  "running_job = claimed_row ''w'' 20 120 waiting_job"

definition running :: database where
  "running = submitted\<lparr>db_runs := [waiting_run\<lparr>rn_lifecycle := Run_Running, rn_updated := 20\<rparr>], db_jobs := [running_job],
     db_events := db_events submitted @
       [an_event 2 Job_Claimed (Some Pending) (Some Running) 20 [(''attempt'', JInt 1), (''fencing_token'', JInt 1)]]\<rparr>"

definition cancelling_job :: job where
  "cancelling_job = running_job\<lparr>jb_cancel := Some 30, jb_updated := 30\<rparr>"

definition cancelling :: database where
  "cancelling = running\<lparr>db_jobs := [cancelling_job], db_events := db_events running @
     [an_event 3 Job_Cancel_Requested (Some Running) (Some Running) 30 [(''attempt'', JInt 1)]]\<rparr>"

definition stranded_job :: job where
  "stranded_job = released Retry_Wait (Some 42) 40 cancelling_job"

definition stranded :: database where
  "stranded = cancelling\<lparr>db_jobs := [stranded_job], db_events := db_events cancelling @
     [an_event 4 Job_Retry_Scheduled (Some Running) (Some Retry_Wait) 40 [(''attempt'', JInt 1), (''fencing_token'', JInt 1),
        (''reason_code'', JStr ''EXEC_TIMEOUT''), (''available_at_us'', JInt 42)]]\<rparr>"

lemma a_submits: "submit a_service a_submission a_run_id a_job_id (\<lambda>_. Inr ()) (\<lambda>r. Inr) before_all before_all =
    Inr (submitted, True, waiting_job, waiting_run)"
  by code_simp

lemma a_claims: "claim a_service a_claim submitted =
    Inr (running, Some (running_job, Some (waiting_run\<lparr>rn_lifecycle := Run_Running, rn_updated := 20\<rparr>), None))"
  by code_simp

lemma a_requests: "request_cancellation a_service a_request running running =
    Inr (cancelling, (cancelling_job, Some (waiting_run\<lparr>rn_lifecycle := Run_Running, rn_updated := 20\<rparr>), None), 30, False)"
  by code_simp

lemma a_fails_late: "record_retryable_failure a_service a_failure running cancelling =
    Inr (stranded, stranded_job, Some (waiting_run\<lparr>rn_lifecycle := Run_Running, rn_updated := 20\<rparr>), None)"
  by code_simp

lemma sample_history: "job_history [stranded, cancelling, running, submitted, before_all]"
proof -
  have start: "job_history [before_all]"
    by (rule job_history.start) (simp_all add: before_all_def)
  have submitted: "job_history [submitted, before_all]"
    by (rule job_history.act [OF start _ act_submit [OF a_submits]]) (simp_all add: local_callback_def)
  have running: "job_history [running, submitted, before_all]"
    by (rule job_history.act [where old = submitted, OF submitted _ act_claim [OF a_claims]]) simp
  have cancelling: "job_history [cancelling, running, submitted, before_all]"
    by (rule job_history.act [OF running _ act_cancel [OF a_requests]]) simp
  show ?thesis
    by (rule job_history.act [OF cancelling _ act_retryable [OF a_fails_late]]) simp
qed

lemma sample_rows: "job_row stranded a_job_id = Some stranded_job" "job_row cancelling a_job_id = Some cancelling_job"
    "job_row running a_job_id = Some running_job" "stranded_job \<in> set (db_jobs stranded)"
  by code_simp+

end
