(* ===== verification/JobStranded.thy ===== *)
theory JobStranded
  imports JobHistory
begin

section \<open>Jobs that wait with a cancellation requested\<close>

text \<open>
  Which transactions touch the row of a job that waits although its cancellation was requested. Each conditional
  update but those of a cancellation asks for a running job or for one without a request, so only
  \<open>request_cancellation\<close> for that very job changes the row.
\<close>

definition stranded_row :: "str \<Rightarrow> job \<Rightarrow> database \<Rightarrow> bool" where
  "stranded_row i j db \<longleftrightarrow> job_row db i = Some j \<and> jb_state j \<in> waiting_states \<and> jb_cancel j \<noteq> None"

lemma stranded_row_cong: "db_jobs db' = db_jobs db \<Longrightarrow> stranded_row i j db' = stranded_row i j db"
  by (simp add: stranded_row_def job_row_def)

subsection \<open>What leaves the table of jobs alone\<close>

lemma cas_run_jobs: "cas_run p f i db = Inr (db', b) \<Longrightarrow> db_jobs db' = db_jobs db"
  by (auto simp: cas_run_def split: option.splits if_splits)

lemma append_event_jobs: "append_job_event secrets j ty source target at metadata db = Inr db' \<Longrightarrow> db_jobs db' = db_jobs db"
  by (erule append_job_event_Inr)

lemma same_tables_jobs: "same_tables db db' \<Longrightarrow> db_jobs db' = db_jobs db"
  by (simp add: same_tables_def same_jobs_def)

lemma end_run_jobs: "end_run i l now db = Inr (db', r) \<Longrightarrow> db_jobs db' = db_jobs db"
  by (auto simp: end_run_def dest: cas_run_jobs split: if_splits)

lemma advance_run_jobs: "advance_run i now db = Inr (db', r) \<Longrightarrow> db_jobs db' = db_jobs db"
  by (auto simp: advance_run_def dest: cas_run_jobs)

lemma finish_target_jobs:
  assumes "finish_target secrets types j now outcome db = Inr (db', v)"
  shows "db_jobs db' = db_jobs db"
proof -
  obtain t where t: "resolve_target types j = Inr t"
    using assms by (auto simp: finish_target_def)
  note ok = assms [unfolded finish_target_def t andthen_simps]
  show ?thesis
    by (cases t; use ok in \<open>auto simp: same_tables_jobs [OF finish_preparation_same]
        dest!: end_run_jobs same_tables_jobs [OF finish_recording_same] same_tables_jobs [OF finish_capture_same]
        split: if_split_asm option.split_asm\<close>)
qed

lemma advance_target_jobs:
  assumes "advance_target secrets types j now db = Inr (db', v)"
  shows "db_jobs db' = db_jobs db"
proof -
  obtain t where t: "resolve_target types j = Inr t"
    using assms by (auto simp: advance_target_def)
  note ok = assms [unfolded advance_target_def t andthen_simps]
  show ?thesis
    by (cases t; use ok in \<open>auto dest!: advance_run_jobs same_tables_jobs [OF start_recording_same]
        split: if_split_asm option.split_asm\<close>)
qed

lemmas jobs_alone = end_run_jobs advance_run_jobs finish_target_jobs advance_target_jobs append_event_jobs cas_run_jobs

subsection \<open>Updates that pass a stranded row over\<close>

lemma cas_keeps:
  assumes "cas_job p f k db = Inr (db', r)" and "stranded_row i j db" and "\<And>j. jb_job_id (f j) = jb_job_id j"
    and "k = i \<Longrightarrow> \<not> p j"
  shows "stranded_row i j db'"
proof (cases r)
  case None
  with assms(1,3) have "db' = db" by (auto dest: cas_job_None)
  with assms(2) show ?thesis by simp
next
  case (Some j')
  obtain l where l: "job_row db k = Some l" "p l" "j' = f l" "db' = put_job j' db"
    using assms(1) [unfolded Some] assms(3) by (rule cas_job_Some)
  have "jb_job_id j' = k" using l(1,3) assms(3) job_row_Some [OF l(1)] by simp
  moreover have "k \<noteq> i" using l(1,2) assms(2,4) by (auto simp: stranded_row_def)
  ultimately show ?thesis
    using assms(2) by (simp add: stranded_row_def l(4) job_row_put_job)
qed

lemma finish_running_keeps:
  "finish_running k owner token now target available c x db = Inr (db', r) \<Longrightarrow> stranded_row i j db \<Longrightarrow> stranded_row i j db'"
  unfolding finish_running_def by (erule cas_keeps) (auto simp: released_def holds_lease_def stranded_row_def waiting_states_def)

lemma renew_row_keeps: "renew_row k owner token now expires db = Inr (db', r) \<Longrightarrow> stranded_row i j db \<Longrightarrow> stranded_row i j db'"
  unfolding renew_row_def by (erule cas_keeps) (auto simp: holds_lease_def stranded_row_def waiting_states_def)

lemma fail_waiting_row_keeps: "fail_waiting_row k now db = Inr (db', r) \<Longrightarrow> stranded_row i j db \<Longrightarrow> stranded_row i j db'"
  unfolding fail_waiting_row_def by (erule cas_keeps) (auto simp: stranded_row_def)

lemma completions_keep:
  "complete_recording c db = Inr (db', r) \<Longrightarrow> stranded_row i j db \<Longrightarrow> stranded_row i j db'"
  "complete_frozen c db = Inr (db', r) \<Longrightarrow> stranded_row i j db \<Longrightarrow> stranded_row i j db'"
  unfolding complete_recording_def complete_frozen_def
  by (erule cas_keeps; auto simp: released_def holds_lease_def stranded_row_def waiting_states_def)+

lemma claim_row_keeps:
  assumes "claim_row k owner now expires types db = Inr (db', r)" and "stranded_row i j db" and "jobs_ok db"
  shows "stranded_row i j db'"
proof (cases r)
  case None
  with assms show ?thesis by (auto dest: claim_row_None)
next
  case (Some j')
  obtain l where l: "eligible types now db l" "j' = claimed_row owner now expires l" "db' = put_job j' db"
      "job_row db (jb_job_id l) = Some l"
    using assms(1) [unfolded Some] assms(3) by (rule claim_row_Some)
  then have "jb_job_id l \<noteq> i"
    using assms(2) by (auto simp: stranded_row_def eligible_def)
  then show ?thesis
    using assms(2) by (simp add: stranded_row_def l(2,3) job_row_put_job claimed_row_def)
qed

lemma added_keeps: "stranded_row i j db \<Longrightarrow> stranded_row i j (db\<lparr>db_jobs := db_jobs db @ [k]\<rparr>)"
proof -
  have "find p xs = Some y \<Longrightarrow> find p (xs @ ys) = Some y" for p y and xs ys :: "job list"
    by (induction xs) (auto split: if_splits)
  then show "stranded_row i j db \<Longrightarrow> ?thesis"
    by (auto simp: stranded_row_def job_row_def)
qed

subsection \<open>Transactions that pass it over\<close>

lemmas rows_alone = jobs_alone [THEN stranded_row_cong]

lemma submit_keeps:
  assumes "submit s q run_id job_id precondition on_created old db = Inr (db', x)" and "local_callback on_created"
    and "stranded_row i j db"
  shows "stranded_row i j db'"
  using submit_Inr [OF assms(1)]
proof (elim disjE exE conjE)
  fix a b assume "create_submission s q a b on_created db = Inr (db', x)"
  note ok = this [unfolded create_submission_def Let_def]
  let ?r = "queued_run q a" and ?j = "pending_job q b a"
  obtain d1 d2 d3 where "job_errors ?j = []" and run: "add_run (js_secrets s) ?r db = Inr d1" and d2: "add_job (js_secrets s) ?j d1 = Inr d2"
    and callback: "on_created ?r d2 = Inr d3"
    and ev: "append_job_event (js_secrets s) ?j Job_Submitted None (Some Pending) (sj_now q) [(''attempt'', JInt 0)] d3 = Inr db'"
    using ok by (auto simp: guard_simps)
  have "db_jobs d1 = db_jobs db" using run by (auto simp: add_run_def split: if_splits)
  from stranded_row_cong [OF this] have "stranded_row i j d1" using assms(3) by simp
  then have "stranded_row i j d2" using add_job_Inr [OF d2] added_keeps by simp
  moreover have "db_jobs d3 = db_jobs d2"
    using callback assms(2) by (auto simp: local_callback_def dest: same_tables_jobs)
  ultimately show ?thesis using rows_alone(5) [OF ev] stranded_row_cong [of d3 d2] by simp
qed (use assms(3) in simp)

lemma enqueue_keeps:
  assumes "enqueue secrets k metadata db = Inr db'" and "stranded_row i j db"
  shows "stranded_row i j db'"
proof -
  obtain d2 where d2: "add_job secrets k db = Inr d2"
    and ev: "append_job_event secrets k Job_Submitted None (Some Pending) (jb_created k) metadata d2 = Inr db'"
    using assms(1) by (auto simp: enqueue_def)
  show ?thesis
    using add_job_Inr [OF d2] added_keeps [OF assms(2)] rows_alone(5) [OF ev] by simp
qed

lemma claim_keeps:
  assumes "claim s q db = Inr (db', m)" and "stranded_row i j db" and "jobs_ok db"
  shows "stranded_row i j db'"
proof -
  obtain expires d1 r where row: "claim_row (cl_job_id q) (cl_owner q) (cl_now q) expires (js_targets s) db = Inr (d1, r)"
      and rest: "r = None \<Longrightarrow> db' = db" "\<And>j'. r = Some j' \<Longrightarrow> \<exists>d2 v. advance_target (js_secrets s) (js_targets s) j' (cl_now q) d1 = Inr (d2, v) \<and>
        append_job_event (js_secrets s) j' Job_Claimed (Some (if jb_attempt j' = 1 then Pending else Retry_Wait)) (Some Running) (cl_now q)
          [(''attempt'', JInt (jb_attempt j')), (''fencing_token'', JInt (jb_token j'))] d2 = Inr db'"
    using assms(1) by (fastforce simp: claim_def split: option.splits)
  show ?thesis
  proof (cases r)
    case (Some j')
    obtain d2 v where adv: "advance_target (js_secrets s) (js_targets s) j' (cl_now q) d1 = Inr (d2, v)"
      and ev: "append_job_event (js_secrets s) j' Job_Claimed (Some (if jb_attempt j' = 1 then Pending else Retry_Wait)) (Some Running) (cl_now q)
        [(''attempt'', JInt (jb_attempt j')), (''fencing_token'', JInt (jb_token j'))] d2 = Inr db'"
      using rest(2) [OF Some] by blast
    show ?thesis
      using claim_row_keeps [OF row assms(2,3)] rows_alone(4) [OF adv] rows_alone(5) [OF ev] by simp
  qed (use rest(1) assms(2) in simp)
qed

lemma renew_keeps:
  assumes "renew s q db = Inr (db', m)" and "stranded_row i j db"
  shows "stranded_row i j db'"
proof -
  obtain d1 k at metadata where row: "renew_row (fm_job_id q) (fm_owner q) (fm_token q) (fm_now q) (rl_expires q) db = Inr (d1, Some k)"
    and ev: "append_job_event (js_secrets s) k Job_Lease_Renewed (Some Running) (Some Running) at metadata d1 = Inr db'"
    using assms(1) by (fastforce simp: renew_def split: option.splits)
  show ?thesis
    using renew_row_keeps [OF row assms(2)] rows_alone(5) [OF ev] by simp
qed

text \<open>The end of an attempt: an update of a running row, the target, the event.\<close>

lemma attempt_end_keeps:
  assumes "finish_running k owner token now target available c x db = Inr (d1, r)" and "stranded_row i j db"
    and "d2 = d1 \<or> (\<exists>types l t outcome v. finish_target secrets types l t outcome d1 = Inr (d2, v))"
    and "append_job_event secrets l ty source state at metadata d2 = Inr db'"
  shows "stranded_row i j db'"
proof -
  have "db_jobs d2 = db_jobs d1" using assms(3) by (elim disjE exE) (simp_all add: finish_target_jobs)
  from stranded_row_cong [OF this] show ?thesis
    using finish_running_keeps [OF assms(1,2)] rows_alone(5) [OF assms(4)] by simp
qed

lemma complete_cancellation_keeps:
  assumes "complete_cancellation s q old db = Inr (db', m)" and "stranded_row i j db"
  shows "stranded_row i j db'"
proof -
  obtain d1 d2 k v where row: "finish_running (fm_job_id q) (fm_owner q) (fm_token q) (fm_now q) Cancelled None True False db = Inr (d1, Some k)"
    and fin: "finish_target (js_secrets s) (js_targets s) k (fm_now q) Outcome_Cancelled d1 = Inr (d2, v)"
    and ev: "append_job_event (js_secrets s) k Job_Cancelled (Some Running) (Some Cancelled) (fm_now q)
      [(''attempt'', JInt (jb_attempt k)), (''fencing_token'', JInt (fm_token q))] d2 = Inr db'"
    using assms(1) by (auto simp: complete_cancellation_def complete_cancelled_def split: if_splits option.splits)
  show ?thesis
    by (rule attempt_end_keeps [OF row assms(2) _ ev]) (use fin in blast)
qed

lemma persist_failure_keeps:
  assumes "persist_failure s q target available db = Inr (db', m)" and "stranded_row i j db"
  shows "stranded_row i j db'"
proof -
  obtain d1 d2 k v where row: "finish_running (fm_job_id q) (fm_owner q) (fm_token q) (fm_now q) target available False False db = Inr (d1, Some k)"
    and fin: "target = Failed \<Longrightarrow> finish_target (js_secrets s) (js_targets s) k (fm_now q) Outcome_Failed d1 = Inr (d2, v)"
      "target \<noteq> Failed \<Longrightarrow> d2 = d1"
    and ev: "append_job_event (js_secrets s) k (if target = Failed then Job_Failed else Job_Retry_Scheduled) (Some Running) (Some target)
      (fm_now q) (failure_metadata k q available) d2 = Inr db'"
    using assms(1) by (fastforce simp: persist_failure_def record_running_failure_def split: if_splits option.splits)
  show ?thesis
    by (rule attempt_end_keeps [OF row assms(2) _ ev]) (use fin in blast)
qed

lemma record_failure_keeps:
  "record_retryable_failure s q old db = Inr (db', m) \<Longrightarrow> stranded_row i j db \<Longrightarrow> stranded_row i j db'"
  "record_fatal_failure s q old db = Inr (db', m) \<Longrightarrow> stranded_row i j db \<Longrightarrow> stranded_row i j db'"
  by (auto simp: record_retryable_failure_def record_fatal_failure_def intro: persist_failure_keeps split: if_split_asm)

lemma record_waiting_fatal_failure_keeps:
  assumes "record_waiting_fatal_failure s q old db = Inr (db', m)" and "stranded_row i j db"
  shows "stranded_row i j db'"
proof -
  note ok = assms(1) [unfolded record_waiting_fatal_failure_def]
  obtain d1 r where row: "fail_waiting_row (cj_job_id q) (cj_now q) db = Inr (d1, r)"
    using ok by auto
  show ?thesis
  proof (cases r)
    case None
    with ok row assms(2) show ?thesis by auto
  next
    case (Some l)
    obtain current where current: "read_job old (cj_job_id q) = Inr (Some current)"
      using ok row Some by (auto split: option.splits)
    obtain d2 v where fin: "finish_target (js_secrets s) (js_targets s) l (cj_now q) Outcome_Failed d1 = Inr (d2, v)"
      and ev: "append_job_event (js_secrets s) l Job_Failed (Some (jb_state current)) (Some Failed) (cj_now q)
        ([(''attempt'', JInt (jb_attempt l)), (''reason_code'', JStr ''WORKER_FATAL'')] @ given_field ''error_code'' JStr (wf_error q)) d2
          = Inr db'"
      using ok row Some current by (auto split: if_splits)
    show ?thesis
      using fail_waiting_row_keeps [OF row assms(2)] rows_alone(3) [OF fin] rows_alone(5) [OF ev] by simp
  qed
qed

lemma recover_keeps:
  assumes "recover s q old db = Inr (db', m)" and "stranded_row i j db"
  shows "stranded_row i j db'"
proof -
  note ok = assms(1) [unfolded recover_def]
  obtain current available d1 r where recover: "recover_row (fm_job_id q) (fm_owner q) (fm_token q) (fm_now q) (recovery_target current) available db = Inr (d1, r)"
    and rest: "(case r of None \<Rightarrow> Inl [''JOB_LEASE_MISMATCH'']
       | Some j \<Rightarrow>
           andthen (case recovery_target current of
               Cancelled \<Rightarrow> finish_target (js_secrets s) (js_targets s) j (fm_now q) Outcome_Cancelled d1
             | Failed \<Rightarrow> finish_target (js_secrets s) (js_targets s) j (fm_now q) Outcome_Failed d1
             | _ \<Rightarrow> andthen (load_target (js_targets s) j d1) (\<lambda>v. Inr (d1, v))) (\<lambda>(db, v).
           andthen (append_job_event (js_secrets s) j Job_Recovery_Confirmed (Some Running) (Some (recovery_target current)) (fm_now q)
               (recovery_metadata j q available) db) (\<lambda>db.
             mutation_result j v db))) = Inr (db', m)"
    using ok unfolding andthen_Inr by (auto split: prod.split_asm)
  obtain k where r: "r = Some k" using rest by (cases r) auto
  obtain d2 v where fin: "(case recovery_target current of
               Cancelled \<Rightarrow> finish_target (js_secrets s) (js_targets s) k (fm_now q) Outcome_Cancelled d1
             | Failed \<Rightarrow> finish_target (js_secrets s) (js_targets s) k (fm_now q) Outcome_Failed d1
             | _ \<Rightarrow> andthen (load_target (js_targets s) k d1) (\<lambda>v. Inr (d1, v))) = Inr (d2, v)"
    and ev: "append_job_event (js_secrets s) k Job_Recovery_Confirmed (Some Running) (Some (recovery_target current)) (fm_now q)
        (recovery_metadata k q available) d2 = Inr db'"
    using rest unfolding r option.case andthen_Inr by (auto split: prod.split_asm)
  obtain c where row: "finish_running (fm_job_id q) (fm_owner q) (fm_token q) (fm_now q) (recovery_target current) available c True db = Inr (d1, r)"
    using recover by (auto simp: recover_row_def split: if_split_asm)
  show ?thesis
    by (rule attempt_end_keeps [OF row assms(2) _ ev]; cases "recovery_target current"; use fin in \<open>simp; (metis surj_pair)?\<close>)
qed

lemma publish_keeps:
  assumes "publish s p db = Inr (db', r)" and "stranded_row i j db"
  shows "stranded_row i j db'"
proof -
  note ok = assms(1) [unfolded publish_def complete_published_result_def]
  obtain d1 k d2 b where row: "cas_job (publication_conditions p) (released Succeeded None (pb_completed p)) (pb_job_id p) db = Inr (d1, Some k)"
    and run: "cas_run (\<lambda>r. rn_lifecycle r \<in> open_runs \<and> rn_verdict r = None \<and> rn_updated r \<le> pb_completed p)
      (\<lambda>r. r\<lparr>rn_lifecycle := pb_lifecycle p, rn_verdict := pb_verdict p, rn_updated := pb_completed p,
         rn_finished := Some (pb_completed p)\<rparr>) (pb_run_id p) d1 = Inr (d2, b)"
    and ev: "append_job_event (js_secrets s) k Job_Succeeded (Some Running) (Some Succeeded) (pb_completed p) (success_metadata k) d2 = Inr db'"
    using ok by (auto split: if_splits option.splits)
  have "stranded_row i j d1"
    by (rule cas_keeps [OF row assms(2)])
      (use assms(2) in \<open>auto simp: released_def publication_conditions_def holds_lease_def stranded_row_def waiting_states_def\<close>)
  with rows_alone(6) [OF run] rows_alone(5) [OF ev] show ?thesis by simp
qed

lemma complete_attempt_keeps:
  assumes "complete_attempt s c db = Inr (db', k)" and "stranded_row i j db"
  shows "stranded_row i j db'"
proof -
  note ok = assms(1) [unfolded complete_attempt_def]
  obtain d1 where row: "(if co_target c = Recording_Target then complete_recording c db else complete_frozen c db) = Inr (d1, Some k)"
    and ev: "append_job_event (js_secrets s) k Job_Succeeded (Some Running) (Some Succeeded) (co_now c) (success_metadata k @ co_details c) d1
      = Inr db'"
    using ok by (auto split: if_splits option.splits)
  have "stranded_row i j d1"
    using row completions_keep [OF _ assms(2)] by (auto split: if_split_asm)
  with rows_alone(5) [OF ev] show ?thesis by simp
qed

subsection \<open>A request for another job\<close>

lemma set_cancel_keeps:
  assumes "set_cancel k now db = Inr (d1, r, b)" and "stranded_row i j db" and "k \<noteq> i"
  shows "stranded_row i j d1"
proof -
  obtain r' where "cas_job (\<lambda>j. jb_state j \<notin> ended_states \<and> jb_cancel j = None \<and> jb_updated j \<le> now)
        (\<lambda>j. j\<lparr>jb_cancel := Some now, jb_updated := now\<rparr>) k db = Inr (d1, r')"
    using assms(1) by (auto simp: set_cancel_def split: option.split_asm)
  then show ?thesis by (rule cas_keeps [OF _ assms(2)]) (use assms(3) in auto)
qed

lemma set_cancel_id: "set_cancel k now db = Inr (d1, Some r, b) \<Longrightarrow> jb_job_id r = k"
  using set_cancel_Inr [of k now db d1 r b] by (auto split: if_split_asm dest: job_row_Some move_id)

lemma cancel_waiting_row_keeps:
  assumes "cancel_waiting_row k now db = Inr (d1, r)" and "stranded_row i j db" and "k \<noteq> i"
  shows "stranded_row i j d1"
  using assms(1) unfolding cancel_waiting_row_def by (rule cas_keeps [OF _ assms(2)]) (use assms(3) in auto)

lemma cancel_waiting_keeps:
  assumes "cancel_waiting s k now db = Inr (db', m)" and "stranded_row i j db" and "jb_job_id k \<noteq> i"
  shows "stranded_row i j db'"
proof -
  note ok = assms(1) [unfolded cancel_waiting_def]
  obtain d1 c d2 v where row: "cancel_waiting_row (jb_job_id k) now db = Inr (d1, Some c)"
    and fin: "finish_target (js_secrets s) (js_targets s) c now Outcome_Cancelled d1 = Inr (d2, v)"
    and ev: "append_job_event (js_secrets s) c Job_Cancelled (Some (jb_state k)) (Some Cancelled) now
       [(''attempt'', JInt (jb_attempt c))] d2 = Inr db'"
    using ok by (auto split: option.splits)
  show ?thesis
    using cancel_waiting_row_keeps [OF row assms(2,3)] rows_alone(3) [OF fin] rows_alone(5) [OF ev] by simp
qed

lemma cancel_marked_keeps:
  assumes "cancel_marked s k now db = Inr (db', m)" and "stranded_row i j db" and "jb_job_id k \<noteq> i"
  shows "stranded_row i j db'"
  using assms(1) cancel_waiting_keeps [OF _ assms(2,3)] assms(2) by (auto simp: cancel_marked_def split: if_split_asm)

lemma request_other_keeps:
  assumes "request_cancellation s q old db = Inr (db', m)" and "stranded_row i j db" and "cj_job_id q \<noteq> i"
  shows "stranded_row i j db'"
proof -
  note ok = assms(1) [unfolded request_cancellation_def]
  obtain first where first: "require_job old (cj_job_id q) = Inr first"
    using ok by auto
  show ?thesis
  proof (cases "jb_state first \<in> ended_states")
    case True
    with ok first have "db' = db" by (auto split: if_splits)
    with assms(2) show ?thesis by simp
  next
    case False
    obtain d1 r marked where set': "set_cancel (cj_job_id q) (cj_now q) db = Inr (d1, r, marked)"
      using ok first False by auto
    obtain k where r: "r = Some k"
      using ok first False set' by (cases r) auto
    have id: "jb_job_id k \<noteq> i"
      using set_cancel_id [OF set' [unfolded r]] assms(3) by simp
    have kept: "stranded_row i j d1"
      using set' assms(2,3) by (rule set_cancel_keeps)
    consider "db' = d1" | "cancel_marked s k (cj_now q) d1 = Inr (db', m)"
      | d2 where "append_job_event (js_secrets s) k Job_Cancel_Requested (Some (jb_state k)) (Some (jb_state k)) (cj_now q)
            [(''attempt'', JInt (jb_attempt k))] d1 = Inr d2" "cancel_marked s k (cj_now q) d2 = Inr (db', m)"
      using ok first False set' r by (auto split: if_splits)
    then show ?thesis
    proof cases
      case 3
      then show ?thesis using cancel_marked_keeps [OF 3(2) _ id] kept rows_alone(5) [OF 3(1)] by simp
    qed (use kept cancel_marked_keeps [OF _ _ id] in simp_all)
  qed
qed

subsection \<open>Only another request changes the row\<close>

lemma acts_keep:
  assumes "acts old db db'" and "stranded_row i j db" and "jobs_ok db"
  shows "stranded_row i j db' \<or> (\<exists>s q r. cj_job_id q = i \<and> request_cancellation s q old db = Inr (db', r))"
  using assms(1)
proof (cases rule: acts.cases)
  case (act_cancel s q r)
  with assms(2) show ?thesis using request_other_keeps [of s q old db db' r] by blast
next
  case act_elsewhere
  then have "db_jobs db' = db_jobs db" by (simp add: same_jobs_def)
  from stranded_row_cong [OF this] assms(2) show ?thesis by simp
qed (use assms(2,3) in \<open>auto intro: submit_keeps enqueue_keeps claim_keeps renew_keeps complete_cancellation_keeps record_failure_keeps
    record_waiting_fatal_failure_keeps recover_keeps publish_keeps complete_attempt_keeps\<close>)

text \<open>
  In a history the row stays as it is, or the transaction that changed it was a request to cancel this very job.
\<close>

definition asked_again :: "str \<Rightarrow> job \<Rightarrow> database list \<Rightarrow> database list \<Rightarrow> bool" where
  "asked_again i j since dbs \<longleftrightarrow> (\<exists>later d' d earlier s q old r. since = later @ d' # d # earlier \<and> stranded_row i j d \<and> \<not> stranded_row i j d' \<and>
     old \<in> set (d # earlier @ dbs) \<and> cj_job_id q = i \<and> request_cancellation s q old d = Inr (d', r))"

lemma asked_again_Cons: "asked_again i j since dbs \<Longrightarrow> asked_again i j (d # since) dbs"
  unfolding asked_again_def by (metis append_Cons)

lemma history_asked_again:
  assumes "job_history (dbs' @ db # dbs)" and "stranded_row i j db"
  shows "stranded_row i j (hd (dbs' @ [db])) \<or> asked_again i j (dbs' @ [db]) dbs"
  using assms
proof (induction dbs')
  case (Cons x dbs')
  obtain y ys where y: "dbs' @ [db] = y # ys" by (cases dbs') auto
  then have whole: "dbs' @ db # dbs = y # ys @ dbs" by (metis append.assoc append_Cons append_Nil)
  from Cons.prems(1) obtain old where old: "job_history (y # ys @ dbs)" "old \<in> set (y # ys @ dbs)" "acts old y x"
    unfolding append_Cons whole by (cases rule: job_history.cases) auto
  have ok: "jobs_ok y" using history_sound [OF old(1)] by (simp add: queue_ok_def)
  from Cons.IH old(1) Cons.prems(2) whole have "stranded_row i j y \<or> asked_again i j (y # ys) dbs"
    by (simp add: y)
  then show ?case
  proof
    assume row: "stranded_row i j y"
    from acts_keep [OF old(3) row ok] show ?thesis
    proof (elim disjE exE conjE)
      fix s q r assume "cj_job_id q = i" "request_cancellation s q old y = Inr (x, r)"
      moreover have "x # y # ys = [] @ x # y # ys" by simp
      ultimately have "stranded_row i j x \<or> asked_again i j (x # y # ys) dbs"
        using old(2) row unfolding asked_again_def by blast
      then show ?thesis by (simp add: y)
    qed simp
  qed (simp add: y asked_again_Cons)
qed simp

end
