(* ===== verification/JobProperties.thy ===== *)
theory JobProperties
  imports JobSample JobStranded
begin

section \<open>What the queue promises\<close>

text \<open>
  The properties of the queue over a history: any number of workers and services act on the latest database, and
  what an operation has read before its first write may be out of date.
\<close>

subsection \<open>The rows and their fence\<close>

text \<open>C31: In every database of a history each job row satisfies its constraints and can be read back, its fencing token is
  the number of its attempts, it has an owner and a deadline exactly while it is running, a pending job has made
  no attempt and a job that waits again has an attempt left; no two rows share an identifier or an idempotency key.\<close>

theorem queue_rows_consistent:
  assumes "job_history dbs" and "db \<in> set dbs"
  shows "distinct (map jb_job_id (db_jobs db)) \<and> distinct (map (\<lambda>j. (jb_project_id j, jb_operation j, jb_key j)) (db_jobs db)) \<and>
    (\<forall>j \<in> set (db_jobs db). job_row_ok j \<and> job_errors j = [] \<and> jb_token j = jb_attempt j \<and> jb_attempt j \<le> jb_max_attempts j \<and>
       (jb_owner j \<noteq> None \<and> jb_expires j \<noteq> None \<longleftrightarrow> jb_state j = Running) \<and> (jb_state j = Pending \<longrightarrow> jb_attempt j = 0) \<and>
       (jb_state j = Retry_Wait \<longrightarrow> 0 < jb_attempt j \<and> jb_attempt j < jb_max_attempts j))"
proof -
  have key: "job_key = (\<lambda>j. (jb_project_id j, jb_operation j, jb_key j))"
    by (simp add: job_key_def fun_eq_iff)
  have ok: "jobs_ok db"
    using history_queue_ok [OF assms] by (simp add: queue_ok_def)
  moreover have "jb_attempt j \<le> jb_max_attempts j" "(jb_owner j = None) = (jb_expires j = None)" if "job_row_ok j" for j
    using that unfolding job_row_ok_def by blast+
  ultimately show ?thesis
    unfolding jobs_ok_def job_ok_def written_def key by blast
qed

lemma queue_rows_consistent_witness:
  "jb_token stranded_job = jb_attempt stranded_job \<and> jb_owner stranded_job = None"
  using queue_rows_consistent [OF sample_history, of stranded] sample_rows(4) by (auto simp: stranded_job_def released_def)

text \<open>The operations of a worker that has lost its lease.\<close>

abbreviation fence_of :: "'a fenced_scheme \<Rightarrow> str \<times> str \<times> int" where
  "fence_of q \<equiv> (fm_job_id q, fm_owner q, fm_token q)"

definition unheld :: "str \<Rightarrow> str \<Rightarrow> int \<Rightarrow> database \<Rightarrow> bool" where
  "unheld i owner token db \<longleftrightarrow> given (\<lambda>j. token \<le> jb_token j \<and> \<not> holds_lease owner token j) (job_row db i)"

lemma move_unheld: "job_move j ty j' \<Longrightarrow> token \<le> jb_token j \<Longrightarrow> \<not> holds_lease owner token j \<Longrightarrow>
    token \<le> jb_token j' \<and> \<not> holds_lease owner token j'"
  by (erule job_move.cases) (auto simp: holds_lease_def claimed_row_def released_def waiting_states_def)

text \<open>A row after one move.\<close>

lemma step_row:
  assumes "job_step db db'" and "job_row db i = Some j"
  shows "job_row db' i = Some j \<or> (\<exists>ty j'. job_move j ty j' \<and> job_row db' i = Some j')"
  using assms(1)
proof (cases rule: job_step.cases)
  case elsewhere
  with assms(2) show ?thesis by (simp add: same_jobs_def job_row_def)
next
  case (added k e)
  have "find p (js @ [k]) = Some l" if "find p js = Some l" for p l js
    using that by (induction js) auto
  with assms(2) added(4) show ?thesis by (simp add: job_row_def)
next
  case (moved a k ty k' source e)
  have id: "jb_job_id k' = a"
    using job_row_Some [OF moved(1)] move_id [OF moved(2)] by simp
  have "job_row db' i = Some (if jb_job_id k' = i then k' else j)"
    using assms(2) moved(4) by (simp add: job_row_def find_with_job)
  with id moved(1,2) assms(2) show ?thesis by (auto split: if_splits)
qed

lemma steps_row:
  assumes "job_steps db db'" and "given P (job_row db i)" and "\<And>j ty j'. job_move j ty j' \<Longrightarrow> P j \<Longrightarrow> P j'"
  shows "given P (job_row db' i)"
  using assms(1)
proof (induction rule: rtranclp_induct)
  case (step b c)
  then obtain j where j: "job_row b i = Some j" "P j" by (cases "job_row b i") auto
  from step_row [OF step.hyps(2) j(1)] assms(3) j(2) show ?case by auto
qed (rule assms(2))

lemma finish_running_needs_lease:
  "\<not> given (holds_lease owner token) (job_row db i) \<Longrightarrow> finish_running i owner token now target available rc re db \<noteq> Inr (d, Some j)"
  by (auto elim!: finish_running_Some)

lemma cas_needs:
  assumes "cas_job p f i db = Inr (d, Some k)" and "\<And>j. jb_job_id (f j) = jb_job_id j" and "\<And>j. p j \<Longrightarrow> P j"
  shows "given P (job_row db i)"
  using assms(1,2) by (rule cas_job_Some) (simp add: assms(3))

lemma checked_cases: "isl m \<longleftrightarrow> (\<forall>x. m \<noteq> Inr x)"
  by (cases m) simp_all

lemma unheld_fails:
  assumes "\<not> given (holds_lease owner token) (job_row db i)"
  shows "fence_of rq = (i, owner, token) \<Longrightarrow> isl (renew s rq db)"
    and "fence_of fq = (i, owner, token) \<Longrightarrow> isl (complete_cancellation s fq old db)"
    and "fence_of jq = (i, owner, token) \<Longrightarrow> isl (record_retryable_failure s jq old db)"
    and "fence_of jq = (i, owner, token) \<Longrightarrow> isl (record_fatal_failure s jq old db)"
    and "fence_of rcq = (i, owner, token) \<Longrightarrow> isl (recover s rcq old db)"
    and "(pb_job_id p, pb_owner p, pb_token p) = (i, owner, token) \<Longrightarrow> isl (publish s p db)"
    and "(co_job_id co, co_owner co, co_token co) = (i, owner, token) \<Longrightarrow> isl (complete_attempt s co db)"
proof -
  note no = finish_running_needs_lease [OF assms]
  have cas: "cas_job q f i db \<noteq> Inr (d, Some k)" if "\<And>j. jb_job_id (f j) = jb_job_id j" "\<And>j. q j \<Longrightarrow> holds_lease owner token j" for q f d k
    using assms cas_needs [of q f i db d k "holds_lease owner token"] that by blast
  show "fence_of rq = (i, owner, token) \<Longrightarrow> isl (renew s rq db)"
  proof -
    assume "fence_of rq = (i, owner, token)"
    moreover have "renew_row i owner token now expires db \<noteq> Inr (d, Some k)" for now expires d k
      unfolding renew_row_def by (rule cas) auto
    ultimately show ?thesis by (auto simp: checked_cases renew_def split: option.splits)
  qed
  show "fence_of fq = (i, owner, token) \<Longrightarrow> isl (complete_cancellation s fq old db)"
    using no by (auto simp: checked_cases complete_cancellation_def complete_cancelled_def split: option.splits)
  have persist: "fence_of jq = (i, owner, token) \<Longrightarrow> persist_failure s jq target available db \<noteq> Inr x" for target available x
    using no by (cases x) (auto simp: persist_failure_def record_running_failure_def split: option.splits if_splits)
  show "fence_of jq = (i, owner, token) \<Longrightarrow> isl (record_retryable_failure s jq old db)"
    using persist by (auto simp: checked_cases record_retryable_failure_def split: if_splits)
  show "fence_of jq = (i, owner, token) \<Longrightarrow> isl (record_fatal_failure s jq old db)"
    using persist by (auto simp: checked_cases record_fatal_failure_def)
  show "fence_of rcq = (i, owner, token) \<Longrightarrow> isl (recover s rcq old db)"
    using no by (auto simp: checked_cases recover_def recover_row_def split: option.splits if_splits)
  show "(pb_job_id p, pb_owner p, pb_token p) = (i, owner, token) \<Longrightarrow> isl (publish s p db)"
  proof -
    assume "(pb_job_id p, pb_owner p, pb_token p) = (i, owner, token)"
    then have "cas_job (publication_conditions p) (released Succeeded None (pb_completed p)) (pb_job_id p) db \<noteq> Inr (d, Some k)" for d k
      using cas [of "released Succeeded None (pb_completed p)" "publication_conditions p"]
      by (simp add: publication_conditions_def released_def)
    then show ?thesis
      by (auto simp: checked_cases publish_def complete_published_result_def split: option.splits if_splits)
  qed
  show "(co_job_id co, co_owner co, co_token co) = (i, owner, token) \<Longrightarrow> isl (complete_attempt s co db)"
  proof -
    assume "(co_job_id co, co_owner co, co_token co) = (i, owner, token)"
    then have eq: "co_job_id co = i" "co_owner co = owner" "co_token co = token" by simp_all
    have "complete_recording co db \<noteq> Inr (d, Some k)" "complete_frozen co db \<noteq> Inr (d, Some k)" for d k
      unfolding complete_recording_def complete_frozen_def eq by (rule cas; simp add: released_def)+
    then show ?thesis
      by (auto simp: checked_cases complete_attempt_def split: option.splits if_splits)
  qed
qed

text \<open>C32: Once an owner no longer holds the lease its token was issued for, no later database gives it back: renewing,
  cancelling, failing, recovering, publishing and completing with that owner and token are refused from then on,
  whatever the worker had read before.\<close>

theorem lost_fence_stays_lost:
  assumes "job_history (dbs' @ db # dbs)" and "db' \<in> set (db # dbs')" and "job_row db i = Some j"
    and "token \<le> jb_token j" and "\<not> holds_lease owner token j"
  shows "given (\<lambda>k. \<not> holds_lease owner token k) (job_row db' i) \<and>
    (fence_of rq = (i, owner, token) \<longrightarrow> isl (renew s rq db')) \<and>
    (fence_of fq = (i, owner, token) \<longrightarrow> isl (complete_cancellation s fq old db')) \<and>
    (fence_of jq = (i, owner, token) \<longrightarrow> isl (record_retryable_failure s jq old db') \<and> isl (record_fatal_failure s jq old db')) \<and>
    (fence_of rcq = (i, owner, token) \<longrightarrow> isl (recover s rcq old db')) \<and>
    ((pb_job_id p, pb_owner p, pb_token p) = (i, owner, token) \<longrightarrow> isl (publish s p db')) \<and>
    ((co_job_id co, co_owner co, co_token co) = (i, owner, token) \<longrightarrow> isl (complete_attempt s co db'))"
proof -
  have "given (\<lambda>j. token \<le> jb_token j \<and> \<not> holds_lease owner token j) (job_row db i)"
    using assms(3-5) by simp
  with history_steps [OF assms(1,2)]
  have "given (\<lambda>j. token \<le> jb_token j \<and> \<not> holds_lease owner token j) (job_row db' i)"
    by (rule steps_row) (blast dest: move_unheld)
  then have lost: "given (\<lambda>k. \<not> holds_lease owner token k) (job_row db' i)" and none: "\<not> given (holds_lease owner token) (job_row db' i)"
    by (cases "job_row db' i"; simp)+
  show ?thesis
    using lost unheld_fails [OF none] by blast
qed

lemma lost_fence_stays_lost_witness:
  "isl (renew a_service \<lparr>fm_job_id = a_job_id, fm_owner = ''w'', fm_token = 1, fm_now = 50, rl_expires = 60\<rparr> stranded)"
  using lost_fence_stays_lost [of "[]" stranded _ stranded a_job_id stranded_job 1 "''w''"
      "\<lparr>fm_job_id = a_job_id, fm_owner = ''w'', fm_token = 1, fm_now = 50, rl_expires = 60\<rparr>" a_service]
    sample_history sample_rows(1)
  by (simp add: stranded_job_def released_def cancelling_job_def running_job_def claimed_row_def waiting_job_def pending_job_def
      holds_lease_def)

subsection \<open>The lifecycle of a job\<close>

text \<open>
  The abstract machine of a job: its state, the number of its attempts and whether its cancellation was requested,
  for a number \<open>m\<close> of attempts allowed.
\<close>

type_synonym job_phase = "job_state \<times> int \<times> bool"

inductive machine :: "int \<Rightarrow> job_phase \<Rightarrow> job_phase \<Rightarrow> bool" where
  attempt_starts: "s \<in> {Pending, Retry_Wait} \<Longrightarrow> a < m \<Longrightarrow> machine m (s, a, False) (Running, a + 1, False)"
| asked_to_stop: "s \<in> {Pending, Retry_Wait, Running} \<Longrightarrow> machine m (s, a, False) (s, a, True)"
| never_starts: "s \<in> {Pending, Retry_Wait} \<Longrightarrow> machine m (s, a, c) (if c then Cancelled else Failed, a, c)"
| tries_again: "a < m \<Longrightarrow> machine m (Running, a, c) (Retry_Wait, a, c)"
| attempt_ends: "t \<in> {Succeeded, Failed} \<or> t = Cancelled \<and> c \<Longrightarrow> machine m (Running, a, c) (t, a, c)"

definition phase_of :: "job \<Rightarrow> job_phase" where
  "phase_of j = (jb_state j, jb_attempt j, jb_cancel j \<noteq> None)"

lemma move_machine: "job_move j ty j' \<Longrightarrow> phase_of j' = phase_of j \<or> machine (jb_max_attempts j) (phase_of j) (phase_of j')"
proof (erule job_move.cases, goal_cases)
  case 1
  then show ?case by (auto simp: phase_of_def claimed_row_def waiting_states_def intro: machine.intros)
next
  case 3
  then show ?case
    using asked_to_stop [of "jb_state j" "jb_max_attempts j" "jb_attempt j"]
    by (cases "jb_state j") (simp_all add: phase_of_def ended_states_def)
next
  case 4
  then show ?case
    using never_starts [of "jb_state j" "jb_max_attempts j" "jb_attempt j" True] by (auto simp: phase_of_def waiting_states_def)
next
  case 5
  then show ?case
    using never_starts [of "jb_state j" "jb_max_attempts j" "jb_attempt j" False] by (auto simp: phase_of_def waiting_states_def)
next
  case 6
  then show ?case by (simp add: phase_of_def released_def tries_again)
next
  case (7 k now ty' target)
  then have "machine (jb_max_attempts j) (Running, jb_attempt j, jb_cancel j \<noteq> None) (target, jb_attempt j, jb_cancel j \<noteq> None)"
    by (intro attempt_ends) auto
  with 7 show ?case by (simp add: phase_of_def released_def)
qed (simp add: phase_of_def)

lemma row_refines:
  assumes "job_steps db db'" and "job_row db i = Some j"
  shows "given (\<lambda>k. same_job j k \<and> (machine (jb_max_attempts j))\<^sup>*\<^sup>* (phase_of j) (phase_of k)) (job_row db' i)"
proof (rule steps_row [OF assms(1)])
  show "given (\<lambda>k. same_job j k \<and> (machine (jb_max_attempts j))\<^sup>*\<^sup>* (phase_of j) (phase_of k)) (job_row db i)"
    using assms(2) by (simp add: same_job_def)
next
  fix k ty k'
  assume move: "job_move k ty k'" and k: "same_job j k \<and> (machine (jb_max_attempts j))\<^sup>*\<^sup>* (phase_of j) (phase_of k)"
  from move_machine [OF move] k show "same_job j k' \<and> (machine (jb_max_attempts j))\<^sup>*\<^sup>* (phase_of j) (phase_of k')"
    using same_job_trans [of j k k'] move_same_job [OF move] same_job_id(3) [of j k]
    by (metis rtranclp.rtrancl_into_rtrancl)
qed

definition pending_origin :: "job \<Rightarrow> bool" where
  "pending_origin j \<longleftrightarrow> (machine (jb_max_attempts j))\<^sup>*\<^sup>* (Pending, 0, False) (phase_of j)"

lemma step_origin:
  assumes "job_step db db'" and "\<forall>j \<in> set (db_jobs db). pending_origin j"
  shows "\<forall>j \<in> set (db_jobs db'). pending_origin j"
  using assms(1)
proof (cases rule: job_step.cases)
  case elsewhere
  with assms(2) show ?thesis by (simp add: same_jobs_def)
next
  case (added j e)
  then have "pending_origin j" by (simp add: pending_origin_def phase_of_def fresh_job_def)
  with added(4) assms(2) show ?thesis by auto
next
  case (moved i j ty j' source e)
  have "pending_origin j"
    using assms(2) job_row_Some [OF moved(1)] by blast
  then have "pending_origin j'"
    using move_machine [OF moved(2)] move_max [OF moved(2)] unfolding pending_origin_def
    by (metis rtranclp.rtrancl_into_rtrancl)
  with moved(4) assms(2) show ?thesis by (auto dest: with_job_set)
qed

lemma history_origin:
  assumes "job_history dbs" and "db \<in> set dbs" and "j \<in> set (db_jobs db)"
  shows "pending_origin j"
proof -
  obtain xs ys where split: "dbs = xs @ db # ys" using assms(2) by (meson in_set_conv_decomp)
  then have "job_history (db # ys)" using assms(1) history_suffix [of xs "db # ys"] by simp
  then have "job_steps (last dbs) db" using history_sound [of "db # ys"] split by simp
  then have "\<forall>j \<in> set (db_jobs db). pending_origin j"
  proof (induction rule: rtranclp_induct)
    case base
    show ?case using history_start [OF assms(1)] by simp
  qed (rule step_origin)
  with assms(3) show ?thesis by blast
qed

text \<open>C33: The operations refine the abstract machine of a job: between any two databases of a history a job keeps what
  was frozen at its submission and its phase moves along the machine, every job has come from the pending phase
  without attempts, and the row of an ended job never changes again.\<close>

theorem queue_refines_machine:
  assumes "job_history (dbs' @ db # dbs)" and "db' \<in> set (db # dbs')" and "job_row db i = Some j"
  shows "given (\<lambda>k. same_job j k \<and> (machine (jb_max_attempts j))\<^sup>*\<^sup>* (phase_of j) (phase_of k)) (job_row db' i) \<and>
    (machine (jb_max_attempts j))\<^sup>*\<^sup>* (Pending, 0, False) (phase_of j) \<and>
    (jb_state j \<in> ended_states \<longrightarrow> job_row db' i = Some j)"
proof -
  have "given (later j) (job_row db' i)"
    using steps_follow_on [OF history_steps [OF assms(1,2)]] assms(3) by (simp add: follows_on_def)
  then have "jb_state j \<in> ended_states \<Longrightarrow> job_row db' i = Some j"
    by (cases "job_row db' i") (simp_all add: later_def)
  then show ?thesis
    using row_refines [OF history_steps [OF assms(1,2)] assms(3)] history_origin [OF assms(1), of db j] job_row_Some [OF assms(3)]
    by (simp add: pending_origin_def)
qed

lemma queue_refines_machine_witness:
  "(machine 3)\<^sup>*\<^sup>* (phase_of running_job) (phase_of stranded_job)"
  using queue_refines_machine [of "[stranded, cancelling]" running "[submitted, before_all]" stranded a_job_id running_job]
    sample_history sample_rows(1,3)
  by (simp add: running_job_def claimed_row_def waiting_job_def pending_job_def a_submission_def)

subsection \<open>The log\<close>

text \<open>C34: The events of a job are an exact log of it: they are numbered from one without gaps, the first is its submission,
  each starts in the state where the one before ended (the failure of a waiting job may name the other waiting
  state), the last ends in the state of the row, and the claims among them are as many as its fencing token.\<close>

theorem job_log_exact:
  assumes "job_history dbs" and "db \<in> set dbs" and "j \<in> set (db_jobs db)"
  shows "map je_sequence (job_log db (jb_job_id j)) = map int [1..<Suc (length (job_log db (jb_job_id j)))] \<and>
    log_leads None (job_log db (jb_job_id j)) (Some (jb_state j)) \<and> int (claims_in (job_log db (jb_job_id j))) = jb_token j"
  using history_logs_ok [OF assms(1,2)] assms(3) by (simp add: logs_ok_def log_exact_def)

lemma job_log_exact_witness: "log_leads None (job_log stranded a_job_id) (Some Retry_Wait)"
  using job_log_exact [OF sample_history _ sample_rows(4)] job_row_Some [OF sample_rows(1)]
  by (simp add: stranded_job_def released_def)

text \<open>C35: A job changes its state at most twice per attempt allowed, however its workers, its owner and the recovery
  interleave: no schedule keeps a job going for ever.\<close>

theorem job_changes_bounded:
  assumes "job_history dbs" and "db \<in> set dbs" and "j \<in> set (db_jobs db)"
  shows "int (changes_in (job_log db (jb_job_id j))) \<le> 2 * jb_max_attempts j"
proof -
  have "log_exact j (job_log db (jb_job_id j))"
    using history_logs_ok [OF assms(1,2)] assms(3) by (simp add: logs_ok_def)
  then have "changes_in (job_log db (jb_job_id j)) \<le> 2 * nat (jb_max_attempts j)"
    by (simp add: log_exact_def)
  moreover have "0 \<le> jb_max_attempts j"
  proof -
    have "job_row_ok j"
      using history_queue_ok [OF assms(1,2)] assms(3) by (simp add: queue_ok_def jobs_ok_def job_ok_def written_def)
    then show ?thesis unfolding job_row_ok_def by (elim conjE) simp
  qed
  ultimately show ?thesis by linarith
qed

lemma job_changes_bounded_witness: "changes_in (job_log stranded a_job_id) \<le> 6"
  using job_changes_bounded [OF sample_history _ sample_rows(4)] job_row_Some [OF sample_rows(1)]
  by (simp add: stranded_job_def released_def cancelling_job_def running_job_def claimed_row_def waiting_job_def pending_job_def
      a_submission_def)

subsection \<open>Jobs and runs\<close>

text \<open>C36: A run follows its job: while the job is pending the run is queued, while it runs or waits to be retried the run
  is running, and it ends with the job, completed or stopped exactly when the job succeeded, failed and cancelled
  alike. No run belongs to two jobs.\<close>

theorem run_follows_job:
  assumes "job_history dbs" and "db \<in> set dbs" and "j \<in> set (db_jobs db)" and "jb_run_id j = Some i"
  shows "(\<exists>r. run_row db i = Some r \<and> (case jb_state j of
      Pending \<Rightarrow> rn_lifecycle r = Run_Queued | Running \<Rightarrow> rn_lifecycle r = Run_Running | Retry_Wait \<Rightarrow> rn_lifecycle r = Run_Running
    | Succeeded \<Rightarrow> rn_lifecycle r \<in> {Run_Completed, Run_Stopped} | Failed \<Rightarrow> rn_lifecycle r = Run_Failed
    | Cancelled \<Rightarrow> rn_lifecycle r = Run_Cancelled)) \<and>
    (\<forall>k \<in> set (db_jobs db). jb_run_id k = Some i \<longrightarrow> k = j)"
proof -
  have ok: "jobs_ok db" and runs: "given (\<lambda>r. rn_lifecycle r \<in> runs_at (jb_state j)) (run_row db i)"
      "\<And>k. k \<in> set (db_jobs db) \<Longrightarrow> jb_run_id k = Some i \<Longrightarrow> jb_job_id k = jb_job_id j"
    using history_queue_ok [OF assms(1,2)] assms(3,4) unfolding queue_ok_def runs_agree_def by blast+
  have "k = j" if "k \<in> set (db_jobs db)" "jb_run_id k = Some i" for k
    using job_row_unique [OF ok that(1)] job_row_unique [OF ok assms(3)] unfolding runs(2) [OF that] by simp
  moreover obtain r where "run_row db i = Some r" "rn_lifecycle r \<in> runs_at (jb_state j)"
    using runs(1) by (cases "run_row db i") auto
  moreover have "case s of Pending \<Rightarrow> l = Run_Queued | Running \<Rightarrow> l = Run_Running | Retry_Wait \<Rightarrow> l = Run_Running
      | Succeeded \<Rightarrow> l \<in> {Run_Completed, Run_Stopped} | Failed \<Rightarrow> l = Run_Failed | Cancelled \<Rightarrow> l = Run_Cancelled"
    if "l \<in> runs_at s" for l s
    using that by (cases s) simp_all
  ultimately show ?thesis by blast
qed

lemma run_follows_job_witness: "\<exists>r. run_row stranded a_run_id = Some r \<and> rn_lifecycle r = Run_Running"
  using run_follows_job [OF sample_history _ sample_rows(4), of a_run_id]
  by (auto simp: stranded_job_def released_def cancelling_job_def running_job_def claimed_row_def waiting_job_def pending_job_def)

subsection \<open>Cancellation\<close>

definition asked_while_waiting :: "job \<Rightarrow> bool" where
  "asked_while_waiting j \<longleftrightarrow> jb_state j \<in> waiting_states \<and> jb_cancel j \<noteq> None"

lemma move_stranded: "job_move j ty j' \<Longrightarrow> asked_while_waiting j \<Longrightarrow> jb_state j' = Cancelled \<and> ty = Job_Cancelled"
  by (erule job_move.cases) (auto simp: asked_while_waiting_def waiting_states_def ended_states_def)

lemma stranded_or_cancelled:
  assumes "job_history (dbs' @ db # dbs)" and "db' \<in> set (db # dbs')" and "stranded_row i j db"
  shows "given (\<lambda>k. k = j \<or> jb_state k = Cancelled) (job_row db' i)"
proof -
  have "given (\<lambda>k. k = j \<or> jb_state k = Cancelled) (job_row db i)"
    using assms(3) by (simp add: stranded_row_def)
  with history_steps [OF assms(1,2)] show ?thesis
  proof (rule steps_row)
    fix k ty k'
    assume move: "job_move k ty k'" and "k = j \<or> jb_state k = Cancelled"
    then have "k = j" using move_ended [OF move] by (auto simp: ended_states_def)
    with move assms(3) show "k' = j \<or> jb_state k' = Cancelled"
      by (auto dest: move_stranded simp: asked_while_waiting_def stranded_row_def)
  qed
qed

text \<open>C37: A job that waits for a retry although its cancellation was requested waits until somebody requests the
  cancellation again. In every later database its row is the same, or it is cancelled and the transaction that changed
  the row was a request to cancel this very job: no claim, no failure, no recovery and no request for another job
  touches it. Such a job arises when the failure of an attempt is recorded with a row that was read before the
  request.\<close>

theorem stranded_until_asked_again:
  assumes "job_history (dbs' @ db # dbs)" and "db' \<in> set (db # dbs')" and "job_row db i = Some j"
    and "jb_state j \<in> waiting_states" and "jb_cancel j \<noteq> None"
  shows "job_row db' i = Some j \<or>
    given (\<lambda>k. jb_state k = Cancelled) (job_row db' i) \<and>
    (\<exists>later d' d earlier s q old r. dbs' @ [db] = later @ d' # d # earlier \<and> db' \<in> set (later @ [d']) \<and>
       job_row d i = Some j \<and> job_row d' i \<noteq> Some j \<and> old \<in> set (d # earlier @ dbs) \<and>
       cj_job_id q = i \<and> request_cancellation s q old d = Inr (d', r))"
proof -
  have row: "stranded_row i j db"
    using assms(3-5) by (simp add: stranded_row_def)
  obtain xs ys where split: "dbs' @ [db] = xs @ db' # ys"
    using assms(2) by (metis in_set_conv_decomp rotate1.simps(2) set_rotate1)
  show ?thesis
  proof (cases "ys = []")
    case True
    with split assms(3) show ?thesis by simp
  next
    case False
    then obtain zs where ys: "ys = zs @ [db]" and dbs': "dbs' = xs @ db' # zs"
      using split by (metis append_Cons append_butlast_last_id butlast_append butlast_snoc last.simps last_appendR list.distinct(1) snoc_eq_iff_butlast)
    have "job_history ((db' # zs) @ db # dbs)"
      by (rule history_suffix [of xs]) (use assms(1) in \<open>simp_all add: dbs'\<close>)
    from history_asked_again [OF this row] have "stranded_row i j db' \<or> asked_again i j (db' # ys) dbs"
      by (simp add: ys)
    then show ?thesis
    proof
      assume "asked_again i j (db' # ys) dbs"
      then obtain later d' d earlier s q old r where ask: "db' # ys = later @ d' # d # earlier" "stranded_row i j d" "\<not> stranded_row i j d'"
        "old \<in> set (d # earlier @ dbs)" "cj_job_id q = i" "request_cancellation s q old d = Inr (d', r)"
        unfolding asked_again_def by blast
      have whole: "dbs' @ [db] = (xs @ later) @ d' # d # earlier" by (simp add: split ask(1))
      have "db' \<in> set (later @ [d'])" using ask(1) by (cases later) simp_all
      then have inside: "db' \<in> set ((xs @ later) @ [d'])" by auto
      have "job_row d i = Some j" "job_row d' i \<noteq> Some j"
        using ask(2,3) by (auto simp: stranded_row_def)
      moreover have "job_row db' i = Some j \<or> given (\<lambda>k. jb_state k = Cancelled) (job_row db' i)"
        using stranded_or_cancelled [OF assms(1,2) row] by (cases "job_row db' i") auto
      ultimately show ?thesis using whole inside ask(4-6) by blast
    qed (simp add: stranded_row_def)
  qed
qed

lemma stranded_until_asked_again_witness:
  "job_history [stranded, cancelling, running, submitted, before_all] \<and> jb_state stranded_job = Retry_Wait \<and> jb_cancel stranded_job \<noteq> None \<and>
   job_row stranded a_job_id = Some stranded_job"
  using stranded_until_asked_again [of "[]" stranded _ stranded a_job_id stranded_job] sample_history sample_rows(1)
  by (auto simp: stranded_job_def released_def cancelling_job_def waiting_states_def)

lemma set_cancel_refused:
  assumes "job_row db i = Some j" and "jb_cancel j = None" and "now < jb_updated j" and "job_errors j = []"
  shows "set_cancel i now db = Inr (db, Some j, False)"
  using assms by (simp add: set_cancel_def cas_job_def read_job_def checked_def)

text \<open>A request to cancel a running job, made with a clock behind the last update of the row, is not stored, and
  instead of a conflict the caller sees the construction of the result fail: the time of the first request is
  missing.\<close>

theorem backdated_cancellation_raises:
  assumes "validate_control_request (cancel_errors q) [cj_now q] (cancel_json q) (js_secrets s) = Inr ()"
    and "job_row db (cj_job_id q) = Some j" and "job_errors j = []" and "jb_state j = Running" and "jb_cancel j = None"
    and "cj_now q < jb_updated j" and "load_target (js_targets s) j db = Inr v"
  shows "request_cancellation s q db db = Inl [''first_requested_at_us: int_type'']"
proof -
  obtain t where t: "resolve_target (js_targets s) j = Inr t"
    using assms(7) by (auto simp: load_target_def)
  have "require_job db (cj_job_id q) = Inr j"
    using assms(2,3) by (simp add: require_job_Inr)
  moreover have "set_cancel (cj_job_id q) (cj_now q) db = Inr (db, Some j, False)"
    using assms(2,5,6,3) by (rule set_cancel_refused)
  ultimately show ?thesis
    using assms(1,4,5,7) t
    by (simp add: request_cancellation_def already_cancelled_def cancel_marked_def cancellation_result_def ended_states_def
        waiting_states_def)
qed

lemma backdated_cancellation_raises_witness:
  "request_cancellation a_service \<lparr>cj_job_id = a_job_id, cj_now = 15\<rparr> running running = Inl [''first_requested_at_us: int_type'']"
proof (rule backdated_cancellation_raises)
  show "validate_control_request (cancel_errors \<lparr>cj_job_id = a_job_id, cj_now = 15\<rparr>) [cj_now \<lparr>cj_job_id = a_job_id, cj_now = 15\<rparr>]
     (cancel_json \<lparr>cj_job_id = a_job_id, cj_now = 15\<rparr>) (js_secrets a_service) = Inr ()"
    by code_simp
  show "job_row running (cj_job_id \<lparr>cj_job_id = a_job_id, cj_now = 15\<rparr>) = Some running_job" by code_simp
  show "job_errors running_job = []" by code_simp
  show "load_target (js_targets a_service) running_job running =
     Inr (Some (waiting_run\<lparr>rn_lifecycle := Run_Running, rn_updated := 20\<rparr>), None)" by code_simp
qed (simp_all add: running_job_def claimed_row_def waiting_job_def pending_job_def)

end
