(* ===== verification/JobQueueProperties.thy ===== *)
theory JobQueueProperties
  imports JobSample
begin

section \<open>Claims, submissions and the retry delay\<close>

subsection \<open>Claims\<close>

lemma claim_row_empty:
  assumes "claim_row i owner now expires types db = Inr (d1, None)" and "jobs_ok db"
  shows "\<forall>j \<in> set (db_jobs db). \<not> (eligible types now db j \<and> absent_or (\<lambda>i. jb_job_id j = i) i)"
proof -
  let ?js = "filter (\<lambda>j. eligible types now db j \<and> absent_or (\<lambda>i. jb_job_id j = i) i) (db_jobs db)"
  have "?js = []"
  proof (rule ccontr)
    assume "?js \<noteq> []"
    then have "sort_key claim_order ?js \<noteq> []"
      using set_sort [of claim_order ?js] by fastforce
    then obtain j js where sorted: "sort_key claim_order ?js = j # js"
      by (cases "sort_key claim_order ?js") simp_all
    then have "j \<in> set ?js"
      using set_sort [of claim_order ?js] by (metis list.set_intros(1))
    then have row: "job_row db (jb_job_id j) = Some j"
      by (auto intro: job_row_unique [OF assms(2)])
    have "cas_job (\<lambda>_. True) (claimed_row owner now expires) (jb_job_id j) db = Inr (d1, None)"
      using assms(1) sorted by (simp add: claim_row_def)
    then show False
      using row by (auto simp: cas_job_def Let_def read_job_def job_row_put_job claimed_row_def checked_def split: if_splits)
  qed
  then show ?thesis by (simp add: filter_empty_conv)
qed

text \<open>C38: A claim takes the first of the jobs it may take: waiting, due, not cancelled, with an attempt and an open target left,
  ordered by the time they became available, their creation and their identifier. The row it returns is the one it
  stored, with one attempt and one fencing token more and the owner and deadline of the request, and no other row
  changes. It returns nothing only when there is no such job.\<close>

theorem claim_takes_first:
  assumes "job_history (db # dbs)" and "claim s q db = Inr (db', c)"
  shows "case c of
      None \<Rightarrow> db' = db \<and> cl_job_id q = None \<and> (\<forall>j \<in> set (db_jobs db). \<not> eligible (js_targets s) (cl_now q) db j)
    | Some (j', v) \<Rightarrow> (\<exists>j \<in> set (db_jobs db). eligible (js_targets s) (cl_now q) db j \<and> absent_or (\<lambda>i. jb_job_id j = i) (cl_job_id q) \<and>
        (\<forall>k \<in> set (db_jobs db). eligible (js_targets s) (cl_now q) db k \<and> absent_or (\<lambda>i. jb_job_id k = i) (cl_job_id q) \<longrightarrow>
           (jb_available j, jb_created j, jb_job_id j) \<le> (jb_available k, jb_created k, jb_job_id k)) \<and>
        jb_state j \<in> {Pending, Retry_Wait} \<and> jb_available j \<le> cl_now q \<and> jb_cancel j = None \<and> jb_attempt j < jb_max_attempts j \<and>
        j' = j\<lparr>jb_state := Running, jb_attempt := jb_attempt j + 1, jb_token := jb_token j + 1, jb_owner := Some (cl_owner q),
          jb_expires := Some (cl_now q + cl_duration q), jb_updated := cl_now q\<rparr> \<and>
        db_jobs db' = with_job j' (db_jobs db))"
proof -
  have ok: "jobs_ok db"
    using history_sound [OF assms(1)] by (simp add: queue_ok_def)
  let ?expires = "cl_now q + cl_duration q"
  obtain d1 r where row: "claim_row (cl_job_id q) (cl_owner q) (cl_now q) ?expires (js_targets s) db = Inr (d1, r)"
    using assms(2) by (auto simp: claim_def checked_time_add_def split: if_splits)
  show ?thesis
  proof (cases r)
    case None
    with assms(2) row have "c = None" "db' = db" "cl_job_id q = None"
      by (auto simp: claim_def checked_time_add_def split: if_splits option.splits)
    with claim_row_empty [OF row [unfolded None] ok] show ?thesis by simp
  next
    case (Some j')
    obtain d2 v1 v2 where adv: "advance_target (js_secrets s) (js_targets s) j' (cl_now q) d1 = Inr (d2, v1, v2)"
      and ev: "append_job_event (js_secrets s) j' Job_Claimed (Some (if jb_attempt j' = 1 then Pending else Retry_Wait)) (Some Running) (cl_now q)
          [(''attempt'', JInt (jb_attempt j')), (''fencing_token'', JInt (jb_token j'))] d2 = Inr db'"
      and c: "c = Some (j', v1, v2)"
      using assms(2) row Some by (auto simp: claim_def checked_time_add_def split: if_splits)
    obtain j where j: "j \<in> set (db_jobs db)" "eligible (js_targets s) (cl_now q) db j" "absent_or (\<lambda>i. jb_job_id j = i) (cl_job_id q)"
      and least: "\<forall>k \<in> set (db_jobs db). eligible (js_targets s) (cl_now q) db k \<and> absent_or (\<lambda>i. jb_job_id k = i) (cl_job_id q) \<longrightarrow>
        claim_order j \<le> claim_order k"
      and j': "j' = claimed_row (cl_owner q) (cl_now q) ?expires j" "written j'" "d1 = put_job j' db"
      using row [unfolded Some] ok by (rule claim_row_Some)
    have "db_jobs d2 = db_jobs d1"
      using advance_target_moved [OF adv j'(2)] by (simp add: same_jobs_def)
    moreover have "db_jobs db' = db_jobs d2"
      using ev by (rule append_job_event_Inr)
    ultimately have "db_jobs db' = with_job j' (db_jobs db)"
      using j'(3) by simp
    moreover have "jb_state j \<in> {Pending, Retry_Wait} \<and> jb_available j \<le> cl_now q \<and> jb_cancel j = None \<and> jb_attempt j < jb_max_attempts j"
      using j(2) by (simp add: eligible_def waiting_states_def)
    moreover note least [unfolded claim_order_def] j'(1) [unfolded claimed_row_def]
    ultimately show ?thesis using c j by (simp only: option.case prod.case) blast
  qed
qed

lemma claim_takes_first_witness: "\<exists>j \<in> set (db_jobs submitted). running_job = claimed_row ''w'' 20 120 j"
proof -
  have "job_history ([stranded, cancelling, running] @ [submitted, before_all])"
    using sample_history by simp
  then have "job_history [submitted, before_all]"
    by (rule history_suffix) simp
  from claim_takes_first [OF this a_claims] show ?thesis
    by (auto simp: a_claim_def claimed_row_def)
qed

subsection \<open>Submissions\<close>

lemma read_job_Some: "read_job db i = Inr (Some j) \<longleftrightarrow> job_row db i = Some j \<and> job_errors j = []"
  by (auto simp: read_job_def checked_def split: option.splits)

lemma by_idempotency_Some:
  assumes "by_idempotency db project operation key = Inr (Some k)" and "jobs_ok db"
  shows "k \<in> set (db_jobs db) \<and> job_key k = (project, operation, key)"
proof -
  obtain j where j: "find (\<lambda>j. jb_project_id j = project \<and> jb_operation j = operation \<and> jb_key j = key) (db_jobs db) = Some j"
      and row: "job_row db (jb_job_id j) = Some k"
    using assms(1) by (auto simp: by_idempotency_def read_job_Some split: option.splits)
  have "j \<in> set (db_jobs db)" "job_key j = (project, operation, key)"
    using j by (auto simp: find_Some_iff job_key_def)
  moreover from this(1) row job_row_unique [OF assms(2)] have "k = j" by fastforce
  ultimately show ?thesis by simp
qed

lemma existing_submission_Inr: "existing_submission db j q = Inr (b, k, r) \<Longrightarrow> \<not> b \<and> k = j \<and> jb_request_hash j = sj_request_hash q"
  by (auto simp: existing_submission_def split: if_splits option.splits)

lemma create_submission_new_key:
  assumes "create_submission s q run_id job_id on_created db = Inr r"
  shows "(sj_project_id q, sj_operation q, sj_key q) \<notin> job_key ` set (db_jobs db)"
proof -
  obtain d1 d2 where run: "add_run (js_secrets s) (queued_run q run_id) db = Inr d1"
      and job: "add_job (js_secrets s) (pending_job q job_id run_id) d1 = Inr d2"
    using assms by (auto simp: create_submission_def Let_def)
  have "db_jobs d1 = db_jobs db"
    using run by (auto simp: add_run_def split: if_splits)
  moreover have "job_key (pending_job q job_id run_id) \<notin> job_key ` set (db_jobs d1)"
    using add_job_Inr [OF job] by (auto dest: insertable_key)
  moreover have "job_key (pending_job q job_id run_id) = (sj_project_id q, sj_operation q, sj_key q)"
    by (simp add: job_key_def pending_job_def)
  ultimately show ?thesis by simp
qed

text \<open>C39: A submission whose idempotency key is taken creates nothing. Whatever it had read before, when it returns, the
  database is unchanged and the job returned is the one stored under that key, submitted with the same request
  hash.\<close>

theorem submission_idempotent:
  assumes "job_history (db # dbs)" and "old \<in> set (db # dbs)" and "j \<in> set (db_jobs db)"
    and "(jb_project_id j, jb_operation j, jb_key j) = (sj_project_id q, sj_operation q, sj_key q)"
    and "submit s q run_id job_id precondition on_created old db = Inr (db', created, k, r)"
  shows "db' = db \<and> \<not> created \<and> jb_job_id k = jb_job_id j \<and> jb_request_hash j = sj_request_hash q"
proof -
  have ok: "jobs_ok db" "jobs_ok old"
    using history_queue_ok [OF assms(1)] assms(2) by (auto simp: queue_ok_def)
  have taken: "(sj_project_id q, sj_operation q, sj_key q) \<in> job_key ` set (db_jobs db)"
    using assms(3,4) by (auto simp: job_key_def intro!: image_eqI [of _ _ j])
  then have no_create: "create_submission s q a b on_created db \<noteq> Inr x" for a b x
    using create_submission_new_key by blast
  obtain d where d: "d \<in> {old, db}" "by_idempotency d (sj_project_id q) (sj_operation q) (sj_key q) = Inr (Some k)"
      "\<not> created" "jb_request_hash k = sj_request_hash q" "db' = db"
    using submit_Inr [OF assms(5)] no_create by (auto dest!: existing_submission_Inr)
  have "jobs_ok d" using d(1) ok by auto
  with d(2) have k: "k \<in> set (db_jobs d)" "job_key k = (sj_project_id q, sj_operation q, sj_key q)"
    using by_idempotency_Some by blast+
  have "job_steps d db"
    using d(1) assms(2) history_sound [OF assms(1)] by auto
  then have "given (later k) (job_row db (jb_job_id k))"
    using steps_follow_on [of d db] job_row_unique [OF \<open>jobs_ok d\<close> k(1)] by (simp add: follows_on_def)
  then obtain l where l: "job_row db (jb_job_id k) = Some l" "later k l"
    by (cases "job_row db (jb_job_id k)") auto
  have "l \<in> set (db_jobs db)" "job_key l = job_key j"
    using job_row_Some [OF l(1)] l(2) k(2) assms(4) by (simp_all add: later_def same_job_def job_key_def)
  moreover have "inj_on job_key (set (db_jobs db))"
    using ok(1) by (simp add: jobs_ok_def distinct_map)
  ultimately have "l = j"
    using assms(3) by (auto dest: inj_onD)
  with l(2) d show ?thesis by (simp add: later_def same_job_def)
qed

lemma a_resubmits: "submit a_service a_submission a_job_id a_run_id (\<lambda>_. Inr ()) (\<lambda>r. Inr) submitted submitted =
    Inr (submitted, False, waiting_job, waiting_run)"
  by code_simp

lemma submission_idempotent_witness: "jb_request_hash waiting_job = sj_request_hash a_submission"
proof -
  have "job_history ([stranded, cancelling, running] @ [submitted, before_all])"
    using sample_history by simp
  then have history: "job_history [submitted, before_all]"
    by (rule history_suffix) simp
  have "waiting_job \<in> set (db_jobs submitted)"
    by (simp add: submitted_def)
  then show ?thesis
    using submission_idempotent [OF history _ _ _ a_resubmits, of waiting_job] by (simp add: waiting_job_def pending_job_def)
qed

subsection \<open>The retry delay\<close>

lemma below_bit_length: "n < 2 ^ bit_length n"
proof (induction n rule: bit_length.induct)
  case (1 n)
  show ?case
  proof (cases "n = 0")
    case False
    then have "n div 2 < 2 ^ bit_length (n div 2)" using 1 by blast
    then have "n < 2 * 2 ^ bit_length (n div 2)" by linarith
    then show ?thesis by (subst bit_length.simps) simp
  qed (simp add: bit_length.simps)
qed

lemma policy_bounds: "retry_policy_errors p = [] \<Longrightarrow> 1 \<le> rp_base p \<and> rp_base p \<le> rp_max p \<and> 0 \<le> rp_jitter p \<and> rp_jitter p \<le> rp_max p"
  by (auto simp: retry_policy_errors_def range_field_def guard_simps split: if_splits)

lemma base_delay_exact:
  assumes "retry_policy_errors p = []"
  shows "base_delay p attempt = min (rp_base p * 2 ^ nat (attempt - 1)) (rp_max p)"
proof -
  have p: "1 \<le> rp_base p" "1 \<le> rp_max p"
    using policy_bounds [OF assms] by simp_all
  let ?e = "nat (attempt - 1)"
  have e: "nat (max (attempt - 1) 0) = ?e" by (simp add: max_def)
  show ?thesis
  proof (cases "bit_length (nat (rp_max p)) \<le> ?e")
    case True
    have "nat (rp_max p) < 2 ^ bit_length (nat (rp_max p))" by (rule below_bit_length)
    also have "\<dots> \<le> (2 :: nat) ^ ?e" using True by simp
    finally have "int (nat (rp_max p)) < int (2 ^ ?e)" by (simp only: of_nat_less_iff)
    then have "rp_max p < 2 ^ ?e" using p(2) by simp
    also have "(2 :: int) ^ ?e \<le> rp_base p * 2 ^ ?e" using p(1) by simp
    finally have "rp_max p < rp_base p * 2 ^ ?e" .
    then show ?thesis using True by (simp add: base_delay_def Let_def e)
  qed (simp add: base_delay_def Let_def e)
qed

text \<open>C40: The delay before a retry is exponential with a ceiling: with an accepted policy it is the base delay doubled for each
  attempt made, cut at the maximum, although the code avoids the large power. A retry is scheduled after at least
  that delay and at most the jitter allowed later, never beyond the maximum delay and never beyond the largest
  integer of the database.\<close>

theorem retry_delay_exact:
  assumes "retry_policy_errors p = []"
  shows "base_delay p attempt = min (rp_base p * 2 ^ nat (attempt - 1)) (rp_max p) \<and> rp_base p \<le> base_delay p attempt \<and>
    base_delay p attempt \<le> base_delay p (attempt + 1) \<and>
    (compute_retry_available_at p jitter_source now attempt = Inr t \<longrightarrow>
       now + base_delay p attempt \<le> t \<and> t \<le> now + base_delay p attempt + rp_jitter p \<and> t \<le> now + rp_max p \<and> t \<le> 9223372036854775807)"
proof -
  note p = policy_bounds [OF assms] and exact = base_delay_exact [OF assms]
  have "rp_base p * 1 \<le> rp_base p * 2 ^ n" for n
    using p by (intro mult_left_mono) simp_all
  with p have least: "rp_base p \<le> base_delay p attempt" by (simp add: exact)
  have "rp_base p * 2 ^ nat (attempt - 1) \<le> rp_base p * 2 ^ nat (attempt + 1 - 1)"
    using p by (intro mult_left_mono power_increasing) simp_all
  then have mono: "base_delay p attempt \<le> base_delay p (attempt + 1)" by (simp add: exact)
  have ceiling: "base_delay p attempt \<le> rp_max p" by (simp add: exact)
  have "compute_retry_available_at p jitter_source now attempt = Inr t \<Longrightarrow>
      \<exists>k. 0 \<le> k \<and> k \<le> min (rp_jitter p) (rp_max p - base_delay p attempt) \<and> t = now + (base_delay p attempt + k) \<and> t \<le> max_sqlite_integer"
    using p ceiling by (auto simp: compute_retry_available_at_def Let_def checked_time_add_def split: if_split_asm option.split_asm)
  with exact least mono show ?thesis by (auto simp: max_sqlite_integer_def)
qed

lemma retry_delay_exact_witness: "base_delay default_policy 3 = 4000000"
  using retry_delay_exact [of default_policy 3] by (auto simp: default_policy_def retry_policy_errors_def range_field_def
      guard_simps max_retry_delay_def)

end
