(* ===== verification/Spec2Isabelle.thy ===== *)
theory Spec2Isabelle
  imports ContractProperties CoverageProperties ScenarioProperties ExecutionRequest CheckProperties EffectProperties FactProperties
    TraceProperties DifferentialProperties ContinuityProperties BreakpointProperties JsonProperties RecordingProperties
    JobProperties JobQueueProperties
begin

text \<open>
  A verification library for jiejian, a tool that checks whether an application grants exactly the
  permissions its owner declared. A permission contract says who may do what to which resource and
  which effects must then be present or absent. Jiejian compiles the contract into cases, runs them
  against the application, observes the effects through independent channels and decides a verdict.
  The library models the decision core of that pipeline, \<^verbatim>\<open>product/backend/domain/verification\<close> with
  the wire documents of \<^verbatim>\<open>product/protocols/checks\<close>, and the queue through which every check, recording
  and preparation runs, \<^verbatim>\<open>product/backend/infrastructure/runtime/jobs\<close> with the tables behind it (paths are
  relative to \<^verbatim>\<open>src/\<close>).

  \<^bold>\<open>The parts and how they interact.\<close>

  \<^item> Prelude: Python text with the order of \<^verbatim>\<open>sorted\<close>, keyed sorting and duplicates, association lists
    with the last-wins rule of a dictionary literal, and the result type \<open>checked\<close>: \<open>Inl\<close> the messages
    of the exception, \<open>Inr\<close> the value. Every validator of the code is a function into it; a
    \<open>key_error\<close> is an indexing that Python would not survive.
  \<^item> PermissionModels and PermissionContract: \<^verbatim>\<open>permissions/models.py\<close> and \<^verbatim>\<open>permissions/contract.py\<close>.
    \<open>validate_references\<close> is the contract's validator, block by block in the order of the source, with
    \<open>reject_cycles\<close> and \<open>declared_relations\<close> in RelationGraph. ContractFacts reads each
    block back as a direct statement, ContractErrors shows that no accepted lookup fails, and
    ContractStability that validating again changes nothing.
  \<^item> Canonical and Sha256: canonical JSON and \<^verbatim>\<open>hashlib.sha256\<close>. The locale \<open>digest\<close> states the shape
    of a digest and is interpreted on the SHA-256 defined here; no proof uses collision freedom.
    PermissionPlan compiles a contract into its cases with them.
  \<^item> CoverageModels, Coverage: \<^verbatim>\<open>permissions/coverage.py\<close>, the planner of additional cases, with its
    path search in RelationPath (locale \<open>path_finder\<close>). CoverageFacts, CoveragePlan,
    CoverageNeighbors, CoverageTotal and CoverageReturns carry the invariant of a candidate through
    the merge, the budget and the records.
  \<^item> Relationships, Conditions: \<^verbatim>\<open>checks/relationships.py\<close> and \<^verbatim>\<open>checks/conditions.py\<close>, the bounded
    search through observed relation edges and the conditions under which a permission applies.
  \<^item> WireModels, ExecutionModels, ExecutionCase, ExecutionRequest: \<^verbatim>\<open>checks/execution_request.py\<close>, the
    frozen document the worker process receives.
  \<^item> Scenarios, ScenarioCheck: \<^verbatim>\<open>checks/scenarios.py\<close>, the business scenarios that freeze into such a
    request, with the check that each challenge varies its normal experiment in the claimed way.
  \<^item> CheckDecision: \<^verbatim>\<open>domain/verification/checks.py\<close>, from observed facts through the verdict of a case
    to the verdict of a run. EffectFacts: \<^verbatim>\<open>domain/verification/facts.py\<close>, the security effect facts.
  \<^item> Scalars, BusinessFacts, FactReduction: \<^verbatim>\<open>checks/field_mutation.py\<close>, \<^verbatim>\<open>checks/business_facts.py\<close>
    and \<^verbatim>\<open>domain/verification/business_facts.py\<close>, sealed facts and their reduction to the observation
    that the decision consumes.
  \<^item> AsyncTask: \<^verbatim>\<open>domain/verification/async_progress.py\<close> and the loop of
    \<^verbatim>\<open>infrastructure/observers/adapters/async_task.py\<close> that follows a task, as a step relation.
  \<^item> Trace: \<^verbatim>\<open>domain/verification/trace.py\<close>, the causal event graph and the loop that orders its events
    (TraceFacts: the invariant of that loop). Differential: \<^verbatim>\<open>domain/verification/differential.py\<close>, the
    choice of an ALLOW control for every DENY case and the twins or gaps that come out.
  \<^item> Continuity: \<^verbatim>\<open>domain/verification/continuity.py\<close>, whether denied effects stayed absent, once from the
    facts of a check and once from a twin. BreakpointModels, BreakpointCausality, BreakpointLocator:
    \<^verbatim>\<open>domain/verification/breakpoints\<close>, the diagnosis that compares the traces of the two cases of a
    twin, collects findings and picks their causal origin; BreakpointFacts relates its graph to the
    ancestors and the depths of the trace.
  \<^item> JsonReader: \<^verbatim>\<open>product/protocols/codec.py\<close>, the encoder, the strict reader and the reader of
    canonical documents over Unicode texts, with strict UTF-8, surrogate pairs and the parts of Python's
    \<^verbatim>\<open>json\<close> they call; JsonFacts reads every encoded value back. \<open>encode_widened\<close> in JsonProperties shows
    that the canonical bytes the other parts hash are those of this encoder.
  \<^item> Recordings: \<^verbatim>\<open>domain/recording/models.py\<close>, the table of transitions and the function that makes one:
    the lifecycle of a recording with its event list.
  \<^item> JobModels: the records of \<^verbatim>\<open>storage/execution/jobs.py\<close> and \<^verbatim>\<open>runs.py\<close> with their validators and the
    constraints of their tables. JobRequests: \<^verbatim>\<open>runtime/jobs/models.py\<close>, the requests and the retry delay.
    JobStore: the queries of these repositories and of \<^verbatim>\<open>storage/execution/job_control.py\<close>; a conditional
    \<^verbatim>\<open>UPDATE ... RETURNING\<close> is \<open>cas_job\<close> or \<open>cas_run\<close>, a condition and a change. JobTargets: the handlers of
    \<^verbatim>\<open>runtime/jobs/targets.py\<close> and \<^verbatim>\<open>recording.py\<close>, which move the run or the recording behind a job.
    JobControl: the transactions of \<^verbatim>\<open>queue.py\<close>, \<^verbatim>\<open>attempts.py\<close> and \<^verbatim>\<open>recovery.py\<close>. A transaction takes
    two databases, \<open>old\<close> for what it reads before its first write and \<open>db\<close> for the rest, because SQLite's driver
    opens the transaction at the first write only; a transaction that returns \<open>Inl\<close> is rolled back.
  \<^item> JobFacts and JobSteps show that each transaction changes one job by one of the steps of \<open>job_move\<close>
    (\<open>job_step\<close>) and keeps \<open>jobs_ok\<close>. JobHistory has the step relation \<open>acts\<close> of the whole service and its
    histories, in which every transaction reads from some earlier database; JobLog follows the log of one
    job through them, JobStranded a job that waits with its cancellation requested, JobSample evaluates the transactions on a concrete service.
  \<^item> Sample, ScenarioSample, CheckSample: concrete documents on which the properties are applied.

  \<^bold>\<open>What the properties show.\<close> ContractProperties: an accepted contract has no cycle, no dangling
  reference and no conflicting rules, every rule agrees with the scopes of its context, its form is stable, and its plan has one case per rule.
  CoverageProperties: the path search finds a declared chain exactly when there is one; a plan exists
  for every accepted contract, lists every raw candidate exactly once, retained or eliminated, and explains
  every target. Conditions: conditions called disjoint never both match, with one exception, which is named.
  ScenarioProperties: an absence is only expected beside a normal experiment that shows the effect
  can happen. CheckProperties: a safe denial rests on complete evidence, a confirmed violation is
  never lost, a run passes only when every case does. EffectProperties and FactProperties: an absent
  or a confirmed effect rests on closed, sound and complete observations. TraceProperties: a trace is
  stored in causal order exactly when it is acyclic, whatever the order of arrival.
  DifferentialProperties: every DENY case gets a twin or a gap, by a decision table that is stated
  in full, with one situation in which a twin hides a changed dimension. ContinuityProperties: the continuity of a case refines its verdict.
  BreakpointProperties: an exact breakpoint is the causal origin of all findings. JsonProperties: what is
  encoded is read back, the bytes identify the value, and the values that cannot be encoded are named. RecordingProperties: the event list of a
  recording is the path of its state, which always can be brought to an end. JobProperties: on every
  history the stored rows stay consistent, a worker whose lease was taken over changes nothing, each
  row moves along a small state machine, the log of a job is its exact path, its attempts and
  changes are bounded and its run follows it; and a request to cancel that overtakes a failure
  strands the job until somebody repeats it for this very job. JobQueueProperties: a claim takes the first eligible job, a
  repeated submission returns the stored job, the retry delay is the truncated exponential one.

  \<^bold>\<open>Bounds and termination.\<close> All functions are total. The cycle search, the path searches and the
  relation closures recurse on fuel that starts at the number of nodes or edges left, or on the depth
  bound of the source; the exactness theorems show that this fuel is enough. The loop that orders a
  trace has one round per event, the ancestors and depths of the breakpoint graph as much fuel as there
  are events, the JSON reader twice the length of its text plus two (\<open>need_bound\<close>). The limits of the source
  (lengths, counts, depths, the window of a timestamp) are kept as guards. \<^verbatim>\<open>EliminatedCandidate\<close>
  admits at most 32 rules of one fingerprint, which is a hypothesis of the theorem that a plan exists.
  The recursion limit of the interpreter is not modelled. It could be met by the cycle search on a chain
  of about a thousand declared parents (4096 subjects are admitted), by the closure of descendants in the
  breakpoint graph on a chain of as many events, where a \<^verbatim>\<open>RecursionError\<close> escapes, and by a deeply nested
  document, which \<^verbatim>\<open>decode_json\<close> then refuses as invalid.

  \<^bold>\<open>Representation.\<close> A frozen data class is a record, a \<^verbatim>\<open>StrEnum\<close> a datatype, a tuple a list, a
  dictionary an association list or a map; datetimes are microseconds since the epoch. A field pattern
  is a predicate on characters. Pydantic checks fields in order and collects their messages, and the
  model returns the same messages without the location prefixes. A finite float is its rational value,
  its JSON text a parameter of the sealing functions; the JSON reader has the map from a float token to
  that text as a parameter. A text is a list of characters below 256, except in the JSON codec, where it is
  a list of code points and all of Unicode is read and written.

  \<^bold>\<open>Not modelled.\<close> The readers \<^verbatim>\<open>parse_permission_contract\<close> and \<^verbatim>\<open>parse_execution_request\<close> start from
  decoded JSON here. The services in \<^verbatim>\<open>backend/application\<close> orchestrate storage, network and the
  runtime; infrastructure, interfaces, migrations, the frontend and the samples are I/O around the
  modelled core, and what they deliver reaches the model as arguments. Of the queue, the listings for
  the user interface and the worker processes are left out. The services that complete a job after
  storing its result are the two last steps \<open>publish\<close> and \<open>complete_attempt\<close>; frozen inputs are
  rows with a fingerprint, their documents, drafts and reports are not in the database of the model.
  The queue commits before it builds the result it returns, and the model rolls back when building that
  result fails; a committed row satisfies its validator, so this failure does not occur.
  Identifiers, clocks and the random part of a retry delay are arguments.
\<close>

end
